(* ===== verification/Prelude.thy ===== *)
theory Prelude
  imports Main "HOL-Library.Word"
begin

text \<open>
  Shared vocabulary of the development.

  \<^item> Rust integers: the widths \<open>u8\<close> \dots \<open>u64\<close> as words, \<open>saturating_add\<close>
    and \<open>saturating_sub\<close> with their value in \<open>nat\<close>.
  \<^item> Rust strings: a \<open>String\<close> is the list of its UTF-8 bytes, so \<open>length\<close> is
    Rust's \<open>len()\<close>. Trimming, control characters and ASCII case are defined
    on the byte encoding, decimal printing and parsing with their round trip.
  \<^item> Rust collections: \<open>iter().find\<close> is the library's \<open>find\<close>,
    \<open>iter_mut().find\<close> followed by a mutation is \<open>update_first\<close>, and a loop
    over \<open>iter_mut()\<close> with a condition is \<open>update_where\<close>.
  \<^item> Interfaces used by every component: keyed edits of a list of records, and
    invariants of a transition system.
\<close>

named_theorems reduce_defs "unfolding equations of the command reducers"
named_theorems frame_simps "what an operation leaves unchanged"

section \<open>Integers\<close>

type_synonym u8 = "8 word"
type_synonym u16 = "16 word"
type_synonym u32 = "32 word"
type_synonym u64 = "64 word"

definition saturating_add :: "'a::len word \<Rightarrow> 'a word \<Rightarrow> 'a word" where
  "saturating_add a b =
     (if unat a + unat b < 2 ^ LENGTH('a) then a + b else - 1)"

definition saturating_sub :: "'a::len word \<Rightarrow> 'a word \<Rightarrow> 'a word" where
  "saturating_sub a b = (if a < b then 0 else a - b)"

lemma unat_saturating_add:
  "unat (saturating_add a (b :: 'a::len word)) = min (unat a + unat b) (2 ^ LENGTH('a) - 1)"
proof (cases "unat a + unat b < 2 ^ LENGTH('a)")
  case True
  then show ?thesis
    by (simp add: saturating_add_def unat_word_ariths)
next
  case False
  then show ?thesis
    by (simp add: saturating_add_def unsigned_minus_1_eq_mask mask_eq_exp_minus_1)
qed

lemma saturating_add_ge: "a \<le> saturating_add a (b :: 'a::len word)"
proof -
  have "unat a < 2 ^ LENGTH('a)" by simp
  then have "unat a \<le> 2 ^ LENGTH('a) - 1" by linarith
  then show ?thesis by (simp add: word_le_nat_alt unat_saturating_add)
qed

lemma saturating_add_commute: "saturating_add a b = saturating_add b a"
  by (simp add: saturating_add_def add.commute)

lemma saturating_add_assoc:
  "saturating_add (saturating_add a b) c = saturating_add a (saturating_add b c)"
  by (simp add: word_unat_eq_iff unat_saturating_add)

lemma saturating_add_left_commute:
  "saturating_add a (saturating_add b c) = saturating_add b (saturating_add a c)"
  by (metis saturating_add_assoc saturating_add_commute)

lemma saturating_add_0 [simp]: "saturating_add a 0 = a"
  using unsigned_less [where 'a = nat, of a] by (simp add: saturating_add_def)

lemmas saturating_add_ac =
  saturating_add_assoc saturating_add_commute saturating_add_left_commute

section \<open>Strings\<close>

text \<open>
  \<open>ws_len\<close> is the number of bytes of the Unicode white-space character a string starts
  with (0 when it does not start with one); \<open>ws_len_rev\<close> is the same for the last
  character, on the reversed string.
\<close>

fun ws_len :: "nat list \<Rightarrow> nat" where
  "ws_len [] = 0"
| "ws_len (a # as) =
     (if (9 \<le> a \<and> a \<le> 13) \<or> a = 32 then 1
      else case as of
        [] \<Rightarrow> 0
      | b # bs \<Rightarrow>
          if a = 194 \<and> (b = 133 \<or> b = 160) then 2
          else case bs of
            [] \<Rightarrow> 0
          | c # _ \<Rightarrow>
              if (a = 225 \<and> b = 154 \<and> c = 128)
                \<or> (a = 226 \<and> b = 128 \<and> ((128 \<le> c \<and> c \<le> 138) \<or> c = 168 \<or> c = 169 \<or> c = 175))
                \<or> (a = 226 \<and> b = 129 \<and> c = 159)
                \<or> (a = 227 \<and> b = 128 \<and> c = 128) then 3
              else 0)"

definition ws_len_rev :: "nat list \<Rightarrow> nat" where
  "ws_len_rev bs =
     (if 1 \<le> length bs \<and> ws_len (take 1 bs) = 1 then 1
      else if 2 \<le> length bs \<and> ws_len (rev (take 2 bs)) = 2 then 2
      else if 3 \<le> length bs \<and> ws_len (rev (take 3 bs)) = 3 then 3
      else 0)"

function drop_ws :: "(nat list \<Rightarrow> nat) \<Rightarrow> string \<Rightarrow> string" where
  "drop_ws w [] = []"
| "drop_ws w (c # cs) =
     (let n = w (map of_char (c # cs)) in
      if n = 0 then c # cs else drop_ws w (drop (n - 1) cs))"
  by pat_completeness auto
termination
  by (relation "measure (\<lambda>(w, s). length s)") auto

definition trim_start :: "string \<Rightarrow> string" where
  "trim_start s = drop_ws ws_len s"

definition trim_end :: "string \<Rightarrow> string" where
  "trim_end s = rev (drop_ws ws_len_rev (rev s))"

definition trim :: "string \<Rightarrow> string" where
  "trim s = trim_end (trim_start s)"

definition blank :: "string \<Rightarrow> bool" where
  \<comment> \<open>\<open>s.trim().is_empty()\<close>\<close>
  "blank s \<longleftrightarrow> trim s = []"

text \<open>\<open>s.chars().any(char::is_control)\<close>: the Unicode class Cc is U+0000-001F and
  U+007F-009F; the second half of the latter is encoded as C2 80 - C2 9F.\<close>

fun has_control :: "string \<Rightarrow> bool" where
  "has_control [] = False"
| "has_control (c # cs) =
     ((let a = (of_char c :: nat) in
       a < 32 \<or> a = 127 \<or>
       (a = 194 \<and> (case cs of [] \<Rightarrow> False
                    | d # _ \<Rightarrow> 128 \<le> (of_char d :: nat) \<and> (of_char d :: nat) \<le> 159)))
      \<or> has_control cs)"

definition contains_nul :: "string \<Rightarrow> bool" where
  "contains_nul s \<longleftrightarrow> (\<exists>c \<in> set s. of_char c = (0 :: nat))"

definition to_ascii_lower :: "char \<Rightarrow> char" where
  "to_ascii_lower c =
     (let a = (of_char c :: nat) in if 65 \<le> a \<and> a \<le> 90 then char_of (a + 32) else c)"

definition to_ascii_lowercase :: "string \<Rightarrow> string" where
  "to_ascii_lowercase s = map to_ascii_lower s"

definition eq_ignore_ascii_case :: "string \<Rightarrow> string \<Rightarrow> bool" where
  "eq_ignore_ascii_case a b \<longleftrightarrow> to_ascii_lowercase a = to_ascii_lowercase b"

fun starts_with :: "string \<Rightarrow> string \<Rightarrow> bool" where
  "starts_with s [] = True"
| "starts_with [] (p # ps) = False"
| "starts_with (c # cs) (p # ps) = (c = p \<and> starts_with cs ps)"

definition ends_with :: "string \<Rightarrow> string \<Rightarrow> bool" where
  "ends_with s p \<longleftrightarrow> starts_with (rev s) (rev p)"

fun contains_str :: "string \<Rightarrow> string \<Rightarrow> bool" where
  "contains_str [] p = (p = [])"
| "contains_str (c # cs) p = (starts_with (c # cs) p \<or> contains_str cs p)"

lemma starts_with_append: "starts_with (p @ s) p"
  by (induction p) auto

lemma contains_str_append: "contains_str (a @ p @ b) p"
proof (induction a)
  case Nil
  then show ?case
    using starts_with_append [of p b] by (cases p; cases b) auto
qed simp

lemma eq_ignore_ascii_case_refl [simp]: "eq_ignore_ascii_case a a"
  by (simp add: eq_ignore_ascii_case_def)

subsection \<open>Decimal numbers\<close>

fun show_nat :: "nat \<Rightarrow> string" where
  "show_nat n =
     (if n < 10 then [char_of (48 + n)] else show_nat (n div 10) @ [char_of (48 + n mod 10)])"

declare show_nat.simps [simp del]

definition digit_value :: "char \<Rightarrow> nat option" where
  "digit_value c =
     (let a = of_char c in if 48 \<le> a \<and> a \<le> (57 :: nat) then Some (a - 48) else None)"

fun parse_digits :: "nat \<Rightarrow> string \<Rightarrow> nat option" where
  "parse_digits acc [] = Some acc"
| "parse_digits acc (c # cs) =
     (case digit_value c of None \<Rightarrow> None | Some d \<Rightarrow> parse_digits (10 * acc + d) cs)"

text \<open>\<open>s.parse::<uN>()\<close>: an optional plus sign, at least one digit, no overflow.\<close>

definition parse_uint :: "nat \<Rightarrow> string \<Rightarrow> nat option" where
  "parse_uint width s =
     (let ds = (case s of c # cs \<Rightarrow> if c = CHR ''+'' then cs else s | [] \<Rightarrow> s) in
      if ds = [] then None
      else case parse_digits 0 ds of
        None \<Rightarrow> None
      | Some n \<Rightarrow> if n < 2 ^ width then Some n else None)"

definition parse_or_zero :: "nat \<Rightarrow> string \<Rightarrow> nat" where
  \<comment> \<open>\<open>s.parse::<uN>().unwrap_or_default()\<close>\<close>
  "parse_or_zero width s = (case parse_uint width s of None \<Rightarrow> 0 | Some n \<Rightarrow> n)"

lemma digit_value_digit: "d < 10 \<Longrightarrow> digit_value (char_of (48 + d)) = Some d"
  by (simp add: digit_value_def Let_def of_char_of)

lemma parse_digits_append:
  "parse_digits acc (s @ t) =
     (case parse_digits acc s of None \<Rightarrow> None | Some a \<Rightarrow> parse_digits a t)"
  by (induction s arbitrary: acc) (auto split: option.splits)

lemma parse_digits_show_nat: "parse_digits 0 (show_nat n) = Some n"
proof (induction n rule: show_nat.induct)
  case (1 n)
  show ?case
  proof (cases "n < 10")
    case True
    then show ?thesis by (subst show_nat.simps) (simp add: digit_value_digit)
  next
    case False
    with "1.IH" show ?thesis
      by (subst show_nat.simps) (simp add: parse_digits_append digit_value_digit)
  qed
qed

lemma show_nat_hd_digit: "\<exists>d cs. show_nat n = char_of (48 + d :: nat) # cs \<and> d < 10"
proof (induction n rule: show_nat.induct)
  case (1 n)
  show ?case
  proof (cases "n < 10")
    case True
    then show ?thesis by (intro exI [of _ n] exI [of _ "[]"]) (subst show_nat.simps, simp)
  next
    case False
    with "1.IH" obtain d :: nat and cs where "show_nat (n div 10) = char_of (48 + d) # cs" "d < 10"
      by auto
    with False show ?thesis
      by (intro exI [of _ d] exI [of _ "cs @ [char_of (48 + n mod 10)]"])
        (subst show_nat.simps, simp)
  qed
qed

lemma parse_uint_show_nat:
  assumes "n < 2 ^ width"
  shows "parse_uint width (show_nat n) = Some n"
proof -
  obtain d :: nat and cs where s: "show_nat n = char_of (48 + d) # cs" and d: "d < 10"
    using show_nat_hd_digit by blast
  have "char_of (48 + d) \<noteq> CHR ''+''"
  proof
    assume "char_of (48 + d) = CHR ''+''"
    then have "(of_char (char_of (48 + d) :: char) :: nat) = of_char CHR ''+''"
      by (rule arg_cong)
    with d show False by (simp add: of_char_of)
  qed
  with s parse_digits_show_nat [of n] assms show ?thesis
    by (simp add: parse_uint_def)
qed

section \<open>Collections\<close>

text \<open>\<open>iter().position(p)\<close>\<close>

fun find_index :: "('a \<Rightarrow> bool) \<Rightarrow> 'a list \<Rightarrow> nat option" where
  "find_index p [] = None"
| "find_index p (x # xs) = (if p x then Some 0 else map_option Suc (find_index p xs))"

text \<open>\<open>if let Some(x) = iter_mut().find(p) { *x = f(x) }\<close>\<close>

fun update_first :: "('a \<Rightarrow> bool) \<Rightarrow> ('a \<Rightarrow> 'a) \<Rightarrow> 'a list \<Rightarrow> 'a list" where
  "update_first p f [] = []"
| "update_first p f (x # xs) = (if p x then f x # xs else x # update_first p f xs)"

text \<open>\<open>for x in iter_mut() { if p(x) { *x = f(x) } }\<close>\<close>

definition update_where :: "('a \<Rightarrow> bool) \<Rightarrow> ('a \<Rightarrow> 'a) \<Rightarrow> 'a list \<Rightarrow> 'a list" where
  "update_where p f xs = map (\<lambda>x. if p x then f x else x) xs"

text \<open>\<open>iter().find_map(f)\<close>\<close>

fun find_map :: "('a \<Rightarrow> 'b option) \<Rightarrow> 'a list \<Rightarrow> 'b option" where
  "find_map f [] = None"
| "find_map f (x # xs) = (case f x of Some y \<Rightarrow> Some y | None \<Rightarrow> find_map f xs)"

text \<open>\<open>iter().any(p)\<close> over a list, as an executable predicate\<close>

abbreviation any :: "('a \<Rightarrow> bool) \<Rightarrow> 'a list \<Rightarrow> bool" where
  "any p xs \<equiv> list_ex p xs"

lemma find_SomeD: "find p xs = Some x \<Longrightarrow> x \<in> set xs \<and> p x"
  by (induction xs) (auto split: if_splits)

lemma find_None_iff_any: "find p xs = None \<longleftrightarrow> \<not> any p xs"
  by (auto simp: find_None_iff list_ex_iff)

lemma find_exists: "x \<in> set xs \<Longrightarrow> p x \<Longrightarrow> \<exists>y. find p xs = Some y"
  by (induction xs) auto

lemma find_distinct_key:
  "distinct (map key xs) \<Longrightarrow> x \<in> set xs \<Longrightarrow> find (\<lambda>y. key y = key x) xs = Some x"
  by (induction xs) (auto simp: image_iff)

lemma find_index_SomeD:
  "find_index p xs = Some i \<Longrightarrow> i < length xs \<and> p (xs ! i) \<and> find p xs = Some (xs ! i)"
  by (induction xs arbitrary: i) (auto split: if_splits)

lemma find_index_None: "find_index p xs = None \<longleftrightarrow> find p xs = None"
  by (induction xs) auto

lemma update_first_index:
  "find_index p xs = Some i \<Longrightarrow> xs[i := f (xs ! i)] = update_first p f xs"
  by (induction xs arbitrary: i) (auto split: if_splits)

lemma length_update_first [simp]: "length (update_first p f xs) = length xs"
  by (induction xs) auto

lemma length_update_where [simp]: "length (update_where p f xs) = length xs"
  by (simp add: update_where_def)

lemma map_update_first [simp]:
  "(\<And>x. p x \<Longrightarrow> g (f x) = g x) \<Longrightarrow> map g (update_first p f xs) = map g xs"
  by (induction xs) auto

lemma map_update_where [simp]:
  "(\<And>x. p x \<Longrightarrow> g (f x) = g x) \<Longrightarrow> map g (update_where p f xs) = map g xs"
  by (simp add: update_where_def)

lemma find_map_SomeD: "find_map f xs = Some y \<Longrightarrow> \<exists>x \<in> set xs. f x = Some y"
  by (induction xs) (auto split: option.splits)

lemma find_map_None: "find_map f xs = None \<longleftrightarrow> (\<forall>x \<in> set xs. f x = None)"
  by (induction xs) (auto split: option.splits)

lemma find_map_exists:
  "x \<in> set xs \<Longrightarrow> f x = Some y \<Longrightarrow> \<exists>z. find_map f xs = Some z"
  by (induction xs) (auto split: option.splits)

lemma find_refine:
  "find p xs = Some x \<Longrightarrow> q x \<Longrightarrow> find (\<lambda>x. p x \<and> q x) xs = Some x"
  by (induction xs) (auto split: if_splits)

lemma update_first_id: "find p xs = None \<Longrightarrow> update_first p f xs = xs"
  by (induction xs) (auto split: if_splits)

lemma set_update_first:
  "y \<in> set (update_first p f xs) \<Longrightarrow> y \<in> set xs \<or> (\<exists>x. find p xs = Some x \<and> y = f x)"
  by (induction xs) (auto split: if_splits)

lemma update_first_mem:
  "find p xs = Some x \<Longrightarrow> f x \<in> set (update_first p f xs)"
  by (induction xs) (auto split: if_splits)

lemma set_update_where:
  "y \<in> set (update_where p f xs) \<Longrightarrow> y \<in> set xs \<or> (\<exists>x \<in> set xs. p x \<and> y = f x)"
  by (auto simp: update_where_def)

lemma ball_update_where:
  "(\<forall>y \<in> set (update_where p f xs). Q y) \<longleftrightarrow> (\<forall>x \<in> set xs. if p x then Q (f x) else Q x)"
  by (auto simp: update_where_def)

lemma list_all2_update_first:
  assumes "\<And>x. R x x" and "\<And>x. x \<in> set xs \<Longrightarrow> p x \<Longrightarrow> R x (f x)"
  shows "list_all2 R xs (update_first p f xs)"
  using assms(2) by (induction xs) (auto simp: assms(1) list_all2_same)

lemma list_all2_update_where:
  assumes "\<And>x. R x x" and "\<And>x. x \<in> set xs \<Longrightarrow> p x \<Longrightarrow> R x (f x)"
  shows "list_all2 R xs (update_where p f xs)"
  using assms(2) by (induction xs) (auto simp: assms(1) update_where_def)

lemma list_all2_map_eq: "list_all2 (\<lambda>x y. g x = g y) xs ys \<longleftrightarrow> map g xs = map g ys"
  by (auto simp: list_eq_iff_nth_eq list_all2_conv_all_nth)

lemma map_factor:
  assumes "\<And>x. g x = h (k x)" "map k xs = map k ys"
  shows "map g xs = map g ys"
proof -
  have *: "map g zs = map h (map k zs)" for zs by (simp add: assms(1))
  show ?thesis by (simp only: * assms(2))
qed

section \<open>Interfaces\<close>

text \<open>
  The snapshot keeps its records in vectors and addresses them by id: a handler finds
  the first record with an id and edits it in place. \<open>keyed_edit\<close> is the contract such
  an edit keeps (the id is not changed), and the lemmas are what a client of the vector
  may rely on. Each component interprets it for its edits.
\<close>

locale keyed_edit =
  fixes key :: "'v \<Rightarrow> 'k" and edit :: "'v \<Rightarrow> 'v"
  assumes key_edit: "key (edit v) = key v"
begin

lemma keys_update_first: "map key (update_first p edit xs) = map key xs"
  by (induction xs) (auto simp: key_edit)

lemma keys_update_where: "map key (update_where p edit xs) = map key xs"
  by (auto simp: update_where_def key_edit)

lemma find_edited:
  "find (\<lambda>x. key x = k) (update_first (\<lambda>x. key x = k) edit xs) =
     map_option edit (find (\<lambda>x. key x = k) xs)"
  by (induction xs) (auto simp: key_edit)

lemma find_other:
  "k' \<noteq> k \<Longrightarrow>
   find (\<lambda>x. key x = k') (update_first (\<lambda>x. key x = k) edit xs) = find (\<lambda>x. key x = k') xs"
  by (induction xs) (auto simp: key_edit)

lemma find_update:
  "find (\<lambda>x. key x = k') (update_first (\<lambda>x. key x = k) edit xs) =
     (if k' = k then map_option edit (find (\<lambda>x. key x = k) xs) else find (\<lambda>x. key x = k') xs)"
  by (simp add: find_edited find_other)

lemma find_where:
  "find (\<lambda>x. key x = k) (update_where p edit xs) =
     map_option (\<lambda>x. if p x then edit x else x) (find (\<lambda>x. key x = k) xs)"
  by (induction xs) (auto simp: key_edit update_where_def)

end

text \<open>
  Reachable states of a transition system and the principle that an invariant of the
  steps holds in every one of them.
\<close>

inductive reachable :: "('s \<Rightarrow> bool) \<Rightarrow> ('s \<Rightarrow> 's \<Rightarrow> bool) \<Rightarrow> 's \<Rightarrow> bool"
  for init :: "'s \<Rightarrow> bool" and step :: "'s \<Rightarrow> 's \<Rightarrow> bool" where
  reach_init: "init s \<Longrightarrow> reachable init step s"
| reach_step: "reachable init step s \<Longrightarrow> step s t \<Longrightarrow> reachable init step t"

locale invariant_system =
  fixes init :: "'s \<Rightarrow> bool" and step :: "'s \<Rightarrow> 's \<Rightarrow> bool" and inv :: "'s \<Rightarrow> bool"
  assumes init_inv: "init s \<Longrightarrow> inv s"
    and step_inv: "inv s \<Longrightarrow> step s t \<Longrightarrow> inv t"
begin

lemma reachable_inv: "reachable init step s \<Longrightarrow> inv s"
  by (induction rule: reachable.induct) (auto intro: init_inv step_inv)

lemma run_inv: "step\<^sup>*\<^sup>* s t \<Longrightarrow> inv s \<Longrightarrow> inv t"
  by (induction rule: rtranclp_induct) (auto intro: step_inv)

end

text \<open>
  A status enumeration with its transition table: final states have no successor, and
  every other state can still be closed.
\<close>

locale lifecycle =
  fixes can :: "'s \<Rightarrow> 's \<Rightarrow> bool" and final :: "'s \<Rightarrow> bool" and cancelled :: 's
  assumes final_stuck: "final s \<Longrightarrow> \<not> can s t"
    and cancel_open: "\<not> final s \<Longrightarrow> can s cancelled"
    and cancelled_final: "final cancelled"
begin

lemma final_forever: "can\<^sup>*\<^sup>* s t \<Longrightarrow> final s \<Longrightarrow> t = s"
  by (induction rule: converse_rtranclp_induct) (auto dest: final_stuck)

lemma final_iff_stuck: "final s \<longleftrightarrow> (\<forall>t. \<not> can s t)"
  using final_stuck cancel_open by blast

lemma closable: "\<exists>t. can\<^sup>*\<^sup>* s t \<and> final t"
  using cancel_open cancelled_final by (metis r_into_rtranclp rtranclp.rtrancl_refl)

end

end
