(* ===== verification/Protocol.thy ===== *)
theory Protocol
  imports Prelude
begin

text \<open>
  The wire contract of \<open>frank-protocol\<close>: typed identifiers, status enumerations, and the
  records a snapshot is made of (\<open>ids.rs\<close>, \<open>team.rs\<close>, \<open>mission_task.rs\<close>,
  \<open>usage.rs\<close>, \<open>workflow.rs\<close>, \<open>mission_proposals.rs\<close>, \<open>toolchain.rs\<close>,
  \<open>operations_artifacts_terminal.rs\<close>, \<open>settings_capabilities.rs\<close>).

  Conventions. A constructor is written with its enumeration, \<open>task_status.Done\<close> for
  \<open>TaskStatus::Done\<close>. A record field carries a short prefix of its struct
  (\<open>t_status\<close> for \<open>TaskView::status\<close>), because Isabelle's field names share one
  name space. A UUID is an opaque number: the code only compares it, prints it and
  parses it. A \<open>Timestamp\<close> is a string, as on the wire. An \<open>f64\<close> coordinate is its
  64-bit pattern, which is what the source compares.
\<close>

section \<open>Identifiers\<close>

type_synonym uuid = nat
type_synonym timestamp = string
type_synonym f64_bits = u64

datatype server_id = ServerId uuid
datatype project_id = ProjectId uuid
datatype agent_id = AgentId (agent_uuid: uuid)
datatype role_id = RoleId uuid
datatype mission_id = MissionId (mission_uuid: uuid)
datatype task_id = TaskId (task_uuid: uuid)
datatype attempt_id = AttemptId uuid
datatype message_id = MessageId uuid
datatype task_feed_id = TaskFeedId (feed_uuid: uuid)
datatype approval_id = ApprovalId (approval_uuid: uuid)
datatype artifact_id = ArtifactId uuid
datatype terminal_session_id = TerminalSessionId uuid
datatype command_id = CommandId (command_uuid: uuid)
datatype correlation_id = CorrelationId uuid
datatype operation_id = OperationId (operation_uuid: uuid)
datatype upload_id = UploadId uuid
datatype update_id = UpdateId uuid
datatype organization_id = OrganizationId uuid
datatype connector_profile_id = ConnectorProfileId uuid
datatype review_work_item_id = ReviewWorkItemId uuid
datatype taskboard_id = TaskboardId (taskboard_uuid: uuid)
datatype work_offer_id = WorkOfferId uuid
datatype human_input_id = HumanInputId uuid
datatype workflow_id = WorkflowId uuid
datatype relocation_id = RelocationId uuid
datatype runner_id = RunnerId uuid

definition nil_uuid :: uuid where
  "nil_uuid = 0"

section \<open>Actors, devices, budgets\<close>

datatype check_run_status = Queued | Running | Passed | Failed | Cancelled | TimedOut
datatype toolchain_requirement_status = Missing | NeedsApproval | Installing | Ready | ManualRequirement
  | Failed | Incompatible

datatype device_role = Owner | Operator | Observer

definition can_mutate :: "device_role \<Rightarrow> bool" where
  "can_mutate r \<longleftrightarrow> r \<noteq> device_role.Observer"

definition can_admin :: "device_role \<Rightarrow> bool" where
  "can_admin r \<longleftrightarrow> r = device_role.Owner"

datatype actor_kind = Device | Agent | Supervisor | System

record actor_ref =
  ac_kind :: actor_kind
  ac_id :: "string option"
  ac_display_name :: "string option"

definition actor_system :: actor_ref where
  "actor_system = \<lparr>ac_kind = actor_kind.System, ac_id = None, ac_display_name = Some ''frankd''\<rparr>"

definition actor_supervisor :: actor_ref where
  "actor_supervisor =
     \<lparr>ac_kind = actor_kind.Supervisor, ac_id = None, ac_display_name = Some ''Frank supervisor''\<rparr>"

datatype budget_scope = Mission | Agent | Task

record budget =
  bu_time_seconds :: "u64 option"
  bu_turns :: "u32 option"
  bu_measured_tokens :: "u64 option"
  bu_cost_micros :: "u64 option"

definition budget_unlimited :: budget where
  "budget_unlimited = \<lparr>bu_time_seconds = None, bu_turns = None, bu_measured_tokens = None,
     bu_cost_micros = None\<rparr>"

record usage_view =
  us_id :: attempt_id
  us_scope :: budget_scope
  us_scope_id :: string
  us_provider :: string
  us_model :: "string option"
  us_measured_input_tokens :: "u64 option"
  us_measured_output_tokens :: "u64 option"
  us_estimated_input_tokens :: "u64 option"
  us_estimated_output_tokens :: "u64 option"
  us_cost_micros :: "u64 option"
  us_cached_input_tokens :: "u64 option"
  us_reasoning_tokens :: "u64 option"
  us_recorded_at :: timestamp

section \<open>Status enumerations and their transition tables\<close>

datatype mission_status = Draft | Active | Paused | Blocked | Completed | Failed | Cancelled

fun mission_can_transition_to :: "mission_status \<Rightarrow> mission_status \<Rightarrow> bool" where
  "mission_can_transition_to mission_status.Draft n \<longleftrightarrow>
     n \<in> {mission_status.Active, mission_status.Blocked, mission_status.Cancelled}"
| "mission_can_transition_to mission_status.Active n \<longleftrightarrow>
     n \<in> {mission_status.Paused, mission_status.Blocked, mission_status.Completed,
          mission_status.Failed, mission_status.Cancelled}"
| "mission_can_transition_to mission_status.Paused n \<longleftrightarrow>
     n \<in> {mission_status.Active, mission_status.Cancelled}"
| "mission_can_transition_to mission_status.Blocked n \<longleftrightarrow>
     n \<in> {mission_status.Active, mission_status.Cancelled}"
| "mission_can_transition_to _ n \<longleftrightarrow> False"

datatype task_status = Backlog | Ready | Running | Review | Done | Blocked | Cancelled

fun task_can_transition_to :: "task_status \<Rightarrow> task_status \<Rightarrow> bool" where
  "task_can_transition_to task_status.Backlog n \<longleftrightarrow>
     n \<in> {task_status.Ready, task_status.Cancelled}"
| "task_can_transition_to task_status.Ready n \<longleftrightarrow>
     n \<in> {task_status.Running, task_status.Blocked, task_status.Cancelled}"
| "task_can_transition_to task_status.Running n \<longleftrightarrow>
     n \<in> {task_status.Review, task_status.Blocked, task_status.Cancelled}"
| "task_can_transition_to task_status.Review n \<longleftrightarrow>
     n \<in> {task_status.Done, task_status.Running, task_status.Blocked, task_status.Cancelled}"
| "task_can_transition_to task_status.Blocked n \<longleftrightarrow>
     n \<in> {task_status.Ready, task_status.Cancelled}"
| "task_can_transition_to _ n \<longleftrightarrow> False"

datatype taskboard_lane = Backlog | Ready | Running | Blocked | Review | Done | Cancelled

definition all_lanes :: "taskboard_lane list" where
  "all_lanes = [taskboard_lane.Backlog, taskboard_lane.Ready, taskboard_lane.Running,
     taskboard_lane.Blocked, taskboard_lane.Review, taskboard_lane.Done, taskboard_lane.Cancelled]"

definition lane_is_terminal :: "taskboard_lane \<Rightarrow> bool" where
  "lane_is_terminal l \<longleftrightarrow> l = taskboard_lane.Done \<or> l = taskboard_lane.Cancelled"

fun lane_of_status :: "task_status \<Rightarrow> taskboard_lane" where
  "lane_of_status task_status.Backlog = taskboard_lane.Backlog"
| "lane_of_status task_status.Ready = taskboard_lane.Ready"
| "lane_of_status task_status.Running = taskboard_lane.Running"
| "lane_of_status task_status.Blocked = taskboard_lane.Blocked"
| "lane_of_status task_status.Review = taskboard_lane.Review"
| "lane_of_status task_status.Done = taskboard_lane.Done"
| "lane_of_status task_status.Cancelled = taskboard_lane.Cancelled"

fun status_of_lane :: "taskboard_lane \<Rightarrow> task_status" where
  "status_of_lane taskboard_lane.Backlog = task_status.Backlog"
| "status_of_lane taskboard_lane.Ready = task_status.Ready"
| "status_of_lane taskboard_lane.Running = task_status.Running"
| "status_of_lane taskboard_lane.Blocked = task_status.Blocked"
| "status_of_lane taskboard_lane.Review = task_status.Review"
| "status_of_lane taskboard_lane.Done = task_status.Done"
| "status_of_lane taskboard_lane.Cancelled = task_status.Cancelled"

text \<open>The derived \<open>Debug\<close> rendering, used in messages.\<close>

fun debug_task_status :: "task_status \<Rightarrow> string" where
  "debug_task_status task_status.Backlog = ''Backlog''"
| "debug_task_status task_status.Ready = ''Ready''"
| "debug_task_status task_status.Running = ''Running''"
| "debug_task_status task_status.Review = ''Review''"
| "debug_task_status task_status.Done = ''Done''"
| "debug_task_status task_status.Blocked = ''Blocked''"
| "debug_task_status task_status.Cancelled = ''Cancelled''"

fun debug_mission_status :: "mission_status \<Rightarrow> string" where
  "debug_mission_status mission_status.Draft = ''Draft''"
| "debug_mission_status mission_status.Active = ''Active''"
| "debug_mission_status mission_status.Paused = ''Paused''"
| "debug_mission_status mission_status.Blocked = ''Blocked''"
| "debug_mission_status mission_status.Completed = ''Completed''"
| "debug_mission_status mission_status.Failed = ''Failed''"
| "debug_mission_status mission_status.Cancelled = ''Cancelled''"

datatype taskboard_dispatch_mode = Auto | Pull | Manual
datatype work_item_kind = Task | HumanQuestion | Idea | Note
datatype work_offer_status = Pending | Accepted | Declined | Expired | Cancelled
datatype human_input_status = Pending | Answered | Cancelled
datatype human_input_kind = Question | Approval | Clarification
datatype organization_drain_status = Running | Draining | Paused
datatype task_claim_source = Automatic | Manual | Reclaim
datatype task_feed_kind = Comment | Created | StatusChanged | Assigned | Claimed | Released
  | AgentDeparted | DependencyLocked | DependencyUnlocked | AttachmentAdded
datatype review_work_item_status = Pending | Approved | Rejected | Cancelled
datatype review_decision = Approve | Reject
datatype message_act = Request | Inform | Propose | Query | Agree | Refuse | Done | Handoff
datatype delivery_status = Queued | Delivered | Acknowledged | Completed | Failed
datatype approval_status = Pending | Approved | Denied | Expired
datatype approval_decision = AllowOnce | AllowForTask | DenyOnce
datatype operation_status = Queued | Running | Waiting | Succeeded | Failed | Cancelled | Recovering
datatype operation_kind = CloneProject | CreateWorktree | RunChecks | CommitTask | MergeTask
  | PushMission | OpenDraftPullRequest | ArtifactUpload | ServiceApply | NetworkApply
  | HostUpdate | StageUpdate | ArtifactPrune | WriteMemory
datatype agent_status = Offline | Idle | Starting | Thinking | Working | Waiting | NeedsApproval
  | Paused | Failed | Stopping
datatype filesystem_policy = ReadOnly | WorkspaceWrite
datatype shell_policy = Deny | Ask | Allow
datatype network_policy = Deny | Ask | Allow
datatype approval_policy = Never | Ask
datatype model_source = Role | Agent
datatype push_policy = Disabled | MissionBranch
datatype pr_policy = Disabled | Draft
datatype update_state = Idle | Available | Staged | Applying | Succeeded | Failed | RolledBack
datatype task_grant_effect = WorkspaceWrite | Check

definition offer_is_open :: "work_offer_status \<Rightarrow> bool" where
  "offer_is_open s \<longleftrightarrow> s = work_offer_status.Pending"

definition requires_reply :: "message_act \<Rightarrow> bool" where
  "requires_reply a \<longleftrightarrow>
     a \<in> {message_act.Request, message_act.Query, message_act.Propose}"

section \<open>Organization graph\<close>

datatype json = JNull | JBool bool | JNumber string | JString string
  | JArray "json list" | JObject "(string \<times> json) list"

datatype organization_node_kind = Staff | Capability | Approval | Role | Taskboard | ChildWorkflow
datatype organization_capability_kind = Email | Calendar | Drive | Browser | Terminal | Database
datatype organization_relation_kind = Handoff | ToolAccess | Review | Pickup | Drop | Rework
datatype organization_context_policy = MinimumRequired | SummaryAndArtifacts | FullContext
datatype connector_kind = GoogleWorkspace | Browser | Terminal | Postgres | Sqlite
datatype connector_health = Unknown | Healthy | Degraded | Unhealthy

fun capability_permissions :: "organization_capability_kind \<Rightarrow> string list" where
  "capability_permissions organization_capability_kind.Email = [''read'', ''send'']"
| "capability_permissions organization_capability_kind.Calendar = [''read'', ''create'', ''update'']"
| "capability_permissions organization_capability_kind.Drive = [''read'', ''write'', ''share'']"
| "capability_permissions organization_capability_kind.Browser = [''browse'', ''download'']"
| "capability_permissions organization_capability_kind.Terminal = [''execute'']"
| "capability_permissions organization_capability_kind.Database = [''inspect'', ''read'', ''write'']"

definition capability_is_sensitive :: "organization_capability_kind \<Rightarrow> bool" where
  "capability_is_sensitive c \<longleftrightarrow>
     c = organization_capability_kind.Terminal \<or> c = organization_capability_kind.Database"

record organization_point =
  pt_x :: f64_bits
  pt_y :: f64_bits

record organization_size =
  sz_width :: f64_bits
  sz_height :: f64_bits

record organization_viewport =
  vp_x :: f64_bits
  vp_y :: f64_bits
  vp_zoom :: f64_bits

record organization_group =
  gr_id :: string
  gr_label :: string
  gr_position :: organization_point
  gr_size :: organization_size
  gr_tone :: string
  gr_locked :: bool

record organization_node =
  n_id :: string
  n_kind :: organization_node_kind
  n_label :: string
  n_position :: organization_point
  n_group_id :: "string option"
  n_agent_id :: "agent_id option"
  n_capability :: "organization_capability_kind option"
  n_connector_profile_id :: "connector_profile_id option"
  n_profile_ref :: "string option"
  n_configured :: bool
  n_approval_required :: bool
  n_role_id :: "role_id option"
  n_taskboard_id :: "taskboard_id option"
  n_child_workflow_id :: "workflow_id option"
  n_input_port :: "string option"
  n_output_port :: "string option"
  n_rework_limit :: "u8 option"

record organization_handoff_contract =
  hc_input_summary :: string
  hc_expected_output :: string
  hc_context_policy :: organization_context_policy

definition default_contract :: organization_handoff_contract where
  "default_contract = \<lparr>hc_input_summary = ''Task brief and relevant artifacts'',
     hc_expected_output = ''A concise, reviewable deliverable'',
     hc_context_policy = organization_context_policy.MinimumRequired\<rparr>"

record organization_relation =
  rel_id :: string
  rel_kind :: organization_relation_kind
  rel_source_node_id :: string
  rel_target_node_id :: string
  rel_contract :: organization_handoff_contract
  rel_permissions :: "string list"

record organization_graph =
  g_id :: organization_id
  g_draft_revision :: u64
  g_published_revision :: u64
  g_nodes :: "organization_node list"
  g_relations :: "organization_relation list"
  g_groups :: "organization_group list"
  g_viewport :: organization_viewport

text \<open>\<open>f64\<close> constants of the default viewport: \<open>0.0\<close> and \<open>1.0\<close>.\<close>

definition f64_zero :: f64_bits where "f64_zero = 0"
definition f64_one :: f64_bits where "f64_one = 0x3FF0000000000000"

definition default_viewport :: organization_viewport where
  "default_viewport = \<lparr>vp_x = f64_zero, vp_y = f64_zero, vp_zoom = f64_one\<rparr>"

text \<open>The id is drawn by the caller: \<open>OrganizationId::new()\<close>.\<close>

definition graph_empty :: "organization_id \<Rightarrow> organization_graph" where
  "graph_empty i = \<lparr>g_id = i, g_draft_revision = 0, g_published_revision = 0, g_nodes = [],
     g_relations = [], g_groups = [], g_viewport = default_viewport\<rparr>"

record connector_profile_view =
  cp_id :: connector_profile_id
  cp_name :: string
  cp_kind :: connector_kind
  cp_config :: json
  cp_health :: connector_health
  cp_configured :: bool
  cp_diagnostic :: "string option"
  cp_checked_at :: "timestamp option"
  cp_archived :: bool

record organization_state_view =
  o_draft :: organization_graph
  o_published :: "organization_graph option"
  o_connector_profiles :: "connector_profile_view list"

definition organization_default :: "organization_id \<Rightarrow> organization_state_view" where
  "organization_default i = \<lparr>o_draft = graph_empty i, o_published = None, o_connector_profiles = []\<rparr>"

record organization_runtime_view =
  rt_active_revision :: u64
  rt_status :: organization_drain_status
  rt_drain_requested_revision :: "u64 option"
  rt_paused_revision :: "u64 option"
  rt_pending_relocation_count :: u32

definition runtime_default :: organization_runtime_view where
  "runtime_default = \<lparr>rt_active_revision = 0, rt_status = organization_drain_status.Running,
     rt_drain_requested_revision = None, rt_paused_revision = None,
     rt_pending_relocation_count = 0\<rparr>"

record organization_relocation_view =
  rl_id :: relocation_id
  rl_from_revision :: u64
  rl_to_revision :: u64
  rl_from_board_id :: taskboard_id
  rl_to_board_id :: taskboard_id
  rl_task_ids :: "task_id list"
  rl_reason :: "string option"
  rl_created_at :: timestamp

section \<open>Team: roles and agents\<close>

record agent_policy =
  po_filesystem :: filesystem_policy
  po_shell :: shell_policy
  po_network :: network_policy
  po_approval :: approval_policy

definition policy_default :: agent_policy where
  "policy_default = \<lparr>po_filesystem = filesystem_policy.WorkspaceWrite, po_shell = shell_policy.Ask,
     po_network = network_policy.Ask, po_approval = approval_policy.Ask\<rparr>"

record agent_spec =
  as_role_id :: role_id
  as_display_name :: string
  as_model_override :: "string option"

record agent_patch =
  ap_role_id :: "role_id option option"
  ap_display_name :: "string option"
  ap_model_override :: "string option option"
  ap_clear_model_override :: bool

record agent_view =
  a_id :: agent_id
  a_role_id :: "role_id option"
  a_role_revision :: u64
  a_display_name :: string
  a_model :: "string option"
  a_effective_model :: "string option"
  a_model_source :: model_source
  a_model_override :: "string option"
  a_pending_model_override :: "string option option"
  a_pending_model_change :: bool
  a_instructions :: string
  a_policy :: agent_policy
  a_budget :: budget
  a_status :: agent_status
  a_provider_session_id :: "string option"
  a_last_claimed_at :: "timestamp option"
  a_archived :: bool

record role_spec =
  rs_name :: string
  rs_model :: "string option"
  rs_instructions :: string
  rs_policy :: agent_policy
  rs_budget :: budget

record role_patch =
  rp_name :: "string option"
  rp_model :: "string option option"
  rp_clear_model :: bool
  rp_instructions :: "string option"
  rp_policy :: "agent_policy option"
  rp_budget :: "budget option"

record role_view =
  r_id :: role_id
  r_name :: string
  r_model :: "string option"
  r_instructions :: string
  r_policy :: agent_policy
  r_budget :: budget
  r_revision :: u64
  r_archived :: bool

section \<open>Projects, missions, tasks\<close>

record project_spec =
  ps_name :: string
  ps_path :: "string option"
  ps_clone_url :: "string option"
  ps_base_branch :: string
  ps_remote :: "string option"
  ps_check_commands :: "string list"
  ps_worktree_root :: "string option"
  ps_push_policy :: push_policy
  ps_pr_policy :: pr_policy

record project_view =
  p_id :: project_id
  p_name :: string
  p_path :: string
  p_base_branch :: string
  p_remote :: "string option"
  p_check_commands :: "string list"
  p_worktree_root :: string
  p_push_policy :: push_policy
  p_pr_policy :: pr_policy
  p_archived :: bool

record mission_view =
  m_id :: mission_id
  m_project_id :: project_id
  m_objective :: string
  m_status :: mission_status
  m_supervisor_session_id :: "string option"
  m_branch :: string
  m_budget :: budget
  m_last_error :: "string option"
  m_created_at :: timestamp
  m_updated_at :: timestamp

record task_spec =
  ts_mission_id :: mission_id
  ts_title :: string
  ts_objective :: string
  ts_dependencies :: "task_id list"
  ts_required_role_id :: "role_id option"
  ts_priority :: int
  ts_assigned_agent :: "agent_id option"
  ts_budget :: budget
  ts_taskboard_id :: "taskboard_id option"
  ts_workflow_id :: "workflow_id option"
  ts_parent_task_id :: "task_id option"
  ts_kind :: work_item_kind
  ts_rework_limit :: u8

record task_patch =
  tp_title :: "string option"
  tp_objective :: "string option"
  tp_dependencies :: "task_id list option"
  tp_required_role_id :: "role_id option option"
  tp_priority :: "int option"
  tp_assigned_agent :: "agent_id option option"
  tp_budget :: "budget option"

record task_view =
  t_id :: task_id
  t_mission_id :: mission_id
  t_title :: string
  t_objective :: string
  t_dependencies :: "task_id list"
  t_required_role_id :: "role_id option"
  t_priority :: int
  t_budget :: budget
  t_status :: task_status
  t_assigned_agent :: "agent_id option"
  t_reviewer_agent :: "agent_id option"
  t_claimed_at :: "timestamp option"
  t_claim_source :: "task_claim_source option"
  t_attempt :: u8
  t_max_attempts :: u8
  t_worktree :: "string option"
  t_branch :: "string option"
  t_result_artifact :: "artifact_id option"
  t_taskboard_id :: "taskboard_id option"
  t_workflow_id :: "workflow_id option"
  t_parent_task_id :: "task_id option"
  t_child_task_ids :: "task_id list"
  t_kind :: work_item_kind
  t_active_role_node_id :: "string option"
  t_organization_revision :: "u64 option"
  t_rework_limit :: u8
  t_rework_count :: u8

record task_feed_entry =
  f_id :: task_feed_id
  f_task_id :: task_id
  f_actor :: actor_ref
  f_kind :: task_feed_kind
  f_body :: string
  f_artifact_ids :: "artifact_id list"
  f_created_at :: timestamp

record review_work_item_view =
  rv_id :: review_work_item_id
  rv_mission_id :: mission_id
  rv_source_task_id :: task_id
  rv_source_agent :: agent_id
  rv_reviewer_agent :: agent_id
  rv_relation_id :: string
  rv_contract :: organization_handoff_contract
  rv_status :: review_work_item_status
  rv_decision_reason :: "string option"
  rv_created_at :: timestamp
  rv_updated_at :: timestamp

section \<open>Taskboards, offers, human input\<close>

record taskboard_spec =
  bs_name :: string
  bs_project_id :: "project_id option"
  bs_workflow_id :: "workflow_id option"
  bs_dispatch_mode :: taskboard_dispatch_mode
  bs_default_role_id :: "role_id option"

record taskboard_view =
  b_id :: taskboard_id
  b_name :: string
  b_project_id :: "project_id option"
  b_workflow_id :: "workflow_id option"
  b_dispatch_mode :: taskboard_dispatch_mode
  b_default_role_id :: "role_id option"
  b_archived :: bool
  b_created_at :: timestamp
  b_updated_at :: timestamp

record taskboard_patch =
  bp_name :: "string option"
  bp_project_id :: "project_id option option"
  bp_workflow_id :: "workflow_id option option"
  bp_dispatch_mode :: "taskboard_dispatch_mode option"
  bp_default_role_id :: "role_id option option"

record work_item_spec =
  ws_mission_id :: "mission_id option"
  ws_title :: string
  ws_objective :: string
  ws_kind :: work_item_kind
  ws_taskboard_id :: taskboard_id
  ws_workflow_id :: "workflow_id option"
  ws_parent_task_id :: "task_id option"
  ws_dependencies :: "task_id list"
  ws_required_role_id :: "role_id option"
  ws_priority :: int
  ws_budget :: budget
  ws_rework_limit :: u8

record work_offer_view =
  of_id :: work_offer_id
  of_task_id :: task_id
  of_taskboard_id :: taskboard_id
  of_agent_id :: agent_id
  of_role_id :: "role_id option"
  of_status :: work_offer_status
  of_attempt :: u8
  of_created_at :: timestamp
  of_expires_at :: timestamp
  of_responded_at :: "timestamp option"

record human_input_view =
  hi_id :: human_input_id
  hi_task_id :: task_id
  hi_mission_id :: "mission_id option"
  hi_requested_by :: "agent_id option"
  hi_kind :: human_input_kind
  hi_prompt :: string
  hi_status :: human_input_status
  hi_answer :: "string option"
  hi_answered_by :: "string option"
  hi_created_at :: timestamp
  hi_updated_at :: timestamp

section \<open>Messages, approvals, grants, operations, artifacts, terminals\<close>

record message_spec =
  ms_message_id :: "message_id option"
  ms_mission_id :: mission_id
  ms_task_id :: "task_id option"
  ms_recipient :: actor_ref
  ms_act :: message_act
  ms_body :: string
  ms_artifact_ids :: "artifact_id list"
  ms_reply_to :: "message_id option"
  ms_hop :: u8

record message_view =
  mv_id :: message_id
  mv_mission_id :: mission_id
  mv_task_id :: "task_id option"
  mv_sender :: actor_ref
  mv_recipient :: actor_ref
  mv_act :: message_act
  mv_body :: string
  mv_artifact_ids :: "artifact_id list"
  mv_reply_to :: "message_id option"
  mv_hop :: u8
  mv_delivery :: delivery_status
  mv_created_at :: timestamp

record approval_spec =
  aps_agent_id :: agent_id
  aps_task_id :: task_id
  aps_operation :: string
  aps_cwd :: string
  aps_project :: string
  aps_reason :: string

record approval_view =
  av_id :: approval_id
  av_agent_id :: agent_id
  av_task_id :: task_id
  av_operation :: string
  av_cwd :: string
  av_project :: string
  av_reason :: string
  av_status :: approval_status
  av_expires_at :: timestamp

record task_grant_view =
  gv_id :: string
  gv_task_id :: task_id
  gv_agent_id :: agent_id
  gv_worktree :: string
  gv_effect :: task_grant_effect
  gv_expires_at :: timestamp
  gv_revoked :: bool
  gv_source_approval_id :: "approval_id option"

record operation_view =
  op_id :: operation_id
  op_kind :: operation_kind
  op_status :: operation_status
  op_resource :: string
  op_phase :: string
  op_attempt :: u16
  op_error :: "string option"
  op_created_at :: timestamp
  op_updated_at :: timestamp

record artifact_upload_spec =
  ups_mission_id :: mission_id
  ups_task_id :: "task_id option"
  ups_name :: string
  ups_mime_type :: string
  ups_size :: u64
  ups_sha256 :: string

record artifact_upload_view =
  up_id :: upload_id
  up_spec :: artifact_upload_spec
  up_received :: u64
  up_completed :: bool
  up_created_at :: timestamp
  up_expires_at :: timestamp

record artifact_view =
  ar_id :: artifact_id
  ar_mission_id :: mission_id
  ar_task_id :: "task_id option"
  ar_upload_id :: "upload_id option"
  ar_name :: string
  ar_mime_type :: string
  ar_size :: u64
  ar_sha256 :: string
  ar_pinned :: bool
  ar_created_at :: timestamp

record update_view =
  uv_id :: update_id
  uv_version :: string
  uv_state :: update_state
  uv_target :: string
  uv_size :: u64
  uv_sha256 :: string
  uv_error :: "string option"
  uv_checked_at :: timestamp

record control_lease_view =
  cl_lease_id :: string
  cl_session_id :: terminal_session_id
  cl_actor :: actor_ref
  cl_expires_at :: timestamp

record terminal_session_view =
  te_id :: terminal_session_id
  te_task_id :: task_id
  te_cwd :: string
  te_cols :: u16
  te_rows :: u16
  te_active :: bool
  te_lease :: "control_lease_view option"

section \<open>Host runners\<close>

record check_run_view =
  ck_id :: string
  ck_runner_id :: runner_id
  ck_project_id :: project_id
  ck_task_id :: "task_id option"
  ck_check_id :: string
  ck_status :: check_run_status
  ck_exit_code :: "32 word option"
  ck_stdout :: string
  ck_stderr :: string
  ck_duration_ms :: u64
  ck_started_at :: timestamp
  ck_finished_at :: "timestamp option"

section \<open>Supervisor proposals\<close>

record supervisor_task_proposal =
  sp_client_key :: string
  sp_title :: string
  sp_objective :: string
  sp_dependencies :: "string list"
  sp_priority :: int
  sp_candidate_agents :: "agent_id list"
  sp_target_role_id :: "role_id option"
  sp_assigned_agent :: "agent_id option"
  sp_policy_requirement :: "agent_policy option"
  sp_budget :: budget

record supervisor_plan_proposal =
  pp_mission_id :: mission_id
  pp_summary :: string
  pp_tasks :: "supervisor_task_proposal list"
  pp_reasoning :: "string option"

section \<open>Snapshot\<close>

record server_settings =
  sv_name :: string
  sv_bind_address :: string
  sv_port :: u16
  sv_allowed_project_roots :: "string list"
  sv_worktree_root :: string
  sv_max_concurrency :: u16
  sv_default_budget :: budget
  sv_approval_ttl_seconds :: u64
  sv_event_retention_days :: u16
  sv_terminal_retention_days :: u16
  sv_artifact_retention_days :: u16
  sv_supervisor_model :: "string option"
  sv_tls_fingerprint :: string

definition server_settings_default :: server_settings where
  "server_settings_default = \<lparr>sv_name = ''Frank server'', sv_bind_address = ''127.0.0.1'',
     sv_port = 37465, sv_allowed_project_roots = [], sv_worktree_root = [], sv_max_concurrency = 4,
     sv_default_budget = budget_unlimited, sv_approval_ttl_seconds = 600,
     sv_event_retention_days = 30, sv_terminal_retention_days = 7, sv_artifact_retention_days = 30,
     sv_supervisor_model = None, sv_tls_fingerprint = []\<rparr>"

record snapshot =
  s_server_id :: server_id
  s_revision :: u64
  s_event_seq :: u64
  s_server :: server_settings
  s_projects :: "project_view list"
  s_roles :: "role_view list"
  s_agents :: "agent_view list"
  s_missions :: "mission_view list"
  s_tasks :: "task_view list"
  s_messages :: "message_view list"
  s_approvals :: "approval_view list"
  s_artifacts :: "artifact_view list"
  s_operations :: "operation_view list"
  s_uploads :: "artifact_upload_view list"
  s_update :: "update_view option"
  s_usage :: "usage_view list"
  s_terminals :: "terminal_session_view list"
  s_task_feed :: "task_feed_entry list"
  s_organization :: organization_state_view
  s_review_items :: "review_work_item_view list"
  s_taskboards :: "taskboard_view list"
  s_work_offers :: "work_offer_view list"
  s_human_inputs :: "human_input_view list"
  s_organization_runtime :: organization_runtime_view
  s_organization_relocations :: "organization_relocation_view list"
  s_task_grants :: "task_grant_view list"

definition snapshot_empty :: "server_id \<Rightarrow> organization_id \<Rightarrow> snapshot" where
  "snapshot_empty i oid = \<lparr>s_server_id = i, s_revision = 0, s_event_seq = 0,
     s_server = server_settings_default, s_projects = [], s_roles = [], s_agents = [],
     s_missions = [], s_tasks = [], s_messages = [], s_approvals = [], s_artifacts = [],
     s_operations = [], s_uploads = [], s_update = None, s_usage = [], s_terminals = [],
     s_task_feed = [], s_organization = organization_default oid, s_review_items = [],
     s_taskboards = [], s_work_offers = [], s_human_inputs = [],
     s_organization_runtime = runtime_default, s_organization_relocations = [],
     s_task_grants = []\<rparr>"

section \<open>Limits\<close>

definition MAX_MESSAGE_BODY_BYTES :: nat where "MAX_MESSAGE_BODY_BYTES = 64 * 1024"
definition MAX_COMMAND_BODY_BYTES :: nat where "MAX_COMMAND_BODY_BYTES = 256 * 1024"
definition MAX_ARTIFACT_BYTES :: nat where "MAX_ARTIFACT_BYTES = 256 * 1024 * 1024"
definition DEFAULT_REWORK_LIMIT :: u8 where "DEFAULT_REWORK_LIMIT = 3"
definition MAX_CHILD_WORK_ITEMS :: nat where "MAX_CHILD_WORK_ITEMS = 64"
definition PROTOCOL_VERSION :: u16 where "PROTOCOL_VERSION = 2"

section \<open>Version negotiation\<close>

record version_range =
  vr_min :: u16
  vr_max :: u16

definition range_accepts :: "version_range \<Rightarrow> u16 \<Rightarrow> bool" where
  "range_accepts r v \<longleftrightarrow> vr_min r \<le> v \<and> v \<le> vr_max r"

definition negotiate_versions :: "version_range \<Rightarrow> version_range \<Rightarrow> string + u16" where
  "negotiate_versions client server =
     (let mn = max (vr_min client) (vr_min server); mx = min (vr_max client) (vr_max server) in
      if mx < mn then Inl ''client and server protocol versions do not overlap'' else Inr mx)"

section \<open>Properties of the enumerations\<close>

interpretation mission_lifecycle: lifecycle mission_can_transition_to
  "\<lambda>s. s \<in> {mission_status.Completed, mission_status.Failed, mission_status.Cancelled}"
  mission_status.Cancelled
proof
  show "\<not> mission_can_transition_to s t"
    if "s \<in> {mission_status.Completed, mission_status.Failed, mission_status.Cancelled}" for s t
    using that by auto
  show "mission_can_transition_to s mission_status.Cancelled"
    if "s \<notin> {mission_status.Completed, mission_status.Failed, mission_status.Cancelled}" for s
    using that by (cases s) auto
qed simp

interpretation task_lifecycle: lifecycle task_can_transition_to
  "\<lambda>s. s \<in> {task_status.Done, task_status.Cancelled}" task_status.Cancelled
proof
  show "\<not> task_can_transition_to s t" if "s \<in> {task_status.Done, task_status.Cancelled}" for s t
    using that by auto
  show "task_can_transition_to s task_status.Cancelled"
    if "s \<notin> {task_status.Done, task_status.Cancelled}" for s
    using that by (cases s) auto
qed simp

lemma status_of_lane_of_status [simp]: "status_of_lane (lane_of_status s) = s"
  by (cases s) auto

lemma lane_of_status_of_lane [simp]: "lane_of_status (status_of_lane l) = l"
  by (cases l) auto

end
