(* ===== verification/Commands.thy ===== *)
theory Commands
  imports Protocol
begin

text \<open>
  Commands, events and results of the protocol (\<open>command.rs\<close>, \<open>event.rs\<close>), the
  orchestrator's error type (\<open>frank-orchestrator/src/lib.rs\<close>) and the store's
  (\<open>frank-store\<close>), as far as the reducers and the commit path use them.

  Commands of the pairing and terminal-frame surfaces carry their payload as the wire string,
  since no modelled reducer looks into it.
\<close>

datatype store_error = StaleRevision u64 | StoreValidation string

datatype orchestrator_error =
    Store store_error
  | InvalidTransition string
  | Validation string
  | OrganizationRevisionConflict u64 u64
  | Forbidden
  | NotFound
  | BudgetExceeded
  | ProviderUnavailable string

type_synonym 'a orch_result = "orchestrator_error + 'a"

record settings_patch =
  se_name :: "string option"
  se_bind_address :: "string option"
  se_port :: "u16 option"
  se_allowed_project_roots :: "string list option"
  se_worktree_root :: "string option"
  se_max_concurrency :: "u16 option"
  se_default_budget :: "budget option"
  se_approval_ttl_seconds :: "u64 option"
  se_event_retention_days :: "u16 option"
  se_terminal_retention_days :: "u16 option"
  se_artifact_retention_days :: "u16 option"
  se_supervisor_model :: "string option option"
  se_clear_supervisor_model :: bool

record connector_profile_spec =
  cps_name :: string
  cps_kind :: connector_kind
  cps_config :: json

record connector_profile_patch =
  cpp_name :: "string option"
  cpp_kind :: "connector_kind option"
  cpp_config :: "json option"

record artifact_spec =
  ars_mission_id :: mission_id
  ars_task_id :: "task_id option"
  ars_name :: string
  ars_mime_type :: string
  ars_bytes :: string

datatype (plugins only: code) command =
    Pair string
  | UpdateSettings settings_patch
  | CreateProject project_spec
  | CloneProject string string
  | ArchiveProject project_id
  | CreateAgent agent_spec
  | UpdateAgent agent_id agent_patch
  | ArchiveAgent agent_id
  | CreateRole role_spec
  | UpdateRole role_id role_patch
  | ArchiveRole role_id
  | SetAgentRole agent_id role_id
  | CreateTaskboard taskboard_spec
  | UpdateTaskboard taskboard_id taskboard_patch
  | ArchiveTaskboard taskboard_id
  | SaveOrganizationDraft organization_graph u64
  | PublishOrganization u64
  | CreateConnectorProfile connector_profile_spec
  | UpdateConnectorProfile connector_profile_id connector_profile_patch
  | ArchiveConnectorProfile connector_profile_id
  | CreateMission project_id string
  | SetMissionStatus mission_id mission_status
  | RetryMissionPlan mission_id
  | CreateTask task_spec
  | CreateWorkItem work_item_spec
  | DropWorkItem task_id taskboard_id "role_id option"
  | SpawnChildWorkItems task_id "work_item_spec list"
  | UpdateTask task_id task_patch
  | SetTaskStatus task_id task_status
  | AssignTask task_id agent_id
  | ClaimTask task_id agent_id task_claim_source
  | ReleaseTask task_id
  | CreateWorkOffer task_id agent_id
  | RespondWorkOffer work_offer_id bool
  | AddTaskComment task_id string "artifact_id list"
  | RequestHumanInput task_id human_input_kind string
  | ResolveHumanInput human_input_id string
  | RequestTaskRework task_id string
  | RequestOrganizationDrain u64
  | CompleteOrganizationDrain u64
  | ResumeOrganization u64
  | RelocateWorkItems taskboard_id taskboard_id "task_id list" "string option"
  | FireAgent agent_id "string option"
  | SendMessage message_spec
  | AckMessage message_id
  | CompleteMessage message_id bool
  | RequestApproval approval_spec
  | DecideApproval approval_id approval_decision
  | GrantTaskAccess task_id agent_id string task_grant_effect timestamp
  | RevokeTaskGrant string
  | AdjustBudget budget_scope string budget
  | ProposeMemory agent_id string string
  | ReadMemory agent_id string
  | PublishArtifact artifact_spec
  | BeginArtifactUpload artifact_upload_spec
  | FinalizeArtifactUpload upload_id string u64
  | TaskAccept task_id
  | DecideReview review_work_item_id review_decision "string option"
  | SubmitSupervisorPlan mission_id supervisor_plan_proposal
  | CancelOperation operation_id
  | RetryOperation operation_id
  | CheckForUpdate
  | PrepareUpdate string
  | ApplyUpdate update_id
  | RollbackUpdate
  | DeliverMission mission_id
  | OpenTerminal task_id u16 u16
  | TakeControl terminal_session_id
  | RenewControl terminal_session_id string
  | ReleaseControl terminal_session_id string
  | CloseTerminal terminal_session_id
  | PauseMission mission_id
  | ResumeMission mission_id

datatype (plugins only: code) event =
    SnapshotReplaced snapshot
  | SettingsChanged server_settings
  | ProjectUpserted project_view
  | ProjectArchived project_id
  | AgentUpserted agent_view
  | AgentArchived agent_id
  | AgentStatusChanged agent_id agent_status
  | AgentDeparted agent_id "string option" "task_id list"
  | RoleUpserted role_view
  | RoleArchived role_id
  | TaskboardUpserted taskboard_view
  | TaskboardArchived taskboard_id
  | OrganizationDraftSaved organization_graph
  | OrganizationPublished organization_graph
  | ConnectorProfileUpserted connector_profile_view
  | ConnectorProfileArchived connector_profile_id
  | MissionCreated mission_view
  | MissionStatusChanged mission_id mission_status
  | MissionSupervisorSessionChanged mission_id "string option"
  | MissionBlocked mission_id string
  | TaskCreated task_view
  | WorkItemDropped task_view "taskboard_id option" taskboard_id "role_id option"
  | ChildWorkItemsSpawned task_view "task_view list"
  | TaskUpdated task_view
  | TaskStatusChanged task_id task_status
  | TaskWorktreeProvisioning task_view operation_view
  | ReviewWorkItemOpened task_view review_work_item_view
  | ReviewWorkItemDecided task_view review_work_item_view
  | TaskAssigned task_id agent_id
  | TaskClaimed task_id agent_id timestamp task_claim_source
  | TaskReleased task_id
  | WorkOfferCreated work_offer_view
  | WorkOfferResponded work_offer_view
  | HumanInputRequested task_view human_input_view
  | HumanInputResolved task_view human_input_view
  | TaskReworkRequested task_view string u8
  | OrganizationDrainRequested u64
  | OrganizationDrainCompleted u64
  | WorkItemsRelocated organization_relocation_view
  | TaskActivityAdded task_feed_entry
  | MessageQueued message_view
  | MessageDelivered message_id
  | MessageAcknowledged message_id
  | MessageCompleted message_id
  | MessageFailed message_id
  | ApprovalRequested approval_view
  | ApprovalDecided approval_id approval_decision
  | ApprovalExpired approval_id
  | TaskGrantCreated task_grant_view
  | TaskGrantRevoked string
  | BudgetPaused budget_scope string
  | MemoryProposed agent_id string
  | MemoryRead agent_id string
  | ArtifactPublished artifact_view
  | TerminalOpened terminal_session_view
  | TerminalLeaseChanged control_lease_view
  | TerminalClosed terminal_session_id
  | UsageRecorded usage_view
  | DeliveryStarted mission_id
  | DeliveryCompleted mission_id "string option"
  | DeliveryBlocked mission_id string
  | OperationChanged operation_view
  | SupervisorPlanProposed mission_id supervisor_plan_proposal
  | ArtifactUploadStarted artifact_upload_view
  | UpdateStateChanged update_view
  | ToolchainInstallationRecorded string string runner_id toolchain_requirement_status "project_id option"
      "task_id option" "string option"
  | CheckRunRecorded check_run_view

datatype (plugins only: code) command_result =
    Accepted
  | ResultSnapshot snapshot
  | Pairing string
  | ResultCreated string
  | Memory string string
  | ResultTerminal terminal_session_view
  | Operation operation_view
  | Upload artifact_upload_view
  | PlanAccepted "task_id list"
  | WorkItems "task_id list"
  | WorkOffer work_offer_view
  | HumanInput human_input_view
  | Update update_view

end
