(* ===== verification/TaskGraph.thy ===== *)
theory TaskGraph
  imports Commands
begin

text \<open>
  Task validation of \<open>frank-orchestrator/src/validate.rs\<close>: text limits, the parent chain,
  the depth-first search for dependency cycles, and the validation of a task before it is
  created or changed. The lemmas relate the searches to reachability in the dependency and
  parent relations of the task list.

  A \<open>HashMap\<close> of dependencies is an association list in which the first entry of a key
  counts: \<open>collect\<close> lets later entries win, hence the \<open>rev\<close>. A \<open>HashSet\<close> is a set,
  threaded through the calls that mutate it.
\<close>

section \<open>Text limits\<close>

definition valid_agent_text :: "string \<Rightarrow> nat \<Rightarrow> bool" where
  "valid_agent_text v max_bytes \<longleftrightarrow> \<not> blank v \<and> length v \<le> max_bytes \<and> \<not> has_control v"

definition valid_content_text :: "string \<Rightarrow> nat \<Rightarrow> bool" where
  "valid_content_text v max_bytes \<longleftrightarrow> \<not> blank v \<and> length v \<le> max_bytes \<and> \<not> contains_nul v"

definition valid_optional_agent_text :: "string option \<Rightarrow> nat \<Rightarrow> bool" where
  "valid_optional_agent_text v max_bytes \<longleftrightarrow>
     (case v of None \<Rightarrow> True | Some s \<Rightarrow> length s \<le> max_bytes \<and> \<not> has_control s)"

section \<open>Attempts and patches\<close>

definition DEFAULT_MAX_ATTEMPTS :: u8 where "DEFAULT_MAX_ATTEMPTS = 2"

definition retry_after_failure :: "task_view \<Rightarrow> task_view \<times> task_status" where
  "retry_after_failure task =
     (let t' = task\<lparr>t_attempt := saturating_add (t_attempt task) 1\<rparr> in
      (t', if t_attempt t' < t_max_attempts t' then task_status.Ready else task_status.Blocked))"

definition set_some :: "'a option \<Rightarrow> 'a \<Rightarrow> 'a" where
  \<comment> \<open>\<open>if let Some(value) = patch.field { x.field = value }\<close>\<close>
  "set_some v old = (case v of None \<Rightarrow> old | Some x \<Rightarrow> x)"

definition apply_task_patch :: "task_view \<Rightarrow> task_patch \<Rightarrow> task_view" where
  "apply_task_patch task patch = task\<lparr>
     t_title := set_some (tp_title patch) (t_title task),
     t_objective := set_some (tp_objective patch) (t_objective task),
     t_dependencies := set_some (tp_dependencies patch) (t_dependencies task),
     t_required_role_id := set_some (tp_required_role_id patch) (t_required_role_id task),
     t_priority := set_some (tp_priority patch) (t_priority task),
     t_assigned_agent := set_some (tp_assigned_agent patch) (t_assigned_agent task),
     t_budget := set_some (tp_budget patch) (t_budget task)\<rparr>"

section \<open>Lookup\<close>

definition find_task :: "task_id \<Rightarrow> task_view list \<Rightarrow> task_view option" where
  "find_task i tasks = find (\<lambda>t. t_id t = i) tasks"

definition parent_of :: "task_view list \<Rightarrow> task_id \<Rightarrow> task_id option" where
  "parent_of tasks i = Option.bind (find_task i tasks) t_parent_task_id"

definition task_ids :: "task_view list \<Rightarrow> task_id set" where
  "task_ids tasks = set (map t_id tasks)"

lemma find_task_SomeD: "find_task i tasks = Some t \<Longrightarrow> t \<in> set tasks \<and> t_id t = i"
  unfolding find_task_def by (rule find_SomeD)

lemma find_task_None_iff: "find_task i tasks = None \<longleftrightarrow> i \<notin> task_ids tasks"
  by (auto simp: find_task_def find_None_iff task_ids_def)

lemma find_task_mem: "distinct (map t_id tasks) \<Longrightarrow> t \<in> set tasks \<Longrightarrow> find_task (t_id t) tasks = Some t"
  unfolding find_task_def by (rule find_distinct_key)

lemma finite_task_ids [simp]: "finite (task_ids tasks)"
  by (simp add: task_ids_def)

lemma card_unvisited_less:
  assumes "finite A" "i \<in> A" "i \<notin> V"
  shows "card (A - insert i V) < card (A - V)"
  using assms by (intro psubset_card_mono) auto

section \<open>Parent chains\<close>

text \<open>The \<open>while let Some(id) = current\<close> loop of \<open>is_parent_of\<close>.\<close>

function is_parent_loop :: "task_view list \<Rightarrow> task_id \<Rightarrow> task_id option \<Rightarrow> task_id set \<Rightarrow> bool" where
  "is_parent_loop tasks ancestor None visited = False"
| "is_parent_loop tasks ancestor (Some i) visited =
     (if i \<in> visited then False
      else case find_task i tasks of
        None \<Rightarrow> False
      | Some task \<Rightarrow>
          if t_parent_task_id task = Some ancestor then True
          else is_parent_loop tasks ancestor (t_parent_task_id task) (insert i visited))"
  by pat_completeness auto
termination
proof (relation "measure (\<lambda>(tasks, a, c, visited). card (task_ids tasks - visited))", goal_cases)
  case (2 tasks a i visited task)
  then have "i \<in> task_ids tasks" by (metis find_task_None_iff option.distinct(1))
  with 2 show ?case by (simp add: card_unvisited_less del: card_Diff_insert)
qed simp

definition is_parent_of :: "task_view list \<Rightarrow> task_id \<Rightarrow> task_id \<Rightarrow> bool" where
  "is_parent_of tasks ancestor descendant = is_parent_loop tasks ancestor (Some descendant) {}"

text \<open>The ancestor walk of \<open>validate_parent_link\<close>.\<close>

function parent_chain :: "task_view list \<Rightarrow> task_id \<Rightarrow> task_id option \<Rightarrow> task_id set \<Rightarrow> unit orch_result" where
  "parent_chain tasks self None visited = Inr ()"
| "parent_chain tasks self (Some i) visited =
     (if i \<in> visited then Inl (Validation ''task parent relationships must form a tree'')
      else if i = self then Inl (Validation ''task cannot be an ancestor of itself'')
      else parent_chain tasks self (parent_of tasks i) (insert i visited))"
  by pat_completeness auto
termination
proof (relation "measures [\<lambda>(tasks, a, c, visited). card (task_ids tasks - visited),
                           \<lambda>(tasks, a, c, visited). (case c of None \<Rightarrow> 0 | Some i \<Rightarrow>
                              if i \<in> task_ids tasks then 2 else 1)]", goal_cases)
  case (2 tasks self i visited)
  show ?case
  proof (cases "i \<in> task_ids tasks")
    case True
    with 2 have "card (task_ids tasks - insert i visited) < card (task_ids tasks - visited)"
      by (simp add: card_unvisited_less del: card_Diff_insert)
    then show ?thesis by simp
  next
    case False
    then have "parent_of tasks i = None"
      by (simp add: parent_of_def find_task_None_iff [THEN iffD2])
    moreover have "card (task_ids tasks - insert i visited) \<le> card (task_ids tasks - visited)"
      by (auto intro!: card_mono)
    ultimately show ?thesis using False by auto
  qed
qed simp

definition validate_parent_link :: "task_view \<Rightarrow> task_view list \<Rightarrow> unit orch_result" where
  "validate_parent_link candidate tasks =
     (case t_parent_task_id candidate of
        None \<Rightarrow> Inr ()
      | Some parent_id \<Rightarrow>
          if parent_id = TaskId nil_uuid \<or> parent_id = t_id candidate
          then Inl (Validation ''task cannot be its own parent'')
          else case find_task parent_id tasks of
            None \<Rightarrow> Inl (Validation ''task parent does not exist'')
          | Some parent \<Rightarrow>
              if t_mission_id parent \<noteq> t_mission_id candidate
              then Inl (Validation ''task parent crosses mission boundary'')
              else parent_chain tasks (t_id candidate) (Some parent_id) {})"

section \<open>Cycle search\<close>

type_synonym dep_graph = "(task_id \<times> task_id list) list"

text \<open>\<open>dfs_cycle\<close> with its \<open>iter().any\<close> over the dependencies as \<open>dfs_any\<close>.\<close>

function (sequential) dfs_cycle ::
    "dep_graph \<Rightarrow> task_id \<Rightarrow> task_id set \<Rightarrow> task_id set \<Rightarrow> bool \<times> task_id set \<times> task_id set"
  and dfs_any ::
    "dep_graph \<Rightarrow> task_id list \<Rightarrow> task_id set \<Rightarrow> task_id set \<Rightarrow> bool \<times> task_id set \<times> task_id set"
where
  "dfs_cycle graph i visiting visited =
     (if i \<in> visiting then (True, visiting, visited)
      else if i \<in> visited then (False, visiting, visited)
      else case map_of graph i of
        None \<Rightarrow> (False, insert i visiting - {i}, insert i visited)
      | Some deps \<Rightarrow>
          (case dfs_any graph deps (insert i visiting) (insert i visited) of
             (cycle, visiting', visited') \<Rightarrow> (cycle, visiting' - {i}, visited')))"
| "dfs_any graph [] visiting visited = (False, visiting, visited)"
| "dfs_any graph (d # ds) visiting visited =
     (case dfs_cycle graph d visiting visited of
        (cycle, visiting', visited') \<Rightarrow>
          if cycle then (True, visiting', visited') else dfs_any graph ds visiting' visited')"
  by pat_completeness auto

lemma dfs_visited_grows_dom:
  "dfs_cycle_dfs_any_dom (Inl (g, i, vg, vd)) \<Longrightarrow> vd \<subseteq> snd (snd (dfs_cycle g i vg vd))"
  "dfs_cycle_dfs_any_dom (Inr (g, ds, vg, vd)) \<Longrightarrow> vd \<subseteq> snd (snd (dfs_any g ds vg vd))"
proof (induction g i vg vd and g ds vg vd rule: dfs_cycle_dfs_any.pinduct)
  case (1 g i vg vd)
  show ?case
  proof (cases "i \<in> vg \<or> i \<in> vd")
    case True
    with "1.hyps" show ?thesis by (auto simp: dfs_cycle.psimps)
  next
    case False
    with "1.hyps" "1.IH" show ?thesis
      by (cases "map_of g i") (auto simp: dfs_cycle.psimps split: prod.split)
  qed
next
  case (2 g vg vd)
  then show ?case by (simp add: dfs_any.psimps)
next
  case (3 g d ds vg vd)
  obtain c vg' vd' where r: "dfs_cycle g d vg vd = (c, vg', vd')" by (cases "dfs_cycle g d vg vd")
  with "3.IH"(1) have "vd \<subseteq> vd'" by simp
  with "3.hyps" "3.IH"(2) [OF r [symmetric] refl] show ?case
    by (auto simp: dfs_any.psimps r)
qed

termination dfs_cycle
proof (relation "measures [\<lambda>x. case x of Inl (g, i, vg, vd) \<Rightarrow> card (fst ` set g - vd)
                                   | Inr (g, ds, vg, vd) \<Rightarrow> card (fst ` set g - vd),
                           \<lambda>x. case x of Inl _ \<Rightarrow> 0 | Inr (g, ds, vg, vd) \<Rightarrow> length ds]",
    goal_cases)
  case (2 g i vg vd deps)
  then have "i \<in> fst ` set g" by (metis domI dom_map_of_conv_image_fst)
  with 2 have "card (fst ` set g - insert i vd) < card (fst ` set g - vd)"
    by (intro psubset_card_mono) auto
  then show ?case by simp
next
  case (4 g d ds vg vd res rest vg' vd')
  then have "dfs_cycle g d vg vd = (res, vg', vd')" by simp
  with 4 dfs_visited_grows_dom(1) [of g d vg vd] have "vd \<subseteq> vd'" by (metis snd_conv)
  then have "card (fst ` set g - vd') \<le> card (fst ` set g - vd)"
    by (intro card_mono) auto
  then show ?case by auto
qed auto

text \<open>The dependency relation the search explores.\<close>

definition dep_edges :: "dep_graph \<Rightarrow> (task_id \<times> task_id) set" where
  "dep_edges g = {(x, y). \<exists>ds. map_of g x = Some ds \<and> y \<in> set ds}"

declare dfs_cycle.simps [simp del]

lemma dfs_cycle_seen:
  "i \<in> vg \<Longrightarrow> dfs_cycle g i vg vd = (True, vg, vd)"
  "i \<notin> vg \<Longrightarrow> i \<in> vd \<Longrightarrow> dfs_cycle g i vg vd = (False, vg, vd)"
  "i \<notin> vg \<Longrightarrow> i \<notin> vd \<Longrightarrow> map_of g i = None \<Longrightarrow> dfs_cycle g i vg vd = (False, vg, insert i vd)"
  by (simp_all add: dfs_cycle.simps)

lemma dfs_cycle_deps:
  assumes "i \<notin> vg" "i \<notin> vd" "map_of g i = Some deps"
    and "dfs_any g deps (insert i vg) (insert i vd) = (c, vg', vd')"
  shows "dfs_cycle g i vg vd = (c, vg' - {i}, vd')"
  using assms by (simp add: dfs_cycle.simps)

lemma dfs_frame:
  "fst (snd (dfs_cycle g i vg vd)) = vg \<and> vd \<subseteq> snd (snd (dfs_cycle g i vg vd))"
  "fst (snd (dfs_any g ds vg vd)) = vg \<and> vd \<subseteq> snd (snd (dfs_any g ds vg vd))"
proof (induction g i vg vd and g ds vg vd rule: dfs_cycle_dfs_any.induct)
  case (1 g i vg vd)
  show ?case
  proof (cases "i \<in> vg \<or> i \<in> vd \<or> map_of g i = None")
    case True
    then show ?thesis by (cases "i \<in> vg"; cases "i \<in> vd") (auto simp: dfs_cycle_seen)
  next
    case False
    then obtain deps where f: "i \<notin> vg" "i \<notin> vd" "map_of g i = Some deps" by auto
    obtain c vg' vd' where r: "dfs_any g deps (insert i vg) (insert i vd) = (c, vg', vd')"
      by (cases "dfs_any g deps (insert i vg) (insert i vd)")
    show ?thesis using "1.IH" [OF f] f(1) by (simp add: dfs_cycle_deps [OF f r] r)
  qed
next
  case (3 g d ds vg vd)
  obtain c vg' vd' where r: "dfs_cycle g d vg vd = (c, vg', vd')" by (cases "dfs_cycle g d vg vd")
  with "3.IH"(1) have "vg' = vg" "vd \<subseteq> vd'" by simp_all
  with "3.IH"(2) [OF r [symmetric] refl] show ?case by (cases c) (auto simp: r)
qed simp

definition leads_to_cycle :: "dep_graph \<Rightarrow> task_id \<Rightarrow> bool" where
  "leads_to_cycle g i \<longleftrightarrow> (\<exists>x. (i, x) \<in> (dep_edges g)\<^sup>* \<and> (x, x) \<in> (dep_edges g)\<^sup>+)"

lemma leads_to_cycle_edge:
  "(i, d) \<in> dep_edges g \<Longrightarrow> leads_to_cycle g d \<Longrightarrow> leads_to_cycle g i"
  unfolding leads_to_cycle_def by (meson converse_rtrancl_into_rtrancl)

lemma dfs_sound:
  "\<forall>v \<in> vg. (v, i) \<in> (dep_edges g)\<^sup>+ \<Longrightarrow> fst (dfs_cycle g i vg vd) \<Longrightarrow> leads_to_cycle g i"
  "\<forall>v \<in> vg. \<forall>d \<in> set ds. (v, d) \<in> (dep_edges g)\<^sup>+ \<Longrightarrow> fst (dfs_any g ds vg vd) \<Longrightarrow>
     \<exists>d \<in> set ds. leads_to_cycle g d"
proof (induction g i vg vd and g ds vg vd rule: dfs_cycle_dfs_any.induct)
  case (1 g i vg vd)
  show ?case
  proof (cases "i \<in> vg")
    case True
    with "1.prems"(1) show ?thesis by (auto simp: leads_to_cycle_def)
  next
    case False
    with "1.prems"(2) obtain deps where i: "i \<notin> vd" and deps: "map_of g i = Some deps"
      by (metis dfs_cycle_seen(2,3) fst_conv option.exhaust)
    obtain c vg' vd' where r: "dfs_any g deps (insert i vg) (insert i vd) = (c, vg', vd')"
      by (cases "dfs_any g deps (insert i vg) (insert i vd)")
    have any: "fst (dfs_any g deps (insert i vg) (insert i vd))"
      using "1.prems"(2) dfs_cycle_deps [OF False i deps r] r by simp
    have edge: "(i, d) \<in> dep_edges g" if "d \<in> set deps" for d
      using that deps by (auto simp: dep_edges_def)
    have "\<exists>d \<in> set deps. leads_to_cycle g d"
      using "1.IH" [OF False i deps _ any] "1.prems"(1) edge by (auto intro: trancl_into_trancl)
    with edge show ?thesis by (auto intro: leads_to_cycle_edge)
  qed
next
  case (3 g d ds vg vd)
  obtain c vg' vd' where r: "dfs_cycle g d vg vd = (c, vg', vd')" by (cases "dfs_cycle g d vg vd")
  with dfs_frame(1) [of g d vg vd] have "vg' = vg" by simp
  with 3 r show ?case by (cases c) auto
qed simp

text \<open>A set of finished nodes: closed under dependencies and free of cycles.\<close>

definition finished :: "dep_graph \<Rightarrow> task_id set \<Rightarrow> bool" where
  "finished g F \<longleftrightarrow> dep_edges g `` F \<subseteq> F \<and> (\<forall>x \<in> F. (x, x) \<notin> (dep_edges g)\<^sup>+)"

lemma finished_closed: "finished g F \<Longrightarrow> x \<in> F \<Longrightarrow> (x, y) \<in> (dep_edges g)\<^sup>* \<Longrightarrow> y \<in> F"
  unfolding finished_def by (metis Image_closed_trancl rev_ImageI)

lemma finished_insert:
  assumes F: "finished g F" and i: "i \<notin> F" and succ: "\<forall>d. (i, d) \<in> dep_edges g \<longrightarrow> d \<in> F"
  shows "finished g (insert i F)"
proof -
  have "(i, i) \<notin> (dep_edges g)\<^sup>+"
    using finished_closed [OF F] succ i by (metis tranclD)
  with F succ show ?thesis by (auto simp: finished_def)
qed

lemma dfs_complete:
  "finished g (vd - vg) \<Longrightarrow> \<not> fst (dfs_cycle g i vg vd) \<Longrightarrow>
     finished g (snd (snd (dfs_cycle g i vg vd)) - vg) \<and>
     insert i vd - vg \<subseteq> snd (snd (dfs_cycle g i vg vd)) - vg \<and> i \<notin> vg"
  "finished g (vd - vg) \<Longrightarrow> \<not> fst (dfs_any g ds vg vd) \<Longrightarrow>
     finished g (snd (snd (dfs_any g ds vg vd)) - vg) \<and>
     (vd \<union> set ds) - vg \<subseteq> snd (snd (dfs_any g ds vg vd)) - vg \<and> set ds \<inter> vg = {}"
proof (induction g i vg vd and g ds vg vd rule: dfs_cycle_dfs_any.induct)
  case (1 g i vg vd)
  from "1.prems"(2) have i: "i \<notin> vg" by (auto simp: dfs_cycle_seen)
  show ?case
  proof (cases "i \<in> vd")
    case True
    with i "1.prems"(1) show ?thesis by (auto simp: dfs_cycle_seen)
  next
    case fresh: False
    have vd: "insert i vd - insert i vg = vd - vg" using fresh by auto
    show ?thesis
    proof (cases "map_of g i")
      case None
      then have "finished g (insert i (vd - vg))"
        using "1.prems"(1) fresh by (intro finished_insert) (auto simp: dep_edges_def)
      with i fresh None show ?thesis by (simp add: insert_Diff_if dfs_cycle_seen)
    next
      case (Some deps)
      obtain c vg' vd' where r: "dfs_any g deps (insert i vg) (insert i vd) = (c, vg', vd')"
        by (cases "dfs_any g deps (insert i vg) (insert i vd)")
      note step = dfs_cycle_deps [OF i fresh Some r]
      have IH: "finished g (vd' - insert i vg)"
        "(insert i vd \<union> set deps) - insert i vg \<subseteq> vd' - insert i vg"
        "set deps \<inter> insert i vg = {}"
        using "1.IH" [OF i fresh Some] "1.prems" vd r step by auto
      have "i \<in> vd'" "vd \<subseteq> vd'"
        using dfs_frame(2) [of g deps "insert i vg" "insert i vd"] r by auto
      then have "vd' - vg = insert i (vd' - insert i vg)" using i by auto
      moreover have "finished g (insert i (vd' - insert i vg))"
        using IH Some by (intro finished_insert) (auto simp: dep_edges_def)
      ultimately show ?thesis using \<open>vd \<subseteq> vd'\<close> \<open>i \<in> vd'\<close> i step by auto
    qed
  qed
next
  case (3 g d ds vg vd)
  obtain c vg' vd' where r: "dfs_cycle g d vg vd = (c, vg', vd')" by (cases "dfs_cycle g d vg vd")
  with dfs_frame(1) [of g d vg vd] have "vg' = vg" by simp
  moreover have "\<not> c" using "3.prems"(2) r by auto
  ultimately show ?case
    using "3.IH"(1) "3.IH"(2) [OF r [symmetric] refl] "3.prems" r by auto
qed simp

lemma dfs_cycle_iff: "fst (dfs_cycle g i {} {}) \<longleftrightarrow> leads_to_cycle g i"
proof
  assume c: "leads_to_cycle g i"
  show "fst (dfs_cycle g i {} {})"
  proof (rule ccontr)
    assume "\<not> fst (dfs_cycle g i {} {})"
    then have "finished g (snd (snd (dfs_cycle g i {} {})))" "i \<in> snd (snd (dfs_cycle g i {} {}))"
      using dfs_complete(1) [of g "{}" "{}" i] by (auto simp: finished_def)
    with c show False
      unfolding leads_to_cycle_def by (metis finished_closed finished_def)
  qed
qed (use dfs_sound(1) [of "{}" i g "{}"] in auto)

lemma acyclic_iff_no_lead:
  "acyclic (dep_edges g) \<longleftrightarrow> (\<forall>i \<in> fst ` set g. \<not> leads_to_cycle g i)"
proof -
  have "i \<in> fst ` set g" if "(i, i) \<in> (dep_edges g)\<^sup>+" for i
    using tranclD [OF that] by (auto simp: dep_edges_def dest: map_of_SomeD intro: rev_image_eqI)
  then show ?thesis by (auto simp: acyclic_def leads_to_cycle_def)
qed

section \<open>Task validation\<close>

definition dep_graph_of :: "task_view list \<Rightarrow> dep_graph" where
  "dep_graph_of tasks = rev (map (\<lambda>t. (t_id t, t_dependencies t)) tasks)"

text \<open>Every error of the sequence of checks is the early return of the source; \<open>graph.keys()\<close>
  may enumerate in any order, all failing keys give the same error.\<close>

definition validate_task_view :: "task_view \<Rightarrow> task_view list \<Rightarrow> unit orch_result" where
  "validate_task_view candidate tasks =
     (if \<not> valid_agent_text (t_title candidate) 256
         \<or> \<not> valid_content_text (t_objective candidate) MAX_MESSAGE_BODY_BYTES
         \<or> 256 < length (t_dependencies candidate)
      then Inl (Validation ''task title, objective, or dependencies are invalid'')
      else if \<not> distinct (t_dependencies candidate)
      then Inl (Validation ''task dependencies must be unique'')
      else if t_id candidate \<in> set (t_dependencies candidate)
      then Inl (Validation ''task cannot depend on itself'')
      else case validate_parent_link candidate tasks of Inl e \<Rightarrow> Inl e | Inr _ \<Rightarrow>
        if any (\<lambda>d. \<not> any (\<lambda>t. t_id t = d) tasks) (t_dependencies candidate)
        then Inl (Validation ''task dependency does not exist'')
        else if any (\<lambda>d. any (\<lambda>t. t_id t = d \<and> t_mission_id t \<noteq> t_mission_id candidate) tasks)
                  (t_dependencies candidate)
        then Inl (Validation ''task dependency crosses mission boundary'')
        else if (case t_parent_task_id candidate of None \<Rightarrow> False
                 | Some p \<Rightarrow> any (\<lambda>d. d = p \<or> is_parent_of tasks d p) (t_dependencies candidate))
        then Inl (Validation ''a child task cannot depend on its parent or an ancestor'')
        else if any (\<lambda>d. is_parent_of tasks (t_id candidate) d) (t_dependencies candidate)
        then Inl (Validation ''a task cannot depend on one of its descendants'')
        else
          (let graph = (t_id candidate, t_dependencies candidate) # dep_graph_of tasks in
           if any (\<lambda>i. fst (dfs_cycle graph i {} {})) (map fst graph)
           then Inl (Validation ''task dependencies must form a DAG'')
           else Inr ()))"

definition task_candidate :: "task_spec \<Rightarrow> task_view" where
  \<comment> \<open>the candidate \<open>validate_task_spec\<close> builds\<close>
  "task_candidate spec = \<lparr>t_id = TaskId nil_uuid, t_mission_id = ts_mission_id spec,
     t_title = ts_title spec, t_objective = ts_objective spec,
     t_dependencies = ts_dependencies spec, t_required_role_id = ts_required_role_id spec,
     t_priority = ts_priority spec, t_budget = ts_budget spec, t_status = task_status.Backlog,
     t_assigned_agent = ts_assigned_agent spec, t_reviewer_agent = None, t_claimed_at = None,
     t_claim_source = None, t_attempt = 0, t_max_attempts = DEFAULT_MAX_ATTEMPTS,
     t_worktree = None, t_branch = None, t_result_artifact = None,
     t_taskboard_id = ts_taskboard_id spec, t_workflow_id = ts_workflow_id spec,
     t_parent_task_id = ts_parent_task_id spec, t_child_task_ids = [], t_kind = ts_kind spec,
     t_active_role_node_id = None, t_organization_revision = None,
     t_rework_limit = ts_rework_limit spec, t_rework_count = 0\<rparr>"

definition validate_task_spec :: "task_spec \<Rightarrow> task_view list \<Rightarrow> unit orch_result" where
  "validate_task_spec spec tasks =
     (if \<not> valid_agent_text (ts_title spec) 256
         \<or> \<not> valid_content_text (ts_objective spec) MAX_MESSAGE_BODY_BYTES
      then Inl (Validation ''task title and objective are required'')
      else if 256 < length (ts_dependencies spec)
      then Inl (Validation ''task has too many dependencies'')
      else if \<not> distinct (ts_dependencies spec)
      then Inl (Validation ''task dependencies must be unique'')
      else if any (\<lambda>d. \<not> any (\<lambda>t. t_id t = d \<and> t_mission_id t = ts_mission_id spec) tasks)
                (ts_dependencies spec)
      then Inl (Validation ''task dependency does not exist in this mission'')
      else if any (\<lambda>d. d = TaskId nil_uuid) (ts_dependencies spec)
      then Inl (Validation ''task dependency id is invalid'')
      else if (case ts_parent_task_id spec of None \<Rightarrow> False
               | Some p \<Rightarrow> any (\<lambda>d. d = p \<or> is_parent_of tasks d p) (ts_dependencies spec))
      then Inl (Validation ''a child task cannot depend on its parent or an ancestor'')
      else validate_task_view (task_candidate spec) tasks)"

section \<open>The parent relation\<close>

definition parent_rel :: "task_view list \<Rightarrow> (task_id \<times> task_id) set" where
  "parent_rel tasks = {(x, p). parent_of tasks x = Some p}"

lemma trancl_skip_source:
  assumes fn: "\<And>y. (d, y) \<in> R \<Longrightarrow> y = p" and ne: "p \<noteq> a" and "(x, a) \<in> R\<^sup>+"
  shows "(x, a) \<in> {e \<in> R. fst e \<noteq> d}\<^sup>+ \<or> (p, a) \<in> {e \<in> R. fst e \<noteq> d}\<^sup>+"
  using assms(3)
proof (induction rule: converse_trancl_induct)
  case (base x)
  then show ?case using fn ne by (cases "x = d") (auto intro!: r_into_trancl)
next
  case (step x y)
  show ?case
  proof (cases "x = d")
    case True
    with step fn show ?thesis by auto
  next
    case False
    with step show ?thesis by (auto intro: trancl_into_trancl2)
  qed
qed

lemma is_parent_loop_iff:
  "is_parent_loop tasks a c V \<longleftrightarrow>
     (\<exists>d. c = Some d \<and> (d, a) \<in> {e \<in> parent_rel tasks. fst e \<notin> V}\<^sup>+)"
proof (induction tasks a c V rule: is_parent_loop.induct)
  case (2 tasks a d V)
  let ?R = "{e \<in> parent_rel tasks. fst e \<notin> V}"
  show ?case
  proof (cases "d \<in> V \<or> parent_of tasks d = None")
    case True
    then have "(d, a) \<notin> ?R\<^sup>+" by (auto simp: parent_rel_def dest!: tranclD)
    with True show ?thesis by (auto simp: parent_of_def split: option.splits)
  next
    case False
    then obtain t p where t: "find_task d tasks = Some t" and p: "t_parent_task_id t = Some p"
      and d: "d \<notin> V" by (auto simp: parent_of_def split: bind_splits)
    then have dp: "(d, p) \<in> ?R" by (auto simp: parent_rel_def parent_of_def)
    show ?thesis
    proof (cases "p = a")
      case True
      with t p d dp show ?thesis by auto
    next
      case ne: False
      have sub: "{e \<in> parent_rel tasks. fst e \<notin> insert d V} = {e \<in> ?R. fst e \<noteq> d}" by auto
      have fn: "y = p" if "(d, y) \<in> ?R" for y
        using that t p by (auto simp: parent_rel_def parent_of_def)
      have "(d, a) \<in> ?R\<^sup>+ \<longleftrightarrow> (p, a) \<in> {e \<in> ?R. fst e \<noteq> d}\<^sup>+"
      proof
        assume "(d, a) \<in> ?R\<^sup>+"
        then obtain z where "(d, z) \<in> ?R" "(z, a) \<in> ?R\<^sup>*" by (blast dest: tranclD)
        with fn ne have "(p, a) \<in> ?R\<^sup>+" by (auto simp: rtrancl_eq_or_trancl)
        from trancl_skip_source [OF fn ne this] show "(p, a) \<in> {e \<in> ?R. fst e \<noteq> d}\<^sup>+" by auto
      next
        assume "(p, a) \<in> {e \<in> ?R. fst e \<noteq> d}\<^sup>+"
        then have "(p, a) \<in> ?R\<^sup>+" by (rule trancl_mono) auto
        with dp show "(d, a) \<in> ?R\<^sup>+" by (rule trancl_into_trancl2)
      qed
      with "2.IH" [OF d t] t p d ne sub show ?thesis by simp
    qed
  qed
qed simp

lemma is_parent_of_iff: "is_parent_of tasks a d \<longleftrightarrow> (d, a) \<in> (parent_rel tasks)\<^sup>+"
  by (simp add: is_parent_of_def is_parent_loop_iff)

lemma parent_chain_ok:
  assumes "parent_chain tasks self (Some i) V = Inr ()" "(i, x) \<in> (parent_rel tasks)\<^sup>*"
  shows "x \<noteq> self \<and> x \<notin> V \<and> (x, x) \<notin> (parent_rel tasks)\<^sup>+"
proof -
  have "x \<noteq> self \<and> x \<notin> V \<and> (x, x) \<notin> (parent_rel tasks)\<^sup>+"
    if "parent_chain tasks self c V = Inr ()" "c = Some i" "(i, x) \<in> (parent_rel tasks)\<^sup>*" for c i
    using that
  proof (induction tasks self c V arbitrary: i x rule: parent_chain.induct)
    case (2 tasks self j V)
    from "2.prems" have ij: "i = j" and j: "j \<notin> V" "j \<noteq> self"
      and rest: "parent_chain tasks self (parent_of tasks j) (insert j V) = Inr ()"
      by (auto split: if_splits)
    have later: "y \<noteq> self \<and> y \<notin> insert j V \<and> (y, y) \<notin> (parent_rel tasks)\<^sup>+"
      if "parent_of tasks j = Some p" "(p, y) \<in> (parent_rel tasks)\<^sup>*" for p y
      using "2.IH" [OF j rest that(1)] that by simp
    have rel: "(j, p) \<in> parent_rel tasks \<longleftrightarrow> parent_of tasks j = Some p" for p
      by (simp add: parent_rel_def)
    have "(j, j) \<notin> (parent_rel tasks)\<^sup>+"
      using later rel by (metis insertI1 tranclD)
    moreover have "x = j \<or> (\<exists>p. parent_of tasks j = Some p \<and> (p, x) \<in> (parent_rel tasks)\<^sup>*)"
      using "2.prems"(3) ij rel by (metis converse_rtranclE)
    ultimately show ?case using later j by auto
  qed simp
  with assms show ?thesis by blast
qed

text \<open>A parent link that passes validation keeps the candidate off every ancestor chain.\<close>

lemma validate_parent_link_ok:
  assumes "validate_parent_link candidate tasks = Inr ()" "t_parent_task_id candidate = Some p"
  shows "p \<in> task_ids tasks \<and> p \<noteq> t_id candidate \<and>
    (\<forall>x. (p, x) \<in> (parent_rel tasks)\<^sup>* \<longrightarrow> x \<noteq> t_id candidate \<and> (x, x) \<notin> (parent_rel tasks)\<^sup>+) \<and>
    (\<exists>t \<in> set tasks. t_id t = p \<and> t_mission_id t = t_mission_id candidate)"
proof -
  from assms obtain t where "find_task p tasks = Some t" "t_mission_id t = t_mission_id candidate"
    "p \<noteq> t_id candidate" and chain: "parent_chain tasks (t_id candidate) (Some p) {} = Inr ()"
    by (auto simp: validate_parent_link_def split: option.splits if_splits)
  with parent_chain_ok [OF chain] show ?thesis
    by (auto simp: task_ids_def dest!: find_task_SomeD)
qed

section \<open>The dependency relation of a task list\<close>

definition task_deps :: "task_view list \<Rightarrow> (task_id \<times> task_id) set" where
  "task_deps tasks = {(t_id t, d) | t d. t \<in> set tasks \<and> d \<in> set (t_dependencies t)}"

definition deps_in_mission :: "task_view list \<Rightarrow> bool" where
  "deps_in_mission tasks \<longleftrightarrow>
     (\<forall>t \<in> set tasks. \<forall>d \<in> set (t_dependencies t).
        \<exists>u \<in> set tasks. t_id u = d \<and> t_mission_id u = t_mission_id t)"

text \<open>The dependency graph a snapshot may hold: ids identify tasks, dependencies exist in the
  same mission, there is no cycle.\<close>

definition task_dag :: "task_view list \<Rightarrow> bool" where
  "task_dag tasks \<longleftrightarrow>
     distinct (map t_id tasks) \<and> deps_in_mission tasks \<and> acyclic (task_deps tasks)"

lemma map_of_dep_graph:
  "distinct (map t_id tasks) \<Longrightarrow>
     map_of (dep_graph_of tasks) i = map_option t_dependencies (find_task i tasks)"
proof (induction tasks)
  case (Cons t tasks)
  then have "find_task (t_id t) tasks = None"
    by (simp add: find_task_None_iff task_ids_def)
  with Cons show ?case
    by (auto simp: dep_graph_of_def find_task_def map_add_def map_of_append split: option.split)
qed (simp add: dep_graph_of_def find_task_def)

lemma dep_edges_task_deps:
  assumes "distinct (map t_id tasks)"
  shows "dep_edges (dep_graph_of tasks) = task_deps tasks"
proof -
  have "(x, y) \<in> dep_edges (dep_graph_of tasks) \<longleftrightarrow> (x, y) \<in> task_deps tasks" for x y
    using map_of_dep_graph [OF assms, of x] find_task_mem [OF assms]
    by (auto simp: dep_edges_def task_deps_def dest!: find_task_SomeD)
  then show ?thesis by auto
qed

lemma acyclic_insert_node:
  assumes "acyclic R" "\<And>x. (x, i) \<notin> R" "i \<notin> D"
  shows "acyclic (R \<union> {i} \<times> D)"
proof (rule acyclicI, intro allI notI)
  fix x assume "(x, x) \<in> (R \<union> {i} \<times> D)\<^sup>+"
  moreover have no: "(x, i) \<notin> R \<union> {i} \<times> D" for x using assms by auto
  have "(x, y) \<in> R\<^sup>+ \<or> x = i" if "(x, y) \<in> (R \<union> {i} \<times> D)\<^sup>+" for x y
    using that
  proof (induction rule: converse_trancl_induct)
    case (step x y)
    with no show ?case by (auto intro: trancl_into_trancl2)
  qed auto
  moreover have "(x, i) \<notin> (R \<union> {i} \<times> D)\<^sup>+" for x using no by (metis tranclD2)
  ultimately show False using assms(1) by (metis acyclic_def)
qed

section \<open>What validation establishes\<close>

text \<open>The part of a task the dependency and parent structure depends on.\<close>

definition task_shape ::
    "task_view \<Rightarrow> task_id \<times> mission_id \<times> task_id list \<times> task_id option" where
  "task_shape t = (t_id t, t_mission_id t, t_dependencies t, t_parent_task_id t)"

lemma task_shape_structure:
  assumes "map task_shape tasks' = map task_shape tasks"
  shows "map t_id tasks' = map t_id tasks" "task_deps tasks' = task_deps tasks"
    "deps_in_mission tasks' = deps_in_mission tasks"
proof -
  have f: "map (f \<circ> task_shape) tasks' = map (f \<circ> task_shape) tasks" for f
    using assms by (metis map_map)
  show "map t_id tasks' = map t_id tasks"
    using f [of fst] by (simp add: comp_def task_shape_def)
  have s: "task_shape ` set tasks' = task_shape ` set tasks"
    using assms by (metis list.set_map)
  have deps: "task_deps ts = (\<Union>(i, m, ds, p) \<in> task_shape ` set ts. {i} \<times> set ds)" for ts
    by (auto simp: task_deps_def task_shape_def)
  show "task_deps tasks' = task_deps tasks" by (simp add: deps s)
  have miss: "deps_in_mission ts \<longleftrightarrow> (\<forall>(i, m, ds, p) \<in> task_shape ` set ts. \<forall>d \<in> set ds.
      \<exists>(i', m', _) \<in> task_shape ` set ts. i' = d \<and> m' = m)" for ts
    by (fastforce simp: deps_in_mission_def task_shape_def)
  show "deps_in_mission tasks' = deps_in_mission tasks" by (simp add: miss s)
qed

lemma task_dag_shape:
  "map task_shape tasks' = map task_shape tasks \<Longrightarrow> task_dag tasks' \<longleftrightarrow> task_dag tasks"
  using task_shape_structure [of tasks' tasks] by (simp add: task_dag_def)

lemma validate_task_view_ok:
  assumes "validate_task_view c tasks = Inr ()"
  shows "\<forall>d \<in> set (t_dependencies c). d \<in> task_ids tasks"
    and "\<forall>t \<in> set tasks. t_id t \<in> set (t_dependencies c) \<longrightarrow> t_mission_id t = t_mission_id c"
    and "t_id c \<notin> set (t_dependencies c)"
    and "acyclic (dep_edges ((t_id c, t_dependencies c) # dep_graph_of tasks))"
    and "validate_parent_link c tasks = Inr ()"
proof -
  note v = assms [unfolded validate_task_view_def]
  show "\<forall>d \<in> set (t_dependencies c). d \<in> task_ids tasks"
    using v by (auto simp: list_ex_iff task_ids_def split: if_splits sum.splits)
  show "\<forall>t \<in> set tasks. t_id t \<in> set (t_dependencies c) \<longrightarrow> t_mission_id t = t_mission_id c"
    using v by (auto simp: list_ex_iff split: if_splits sum.splits)
  show "t_id c \<notin> set (t_dependencies c)" "validate_parent_link c tasks = Inr ()"
    using v by (auto split: if_splits sum.splits)
  have "\<not> any (\<lambda>i. fst (dfs_cycle ((t_id c, t_dependencies c) # dep_graph_of tasks) i {} {}))
      (map fst ((t_id c, t_dependencies c) # dep_graph_of tasks))"
    using v by (simp only: Let_def split: if_splits sum.splits) simp_all
  then show "acyclic (dep_edges ((t_id c, t_dependencies c) # dep_graph_of tasks))"
    by (auto simp: acyclic_iff_no_lead dfs_cycle_iff list_ex_iff)
qed

lemma update_first_same_id:
  assumes "distinct (map t_id tasks)" "find_task i tasks = Some t" "t_id c = i"
  shows "set (update_first (\<lambda>x. t_id x = i) (\<lambda>_. c) tasks) = insert c {x \<in> set tasks. t_id x \<noteq> i}"
  using assms
proof (induction tasks)
  case (Cons x xs)
  then show ?case by (cases "t_id x = i") (auto simp: find_task_def image_iff)
qed (simp add: find_task_def)

text \<open>Replacing a task by a validated candidate keeps the dependency graph a DAG.\<close>

lemma task_dag_replace:
  assumes dag: "task_dag tasks" and t: "find_task i tasks = Some t"
    and c: "t_id c = i" "t_mission_id c = t_mission_id t"
    and ok: "validate_task_view c tasks = Inr ()"
  shows "task_dag (update_first (\<lambda>x. t_id x = i) (\<lambda>_. c) tasks)" (is "task_dag ?new")
proof -
  have dist: "distinct (map t_id tasks)" using dag by (simp add: task_dag_def)
  have set: "set ?new = insert c {x \<in> set tasks. t_id x \<noteq> i}"
    by (rule update_first_same_id [OF dist t c(1)])
  have ids: "map t_id ?new = map t_id tasks" by (rule map_update_first) (simp add: c(1))
  have mem: "\<exists>u' \<in> set ?new. t_id u' = t_id u \<and> t_mission_id u' = t_mission_id u"
    if "u \<in> set tasks" for u
    using that set c find_task_mem [OF dist that] t by (cases "t_id u = i") auto
  have old: "\<exists>u \<in> set tasks. t_id u = d \<and> t_mission_id u = t_mission_id x"
    if "x \<in> set ?new" "d \<in> set (t_dependencies x)" for x d
  proof (cases "x = c")
    case True
    with that validate_task_view_ok(1,2) [OF ok] show ?thesis
      by (simp add: task_ids_def image_iff) metis
  next
    case False
    with that dag set show ?thesis by (auto simp: task_dag_def deps_in_mission_def)
  qed
  have mission: "deps_in_mission ?new"
    unfolding deps_in_mission_def using old mem by metis
  have "task_deps ?new = dep_edges ((i, t_dependencies c) # dep_graph_of tasks)"
    using c(1) by (auto simp: task_deps_def set dep_edges_def map_of_dep_graph [OF dist]
        find_task_mem [OF dist] dest!: find_task_SomeD split: if_splits)
  then show ?thesis
    using validate_task_view_ok(4) [OF ok] dist ids mission c(1) by (simp add: task_dag_def)
qed

text \<open>So does adding a task under an id no task has.\<close>

lemma task_dag_append:
  assumes dag: "task_dag tasks" and new: "t_id c \<notin> task_ids tasks"
    and deps: "\<forall>d \<in> set (t_dependencies c). \<exists>u \<in> set tasks. t_id u = d \<and> t_mission_id u = t_mission_id c"
  shows "task_dag (tasks @ [c])"
proof -
  have "deps_in_mission (tasks @ [c])"
    using dag deps by (auto simp: task_dag_def deps_in_mission_def)
  moreover have "task_deps (tasks @ [c]) = task_deps tasks \<union> {t_id c} \<times> set (t_dependencies c)"
    by (auto simp: task_deps_def)
  moreover have "acyclic (task_deps tasks \<union> {t_id c} \<times> set (t_dependencies c))"
  proof (rule acyclic_insert_node)
    show "(x, t_id c) \<notin> task_deps tasks" for x
      using dag new
      by (simp add: task_dag_def deps_in_mission_def task_deps_def task_ids_def image_iff) metis
    show "t_id c \<notin> set (t_dependencies c)"
      using deps new by (simp add: task_ids_def image_iff) metis
  qed (use dag in \<open>simp add: task_dag_def\<close>)
  ultimately show ?thesis using dag new by (auto simp: task_dag_def task_ids_def)
qed

lemma validate_task_spec_ok:
  assumes "validate_task_spec spec tasks = Inr ()"
  shows "\<forall>d \<in> set (ts_dependencies spec).
      \<exists>u \<in> set tasks. t_id u = d \<and> t_mission_id u = ts_mission_id spec"
    and "validate_task_view (task_candidate spec) tasks = Inr ()"
  using assms by (auto simp: validate_task_spec_def list_ex_iff split: if_splits)

end
