(* ===== verification/Environment.thy ===== *)
theory Environment
  imports Commands
begin

text \<open>
  What a command handler reads besides the snapshot, and the shared helpers of
  \<open>frank-orchestrator/src/helpers.rs\<close> and \<open>git.rs\<close>.

  \<open>env\<close> collects the code outside the repository: the wall clock, the random UUIDs and their
  text form (crate \<open>uuid\<close>), JSON texts of operation payloads (\<open>serde_json\<close>), the file
  system, the provider's model catalog, the Git executable, the keychain and the SQLite tables
  a handler reads. Laws a property needs are
  stated as hypotheses on these fields (\<open>uuid_text\<close>, \<open>fresh_uuids\<close>, \<open>worktree_json\<close>).
  A command reads the clock once in the model; no handler compares two readings.

  \<open>world\<close> is the snapshot with a ghost counter of the UUIDs drawn so far, so that every
  \<open>Id::new()\<close> of the source is one draw in the order of the source, and with the
  in-memory mailbox (\<open>w_seen\<close>, the accepted message ids).

  Paths are Unix paths as lists of components, as \<open>std::path\<close> parses them.
\<close>

section \<open>Paths\<close>

datatype component = RootDir | CurDir | ParentDir | Normal string

fun split_slash :: "string \<Rightarrow> string list" where
  "split_slash [] = [[]]"
| "split_slash (c # cs) =
     (if c = CHR ''/'' then [] # split_slash cs
      else case split_slash cs of [] \<Rightarrow> [[c]] | x # xs \<Rightarrow> (c # x) # xs)"

definition component_of :: "string \<Rightarrow> component list" where
  "component_of s = (if s = [] \<or> s = ''.'' then [] else if s = ''..'' then [ParentDir] else [Normal s])"

text \<open>\<open>Path::components\<close>: repeated separators and inner \<open>.\<close> vanish, a leading \<open>.\<close> stays.\<close>

definition components :: "string \<Rightarrow> component list" where
  "components s =
     (case split_slash s of
        [] \<Rightarrow> []
      | x # xs \<Rightarrow>
          (if x = [] \<and> xs \<noteq> [] then [RootDir] else if x = ''.'' then [CurDir] else component_of x)
            @ concat (map component_of xs))"

definition path_file_name :: "component list \<Rightarrow> string option" where
  "path_file_name p = (case rev p of Normal s # _ \<Rightarrow> Some s | _ \<Rightarrow> None)"

definition path_parent :: "component list \<Rightarrow> component list option" where
  "path_parent p = (case rev p of [] \<Rightarrow> None | RootDir # _ \<Rightarrow> None | _ # q \<Rightarrow> Some (rev q))"

definition path_starts_with :: "component list \<Rightarrow> component list \<Rightarrow> bool" where
  "path_starts_with p root \<longleftrightarrow> take (length root) p = root"

text \<open>\<open>to_string_lossy\<close> of a resolved path.\<close>

fun path_text :: "component list \<Rightarrow> string" where
  "path_text [] = []"
| "path_text (RootDir # []) = ''/''"
| "path_text (RootDir # cs) = ''/'' @ path_text cs"
| "path_text (CurDir # cs) = ''.'' @ (if cs = [] then [] else ''/'' @ path_text cs)"
| "path_text (ParentDir # cs) = ''..'' @ (if cs = [] then [] else ''/'' @ path_text cs)"
| "path_text (Normal s # cs) = s @ (if cs = [] then [] else ''/'' @ path_text cs)"

definition path_join :: "string \<Rightarrow> string \<Rightarrow> string" where
  "path_join root name =
     (if starts_with name ''/'' \<or> root = [] then name
      else if ends_with root ''/'' then root @ name else root @ ''/'' @ name)"

section \<open>Environment and world\<close>

record create_worktree_operation =
  cw_project_id :: project_id
  cw_mission_id :: mission_id
  cw_mission_branch :: string
  cw_mission_base :: string
  cw_mission_path :: string
  cw_task_id :: task_id
  cw_task_branch :: string
  cw_task_base :: string
  cw_task_path :: string

record update_artifact =
  ua_target :: string
  ua_package_kind :: string
  ua_url :: string
  ua_size :: u64
  ua_sha256 :: string

record update_manifest =
  um_schema_version :: u16
  um_frank_version :: string
  um_release_timestamp :: string
  um_protocol_min :: u16
  um_protocol_max :: u16
  um_minimum_rollback_version :: string
  um_artifacts :: "update_artifact list"
  um_release_notes_url :: string
  um_key_id :: string

datatype host_update_action = Apply | Rollback

record command_envelope =
  ce_protocol_version :: u16
  ce_command_id :: command_id
  ce_expected_revision :: "u64 option"
  ce_command :: command

record env =
  e_now :: timestamp
  e_epoch_seconds :: nat
  e_uuid :: "nat \<Rightarrow> uuid"
  e_uuid_text :: "uuid \<Rightarrow> string"
  e_uuid_parse :: "string \<Rightarrow> uuid option"
  e_worktree_encode :: "create_worktree_operation \<Rightarrow> string + string"
  e_worktree_decode :: "string \<Rightarrow> create_worktree_operation option"
  e_exists :: "component list \<Rightarrow> bool"
  e_canonicalize :: "component list \<Rightarrow> component list option"
  e_is_dir :: "component list \<Rightarrow> bool"
  e_model_catalog :: "string + (string \<times> string option) list"
  e_json_text :: "json \<Rightarrow> string"
  e_connector_secret :: "connector_profile_id \<Rightarrow> string + string option"
  e_sha256 :: "string \<Rightarrow> string"
  e_memory_encode :: "agent_id \<Rightarrow> string \<Rightarrow> string \<Rightarrow> string + string"
  e_memory_read :: "agent_id \<Rightarrow> string \<Rightarrow> string + string option"
  e_validate_repository :: "project_view \<Rightarrow> string option"
  e_upload_bytes :: "upload_id \<Rightarrow> store_error + string option"
  e_max_message_bytes :: nat
  e_update_manifest :: "string + update_manifest"
  e_package_version :: string
  e_arch :: string
  e_os :: string
  e_env_var :: "string \<Rightarrow> string option"
  e_stage_encode :: "update_id \<Rightarrow> string + string"
  e_stage_decode :: "string \<Rightarrow> update_id option"
  e_host_encode :: "update_id \<Rightarrow> host_update_action \<Rightarrow> string option"
  e_host_decode :: "string \<Rightarrow> (update_id \<times> host_update_action) option"
  e_envelope_json :: "command_envelope \<Rightarrow> string option"

text \<open>Documented behaviour of the crates behind the parameters.\<close>

definition uuid_text :: "env \<Rightarrow> bool" where
  "uuid_text env \<longleftrightarrow> (\<forall>u. e_uuid_parse env (e_uuid_text env u) = Some u)"

definition fresh_uuids :: "env \<Rightarrow> bool" where
  "fresh_uuids env \<longleftrightarrow> inj (e_uuid env) \<and> nil_uuid \<notin> range (e_uuid env)"

definition worktree_json :: "env \<Rightarrow> bool" where
  "worktree_json env \<longleftrightarrow>
     (\<forall>r s. e_worktree_encode env r = Inr s \<longrightarrow> e_worktree_decode env s = Some r)"

record world = snapshot +
  w_drawn :: nat
  w_seen :: "message_id set"

definition next_uuid :: "env \<Rightarrow> world \<Rightarrow> uuid" where
  "next_uuid env s = e_uuid env (w_drawn s)"

definition drew :: "world \<Rightarrow> world" where
  "drew s = s\<lparr>w_drawn := Suc (w_drawn s)\<rparr>"

definition show_agent_id :: "env \<Rightarrow> agent_id \<Rightarrow> string" where
  "show_agent_id env a = e_uuid_text env (agent_uuid a)"

definition show_task_id :: "env \<Rightarrow> task_id \<Rightarrow> string" where
  "show_task_id env t = e_uuid_text env (task_uuid t)"

definition parse_agent_id :: "env \<Rightarrow> string \<Rightarrow> agent_id option" where
  "parse_agent_id env s = map_option AgentId (e_uuid_parse env s)"

text \<open>\<open>actor.id.as_deref().and_then(|id| AgentId::parse(id).ok())\<close>\<close>

definition actor_agent :: "env \<Rightarrow> actor_ref \<Rightarrow> agent_id option" where
  "actor_agent env actor = Option.bind (ac_id actor) (parse_agent_id env)"

lemma uuid_text_inj: "uuid_text env \<Longrightarrow> e_uuid_text env u = e_uuid_text env v \<longleftrightarrow> u = v"
  unfolding uuid_text_def by (metis option.inject)

lemma actor_agent_show:
  "uuid_text env \<Longrightarrow> ac_id actor = Some (show_agent_id env a) \<Longrightarrow> actor_agent env actor = Some a"
  by (cases a) (simp add: actor_agent_def parse_agent_id_def show_agent_id_def uuid_text_def)

section \<open>Path checks\<close>

text \<open>The \<open>while symlink_metadata(current).is_err()\<close> loop of \<open>canonicalize_allow_missing\<close>
  collects the missing names, then the existing ancestor is resolved.\<close>

function canonicalize_loop :: "env \<Rightarrow> component list \<Rightarrow> string list \<Rightarrow> component list option" where
  "canonicalize_loop env current missing =
     (if e_exists env current
      then map_option (\<lambda>r. r @ map Normal (rev missing)) (e_canonicalize env current)
      else case path_file_name current of
        None \<Rightarrow> None
      | Some name \<Rightarrow>
          (case path_parent current of
             None \<Rightarrow> None
           | Some up \<Rightarrow> canonicalize_loop env up (missing @ [name])))"
  by pat_completeness auto
termination
  by (relation "measure (\<lambda>(env, current, missing). length current)")
    (auto simp: path_parent_def neq_Nil_conv split: list.splits component.splits
      dest!: arg_cong [where f = length])

declare canonicalize_loop.simps [simp del]

definition canonicalize_allow_missing :: "env \<Rightarrow> component list \<Rightarrow> component list option" where
  "canonicalize_allow_missing env path = canonicalize_loop env path []"

definition is_allowed_path :: "env \<Rightarrow> string \<Rightarrow> string list \<Rightarrow> bool" where
  "is_allowed_path env path roots \<longleftrightarrow>
     (if blank path \<or> 4096 < length path \<or> has_control path then False
      else if roots = [] then True
      else case canonicalize_allow_missing env (components path) of
        None \<Rightarrow> False
      | Some candidate \<Rightarrow>
          any (\<lambda>root. case canonicalize_allow_missing env (components root) of
                 None \<Rightarrow> False | Some r \<Rightarrow> path_starts_with candidate r) roots)"

definition safe_path_within :: "env \<Rightarrow> string \<Rightarrow> string \<Rightarrow> bool" where
  "safe_path_within env path root \<longleftrightarrow>
     (case canonicalize_allow_missing env (components root) of
        None \<Rightarrow> False
      | Some r \<Rightarrow>
          (case canonicalize_allow_missing env (components path) of
             None \<Rightarrow> False | Some candidate \<Rightarrow> path_starts_with candidate r))"

section \<open>Git workflow\<close>

datatype git_error = OutsideAllowedRoot

definition git_error_text :: "git_error \<Rightarrow> string" where
  "git_error_text e = ''configured path is outside the allowed project roots''"

record git_workflow =
  gw_project :: project_view
  gw_allowed_roots :: "string list"

record worktree_plan =
  wp_branch :: string
  wp_path :: string
  wp_base :: string

definition git_workflow_new :: "env \<Rightarrow> project_view \<Rightarrow> string list \<Rightarrow> git_error + git_workflow" where
  "git_workflow_new env project allowed_roots =
     (if allowed_roots \<noteq> [] \<and> \<not> any (\<lambda>root. safe_path_within env (p_path project) root) allowed_roots
      then Inl OutsideAllowedRoot
      else if p_worktree_root project \<noteq> [] \<and> allowed_roots \<noteq> []
           \<and> \<not> any (\<lambda>root. safe_path_within env (p_worktree_root project) root) allowed_roots
      then Inl OutsideAllowedRoot
      else Inr \<lparr>gw_project = project, gw_allowed_roots = allowed_roots\<rparr>)"

definition worktree_root :: "git_workflow \<Rightarrow> string" where
  "worktree_root w =
     (if p_worktree_root (gw_project w) = []
      then path_join (p_path (gw_project w)) ''.frank-worktrees''
      else p_worktree_root (gw_project w))"

definition dashed :: "string \<Rightarrow> string" where
  \<comment> \<open>\<open>branch.replace('/', "-")\<close>\<close>
  "dashed s = map (\<lambda>c. if c = CHR ''/'' then CHR ''-'' else c) s"

definition branch_plan :: "git_workflow \<Rightarrow> string \<Rightarrow> string \<Rightarrow> worktree_plan" where
  "branch_plan w branch base =
     \<lparr>wp_branch = branch, wp_path = path_join (worktree_root w) (dashed branch), wp_base = base\<rparr>"

definition task_plan_from_base :: "env \<Rightarrow> git_workflow \<Rightarrow> task_id \<Rightarrow> string \<Rightarrow> worktree_plan" where
  "task_plan_from_base env w task_id base =
     (let branch = ''frank/task-'' @ show_task_id env task_id in
      \<lparr>wp_branch = branch, wp_path = path_join (worktree_root w) (dashed branch), wp_base = base\<rparr>)"

section \<open>Helpers\<close>

definition worktree_operation_matches_task :: "env \<Rightarrow> operation_view \<Rightarrow> task_id \<Rightarrow> bool" where
  "worktree_operation_matches_task env operation task_id \<longleftrightarrow>
     op_kind operation = operation_kind.CreateWorktree \<and>
     (case e_worktree_decode env (op_resource operation) of
        Some request \<Rightarrow> cw_task_id request = task_id
      | None \<Rightarrow> op_resource operation = show_task_id env task_id)"

definition now_plus_seconds :: "env \<Rightarrow> u64 \<Rightarrow> nat" where
  "now_plus_seconds env seconds = e_epoch_seconds env + unat seconds"

definition same_actor :: "actor_ref \<Rightarrow> actor_ref \<Rightarrow> bool" where
  "same_actor l r \<longleftrightarrow> ac_kind l = ac_kind r \<and> ac_id l = ac_id r"

definition is_merge_conflict_error :: "string \<Rightarrow> bool" where
  "is_merge_conflict_error m \<longleftrightarrow>
     (let message = to_ascii_lowercase m in
      contains_str message ''conflict''
      \<or> contains_str message ''automatic merge failed''
      \<or> (contains_str message ''merge --squash'' \<and> contains_str message ''unmerged''))"

text \<open>\<open>chars()\<close> of a UTF-8 string: a character starts at every byte outside 80-BF.\<close>

definition continuation_byte :: "char \<Rightarrow> bool" where
  "continuation_byte d \<longleftrightarrow> 128 \<le> (of_char d :: nat) \<and> (of_char d :: nat) < 192"

function chars :: "string \<Rightarrow> string list" where
  "chars [] = []"
| "chars (c # cs) =
     (c # takeWhile continuation_byte cs) # chars (dropWhile continuation_byte cs)"
  by pat_completeness auto
termination
  by (relation "measure length") (auto simp: le_imp_less_Suc length_dropWhile_le)

definition is_ascii_alphanumeric :: "string \<Rightarrow> bool" where
  "is_ascii_alphanumeric s \<longleftrightarrow>
     (case s of [c] \<Rightarrow> (let a = (of_char c :: nat) in
        (48 \<le> a \<and> a \<le> 57) \<or> (65 \<le> a \<and> a \<le> 90) \<or> (97 \<le> a \<and> a \<le> 122)) | _ \<Rightarrow> False)"

fun slug_loop :: "string list \<Rightarrow> string \<Rightarrow> string" where
  "slug_loop [] result = result"
| "slug_loop (c # cs) result =
     slug_loop cs
       (if is_ascii_alphanumeric c then result @ to_ascii_lowercase c
        else if \<not> ends_with result ''-'' then result @ ''-'' else result)"

definition trim_dashes :: "string \<Rightarrow> string" where
  "trim_dashes s =
     rev (dropWhile (\<lambda>c. c = CHR ''-'') (rev (dropWhile (\<lambda>c. c = CHR ''-'') s)))"

definition slug :: "string \<Rightarrow> string" where
  "slug value =
     (let r = trim_dashes (slug_loop (take 32 (chars value)) []) in
      if r = [] then ''mission'' else r)"

definition validate_openrouter_model :: "env \<Rightarrow> string option \<Rightarrow> unit orch_result" where
  "validate_openrouter_model env model =
     (case model of
        None \<Rightarrow> Inr ()
      | Some m \<Rightarrow>
          if blank m then Inl (Validation ''provider model cannot be empty'')
          else case e_model_catalog env of
            Inl e \<Rightarrow> Inl (ProviderUnavailable e)
          | Inr catalog \<Rightarrow>
              if any (\<lambda>(i, canonical). (case canonical of None \<Rightarrow> i | Some c \<Rightarrow> c) = m) catalog
              then Inr ()
              else Inl (Validation (''provider model '' @ [CHR 0x27] @ m @ [CHR 0x27] @ '' is not available in the current catalog'')))"

end
