(* ===== verification/Organization.thy ===== *)
theory Organization
  imports TaskGraph Environment
begin

text \<open>
  The published Organization graph as the runtime reads it (\<open>validate.rs\<close>), the tool
  permission table of \<open>frank-tool-catalog\<close>, graph validation
  (\<open>reduce/organization/validation.rs\<close>) and the draft, publish and connector profile
  handlers (\<open>reduce/organization/graph.rs\<close>, \<open>connector.rs\<close>).
\<close>

section \<open>Lookups in the published graph\<close>

definition node_is_v2 :: "organization_node \<Rightarrow> bool" where
  "node_is_v2 n \<longleftrightarrow> n_kind n \<in> {organization_node_kind.Role, organization_node_kind.Taskboard,
     organization_node_kind.ChildWorkflow}"

definition staff_node :: "organization_graph \<Rightarrow> agent_id \<Rightarrow> organization_node option" where
  "staff_node graph agent_id =
     find (\<lambda>n. n_kind n = organization_node_kind.Staff \<and> n_agent_id n = Some agent_id) (g_nodes graph)"

definition active_agent :: "'z snapshot_scheme \<Rightarrow> agent_id \<Rightarrow> agent_view option" where
  "active_agent s agent_id = find (\<lambda>a. a_id a = agent_id \<and> \<not> a_archived a) (s_agents s)"

definition has_active_agent :: "'z snapshot_scheme \<Rightarrow> agent_id \<Rightarrow> bool" where
  "has_active_agent s agent_id \<longleftrightarrow> any (\<lambda>a. a_id a = agent_id \<and> \<not> a_archived a) (s_agents s)"

definition has_active_role :: "'z snapshot_scheme \<Rightarrow> role_id \<Rightarrow> bool" where
  "has_active_role s role_id \<longleftrightarrow> any (\<lambda>r. r_id r = role_id \<and> \<not> r_archived r) (s_roles s)"

definition organization_allows_agent :: "'z snapshot_scheme \<Rightarrow> agent_id \<Rightarrow> bool" where
  "organization_allows_agent s agent_id =
     (case o_published (s_organization s) of
        None \<Rightarrow> True
      | Some graph \<Rightarrow>
          if any (\<lambda>n. n_kind n = organization_node_kind.Staff \<and> n_agent_id n = Some agent_id) (g_nodes graph)
          then True
          else case Option.bind (active_agent s agent_id) a_role_id of
            None \<Rightarrow> False
          | Some role_id \<Rightarrow>
              any (\<lambda>n. n_kind n = organization_node_kind.Role \<and> n_role_id n = Some role_id) (g_nodes graph))"

definition organization_node_for_agent ::
    "'z snapshot_scheme \<Rightarrow> organization_graph \<Rightarrow> agent_id \<Rightarrow> organization_node option" where
  "organization_node_for_agent s graph agent_id =
     (case staff_node graph agent_id of
        Some node \<Rightarrow> Some node
      | None \<Rightarrow>
          (case Option.bind (active_agent s agent_id) a_role_id of
             None \<Rightarrow> None
           | Some role_id \<Rightarrow>
               find (\<lambda>n. n_kind n = organization_node_kind.Role \<and> n_role_id n = Some role_id)
                 (g_nodes graph)))"

definition organization_allows_handoff :: "'z snapshot_scheme \<Rightarrow> agent_id \<Rightarrow> agent_id \<Rightarrow> bool" where
  "organization_allows_handoff s source_agent_id target_agent_id =
     (if source_agent_id = target_agent_id then True
      else case o_published (s_organization s) of
        None \<Rightarrow> True
      | Some graph \<Rightarrow>
          if any node_is_v2 (g_nodes graph) then False
          else case (staff_node graph source_agent_id, staff_node graph target_agent_id) of
            (Some source, Some target) \<Rightarrow>
              any (\<lambda>r. rel_kind r = organization_relation_kind.Handoff
                     \<and> rel_source_node_id r = n_id source \<and> rel_target_node_id r = n_id target)
                (g_relations graph)
          | _ \<Rightarrow> False)"

definition organization_allows_review :: "'z snapshot_scheme \<Rightarrow> agent_id \<Rightarrow> agent_id \<Rightarrow> bool" where
  "organization_allows_review s source_agent_id reviewer_agent_id =
     (case o_published (s_organization s) of
        None \<Rightarrow> True
      | Some graph \<Rightarrow>
          if any node_is_v2 (g_nodes graph) then False
          else case (organization_node_for_agent s graph source_agent_id,
                     organization_node_for_agent s graph reviewer_agent_id) of
            (Some source, Some reviewer) \<Rightarrow>
              any (\<lambda>r. rel_kind r = organization_relation_kind.Review
                     \<and> rel_source_node_id r = n_id source \<and> rel_target_node_id r = n_id reviewer)
                (g_relations graph)
          | _ \<Rightarrow> False)"

definition organization_review_target :: "'z snapshot_scheme \<Rightarrow> agent_id \<Rightarrow> agent_id option" where
  "organization_review_target s source_agent_id =
     (case o_published (s_organization s) of
        None \<Rightarrow> None
      | Some graph \<Rightarrow>
          (case organization_node_for_agent s graph source_agent_id of
             None \<Rightarrow> None
           | Some source \<Rightarrow>
               find_map (\<lambda>r.
                 if rel_kind r \<noteq> organization_relation_kind.Review \<or> rel_source_node_id r \<noteq> n_id source
                 then None
                 else case find (\<lambda>n. n_id n = rel_target_node_id r
                                   \<and> n_kind n = organization_node_kind.Staff) (g_nodes graph) of
                   None \<Rightarrow> None
                 | Some target \<Rightarrow>
                     (case n_agent_id target of
                        None \<Rightarrow> None
                      | Some reviewer \<Rightarrow>
                          if has_active_agent s reviewer then Some reviewer else None))
                 (g_relations graph)))"

definition organization_review_contract ::
    "'z snapshot_scheme \<Rightarrow> agent_id \<Rightarrow> agent_id \<Rightarrow> (string \<times> organization_handoff_contract) option" where
  "organization_review_contract s source_agent_id reviewer_agent_id =
     (case o_published (s_organization s) of
        None \<Rightarrow> None
      | Some graph \<Rightarrow>
          (case (organization_node_for_agent s graph source_agent_id,
                 organization_node_for_agent s graph reviewer_agent_id) of
             (Some source, Some reviewer) \<Rightarrow>
               find_map (\<lambda>r.
                 if rel_kind r \<noteq> organization_relation_kind.Review
                    \<or> rel_source_node_id r \<noteq> n_id source \<or> rel_target_node_id r \<noteq> n_id reviewer
                 then None else Some (rel_id r, rel_contract r))
                 (g_relations graph)
           | _ \<Rightarrow> None))"

section \<open>Tool grants\<close>

definition organization_permission :: "string \<Rightarrow> (string \<times> string) option" where
  "organization_permission name = map_of
     [(''email_search'', ''email'', ''read''), (''email_read'', ''email'', ''read''),
      (''email_send'', ''email'', ''send''),
      (''calendar_list'', ''calendar'', ''read''), (''calendar_create'', ''calendar'', ''create''),
      (''calendar_update'', ''calendar'', ''update''),
      (''drive_search'', ''drive'', ''read''), (''drive_read'', ''drive'', ''read''),
      (''drive_write'', ''drive'', ''write''), (''drive_share'', ''drive'', ''share''),
      (''taskboard_read'', ''taskboard'', ''read''), (''taskboard_create'', ''taskboard'', ''create''),
      (''taskboard_update'', ''taskboard'', ''update''), (''taskboard_assign'', ''taskboard'', ''assign''),
      (''browser_browse'', ''browser'', ''browse''), (''browser_extract'', ''browser'', ''browse''),
      (''browser_download'', ''browser'', ''download''),
      (''terminal_execute'', ''terminal'', ''execute''), (''shell_exec'', ''terminal'', ''execute''),
      (''database_inspect'', ''database'', ''inspect''), (''database_read'', ''database'', ''read''),
      (''database_write'', ''database'', ''write'')] name"

definition organization_tool_permission :: "string \<Rightarrow> (organization_capability_kind \<times> string) option" where
  "organization_tool_permission tool =
     (case organization_permission tool of
        None \<Rightarrow> None
      | Some (capability, permission) \<Rightarrow>
          map_option (\<lambda>c. (c, permission)) (map_of
            [(''email'', organization_capability_kind.Email),
             (''calendar'', organization_capability_kind.Calendar),
             (''drive'', organization_capability_kind.Drive),
             (''browser'', organization_capability_kind.Browser),
             (''terminal'', organization_capability_kind.Terminal),
             (''database'', organization_capability_kind.Database)] capability))"

fun profile_supports :: "connector_kind \<Rightarrow> organization_capability_kind \<Rightarrow> bool" where
  "profile_supports connector_kind.GoogleWorkspace c \<longleftrightarrow>
     c \<in> {organization_capability_kind.Email, organization_capability_kind.Calendar,
          organization_capability_kind.Drive}"
| "profile_supports connector_kind.Browser c \<longleftrightarrow> c = organization_capability_kind.Browser"
| "profile_supports connector_kind.Terminal c \<longleftrightarrow> c = organization_capability_kind.Terminal"
| "profile_supports connector_kind.Postgres c \<longleftrightarrow> c = organization_capability_kind.Database"
| "profile_supports connector_kind.Sqlite c \<longleftrightarrow> c = organization_capability_kind.Database"

fun debug_capability :: "organization_capability_kind \<Rightarrow> string" where
  "debug_capability organization_capability_kind.Email = ''Email''"
| "debug_capability organization_capability_kind.Calendar = ''Calendar''"
| "debug_capability organization_capability_kind.Drive = ''Drive''"
| "debug_capability organization_capability_kind.Browser = ''Browser''"
| "debug_capability organization_capability_kind.Terminal = ''Terminal''"
| "debug_capability organization_capability_kind.Database = ''Database''"

definition active_profile ::
    "'z snapshot_scheme \<Rightarrow> connector_profile_id \<Rightarrow> connector_profile_view option" where
  "active_profile s profile_id =
     find (\<lambda>p. cp_id p = profile_id \<and> \<not> cp_archived p) (o_connector_profiles (s_organization s))"

text \<open>The closure over the relations in \<open>organization_tool_denial\<close>.\<close>

definition relation_grants_tool ::
    "'z snapshot_scheme \<Rightarrow> organization_graph \<Rightarrow> organization_node \<Rightarrow> organization_capability_kind
       \<Rightarrow> string \<Rightarrow> organization_relation \<Rightarrow> bool" where
  "relation_grants_tool s graph staff capability permission r \<longleftrightarrow>
     (if rel_kind r \<noteq> organization_relation_kind.ToolAccess
         \<or> rel_source_node_id r \<noteq> n_id staff
         \<or> \<not> any (\<lambda>v. v = permission) (rel_permissions r)
      then False
      else case find (\<lambda>n. n_id n = rel_target_node_id r) (g_nodes graph) of
        None \<Rightarrow> False
      | Some node \<Rightarrow>
          if n_kind node \<noteq> organization_node_kind.Capability \<or> n_capability node \<noteq> Some capability
          then False
          else case n_connector_profile_id node of
            None \<Rightarrow> False
          | Some profile_id \<Rightarrow>
              (case active_profile s profile_id of
                 None \<Rightarrow> False
               | Some profile \<Rightarrow>
                   cp_health profile \<noteq> connector_health.Unhealthy
                   \<and> profile_supports (cp_kind profile) capability))"

definition organization_tool_denial :: "'z snapshot_scheme \<Rightarrow> agent_id \<Rightarrow> string \<Rightarrow> string option" where
  "organization_tool_denial s agent_id tool =
     (case organization_tool_permission tool of
        None \<Rightarrow> None
      | Some (capability, permission) \<Rightarrow>
          (case o_published (s_organization s) of
             None \<Rightarrow> None
           | Some graph \<Rightarrow>
               (case organization_node_for_agent s graph agent_id of
                  None \<Rightarrow> Some ''agent is not present on a published Organization staff node''
                | Some staff \<Rightarrow>
                    if any (relation_grants_tool s graph staff capability permission) (g_relations graph)
                    then None
                    else Some (''Organization tool grant is missing: '' @ tool @ '' requires ''
                           @ permission @ '' on '' @ debug_capability capability))))"

definition relation_tool_profile ::
    "'z snapshot_scheme \<Rightarrow> organization_graph \<Rightarrow> organization_node \<Rightarrow> organization_capability_kind
       \<Rightarrow> string \<Rightarrow> organization_relation \<Rightarrow> connector_profile_view option" where
  "relation_tool_profile s graph staff capability permission r =
     (if rel_kind r \<noteq> organization_relation_kind.ToolAccess
         \<or> rel_source_node_id r \<noteq> n_id staff
         \<or> \<not> any (\<lambda>v. v = permission) (rel_permissions r)
      then None
      else case find (\<lambda>n. n_id n = rel_target_node_id r
                        \<and> n_kind n = organization_node_kind.Capability
                        \<and> n_capability n = Some capability) (g_nodes graph) of
        None \<Rightarrow> None
      | Some node \<Rightarrow>
          (case n_connector_profile_id node of
             None \<Rightarrow> None
           | Some profile_id \<Rightarrow> active_profile s profile_id))"

definition organization_tool_profile ::
    "'z snapshot_scheme \<Rightarrow> agent_id \<Rightarrow> string \<Rightarrow> connector_profile_view option" where
  "organization_tool_profile s agent_id tool =
     (case organization_tool_permission tool of
        None \<Rightarrow> None
      | Some (capability, permission) \<Rightarrow>
          (case o_published (s_organization s) of
             None \<Rightarrow> None
           | Some graph \<Rightarrow>
               (case organization_node_for_agent s graph agent_id of
                  None \<Rightarrow> None
                | Some staff \<Rightarrow>
                    find_map (relation_tool_profile s graph staff capability permission)
                      (g_relations graph))))"

section \<open>Graph validation\<close>

text \<open>An \<open>f64\<close> is finite when its exponent is not all ones; a finite one is at most zero when
  its sign bit is set or it is \<open>+0.0\<close>.\<close>

definition f64_is_finite :: "f64_bits \<Rightarrow> bool" where
  "f64_is_finite x \<longleftrightarrow> take_bit 11 (drop_bit 52 x) \<noteq> 0x7FF"

definition f64_le_zero :: "f64_bits \<Rightarrow> bool" where
  "f64_le_zero x \<longleftrightarrow> bit x 63 \<or> x = 0"

definition graph_is_v2 :: "organization_graph \<Rightarrow> bool" where
  "graph_is_v2 graph \<longleftrightarrow>
     any node_is_v2 (g_nodes graph)
     \<or> any (\<lambda>r. rel_kind r \<in> {organization_relation_kind.Pickup, organization_relation_kind.Drop,
                 organization_relation_kind.Rework}) (g_relations graph)"

fun validate_groups :: "organization_group list \<Rightarrow> string set \<Rightarrow> (string set) orch_result" where
  "validate_groups [] group_ids = Inr group_ids"
| "validate_groups (g # gs) group_ids =
     (if blank (gr_id g) \<or> gr_id g \<in> group_ids \<or> \<not> valid_agent_text (gr_label g) 256
         \<or> 64 < length (gr_tone g) \<or> has_control (gr_tone g)
      then Inl (Validation ''organization group ids must be unique and non-empty'')
      else if \<not> f64_is_finite (pt_x (gr_position g)) \<or> \<not> f64_is_finite (pt_y (gr_position g))
         \<or> \<not> f64_is_finite (sz_width (gr_size g)) \<or> \<not> f64_is_finite (sz_height (gr_size g))
         \<or> f64_le_zero (sz_width (gr_size g)) \<or> f64_le_zero (sz_height (gr_size g))
      then Inl (Validation ''organization group geometry is invalid'')
      else validate_groups gs (insert (gr_id g) group_ids))"

fun profile_compatible :: "organization_capability_kind \<Rightarrow> connector_kind \<Rightarrow> bool" where
  "profile_compatible c connector_kind.GoogleWorkspace \<longleftrightarrow>
     c = organization_capability_kind.Email \<or> c = organization_capability_kind.Calendar
     \<or> c = organization_capability_kind.Drive"
| "profile_compatible c connector_kind.Browser \<longleftrightarrow> c = organization_capability_kind.Browser"
| "profile_compatible c connector_kind.Terminal \<longleftrightarrow> c = organization_capability_kind.Terminal"
| "profile_compatible c connector_kind.Postgres \<longleftrightarrow> c = organization_capability_kind.Database"
| "profile_compatible c connector_kind.Sqlite \<longleftrightarrow> c = organization_capability_kind.Database"

text \<open>The \<open>match node.kind\<close> of \<open>validate_graph\<close>; the result is the updated set of staff
  agents.\<close>

definition validate_node_kind ::
    "'z snapshot_scheme \<Rightarrow> bool \<Rightarrow> organization_node \<Rightarrow> agent_id set \<Rightarrow> (agent_id set) orch_result" where
  "validate_node_kind s publish node agent_ids =
     (case n_kind node of
        organization_node_kind.Staff \<Rightarrow>
          if n_capability node \<noteq> None \<or> n_connector_profile_id node \<noteq> None
             \<or> n_profile_ref node \<noteq> None \<or> n_role_id node \<noteq> None
             \<or> n_taskboard_id node \<noteq> None \<or> n_child_workflow_id node \<noteq> None
          then Inl (Validation ''staff organization nodes may reference only an agent'')
          else (case n_agent_id node of
             None \<Rightarrow> Inl (Validation ''staff organization nodes require an agent'')
           | Some agent_id \<Rightarrow>
               if agent_id \<in> agent_ids
               then Inl (Validation ''an agent may appear only once in Organization'')
               else if \<not> has_active_agent s agent_id then Inl NotFound
               else Inr (insert agent_id agent_ids))
      | organization_node_kind.Capability \<Rightarrow>
          if n_agent_id node \<noteq> None \<or> n_role_id node \<noteq> None \<or> n_taskboard_id node \<noteq> None
             \<or> n_child_workflow_id node \<noteq> None \<or> n_profile_ref node \<noteq> None
          then Inl (Validation ''capability organization nodes may reference only a capability and connector profile'')
          else (case n_capability node of
             None \<Rightarrow> Inl (Validation ''capability organization nodes require a capability kind'')
           | Some capability \<Rightarrow>
               (case n_connector_profile_id node of
                  None \<Rightarrow>
                    if publish
                    then Inl (Validation ''published capabilities require a connector profile'')
                    else Inr agent_ids
                | Some profile_id \<Rightarrow>
                    (case active_profile s profile_id of
                       None \<Rightarrow> Inl NotFound
                     | Some profile \<Rightarrow>
                         if publish \<and> cp_health profile = connector_health.Unhealthy
                         then Inl (Validation ''published Organization cannot reference an unhealthy connector profile'')
                         else if \<not> profile_compatible capability (cp_kind profile)
                         then Inl (Validation ''connector profile is incompatible with capability'')
                         else Inr agent_ids)))
      | organization_node_kind.Approval \<Rightarrow>
          Inl (Validation ''Approval nodes are retired; use a Taskboard question/review'')
      | organization_node_kind.Role \<Rightarrow>
          if n_agent_id node \<noteq> None \<or> n_capability node \<noteq> None
             \<or> n_connector_profile_id node \<noteq> None \<or> n_profile_ref node \<noteq> None
             \<or> n_taskboard_id node \<noteq> None \<or> n_child_workflow_id node \<noteq> None
          then Inl (Validation ''role organization nodes may reference a role only'')
          else (case n_role_id node of
             None \<Rightarrow> Inl (Validation ''role organization nodes require a role'')
           | Some role_id \<Rightarrow>
               if \<not> has_active_role s role_id then Inl NotFound else Inr agent_ids)
      | organization_node_kind.Taskboard \<Rightarrow>
          if n_agent_id node \<noteq> None \<or> n_capability node \<noteq> None \<or> n_role_id node \<noteq> None
             \<or> n_child_workflow_id node \<noteq> None \<or> n_connector_profile_id node \<noteq> None
             \<or> n_profile_ref node \<noteq> None
          then Inl (Validation ''taskboard organization nodes may reference only an internal board'')
          else (case n_taskboard_id node of
             None \<Rightarrow> Inl (Validation ''taskboard organization nodes require a taskboard'')
           | Some board_id \<Rightarrow>
               if \<not> any (\<lambda>b. b_id b = board_id \<and> \<not> b_archived b) (s_taskboards s)
               then Inl NotFound else Inr agent_ids)
      | organization_node_kind.ChildWorkflow \<Rightarrow>
          if n_agent_id node \<noteq> None \<or> n_capability node \<noteq> None
             \<or> n_connector_profile_id node \<noteq> None \<or> n_profile_ref node \<noteq> None
             \<or> n_role_id node \<noteq> None \<or> n_taskboard_id node \<noteq> None
          then Inl (Validation ''child workflow nodes may reference a workflow only'')
          else if n_child_workflow_id node = None
          then Inl (Validation ''child workflow nodes require a workflow'')
          else Inr agent_ids)"

fun validate_nodes ::
    "'z snapshot_scheme \<Rightarrow> bool \<Rightarrow> string set \<Rightarrow> organization_node list \<Rightarrow> string set \<Rightarrow> agent_id set
       \<Rightarrow> unit orch_result" where
  "validate_nodes s publish group_ids [] node_ids agent_ids = Inr ()"
| "validate_nodes s publish group_ids (node # nodes) node_ids agent_ids =
     (if blank (n_id node) \<or> n_id node \<in> node_ids \<or> \<not> valid_agent_text (n_label node) 256
      then Inl (Validation ''organization node ids must be unique and non-empty'')
      else if \<not> f64_is_finite (pt_x (n_position node)) \<or> \<not> f64_is_finite (pt_y (n_position node))
      then Inl (Validation ''organization node coordinates must be finite'')
      else if (case n_group_id node of None \<Rightarrow> False | Some g \<Rightarrow> g \<notin> group_ids)
      then Inl (Validation ''organization node references an unknown group'')
      else case validate_node_kind s publish node agent_ids of
        Inl e \<Rightarrow> Inl e
      | Inr agent_ids' \<Rightarrow>
          validate_nodes s publish group_ids nodes (insert (n_id node) node_ids) agent_ids')"

text \<open>The \<open>match relation.kind\<close>; the guarded arms come first, as in the source.\<close>

definition validate_relation_kind ::
    "bool \<Rightarrow> organization_node \<Rightarrow> organization_node \<Rightarrow> organization_relation \<Rightarrow> unit orch_result" where
  "validate_relation_kind v2 source target relation =
     (if rel_kind relation \<in> {organization_relation_kind.Handoff, organization_relation_kind.Review}
      then if v2 \<or> n_kind source \<noteq> organization_node_kind.Staff
             \<or> n_kind target \<noteq> organization_node_kind.Staff
           then Inl (Validation ''handoff and review relations require staff endpoints'')
           else Inr ()
      else if rel_kind relation = organization_relation_kind.ToolAccess
      then if (\<not> v2 \<and> n_kind source \<noteq> organization_node_kind.Staff)
             \<or> (v2 \<and> n_kind source \<noteq> organization_node_kind.Role)
             \<or> n_kind target \<noteq> organization_node_kind.Capability
           then Inl (Validation ''tool access relations require staff to capability endpoints'')
           else (case n_capability target of
              None \<Rightarrow> Inl (Validation ''tool target has no capability'')
            | Some capability \<Rightarrow>
                if rel_permissions relation = []
                   \<or> any (\<lambda>p. p \<notin> set (capability_permissions capability)) (rel_permissions relation)
                   \<or> length (rel_permissions relation) \<noteq> card (set (rel_permissions relation))
                then Inl (Validation ''tool access contains an unsupported permission'')
                else Inr ())
      else if rel_kind relation = organization_relation_kind.Drop
      then if v2 \<and> \<not> (n_kind source \<in> {organization_node_kind.Role, organization_node_kind.ChildWorkflow}
                     \<and> n_kind target = organization_node_kind.Taskboard)
           then Inl (Validation ''Drop routes require a role/child workflow to taskboard endpoint'')
           else Inr ()
      else if rel_kind relation = organization_relation_kind.Pickup
      then if v2 \<and> \<not> (n_kind source = organization_node_kind.Taskboard
                     \<and> n_kind target = organization_node_kind.Role)
           then Inl (Validation ''Pickup routes require a taskboard to role endpoint'')
           else Inr ()
      else if v2 \<and> (n_kind source \<noteq> organization_node_kind.Taskboard
                     \<or> n_kind target \<noteq> organization_node_kind.Taskboard)
           then Inl (Validation ''Rework routes require taskboard endpoints'')
           else if any blank (rel_permissions relation)
           then Inl (Validation ''rework route contains an invalid permission'')
           else Inr ())"

fun validate_relations ::
    "organization_graph \<Rightarrow> bool \<Rightarrow> organization_relation list \<Rightarrow> string set \<Rightarrow> unit orch_result" where
  "validate_relations graph v2 [] relation_ids = Inr ()"
| "validate_relations graph v2 (relation # relations) relation_ids =
     (if blank (rel_id relation) \<or> rel_id relation \<in> relation_ids
      then Inl (Validation ''organization relation ids must be unique and non-empty'')
      else if 4096 < length (hc_input_summary (rel_contract relation))
         \<or> 4096 < length (hc_expected_output (rel_contract relation))
         \<or> has_control (hc_input_summary (rel_contract relation))
         \<or> has_control (hc_expected_output (rel_contract relation))
      then Inl (Validation ''organization handoff contract is invalid'')
      else case find (\<lambda>n. n_id n = rel_source_node_id relation) (g_nodes graph) of
        None \<Rightarrow> Inl (Validation ''relation source is missing'')
      | Some source \<Rightarrow>
          (case find (\<lambda>n. n_id n = rel_target_node_id relation) (g_nodes graph) of
             None \<Rightarrow> Inl (Validation ''relation target is missing'')
           | Some target \<Rightarrow>
               if n_id source = n_id target
               then Inl (Validation ''organization relations cannot self-connect'')
               else (case validate_relation_kind v2 source target relation of
                  Inl e \<Rightarrow> Inl e
                | Inr _ \<Rightarrow>
                    validate_relations graph v2 relations (insert (rel_id relation) relation_ids))))"

definition validate_graph ::
    "'z snapshot_scheme \<Rightarrow> organization_graph \<Rightarrow> bool \<Rightarrow> unit orch_result" where
  "validate_graph s graph publish =
     (if 2000 < length (g_nodes graph) \<or> 4000 < length (g_relations graph) \<or> 512 < length (g_groups graph)
      then Inl (Validation ''organization graph exceeds the configured size limit'')
      else
       (let v2 = graph_is_v2 graph in
        case validate_groups (g_groups graph) {} of
          Inl e \<Rightarrow> Inl e
        | Inr group_ids \<Rightarrow>
            if \<not> f64_is_finite (vp_x (g_viewport graph)) \<or> \<not> f64_is_finite (vp_y (g_viewport graph))
               \<or> \<not> f64_is_finite (vp_zoom (g_viewport graph)) \<or> f64_le_zero (vp_zoom (g_viewport graph))
            then Inl (Validation ''organization viewport is invalid'')
            else (case validate_nodes s publish group_ids (g_nodes graph) {} {} of
               Inl e \<Rightarrow> Inl e
             | Inr _ \<Rightarrow>
                 if v2 \<and> any (\<lambda>n. n_kind n = organization_node_kind.Approval) (g_nodes graph)
                 then Inl (Validation ''Approval nodes are retired in Organization v2; use a Taskboard question/review'')
                 else (case validate_relations graph v2 (g_relations graph) {} of
                    Inl e \<Rightarrow> Inl e
                  | Inr _ \<Rightarrow>
                      if publish
                         \<and> ((v2 \<and> list_all (\<lambda>n. n_kind n \<noteq> organization_node_kind.Role) (g_nodes graph))
                           \<or> (\<not> v2 \<and> list_all (\<lambda>n. n_kind n \<noteq> organization_node_kind.Staff) (g_nodes graph)))
                      then Inl (Validation ''published Organization requires at least one worker role'')
                      else Inr ()))))"

section \<open>Draft and publish\<close>

type_synonym reduction = "(world \<times> event \<times> command_result) orch_result"

definition published_revision_of :: "'z snapshot_scheme \<Rightarrow> u64" where
  \<comment> \<open>\<open>published.map(|v| v.published_revision).unwrap_or_default()\<close>\<close>
  "published_revision_of s =
     (case o_published (s_organization s) of None \<Rightarrow> 0 | Some g \<Rightarrow> g_published_revision g)"

definition reduce_save_organization_draft :: "world \<Rightarrow> organization_graph \<Rightarrow> u64 \<Rightarrow> reduction" where
  "reduce_save_organization_draft s graph expected_draft_revision =
     (if g_id graph \<noteq> g_id (o_draft (s_organization s))
      then Inl (Validation ''organization id does not match the server document'')
      else if g_draft_revision graph \<noteq> expected_draft_revision
         \<or> g_draft_revision (o_draft (s_organization s)) \<noteq> expected_draft_revision
      then Inl (OrganizationRevisionConflict expected_draft_revision
             (g_draft_revision (o_draft (s_organization s))))
      else case validate_graph s graph False of
        Inl e \<Rightarrow> Inl e
      | Inr _ \<Rightarrow>
          (let next = graph\<lparr>g_published_revision := published_revision_of s,
                            g_draft_revision := saturating_add expected_draft_revision 1\<rparr> in
           Inr (s\<lparr>s_organization := (s_organization s)\<lparr>o_draft := next\<rparr>\<rparr>,
                OrganizationDraftSaved next, Accepted)))"

text \<open>\<open>validate_published_connector_profiles\<close> visits a hash set of profile ids; the model visits
  them in the order of the nodes. Which of several failing profiles is reported is not
  determined by the source, whether one fails is.\<close>

fun check_profiles :: "env \<Rightarrow> 'z snapshot_scheme \<Rightarrow> connector_profile_id list \<Rightarrow> unit orch_result" where
  "check_profiles env s [] = Inr ()"
| "check_profiles env s (profile_id # ids) =
     (case active_profile s profile_id of
        None \<Rightarrow> Inl NotFound
      | Some profile \<Rightarrow>
          if cp_health profile \<in> {connector_health.Unhealthy, connector_health.Degraded}
          then Inl (Validation ''published Organization cannot reference an unhealthy connector profile'')
          else if cp_kind profile \<in> {connector_kind.GoogleWorkspace, connector_kind.Postgres}
          then (case e_connector_secret env (cp_id profile) of
             Inl e \<Rightarrow> Inl (ProviderUnavailable e)
           | Inr secret \<Rightarrow>
               if (case secret of None \<Rightarrow> False | Some t \<Rightarrow> \<not> blank t)
               then check_profiles env s ids
               else Inl (Validation ''connector profile credential is not configured''))
          else check_profiles env s ids)"

definition validate_published_connector_profiles ::
    "env \<Rightarrow> 'z snapshot_scheme \<Rightarrow> organization_graph \<Rightarrow> unit orch_result" where
  "validate_published_connector_profiles env s graph =
     check_profiles env s
       (remdups (List.map_filter n_connector_profile_id
          (filter (\<lambda>n. n_kind n = organization_node_kind.Capability) (g_nodes graph))))"

definition is_unfinished :: "task_view \<Rightarrow> bool" where
  "is_unfinished t \<longleftrightarrow> t_status t \<notin> {task_status.Done, task_status.Cancelled}"

definition reduce_publish_organization :: "env \<Rightarrow> world \<Rightarrow> u64 \<Rightarrow> reduction" where
  "reduce_publish_organization env s expected_published_revision =
     (let graph = o_draft (s_organization s); actual = published_revision_of s in
      if actual \<noteq> expected_published_revision
      then Inl (OrganizationRevisionConflict expected_published_revision actual)
      else case validate_published_connector_profiles env s graph of
        Inl e \<Rightarrow> Inl e
      | Inr _ \<Rightarrow>
          (case validate_graph s graph True of
             Inl e \<Rightarrow> Inl e
           | Inr _ \<Rightarrow>
               (let next_revision = saturating_add actual 1;
                    graph' = graph\<lparr>g_published_revision := next_revision\<rparr>;
                    s1 = s\<lparr>s_organization := (s_organization s)\<lparr>o_published := Some graph',
                             o_draft := (o_draft (s_organization s))\<lparr>g_published_revision := next_revision\<rparr>\<rparr>\<rparr>;
                    new_board_ids = List.map_filter n_taskboard_id (g_nodes graph');
                    pending = length (filter (\<lambda>t. is_unfinished t \<and>
                      (case t_taskboard_id t of None \<Rightarrow> False | Some b \<Rightarrow> b \<notin> set new_board_ids)) (s_tasks s));
                    rt = s_organization_runtime s;
                    s2 = (if 0 < actual
                          then s1\<lparr>s_organization_runtime := rt\<lparr>rt_status := organization_drain_status.Draining,
                                 rt_drain_requested_revision := Some next_revision,
                                 rt_pending_relocation_count := of_nat pending\<rparr>\<rparr>
                          else s1\<lparr>s_organization_runtime := rt\<lparr>rt_active_revision := next_revision\<rparr>\<rparr>) in
                Inr (s2, OrganizationPublished graph', Accepted))))"

section \<open>What validation guarantees\<close>

text \<open>The part of validity that depends on the graph alone.\<close>

definition staff_unique :: "organization_node list \<Rightarrow> bool" where
  "staff_unique nodes \<longleftrightarrow>
     (\<forall>n \<in> set nodes. \<forall>m \<in> set nodes.
        n_kind n = organization_node_kind.Staff \<longrightarrow> n_kind m = organization_node_kind.Staff \<longrightarrow>
        n_agent_id n = n_agent_id m \<longrightarrow> n = m)"

definition relation_ok :: "organization_graph \<Rightarrow> organization_relation \<Rightarrow> bool" where
  "relation_ok g r \<longleftrightarrow>
     (\<exists>source target.
        find (\<lambda>n. n_id n = rel_source_node_id r) (g_nodes g) = Some source \<and>
        find (\<lambda>n. n_id n = rel_target_node_id r) (g_nodes g) = Some target \<and>
        n_id source \<noteq> n_id target \<and>
        validate_relation_kind (graph_is_v2 g) source target r = Inr ())"

definition graph_wf :: "organization_graph \<Rightarrow> bool" where
  "graph_wf g \<longleftrightarrow>
     distinct (map n_id (g_nodes g)) \<and> staff_unique (g_nodes g) \<and>
     distinct (map rel_id (g_relations g)) \<and> (\<forall>r \<in> set (g_relations g). relation_ok g r) \<and>
     (\<forall>n \<in> set (g_nodes g). n_kind n \<noteq> organization_node_kind.Approval)"

lemma validate_node_kind_agents:
  assumes "validate_node_kind s publish node agent_ids = Inr agent_ids'"
  shows "n_kind node \<noteq> organization_node_kind.Approval"
    and "n_kind node = organization_node_kind.Staff \<Longrightarrow>
      \<exists>a. n_agent_id node = Some a \<and> a \<notin> agent_ids \<and> agent_ids' = insert a agent_ids"
    and "agent_ids \<subseteq> agent_ids'"
  using assms
  by (auto simp: validate_node_kind_def
      split: organization_node_kind.splits if_splits option.splits)

lemma validate_nodes_ok:
  assumes "validate_nodes s publish group_ids nodes node_ids agent_ids = Inr ()"
  shows "distinct (map n_id nodes) \<and> n_id ` set nodes \<inter> node_ids = {} \<and> staff_unique nodes \<and>
    (\<forall>n \<in> set nodes. n_kind n \<noteq> organization_node_kind.Approval \<and>
       (n_kind n = organization_node_kind.Staff \<longrightarrow> (\<exists>a. n_agent_id n = Some a \<and> a \<notin> agent_ids)))"
  using assms
proof (induction s publish group_ids nodes node_ids agent_ids rule: validate_nodes.induct)
  case (2 s publish group_ids node nodes node_ids agent_ids)
  from "2.prems" obtain agent_ids' where kind: "validate_node_kind s publish node agent_ids = Inr agent_ids'"
    and rest: "validate_nodes s publish group_ids nodes (insert (n_id node) node_ids) agent_ids' = Inr ()"
    and guards: "\<not> (blank (n_id node) \<or> n_id node \<in> node_ids \<or> \<not> valid_agent_text (n_label node) 256)"
      "\<not> (\<not> f64_is_finite (pt_x (n_position node)) \<or> \<not> f64_is_finite (pt_y (n_position node)))"
      "\<not> (case n_group_id node of None \<Rightarrow> False | Some g \<Rightarrow> g \<notin> group_ids)"
    by (auto split: if_splits sum.splits)
  note IH = "2.IH" [OF guards kind rest]
  note agents = validate_node_kind_agents [OF kind]
  have "staff_unique (node # nodes)"
    using IH agents(2) unfolding staff_unique_def by (metis insert_iff list.set(2) option.inject)
  moreover have "\<exists>a. n_agent_id n = Some a \<and> a \<notin> agent_ids"
    if "n \<in> set (node # nodes)" "n_kind n = organization_node_kind.Staff" for n
    using that IH agents(2,3) by fastforce
  ultimately show ?case using IH agents(1) guards by auto
qed (simp add: staff_unique_def)

lemma validate_relations_ok:
  assumes "validate_relations g (graph_is_v2 g) relations relation_ids = Inr ()"
  shows "distinct (map rel_id relations) \<and> rel_id ` set relations \<inter> relation_ids = {} \<and>
    (\<forall>r \<in> set relations. relation_ok g r)"
proof -
  have "distinct (map rel_id relations) \<and> rel_id ` set relations \<inter> relation_ids = {} \<and>
    (\<forall>r \<in> set relations. relation_ok g r)"
    if "validate_relations g v2 relations relation_ids = Inr ()" "v2 = graph_is_v2 g" for v2
    using that
    by (induction g v2 relations relation_ids rule: validate_relations.induct)
      (auto simp: relation_ok_def split: if_splits option.splits sum.splits)
  with assms show ?thesis by blast
qed

lemma validate_graph_wf: "validate_graph s g publish = Inr () \<Longrightarrow> graph_wf g"
  unfolding validate_graph_def Let_def graph_wf_def
  by (auto split: if_splits sum.splits dest!: validate_nodes_ok validate_relations_ok)

lemma validate_graph_staffed:
  "validate_graph s g True = Inr () \<Longrightarrow> \<exists>n \<in> set (g_nodes g). n_kind n =
     (if graph_is_v2 g then organization_node_kind.Role else organization_node_kind.Staff)"
  unfolding validate_graph_def Let_def
  by (auto simp: list_all_iff split: if_splits sum.splits)

lemma graph_wf_revision [simp]:
  "graph_wf (g\<lparr>g_published_revision := r\<rparr>) = graph_wf g"
  "graph_wf (g\<lparr>g_draft_revision := r\<rparr>) = graph_wf g"
  by (simp_all add: graph_wf_def relation_ok_def graph_is_v2_def)

text \<open>Handoff and review relations only join staff nodes of a graph without routing nodes.\<close>

lemma graph_wf_review:
  assumes "graph_wf g" "r \<in> set (g_relations g)"
    "rel_kind r = organization_relation_kind.Handoff \<or> rel_kind r = organization_relation_kind.Review"
  shows "\<not> graph_is_v2 g"
    "\<exists>n \<in> set (g_nodes g). n_id n = rel_source_node_id r \<and> n_kind n = organization_node_kind.Staff"
    "\<exists>n \<in> set (g_nodes g). n_id n = rel_target_node_id r \<and> n_kind n = organization_node_kind.Staff"
proof -
  from assms(1,2) have "relation_ok g r" by (simp add: graph_wf_def)
  then obtain source target where
    "find (\<lambda>n. n_id n = rel_source_node_id r) (g_nodes g) = Some source"
    "find (\<lambda>n. n_id n = rel_target_node_id r) (g_nodes g) = Some target"
    and ok: "validate_relation_kind (graph_is_v2 g) source target r = Inr ()"
    by (auto simp: relation_ok_def)
  then have mem: "source \<in> set (g_nodes g)" "n_id source = rel_source_node_id r"
    "target \<in> set (g_nodes g)" "n_id target = rel_target_node_id r"
    by (auto dest: find_SomeD)
  from ok assms(3) have kinds: "\<not> graph_is_v2 g" "n_kind source = organization_node_kind.Staff"
    "n_kind target = organization_node_kind.Staff"
    by (auto simp: validate_relation_kind_def split: if_splits)
  from mem kinds show "\<not> graph_is_v2 g"
    "\<exists>n \<in> set (g_nodes g). n_id n = rel_source_node_id r \<and> n_kind n = organization_node_kind.Staff"
    "\<exists>n \<in> set (g_nodes g). n_id n = rel_target_node_id r \<and> n_kind n = organization_node_kind.Staff"
    by auto
qed

lemma review_target_v2_None:
  assumes "o_published (s_organization s) = Some g" "graph_wf g" "graph_is_v2 g"
  shows "organization_review_target s a = None"
proof -
  have "rel_kind r \<noteq> organization_relation_kind.Review" if "r \<in> set (g_relations g)" for r
    using graph_wf_review(1) [OF assms(2) that] assms(3) by blast
  then show ?thesis
    using assms(1) by (simp add: organization_review_target_def find_map_None split: option.split)
qed

lemma staff_node_mem:
  assumes "graph_wf g" "n \<in> set (g_nodes g)" "n_kind n = organization_node_kind.Staff"
    "n_agent_id n = Some a"
  shows "staff_node g a = Some n"
proof -
  have "\<exists>m. staff_node g a = Some m"
    unfolding staff_node_def by (rule find_exists [OF assms(2)]) (simp add: assms)
  then obtain m where m: "staff_node g a = Some m" ..
  then have "m \<in> set (g_nodes g)" "n_kind m = organization_node_kind.Staff" "n_agent_id m = Some a"
    unfolding staff_node_def by (auto dest: find_SomeD)
  with assms have "m = n" by (auto simp: graph_wf_def staff_unique_def)
  with m show ?thesis by simp
qed

text \<open>In a valid graph, the reviewer that is resolved is one that may review and has a contract.\<close>

lemma review_target_allowed:
  assumes "o_published (s_organization s) = Some g" "graph_wf g"
    "organization_review_target s a = Some reviewer"
  shows "organization_allows_review s a reviewer"
    and "\<exists>c. organization_review_contract s a reviewer = Some c"
    and "has_active_agent s reviewer"
proof -
  from assms(1,3) obtain source where src: "organization_node_for_agent s g a = Some source"
    by (auto simp: organization_review_target_def split: option.splits)
  with assms(1,3) obtain r target where r: "r \<in> set (g_relations g)"
      "rel_kind r = organization_relation_kind.Review" "rel_source_node_id r = n_id source"
    and t: "target \<in> set (g_nodes g)" "n_id target = rel_target_node_id r"
      "n_kind target = organization_node_kind.Staff" "n_agent_id target = Some reviewer"
    and act: "has_active_agent s reviewer"
    by (auto simp: organization_review_target_def dest!: find_map_SomeD find_SomeD
        split: option.splits if_splits)
  have tgt: "organization_node_for_agent s g reviewer = Some target"
    using staff_node_mem [OF assms(2) t(1,3,4)] by (simp add: organization_node_for_agent_def)
  have "\<not> graph_is_v2 g" using graph_wf_review(1) [OF assms(2) r(1)] r(2) by simp
  then have v1: "\<not> any node_is_v2 (g_nodes g)" by (simp add: graph_is_v2_def)
  show "organization_allows_review s a reviewer"
    using assms(1) v1 src tgt r t(2) by (auto simp: organization_allows_review_def list_ex_iff)
  have "\<exists>c. find_map (\<lambda>r. if rel_kind r \<noteq> organization_relation_kind.Review
                    \<or> rel_source_node_id r \<noteq> n_id source \<or> rel_target_node_id r \<noteq> n_id target
                 then None else Some (rel_id r, rel_contract r)) (g_relations g) = Some c"
    by (rule find_map_exists [OF r(1), of _ "(rel_id r, rel_contract r)"]) (simp add: r t)
  then show "\<exists>c. organization_review_contract s a reviewer = Some c"
    using assms(1) src tgt by (simp add: organization_review_contract_def)
  show "has_active_agent s reviewer" by (rule act)
qed

text \<open>A granted tool resolves to a profile that is not archived.\<close>

lemma relation_grant_has_profile:
  assumes "graph_wf g" "relation_grants_tool s g n c p r"
  shows "\<exists>profile. relation_tool_profile s g n c p r = Some profile"
proof -
  from assms(2) obtain node where node: "find (\<lambda>n. n_id n = rel_target_node_id r) (g_nodes g) = Some node"
    "n_kind node = organization_node_kind.Capability" "n_capability node = Some c"
    by (auto simp: relation_grants_tool_def split: if_splits option.splits)
  then have "find (\<lambda>n. n_id n = rel_target_node_id r \<and> n_kind n = organization_node_kind.Capability
      \<and> n_capability n = Some c) (g_nodes g) = Some node"
    by (auto intro: find_refine [where q = "\<lambda>n. n_kind n = organization_node_kind.Capability
      \<and> n_capability n = Some c"])
  with assms(2) node show ?thesis
    by (auto simp: relation_grants_tool_def relation_tool_profile_def split: if_splits option.splits)
qed

end
