(* ===== verification/Team.thy ===== *)
theory Team
  imports Organization
begin

text \<open>
  Roles and agents: \<open>reduce/role.rs\<close> and \<open>reduce/agent.rs\<close>. A role is a template an
  agent is materialized from at creation, at assignment or while it is idle.
\<close>

section \<open>Roles\<close>

definition validate_role :: "role_view \<Rightarrow> unit orch_result" where
  "validate_role role =
     (if \<not> valid_agent_text (r_name role) 128
         \<or> MAX_MESSAGE_BODY_BYTES < length (r_instructions role)
         \<or> \<not> valid_optional_agent_text (r_model role) 256
         \<or> r_model role = None
      then Inl (Validation ''role name and canonical model are required'')
      else Inr ())"

definition apply_role_patch :: "role_view \<Rightarrow> role_patch \<Rightarrow> role_view" where
  "apply_role_patch role patch = role\<lparr>
     r_name := set_some (rp_name patch) (r_name role),
     r_model := (if rp_clear_model patch then None else set_some (rp_model patch) (r_model role)),
     r_instructions := set_some (rp_instructions patch) (r_instructions role),
     r_policy := set_some (rp_policy patch) (r_policy role),
     r_budget := set_some (rp_budget patch) (r_budget role)\<rparr>"

definition or_else :: "'a option \<Rightarrow> 'a option \<Rightarrow> 'a option" where
  "or_else a b = (case a of Some _ \<Rightarrow> a | None \<Rightarrow> b)"

definition model_source_of :: "string option \<Rightarrow> model_source" where
  "model_source_of model_override =
     (if model_override \<noteq> None then model_source.Agent else model_source.Role)"

definition materialize_role :: "agent_view \<Rightarrow> role_view \<Rightarrow> agent_view" where
  "materialize_role agent role = agent\<lparr>
     a_role_id := Some (r_id role),
     a_role_revision := r_revision role,
     a_model := or_else (a_model_override agent) (r_model role),
     a_effective_model := or_else (a_model_override agent) (r_model role),
     a_model_source := model_source_of (a_model_override agent),
     a_instructions := r_instructions role,
     a_policy := r_policy role,
     a_budget := r_budget role\<rparr>"

definition agent_is_idle :: "agent_view \<Rightarrow> bool" where
  "agent_is_idle a \<longleftrightarrow> a_status a \<in> {agent_status.Offline, agent_status.Idle}"

definition active_role :: "'z snapshot_scheme \<Rightarrow> role_id \<Rightarrow> role_view option" where
  "active_role s role_id = find (\<lambda>r. r_id r = role_id \<and> \<not> r_archived r) (s_roles s)"

definition reduce_create_role :: "env \<Rightarrow> world \<Rightarrow> role_spec \<Rightarrow> reduction" where
  "reduce_create_role env s spec =
     (if \<not> valid_agent_text (rs_name spec) 128
         \<or> MAX_MESSAGE_BODY_BYTES < length (rs_instructions spec)
         \<or> \<not> valid_optional_agent_text (rs_model spec) 256
         \<or> rs_model spec = None
      then Inl (Validation ''role name and canonical model are required'')
      else case validate_openrouter_model env (rs_model spec) of
        Inl e \<Rightarrow> Inl e
      | Inr _ \<Rightarrow>
          if any (\<lambda>r. \<not> r_archived r \<and> eq_ignore_ascii_case (r_name r) (rs_name spec)) (s_roles s)
          then Inl (Validation ''role name must be unique'')
          else
           (let u = next_uuid env s;
                role = \<lparr>r_id = RoleId u, r_name = rs_name spec, r_model = rs_model spec,
                        r_instructions = rs_instructions spec, r_policy = rs_policy spec,
                        r_budget = rs_budget spec, r_revision = 1, r_archived = False\<rparr> in
            case validate_role role of
              Inl e \<Rightarrow> Inl e
            | Inr _ \<Rightarrow>
                Inr ((drew s)\<lparr>s_roles := s_roles s @ [role]\<rparr>, RoleUpserted role,
                     ResultCreated (e_uuid_text env u))))"

definition reduce_update_role :: "env \<Rightarrow> world \<Rightarrow> role_id \<Rightarrow> role_patch \<Rightarrow> reduction" where
  "reduce_update_role env s role_id patch =
     (case (if rp_clear_model patch then Inr ()
            else case rp_model patch of Some (Some m) \<Rightarrow> validate_openrouter_model env (Some m)
              | _ \<Rightarrow> Inr ()) of
        Inl e \<Rightarrow> Inl e
      | Inr _ \<Rightarrow>
          if rp_clear_model patch \<or> rp_model patch = Some None
          then Inl (Validation ''a role must keep a canonical model'')
          else case active_role s role_id of
            None \<Rightarrow> Inl NotFound
          | Some role \<Rightarrow>
              (let patched = apply_role_patch role patch;
                   updated = patched\<lparr>r_revision := saturating_add (r_revision patched) 1\<rparr>;
                   roles = update_first (\<lambda>r. r_id r = role_id \<and> \<not> r_archived r) (\<lambda>_. updated) (s_roles s) in
               if any (\<lambda>c. r_id c \<noteq> role_id \<and> \<not> r_archived c
                          \<and> eq_ignore_ascii_case (r_name c) (r_name updated)) roles
               then Inl (Validation ''role name must be unique'')
               else case validate_role updated of
                 Inl e \<Rightarrow> Inl e
               | Inr _ \<Rightarrow> Inr (s\<lparr>s_roles := roles\<rparr>, RoleUpserted updated, Accepted)))"

definition reduce_archive_role :: "world \<Rightarrow> role_id \<Rightarrow> reduction" where
  "reduce_archive_role s role_id =
     (case find (\<lambda>r. r_id r = role_id) (s_roles s) of
        None \<Rightarrow> Inl NotFound
      | Some _ \<Rightarrow>
          if any (\<lambda>a. a_role_id a = Some role_id \<and> \<not> a_archived a) (s_agents s)
             \<or> any (\<lambda>t. t_required_role_id t = Some role_id) (s_tasks s)
          then Inl (Validation ''a role cannot be archived while agents or tasks use it'')
          else Inr (s\<lparr>s_roles := update_first (\<lambda>r. r_id r = role_id) (\<lambda>r. r\<lparr>r_archived := True\<rparr>) (s_roles s)\<rparr>,
                    RoleArchived role_id, Accepted))"

definition reduce_set_agent_role :: "world \<Rightarrow> agent_id \<Rightarrow> role_id \<Rightarrow> reduction" where
  "reduce_set_agent_role s agent_id role_id =
     (case active_role s role_id of
        None \<Rightarrow> Inl NotFound
      | Some role \<Rightarrow>
          (case active_agent s agent_id of
             None \<Rightarrow> Inl NotFound
           | Some agent \<Rightarrow>
               if \<not> agent_is_idle agent
               then Inl (Validation ''an agent's role can change only while it is idle'')
               else
                (let updated = materialize_role agent role in
                 Inr (s\<lparr>s_agents := update_first (\<lambda>a. a_id a = agent_id \<and> \<not> a_archived a) (\<lambda>_. updated)
                          (s_agents s)\<rparr>,
                      AgentUpserted updated, Accepted))))"

section \<open>Agents\<close>

definition reduce_create_agent :: "env \<Rightarrow> world \<Rightarrow> agent_spec \<Rightarrow> reduction" where
  "reduce_create_agent env s spec =
     (case active_role s (as_role_id spec) of
        None \<Rightarrow> Inl NotFound
      | Some role \<Rightarrow>
          if \<not> valid_agent_text (as_display_name spec) 128
             \<or> \<not> valid_optional_agent_text (as_model_override spec) 256
          then Inl (Validation ''agent identity or instructions are invalid'')
          else
           (let effective_model = or_else (as_model_override spec) (r_model role) in
            case validate_openrouter_model env effective_model of
              Inl e \<Rightarrow> Inl e
            | Inr _ \<Rightarrow>
                if any (\<lambda>a. \<not> a_archived a
                          \<and> eq_ignore_ascii_case (a_display_name a) (as_display_name spec)) (s_agents s)
                then Inl (Validation ''agent display name must be unique'')
                else
                 (let u = next_uuid env s;
                      agent = \<lparr>a_id = AgentId u, a_role_id = Some (as_role_id spec),
                        a_role_revision = r_revision role, a_display_name = as_display_name spec,
                        a_model = effective_model, a_effective_model = effective_model,
                        a_model_source = model_source_of (as_model_override spec),
                        a_model_override = as_model_override spec, a_pending_model_override = None,
                        a_pending_model_change = False, a_instructions = r_instructions role,
                        a_policy = r_policy role, a_budget = r_budget role,
                        a_status = agent_status.Offline, a_provider_session_id = None,
                        a_last_claimed_at = None, a_archived = False\<rparr> in
                  Inr ((drew s)\<lparr>s_agents := s_agents s @ [agent]\<rparr>, AgentUpserted agent,
                       ResultCreated (e_uuid_text env u)))))"

definition apply_agent_patch :: "agent_view \<Rightarrow> agent_patch \<Rightarrow> agent_view" where
  "apply_agent_patch agent patch = agent\<lparr>
     a_role_id := set_some (ap_role_id patch) (a_role_id agent),
     a_display_name := set_some (ap_display_name patch) (a_display_name agent)\<rparr>"

text \<open>The model override block of \<open>UpdateAgent\<close>: an idle agent switches at once, a working one
  keeps the change pending.\<close>

definition apply_model_override ::
    "role_view list \<Rightarrow> agent_view \<Rightarrow> string option option \<Rightarrow> agent_view" where
  "apply_model_override roles agent change =
     (case change of
        None \<Rightarrow> agent
      | Some model_override \<Rightarrow>
          if agent_is_idle agent then
           (let model =
              (case Option.bind (a_role_id agent) (\<lambda>i. find (\<lambda>r. r_id r = i) roles) of
                 Some role \<Rightarrow> or_else model_override (r_model role)
               | None \<Rightarrow> model_override) in
            agent\<lparr>a_model_override := model_override, a_pending_model_override := None,
              a_pending_model_change := False, a_model := model, a_effective_model := model,
              a_model_source := model_source_of model_override\<rparr>)
          else agent\<lparr>a_pending_model_override := Some model_override, a_pending_model_change := True\<rparr>)"

definition updated_agent ::
    "role_view list \<Rightarrow> role_view option \<Rightarrow> agent_view \<Rightarrow> agent_patch \<Rightarrow> agent_view" where
  "updated_agent roles role agent patch =
     (let change = (if ap_clear_model_override patch then Some None else ap_model_override patch);
          a1 = apply_model_override roles (apply_agent_patch agent patch) change;
          a2 = (case role of
                  Some r \<Rightarrow> materialize_role a1 r
                | None \<Rightarrow> if ap_role_id patch = Some None
                          then a1\<lparr>a_role_id := None, a_role_revision := 0\<rparr> else a1) in
      a2\<lparr>a_effective_model := a_model a2, a_model_source := model_source_of (a_model_override a2)\<rparr>)"

definition reduce_update_agent :: "env \<Rightarrow> world \<Rightarrow> agent_id \<Rightarrow> agent_patch \<Rightarrow> reduction" where
  "reduce_update_agent env s agent_id patch =
     (case find (\<lambda>a. a_id a = agent_id) (s_agents s) of
        None \<Rightarrow> Inl NotFound
      | Some agent \<Rightarrow>
          (case (if ap_clear_model_override patch then Inr ()
                 else case ap_model_override patch of
                   Some (Some m) \<Rightarrow> validate_openrouter_model env (Some m) | _ \<Rightarrow> Inr ()) of
             Inl e \<Rightarrow> Inl e
           | Inr _ \<Rightarrow>
               (case (case ap_role_id patch of
                        Some (Some role_id) \<Rightarrow>
                          (case active_role s role_id of None \<Rightarrow> Inl NotFound | Some r \<Rightarrow> Inr (Some r))
                      | _ \<Rightarrow> Inr None) of
                  Inl e \<Rightarrow> Inl e
                | Inr role \<Rightarrow>
                    if ap_role_id patch \<noteq> None \<and> \<not> agent_is_idle agent
                    then Inl (Validation ''an agent's role can change only while it is idle'')
                    else
                     (let updated = updated_agent (s_roles s) role agent patch;
                          agents = update_first (\<lambda>a. a_id a = agent_id) (\<lambda>_. updated) (s_agents s) in
                      if \<not> valid_agent_text (a_display_name updated) 128
                         \<or> \<not> valid_optional_agent_text (a_model_override updated) 256
                         \<or> any (\<lambda>c. a_id c \<noteq> agent_id \<and> \<not> a_archived c
                                  \<and> eq_ignore_ascii_case (a_display_name c) (a_display_name updated)) agents
                      then Inl (Validation ''agent identity or instructions are invalid'')
                      else Inr (s\<lparr>s_agents := agents\<rparr>, AgentUpserted updated, Accepted)))))"

definition graph_has_staff :: "organization_graph \<Rightarrow> agent_id \<Rightarrow> bool" where
  "graph_has_staff graph agent_id \<longleftrightarrow>
     any (\<lambda>n. n_kind n = organization_node_kind.Staff \<and> n_agent_id n = Some agent_id) (g_nodes graph)"

definition reduce_archive_agent :: "world \<Rightarrow> agent_id \<Rightarrow> reduction" where
  "reduce_archive_agent s agent_id =
     (case find (\<lambda>a. a_id a = agent_id) (s_agents s) of
        None \<Rightarrow> Inl NotFound
      | Some agent \<Rightarrow>
          if a_display_name agent = ''Frank supervisor''
          then Inl (Validation ''the built-in Frank supervisor cannot be archived'')
          else if a_status agent \<in> {agent_status.Working, agent_status.Starting, agent_status.Thinking}
          then Inl (Validation ''move or cancel assigned work before archiving an active agent'')
          else if any (\<lambda>t. t_assigned_agent t = Some agent_id \<and> is_unfinished t) (s_tasks s)
          then Inl (Validation ''move or release unfinished work before archiving the agent'')
          else if graph_has_staff (o_draft (s_organization s)) agent_id
             \<or> (case o_published (s_organization s) of None \<Rightarrow> False | Some g \<Rightarrow> graph_has_staff g agent_id)
          then Inl (Validation ''remove the agent from Organization before archiving it'')
          else Inr (s\<lparr>s_agents := update_first (\<lambda>a. a_id a = agent_id) (\<lambda>a. a\<lparr>a_archived := True\<rparr>) (s_agents s)\<rparr>,
                    AgentArchived agent_id, Accepted))"

end
