(* ===== verification/TaskReducer.thy ===== *)
theory TaskReducer
  imports Team "HOL-Library.List_Lexorder" "HOL-Library.Char_ord"
begin

text \<open>
  The task commands: \<open>reduce/task.rs\<close> and \<open>reduce/task/create_update.rs\<close>,
  \<open>assignment.rs\<close>, \<open>status_review.rs\<close>.
\<close>

section \<open>Feed and locks\<close>

definition FEED_LIMIT :: nat where "FEED_LIMIT = 2048"

definition append_task_feed ::
    "env \<Rightarrow> world \<Rightarrow> task_id \<Rightarrow> actor_ref \<Rightarrow> task_feed_kind \<Rightarrow> string \<Rightarrow> artifact_id list
       \<Rightarrow> world \<times> task_feed_entry" where
  "append_task_feed env s task_id actor kind body artifact_ids =
     (let entry = \<lparr>f_id = TaskFeedId (next_uuid env s), f_task_id = task_id, f_actor = actor,
                   f_kind = kind, f_body = body, f_artifact_ids = artifact_ids,
                   f_created_at = e_now env\<rparr> in
      ((drew s)\<lparr>s_task_feed := take FEED_LIMIT (entry # s_task_feed s)\<rparr>, entry))"

definition feed :: "env \<Rightarrow> world \<Rightarrow> task_id \<Rightarrow> actor_ref \<Rightarrow> task_feed_kind \<Rightarrow> string \<Rightarrow> world" where
  \<comment> \<open>the calls that drop the returned entry and have no artifacts\<close>
  "feed env s task_id actor kind body = fst (append_task_feed env s task_id actor kind body [])"

definition edit_task :: "task_id \<Rightarrow> (task_view \<Rightarrow> task_view) \<Rightarrow> world \<Rightarrow> world" where
  "edit_task i f s = s\<lparr>s_tasks := update_first (\<lambda>t. t_id t = i) f (s_tasks s)\<rparr>"

definition is_done :: "task_view list \<Rightarrow> task_id \<Rightarrow> bool" where
  "is_done tasks i \<longleftrightarrow>
     (case find_task i tasks of None \<Rightarrow> False | Some t \<Rightarrow> t_status t = task_status.Done)"

definition all_done :: "task_view list \<Rightarrow> task_id list \<Rightarrow> bool" where
  "all_done tasks ids \<longleftrightarrow> list_all (is_done tasks) ids"

text \<open>One round of the loop over the dependents in \<open>update_dependency_locks\<close>.\<close>

definition dependency_lock_step ::
    "env \<Rightarrow> actor_ref \<Rightarrow> task_status \<Rightarrow> task_id \<Rightarrow> world \<Rightarrow> world" where
  "dependency_lock_step env actor dependency_status dependent_id s =
     (case find_task dependent_id (s_tasks s) of
        None \<Rightarrow> s
      | Some t \<Rightarrow>
          if dependency_status = task_status.Done
             \<and> all_done (s_tasks s) (t_dependencies t)
             \<and> t_status t = task_status.Blocked
          then feed env (edit_task dependent_id (\<lambda>t. t\<lparr>t_status := task_status.Ready\<rparr>) s)
                 dependent_id actor task_feed_kind.DependencyUnlocked
                 ''Dependency completed; task is now available''
          else if dependency_status \<noteq> task_status.Done \<and> t_status t = task_status.Ready
          then feed env (edit_task dependent_id (\<lambda>t. t\<lparr>t_status := task_status.Blocked\<rparr>) s)
                 dependent_id actor task_feed_kind.DependencyLocked
                 ''Task unavailable until its dependency is done''
          else s)"

definition dependents :: "task_id \<Rightarrow> task_view list \<Rightarrow> task_id list" where
  "dependents i tasks = map t_id (filter (\<lambda>t. i \<in> set (t_dependencies t)) tasks)"

definition update_dependency_locks ::
    "env \<Rightarrow> world \<Rightarrow> task_id \<Rightarrow> actor_ref \<Rightarrow> task_status \<Rightarrow> world" where
  "update_dependency_locks env s dependency_id actor dependency_status =
     fold (dependency_lock_step env actor dependency_status) (dependents dependency_id (s_tasks s)) s"

definition update_parent_child_locks :: "env \<Rightarrow> world \<Rightarrow> task_id \<Rightarrow> actor_ref \<Rightarrow> world" where
  "update_parent_child_locks env s child_id actor =
     (case parent_of (s_tasks s) child_id of
        None \<Rightarrow> s
      | Some parent_id \<Rightarrow>
          (case find_task parent_id (s_tasks s) of
             None \<Rightarrow> s
           | Some parent \<Rightarrow>
               if all_done (s_tasks s) (t_child_task_ids parent)
                  \<and> t_status parent = task_status.Blocked
               then feed env (edit_task parent_id (\<lambda>t. t\<lparr>t_status := task_status.Ready\<rparr>) s)
                      parent_id actor task_feed_kind.DependencyUnlocked
                      ''All child work items completed; parent is ready''
               else s))"

section \<open>Assignment\<close>

definition find_mission :: "mission_id \<Rightarrow> mission_view list \<Rightarrow> mission_view option" where
  "find_mission i missions = find (\<lambda>m. m_id m = i) missions"

definition mission_is_final :: "mission_view \<Rightarrow> bool" where
  "mission_is_final m \<longleftrightarrow>
     m_status m \<in> {mission_status.Completed, mission_status.Failed, mission_status.Cancelled}"

text \<open>The checks of \<open>assign_task\<close>, in order; the value is the agent.\<close>

definition check_assign ::
    "env \<Rightarrow> world \<Rightarrow> task_id \<Rightarrow> agent_id \<Rightarrow> task_claim_source \<Rightarrow> actor_ref \<Rightarrow> unit orch_result" where
  "check_assign env s task_id agent_id source actor =
     (if \<not> organization_allows_agent s agent_id
      then Inl (Validation ''agent is not an active Organization staff member'')
      else case active_agent s agent_id of
        None \<Rightarrow> Inl NotFound
      | Some agent \<Rightarrow>
        (case (if ac_kind actor = actor_kind.Agent
               then (case actor_agent env actor of
                       None \<Rightarrow> Inl Forbidden
                     | Some src \<Rightarrow>
                         if organization_allows_handoff s src agent_id then Inr () else Inl Forbidden)
               else Inr ()) of
           Inl e \<Rightarrow> Inl e
         | Inr _ \<Rightarrow>
           if \<not> agent_is_idle agent
           then Inl (Validation ''only an idle agent can claim a task'')
           else case find_task task_id (s_tasks s) of
             None \<Rightarrow> Inl NotFound
           | Some task \<Rightarrow>
             if rt_status (s_organization_runtime s) = organization_drain_status.Draining
             then Inl (Validation ''Organization is draining; no new work may be claimed'')
             else if any (\<lambda>c. t_id c \<noteq> task_id \<and> t_assigned_agent c = Some agent_id \<and> is_unfinished c)
                       (s_tasks s)
             then Inl (Validation ''an agent can claim only one unfinished task at a time'')
             else if t_status task \<in> {task_status.Done, task_status.Cancelled, task_status.Running,
                                     task_status.Review}
             then Inl (Validation ''only an available task can be claimed'')
             else if (case t_required_role_id task of None \<Rightarrow> False
                      | Some role_id \<Rightarrow> a_role_id agent \<noteq> Some role_id)
             then Inl (Validation ''agent does not belong to the task's required role'')
             else case find_mission (t_mission_id task) (s_missions s) of
               None \<Rightarrow> Inl NotFound
             | Some mission \<Rightarrow>
               if mission_is_final mission
               then Inl (Validation ''cannot claim work on a final mission'')
               else if \<not> all_done (s_tasks s) (t_dependencies task)
               then Inl (Validation ''task dependencies must be done before claiming this task'')
               else if (case t_assigned_agent task of None \<Rightarrow> False
                        | Some i \<Rightarrow> i \<noteq> agent_id \<or> source \<noteq> task_claim_source.Reclaim)
               then Inl (Validation ''task is already claimed; release it before claiming again'')
               else Inr ()))"

definition claim_edit :: "timestamp \<Rightarrow> agent_id \<Rightarrow> task_claim_source \<Rightarrow> task_view \<Rightarrow> task_view" where
  "claim_edit now agent_id source t = t\<lparr>t_assigned_agent := Some agent_id, t_claimed_at := Some now,
     t_claim_source := Some source,
     t_status := (if t_status t = task_status.Backlog then task_status.Ready else t_status t)\<rparr>"

text \<open>The agent side of a claim: a newer role revision is materialized first.\<close>

definition claim_agent_edit :: "role_view list \<Rightarrow> timestamp \<Rightarrow> agent_view \<Rightarrow> agent_view" where
  "claim_agent_edit roles now agent =
     (let a1 = (case a_role_id agent of
                  None \<Rightarrow> agent
                | Some role_id \<Rightarrow>
                    (case find (\<lambda>r. r_id r = role_id \<and> \<not> r_archived r) roles of
                       None \<Rightarrow> agent
                     | Some role \<Rightarrow>
                         if a_role_revision agent < r_revision role then materialize_role agent role
                         else agent)) in
      a1\<lparr>a_last_claimed_at := Some now\<rparr>)"

definition revoke_grants :: "(task_grant_view \<Rightarrow> bool) \<Rightarrow> world \<Rightarrow> world" where
  "revoke_grants p s = s\<lparr>s_task_grants := update_where p (\<lambda>g. g\<lparr>gv_revoked := True\<rparr>) (s_task_grants s)\<rparr>"

definition assign_task ::
    "env \<Rightarrow> world \<Rightarrow> task_id \<Rightarrow> agent_id \<Rightarrow> task_claim_source \<Rightarrow> task_feed_kind \<Rightarrow> actor_ref
       \<Rightarrow> world orch_result" where
  "assign_task env s task_id agent_id source feed_kind actor =
     (case check_assign env s task_id agent_id source actor of
        Inl e \<Rightarrow> Inl e
      | Inr _ \<Rightarrow>
          (let s1 = edit_task task_id (claim_edit (e_now env) agent_id source) s;
               s2 = revoke_grants (\<lambda>g. gv_task_id g = task_id \<and> gv_agent_id g \<noteq> agent_id) s1;
               s3 = s2\<lparr>s_agents := update_first (\<lambda>a. a_id a = agent_id)
                        (claim_agent_edit (s_roles s2) (e_now env)) (s_agents s2)\<rparr>;
               name = (case find (\<lambda>a. a_id a = agent_id) (s_agents s3) of
                         None \<Rightarrow> [] | Some a \<Rightarrow> a_display_name a);
               body = (if feed_kind = task_feed_kind.Assigned then ''Task assigned to '' @ name
                       else ''Task claimed by '' @ name) in
           Inr (feed env s3 task_id actor feed_kind body)))"

definition reduce_assign_task :: "env \<Rightarrow> world \<Rightarrow> task_id \<Rightarrow> agent_id \<Rightarrow> actor_ref \<Rightarrow> reduction" where
  "reduce_assign_task env s task_id agent_id actor =
     (case assign_task env s task_id agent_id task_claim_source.Manual task_feed_kind.Assigned actor of
        Inl e \<Rightarrow> Inl e
      | Inr s' \<Rightarrow> Inr (s', TaskAssigned task_id agent_id, Accepted))"

definition reduce_claim_task ::
    "env \<Rightarrow> world \<Rightarrow> task_id \<Rightarrow> agent_id \<Rightarrow> task_claim_source \<Rightarrow> actor_ref \<Rightarrow> reduction" where
  "reduce_claim_task env s task_id agent_id source actor =
     (case assign_task env s task_id agent_id source task_feed_kind.Claimed actor of
        Inl e \<Rightarrow> Inl e
      | Inr s' \<Rightarrow>
          (let claimed_at = (case Option.bind (find_task task_id (s_tasks s')) t_claimed_at of
                               Some c \<Rightarrow> c | None \<Rightarrow> e_now env) in
           Inr (s', TaskClaimed task_id agent_id claimed_at source, Accepted)))"

definition reduce_release_task :: "env \<Rightarrow> world \<Rightarrow> task_id \<Rightarrow> actor_ref \<Rightarrow> reduction" where
  "reduce_release_task env s task_id actor =
     (case find_task task_id (s_tasks s) of
        None \<Rightarrow> Inl NotFound
      | Some task \<Rightarrow>
          if t_status task = task_status.Running
          then Inl (Validation ''a running task must be stopped before releasing its claim'')
          else
           (let s1 = edit_task task_id (\<lambda>t. t\<lparr>t_assigned_agent := None, t_claimed_at := None,
                        t_claim_source := None\<rparr>) s in
            Inr (feed env s1 task_id actor task_feed_kind.Released ''Task claim released'',
                 TaskReleased task_id, Accepted)))"

definition reduce_add_task_comment ::
    "env \<Rightarrow> world \<Rightarrow> task_id \<Rightarrow> string \<Rightarrow> artifact_id list \<Rightarrow> actor_ref \<Rightarrow> reduction" where
  "reduce_add_task_comment env s task_id body artifact_ids actor =
     (if \<not> valid_content_text body (e_max_message_bytes env)
      then Inl (Validation ''task comment is empty or exceeds the message limit'')
      else case find_task task_id (s_tasks s) of
        None \<Rightarrow> Inl NotFound
      | Some task \<Rightarrow>
          if ac_kind actor = actor_kind.Agent
             \<and> map_option (show_agent_id env) (t_assigned_agent task) \<noteq> ac_id actor
          then Inl Forbidden
          else if 256 < length artifact_ids
             \<or> any (\<lambda>i. \<not> any (\<lambda>a. ar_id a = i \<and> ar_mission_id a = t_mission_id task
                          \<and> (ar_task_id a = Some task_id \<or> ar_task_id a = None)) (s_artifacts s)) artifact_ids
          then Inl NotFound
          else
           (let (s', entry) = append_task_feed env s task_id actor task_feed_kind.Comment body artifact_ids in
            Inr (s', TaskActivityAdded entry, ResultCreated (e_uuid_text env (feed_uuid (f_id entry))))))"

section \<open>Creation and patching\<close>

text \<open>\<open>snapshot.agents.iter().find(|agent| agent.id == agent_id).and_then(|agent| agent.role_id)\<close>\<close>

definition agent_role :: "'z snapshot_scheme \<Rightarrow> agent_id \<Rightarrow> role_id option" where
  "agent_role s agent_id = Option.bind (find (\<lambda>a. a_id a = agent_id) (s_agents s)) a_role_id"

definition new_task :: "env \<Rightarrow> world \<Rightarrow> task_spec \<Rightarrow> task_id \<Rightarrow> task_view" where
  "new_task env s spec i = (task_candidate spec)\<lparr>t_id := i,
     t_branch := Some (''frank/task-'' @ show_task_id env i),
     t_organization_revision := map_option g_published_revision (o_published (s_organization s))\<rparr>"

text \<open>\<open>push\<close>, \<open>sort_unstable_by_key(to_string)\<close>, \<open>dedup\<close> on the children of a parent.\<close>

definition add_child :: "env \<Rightarrow> task_id \<Rightarrow> task_id list \<Rightarrow> task_id list" where
  "add_child env i children = remdups_adj (sort_key (show_task_id env) (children @ [i]))"

definition link_parent :: "env \<Rightarrow> world \<Rightarrow> task_view \<Rightarrow> world orch_result" where
  "link_parent env s task =
     (case t_parent_task_id task of
        None \<Rightarrow> Inr s
      | Some parent_id \<Rightarrow>
          (case find_task parent_id (s_tasks s) of
             None \<Rightarrow> Inl NotFound
           | Some parent \<Rightarrow>
               if t_status parent \<in> {task_status.Done, task_status.Cancelled}
               then Inl (Validation ''cannot add a child to a final parent task'')
               else if t_status parent \<in> {task_status.Running, task_status.Review}
               then Inl (Validation ''cannot add a child while the parent task is active'')
               else Inr (edit_task parent_id (\<lambda>p. p\<lparr>t_child_task_ids := add_child env (t_id task) (t_child_task_ids p),
                                                  t_status := task_status.Blocked\<rparr>) s)))"

definition check_create_task :: "world \<Rightarrow> task_spec \<Rightarrow> unit orch_result" where
  "check_create_task s spec =
     (case find_mission (ts_mission_id spec) (s_missions s) of
        None \<Rightarrow> Inl NotFound
      | Some mission \<Rightarrow>
          if mission_is_final mission
          then Inl (Validation ''cannot add a task to a final mission'')
          else if (case ts_assigned_agent spec of None \<Rightarrow> False | Some a \<Rightarrow> \<not> has_active_agent s a)
          then Inl NotFound
          else if (case ts_assigned_agent spec of None \<Rightarrow> False | Some a \<Rightarrow> \<not> organization_allows_agent s a)
          then Inl (Validation ''assigned agent is not an active Organization staff member'')
          else if (case ts_required_role_id spec of None \<Rightarrow> False | Some r \<Rightarrow> \<not> has_active_role s r)
          then Inl NotFound
          else if (case (ts_required_role_id spec, ts_assigned_agent spec) of
                     (Some r, Some a) \<Rightarrow> agent_role s a \<noteq> Some r | _ \<Rightarrow> False)
          then Inl (Validation ''assigned agent does not belong to the task role'')
          else validate_task_spec spec (s_tasks s))"

definition reduce_create_task :: "env \<Rightarrow> world \<Rightarrow> task_spec \<Rightarrow> actor_ref \<Rightarrow> reduction" where
  "reduce_create_task env s spec actor =
     (case check_create_task s spec of
        Inl e \<Rightarrow> Inl e
      | Inr _ \<Rightarrow>
          (let i = TaskId (next_uuid env s); s1 = drew s; task = new_task env s spec i in
           case link_parent env s1 task of
             Inl e \<Rightarrow> Inl e
           | Inr s2 \<Rightarrow>
               (let s3 = s2\<lparr>s_tasks := s_tasks s2 @ [task]\<rparr> in
                Inr (feed env s3 i actor task_feed_kind.Created (''Task created: '' @ t_title task),
                     TaskCreated task, ResultCreated (show_task_id env i)))))"

definition check_update_task :: "world \<Rightarrow> task_view \<Rightarrow> task_view \<Rightarrow> unit orch_result" where
  "check_update_task s existing candidate =
     (if t_assigned_agent candidate \<noteq> t_assigned_agent existing
      then Inl (Validation ''use claim, assign, or release commands to change task ownership'')
      else if (case t_assigned_agent candidate of None \<Rightarrow> False | Some a \<Rightarrow> \<not> has_active_agent s a)
      then Inl NotFound
      else if (case t_assigned_agent candidate of None \<Rightarrow> False | Some a \<Rightarrow> \<not> organization_allows_agent s a)
      then Inl (Validation ''assigned agent is not an active Organization staff member'')
      else case validate_task_view candidate (s_tasks s) of
        Inl e \<Rightarrow> Inl e
      | Inr _ \<Rightarrow>
          if (case t_required_role_id candidate of None \<Rightarrow> False | Some r \<Rightarrow> \<not> has_active_role s r)
          then Inl NotFound
          else if (case (t_required_role_id candidate, t_assigned_agent candidate) of
                     (Some r, Some a) \<Rightarrow> agent_role s a \<noteq> Some r | _ \<Rightarrow> False)
          then Inl (Validation ''assigned agent does not belong to the task role'')
          else Inr ())"

text \<open>The lane follows a changed dependency list.\<close>

definition relock_candidate :: "task_view list \<Rightarrow> task_view \<Rightarrow> task_view \<Rightarrow> task_view orch_result" where
  "relock_candidate tasks existing candidate =
     (if t_dependencies candidate = t_dependencies existing then Inr candidate
      else if t_status candidate \<in> {task_status.Running, task_status.Review}
      then Inl (Validation ''dependencies cannot change after a task starts'')
      else if t_status candidate = task_status.Ready \<and> \<not> all_done tasks (t_dependencies candidate)
      then Inr (candidate\<lparr>t_status := task_status.Blocked\<rparr>)
      else if t_status candidate = task_status.Blocked \<and> all_done tasks (t_dependencies candidate)
      then Inr (candidate\<lparr>t_status := task_status.Ready\<rparr>)
      else Inr candidate)"

definition reduce_update_task :: "env \<Rightarrow> world \<Rightarrow> task_id \<Rightarrow> task_patch \<Rightarrow> actor_ref \<Rightarrow> reduction" where
  "reduce_update_task env s task_id patch actor =
     (case find_task task_id (s_tasks s) of
        None \<Rightarrow> Inl NotFound
      | Some existing \<Rightarrow>
          (let patched = apply_task_patch existing patch in
           case check_update_task s existing patched of
             Inl e \<Rightarrow> Inl e
           | Inr _ \<Rightarrow>
               (case relock_candidate (s_tasks s) existing patched of
                  Inl e \<Rightarrow> Inl e
                | Inr candidate \<Rightarrow>
                    (let s1 = edit_task task_id (\<lambda>_. candidate) s;
                         s2 = (if t_status candidate = t_status existing then s1
                               else if t_status candidate = task_status.Ready
                               then feed env s1 task_id actor task_feed_kind.DependencyUnlocked
                                      ''Dependency update completed; task is now available''
                               else feed env s1 task_id actor task_feed_kind.DependencyLocked
                                      ''Task unavailable until its dependency is done'') in
                     Inr (feed env s2 task_id actor task_feed_kind.Comment ''Task details updated'',
                          TaskUpdated candidate, Accepted)))))"

section \<open>Status changes and review\<close>

text \<open>The guards of \<open>reduce_set_task_status\<close> up to the worktree block; the value is the review
  target.\<close>

definition check_review_decider :: "env \<Rightarrow> task_view \<Rightarrow> task_status \<Rightarrow> actor_ref \<Rightarrow> unit orch_result" where
  "check_review_decider env task status actor =
     (if t_status task = task_status.Review
         \<and> status \<in> {task_status.Running, task_status.Done}
         \<and> ac_kind actor = actor_kind.Agent
      then (case actor_agent env actor of
              None \<Rightarrow> Inl Forbidden
            | Some reviewer \<Rightarrow>
                if t_reviewer_agent task \<noteq> Some reviewer then Inl Forbidden else Inr ())
      else Inr ())"

definition resolve_review_target ::
    "env \<Rightarrow> world \<Rightarrow> task_view \<Rightarrow> task_status \<Rightarrow> actor_ref \<Rightarrow> (agent_id option) orch_result" where
  "resolve_review_target env s task status actor =
     (if status = task_status.Review
      then (case t_assigned_agent task of
              None \<Rightarrow> Inl (Validation ''a review task must retain its source staff agent'')
            | Some src \<Rightarrow>
                if ac_kind actor = actor_kind.Agent \<and> actor_agent env actor \<noteq> Some src
                then Inl Forbidden
                else Inr (organization_review_target s src))
      else Inr None)"

definition check_running :: "world \<Rightarrow> task_view \<Rightarrow> unit orch_result" where
  "check_running s task =
     (case t_assigned_agent task of
        None \<Rightarrow> Inl (Validation ''assign an active agent before running this task'')
      | Some agent_id \<Rightarrow>
          if \<not> has_active_agent s agent_id
          then Inl (Validation ''assign an active agent before running this task'')
          else if \<not> organization_allows_agent s agent_id
          then Inl (Validation ''running task agent is not an active Organization staff member'')
          else if (case t_required_role_id task of None \<Rightarrow> False
                   | Some role_id \<Rightarrow> agent_role s agent_id \<noteq> Some role_id)
          then Inl (Validation ''running task must be assigned to a member of its role'')
          else Inr ())"

definition check_set_task_status ::
    "env \<Rightarrow> world \<Rightarrow> task_view \<Rightarrow> task_status \<Rightarrow> actor_ref \<Rightarrow> (agent_id option) orch_result" where
  "check_set_task_status env s task status actor =
     (if \<not> task_can_transition_to (t_status task) status
      then Inl (InvalidTransition (''task cannot transition from ''
             @ debug_task_status (t_status task) @ '' to '' @ debug_task_status status))
      else case check_review_decider env task status actor of
        Inl e \<Rightarrow> Inl e
      | Inr _ \<Rightarrow>
        (case resolve_review_target env s task status actor of
           Inl e \<Rightarrow> Inl e
         | Inr review_target \<Rightarrow>
           if status = task_status.Review \<and> o_published (s_organization s) \<noteq> None \<and> review_target = None
           then Inl (Validation ''published Organization has no review target for this staff member'')
           else if status \<in> {task_status.Ready, task_status.Running}
              \<and> \<not> all_done (s_tasks s) (t_dependencies task)
           then Inl (Validation ''task dependencies must be done before starting this task'')
           else case (if status = task_status.Running then check_running s task else Inr ()) of
             Inl e \<Rightarrow> Inl e
           | Inr _ \<Rightarrow>
             if status = task_status.Done \<and> \<not> all_done (s_tasks s) (t_child_task_ids task)
             then Inl (Validation ''parent work item cannot complete until every child is done'')
             else Inr review_target))"

definition operation_is_settled :: "operation_view \<Rightarrow> bool" where
  "operation_is_settled x \<longleftrightarrow>
     op_status x \<in> {operation_status.Succeeded, operation_status.Cancelled, operation_status.Failed}"

definition queued_operation :: "env \<Rightarrow> operation_kind \<Rightarrow> uuid \<Rightarrow> string \<Rightarrow> string \<Rightarrow> operation_view" where
  "queued_operation env kind u resource phase = \<lparr>op_id = OperationId u, op_kind = kind,
     op_status = operation_status.Queued, op_resource = resource, op_phase = phase, op_attempt = 0,
     op_error = None, op_created_at = e_now env, op_updated_at = e_now env\<rparr>"

text \<open>Entering \<open>Running\<close>: the mission must be active, the worktree is planned and its creation
  queued; the flag says whether an operation was queued now.\<close>

definition provision_worktree :: "env \<Rightarrow> world \<Rightarrow> task_view \<Rightarrow> (world \<times> bool) orch_result" where
  "provision_worktree env s task =
     (case find_mission (t_mission_id task) (s_missions s) of
        None \<Rightarrow> Inl NotFound
      | Some mission \<Rightarrow>
        if m_status mission \<noteq> mission_status.Active
        then Inl (Validation ''a task can run only while its mission is active'')
        else case find (\<lambda>p. p_id p = m_project_id mission \<and> \<not> p_archived p) (s_projects s) of
          None \<Rightarrow> Inl NotFound
        | Some project \<Rightarrow>
          (case git_workflow_new env project (sv_allowed_project_roots (s_server s)) of
             Inl e \<Rightarrow> Inl (Validation (git_error_text e))
           | Inr workflow \<Rightarrow>
             (let mission_plan = branch_plan workflow (m_branch mission) (p_base_branch project);
                  task_plan = task_plan_from_base env workflow (t_id task) (m_branch mission);
                  s1 = edit_task (t_id task) (\<lambda>t. t\<lparr>t_worktree := Some (wp_path task_plan),
                         t_branch := Some (wp_branch task_plan)\<rparr>) s in
              if any (\<lambda>x. op_kind x = operation_kind.CreateWorktree
                        \<and> worktree_operation_matches_task env x (t_id task)
                        \<and> \<not> operation_is_settled x) (s_operations s)
              then Inr (s1, False)
              else
               (let u = next_uuid env s1;
                    request = \<lparr>cw_project_id = m_project_id mission, cw_mission_id = m_id mission,
                      cw_mission_branch = wp_branch mission_plan, cw_mission_base = wp_base mission_plan,
                      cw_mission_path = wp_path mission_plan, cw_task_id = t_id task,
                      cw_task_branch = wp_branch task_plan, cw_task_base = wp_base task_plan,
                      cw_task_path = wp_path task_plan\<rparr> in
                case e_worktree_encode env request of
                  Inl e \<Rightarrow> Inl (Validation e)
                | Inr resource \<Rightarrow>
                    Inr ((drew s1)\<lparr>s_operations := s_operations s1
                           @ [queued_operation env operation_kind.CreateWorktree u resource ''queued'']\<rparr>,
                         True)))))"

definition status_edit ::
    "task_status \<Rightarrow> task_status \<Rightarrow> agent_id option \<Rightarrow> task_view \<Rightarrow> task_view" where
  "status_edit current status review_target t = t\<lparr>t_status := status,
     t_reviewer_agent := (if status = task_status.Review then review_target
                          else if current = task_status.Review then None
                          else t_reviewer_agent t)\<rparr>"

definition apply_status ::
    "world \<Rightarrow> task_id \<Rightarrow> task_status \<Rightarrow> task_status \<Rightarrow> agent_id option \<Rightarrow> world" where
  "apply_status s task_id current status review_target =
     (let s1 = edit_task task_id (status_edit current status review_target) s in
      if status \<in> {task_status.Review, task_status.Done, task_status.Cancelled}
      then revoke_grants (\<lambda>g. gv_task_id g = task_id) s1 else s1)"

definition pending_review :: "task_id \<Rightarrow> review_work_item_view \<Rightarrow> bool" where
  "pending_review task_id r \<longleftrightarrow>
     rv_source_task_id r = task_id \<and> rv_status r = review_work_item_status.Pending"

definition settle_review :: "env \<Rightarrow> world \<Rightarrow> task_id \<Rightarrow> review_work_item_status \<Rightarrow> world" where
  "settle_review env s task_id status = s\<lparr>s_review_items := update_first (pending_review task_id)
     (\<lambda>r. r\<lparr>rv_status := status, rv_updated_at := e_now env\<rparr>) (s_review_items s)\<rparr>"

fun review_outcome :: "task_status \<Rightarrow> review_work_item_status" where
  "review_outcome task_status.Done = review_work_item_status.Approved"
| "review_outcome task_status.Running = review_work_item_status.Rejected"
| "review_outcome task_status.Cancelled = review_work_item_status.Cancelled"
| "review_outcome task_status.Blocked = review_work_item_status.Rejected"
| "review_outcome _ = review_work_item_status.Cancelled"

text \<open>The review work item of a status change: opened on entry to \<open>Review\<close>, settled on exit.\<close>

definition review_event ::
    "env \<Rightarrow> world \<Rightarrow> task_view \<Rightarrow> task_status \<Rightarrow> task_status \<Rightarrow> agent_id option
       \<Rightarrow> (world \<times> review_work_item_view option) orch_result" where
  "review_event env s task current status review_target =
     (if status = task_status.Review then
        (if o_published (s_organization s) = None then Inr (s, None)
         else case t_assigned_agent task of
           None \<Rightarrow> Inl (Validation ''a review task must retain its source staff agent'')
         | Some source_agent \<Rightarrow>
           (case review_target of
              None \<Rightarrow> Inl (Validation ''a published review task must have a reviewer'')
            | Some reviewer_agent \<Rightarrow>
              (case organization_review_contract s source_agent reviewer_agent of
                 None \<Rightarrow> Inl (Validation ''published review relation is missing its contract'')
               | Some (relation_id, contract) \<Rightarrow>
                   (let review = \<lparr>rv_id = ReviewWorkItemId (next_uuid env s),
                          rv_mission_id = t_mission_id task, rv_source_task_id = t_id task,
                          rv_source_agent = source_agent, rv_reviewer_agent = reviewer_agent,
                          rv_relation_id = relation_id, rv_contract = contract,
                          rv_status = review_work_item_status.Pending, rv_decision_reason = None,
                          rv_created_at = e_now env, rv_updated_at = e_now env\<rparr> in
                    Inr ((drew s)\<lparr>s_review_items := s_review_items s @ [review]\<rparr>, Some review)))))
      else if current = task_status.Review then
        Inr (settle_review env s (t_id task) (review_outcome status),
             map_option (\<lambda>r. r\<lparr>rv_status := review_outcome status, rv_updated_at := e_now env\<rparr>)
               (find (pending_review (t_id task)) (s_review_items s)))
      else Inr (s, None))"

definition reduce_set_task_status :: "env \<Rightarrow> world \<Rightarrow> task_id \<Rightarrow> task_status \<Rightarrow> actor_ref \<Rightarrow> reduction" where
  "reduce_set_task_status env s task_id status actor =
     (case find_task task_id (s_tasks s) of
        None \<Rightarrow> Inl NotFound
      | Some task \<Rightarrow>
        (case check_set_task_status env s task status actor of
           Inl e \<Rightarrow> Inl e
         | Inr review_target \<Rightarrow>
           (case (if status = task_status.Running then provision_worktree env s task else Inr (s, False)) of
              Inl e \<Rightarrow> Inl e
            | Inr (s1, queued) \<Rightarrow>
              (let current = t_status task;
                   s2 = apply_status s1 task_id current status review_target;
                   task_value = (case find_task task_id (s_tasks s2) of Some t \<Rightarrow> t | None \<Rightarrow> task) in
               case review_event env s2 task current status review_target of
                 Inl e \<Rightarrow> Inl e
               | Inr (s3, review) \<Rightarrow>
                 (let s4 = feed env s3 task_id actor task_feed_kind.StatusChanged
                             (''Status changed to '' @ debug_task_status status);
                      s5 = update_dependency_locks env s4 task_id actor status;
                      s6 = (if status = task_status.Done then update_parent_child_locks env s5 task_id actor
                            else s5) in
                  if queued then
                    (case find (\<lambda>x. op_kind x = operation_kind.CreateWorktree
                                  \<and> worktree_operation_matches_task env x task_id
                                  \<and> op_status x = operation_status.Queued) (s_operations s6) of
                       None \<Rightarrow> Inl (Validation ''worktree operation disappeared before commit'')
                     | Some operation \<Rightarrow>
                         Inr (s6, TaskWorktreeProvisioning task_value operation, Operation operation))
                  else
                    (let event = (case review of
                           Some r \<Rightarrow> if status = task_status.Review then ReviewWorkItemOpened task_value r
                                     else if current = task_status.Review then ReviewWorkItemDecided task_value r
                                     else TaskStatusChanged task_id status
                         | None \<Rightarrow> TaskStatusChanged task_id status) in
                     Inr (s6, event, Accepted)))))))"

definition check_task_accept :: "env \<Rightarrow> world \<Rightarrow> task_view \<Rightarrow> actor_ref \<Rightarrow> unit orch_result" where
  "check_task_accept env s task actor =
     (if t_status task \<noteq> task_status.Review
      then Inl (InvalidTransition ''only a task in review can be accepted'')
      else if \<not> all_done (s_tasks s) (t_child_task_ids task)
      then Inl (Validation ''parent work item cannot be accepted until every child is done'')
      else if ac_kind actor = actor_kind.Agent
      then (case actor_agent env actor of
              None \<Rightarrow> Inl Forbidden
            | Some reviewer \<Rightarrow>
                (case t_assigned_agent task of
                   None \<Rightarrow> Inl (Validation ''a review task must retain its source staff agent'')
                 | Some src \<Rightarrow>
                     if o_published (s_organization s) \<noteq> None
                        \<and> (t_reviewer_agent task \<noteq> Some reviewer \<or> \<not> organization_allows_review s src reviewer)
                     then Inl Forbidden else Inr ()))
      else Inr ())"

text \<open>A task with a worktree is accepted by queueing its commit; the status follows when the
  operation has run.\<close>

definition accept_with_worktree :: "env \<Rightarrow> world \<Rightarrow> task_view \<Rightarrow> string \<Rightarrow> reduction" where
  "accept_with_worktree env s task worktree =
     (if \<not> is_allowed_path env worktree (sv_allowed_project_roots (s_server s))
         \<or> \<not> e_is_dir env (components worktree)
      then Inl (Validation ''task worktree is outside the allowed project roots'')
      else if any (\<lambda>x. op_kind x = operation_kind.CommitTask
                \<and> op_resource x = show_task_id env (t_id task)
                \<and> op_status x \<in> {operation_status.Queued, operation_status.Running,
                               operation_status.Waiting, operation_status.Recovering}) (s_operations s)
      then Inl (InvalidTransition ''task acceptance is already queued'')
      else
       (let operation = queued_operation env operation_kind.CommitTask (next_uuid env s)
                          (show_task_id env (t_id task)) ''validate'';
            s1 = (drew s)\<lparr>s_operations := s_operations s @ [operation]\<rparr> in
        Inr (settle_review env s1 (t_id task) review_work_item_status.Approved,
             OperationChanged operation, Operation operation)))"

definition reduce_task_accept :: "env \<Rightarrow> world \<Rightarrow> task_id \<Rightarrow> actor_ref \<Rightarrow> reduction" where
  "reduce_task_accept env s task_id actor =
     (case find_task task_id (s_tasks s) of
        None \<Rightarrow> Inl NotFound
      | Some task \<Rightarrow>
        (case check_task_accept env s task actor of
           Inl e \<Rightarrow> Inl e
         | Inr _ \<Rightarrow>
           (case t_worktree task of
              Some worktree \<Rightarrow> accept_with_worktree env s task worktree
            | None \<Rightarrow>
              (let task_value = task\<lparr>t_status := task_status.Done\<rparr>;
                   s1 = edit_task task_id (\<lambda>t. t\<lparr>t_status := task_status.Done\<rparr>) s;
                   s2 = feed env s1 task_id actor task_feed_kind.StatusChanged ''Task accepted and marked done'';
                   s3 = update_dependency_locks env s2 task_id actor task_status.Done;
                   s4 = update_parent_child_locks env s3 task_id actor;
                   s5 = settle_review env s4 task_id review_work_item_status.Approved;
                   event = (case find (\<lambda>r. rv_source_task_id r = task_id
                                          \<and> rv_status r = review_work_item_status.Approved) (s_review_items s5) of
                              Some r \<Rightarrow> ReviewWorkItemDecided task_value r
                            | None \<Rightarrow> TaskStatusChanged task_id task_status.Done) in
               Inr (s5, event, Accepted)))))"

definition is_status_changed :: "event \<Rightarrow> bool" where
  "is_status_changed ev \<longleftrightarrow> (case ev of TaskStatusChanged _ _ \<Rightarrow> True | _ \<Rightarrow> False)"

definition record_decision :: "env \<Rightarrow> string option \<Rightarrow> review_work_item_view \<Rightarrow> review_work_item_view" where
  "record_decision env reason item = item\<lparr>
     rv_decision_reason := (case reason of None \<Rightarrow> None
                            | Some r \<Rightarrow> if blank r then None else Some (trim r)),
     rv_updated_at := e_now env\<rparr>"

definition check_decide_review ::
    "env \<Rightarrow> world \<Rightarrow> review_work_item_view \<Rightarrow> actor_ref \<Rightarrow> unit orch_result" where
  "check_decide_review env s review actor =
     (if rv_status review \<noteq> review_work_item_status.Pending
      then Inl (InvalidTransition ''review work item has already been decided'')
      else if ac_kind actor = actor_kind.Agent
      then (case actor_agent env actor of
              None \<Rightarrow> Inl Forbidden
            | Some reviewer \<Rightarrow>
                if reviewer \<noteq> rv_reviewer_agent review
                   \<or> \<not> organization_allows_review s (rv_source_agent review) (rv_reviewer_agent review)
                then Inl Forbidden else Inr ())
      else Inr ())"

definition reduce_decide_review ::
    "env \<Rightarrow> world \<Rightarrow> review_work_item_id \<Rightarrow> review_decision \<Rightarrow> string option \<Rightarrow> actor_ref \<Rightarrow> reduction" where
  "reduce_decide_review env s review_item_id decision reason actor =
     (if (case reason of None \<Rightarrow> False | Some r \<Rightarrow> \<not> valid_content_text r (e_max_message_bytes env))
      then Inl (Validation ''review decision reason is empty or exceeds the message limit'')
      else case find (\<lambda>r. rv_id r = review_item_id) (s_review_items s) of
        None \<Rightarrow> Inl NotFound
      | Some review \<Rightarrow>
        (case check_decide_review env s review actor of
           Inl e \<Rightarrow> Inl e
         | Inr _ \<Rightarrow>
           (case (case decision of
                    review_decision.Approve \<Rightarrow> reduce_task_accept env s (rv_source_task_id review) actor
                  | review_decision.Reject \<Rightarrow>
                      reduce_set_task_status env s (rv_source_task_id review) task_status.Running actor) of
              Inl e \<Rightarrow> Inl e
            | Inr (next, event, result) \<Rightarrow>
              (case find (\<lambda>r. rv_id r = review_item_id) (s_review_items next) of
                 None \<Rightarrow> Inr (next, event, result)
               | Some item \<Rightarrow>
                 (let next' = next\<lparr>s_review_items := update_first (\<lambda>r. rv_id r = review_item_id)
                                (record_decision env reason) (s_review_items next)\<rparr> in
                  if is_status_changed event
                  then (case find_task (rv_source_task_id review) (s_tasks next') of
                          None \<Rightarrow> Inl NotFound
                        | Some task \<Rightarrow>
                            Inr (next', ReviewWorkItemDecided task (record_decision env reason item), result))
                  else Inr (next', event, result))))))"

section \<open>Dispatch\<close>

definition misrouted :: "'a orch_result" where
  "misrouted = Inl (Validation ''command was routed to the wrong reducer'')"

definition reduce_task :: "env \<Rightarrow> world \<Rightarrow> command \<Rightarrow> actor_ref \<Rightarrow> reduction" where
  "reduce_task env s command actor =
     (case command of
        CreateTask spec \<Rightarrow> reduce_create_task env s spec actor
      | UpdateTask task_id patch \<Rightarrow> reduce_update_task env s task_id patch actor
      | SetTaskStatus task_id status \<Rightarrow> reduce_set_task_status env s task_id status actor
      | AssignTask task_id agent_id \<Rightarrow> reduce_assign_task env s task_id agent_id actor
      | ClaimTask task_id agent_id source \<Rightarrow> reduce_claim_task env s task_id agent_id source actor
      | ReleaseTask task_id \<Rightarrow> reduce_release_task env s task_id actor
      | AddTaskComment task_id body artifact_ids \<Rightarrow>
          reduce_add_task_comment env s task_id body artifact_ids actor
      | TaskAccept task_id \<Rightarrow> reduce_task_accept env s task_id actor
      | DecideReview review_item_id decision reason \<Rightarrow>
          reduce_decide_review env s review_item_id decision reason actor
      | _ \<Rightarrow> misrouted)"

end
