(* ===== verification/WorkflowReducer.thy ===== *)
theory WorkflowReducer
  imports TaskReducer
begin

text \<open>
  Taskboards, work items, pull offers, human input, rework, agent departure and the
  Organization drain: \<open>reduce/workflow.rs\<close> and \<open>reduce/workflow/\<close>.
\<close>

section \<open>Shared checks\<close>

definition validate_board_name :: "string \<Rightarrow> unit orch_result" where
  "validate_board_name name =
     (if blank name \<or> 128 < length name \<or> has_control name
      then Inl (Validation ''taskboard name is invalid'') else Inr ())"

definition active_board :: "'z snapshot_scheme \<Rightarrow> taskboard_id \<Rightarrow> taskboard_view option" where
  "active_board s board_id = find (\<lambda>b. b_id b = board_id \<and> \<not> b_archived b) (s_taskboards s)"

definition ensure_board :: "'z snapshot_scheme \<Rightarrow> taskboard_id \<Rightarrow> unit orch_result" where
  "ensure_board s board_id =
     (if any (\<lambda>b. b_id b = board_id \<and> \<not> b_archived b) (s_taskboards s) then Inr () else Inl NotFound)"

definition ensure_role :: "'z snapshot_scheme \<Rightarrow> role_id \<Rightarrow> unit orch_result" where
  "ensure_role s role_id = (if has_active_role s role_id then Inr () else Inl NotFound)"

definition ensure_opt_role :: "'z snapshot_scheme \<Rightarrow> role_id option \<Rightarrow> unit orch_result" where
  "ensure_opt_role s role_id = (case role_id of None \<Rightarrow> Inr () | Some r \<Rightarrow> ensure_role s r)"

definition has_active_project :: "'z snapshot_scheme \<Rightarrow> project_id \<Rightarrow> bool" where
  "has_active_project s project_id \<longleftrightarrow> any (\<lambda>p. p_id p = project_id \<and> \<not> p_archived p) (s_projects s)"

definition ensure_eligible_agent ::
    "'z snapshot_scheme \<Rightarrow> task_view \<Rightarrow> agent_id \<Rightarrow> unit orch_result" where
  "ensure_eligible_agent s task agent_id =
     (case active_agent s agent_id of
        None \<Rightarrow> Inl NotFound
      | Some agent \<Rightarrow>
          if \<not> agent_is_idle agent
          then Inl (Validation ''only an idle or offline agent can receive an offer'')
          else if (case t_required_role_id task of None \<Rightarrow> False | Some r \<Rightarrow> a_role_id agent \<noteq> Some r)
          then Inl (Validation ''offer agent does not belong to the work item's role'')
          else if any (\<lambda>c. t_id c \<noteq> t_id task \<and> t_assigned_agent c = Some agent_id \<and> is_unfinished c) (s_tasks s)
          then Inl (Validation ''agent already owns unfinished work'')
          else if \<not> all_done (s_tasks s) (t_dependencies task)
          then Inl (Validation ''work item dependencies must be done before offering it'')
          else Inr ())"

section \<open>Work items\<close>

definition check_work_item_parent :: "'z snapshot_scheme \<Rightarrow> work_item_spec \<Rightarrow> unit orch_result" where
  "check_work_item_parent s spec =
     (case ws_parent_task_id spec of
        None \<Rightarrow> Inr ()
      | Some parent_id \<Rightarrow>
          (case find_task parent_id (s_tasks s) of
             None \<Rightarrow> Inl NotFound
           | Some parent \<Rightarrow>
               if t_parent_task_id parent \<noteq> None
               then Inl (Validation ''child work items cannot have grandchildren'')
               else if t_status parent \<in> {task_status.Done, task_status.Cancelled}
               then Inl (Validation ''cannot add children to a final parent task'')
               else if t_status parent \<in> {task_status.Running, task_status.Review}
               then Inl (Validation ''cannot add children while the parent task is active'')
               else if (case ws_mission_id spec of None \<Rightarrow> False | Some m \<Rightarrow> m \<noteq> t_mission_id parent)
               then Inl (Validation ''work item and parent must share a mission'')
               else Inr ()))"

definition work_item_mission :: "'z snapshot_scheme \<Rightarrow> work_item_spec \<Rightarrow> mission_id" where
  "work_item_mission s spec =
     (case ws_mission_id spec of
        Some m \<Rightarrow> m
      | None \<Rightarrow>
          (case Option.bind (ws_parent_task_id spec) (\<lambda>p. find_task p (s_tasks s)) of
             Some t \<Rightarrow> t_mission_id t
           | None \<Rightarrow> MissionId nil_uuid))"

definition work_item_task ::
    "env \<Rightarrow> 'z snapshot_scheme \<Rightarrow> work_item_spec \<Rightarrow> role_id option \<Rightarrow> task_id \<Rightarrow> task_view" where
  "work_item_task env s spec required_role_id i = \<lparr>t_id = i, t_mission_id = work_item_mission s spec,
     t_title = trim (ws_title spec), t_objective = ws_objective spec,
     t_dependencies = ws_dependencies spec, t_required_role_id = required_role_id,
     t_priority = ws_priority spec, t_budget = ws_budget spec, t_status = task_status.Backlog,
     t_assigned_agent = None, t_reviewer_agent = None, t_claimed_at = None, t_claim_source = None,
     t_attempt = 0, t_max_attempts = DEFAULT_MAX_ATTEMPTS, t_worktree = None,
     t_branch = Some (''frank/work-item-'' @ show_task_id env i), t_result_artifact = None,
     t_taskboard_id = Some (ws_taskboard_id spec), t_workflow_id = ws_workflow_id spec,
     t_parent_task_id = ws_parent_task_id spec, t_child_task_ids = [], t_kind = ws_kind spec,
     t_active_role_node_id = None,
     t_organization_revision = map_option g_published_revision (o_published (s_organization s)),
     t_rework_limit = (if ws_rework_limit spec = 0 then DEFAULT_REWORK_LIMIT else ws_rework_limit spec),
     t_rework_count = 0\<rparr>"

text \<open>\<open>create_work_item\<close> draws the id and returns the task; the caller inserts it.\<close>

definition create_work_item :: "env \<Rightarrow> world \<Rightarrow> work_item_spec \<Rightarrow> (world \<times> task_view) orch_result" where
  "create_work_item env s spec =
     (case active_board s (ws_taskboard_id spec) of
        None \<Rightarrow> Inl NotFound
      | Some board \<Rightarrow>
        (let required_role_id = or_else (ws_required_role_id spec) (b_default_role_id board) in
         case ensure_opt_role s required_role_id of
           Inl e \<Rightarrow> Inl e
         | Inr _ \<Rightarrow>
           (case check_work_item_parent s spec of
              Inl e \<Rightarrow> Inl e
            | Inr _ \<Rightarrow>
              if blank (ws_title spec) \<or> 256 < length (ws_title spec)
                 \<or> blank (ws_objective spec) \<or> MAX_MESSAGE_BODY_BYTES < length (ws_objective spec)
                 \<or> any (\<lambda>d. \<not> any (\<lambda>t. t_id t = d) (s_tasks s)) (ws_dependencies spec)
              then Inl (Validation ''work item title, objective, or dependency is invalid'')
              else if (case find_mission (work_item_mission s spec) (s_missions s) of
                         None \<Rightarrow> False | Some m \<Rightarrow> mission_is_final m)
              then Inl (Validation ''cannot add a work item to a final mission'')
              else
               (let task = work_item_task env s spec required_role_id (TaskId (next_uuid env s)) in
                case validate_task_view task (s_tasks s) of
                  Inl e \<Rightarrow> Inl e
                | Inr _ \<Rightarrow> Inr (drew s, task)))))"

definition reduce_create_work_item :: "env \<Rightarrow> world \<Rightarrow> work_item_spec \<Rightarrow> actor_ref \<Rightarrow> reduction" where
  "reduce_create_work_item env s spec actor =
     (case create_work_item env s spec of
        Inl e \<Rightarrow> Inl e
      | Inr (s1, task) \<Rightarrow>
          (case (case t_parent_task_id task of
                   None \<Rightarrow> Inr s1
                 | Some parent_id \<Rightarrow>
                     (case find_task parent_id (s_tasks s1) of
                        None \<Rightarrow> Inl NotFound
                      | Some _ \<Rightarrow>
                          Inr (edit_task parent_id (\<lambda>p. p\<lparr>t_child_task_ids := add_child env (t_id task) (t_child_task_ids p),
                                                         t_status := task_status.Blocked\<rparr>) s1))) of
             Inl e \<Rightarrow> Inl e
           | Inr s2 \<Rightarrow>
               (let s3 = s2\<lparr>s_tasks := s_tasks s2 @ [task]\<rparr> in
                Inr (feed env s3 (t_id task) actor task_feed_kind.Created (''Work item created: '' @ t_title task),
                     TaskCreated task, ResultCreated (show_task_id env (t_id task))))))"

definition release_edit :: "task_view \<Rightarrow> task_view" where
  "release_edit t = t\<lparr>t_assigned_agent := None, t_claimed_at := None, t_claim_source := None\<rparr>"

definition reduce_drop_work_item ::
    "env \<Rightarrow> world \<Rightarrow> task_id \<Rightarrow> taskboard_id \<Rightarrow> role_id option \<Rightarrow> actor_ref \<Rightarrow> reduction" where
  "reduce_drop_work_item env s task_id taskboard_id role_id actor =
     (case active_board s taskboard_id of
        None \<Rightarrow> Inl NotFound
      | Some target_board \<Rightarrow>
        (let target_role_id = or_else role_id (b_default_role_id target_board) in
         case ensure_opt_role s target_role_id of
           Inl e \<Rightarrow> Inl e
         | Inr _ \<Rightarrow>
           (case find_task task_id (s_tasks s) of
              None \<Rightarrow> Inl NotFound
            | Some task \<Rightarrow>
              (let from_board_id = t_taskboard_id task in
               if from_board_id = Some taskboard_id \<and> target_role_id = t_required_role_id task
               then Inr (s, WorkItemDropped task from_board_id taskboard_id target_role_id, Accepted)
               else if t_status task \<in> {task_status.Done, task_status.Cancelled}
               then Inl (Validation ''terminal work items cannot be dropped'')
               else if t_status task \<in> {task_status.Running, task_status.Review}
               then Inl (Validation ''active work must finish before its card is dropped'')
               else
                (let dropped = (\<lambda>t. release_edit (t\<lparr>t_taskboard_id := Some taskboard_id,
                                  t_required_role_id := target_role_id\<rparr>));
                     s1 = edit_task task_id dropped s in
                 Inr (feed env s1 task_id actor task_feed_kind.Released
                        (''Work item dropped on board '' @ e_uuid_text env (taskboard_uuid taskboard_id)),
                      WorkItemDropped (dropped task) from_board_id taskboard_id target_role_id, Accepted))))))"

fun create_children ::
    "env \<Rightarrow> world \<Rightarrow> task_id \<Rightarrow> mission_id \<Rightarrow> work_item_spec list \<Rightarrow> (world \<times> task_view list) orch_result" where
  "create_children env s parent_id parent_mission [] = Inr (s, [])"
| "create_children env s parent_id parent_mission (spec # specs) =
     (if (case ws_mission_id spec of None \<Rightarrow> False | Some m \<Rightarrow> m \<noteq> parent_mission)
      then Inl (Validation ''child work item must stay in the parent mission'')
      else case create_work_item env s (spec\<lparr>ws_mission_id := Some parent_mission,
                                             ws_parent_task_id := Some parent_id\<rparr>) of
        Inl e \<Rightarrow> Inl e
      | Inr (s1, task) \<Rightarrow>
          (case create_children env s1 parent_id parent_mission specs of
             Inl e \<Rightarrow> Inl e
           | Inr (s2, tasks) \<Rightarrow> Inr (s2, task # tasks)))"

definition spawn_edit :: "env \<Rightarrow> task_id list \<Rightarrow> task_view \<Rightarrow> task_view" where
  "spawn_edit env child_ids p = p\<lparr>
     t_child_task_ids := remdups_adj (sort_key (show_task_id env) (t_child_task_ids p @ child_ids)),
     t_status := (if t_status p \<in> {task_status.Done, task_status.Cancelled} then t_status p
                  else task_status.Blocked)\<rparr>"

definition reduce_spawn_child_work_items ::
    "env \<Rightarrow> world \<Rightarrow> task_id \<Rightarrow> work_item_spec list \<Rightarrow> actor_ref \<Rightarrow> reduction" where
  "reduce_spawn_child_work_items env s parent_id children actor =
     (case find_task parent_id (s_tasks s) of
        None \<Rightarrow> Inl NotFound
      | Some parent \<Rightarrow>
        if children = [] \<or> MAX_CHILD_WORK_ITEMS < length children
        then Inl (Validation (''fan-out must contain between one and ''
               @ show_nat MAX_CHILD_WORK_ITEMS @ '' children''))
        else if t_parent_task_id parent \<noteq> None
        then Inl (Validation ''child work items cannot spawn grandchildren'')
        else if t_status parent \<in> {task_status.Done, task_status.Cancelled}
        then Inl (Validation ''cannot add children to a final parent task'')
        else if t_status parent \<in> {task_status.Running, task_status.Review}
        then Inl (Validation ''cannot add children while the parent task is active'')
        else case create_children env s parent_id (t_mission_id parent) children of
          Inl e \<Rightarrow> Inl e
        | Inr (s1, created) \<Rightarrow>
          (let child_ids = map t_id created;
               s2 = edit_task parent_id (spawn_edit env child_ids) (s1\<lparr>s_tasks := s_tasks s1 @ created\<rparr>) in
           Inr (feed env s2 parent_id actor task_feed_kind.DependencyLocked
                  (''Work item split into '' @ show_nat (length child_ids) @ '' child cards''),
                ChildWorkItemsSpawned (spawn_edit env child_ids parent) created, WorkItems child_ids)))"

section \<open>Taskboards\<close>

definition reduce_create_taskboard :: "env \<Rightarrow> world \<Rightarrow> taskboard_spec \<Rightarrow> reduction" where
  "reduce_create_taskboard env s spec =
     (case validate_board_name (bs_name spec) of
        Inl e \<Rightarrow> Inl e
      | Inr _ \<Rightarrow>
        if (case bs_project_id spec of None \<Rightarrow> False | Some p \<Rightarrow> \<not> has_active_project s p)
        then Inl NotFound
        else case ensure_opt_role s (bs_default_role_id spec) of
          Inl e \<Rightarrow> Inl e
        | Inr _ \<Rightarrow>
          if any (\<lambda>b. \<not> b_archived b \<and> eq_ignore_ascii_case (b_name b) (bs_name spec)) (s_taskboards s)
          then Inl (Validation ''taskboard name must be unique'')
          else
           (let u = next_uuid env s;
                board = \<lparr>b_id = TaskboardId u, b_name = trim (bs_name spec),
                  b_project_id = bs_project_id spec, b_workflow_id = bs_workflow_id spec,
                  b_dispatch_mode = bs_dispatch_mode spec, b_default_role_id = bs_default_role_id spec,
                  b_archived = False, b_created_at = e_now env, b_updated_at = e_now env\<rparr> in
            Inr ((drew s)\<lparr>s_taskboards := s_taskboards s @ [board]\<rparr>, TaskboardUpserted board,
                 ResultCreated (e_uuid_text env u))))"

definition check_update_taskboard ::
    "'z snapshot_scheme \<Rightarrow> taskboard_id \<Rightarrow> taskboard_patch \<Rightarrow> unit orch_result" where
  "check_update_taskboard s taskboard_id patch =
     (case (case bp_name patch of
              None \<Rightarrow> Inr ()
            | Some name \<Rightarrow>
                (case validate_board_name name of
                   Inl e \<Rightarrow> Inl e
                 | Inr _ \<Rightarrow>
                     if any (\<lambda>c. b_id c \<noteq> taskboard_id \<and> \<not> b_archived c
                               \<and> eq_ignore_ascii_case (b_name c) (trim name)) (s_taskboards s)
                     then Inl (Validation ''taskboard name must be unique'') else Inr ())) of
        Inl e \<Rightarrow> Inl e
      | Inr _ \<Rightarrow>
          if (case bp_project_id patch of Some (Some p) \<Rightarrow> \<not> has_active_project s p | _ \<Rightarrow> False)
          then Inl NotFound
          else (case bp_default_role_id patch of Some r \<Rightarrow> ensure_opt_role s r | None \<Rightarrow> Inr ()))"

definition reduce_update_taskboard :: "env \<Rightarrow> world \<Rightarrow> taskboard_id \<Rightarrow> taskboard_patch \<Rightarrow> reduction" where
  "reduce_update_taskboard env s taskboard_id patch =
     (case active_board s taskboard_id of
        None \<Rightarrow> Inl NotFound
      | Some current \<Rightarrow>
        (case check_update_taskboard s taskboard_id patch of
           Inl e \<Rightarrow> Inl e
         | Inr _ \<Rightarrow>
           (let board = current\<lparr>
                  b_name := (case bp_name patch of None \<Rightarrow> b_name current | Some n \<Rightarrow> trim n),
                  b_project_id := set_some (bp_project_id patch) (b_project_id current),
                  b_workflow_id := set_some (bp_workflow_id patch) (b_workflow_id current),
                  b_dispatch_mode := set_some (bp_dispatch_mode patch) (b_dispatch_mode current),
                  b_default_role_id := set_some (bp_default_role_id patch) (b_default_role_id current),
                  b_updated_at := e_now env\<rparr> in
            Inr (s\<lparr>s_taskboards := update_first (\<lambda>b. b_id b = taskboard_id \<and> \<not> b_archived b) (\<lambda>_. board)
                     (s_taskboards s)\<rparr>,
                 TaskboardUpserted board, Accepted))))"

definition reduce_archive_taskboard :: "env \<Rightarrow> world \<Rightarrow> taskboard_id \<Rightarrow> reduction" where
  "reduce_archive_taskboard env s taskboard_id =
     (case active_board s taskboard_id of
        None \<Rightarrow> Inl NotFound
      | Some _ \<Rightarrow>
          if any (\<lambda>t. t_taskboard_id t = Some taskboard_id \<and> is_unfinished t) (s_tasks s)
          then Inl (Validation ''relocate unfinished work before archiving a taskboard'')
          else Inr (s\<lparr>s_taskboards := update_first (\<lambda>b. b_id b = taskboard_id \<and> \<not> b_archived b)
                        (\<lambda>b. b\<lparr>b_archived := True, b_updated_at := e_now env\<rparr>) (s_taskboards s)\<rparr>,
                    TaskboardArchived taskboard_id, Accepted))"

section \<open>Pull offers\<close>

definition reduce_create_work_offer :: "env \<Rightarrow> world \<Rightarrow> task_id \<Rightarrow> agent_id \<Rightarrow> reduction" where
  "reduce_create_work_offer env s task_id agent_id =
     (if rt_status (s_organization_runtime s) = organization_drain_status.Draining
      then Inl (Validation ''Organization is draining; no new work may be offered'')
      else case find_task task_id (s_tasks s) of
        None \<Rightarrow> Inl NotFound
      | Some task \<Rightarrow>
        (case t_taskboard_id task of
           None \<Rightarrow> Inl (Validation ''work item is not on a taskboard'')
         | Some board_id \<Rightarrow>
           (case active_board s board_id of
              None \<Rightarrow> Inl NotFound
            | Some board \<Rightarrow>
              if b_dispatch_mode board \<noteq> taskboard_dispatch_mode.Pull
              then Inl (Validation ''work offers are only valid on a pull-mode board'')
              else if t_status task \<notin> {task_status.Backlog, task_status.Ready}
              then Inl (Validation ''only backlog or ready work items can receive an offer'')
              else case ensure_eligible_agent s task agent_id of
                Inl e \<Rightarrow> Inl e
              | Inr _ \<Rightarrow>
                if any (\<lambda>x. of_task_id x = task_id \<and> offer_is_open (of_status x)) (s_work_offers s)
                then Inl (Validation ''work item already has an open offer'')
                else
                 (let expires_at = show_nat (unat (saturating_add
                          (of_nat (parse_or_zero 64 (e_now env)) :: u64) 300000));
                      offer = \<lparr>of_id = WorkOfferId (next_uuid env s), of_task_id = task_id,
                        of_taskboard_id = board_id, of_agent_id = agent_id,
                        of_role_id = t_required_role_id task, of_status = work_offer_status.Pending,
                        of_attempt = 1, of_created_at = e_now env, of_expires_at = expires_at,
                        of_responded_at = None\<rparr> in
                  Inr ((drew s)\<lparr>s_work_offers := s_work_offers s @ [offer]\<rparr>, WorkOfferCreated offer,
                       WorkOffer offer)))))"

definition open_offer :: "work_offer_id \<Rightarrow> work_offer_view \<Rightarrow> bool" where
  "open_offer offer_id x \<longleftrightarrow> of_id x = offer_id \<and> offer_is_open (of_status x)"

text \<open>The three outcomes of an answer: too late, accepted, declined.\<close>

definition answer_offer ::
    "env \<Rightarrow> world \<Rightarrow> work_offer_view \<Rightarrow> bool \<Rightarrow> actor_ref \<Rightarrow> (world \<times> work_offer_status) orch_result" where
  "answer_offer env s offer accept actor =
     (if parse_or_zero 64 (of_expires_at offer) \<le> parse_or_zero 64 (e_now env)
      then Inr (s, work_offer_status.Expired)
      else if accept then
        (case find_task (of_task_id offer) (s_tasks s) of
           None \<Rightarrow> Inl NotFound
         | Some task \<Rightarrow>
             if t_status task \<notin> {task_status.Backlog, task_status.Ready}
                \<or> t_taskboard_id task \<noteq> Some (of_taskboard_id offer)
                \<or> (case t_assigned_agent task of None \<Rightarrow> False | Some a \<Rightarrow> a \<noteq> of_agent_id offer)
             then Inl (InvalidTransition ''work offer no longer matches the card state'')
             else
              (let s1 = edit_task (of_task_id offer)
                          (claim_edit (e_now env) (of_agent_id offer) task_claim_source.Manual) s in
               Inr (feed env s1 (of_task_id offer) actor task_feed_kind.Claimed ''Work offer accepted'',
                    work_offer_status.Accepted)))
      else Inr (feed env s (of_task_id offer) actor task_feed_kind.Released ''Work offer declined'',
                work_offer_status.Declined))"

definition reduce_respond_work_offer ::
    "env \<Rightarrow> world \<Rightarrow> work_offer_id \<Rightarrow> bool \<Rightarrow> actor_ref \<Rightarrow> reduction" where
  "reduce_respond_work_offer env s offer_id accept actor =
     (case find (open_offer offer_id) (s_work_offers s) of
        None \<Rightarrow> Inl NotFound
      | Some offer \<Rightarrow>
        (case (if ac_kind actor = actor_kind.Agent
               then (case actor_agent env actor of
                       None \<Rightarrow> Inl Forbidden
                     | Some actor_id \<Rightarrow> if actor_id \<noteq> of_agent_id offer then Inl Forbidden else Inr ())
               else Inr ()) of
           Inl e \<Rightarrow> Inl e
         | Inr _ \<Rightarrow>
           (case answer_offer env s offer accept actor of
              Inl e \<Rightarrow> Inl e
            | Inr (s1, status) \<Rightarrow>
              (let offer' = offer\<lparr>of_status := status, of_responded_at := Some (e_now env)\<rparr> in
               Inr (s1\<lparr>s_work_offers := update_first (open_offer offer_id) (\<lambda>_. offer') (s_work_offers s1)\<rparr>,
                    WorkOfferResponded offer', WorkOffer offer')))))"

section \<open>Human input and rework\<close>

definition pending_input :: "task_id \<Rightarrow> human_input_view \<Rightarrow> bool" where
  "pending_input task_id x \<longleftrightarrow> hi_task_id x = task_id \<and> hi_status x = human_input_status.Pending"

definition reduce_request_human_input ::
    "env \<Rightarrow> world \<Rightarrow> task_id \<Rightarrow> human_input_kind \<Rightarrow> string \<Rightarrow> actor_ref \<Rightarrow> reduction" where
  "reduce_request_human_input env s task_id kind prompt actor =
     (if blank prompt \<or> MAX_MESSAGE_BODY_BYTES < length prompt
      then Inl (Validation ''human-input prompt is empty or too large'')
      else case find_task task_id (s_tasks s) of
        None \<Rightarrow> Inl NotFound
      | Some task \<Rightarrow>
        if \<not> is_unfinished task
        then Inl (Validation ''terminal work items cannot request human input'')
        else if any (pending_input task_id) (s_human_inputs s)
        then Inl (Validation ''work item already waits for human input'')
        else
         (let input = \<lparr>hi_id = HumanInputId (next_uuid env s), hi_task_id = task_id,
                hi_mission_id = Some (t_mission_id task), hi_requested_by = actor_agent env actor,
                hi_kind = kind, hi_prompt = prompt, hi_status = human_input_status.Pending,
                hi_answer = None, hi_answered_by = None, hi_created_at = e_now env,
                hi_updated_at = e_now env\<rparr>;
              s1 = edit_task task_id (\<lambda>t. t\<lparr>t_status := task_status.Blocked\<rparr>)
                     ((drew s)\<lparr>s_human_inputs := s_human_inputs s @ [input]\<rparr>) in
          Inr (feed env s1 task_id actor task_feed_kind.DependencyLocked ''Work item is waiting for human input'',
               HumanInputRequested (task\<lparr>t_status := task_status.Blocked\<rparr>) input, HumanInput input)))"

definition resume_edit :: "world \<Rightarrow> task_view \<Rightarrow> task_view" where
  "resume_edit s task =
     (let unavailable = (case t_assigned_agent task of None \<Rightarrow> False | Some a \<Rightarrow> \<not> has_active_agent s a);
          t1 = (if unavailable then release_edit task else task) in
      t1\<lparr>t_status := (if all_done (s_tasks s) (t_child_task_ids task) then task_status.Ready
                      else task_status.Blocked)\<rparr>)"

definition reduce_resolve_human_input ::
    "env \<Rightarrow> world \<Rightarrow> human_input_id \<Rightarrow> string \<Rightarrow> actor_ref \<Rightarrow> reduction" where
  "reduce_resolve_human_input env s human_input_id answer actor =
     (if blank answer \<or> MAX_MESSAGE_BODY_BYTES < length answer
      then Inl (Validation ''human-input answer is empty or too large'')
      else case find (\<lambda>x. hi_id x = human_input_id \<and> hi_status x = human_input_status.Pending) (s_human_inputs s) of
        None \<Rightarrow> Inl NotFound
      | Some pending \<Rightarrow>
        (let input = pending\<lparr>hi_status := human_input_status.Answered, hi_answer := Some answer,
                hi_answered_by := ac_id actor, hi_updated_at := e_now env\<rparr> in
         case find_task (hi_task_id input) (s_tasks s) of
           None \<Rightarrow> Inl NotFound
         | Some task \<Rightarrow>
           (let task' = resume_edit s task;
                s1 = (edit_task (t_id task) (\<lambda>_. task') s)\<lparr>s_human_inputs :=
                       update_first (\<lambda>x. hi_id x = human_input_id \<and> hi_status x = human_input_status.Pending)
                         (\<lambda>_. input) (s_human_inputs s)\<rparr> in
            Inr (feed env s1 (t_id task) actor task_feed_kind.DependencyUnlocked
                   ''Human input answered; work item is ready to resume'',
                 HumanInputResolved task' input, HumanInput input))))"

definition rework_limit_of :: "task_view \<Rightarrow> u8" where
  "rework_limit_of t = (if t_rework_limit t = 0 then DEFAULT_REWORK_LIMIT else t_rework_limit t)"

definition rework_edit :: "task_view \<Rightarrow> task_view" where
  "rework_edit t = release_edit (t\<lparr>t_rework_count := saturating_add (t_rework_count t) 1,
     t_status := task_status.Ready\<rparr>)"

definition reduce_request_task_rework :: "env \<Rightarrow> world \<Rightarrow> task_id \<Rightarrow> string \<Rightarrow> actor_ref \<Rightarrow> reduction" where
  "reduce_request_task_rework env s task_id reason actor =
     (if blank reason \<or> MAX_MESSAGE_BODY_BYTES < length reason
      then Inl (Validation ''rework reason is empty or too large'')
      else case find_task task_id (s_tasks s) of
        None \<Rightarrow> Inl NotFound
      | Some task \<Rightarrow>
        if t_status task = task_status.Cancelled
        then Inl (InvalidTransition ''cancelled work item cannot be reworked'')
        else if rework_limit_of task \<le> t_rework_count task
        then Inl (Validation (''rework limit of '' @ show_nat (unat (rework_limit_of task)) @ '' has been reached''))
        else
         (let task' = rework_edit task; s1 = edit_task task_id rework_edit s in
          Inr (feed env s1 task_id actor task_feed_kind.StatusChanged
                 (''Rework requested ('' @ show_nat (unat (t_rework_count task')) @ ''/''
                   @ show_nat (unat (rework_limit_of task)) @ ''): '' @ reason),
               TaskReworkRequested task' reason (t_rework_count task'), Accepted)))"

section \<open>Departure of an agent\<close>

definition depart_step :: "env \<Rightarrow> actor_ref \<Rightarrow> agent_id \<Rightarrow> task_id \<Rightarrow> world \<Rightarrow> world" where
  "depart_step env actor agent_id task_id s =
     (let s1 = edit_task task_id (\<lambda>t. (release_edit t)\<lparr>t_status := task_status.Blocked\<rparr>) s;
          s2 = revoke_grants (\<lambda>g. gv_task_id g = task_id \<and> gv_agent_id g = agent_id) s1 in
      feed env s2 task_id actor task_feed_kind.AgentDeparted
        (''Agent '' @ show_agent_id env agent_id @ '' departed; card is blocked for handoff assessment''))"

definition reduce_fire_agent :: "env \<Rightarrow> world \<Rightarrow> agent_id \<Rightarrow> string option \<Rightarrow> actor_ref \<Rightarrow> reduction" where
  "reduce_fire_agent env s agent_id reason actor =
     (case active_agent s agent_id of
        None \<Rightarrow> Inl NotFound
      | Some agent \<Rightarrow>
          if a_display_name agent = ''Frank supervisor''
          then Inl (Validation ''the built-in Frank supervisor cannot be fired'')
          else
           (let blocked_task_ids = map t_id (filter (\<lambda>t. t_assigned_agent t = Some agent_id \<and> is_unfinished t) (s_tasks s));
                s1 = fold (depart_step env actor agent_id) blocked_task_ids s in
            Inr (s1\<lparr>s_agents := update_first (\<lambda>a. a_id a = agent_id \<and> \<not> a_archived a)
                      (\<lambda>a. a\<lparr>a_archived := True, a_status := agent_status.Offline, a_provider_session_id := None\<rparr>)
                      (s_agents s1)\<rparr>,
                 AgentDeparted agent_id reason blocked_task_ids, Accepted)))"

section \<open>Organization drain\<close>

definition count_u32 :: "nat \<Rightarrow> u32" where
  \<comment> \<open>\<open>count().min(u32::MAX as usize) as u32\<close>\<close>
  "count_u32 n = of_nat (min n (2 ^ 32 - 1))"

definition needs_relocation :: "u64 \<Rightarrow> task_view \<Rightarrow> bool" where
  "needs_relocation target t \<longleftrightarrow>
     (case t_organization_revision t of None \<Rightarrow> False | Some r \<Rightarrow> r < target) \<and> is_unfinished t"

definition reduce_request_organization_drain :: "world \<Rightarrow> u64 \<Rightarrow> reduction" where
  "reduce_request_organization_drain s target_revision =
     (let active_revision = published_revision_of s in
      if target_revision = 0 \<or> target_revision < active_revision
      then Inl (Validation ''drain target revision must be the active or newer Organization revision'')
      else Inr (s\<lparr>s_organization_runtime := (s_organization_runtime s)\<lparr>rt_active_revision := active_revision,
                    rt_status := organization_drain_status.Draining,
                    rt_drain_requested_revision := Some target_revision,
                    rt_pending_relocation_count :=
                      count_u32 (length (filter (needs_relocation target_revision) (s_tasks s)))\<rparr>\<rparr>,
                OrganizationDrainRequested target_revision, Accepted))"

definition reduce_complete_organization_drain :: "world \<Rightarrow> u64 \<Rightarrow> actor_ref \<Rightarrow> reduction" where
  "reduce_complete_organization_drain s revision actor =
     (if ac_kind actor \<noteq> actor_kind.System then Inl Forbidden
      else if rt_status (s_organization_runtime s) \<noteq> organization_drain_status.Draining
      then Inl (Validation ''Organization is not currently draining'')
      else if rt_drain_requested_revision (s_organization_runtime s) \<noteq> Some revision
      then Inl (Validation ''drain completion revision does not match the requested revision'')
      else if any (\<lambda>t. any (\<lambda>m. m_id m = t_mission_id t \<and> m_status m = mission_status.Active) (s_missions s)
                     \<and> t_status t \<in> {task_status.Running, task_status.Review}) (s_tasks s)
      then Inl (Validation ''Organization still has active work'')
      else if rt_pending_relocation_count (s_organization_runtime s) \<noteq> 0
      then Inl (Validation ''relocate every unfinished card before completing Organization drain'')
      else Inr (s\<lparr>s_organization_runtime := (s_organization_runtime s)\<lparr>rt_status := organization_drain_status.Paused,
                    rt_paused_revision := Some revision, rt_drain_requested_revision := None\<rparr>\<rparr>,
                OrganizationDrainCompleted revision, Accepted))"

definition reduce_resume_organization :: "world \<Rightarrow> u64 \<Rightarrow> reduction" where
  "reduce_resume_organization s revision =
     (if rt_status (s_organization_runtime s) \<noteq> organization_drain_status.Paused
      then Inl (Validation ''Organization must be paused before it can resume'')
      else if revision = 0 \<or> revision \<noteq> published_revision_of s
      then Inl (Validation ''resume revision does not match the published Organization'')
      else if rt_pending_relocation_count (s_organization_runtime s) \<noteq> 0
      then Inl (Validation ''relocate every unfinished card before resuming Organization'')
      else Inr (s\<lparr>s_organization_runtime := (s_organization_runtime s)\<lparr>rt_active_revision := revision,
                    rt_status := organization_drain_status.Running, rt_paused_revision := None\<rparr>\<rparr>,
                OrganizationDrainCompleted revision, Accepted))"

definition relocate_edit :: "taskboard_id \<Rightarrow> u64 \<Rightarrow> task_view \<Rightarrow> task_view" where
  "relocate_edit to_board_id revision t = release_edit (t\<lparr>t_taskboard_id := Some to_board_id,
     t_organization_revision := Some revision, t_active_role_node_id := None\<rparr>)"

fun relocate_loop ::
    "taskboard_id \<Rightarrow> taskboard_id \<Rightarrow> u64 \<Rightarrow> task_id list \<Rightarrow> task_id list \<Rightarrow> world \<Rightarrow> world orch_result" where
  "relocate_loop from_board to_board revision [] moved s = Inr s"
| "relocate_loop from_board to_board revision (task_id # ids) moved s =
     (if task_id \<in> set moved
      then Inl (Validation ''relocation cannot contain duplicate cards'')
      else case find_task task_id (s_tasks s) of
        None \<Rightarrow> Inl NotFound
      | Some task \<Rightarrow>
        if t_taskboard_id task \<noteq> Some from_board
        then Inl (Validation ''relocation card is not on the source board'')
        else if t_status task \<in> {task_status.Running, task_status.Review}
        then Inl (Validation ''active work must finish before its card is relocated'')
        else relocate_loop from_board to_board revision ids (moved @ [task_id])
               (edit_task task_id (relocate_edit to_board revision) s))"

definition reduce_relocate_work_items ::
    "env \<Rightarrow> world \<Rightarrow> taskboard_id \<Rightarrow> taskboard_id \<Rightarrow> task_id list \<Rightarrow> string option \<Rightarrow> reduction" where
  "reduce_relocate_work_items env s from_board to_board card_ids reason =
     (case ensure_board s from_board of
        Inl e \<Rightarrow> Inl e
      | Inr _ \<Rightarrow>
        (case ensure_board s to_board of
           Inl e \<Rightarrow> Inl e
         | Inr _ \<Rightarrow>
           if from_board = to_board \<or> card_ids = []
           then Inl (Validation ''relocation requires two boards and at least one card'')
           else if 256 < length card_ids
              \<or> (case reason of None \<Rightarrow> False | Some r \<Rightarrow> \<not> valid_content_text r MAX_MESSAGE_BODY_BYTES)
           then Inl (Validation ''relocation card list or reason is invalid'')
           else
            (let rt = s_organization_runtime s;
                 revision = (case rt_drain_requested_revision rt of Some r \<Rightarrow> r | None \<Rightarrow> rt_active_revision rt) in
             case relocate_loop from_board to_board revision card_ids [] s of
               Inl e \<Rightarrow> Inl e
             | Inr s1 \<Rightarrow>
               (let relocation = \<lparr>rl_id = RelocationId (next_uuid env s1),
                      rl_from_revision = rt_active_revision rt, rl_to_revision = revision,
                      rl_from_board_id = from_board, rl_to_board_id = to_board, rl_task_ids = card_ids,
                      rl_reason = reason, rl_created_at = e_now env\<rparr> in
                Inr ((drew s1)\<lparr>s_organization_relocations := s_organization_relocations s1 @ [relocation],
                       s_organization_runtime := rt\<lparr>rt_pending_relocation_count :=
                         count_u32 (length (filter (needs_relocation revision) (s_tasks s1)))\<rparr>\<rparr>,
                     WorkItemsRelocated relocation, Accepted)))))"

section \<open>Dispatch\<close>

definition reduce_workflow :: "env \<Rightarrow> world \<Rightarrow> command \<Rightarrow> actor_ref \<Rightarrow> reduction" where
  "reduce_workflow env s command actor =
     (case command of
        CreateTaskboard spec \<Rightarrow> reduce_create_taskboard env s spec
      | UpdateTaskboard taskboard_id patch \<Rightarrow> reduce_update_taskboard env s taskboard_id patch
      | ArchiveTaskboard taskboard_id \<Rightarrow> reduce_archive_taskboard env s taskboard_id
      | CreateWorkItem spec \<Rightarrow> reduce_create_work_item env s spec actor
      | DropWorkItem task_id taskboard_id role_id \<Rightarrow>
          reduce_drop_work_item env s task_id taskboard_id role_id actor
      | SpawnChildWorkItems parent_id children \<Rightarrow>
          reduce_spawn_child_work_items env s parent_id children actor
      | CreateWorkOffer task_id agent_id \<Rightarrow> reduce_create_work_offer env s task_id agent_id
      | RespondWorkOffer offer_id accept \<Rightarrow> reduce_respond_work_offer env s offer_id accept actor
      | RequestHumanInput task_id kind prompt \<Rightarrow> reduce_request_human_input env s task_id kind prompt actor
      | ResolveHumanInput human_input_id answer \<Rightarrow>
          reduce_resolve_human_input env s human_input_id answer actor
      | RequestTaskRework task_id reason \<Rightarrow> reduce_request_task_rework env s task_id reason actor
      | RequestOrganizationDrain target_revision \<Rightarrow> reduce_request_organization_drain s target_revision
      | CompleteOrganizationDrain revision \<Rightarrow> reduce_complete_organization_drain s revision actor
      | ResumeOrganization revision \<Rightarrow> reduce_resume_organization s revision
      | RelocateWorkItems from_board to_board card_ids reason \<Rightarrow>
          reduce_relocate_work_items env s from_board to_board card_ids reason
      | FireAgent agent_id reason \<Rightarrow> reduce_fire_agent env s agent_id reason actor
      | _ \<Rightarrow> misrouted)"

end
