(* ===== verification/TaskInvariants.thy ===== *)
theory TaskInvariants
  imports WorkflowReducer
begin

text \<open>
  The invariant of the task board and the contract by which a handler keeps it.

  \<^item> \<open>board_ok\<close>: the dependency graph is a DAG inside each mission, parents and children
    name each other and form a forest, a running task has an owner, rework stays in its limit.
  \<^item> \<open>calm\<close>: a change of the world that keeps the structure of the task list and the tables
    of offers, questions and the published graph. Feeds, locks and the edits of the handlers
    are calm, calm changes compose, and each keeps the invariant.
\<close>

section \<open>The invariant\<close>

definition task_ok :: "task_view \<Rightarrow> bool" where
  "task_ok t \<longleftrightarrow>
     (t_status t = task_status.Running \<longrightarrow> t_assigned_agent t \<noteq> None) \<and>
     t_rework_count t \<le> rework_limit_of t"

definition family_of :: "task_view \<Rightarrow> task_id \<times> mission_id \<times> task_id option \<times> task_id set" where
  "family_of t = (t_id t, t_mission_id t, t_parent_task_id t, set (t_child_task_ids t))"

definition family_ok :: "task_view list \<Rightarrow> bool" where
  "family_ok tasks \<longleftrightarrow>
     (\<forall>t \<in> set tasks. \<forall>p. t_parent_task_id t = Some p \<longrightarrow>
        (\<exists>u \<in> set tasks. t_id u = p \<and> t_mission_id u = t_mission_id t \<and> t_id t \<in> set (t_child_task_ids u))) \<and>
     (\<forall>u \<in> set tasks. \<forall>c \<in> set (t_child_task_ids u).
        \<exists>t \<in> set tasks. t_id t = c \<and> t_parent_task_id t = Some (t_id u)) \<and>
     acyclic {(t_id t, p) | t p. t \<in> set tasks \<and> t_parent_task_id t = Some p}"

definition board_ok :: "task_view list \<Rightarrow> bool" where
  "board_ok tasks \<longleftrightarrow> task_dag tasks \<and> family_ok tasks \<and> (\<forall>t \<in> set tasks. task_ok t)"

definition kin :: "task_view \<Rightarrow> (task_id \<times> mission_id \<times> task_id list \<times> task_id option) \<times> task_id list" where
  "kin t = (task_shape t, t_child_task_ids t)"

lemma family_ok_cong:
  assumes "map family_of tasks' = map family_of tasks"
  shows "family_ok tasks' \<longleftrightarrow> family_ok tasks"
proof -
  have s: "family_of ` set tasks' = family_of ` set tasks"
    using assms by (metis list.set_map)
  have "family_ok ts =
     ((\<forall>(i, m, q, _) \<in> family_of ` set ts. \<forall>p. q = Some p \<longrightarrow>
        (\<exists>(i', m', _, cs) \<in> family_of ` set ts. i' = p \<and> m' = m \<and> i \<in> cs)) \<and>
     (\<forall>(i, _, _, cs) \<in> family_of ` set ts. \<forall>c \<in> cs.
        \<exists>(i', _, q, _) \<in> family_of ` set ts. i' = c \<and> q = Some i) \<and>
     acyclic (\<Union>(i, _, q, _) \<in> family_of ` set ts. {i} \<times> set_option q))" for ts
  proof -
    have "{(t_id t, p) | t p. t \<in> set ts \<and> t_parent_task_id t = Some p} =
        (\<Union>(i, _, q, _) \<in> family_of ` set ts. {i} \<times> set_option q)"
      by (auto simp: family_of_def)
    then show ?thesis unfolding family_ok_def by (simp add: family_of_def)
  qed
  then show ?thesis by (simp only: s)
qed

lemma kin_shape: "map kin tasks' = map kin tasks \<Longrightarrow> map task_shape tasks' = map task_shape tasks"
  by (rule map_factor [where h = fst]) (simp_all add: kin_def)

lemma kin_family: "map kin tasks' = map kin tasks \<Longrightarrow> map family_of tasks' = map family_of tasks"
  by (rule map_factor [where h = "\<lambda>((i, m, ds, p), cs). (i, m, p, set cs)"])
    (simp_all add: kin_def task_shape_def family_of_def)

lemma kin_ids: "map kin tasks' = map kin tasks \<Longrightarrow> map t_id tasks' = map t_id tasks"
  using task_shape_structure(1) kin_shape by blast

lemma board_ok_kin:
  assumes "map kin tasks' = map kin tasks" "board_ok tasks" "\<forall>t \<in> set tasks'. task_ok t"
  shows "board_ok tasks'"
  using assms task_dag_shape [OF kin_shape [OF assms(1)]] family_ok_cong [OF kin_family [OF assms(1)]]
  by (simp add: board_ok_def)

section \<open>Calm changes\<close>

definition open_offers :: "'z snapshot_scheme \<Rightarrow> task_id \<Rightarrow> work_offer_view list" where
  "open_offers s i = filter (\<lambda>x. of_task_id x = i \<and> offer_is_open (of_status x)) (s_work_offers s)"

definition pending_inputs :: "'z snapshot_scheme \<Rightarrow> task_id \<Rightarrow> human_input_view list" where
  "pending_inputs s i = filter (pending_input i) (s_human_inputs s)"

definition calm :: "world \<Rightarrow> world \<Rightarrow> bool" where
  "calm s s' \<longleftrightarrow>
     map kin (s_tasks s') = map kin (s_tasks s) \<and>
     ((\<forall>t \<in> set (s_tasks s). task_ok t) \<longrightarrow> (\<forall>t \<in> set (s_tasks s'). task_ok t)) \<and>
     (length (s_task_feed s) \<le> FEED_LIMIT \<longrightarrow> length (s_task_feed s') \<le> FEED_LIMIT) \<and>
     s_human_inputs s' = s_human_inputs s \<and> s_work_offers s' = s_work_offers s \<and>
     o_published (s_organization s') = o_published (s_organization s) \<and>
     w_drawn s \<le> w_drawn s'"

lemma calm_refl [simp, intro]: "calm s s"
  by (simp add: calm_def)

lemma calm_trans [trans]: "calm a b \<Longrightarrow> calm b c \<Longrightarrow> calm a c"
  unfolding calm_def by (elim conjE, intro conjI) (simp only: | blast | linarith)+

lemma calm_fold: "(\<And>x s. calm s (f x s)) \<Longrightarrow> calm s (fold f xs s)"
proof (induction xs arbitrary: s)
  case (Cons x xs)
  have "calm s (f x s)" by (rule Cons.prems)
  also have "calm (f x s) (fold f xs (f x s))" by (rule Cons.IH [OF Cons.prems])
  finally show ?case by simp
qed simp

lemma feed_simps [simp]:
  "s_tasks (feed env s i actor k b) = s_tasks s"
  "s_agents (feed env s i actor k b) = s_agents s"
  "s_missions (feed env s i actor k b) = s_missions s"
  "s_organization (feed env s i actor k b) = s_organization s"
  "s_operations (feed env s i actor k b) = s_operations s"
  "s_review_items (feed env s i actor k b) = s_review_items s"
  "s_task_grants (feed env s i actor k b) = s_task_grants s"
  "s_human_inputs (feed env s i actor k b) = s_human_inputs s"
  "s_work_offers (feed env s i actor k b) = s_work_offers s"
  "s_organization_runtime (feed env s i actor k b) = s_organization_runtime s"
  "w_drawn (feed env s i actor k b) = Suc (w_drawn s)"
  "length (s_task_feed (feed env s i actor k b)) \<le> FEED_LIMIT"
  by (simp_all add: feed_def append_task_feed_def drew_def Let_def)

lemma drew_simps [simp]:
  "s_tasks (drew s) = s_tasks s" "s_agents (drew s) = s_agents s"
  "s_organization (drew s) = s_organization s" "s_human_inputs (drew s) = s_human_inputs s"
  "s_work_offers (drew s) = s_work_offers s" "s_task_feed (drew s) = s_task_feed s"
  "s_missions (drew s) = s_missions s" "s_review_items (drew s) = s_review_items s"
  "s_task_grants (drew s) = s_task_grants s" "s_operations (drew s) = s_operations s"
  "s_organization_runtime (drew s) = s_organization_runtime s"
  "w_drawn (drew s) = Suc (w_drawn s)"
  by (simp_all add: drew_def)

lemma edit_task_simps [simp]:
  "s_tasks (edit_task i f s) = update_first (\<lambda>t. t_id t = i) f (s_tasks s)"
  "s_agents (edit_task i f s) = s_agents s"
  "s_missions (edit_task i f s) = s_missions s"
  "s_organization (edit_task i f s) = s_organization s"
  "s_operations (edit_task i f s) = s_operations s"
  "s_review_items (edit_task i f s) = s_review_items s"
  "s_task_grants (edit_task i f s) = s_task_grants s"
  "s_task_feed (edit_task i f s) = s_task_feed s"
  "s_human_inputs (edit_task i f s) = s_human_inputs s"
  "s_work_offers (edit_task i f s) = s_work_offers s"
  "s_organization_runtime (edit_task i f s) = s_organization_runtime s"
  "w_drawn (edit_task i f s) = w_drawn s"
  by (simp_all add: edit_task_def)

lemma revoke_grants_simps [simp]:
  "s_tasks (revoke_grants p s) = s_tasks s" "s_agents (revoke_grants p s) = s_agents s"
  "s_missions (revoke_grants p s) = s_missions s"
  "s_organization (revoke_grants p s) = s_organization s"
  "s_operations (revoke_grants p s) = s_operations s"
  "s_review_items (revoke_grants p s) = s_review_items s"
  "s_task_feed (revoke_grants p s) = s_task_feed s"
  "s_human_inputs (revoke_grants p s) = s_human_inputs s"
  "s_work_offers (revoke_grants p s) = s_work_offers s" "w_drawn (revoke_grants p s) = w_drawn s"
  by (simp_all add: revoke_grants_def)

lemma settle_review_simps [simp]:
  "s_tasks (settle_review env s i r) = s_tasks s"
  "s_organization (settle_review env s i r) = s_organization s"
  "s_operations (settle_review env s i r) = s_operations s"
  "s_task_feed (settle_review env s i r) = s_task_feed s"
  "s_task_grants (settle_review env s i r) = s_task_grants s"
  "s_human_inputs (settle_review env s i r) = s_human_inputs s"
  "s_work_offers (settle_review env s i r) = s_work_offers s"
  "w_drawn (settle_review env s i r) = w_drawn s"
  by (simp_all add: settle_review_def)

text \<open>An edit of a task is tame when it keeps the kin of the task and its local invariant.\<close>

definition tame :: "task_view \<Rightarrow> task_view \<Rightarrow> bool" where
  "tame t t' \<longleftrightarrow> kin t' = kin t \<and> (task_ok t \<longrightarrow> task_ok t')"

lemma calm_edit_task:
  assumes "\<And>t. find_task i (s_tasks s) = Some t \<Longrightarrow> tame t (f t)"
  shows "calm s (edit_task i f s)"
proof -
  have "map kin (update_first (\<lambda>t. t_id t = i) f ts) = map kin ts"
    if "\<And>t. find_task i ts = Some t \<Longrightarrow> tame t (f t)" for ts
    using that by (induction ts) (auto simp: find_task_def tame_def)
  moreover have "task_ok t'"
    if "\<forall>t \<in> set (s_tasks s). task_ok t" "t' \<in> set (update_first (\<lambda>t. t_id t = i) f (s_tasks s))" for t'
    using set_update_first [OF that(2)]
  proof
    assume "\<exists>x. find (\<lambda>t. t_id t = i) (s_tasks s) = Some x \<and> t' = f x"
    then obtain t where t: "find_task i (s_tasks s) = Some t" "t' = f t"
      by (auto simp: find_task_def)
    with that(1) find_task_SomeD [OF t(1)] assms [OF t(1)] show ?thesis by (simp add: tame_def)
  qed (use that(1) in blast)
  ultimately show ?thesis using assms by (simp add: calm_def)
qed

lemma calm_feed: "calm s (feed env s i actor k b)"
  by (simp add: calm_def)

lemma calm_drew: "calm s (drew s)"
  by (simp add: calm_def)

lemma calm_revoke: "calm s (revoke_grants p s)"
  by (simp add: calm_def)

lemma calm_settle: "calm s (settle_review env s i r)"
  by (simp add: calm_def)

lemmas calm_intros = calm_feed calm_drew calm_revoke calm_settle

lemma calm_edit_feed:
  "(\<And>t. find_task i (s_tasks s) = Some t \<Longrightarrow> tame t (f t)) \<Longrightarrow>
   calm s (feed env (edit_task i f s) i' actor k b)"
  by (rule calm_trans [OF calm_edit_task calm_feed])

lemma tame_status:
  "x \<noteq> task_status.Running \<Longrightarrow> tame t (t\<lparr>t_status := x\<rparr>)"
  by (simp add: tame_def kin_def task_shape_def task_ok_def rework_limit_of_def)

lemma calm_dependency_locks: "calm s (update_dependency_locks env s i actor st)"
  unfolding update_dependency_locks_def
  by (rule calm_fold)
    (auto simp: dependency_lock_step_def intro!: calm_edit_feed tame_status split: option.split)

lemma calm_parent_locks: "calm s (update_parent_child_locks env s i actor)"
  by (auto simp: update_parent_child_locks_def intro!: calm_edit_feed tame_status split: option.split)

section \<open>World invariant\<close>

text \<open>\<open>uu\<close> is the supply of UUIDs: every task id in the snapshot has been drawn from it.\<close>

definition world_ok :: "(nat \<Rightarrow> uuid) \<Rightarrow> world \<Rightarrow> bool" where
  "world_ok uu s \<longleftrightarrow>
     board_ok (s_tasks s) \<and>
     task_ids (s_tasks s) \<subseteq> TaskId ` uu ` {..<w_drawn s} \<and>
     length (s_task_feed s) \<le> FEED_LIMIT \<and>
     (\<forall>i. length (pending_inputs s i) \<le> 1) \<and>
     (\<forall>i. length (open_offers s i) \<le> 1) \<and>
     (\<forall>g. o_published (s_organization s) = Some g \<longrightarrow> graph_wf g)"

lemma kin_task_ids: "map kin tasks' = map kin tasks \<Longrightarrow> task_ids tasks' = task_ids tasks"
  using kin_ids [of tasks' tasks] by (simp add: task_ids_def)

lemma drawn_mono:
  "A \<subseteq> f ` g ` {..<m} \<Longrightarrow> m \<le> n \<Longrightarrow> A \<subseteq> f ` g ` {..<(n :: nat)}"
  by (meson image_mono lessThan_subset_iff order_trans)

lemma calm_world_ok:
  assumes "calm s s'" "world_ok uu s"
  shows "world_ok uu s'"
proof -
  from assms(1) have kin: "map kin (s_tasks s') = map kin (s_tasks s)"
    and ok: "(\<forall>t \<in> set (s_tasks s). task_ok t) \<longrightarrow> (\<forall>t \<in> set (s_tasks s'). task_ok t)"
    and drawn: "w_drawn s \<le> w_drawn s'"
    by (simp_all add: calm_def)
  have "board_ok (s_tasks s')"
    using assms(2) ok by (intro board_ok_kin [OF kin]) (simp_all add: world_ok_def board_ok_def)
  moreover have "task_ids (s_tasks s') \<subseteq> TaskId ` uu ` {..<w_drawn s'}"
    using assms(2) drawn unfolding world_ok_def kin_task_ids [OF kin] by (meson drawn_mono)
  ultimately show ?thesis
    using assms by (simp add: world_ok_def calm_def pending_inputs_def open_offers_def)
qed

section \<open>Status changes\<close>

lemma find_task_edit:
  assumes "\<And>t. t_id (f t) = t_id t"
  shows "find_task j (s_tasks (edit_task i f s)) =
    (if j = i then map_option f (find_task i (s_tasks s)) else find_task j (s_tasks s))"
proof -
  from assms have "keyed_edit t_id f" by unfold_locales
  from keyed_edit.find_update [OF this] show ?thesis by (simp add: find_task_def)
qed

lemma provision_worktree_ok:
  assumes "provision_worktree env s task = Inr (s1, queued)" "find_task (t_id task) (s_tasks s) = Some task"
  shows "calm s s1"
    and "\<exists>w b. find_task (t_id task) (s_tasks s1) = Some (task\<lparr>t_worktree := w, t_branch := b\<rparr>)"
    and "\<exists>m. find_mission (t_mission_id task) (s_missions s) = Some m \<and> m_status m = mission_status.Active"
    and "s_organization s1 = s_organization s" "s_agents s1 = s_agents s" "s_missions s1 = s_missions s"
    and "s_review_items s1 = s_review_items s" "s_task_grants s1 = s_task_grants s"
proof -
  let ?wt = "\<lambda>w b t :: task_view. t\<lparr>t_worktree := Some w, t_branch := Some b\<rparr>"
  have tame: "tame t (?wt w b t)" for w b t
    by (simp add: tame_def kin_def task_shape_def task_ok_def rework_limit_of_def)
  from assms(1) obtain m p wf where m: "find_mission (t_mission_id task) (s_missions s) = Some m"
    "m_status m = mission_status.Active"
    and p: "find (\<lambda>p. p_id p = m_project_id m \<and> \<not> p_archived p) (s_projects s) = Some p"
    and wf: "git_workflow_new env p (sv_allowed_project_roots (s_server s)) = Inr wf"
    by (auto simp: provision_worktree_def split: option.splits if_splits sum.splits)
  from assms(1) m p wf obtain w b x y where s1: "s1 = edit_task (t_id task) (?wt w b) s \<or>
      s1 = (drew (edit_task (t_id task) (?wt w b) s))\<lparr>s_operations := x\<rparr>"
    by (auto simp: provision_worktree_def Let_def split: if_splits sum.splits)
  have e: "calm s (edit_task (t_id task) (?wt w b) s)" by (rule calm_edit_task) (rule tame)
  moreover have "calm (edit_task (t_id task) (?wt w b) s) ((drew (edit_task (t_id task) (?wt w b) s))\<lparr>s_operations := x\<rparr>)"
    by (simp add: calm_def)
  ultimately show "calm s s1" using s1 calm_trans by blast
  show "\<exists>w b. find_task (t_id task) (s_tasks s1) = Some (task\<lparr>t_worktree := w, t_branch := b\<rparr>)"
    using s1 assms(2) find_task_edit [of "?wt w b" "t_id task" "t_id task" s]
    by (intro exI [of _ "Some w"] exI [of _ "Some b"]) auto
  show "\<exists>m. find_mission (t_mission_id task) (s_missions s) = Some m \<and> m_status m = mission_status.Active"
    using m by blast
  show "s_organization s1 = s_organization s" "s_agents s1 = s_agents s" "s_missions s1 = s_missions s"
    "s_review_items s1 = s_review_items s" "s_task_grants s1 = s_task_grants s"
    using s1 by auto
qed

lemma review_event_calm:
  "review_event env s task c st rt = Inr (s', r) \<Longrightarrow> calm s s' \<and> s_tasks s' = s_tasks s"
  by (auto simp: review_event_def Let_def calm_settle calm_def split: if_splits option.splits)

text \<open>A successful status change, taken apart.\<close>

lemma reduce_set_task_statusE:
  assumes "reduce_set_task_status env s i st actor = Inr (s', ev, res)"
  obtains task rt s1 queued s3 review where
    "find_task i (s_tasks s) = Some task"
    "check_set_task_status env s task st actor = Inr rt"
    "(if st = task_status.Running then provision_worktree env s task else Inr (s, False)) = Inr (s1, queued)"
    "review_event env (apply_status s1 i (t_status task) st rt) task (t_status task) st rt = Inr (s3, review)"
    "s' = (if st = task_status.Done then (\<lambda>s5. update_parent_child_locks env s5 i actor) else (\<lambda>s5. s5))
            (update_dependency_locks env (feed env s3 i actor task_feed_kind.StatusChanged
               (''Status changed to '' @ debug_task_status st)) i actor st)"
  using assms unfolding reduce_set_task_status_def Let_def
  by (auto split: option.splits sum.splits prod.splits if_splits)

lemma check_set_task_status_ok:
  assumes "check_set_task_status env s task st actor = Inr rt"
  shows "task_can_transition_to (t_status task) st"
    and "st = task_status.Ready \<or> st = task_status.Running \<Longrightarrow> all_done (s_tasks s) (t_dependencies task)"
    and "st = task_status.Running \<Longrightarrow> check_running s task = Inr ()"
    and "st = task_status.Done \<Longrightarrow> all_done (s_tasks s) (t_child_task_ids task)"
    and "st = task_status.Review \<Longrightarrow> o_published (s_organization s) \<noteq> None \<Longrightarrow> rt \<noteq> None"
    and "check_review_decider env task st actor = Inr ()"
    and "resolve_review_target env s task st actor = Inr rt"
  using assms unfolding check_set_task_status_def
  by (auto split: if_splits sum.splits)

lemma check_running_ok:
  assumes "check_running s task = Inr ()"
  shows "\<exists>a. t_assigned_agent task = Some a \<and> has_active_agent s a \<and> organization_allows_agent s a \<and>
    (\<forall>r. t_required_role_id task = Some r \<longrightarrow> agent_role s a = Some r)"
  using assms by (auto simp: check_running_def split: option.splits if_splits)

lemma apply_status_calm:
  assumes "\<And>t. find_task i (s_tasks s) = Some t \<Longrightarrow> st = task_status.Running \<Longrightarrow> t_assigned_agent t \<noteq> None"
  shows "calm s (apply_status s i c st rt)"
proof -
  have "calm s (edit_task i (status_edit c st rt) s)"
    using assms by (intro calm_edit_task)
      (auto simp: tame_def kin_def task_shape_def task_ok_def rework_limit_of_def status_edit_def)
  then show ?thesis using calm_trans [OF _ calm_revoke] by (auto simp: apply_status_def Let_def)
qed

lemma reduce_set_task_status_calm:
  assumes "reduce_set_task_status env s i st actor = Inr (s', ev, res)"
  shows "calm s s'"
  using assms
proof (rule reduce_set_task_statusE)
  fix task rt s1 queued s3 review
  assume t: "find_task i (s_tasks s) = Some task"
    and c: "check_set_task_status env s task st actor = Inr rt"
    and p: "(if st = task_status.Running then provision_worktree env s task else Inr (s, False)) = Inr (s1, queued)"
    and r: "review_event env (apply_status s1 i (t_status task) st rt) task (t_status task) st rt = Inr (s3, review)"
    and s': "s' = (if st = task_status.Done then (\<lambda>s5. update_parent_child_locks env s5 i actor) else (\<lambda>s5. s5))
            (update_dependency_locks env (feed env s3 i actor task_feed_kind.StatusChanged
               (''Status changed to '' @ debug_task_status st)) i actor st)"
  have id: "t_id task = i" using find_task_SomeD [OF t] by simp
  have s1: "calm s s1"
    using p provision_worktree_ok(1) [of env s task s1 queued] t id by (auto split: if_splits)
  also have "calm s1 (apply_status s1 i (t_status task) st rt)"
  proof (rule apply_status_calm)
    fix t' assume t': "find_task i (s_tasks s1) = Some t'" and run: "st = task_status.Running"
    from run p have "provision_worktree env s task = Inr (s1, queued)" by simp
    from provision_worktree_ok(2) [OF this] t t' id have "t_assigned_agent t' = t_assigned_agent task" by auto
    with check_running_ok [OF check_set_task_status_ok(3) [OF c run]] show "t_assigned_agent t' \<noteq> None" by auto
  qed
  also have "calm \<dots> s3" using review_event_calm [OF r] by blast
  also have "calm s3 (feed env s3 i actor task_feed_kind.StatusChanged (''Status changed to '' @ debug_task_status st))"
    by (rule calm_feed)
  also have "calm \<dots> (update_dependency_locks env \<dots> i actor st)" by (rule calm_dependency_locks)
  also have "calm \<dots> s'" using s' calm_parent_locks by simp
  finally show ?thesis .
qed

end
