(* ===== verification/Missions.thy ===== *)
theory Missions
  imports WorkflowReducer
begin

text \<open>
  Supervisor proposals (\<open>validate_supervisor_proposal\<close>, \<open>policy_satisfies\<close>), missions
  (\<open>reduce/mission.rs\<close>, \<open>pause_or_resume\<close>), projects (\<open>reduce/project.rs\<close>) and
  long-running operations (\<open>reduce/operation.rs\<close>).
\<close>

section \<open>Supervisor proposals\<close>

definition policy_satisfies :: "agent_policy \<Rightarrow> agent_policy \<Rightarrow> bool" where
  "policy_satisfies profile requirement \<longleftrightarrow>
     (case po_filesystem requirement of
        filesystem_policy.ReadOnly \<Rightarrow> True
      | filesystem_policy.WorkspaceWrite \<Rightarrow> po_filesystem profile = filesystem_policy.WorkspaceWrite)
     \<and> (case po_shell requirement of
        shell_policy.Deny \<Rightarrow> po_shell profile = shell_policy.Deny
      | shell_policy.Ask \<Rightarrow> po_shell profile \<noteq> shell_policy.Deny
      | shell_policy.Allow \<Rightarrow> po_shell profile = shell_policy.Allow)
     \<and> (case po_network requirement of
        network_policy.Deny \<Rightarrow> po_network profile = network_policy.Deny
      | network_policy.Ask \<Rightarrow> po_network profile \<noteq> network_policy.Deny
      | network_policy.Allow \<Rightarrow> po_network profile = network_policy.Allow)
     \<and> (case po_approval requirement of
        approval_policy.Never \<Rightarrow> po_approval profile = approval_policy.Never
      | approval_policy.Ask \<Rightarrow> True)"

fun check_candidates ::
    "'z snapshot_scheme \<Rightarrow> role_id option \<Rightarrow> agent_id list \<Rightarrow> unit orch_result" where
  "check_candidates s target_role [] = Inr ()"
| "check_candidates s target_role (a # as) =
     (if \<not> has_active_agent s a then Inl NotFound
      else if (case target_role of None \<Rightarrow> False | Some r \<Rightarrow> agent_role s a \<noteq> Some r)
      then Inl (Validation ''supervisor candidate does not belong to target role'')
      else check_candidates s target_role as)"

definition check_proposed_task ::
    "'z snapshot_scheme \<Rightarrow> string set \<Rightarrow> supervisor_task_proposal \<Rightarrow> unit orch_result" where
  "check_proposed_task s keys task =
     (if blank (sp_client_key task) \<or> 128 < length (sp_client_key task) \<or> sp_client_key task \<in> keys
         \<or> blank (sp_title task) \<or> 256 < length (sp_title task)
         \<or> blank (sp_objective task) \<or> MAX_MESSAGE_BODY_BYTES < length (sp_objective task)
      then Inl (Validation ''supervisor proposal contains an invalid or duplicate task key'')
      else if (case sp_assigned_agent task of None \<Rightarrow> False | Some a \<Rightarrow> \<not> has_active_agent s a)
      then Inl NotFound
      else if (case sp_target_role_id task of None \<Rightarrow> False | Some r \<Rightarrow> \<not> has_active_role s r)
      then Inl NotFound
      else if (case (sp_target_role_id task, sp_assigned_agent task) of
                 (Some r, Some a) \<Rightarrow> agent_role s a \<noteq> Some r | _ \<Rightarrow> False)
      then Inl (Validation ''supervisor assigned agent does not belong to target role'')
      else case check_candidates s (sp_target_role_id task) (sp_candidate_agents task) of
        Inl e \<Rightarrow> Inl e
      | Inr _ \<Rightarrow>
        (case (case (sp_assigned_agent task, sp_policy_requirement task) of
                 (Some a, Some requirement) \<Rightarrow>
                   (case active_agent s a of
                      None \<Rightarrow> Inl NotFound
                    | Some profile \<Rightarrow>
                        if policy_satisfies (a_policy profile) requirement then Inr ()
                        else Inl (Validation ''assigned agent policy cannot satisfy supervisor task requirement''))
               | _ \<Rightarrow> Inr ()) of
           Inl e \<Rightarrow> Inl e
         | Inr _ \<Rightarrow>
             if (case sp_policy_requirement task of
                   None \<Rightarrow> False
                 | Some requirement \<Rightarrow>
                     any (\<lambda>a. case active_agent s a of None \<Rightarrow> False
                            | Some profile \<Rightarrow> \<not> policy_satisfies (a_policy profile) requirement)
                       (sp_candidate_agents task))
             then Inl (Validation ''supervisor candidate policy cannot satisfy task requirement'')
             else Inr ()))"

fun check_proposed_tasks ::
    "'z snapshot_scheme \<Rightarrow> supervisor_task_proposal list \<Rightarrow> string set \<Rightarrow> (string set) orch_result" where
  "check_proposed_tasks s [] keys = Inr keys"
| "check_proposed_tasks s (task # tasks) keys =
     (case check_proposed_task s keys task of
        Inl e \<Rightarrow> Inl e
      | Inr _ \<Rightarrow> check_proposed_tasks s tasks (insert (sp_client_key task) keys))"

text \<open>
  Kahn's algorithm. The worklist is the Rust vector \<open>remaining\<close> with its end as the head of
  the list (\<open>pop\<close> and \<open>push\<close> work at the end). One round visits a key, decrements the
  indegree of every task that names it and pushes those that reach zero. A key is pushed at
  most once, so the number of tasks bounds the rounds (\<open>kahn_fuel\<close> below).
\<close>

fun release_dependents ::
    "string \<Rightarrow> supervisor_task_proposal list \<Rightarrow> (string \<Rightarrow> nat option) \<Rightarrow> string list
       \<Rightarrow> (string \<Rightarrow> nat option) \<times> string list" where
  "release_dependents key [] indegree remaining = (indegree, remaining)"
| "release_dependents key (task # tasks) indegree remaining =
     (if key \<in> set (sp_dependencies task)
      then (case indegree (sp_client_key task) of
              None \<Rightarrow> release_dependents key tasks indegree remaining
            | Some value \<Rightarrow>
                release_dependents key tasks (indegree(sp_client_key task \<mapsto> value - 1))
                  (if value - 1 = 0 then sp_client_key task # remaining else remaining))
      else release_dependents key tasks indegree remaining)"

fun kahn ::
    "nat \<Rightarrow> supervisor_task_proposal list \<Rightarrow> (string \<Rightarrow> nat option) \<Rightarrow> string list \<Rightarrow> nat \<Rightarrow> nat option" where
  "kahn fuel tasks indegree [] visited = Some visited"
| "kahn 0 tasks indegree (key # remaining) visited = None"
| "kahn (Suc fuel) tasks indegree (key # remaining) visited =
     (case release_dependents key tasks indegree remaining of
        (indegree', remaining') \<Rightarrow> kahn fuel tasks indegree' remaining' (visited + 1))"

definition plan_indegree :: "supervisor_task_proposal list \<Rightarrow> string \<Rightarrow> nat option" where
  "plan_indegree tasks =
     map_of (rev (map (\<lambda>t. (sp_client_key t, length (sp_dependencies t))) tasks))"

definition plan_roots :: "supervisor_task_proposal list \<Rightarrow> string list" where
  "plan_roots tasks = rev (map sp_client_key (filter (\<lambda>t. sp_dependencies t = []) tasks))"

definition kahn_fuel :: "supervisor_task_proposal list \<Rightarrow> nat" where
  "kahn_fuel tasks = length tasks"

definition kahn_visited :: "supervisor_task_proposal list \<Rightarrow> nat option" where
  "kahn_visited tasks = kahn (kahn_fuel tasks) tasks (plan_indegree tasks) (plan_roots tasks) 0"

definition validate_supervisor_proposal ::
    "'z snapshot_scheme \<Rightarrow> mission_id \<Rightarrow> supervisor_plan_proposal \<Rightarrow> unit orch_result" where
  "validate_supervisor_proposal s mission_id proposal =
     (if pp_mission_id proposal \<noteq> mission_id
      then Inl (Validation ''supervisor proposal mission does not match the command'')
      else if pp_tasks proposal = [] \<or> 32 < length (pp_tasks proposal)
      then Inl (Validation ''supervisor proposal must contain between one and 32 tasks'')
      else if \<not> any (\<lambda>m. m_id m = mission_id) (s_missions s) then Inl NotFound
      else case check_proposed_tasks s (pp_tasks proposal) {} of
        Inl e \<Rightarrow> Inl e
      | Inr keys \<Rightarrow>
          if any (\<lambda>t. any (\<lambda>d. d = sp_client_key t \<or> d \<notin> keys) (sp_dependencies t)) (pp_tasks proposal)
          then Inl (Validation ''supervisor proposal contains an unknown or self dependency'')
          else if kahn_visited (pp_tasks proposal) \<noteq> Some (length (pp_tasks proposal))
          then Inl (Validation ''supervisor proposal dependencies contain a cycle'')
          else Inr ())"

section \<open>Missions\<close>

definition reduce_create_mission :: "env \<Rightarrow> world \<Rightarrow> project_id \<Rightarrow> string \<Rightarrow> reduction" where
  "reduce_create_mission env s project_id objective =
     (case find (\<lambda>p. p_id p = project_id \<and> \<not> p_archived p) (s_projects s) of
        None \<Rightarrow> Inl NotFound
      | Some project \<Rightarrow>
        (case sv_supervisor_model (s_server s) of
           None \<Rightarrow> Inl (Validation ''choose a supervisor model before creating a mission'')
         | Some supervisor_model \<Rightarrow>
           (case validate_openrouter_model env (Some supervisor_model) of
              Inl e \<Rightarrow> Inl e
            | Inr _ \<Rightarrow>
              if blank objective \<or> MAX_MESSAGE_BODY_BYTES < length objective
              then Inl (Validation ''mission objective is empty or too large'')
              else
               (let u = next_uuid env s;
                    mission = \<lparr>m_id = MissionId u, m_project_id = p_id project, m_objective = objective,
                      m_status = mission_status.Draft, m_supervisor_session_id = None,
                      m_branch = ''frank/mission-'' @ slug objective @ ''-''
                        @ take 8 (filter (\<lambda>c. c \<noteq> CHR ''-'') (e_uuid_text env u)),
                      m_budget = sv_default_budget (s_server s), m_last_error = None,
                      m_created_at = e_now env, m_updated_at = e_now env\<rparr> in
                Inr ((drew s)\<lparr>s_missions := s_missions s @ [mission]\<rparr>, MissionCreated mission,
                     ResultCreated (e_uuid_text env u))))))"

definition edit_mission :: "mission_id \<Rightarrow> (mission_view \<Rightarrow> mission_view) \<Rightarrow> world \<Rightarrow> world" where
  "edit_mission i f s = s\<lparr>s_missions := update_first (\<lambda>m. m_id m = i) f (s_missions s)\<rparr>"

definition mission_transition_error :: "mission_status \<Rightarrow> mission_status \<Rightarrow> orchestrator_error" where
  "mission_transition_error current status = InvalidTransition (''mission cannot transition from ''
     @ debug_mission_status current @ '' to '' @ debug_mission_status status)"

definition is_worker_with_model :: "agent_view \<Rightarrow> bool" where
  "is_worker_with_model a \<longleftrightarrow>
     \<not> a_archived a \<and> a_display_name a \<noteq> ''Frank supervisor''
     \<and> (case or_else (a_effective_model a) (a_model a) of None \<Rightarrow> False | Some m \<Rightarrow> \<not> blank m)"

definition check_mission_start :: "env \<Rightarrow> world \<Rightarrow> mission_view \<Rightarrow> unit orch_result" where
  "check_mission_start env s mission =
     (if filter (\<lambda>t. t_mission_id t = m_id mission) (s_tasks s) = []
      then Inl (Validation ''plan the mission before starting it'')
      else if \<not> any is_worker_with_model (s_agents s)
      then Inl (Validation ''add a worker with an effective model before starting the mission'')
      else case find (\<lambda>p. p_id p = m_project_id mission \<and> \<not> p_archived p) (s_projects s) of
        None \<Rightarrow> Inl NotFound
      | Some project \<Rightarrow>
        (case git_workflow_new env project (sv_allowed_project_roots (s_server s)) of
           Inl e \<Rightarrow> Inl (Validation (git_error_text e))
         | Inr workflow \<Rightarrow>
           (case e_validate_repository env (gw_project workflow) of
              Some e \<Rightarrow> Inl (Validation e)
            | None \<Rightarrow> Inr ())))"

definition reduce_set_mission_status :: "env \<Rightarrow> world \<Rightarrow> mission_id \<Rightarrow> mission_status \<Rightarrow> reduction" where
  "reduce_set_mission_status env s mission_id status =
     (case find_mission mission_id (s_missions s) of
        None \<Rightarrow> Inl NotFound
      | Some mission \<Rightarrow>
        if \<not> mission_can_transition_to (m_status mission) status
        then Inl (mission_transition_error (m_status mission) status)
        else if status = mission_status.Completed
           \<and> (filter (\<lambda>t. t_mission_id t = mission_id) (s_tasks s) = []
              \<or> any (\<lambda>t. t_mission_id t = mission_id \<and> t_status t \<noteq> task_status.Done) (s_tasks s))
        then Inl (Validation ''all mission tasks must be planned and done before completing the mission'')
        else case (if status = mission_status.Active then check_mission_start env s mission else Inr ()) of
          Inl e \<Rightarrow> Inl e
        | Inr _ \<Rightarrow>
          Inr (edit_mission mission_id (\<lambda>m. m\<lparr>m_status := status,
                 m_last_error := (if status = mission_status.Active then None else m_last_error m),
                 m_updated_at := e_now env\<rparr>) s,
               MissionStatusChanged mission_id status, Accepted))"

definition reduce_retry_mission_plan :: "env \<Rightarrow> world \<Rightarrow> mission_id \<Rightarrow> reduction" where
  "reduce_retry_mission_plan env s mission_id =
     (case find_mission mission_id (s_missions s) of
        None \<Rightarrow> Inl NotFound
      | Some mission \<Rightarrow>
        if m_status mission \<notin> {mission_status.Draft, mission_status.Blocked}
        then Inl (Validation ''only draft or blocked missions can retry planning'')
        else Inr (edit_mission mission_id (\<lambda>m. m\<lparr>m_last_error := None, m_updated_at := e_now env\<rparr>) s,
                  MissionStatusChanged mission_id (m_status mission), Accepted))"

definition pause_or_resume :: "env \<Rightarrow> world \<Rightarrow> mission_id \<Rightarrow> mission_status \<Rightarrow> reduction" where
  "pause_or_resume env s mission_id status =
     (case find_mission mission_id (s_missions s) of
        None \<Rightarrow> Inl NotFound
      | Some mission \<Rightarrow>
        if \<not> mission_can_transition_to (m_status mission) status
        then Inl (mission_transition_error (m_status mission) status)
        else Inr (edit_mission mission_id (\<lambda>m. m\<lparr>m_status := status, m_updated_at := e_now env\<rparr>) s,
                  MissionStatusChanged mission_id status, Accepted))"

definition show_mission_id :: "env \<Rightarrow> mission_id \<Rightarrow> string" where
  "show_mission_id env m = e_uuid_text env (mission_uuid m)"

definition reduce_deliver_mission :: "env \<Rightarrow> world \<Rightarrow> mission_id \<Rightarrow> reduction" where
  "reduce_deliver_mission env s mission_id =
     (case find_mission mission_id (s_missions s) of
        None \<Rightarrow> Inl NotFound
      | Some mission \<Rightarrow>
        if m_status mission \<noteq> mission_status.Completed
           \<or> any (\<lambda>t. t_mission_id t = mission_id \<and> t_status t \<noteq> task_status.Done) (s_tasks s)
        then Inl (Validation ''all mission tasks must be accepted before delivery'')
        else case find (\<lambda>x. op_kind x \<in> {operation_kind.PushMission, operation_kind.OpenDraftPullRequest}
                       \<and> op_resource x = show_mission_id env mission_id
                       \<and> op_status x \<notin> {operation_status.Cancelled, operation_status.Failed}) (s_operations s) of
          Some operation \<Rightarrow> Inr (s, OperationChanged operation, Operation operation)
        | None \<Rightarrow>
          (let operation = queued_operation env operation_kind.PushMission (next_uuid env s)
                 (show_mission_id env mission_id) ''queued'' in
           Inr ((drew s)\<lparr>s_operations := s_operations s @ [operation]\<rparr>, OperationChanged operation,
                Operation operation)))"

definition reduce_mission :: "env \<Rightarrow> world \<Rightarrow> command \<Rightarrow> reduction" where
  "reduce_mission env s command =
     (case command of
        CreateMission project_id objective \<Rightarrow> reduce_create_mission env s project_id objective
      | SetMissionStatus mission_id status \<Rightarrow> reduce_set_mission_status env s mission_id status
      | RetryMissionPlan mission_id \<Rightarrow> reduce_retry_mission_plan env s mission_id
      | PauseMission mission_id \<Rightarrow> pause_or_resume env s mission_id mission_status.Paused
      | ResumeMission mission_id \<Rightarrow> pause_or_resume env s mission_id mission_status.Active
      | DeliverMission mission_id \<Rightarrow> reduce_deliver_mission env s mission_id
      | SubmitSupervisorPlan mission_id proposal \<Rightarrow>
          (case validate_supervisor_proposal s mission_id proposal of
             Inl e \<Rightarrow> Inl e
           | Inr _ \<Rightarrow> Inr (s, SupervisorPlanProposed mission_id proposal, Accepted))
      | _ \<Rightarrow> misrouted)"

section \<open>Projects\<close>

definition validate_project_spec :: "env \<Rightarrow> project_spec \<Rightarrow> server_settings \<Rightarrow> unit orch_result" where
  "validate_project_spec env spec settings =
     (if \<not> valid_agent_text (ps_name spec) 128 \<or> \<not> valid_agent_text (ps_base_branch spec) 256
         \<or> (case ps_remote spec of None \<Rightarrow> False
            | Some r \<Rightarrow> blank r \<or> 256 < length r \<or> has_control r)
      then Inl (Validation ''project name and base branch are required'')
      else if (ps_path spec \<noteq> None) = (ps_clone_url spec \<noteq> None)
      then Inl (Validation ''provide exactly one local path or clone URL'')
      else if (case ps_path spec of None \<Rightarrow> False
               | Some p \<Rightarrow> \<not> is_allowed_path env p (sv_allowed_project_roots settings))
      then Inl (Validation ''project path is outside an allowed root'')
      else if 64 < length (ps_check_commands spec)
         \<or> any (\<lambda>c. 4096 < length c \<or> CHR 0x0A \<in> set c \<or> CHR 0x00 \<in> set c) (ps_check_commands spec)
      then Inl (Validation ''check command is invalid'')
      else Inr ())"

definition project_of_spec :: "server_settings \<Rightarrow> project_spec \<Rightarrow> string \<Rightarrow> project_id \<Rightarrow> project_view" where
  "project_of_spec settings spec path i = \<lparr>p_id = i, p_name = ps_name spec, p_path = path,
     p_base_branch = ps_base_branch spec, p_remote = ps_remote spec,
     p_check_commands = ps_check_commands spec,
     p_worktree_root = (case ps_worktree_root spec of Some r \<Rightarrow> r | None \<Rightarrow> sv_worktree_root settings),
     p_push_policy = ps_push_policy spec, p_pr_policy = ps_pr_policy spec, p_archived = False\<rparr>"

definition reduce_create_project :: "env \<Rightarrow> world \<Rightarrow> project_spec \<Rightarrow> reduction" where
  "reduce_create_project env s spec =
     (case validate_project_spec env spec (s_server s) of
        Inl e \<Rightarrow> Inl e
      | Inr _ \<Rightarrow>
        (case ps_path spec of
           None \<Rightarrow> Inl (Validation ''clone projects must use the clone flow with a destination'')
         | Some path \<Rightarrow>
           (case git_workflow_new env (project_of_spec (s_server s) spec path (ProjectId nil_uuid))
                   (sv_allowed_project_roots (s_server s)) of
              Inl e \<Rightarrow> Inl (Validation (git_error_text e))
            | Inr workflow \<Rightarrow>
              (case e_validate_repository env (gw_project workflow) of
                 Some e \<Rightarrow> Inl (Validation e)
               | None \<Rightarrow>
                 (let u = next_uuid env s; project = project_of_spec (s_server s) spec path (ProjectId u) in
                  Inr ((drew s)\<lparr>s_projects := s_projects s @ [project]\<rparr>, ProjectUpserted project,
                       ResultCreated (e_uuid_text env u)))))))"

definition reduce_clone_project :: "env \<Rightarrow> world \<Rightarrow> string \<Rightarrow> string \<Rightarrow> reduction" where
  "reduce_clone_project env s url destination =
     (if blank url \<or> blank destination
      then Inl (Validation ''clone URL and destination are required'')
      else if \<not> is_allowed_path env destination (sv_allowed_project_roots (s_server s))
      then Inl (Validation ''destination is outside an allowed project root'')
      else
       (let operation = queued_operation env operation_kind.CloneProject (next_uuid env s)
              (e_json_text env (JObject [(''destination'', JString destination), (''url'', JString url)])) ''clone'' in
        Inr ((drew s)\<lparr>s_operations := s_operations s @ [operation]\<rparr>, OperationChanged operation,
             Operation operation)))"

definition reduce_archive_project :: "world \<Rightarrow> project_id \<Rightarrow> reduction" where
  "reduce_archive_project s project_id =
     (case find (\<lambda>p. p_id p = project_id) (s_projects s) of
        None \<Rightarrow> Inl NotFound
      | Some _ \<Rightarrow>
          Inr (s\<lparr>s_projects := update_first (\<lambda>p. p_id p = project_id) (\<lambda>p. p\<lparr>p_archived := True\<rparr>) (s_projects s)\<rparr>,
               ProjectArchived project_id, Accepted))"

section \<open>Operations\<close>

definition edit_operation :: "operation_id \<Rightarrow> (operation_view \<Rightarrow> operation_view) \<Rightarrow> world \<Rightarrow> world" where
  "edit_operation i f s = s\<lparr>s_operations := update_first (\<lambda>x. op_id x = i) f (s_operations s)\<rparr>"

definition reduce_cancel_operation :: "env \<Rightarrow> world \<Rightarrow> operation_id \<Rightarrow> reduction" where
  "reduce_cancel_operation env s operation_id =
     (case find (\<lambda>x. op_id x = operation_id) (s_operations s) of
        None \<Rightarrow> Inl NotFound
      | Some operation \<Rightarrow>
        if op_status operation \<in> {operation_status.Succeeded, operation_status.Cancelled}
        then Inr (s, OperationChanged operation, Operation operation)
        else
         (let operation' = operation\<lparr>op_status := operation_status.Cancelled, op_updated_at := e_now env,
                op_error := Some ''cancelled by actor''\<rparr> in
          Inr (edit_operation operation_id (\<lambda>_. operation') s, OperationChanged operation',
               Operation operation')))"

definition reduce_retry_operation :: "env \<Rightarrow> world \<Rightarrow> operation_id \<Rightarrow> reduction" where
  "reduce_retry_operation env s operation_id =
     (case find (\<lambda>x. op_id x = operation_id) (s_operations s) of
        None \<Rightarrow> Inl NotFound
      | Some operation \<Rightarrow>
        if op_status operation \<noteq> operation_status.Failed
           \<and> \<not> (op_status operation = operation_status.Waiting \<and> op_phase operation = ''awaiting-helper'')
        then Inl (InvalidTransition ''only a failed or helper-waiting operation can be retried'')
        else
         (let operation' = operation\<lparr>op_status := operation_status.Queued, op_phase := ''retry-queued'',
                op_error := None, op_updated_at := e_now env\<rparr> in
          Inr (edit_operation operation_id (\<lambda>_. operation') s, OperationChanged operation',
               Operation operation')))"

end
