(* ===== verification/Grants.thy ===== *)
theory Grants
  imports Missions
begin

text \<open>
  Approvals, task grants and budget adjustment (\<open>reduce/approval.rs\<close>), the grant check of the
  tool path (\<open>task_grant_allows\<close> in \<open>approval_flow.rs\<close>), and terminal sessions with
  their control leases (\<open>reduce/terminal.rs\<close>). Expiry times are decimal seconds since the
  epoch, compared as \<open>u128\<close>.
\<close>

section \<open>Approvals\<close>

definition reduce_request_approval :: "env \<Rightarrow> world \<Rightarrow> approval_spec \<Rightarrow> actor_ref \<Rightarrow> reduction" where
  "reduce_request_approval env s spec actor =
     (if blank (aps_operation spec) \<or> blank (aps_reason spec)
         \<or> 4096 < length (aps_operation spec) \<or> MAX_MESSAGE_BODY_BYTES < length (aps_reason spec)
         \<or> has_control (aps_operation spec) \<or> has_control (aps_reason spec)
         \<or> 4096 < length (aps_cwd spec) \<or> 4096 < length (aps_project spec)
         \<or> has_control (aps_cwd spec) \<or> has_control (aps_project spec)
      then Inl (Validation ''approval operation or reason is invalid'')
      else case find_task (aps_task_id spec) (s_tasks s) of
        None \<Rightarrow> Inl NotFound
      | Some task \<Rightarrow>
        if \<not> has_active_agent s (aps_agent_id spec)
           \<or> \<not> any (\<lambda>m. m_id m = t_mission_id task) (s_missions s)
        then Inl NotFound
        else if ac_kind actor = actor_kind.Agent
           \<and> ac_id actor \<noteq> Some (show_agent_id env (aps_agent_id spec))
        then Inl Forbidden
        else
         (let u = next_uuid env s;
              approval = \<lparr>av_id = ApprovalId u, av_agent_id = aps_agent_id spec,
                av_task_id = aps_task_id spec, av_operation = aps_operation spec, av_cwd = aps_cwd spec,
                av_project = aps_project spec, av_reason = aps_reason spec,
                av_status = approval_status.Pending,
                av_expires_at = show_nat (now_plus_seconds env (sv_approval_ttl_seconds (s_server s)))\<rparr> in
          Inr ((drew s)\<lparr>s_approvals := s_approvals s @ [approval]\<rparr>, ApprovalRequested approval,
               ResultCreated (e_uuid_text env u))))"

definition task_grant_effect :: "string \<Rightarrow> task_grant_effect option" where
  "task_grant_effect op =
     (let operation = to_ascii_lowercase op in
      if contains_str operation ''network'' \<or> contains_str operation ''credential''
         \<or> contains_str operation ''sudo'' \<or> contains_str operation ''privileged''
         \<or> contains_str operation ''external''
      then None
      else if contains_str operation ''check'' \<or> contains_str operation ''test''
         \<or> contains_str operation ''build''
      then Some task_grant_effect.Check
      else if contains_str operation ''workspace'' \<or> contains_str operation ''write''
         \<or> contains_str operation ''mcp-tool''
      then Some task_grant_effect.WorkspaceWrite
      else None)"

definition is_active_work :: "task_view \<Rightarrow> bool" where
  "is_active_work t \<longleftrightarrow> t_status t \<in> {task_status.Running, task_status.Review}"

text \<open>The \<open>AllowForTask\<close> branch: the approval becomes a grant on the task's own worktree.\<close>

definition grant_for_task :: "env \<Rightarrow> world \<Rightarrow> approval_view \<Rightarrow> reduction" where
  "grant_for_task env s approval =
     (case task_grant_effect (av_operation approval) of
        None \<Rightarrow> Inl (Validation ''only workspace writes and non-network checks can be granted for a task'')
      | Some effect \<Rightarrow>
        (case find_task (av_task_id approval) (s_tasks s) of
           None \<Rightarrow> Inl NotFound
         | Some task \<Rightarrow>
           if t_assigned_agent task \<noteq> Some (av_agent_id approval) \<or> \<not> is_active_work task
           then Inl (Validation ''a task grant must match the active assigned task'')
           else case t_worktree task of
             None \<Rightarrow> Inl (Validation ''task has no canonical worktree'')
           | Some task_worktree \<Rightarrow>
             (case e_canonicalize env (components task_worktree) of
                None \<Rightarrow> Inl (Validation ''task worktree is unavailable'')
              | Some canonical_task \<Rightarrow>
                (case e_canonicalize env (components (av_cwd approval)) of
                   None \<Rightarrow> Inl (Validation ''approval worktree is unavailable'')
                 | Some canonical_approval \<Rightarrow>
                   if canonical_task \<noteq> canonical_approval \<or> \<not> e_is_dir env canonical_task
                   then Inl (Validation ''approval worktree does not match the task worktree'')
                   else
                    (let grant = \<lparr>gv_id = e_uuid_text env (next_uuid env s),
                           gv_task_id = av_task_id approval, gv_agent_id = av_agent_id approval,
                           gv_worktree = path_text canonical_task, gv_effect = effect,
                           gv_expires_at = av_expires_at approval, gv_revoked = False,
                           gv_source_approval_id = Some (av_id approval)\<rparr> in
                     Inr ((drew s)\<lparr>s_task_grants := s_task_grants s @ [grant]\<rparr>, TaskGrantCreated grant,
                          Accepted))))))"

definition edit_approval :: "approval_id \<Rightarrow> (approval_view \<Rightarrow> approval_view) \<Rightarrow> world \<Rightarrow> world" where
  "edit_approval i f s = s\<lparr>s_approvals := update_first (\<lambda>a. av_id a = i) f (s_approvals s)\<rparr>"

fun decision_status :: "approval_decision \<Rightarrow> approval_status" where
  "decision_status approval_decision.AllowOnce = approval_status.Approved"
| "decision_status approval_decision.AllowForTask = approval_status.Approved"
| "decision_status approval_decision.DenyOnce = approval_status.Denied"

definition reduce_decide_approval :: "env \<Rightarrow> world \<Rightarrow> approval_id \<Rightarrow> approval_decision \<Rightarrow> reduction" where
  "reduce_decide_approval env s approval_id decision =
     (case find (\<lambda>a. av_id a = approval_id) (s_approvals s) of
        None \<Rightarrow> Inl NotFound
      | Some approval \<Rightarrow>
        if av_status approval \<noteq> approval_status.Pending
        then Inl (InvalidTransition ''approval is no longer pending'')
        else if parse_or_zero 128 (av_expires_at approval) \<le> now_plus_seconds env 0
        then Inr (edit_approval approval_id (\<lambda>a. a\<lparr>av_status := approval_status.Expired\<rparr>) s,
                  ApprovalExpired (av_id approval), Accepted)
        else
         (let s1 = edit_approval approval_id (\<lambda>a. a\<lparr>av_status := decision_status decision\<rparr>) s in
          if decision = approval_decision.AllowForTask then grant_for_task env s1 approval
          else Inr (s1, ApprovalDecided approval_id decision, Accepted)))"

definition reduce_grant_task_access ::
    "env \<Rightarrow> world \<Rightarrow> task_id \<Rightarrow> agent_id \<Rightarrow> string \<Rightarrow> task_grant_effect \<Rightarrow> timestamp \<Rightarrow> actor_ref \<Rightarrow> reduction" where
  "reduce_grant_task_access env s task_id agent_id worktree effect expires_at actor =
     (if ac_kind actor = actor_kind.Agent then Inl Forbidden
      else if \<not> has_active_agent s agent_id then Inl NotFound
      else case find_task task_id (s_tasks s) of
        None \<Rightarrow> Inl NotFound
      | Some task \<Rightarrow>
        if t_assigned_agent task \<noteq> Some agent_id \<or> blank worktree
        then Inl (Validation ''a task grant must match the assigned agent and a worktree'')
        else if \<not> is_active_work task
        then Inl (Validation ''task grants are valid only for active or review tasks'')
        else case t_worktree task of
          None \<Rightarrow> Inl (Validation ''task has no canonical worktree'')
        | Some task_worktree \<Rightarrow>
          (case e_canonicalize env (components task_worktree) of
             None \<Rightarrow> Inl (Validation ''task worktree is unavailable'')
           | Some canonical_task \<Rightarrow>
             (case e_canonicalize env (components worktree) of
                None \<Rightarrow> Inl (Validation ''grant worktree is unavailable'')
              | Some canonical_grant \<Rightarrow>
                if canonical_grant \<noteq> canonical_task \<or> \<not> e_is_dir env canonical_grant
                   \<or> parse_or_zero 128 expires_at \<le> now_plus_seconds env 0
                then Inl (Validation ''task grant worktree or expiry is invalid'')
                else
                 (let i = e_uuid_text env (next_uuid env s);
                      grant = \<lparr>gv_id = i, gv_task_id = task_id, gv_agent_id = agent_id,
                        gv_worktree = path_text canonical_grant, gv_effect = effect,
                        gv_expires_at = expires_at, gv_revoked = False, gv_source_approval_id = None\<rparr> in
                  Inr ((drew s)\<lparr>s_task_grants := s_task_grants s @ [grant]\<rparr>, TaskGrantCreated grant,
                       ResultCreated i)))))"

definition reduce_revoke_task_grant :: "world \<Rightarrow> string \<Rightarrow> reduction" where
  "reduce_revoke_task_grant s grant_id =
     (case find (\<lambda>g. gv_id g = grant_id) (s_task_grants s) of
        None \<Rightarrow> Inl NotFound
      | Some _ \<Rightarrow>
          Inr (s\<lparr>s_task_grants := update_first (\<lambda>g. gv_id g = grant_id) (\<lambda>g. g\<lparr>gv_revoked := True\<rparr>)
                   (s_task_grants s)\<rparr>, TaskGrantRevoked grant_id, Accepted))"

text \<open>The grant a tool call may use instead of a new approval.\<close>

definition required_grant_effect :: "string \<Rightarrow> task_grant_effect option" where
  "required_grant_effect tool_name =
     (if tool_name = ''workspace_apply_patch'' then Some task_grant_effect.WorkspaceWrite
      else if tool_name \<in> {''run_check'', ''toolchain_check'', ''runner_check''}
      then Some task_grant_effect.Check else None)"

definition task_grant_allows ::
    "env \<Rightarrow> 'z snapshot_scheme \<Rightarrow> task_id \<Rightarrow> agent_id \<Rightarrow> string \<Rightarrow> string \<Rightarrow> bool" where
  "task_grant_allows env s task_id agent_id worktree tool_name \<longleftrightarrow>
     (case required_grant_effect tool_name of
        None \<Rightarrow> False
      | Some required_effect \<Rightarrow>
        (case find_task task_id (s_tasks s) of
           None \<Rightarrow> False
         | Some task \<Rightarrow>
           if t_assigned_agent task \<noteq> Some agent_id \<or> \<not> is_active_work task then False
           else case e_canonicalize env (components worktree) of
             None \<Rightarrow> False
           | Some root \<Rightarrow>
             (case Option.bind (t_worktree task) (\<lambda>p. e_canonicalize env (components p)) of
                None \<Rightarrow> False
              | Some task_root \<Rightarrow>
                  root = task_root
                  \<and> any (\<lambda>g. gv_task_id g = task_id \<and> gv_agent_id g = agent_id \<and> \<not> gv_revoked g
                       \<and> (case parse_uint 128 (gv_expires_at g) of None \<Rightarrow> False
                          | Some t \<Rightarrow> e_epoch_seconds env < t)
                       \<and> gv_effect g = required_effect
                       \<and> e_canonicalize env (components (gv_worktree g)) = Some task_root)
                      (s_task_grants s))))"

definition reduce_adjust_budget :: "env \<Rightarrow> world \<Rightarrow> budget_scope \<Rightarrow> string \<Rightarrow> budget \<Rightarrow> reduction" where
  "reduce_adjust_budget env s scope scope_id budget =
     (if blank scope_id then Inl (Validation ''budget scope id is required'')
      else case e_uuid_parse env scope_id of
        None \<Rightarrow> Inl NotFound
      | Some u \<Rightarrow>
        (let event = BudgetPaused scope (''budget updated for '' @ scope_id) in
         case scope of
           budget_scope.Mission \<Rightarrow>
             if find_mission (MissionId u) (s_missions s) = None then Inl NotFound
             else Inr (edit_mission (MissionId u) (\<lambda>m. m\<lparr>m_budget := budget\<rparr>) s, event, Accepted)
         | budget_scope.Agent \<Rightarrow>
             if find (\<lambda>a. a_id a = AgentId u) (s_agents s) = None then Inl NotFound
             else Inr (s\<lparr>s_agents := update_first (\<lambda>a. a_id a = AgentId u) (\<lambda>a. a\<lparr>a_budget := budget\<rparr>)
                           (s_agents s)\<rparr>, event, Accepted)
         | budget_scope.Task \<Rightarrow>
             if find_task (TaskId u) (s_tasks s) = None then Inl NotFound
             else Inr (edit_task (TaskId u) (\<lambda>t. t\<lparr>t_budget := budget\<rparr>) s, event, Accepted)))"

section \<open>Terminals\<close>

definition clamp_u16 :: "u16 \<Rightarrow> u16 \<Rightarrow> u16 \<Rightarrow> u16" where
  \<comment> \<open>\<open>value.clamp(lo, hi)\<close>\<close>
  "clamp_u16 lo hi v = (if v < lo then lo else if hi < v then hi else v)"

definition edit_terminal ::
    "terminal_session_id \<Rightarrow> (terminal_session_view \<Rightarrow> terminal_session_view) \<Rightarrow> world \<Rightarrow> world" where
  "edit_terminal i f s = s\<lparr>s_terminals := update_first (\<lambda>t. te_id t = i) f (s_terminals s)\<rparr>"

definition find_terminal :: "'z snapshot_scheme \<Rightarrow> terminal_session_id \<Rightarrow> terminal_session_view option" where
  "find_terminal s i = find (\<lambda>t. te_id t = i) (s_terminals s)"

definition reduce_open_terminal :: "env \<Rightarrow> world \<Rightarrow> task_id \<Rightarrow> u16 \<Rightarrow> u16 \<Rightarrow> reduction" where
  "reduce_open_terminal env s task_id cols rows =
     (case find_task task_id (s_tasks s) of
        None \<Rightarrow> Inl NotFound
      | Some task \<Rightarrow>
        if \<not> is_active_work task
        then Inl (Validation ''terminal is available only for an active task'')
        else case (case t_worktree task of None \<Rightarrow> None | Some p \<Rightarrow> if blank p then None else Some p) of
          None \<Rightarrow> Inl (Validation ''terminal requires a task worktree'')
        | Some cwd \<Rightarrow>
          if \<not> e_is_dir env (components cwd)
             \<or> \<not> is_allowed_path env cwd (sv_allowed_project_roots (s_server s))
          then Inl (Validation ''terminal worktree is outside the allowed project roots'')
          else
           (let session = \<lparr>te_id = TerminalSessionId (next_uuid env s), te_task_id = task_id, te_cwd = cwd,
                  te_cols = clamp_u16 20 400 cols, te_rows = clamp_u16 5 200 rows, te_active = True,
                  te_lease = None\<rparr> in
            Inr ((drew s)\<lparr>s_terminals := s_terminals s @ [session]\<rparr>, TerminalOpened session,
                 ResultTerminal session)))"

definition lease_live :: "env \<Rightarrow> control_lease_view \<Rightarrow> bool" where
  "lease_live env lease \<longleftrightarrow> now_plus_seconds env 0 < parse_or_zero 128 (cl_expires_at lease)"

definition reduce_take_control :: "env \<Rightarrow> world \<Rightarrow> terminal_session_id \<Rightarrow> actor_ref \<Rightarrow> reduction" where
  "reduce_take_control env s session_id actor =
     (case find_terminal s session_id of
        None \<Rightarrow> Inl NotFound
      | Some session \<Rightarrow>
        if (case te_lease session of None \<Rightarrow> False | Some lease \<Rightarrow> lease_live env lease)
        then Inl (Validation ''terminal is already controlled by another device'')
        else
         (let lease = \<lparr>cl_lease_id = e_uuid_text env (next_uuid env s), cl_session_id = session_id,
                cl_actor = actor, cl_expires_at = show_nat (now_plus_seconds env 30)\<rparr> in
          Inr (edit_terminal session_id (\<lambda>t. t\<lparr>te_lease := Some lease\<rparr>) (drew s),
               TerminalLeaseChanged lease, Accepted)))"

definition holds_lease :: "string \<Rightarrow> actor_ref \<Rightarrow> control_lease_view \<Rightarrow> bool" where
  "holds_lease lease_id actor lease \<longleftrightarrow> cl_lease_id lease = lease_id \<and> same_actor (cl_actor lease) actor"

definition reduce_renew_control ::
    "env \<Rightarrow> world \<Rightarrow> terminal_session_id \<Rightarrow> string \<Rightarrow> actor_ref \<Rightarrow> reduction" where
  "reduce_renew_control env s session_id lease_id actor =
     (case find_terminal s session_id of
        None \<Rightarrow> Inl NotFound
      | Some session \<Rightarrow>
        (case te_lease session of
           None \<Rightarrow> Inl Forbidden
         | Some lease \<Rightarrow>
           if \<not> holds_lease lease_id actor lease then Inl Forbidden
           else
            (let renewed = lease\<lparr>cl_expires_at := show_nat (now_plus_seconds env 30)\<rparr> in
             Inr (edit_terminal session_id (\<lambda>t. t\<lparr>te_lease := Some renewed\<rparr>) s,
                  TerminalLeaseChanged renewed, Accepted))))"

definition reduce_release_control ::
    "world \<Rightarrow> terminal_session_id \<Rightarrow> string \<Rightarrow> actor_ref \<Rightarrow> reduction" where
  "reduce_release_control s session_id lease_id actor =
     (case find_terminal s session_id of
        None \<Rightarrow> Inl NotFound
      | Some session \<Rightarrow>
        if (case te_lease session of None \<Rightarrow> True | Some lease \<Rightarrow> \<not> holds_lease lease_id actor lease)
        then Inl Forbidden
        else Inr (edit_terminal session_id (\<lambda>t. t\<lparr>te_lease := None\<rparr>) s,
                  TerminalLeaseChanged \<lparr>cl_lease_id = lease_id, cl_session_id = session_id,
                    cl_actor = actor, cl_expires_at = ''released''\<rparr>, Accepted))"

definition reduce_close_terminal :: "env \<Rightarrow> world \<Rightarrow> terminal_session_id \<Rightarrow> actor_ref \<Rightarrow> reduction" where
  "reduce_close_terminal env s session_id actor =
     (case find_terminal s session_id of
        None \<Rightarrow> Inl NotFound
      | Some session \<Rightarrow>
        if (case te_lease session of None \<Rightarrow> False
            | Some lease \<Rightarrow> \<not> same_actor (cl_actor lease) actor \<and> lease_live env lease)
        then Inl Forbidden
        else Inr (edit_terminal session_id (\<lambda>t. t\<lparr>te_active := False, te_lease := None\<rparr>) s,
                  TerminalClosed session_id, Accepted))"

section \<open>Dispatch\<close>

definition reduce_approval :: "env \<Rightarrow> world \<Rightarrow> command \<Rightarrow> actor_ref \<Rightarrow> reduction" where
  "reduce_approval env s command actor =
     (case command of
        RequestApproval spec \<Rightarrow> reduce_request_approval env s spec actor
      | DecideApproval approval_id decision \<Rightarrow> reduce_decide_approval env s approval_id decision
      | GrantTaskAccess task_id agent_id worktree effect expires_at \<Rightarrow>
          reduce_grant_task_access env s task_id agent_id worktree effect expires_at actor
      | RevokeTaskGrant grant_id \<Rightarrow> reduce_revoke_task_grant s grant_id
      | AdjustBudget scope scope_id budget \<Rightarrow> reduce_adjust_budget env s scope scope_id budget
      | _ \<Rightarrow> misrouted)"

definition reduce_terminal :: "env \<Rightarrow> world \<Rightarrow> command \<Rightarrow> actor_ref \<Rightarrow> reduction" where
  "reduce_terminal env s command actor =
     (case command of
        OpenTerminal task_id cols rows \<Rightarrow> reduce_open_terminal env s task_id cols rows
      | TakeControl session_id \<Rightarrow> reduce_take_control env s session_id actor
      | RenewControl session_id lease_id \<Rightarrow> reduce_renew_control env s session_id lease_id actor
      | ReleaseControl session_id lease_id \<Rightarrow> reduce_release_control s session_id lease_id actor
      | CloseTerminal session_id \<Rightarrow> reduce_close_terminal env s session_id actor
      | _ \<Rightarrow> misrouted)"

end
