(* ===== verification/Messages.thy ===== *)
theory Messages
  imports Grants
begin

text \<open>
  The message broker: \<open>mailbox.rs\<close> and \<open>reduce/message.rs\<close>; artifacts
  (\<open>reduce/artifact.rs\<close>) and agent memory (\<open>reduce/memory.rs\<close>).
\<close>

section \<open>Mailbox\<close>

definition DEFAULT_MESSAGE_HOP_LIMIT :: u8 where "DEFAULT_MESSAGE_HOP_LIMIT = 6"

definition mailbox_accept :: "message_id \<Rightarrow> u8 \<Rightarrow> message_id set \<Rightarrow> bool \<times> message_id set" where
  "mailbox_accept message_id hop seen =
     (if hop \<le> DEFAULT_MESSAGE_HOP_LIMIT
      then (message_id \<notin> seen, insert message_id seen) else (False, seen))"

section \<open>Sending\<close>

definition check_send_message :: "env \<Rightarrow> world \<Rightarrow> message_spec \<Rightarrow> actor_ref \<Rightarrow> unit orch_result" where
  "check_send_message env s spec actor =
     (if e_max_message_bytes env < length (ms_body spec)
      then Inl (Validation ''message body exceeds 64 KiB; publish an artifact instead'')
      else if find_mission (ms_mission_id spec) (s_missions s) = None then Inl NotFound
      else if (case ms_task_id spec of None \<Rightarrow> False
               | Some i \<Rightarrow> \<not> any (\<lambda>t. t_id t = i \<and> t_mission_id t = ms_mission_id spec) (s_tasks s))
      then Inl NotFound
      else if 256 < length (ms_artifact_ids spec)
         \<or> any (\<lambda>i. \<not> any (\<lambda>a. ar_id a = i \<and> ar_mission_id a = ms_mission_id spec
                      \<and> (ms_task_id spec = None \<or> ar_task_id a = ms_task_id spec)) (s_artifacts s))
             (ms_artifact_ids spec)
      then Inl NotFound
      else case (if ac_kind actor = actor_kind.Agent
                 then (case ms_task_id spec of
                         None \<Rightarrow> Inl Forbidden
                       | Some i \<Rightarrow>
                           (let actor_id = (case ac_id actor of None \<Rightarrow> [] | Some x \<Rightarrow> x);
                                assigned = (case Option.bind (find_task i (s_tasks s)) t_assigned_agent of
                                              None \<Rightarrow> False | Some a \<Rightarrow> show_agent_id env a = actor_id) in
                            if \<not> assigned then Inl Forbidden
                            else if ac_kind (ms_recipient spec) \<noteq> actor_kind.Supervisor then Inl Forbidden
                            else Inr ()))
                 else Inr ()) of
        Inl e \<Rightarrow> Inl e
      | Inr _ \<Rightarrow>
        if blank (ms_body spec)
           \<or> (case ac_id (ms_recipient spec) of None \<Rightarrow> False | Some x \<Rightarrow> 128 < length x)
           \<or> DEFAULT_MESSAGE_HOP_LIMIT < ms_hop spec
        then Inl (Validation ''message recipient, body, or hop is invalid'')
        else if ac_kind actor = actor_kind.Device \<and> ac_kind (ms_recipient spec) \<noteq> actor_kind.Supervisor
        then Inl Forbidden
        else Inr ())"

definition message_of_spec :: "env \<Rightarrow> message_spec \<Rightarrow> actor_ref \<Rightarrow> message_id \<Rightarrow> message_view" where
  "message_of_spec env spec actor i = \<lparr>mv_id = i, mv_mission_id = ms_mission_id spec,
     mv_task_id = ms_task_id spec, mv_sender = actor, mv_recipient = ms_recipient spec,
     mv_act = ms_act spec, mv_body = ms_body spec, mv_artifact_ids = ms_artifact_ids spec,
     mv_reply_to = ms_reply_to spec, mv_hop = ms_hop spec, mv_delivery = delivery_status.Queued,
     mv_created_at = e_now env\<rparr>"

fun message_uuid :: "message_id \<Rightarrow> uuid" where
  "message_uuid (MessageId u) = u"

definition reduce_send_message :: "env \<Rightarrow> world \<Rightarrow> message_spec \<Rightarrow> actor_ref \<Rightarrow> reduction" where
  "reduce_send_message env s spec actor =
     (case check_send_message env s spec actor of
        Inl e \<Rightarrow> Inl e
      | Inr _ \<Rightarrow>
        (let (i, s1) = (case ms_message_id spec of Some i \<Rightarrow> (i, s) | None \<Rightarrow> (MessageId (next_uuid env s), drew s));
             created = ResultCreated (e_uuid_text env (message_uuid i)) in
         case find (\<lambda>m. mv_id m = i) (s_messages s1) of
           Some existing \<Rightarrow> Inr (s1, MessageQueued existing, created)
         | None \<Rightarrow>
           (case mailbox_accept i (ms_hop spec) (w_seen s1) of
              (accepted, seen) \<Rightarrow>
                if \<not> accepted then Inl (Validation ''message hop limit exceeded or duplicate message'')
                else
                 (let message = message_of_spec env spec actor i in
                  Inr (s1\<lparr>w_seen := seen, s_messages := s_messages s1 @ [message]\<rparr>,
                       MessageQueued message, created)))))"

section \<open>Delivery\<close>

definition edit_message :: "message_id \<Rightarrow> (message_view \<Rightarrow> message_view) \<Rightarrow> world \<Rightarrow> world" where
  "edit_message i f s = s\<lparr>s_messages := update_first (\<lambda>m. mv_id m = i) f (s_messages s)\<rparr>"

definition reduce_ack_message :: "world \<Rightarrow> message_id \<Rightarrow> actor_ref \<Rightarrow> reduction" where
  "reduce_ack_message s message_id actor =
     (case find (\<lambda>m. mv_id m = message_id) (s_messages s) of
        None \<Rightarrow> Inl NotFound
      | Some message \<Rightarrow>
        if ac_kind actor = actor_kind.Agent \<and> ac_id actor \<noteq> ac_id (mv_recipient message)
        then Inl Forbidden
        else if mv_delivery message \<noteq> delivery_status.Delivered
        then Inl (InvalidTransition ''only a delivered message can be acknowledged'')
        else Inr (edit_message message_id (\<lambda>m. m\<lparr>mv_delivery := delivery_status.Acknowledged\<rparr>) s,
                  MessageAcknowledged message_id, Accepted))"

definition reduce_complete_message :: "world \<Rightarrow> message_id \<Rightarrow> bool \<Rightarrow> actor_ref \<Rightarrow> reduction" where
  "reduce_complete_message s message_id success actor =
     (case find (\<lambda>m. mv_id m = message_id) (s_messages s) of
        None \<Rightarrow> Inl NotFound
      | Some message \<Rightarrow>
        if ac_kind actor = actor_kind.Agent \<and> ac_id actor \<noteq> ac_id (mv_recipient message)
        then Inl Forbidden
        else if mv_delivery message \<notin> {delivery_status.Delivered, delivery_status.Acknowledged}
        then Inl (InvalidTransition ''message is not awaiting completion'')
        else Inr (edit_message message_id (\<lambda>m. m\<lparr>mv_delivery := (if success then delivery_status.Completed
                                                            else delivery_status.Failed)\<rparr>) s,
                  (if success then MessageCompleted message_id else MessageFailed message_id), Accepted))"

definition reduce_message :: "env \<Rightarrow> world \<Rightarrow> command \<Rightarrow> actor_ref \<Rightarrow> reduction" where
  "reduce_message env s command actor =
     (case command of
        SendMessage spec \<Rightarrow> reduce_send_message env s spec actor
      | AckMessage message_id \<Rightarrow> reduce_ack_message s message_id actor
      | CompleteMessage message_id success \<Rightarrow> reduce_complete_message s message_id success actor
      | _ \<Rightarrow> misrouted)"

section \<open>Artifacts\<close>

definition mission_task_exists :: "'z snapshot_scheme \<Rightarrow> mission_id \<Rightarrow> task_id option \<Rightarrow> bool" where
  "mission_task_exists s mission_id task_id \<longleftrightarrow>
     (case task_id of None \<Rightarrow> True
      | Some i \<Rightarrow> any (\<lambda>t. t_id t = i \<and> t_mission_id t = mission_id) (s_tasks s))"

definition reduce_publish_artifact :: "env \<Rightarrow> world \<Rightarrow> artifact_spec \<Rightarrow> reduction" where
  "reduce_publish_artifact env s spec =
     (if MAX_ARTIFACT_BYTES < length (ars_bytes spec)
      then Inl (Validation ''artifact exceeds the configured size cap'')
      else if blank (ars_name spec) \<or> 256 < length (ars_name spec) \<or> has_control (ars_name spec)
         \<or> blank (ars_mime_type spec) \<or> 256 < length (ars_mime_type spec) \<or> has_control (ars_mime_type spec)
      then Inl (Validation ''artifact name or MIME type is invalid'')
      else if find_mission (ars_mission_id spec) (s_missions s) = None then Inl NotFound
      else if \<not> mission_task_exists s (ars_mission_id spec) (ars_task_id spec) then Inl NotFound
      else
       (let u = next_uuid env s;
            artifact = \<lparr>ar_id = ArtifactId u, ar_mission_id = ars_mission_id spec,
              ar_task_id = ars_task_id spec, ar_upload_id = None, ar_name = ars_name spec,
              ar_mime_type = ars_mime_type spec, ar_size = of_nat (length (ars_bytes spec)),
              ar_sha256 = e_sha256 env (ars_bytes spec), ar_pinned = False, ar_created_at = e_now env\<rparr> in
        Inr ((drew s)\<lparr>s_artifacts := s_artifacts s @ [artifact]\<rparr>, ArtifactPublished artifact,
             ResultCreated (e_uuid_text env u))))"

definition is_ascii_hexdigit :: "char \<Rightarrow> bool" where
  "is_ascii_hexdigit c \<longleftrightarrow>
     (let a = (of_char c :: nat) in (48 \<le> a \<and> a \<le> 57) \<or> (65 \<le> a \<and> a \<le> 70) \<or> (97 \<le> a \<and> a \<le> 102))"

definition reduce_begin_artifact_upload :: "env \<Rightarrow> world \<Rightarrow> artifact_upload_spec \<Rightarrow> reduction" where
  "reduce_begin_artifact_upload env s spec =
     (if MAX_ARTIFACT_BYTES < unat (ups_size spec)
         \<or> blank (ups_name spec) \<or> 256 < length (ups_name spec)
         \<or> blank (ups_mime_type spec) \<or> 256 < length (ups_mime_type spec)
         \<or> length (ups_sha256 spec) \<noteq> 64 \<or> \<not> list_all is_ascii_hexdigit (ups_sha256 spec)
      then Inl (Validation ''artifact upload metadata is invalid'')
      else if find_mission (ups_mission_id spec) (s_missions s) = None then Inl NotFound
      else if \<not> mission_task_exists s (ups_mission_id spec) (ups_task_id spec) then Inl NotFound
      else
       (let upload = \<lparr>up_id = UploadId (next_uuid env s), up_spec = spec, up_received = 0,
              up_completed = False, up_created_at = e_now env,
              up_expires_at = show_nat (now_plus_seconds env 600)\<rparr> in
        Inr ((drew s)\<lparr>s_uploads := s_uploads s @ [upload]\<rparr>, ArtifactUploadStarted upload, Upload upload)))"

fun upload_uuid :: "upload_id \<Rightarrow> uuid" where
  "upload_uuid (UploadId u) = u"

definition artifact_of_upload :: "env \<Rightarrow> artifact_upload_view \<Rightarrow> string \<Rightarrow> u64 \<Rightarrow> artifact_view" where
  "artifact_of_upload env upload digest upload_size =
     \<lparr>ar_id = ArtifactId (upload_uuid (up_id upload)), ar_mission_id = ups_mission_id (up_spec upload),
      ar_task_id = ups_task_id (up_spec upload), ar_upload_id = Some (up_id upload),
      ar_name = ups_name (up_spec upload), ar_mime_type = ups_mime_type (up_spec upload),
      ar_size = upload_size, ar_sha256 = digest, ar_pinned = False, ar_created_at = e_now env\<rparr>"

definition reduce_finalize_artifact_upload ::
    "env \<Rightarrow> world \<Rightarrow> upload_id \<Rightarrow> string \<Rightarrow> u64 \<Rightarrow> reduction" where
  "reduce_finalize_artifact_upload env s upload_id sha256 upload_size =
     (case find (\<lambda>u. up_id u = upload_id) (s_uploads s) of
        None \<Rightarrow> Inl NotFound
      | Some upload \<Rightarrow>
        if up_completed upload then Inl (InvalidTransition ''artifact upload is already complete'')
        else case parse_uint 128 (up_expires_at upload) of
          None \<Rightarrow> Inl (Validation ''artifact upload expiry metadata is invalid'')
        | Some expires_at \<Rightarrow>
          if expires_at \<le> e_epoch_seconds env
          then Inl (InvalidTransition ''artifact upload has expired; start a new upload'')
          else if ups_size (up_spec upload) \<noteq> upload_size
             \<or> \<not> eq_ignore_ascii_case sha256 (ups_sha256 (up_spec upload))
          then Inl (Validation ''artifact upload is incomplete or has the wrong digest'')
          else case e_upload_bytes env upload_id of
            Inl e \<Rightarrow> Inl (Store e)
          | Inr None \<Rightarrow> Inl (Validation ''artifact upload bytes are missing; retry the upload'')
          | Inr (Some bytes) \<Rightarrow>
            if of_nat (length bytes) \<noteq> upload_size
            then Inl (Validation ''artifact upload byte count does not match metadata'')
            else if \<not> eq_ignore_ascii_case (e_sha256 env bytes) (ups_sha256 (up_spec upload))
               \<or> \<not> eq_ignore_ascii_case (e_sha256 env bytes) sha256
            then Inl (Validation ''artifact upload digest verification failed'')
            else
             (let artifact = artifact_of_upload env upload (e_sha256 env bytes) upload_size;
                  s1 = s\<lparr>s_uploads := update_first (\<lambda>u. up_id u = upload_id)
                           (\<lambda>u. u\<lparr>up_received := of_nat (length bytes), up_completed := True\<rparr>) (s_uploads s)\<rparr>;
                  s2 = (if any (\<lambda>a. ar_id a = ar_id artifact) (s_artifacts s1) then s1
                        else s1\<lparr>s_artifacts := s_artifacts s1 @ [artifact]\<rparr>) in
              Inr (s2, ArtifactPublished artifact, ResultCreated (e_uuid_text env (upload_uuid upload_id)))))"

section \<open>Memory\<close>

definition check_memory_path :: "env \<Rightarrow> world \<Rightarrow> agent_id \<Rightarrow> actor_ref \<Rightarrow> unit orch_result" where
  "check_memory_path env s agent_id actor =
     (if \<not> any (\<lambda>a. a_id a = agent_id) (s_agents s) then Inl NotFound
      else if ac_kind actor = actor_kind.Agent \<and> actor_agent env actor \<noteq> Some agent_id
      then Inl Forbidden else Inr ())"

definition reduce_propose_memory ::
    "env \<Rightarrow> world \<Rightarrow> agent_id \<Rightarrow> string \<Rightarrow> string \<Rightarrow> actor_ref \<Rightarrow> reduction" where
  "reduce_propose_memory env s agent_id path content actor =
     (if MAX_MESSAGE_BODY_BYTES < length content \<or> contains_str path ''..'' \<or> \<not> ends_with path ''memory.md''
      then Inl (Validation ''memory proposal path or size is invalid'')
      else case check_memory_path env s agent_id actor of
        Inl e \<Rightarrow> Inl e
      | Inr _ \<Rightarrow>
        (case e_memory_encode env agent_id path content of
           Inl e \<Rightarrow> Inl (Validation e)
         | Inr resource \<Rightarrow>
           (let operation = queued_operation env operation_kind.WriteMemory (next_uuid env s) resource ''queued'' in
            Inr ((drew s)\<lparr>s_operations := s_operations s @ [operation]\<rparr>, OperationChanged operation,
                 Operation operation))))"

definition reduce_read_memory :: "env \<Rightarrow> world \<Rightarrow> agent_id \<Rightarrow> string \<Rightarrow> actor_ref \<Rightarrow> reduction" where
  "reduce_read_memory env s agent_id path actor =
     (if contains_str path ''..'' \<or> \<not> ends_with path ''memory.md''
      then Inl (Validation ''memory path is invalid'')
      else case check_memory_path env s agent_id actor of
        Inl e \<Rightarrow> Inl e
      | Inr _ \<Rightarrow>
        (case e_memory_read env agent_id path of
           Inl e \<Rightarrow> Inl (Validation e)
         | Inr content \<Rightarrow>
             Inr (s, MemoryRead agent_id path,
                  Memory path (case content of None \<Rightarrow> [] | Some c \<Rightarrow> c))))"

end
