(* ===== verification/BoardInvariants.thy ===== *)
theory BoardInvariants
  imports TaskInvariants Messages
begin

text \<open>
  Every command handler keeps \<open>world_ok\<close>. Most are calm; the lemmas for the others
  (creation, patching, offers, questions, publishing) show what they add to the tables.
\<close>

section \<open>Task handlers\<close>

lemma tame_intro:
  "kin t' = kin t \<Longrightarrow> t_status t' \<noteq> task_status.Running \<or> t_assigned_agent t' \<noteq> None \<or>
     (t_status t' = t_status t \<and> t_assigned_agent t' = t_assigned_agent t) \<Longrightarrow>
   t_rework_limit t' = t_rework_limit t \<Longrightarrow> t_rework_count t' = t_rework_count t \<Longrightarrow> tame t t'"
  by (auto simp: tame_def task_ok_def rework_limit_of_def)

lemmas kin_defs = kin_def task_shape_def

lemma tame_claim: "tame t (claim_edit now a src t)"
  by (rule tame_intro) (simp_all add: kin_defs claim_edit_def)

lemma tame_release: "t_status t \<noteq> task_status.Running \<Longrightarrow> tame t (release_edit t)"
  by (rule tame_intro) (simp_all add: kin_defs release_edit_def)

lemma calm_agents: "calm s (s\<lparr>s_agents := x\<rparr>)"
  by (simp add: calm_def)

lemma assign_task_calm: "assign_task env s i a src k actor = Inr s' \<Longrightarrow> calm s s'"
proof -
  assume "assign_task env s i a src k actor = Inr s'"
  then obtain x b where s': "s' = feed env ((revoke_grants (\<lambda>g. gv_task_id g = i \<and> gv_agent_id g \<noteq> a)
      (edit_task i (claim_edit (e_now env) a src) s))\<lparr>s_agents := x\<rparr>) i actor k b"
    by (auto simp: assign_task_def Let_def split: sum.splits)
  have "calm s (edit_task i (claim_edit (e_now env) a src) s)"
    by (rule calm_edit_task) (rule tame_claim)
  from this calm_revoke have "calm s (revoke_grants (\<lambda>g. gv_task_id g = i \<and> gv_agent_id g \<noteq> a)
      (edit_task i (claim_edit (e_now env) a src) s))" by (rule calm_trans)
  from calm_trans [OF calm_trans [OF this calm_agents] calm_feed] show ?thesis
    unfolding s' .
qed

lemma reduce_release_task_calm: "reduce_release_task env s i actor = Inr (s', ev, res) \<Longrightarrow> calm s s'"
  by (auto simp: reduce_release_task_def Let_def intro!: calm_edit_feed tame_intro
      simp: kin_defs split: option.splits if_splits)

lemma reduce_add_task_comment_calm:
  "reduce_add_task_comment env s i b as actor = Inr (s', ev, res) \<Longrightarrow> calm s s'"
  by (auto simp: reduce_add_task_comment_def append_task_feed_def Let_def calm_def
      split: option.splits if_splits)

lemma accept_with_worktree_calm:
  "accept_with_worktree env s task w = Inr (s', ev, res) \<Longrightarrow> calm s s'"
  by (auto simp: accept_with_worktree_def Let_def calm_def split: if_splits)

lemma reduce_task_accept_calm:
  assumes "reduce_task_accept env s i actor = Inr (s', ev, res)"
  shows "calm s s'"
proof -
  from assms obtain task where t: "find_task i (s_tasks s) = Some task"
    and c: "check_task_accept env s task actor = Inr ()"
    by (auto simp: reduce_task_accept_def split: option.splits sum.splits)
  show ?thesis
  proof (cases "t_worktree task")
    case (Some w)
    with assms t c show ?thesis by (simp add: reduce_task_accept_def accept_with_worktree_calm)
  next
    case None
    let ?s2 = "feed env (edit_task i (\<lambda>t. t\<lparr>t_status := task_status.Done\<rparr>) s) i actor
      task_feed_kind.StatusChanged ''Task accepted and marked done''"
    from assms t c None have s': "s' = settle_review env (update_parent_child_locks env
        (update_dependency_locks env ?s2 i actor task_status.Done) i actor) i review_work_item_status.Approved"
      by (auto simp: reduce_task_accept_def Let_def)
    have "calm s ?s2" by (rule calm_edit_feed) (simp add: tame_status)
    also have "calm ?s2 (update_dependency_locks env ?s2 i actor task_status.Done)" by (rule calm_dependency_locks)
    also have "calm \<dots> (update_parent_child_locks env \<dots> i actor)" by (rule calm_parent_locks)
    also have "calm \<dots> s'" unfolding s' by (rule calm_settle)
    finally show ?thesis .
  qed
qed

lemma calm_review_items: "calm s (s\<lparr>s_review_items := x\<rparr>)"
  by (simp add: calm_def)

lemma reduce_decide_review_calm:
  assumes "reduce_decide_review env s i d r actor = Inr (s', ev, res)"
  shows "calm s s'"
  using assms unfolding reduce_decide_review_def Let_def
  by (auto split: if_splits option.splits sum.splits prod.splits review_decision.splits
      dest!: reduce_task_accept_calm reduce_set_task_status_calm
      intro: calm_trans [OF _ calm_review_items])

section \<open>Creation\<close>

text \<open>Adding a task under a drawn id keeps the board.\<close>

lemma task_id_fresh:
  assumes "inj uu" "task_ids tasks \<subseteq> TaskId ` uu ` {..<n}" "n \<le> m"
  shows "TaskId (uu (m :: nat)) \<notin> task_ids tasks"
proof
  assume "TaskId (uu m) \<in> task_ids tasks"
  with assms(2) obtain k where "k < n" "uu m = uu k" by auto
  from injD [OF assms(1) this(2)] \<open>k < n\<close> assms(3) show False by linarith
qed

lemma set_add_child [simp]: "set (add_child env i cs) = insert i (set cs)"
  by (simp add: add_child_def)

lemma family_ok_append_orphan:
  assumes "family_ok tasks" "t_id c \<notin> task_ids tasks" "t_parent_task_id c = None" "t_child_task_ids c = []"
  shows "family_ok (tasks @ [c])"
proof -
  have "{(t_id t, p) | t p. t \<in> set (tasks @ [c]) \<and> t_parent_task_id t = Some p} =
      {(t_id t, p) | t p. t \<in> set tasks \<and> t_parent_task_id t = Some p}"
    using assms(3) by auto
  with assms show ?thesis unfolding family_ok_def by fastforce
qed

text \<open>The parent gains the child, the child is appended.\<close>

lemma family_ok_append_child:
  assumes ok: "family_ok tasks" and dist: "distinct (map t_id tasks)"
    and new: "t_id c \<notin> task_ids tasks" "t_child_task_ids c = []"
    and p: "find_task p tasks = Some u" "t_parent_task_id c = Some p" "t_mission_id u = t_mission_id c"
    and f: "\<And>t. family_of (f t) = (t_id t, t_mission_id t, t_parent_task_id t, insert (t_id c) (set (t_child_task_ids t)))"
  shows "family_ok (update_first (\<lambda>t. t_id t = p) f tasks @ [c])"
proof -
  let ?new = "update_first (\<lambda>t. t_id t = p) f tasks"
  have u: "u \<in> set tasks" "t_id u = p" using find_task_SomeD [OF p(1)] by auto
  have ff: "t_id (f t) = t_id t" "t_mission_id (f t) = t_mission_id t"
    "t_parent_task_id (f t) = t_parent_task_id t"
    "set (t_child_task_ids (f t)) = insert (t_id c) (set (t_child_task_ids t))" for t
    using f [of t] by (simp_all add: family_of_def)
  have set: "set ?new = insert (f u) {x \<in> set tasks. t_id x \<noteq> p}"
    using dist p(1) by (induction tasks) (auto simp: find_task_def image_iff)
  have same: "x = u" if "x \<in> set tasks" "t_id x = p" for x
    using find_task_mem [OF dist that(1)] that(2) p(1) by simp
  have lift: "\<exists>x' \<in> set ?new. t_id x' = t_id x \<and> t_mission_id x' = t_mission_id x \<and>
      t_parent_task_id x' = t_parent_task_id x \<and> set (t_child_task_ids x) \<subseteq> set (t_child_task_ids x')"
    if "x \<in> set tasks" for x
    using that same [OF that] set ff by (cases "t_id x = p") auto
  have unlift: "\<exists>x \<in> set tasks. t_id x = t_id x' \<and> t_mission_id x = t_mission_id x' \<and>
      t_parent_task_id x = t_parent_task_id x' \<and>
      set (t_child_task_ids x') \<subseteq> set (t_child_task_ids x) \<union> (if t_id x = p then {t_id c} else {})"
    if "x' \<in> set ?new" for x'
    using that set u ff by auto
  have parents: "{(t_id t, q) | t q. t \<in> set (?new @ [c]) \<and> t_parent_task_id t = Some q} =
      {(t_id t, q) | t q. t \<in> set tasks \<and> t_parent_task_id t = Some q} \<union> {t_id c} \<times> {p}"
    using lift unlift p(2) by (auto; metis)
  have up: "\<exists>v \<in> set (?new @ [c]). t_id v = q \<and> t_mission_id v = t_mission_id t \<and> t_id t \<in> set (t_child_task_ids v)"
    if t: "t \<in> set (?new @ [c])" "t_parent_task_id t = Some q" for t q
  proof (cases "t = c")
    case True
    with t p(2,3) u ff set show ?thesis by auto
  next
    case False
    with t(1) have "t \<in> set ?new" by simp
    from unlift [OF this] t(2) obtain x where x: "x \<in> set tasks" "t_id x = t_id t"
      "t_mission_id x = t_mission_id t" "t_parent_task_id x = Some q" by auto
    with ok obtain v where "v \<in> set tasks" "t_id v = q" "t_mission_id v = t_mission_id x"
      "t_id x \<in> set (t_child_task_ids v)" unfolding family_ok_def by blast
    with lift [of v] x show ?thesis by fastforce
  qed
  have down: "\<exists>t \<in> set (?new @ [c]). t_id t = d \<and> t_parent_task_id t = Some (t_id v)"
    if v: "v \<in> set (?new @ [c])" "d \<in> set (t_child_task_ids v)" for v d
  proof -
    from v new(2) have "v \<in> set ?new" by auto
    from unlift [OF this] v(2) obtain x where x: "x \<in> set tasks" "t_id x = t_id v"
      "d \<in> set (t_child_task_ids x) \<or> (t_id x = p \<and> d = t_id c)"
      by (auto split: if_splits)
    show ?thesis
    proof (cases "d \<in> set (t_child_task_ids x)")
      case True
      with ok x(1) obtain t where "t \<in> set tasks" "t_id t = d" "t_parent_task_id t = Some (t_id x)"
        unfolding family_ok_def by blast
      with lift [of t] x(2) show ?thesis by fastforce
    next
      case False
      with x p(2) show ?thesis by auto
    qed
  qed
  have "acyclic ({(t_id t, q) | t q. t \<in> set tasks \<and> t_parent_task_id t = Some q} \<union> {t_id c} \<times> {p})"
  proof (rule acyclic_insert_node)
    show "(x, t_id c) \<notin> {(t_id t, q) | t q. t \<in> set tasks \<and> t_parent_task_id t = Some q}" for x
    proof
      assume "(x, t_id c) \<in> {(t_id t, q) | t q. t \<in> set tasks \<and> t_parent_task_id t = Some q}"
      with ok obtain v where "v \<in> set tasks" "t_id v = t_id c" unfolding family_ok_def by blast
      with new(1) show False by (metis image_eqI list.set_map task_ids_def)
    qed
    show "t_id c \<notin> {p}" using new(1) u by (auto simp: task_ids_def)
  qed (use ok in \<open>simp add: family_ok_def\<close>)
  with parents up down show ?thesis unfolding family_ok_def by simp
qed

lemma board_append:
  assumes "board_ok tasks" "t_id c \<notin> task_ids tasks" "task_ok c"
    and "\<forall>d \<in> set (t_dependencies c). \<exists>u \<in> set tasks. t_id u = d \<and> t_mission_id u = t_mission_id c"
    and "t_parent_task_id c = None" "t_child_task_ids c = []"
  shows "board_ok (tasks @ [c])"
  using assms task_dag_append family_ok_append_orphan by (auto simp: board_ok_def)

lemma task_dag_edit_append:
  assumes "task_dag tasks" "t_id c \<notin> task_ids tasks"
    and "\<forall>d \<in> set (t_dependencies c). \<exists>u \<in> set tasks. t_id u = d \<and> t_mission_id u = t_mission_id c"
    and "\<And>t. task_shape (f t) = task_shape t"
  shows "task_dag (update_first p f tasks @ [c])"
proof (rule task_dag_append)
  have shape: "map task_shape (update_first p f tasks) = map task_shape tasks"
    using assms(4) by simp
  show "task_dag (update_first p f tasks)" using task_dag_shape [OF shape] assms(1) by simp
  show "t_id c \<notin> task_ids (update_first p f tasks)"
    using assms(2) task_shape_structure(1) [OF shape] by (simp add: task_ids_def)
  have sh: "task_shape ` set (update_first p f tasks) = task_shape ` set tasks"
    using shape by (metis list.set_map)
  have lift: "\<exists>u' \<in> set (update_first p f tasks). task_shape u' = task_shape u" if "u \<in> set tasks" for u
  proof -
    from that have "task_shape u \<in> task_shape ` set (update_first p f tasks)" by (simp add: sh)
    then show ?thesis by auto
  qed
  show "\<forall>d \<in> set (t_dependencies c). \<exists>u \<in> set (update_first p f tasks).
      t_id u = d \<and> t_mission_id u = t_mission_id c"
  proof
    fix d assume "d \<in> set (t_dependencies c)"
    with assms(3) obtain u where u: "u \<in> set tasks" "t_id u = d" "t_mission_id u = t_mission_id c" by blast
    with lift [OF u(1)] show "\<exists>u \<in> set (update_first p f tasks). t_id u = d \<and> t_mission_id u = t_mission_id c"
      by (auto simp: task_shape_def)
  qed
qed

text \<open>A child appended to a parent that records it.\<close>

lemma board_append_child:
  assumes ok: "board_ok tasks" and new: "t_id c \<notin> task_ids tasks" "task_ok c" "t_child_task_ids c = []"
    and deps: "\<forall>d \<in> set (t_dependencies c). \<exists>u \<in> set tasks. t_id u = d \<and> t_mission_id u = t_mission_id c"
    and p: "find_task p tasks = Some u" "t_parent_task_id c = Some p" "t_mission_id u = t_mission_id c"
    and f: "\<And>t. task_shape (f t) = task_shape t" "\<And>t. task_ok t \<Longrightarrow> task_ok (f t)"
      "\<And>t. set (t_child_task_ids (f t)) = insert (t_id c) (set (t_child_task_ids t))"
  shows "board_ok (update_first (\<lambda>t. t_id t = p) f tasks @ [c])"
proof -
  have "distinct (map t_id tasks)" using ok by (simp add: board_ok_def task_dag_def)
  moreover have "family_of (f t) = (t_id t, t_mission_id t, t_parent_task_id t,
      insert (t_id c) (set (t_child_task_ids t)))" for t
    using f(1,3) [of t] by (simp add: family_of_def task_shape_def)
  ultimately have "family_ok (update_first (\<lambda>t. t_id t = p) f tasks @ [c])"
    using ok new p family_ok_append_child by (simp add: board_ok_def)
  moreover have "task_dag (update_first (\<lambda>t. t_id t = p) f tasks @ [c])"
    using ok new(1) deps f(1) by (intro task_dag_edit_append) (simp_all add: board_ok_def)
  moreover have "task_ok t" if "t \<in> set (update_first (\<lambda>t. t_id t = p) f tasks @ [c])" for t
    using that ok new(2) f(2) by (auto simp: board_ok_def dest!: set_update_first find_SomeD)
  ultimately show ?thesis by (simp add: board_ok_def)
qed

lemma board_ok_cong:
  assumes "map task_shape tasks' = map task_shape tasks" "map family_of tasks' = map family_of tasks"
    "board_ok tasks" "\<forall>t \<in> set tasks'. task_ok t"
  shows "board_ok tasks'"
  using assms task_dag_shape [OF assms(1)] family_ok_cong [OF assms(2)] by (simp add: board_ok_def)

lemma map_mem_lift:
  "map h xs = map h ys \<Longrightarrow> y \<in> set ys \<Longrightarrow> \<exists>x \<in> set xs. h x = h y"
  using list.set_map [of h xs] list.set_map [of h ys] by (metis imageE image_eqI)

lemma find_append:
  "find p (xs @ ys) = (case find p xs of None \<Rightarrow> find p ys | Some x \<Rightarrow> Some x)"
  by (induction xs) auto

lemma update_first_append:
  "find p xs = Some x \<Longrightarrow> update_first p f (xs @ ys) = update_first p f xs @ ys"
  by (induction xs) (auto split: if_splits)

lemma update_first_twice:
  assumes "\<And>x. p x \<Longrightarrow> p (f x)"
  shows "update_first p g (update_first p f xs) = update_first p (\<lambda>x. g (f x)) xs"
  using assms by (induction xs) auto

lemma map_update_first_cong:
  assumes "\<And>x. h (f x) = h (g x)"
  shows "map h (update_first p f xs) = map h (update_first p g xs)"
  using assms by (induction xs) auto

text \<open>Several children at once, as a fan-out adds them.\<close>

lemma board_append_children:
  assumes ok: "board_ok tasks" and p: "find_task p tasks = Some u"
    and cs: "distinct (map t_id cs)" "\<forall>c \<in> set cs. t_id c \<notin> task_ids tasks \<and> task_ok c \<and>
        t_child_task_ids c = [] \<and> t_parent_task_id c = Some p \<and> t_mission_id c = t_mission_id u \<and>
        (\<forall>d \<in> set (t_dependencies c). \<exists>v \<in> set tasks. t_id v = d \<and> t_mission_id v = t_mission_id c)"
    and f: "\<And>t. task_shape (f t) = task_shape t" "\<And>t. task_ok t \<Longrightarrow> task_ok (f t)"
      "\<And>t. set (t_child_task_ids (f t)) = set (t_child_task_ids t) \<union> t_id ` set cs"
  shows "board_ok (update_first (\<lambda>t. t_id t = p) f tasks @ cs)"
  using cs f
proof (induction cs arbitrary: f rule: rev_induct)
  case Nil
  have "map task_shape (update_first (\<lambda>t. t_id t = p) f tasks) = map task_shape tasks"
    using Nil.prems(3) by simp
  moreover have "family_of (f t) = family_of t" for t
    using Nil.prems(3,5) [of t] by (simp add: family_of_def task_shape_def)
  then have "map family_of (update_first (\<lambda>t. t_id t = p) f tasks) = map family_of tasks" by simp
  moreover have "\<forall>t \<in> set (update_first (\<lambda>t. t_id t = p) f tasks). task_ok t"
    using ok Nil.prems(4) by (auto simp: board_ok_def dest!: set_update_first find_SomeD)
  ultimately show ?case using ok board_ok_cong by simp
next
  case (snoc c cs)
  let ?P = "\<lambda>t. t_id t = p"
  let ?f0 = "\<lambda>t. (f t)\<lparr>t_child_task_ids := t_child_task_ids t @ map t_id cs\<rparr>"
  let ?g = "\<lambda>t. t\<lparr>t_child_task_ids := t_id c # t_child_task_ids t\<rparr>"
  let ?L = "update_first ?P ?f0 tasks @ cs"
  have fid: "t_id (f t) = t_id t" for t using snoc.prems(3) [of t] by (simp add: task_shape_def)
  have ok0: "board_ok ?L"
  proof (rule snoc.IH)
    show "task_ok (?f0 t)" if "task_ok t" for t
      using snoc.prems(4) [OF that] by (auto simp: task_ok_def rework_limit_of_def split: if_splits)
  qed (use snoc.prems in \<open>auto simp: task_shape_def\<close>)
  have ids: "task_ids ?L = task_ids tasks \<union> t_id ` set cs"
  proof -
    have "map t_id (update_first ?P ?f0 tasks) = map t_id tasks" by (simp add: fid)
    then show ?thesis by (simp add: task_ids_def)
  qed
  have find0: "find_task p ?L = Some (?f0 u)"
  proof -
    have "find ?P (update_first ?P ?f0 ts) = map_option ?f0 (find ?P ts)" for ts
      by (induction ts) (auto simp: fid)
    then show ?thesis using p by (simp add: find_task_def find_append)
  qed
  have deps: "\<forall>d \<in> set (t_dependencies c). \<exists>v \<in> set ?L. t_id v = d \<and> t_mission_id v = t_mission_id c"
  proof
    fix d assume "d \<in> set (t_dependencies c)"
    with snoc.prems(2) obtain v where v: "v \<in> set tasks" "t_id v = d" "t_mission_id v = t_mission_id c"
      by auto
    have "map task_shape (update_first ?P ?f0 tasks) = map task_shape tasks"
      using snoc.prems(3) by (simp add: task_shape_def)
    from map_mem_lift [OF this v(1)] show "\<exists>v \<in> set ?L. t_id v = d \<and> t_mission_id v = t_mission_id c"
      using v by (auto simp: task_shape_def)
  qed
  have "board_ok (update_first ?P ?g ?L @ [c])"
  proof (rule board_append_child [OF ok0, of c p "?f0 u"])
    show "t_id c \<notin> task_ids ?L" using snoc.prems(1,2) ids by auto
    show "t_mission_id (?f0 u) = t_mission_id c"
      using snoc.prems(2) snoc.prems(3) [of u] by (simp add: task_shape_def)
  qed (use snoc.prems find0 deps in \<open>auto simp: task_shape_def task_ok_def rework_limit_of_def\<close>)
  moreover have "update_first ?P ?g ?L = update_first ?P (\<lambda>t. ?g (?f0 t)) tasks @ cs"
  proof -
    have "find ?P (update_first ?P ?f0 tasks) = Some (?f0 u)"
      using p by (induction tasks) (auto simp: find_task_def fid split: if_splits)
    from update_first_append [OF this] update_first_twice [of ?P ?f0 ?g tasks] show ?thesis
      by (simp add: fid)
  qed
  ultimately have b: "board_ok (update_first ?P (\<lambda>t. ?g (?f0 t)) tasks @ cs @ [c])" by simp
  have fam: "family_of (f t) = family_of (?g (?f0 t))" for t
    using snoc.prems(5) [of t] by (auto simp: family_of_def)
  have sh: "task_shape (f t) = task_shape (?g (?f0 t))" for t by (simp add: task_shape_def)
  have "\<forall>t \<in> set (update_first ?P f tasks @ cs @ [c]). task_ok t"
    using ok snoc.prems(2,4) by (auto simp: board_ok_def dest!: set_update_first find_SomeD)
  with b show ?case
    by (intro board_ok_cong [OF _ _ b])
      (simp_all add: map_update_first_cong [where f = f, OF fam] map_update_first_cong [where f = f, OF sh])
qed


section \<open>Handlers that add or replace tasks\<close>

lemma world_ok_tasks:
  assumes "world_ok uu s" "board_ok (s_tasks s')" "task_ids (s_tasks s') \<subseteq> TaskId ` uu ` {..<w_drawn s'}"
    "s_task_feed s' = s_task_feed s" "s_human_inputs s' = s_human_inputs s"
    "s_work_offers s' = s_work_offers s" "s_organization s' = s_organization s"
  shows "world_ok uu s'"
  using assms by (simp add: world_ok_def pending_inputs_def open_offers_def)

lemma world_ok_board: "world_ok uu s \<Longrightarrow> board_ok (s_tasks s)"
  by (simp add: world_ok_def)

lemma world_ok_dag: "world_ok uu s \<Longrightarrow> task_dag (s_tasks s)"
  by (simp add: world_ok_def board_ok_def)

lemma world_ok_ids: "world_ok uu s \<Longrightarrow> task_ids (s_tasks s) \<subseteq> TaskId ` uu ` {..<w_drawn s}"
  by (simp add: world_ok_def)

lemma world_ok_feed: "world_ok uu s \<Longrightarrow> world_ok uu (feed env s i actor k b)"
  using calm_world_ok [OF calm_feed] .

lemma next_task_fresh:
  assumes "inj uu" "e_uuid env = uu" "world_ok uu s"
  shows "TaskId (next_uuid env s) \<notin> task_ids (s_tasks s)"
  using task_id_fresh [OF assms(1) world_ok_ids [OF assms(3)] order_refl] assms(2)
  by (simp add: next_uuid_def)

lemma task_ids_simps [simp]:
  "task_ids (xs @ ys) = task_ids xs \<union> task_ids ys" "task_ids [] = {}"
  "task_ids (t # ts) = insert (t_id t) (task_ids ts)"
  by (auto simp: task_ids_def)

lemma task_ids_update:
  "(\<And>t. t_id (f t) = t_id t) \<Longrightarrow> task_ids (update_first p f ts) = task_ids ts"
  unfolding task_ids_def by simp

lemma drawn_insert:
  "A \<subseteq> TaskId ` uu ` {..<n} \<Longrightarrow> insert (TaskId (uu n)) A \<subseteq> TaskId ` uu ` {..<Suc n}"
  by (auto simp: lessThan_Suc)

lemma task_ok_fresh: "t_status t \<noteq> task_status.Running \<Longrightarrow> t_rework_count t = 0 \<Longrightarrow> task_ok t"
  by (simp add: task_ok_def)

lemma validated_deps:
  assumes "validate_task_view c tasks = Inr ()"
  shows "\<forall>d \<in> set (t_dependencies c). \<exists>u \<in> set tasks. t_id u = d \<and> t_mission_id u = t_mission_id c"
proof
  fix d assume d: "d \<in> set (t_dependencies c)"
  with validate_task_view_ok(1) [OF assms] obtain u where "u \<in> set tasks" "t_id u = d"
    by (auto simp: task_ids_def)
  with validate_task_view_ok(2) [OF assms] d show "\<exists>u \<in> set tasks. t_id u = d \<and> t_mission_id u = t_mission_id c"
    by blast
qed

text \<open>The step CreateTask and CreateWorkItem share: the parent, if any, gains the child and is
  blocked, and the task is appended.\<close>

definition block_on :: "env \<Rightarrow> task_id \<Rightarrow> task_view \<Rightarrow> task_view" where
  "block_on env i p = p\<lparr>t_child_task_ids := add_child env i (t_child_task_ids p), t_status := task_status.Blocked\<rparr>"

lemma world_ok_new_task:
  assumes w: "world_ok uu s" and uu: "inj uu" "e_uuid env = uu"
    and c: "t_id c = TaskId (next_uuid env s)" "task_ok c" "t_child_task_ids c = []"
    and deps: "\<forall>d \<in> set (t_dependencies c). \<exists>u \<in> set (s_tasks s). t_id u = d \<and> t_mission_id u = t_mission_id c"
    and link: "case t_parent_task_id c of None \<Rightarrow> s2 = drew s
      | Some p \<Rightarrow> s2 = edit_task p (block_on env (t_id c)) (drew s) \<and>
          (\<exists>u. find_task p (s_tasks s) = Some u \<and> t_mission_id u = t_mission_id c)"
  shows "world_ok uu (s2\<lparr>s_tasks := s_tasks s2 @ [c]\<rparr>)"
proof -
  have fresh: "t_id c \<notin> task_ids (s_tasks s)" using next_task_fresh [OF uu w] c(1) by simp
  have "board_ok (s_tasks s2 @ [c])"
  proof (cases "t_parent_task_id c")
    case None
    with link board_append [OF world_ok_board [OF w] fresh c(2) deps None c(3)] show ?thesis by simp
  next
    case (Some p)
    with link obtain u where u: "find_task p (s_tasks s) = Some u" "t_mission_id u = t_mission_id c"
      and s2: "s2 = edit_task p (block_on env (t_id c)) (drew s)" by auto
    have "board_ok (update_first (\<lambda>t. t_id t = p) (block_on env (t_id c)) (s_tasks s) @ [c])"
      by (rule board_append_child [OF world_ok_board [OF w] fresh c(2,3) deps u(1) Some u(2)])
        (simp_all add: block_on_def task_shape_def task_ok_def rework_limit_of_def split: if_splits)
    then show ?thesis by (simp add: s2)
  qed
  moreover have "task_ids (s_tasks s2) = task_ids (s_tasks s)" "w_drawn s2 = Suc (w_drawn s)"
    using link by (auto simp: task_ids_update block_on_def split: option.splits)
  moreover have "t_id c = TaskId (uu (w_drawn s))" using c(1) uu(2) by (simp add: next_uuid_def)
  moreover have "s_task_feed s2 = s_task_feed s" "s_human_inputs s2 = s_human_inputs s"
    "s_work_offers s2 = s_work_offers s" "s_organization s2 = s_organization s"
    using link by (auto split: option.splits)
  ultimately show ?thesis
    using drawn_insert [OF world_ok_ids [OF w]] by (intro world_ok_tasks [OF w]) simp_all
qed


lemma reduce_create_task_ok:
  assumes r: "reduce_create_task env s spec actor = Inr (s', ev, res)"
    and w: "world_ok uu s" and uu: "inj uu" "e_uuid env = uu"
  shows "world_ok uu s'"
proof -
  let ?c = "new_task env s spec (TaskId (next_uuid env s))"
  from r obtain s2 where chk: "check_create_task s spec = Inr ()"
    and link: "link_parent env (drew s) ?c = Inr s2"
    and s': "s' = feed env (s2\<lparr>s_tasks := s_tasks s2 @ [?c]\<rparr>) (t_id ?c) actor
        task_feed_kind.Created (''Task created: '' @ t_title ?c)"
    by (auto simp: reduce_create_task_def Let_def new_task_def split: sum.splits)
  have spec: "validate_task_spec spec (s_tasks s) = Inr ()"
    using chk by (auto simp: check_create_task_def split: option.splits if_splits)
  have "case t_parent_task_id ?c of None \<Rightarrow> s2 = drew s
      | Some p \<Rightarrow> s2 = edit_task p (block_on env (t_id ?c)) (drew s) \<and>
          (\<exists>u. find_task p (s_tasks s) = Some u \<and> t_mission_id u = t_mission_id ?c)"
  proof (cases "t_parent_task_id ?c")
    case (Some p)
    with link obtain u where u: "find_task p (s_tasks s) = Some u"
      "s2 = edit_task p (block_on env (t_id ?c)) (drew s)"
      by (auto simp: link_parent_def block_on_def [abs_def] split: option.splits if_splits)
    moreover have "t_mission_id u = t_mission_id ?c"
    proof -
      have "t_parent_task_id (task_candidate spec) = Some p" using Some by (simp add: new_task_def)
      from validate_parent_link_ok [OF validate_task_view_ok(5) [OF validate_task_spec_ok(2) [OF spec]] this]
      obtain v where "v \<in> set (s_tasks s)" "t_id v = p" "t_mission_id v = t_mission_id (task_candidate spec)"
        by blast
      moreover have "distinct (map t_id (s_tasks s))" using world_ok_dag [OF w] by (simp add: task_dag_def)
      ultimately show ?thesis using u(1) find_task_mem [of "s_tasks s" v] by (simp add: new_task_def)
    qed
    ultimately show ?thesis using Some by simp
  qed (use link in \<open>simp add: link_parent_def\<close>)
  moreover have "task_ok ?c" "t_child_task_ids ?c = []" "t_dependencies ?c = ts_dependencies spec"
    "t_mission_id ?c = ts_mission_id spec" "t_id ?c = TaskId (next_uuid env s)"
    by (simp_all add: new_task_def task_candidate_def task_ok_def)
  ultimately show ?thesis unfolding s'
    using validate_task_spec_ok(1) [OF spec]
    by (intro world_ok_feed world_ok_new_task [OF w uu]) simp_all
qed

text \<open>What \<open>create_work_item\<close> promises its two callers.\<close>

lemma create_work_item_ok:
  assumes "create_work_item env s spec = Inr (s1, c)"
  shows "s1 = drew s" "t_id c = TaskId (next_uuid env s)" "task_ok c" "t_child_task_ids c = []"
    "t_parent_task_id c = ws_parent_task_id spec" "t_mission_id c = work_item_mission s spec"
    "\<forall>d \<in> set (t_dependencies c). \<exists>u \<in> set (s_tasks s). t_id u = d \<and> t_mission_id u = t_mission_id c"
    "\<forall>p. ws_parent_task_id spec = Some p \<longrightarrow>
       (\<exists>u. find_task p (s_tasks s) = Some u \<and> t_mission_id u = t_mission_id c \<and> t_parent_task_id u = None)"
proof -
  from assms obtain r where c: "s1 = drew s" "c = work_item_task env s spec r (TaskId (next_uuid env s))"
    and v: "validate_task_view c (s_tasks s) = Inr ()" and p: "check_work_item_parent s spec = Inr ()"
    by (auto simp: create_work_item_def Let_def split: option.splits sum.splits if_splits)
  show "s1 = drew s" "t_id c = TaskId (next_uuid env s)" "task_ok c" "t_child_task_ids c = []"
    "t_parent_task_id c = ws_parent_task_id spec" "t_mission_id c = work_item_mission s spec"
    using c by (simp_all add: work_item_task_def task_ok_def)
  show "\<forall>d \<in> set (t_dependencies c). \<exists>u \<in> set (s_tasks s). t_id u = d \<and> t_mission_id u = t_mission_id c"
    using validated_deps [OF v] .
  show "\<forall>p. ws_parent_task_id spec = Some p \<longrightarrow>
       (\<exists>u. find_task p (s_tasks s) = Some u \<and> t_mission_id u = t_mission_id c \<and> t_parent_task_id u = None)"
    using p c(2) by (auto simp: check_work_item_parent_def work_item_task_def work_item_mission_def
        split: option.splits if_splits)
qed

lemma reduce_create_work_item_ok:
  assumes r: "reduce_create_work_item env s spec actor = Inr (s', ev, res)"
    and w: "world_ok uu s" and uu: "inj uu" "e_uuid env = uu"
  shows "world_ok uu s'"
proof -
  from r obtain s1 c s2 where cw: "create_work_item env s spec = Inr (s1, c)"
    and link: "case t_parent_task_id c of None \<Rightarrow> s2 = s1
       | Some p \<Rightarrow> s2 = edit_task p (block_on env (t_id c)) s1"
    and s': "s' = feed env (s2\<lparr>s_tasks := s_tasks s2 @ [c]\<rparr>) (t_id c) actor task_feed_kind.Created
        (''Work item created: '' @ t_title c)"
    by (auto simp: reduce_create_work_item_def block_on_def [abs_def] Let_def
        split: sum.splits option.splits)
  note ok = create_work_item_ok [OF cw]
  have "case t_parent_task_id c of None \<Rightarrow> s2 = drew s
      | Some p \<Rightarrow> s2 = edit_task p (block_on env (t_id c)) (drew s) \<and>
          (\<exists>u. find_task p (s_tasks s) = Some u \<and> t_mission_id u = t_mission_id c)"
    using link ok(1,5,8) by (auto split: option.splits)
  then show ?thesis unfolding s'
    using ok by (intro world_ok_feed world_ok_new_task [OF w uu]) simp_all
qed


lemma relock_candidate_ok:
  assumes "relock_candidate tasks existing c = Inr c'"
  shows "\<exists>st. c' = c\<lparr>t_status := st\<rparr> \<and> (st = t_status c \<or> st = task_status.Ready \<or> st = task_status.Blocked)"
proof -
  from assms have "c' = c \<or> c' = c\<lparr>t_status := task_status.Ready\<rparr> \<or> c' = c\<lparr>t_status := task_status.Blocked\<rparr>"
    by (auto simp: relock_candidate_def split: if_splits)
  then show ?thesis by (elim disjE) (auto intro: exI [of _ "t_status c"])
qed

lemma apply_task_patch_simps [simp]:
  "t_id (apply_task_patch t p) = t_id t" "t_mission_id (apply_task_patch t p) = t_mission_id t"
  "t_parent_task_id (apply_task_patch t p) = t_parent_task_id t"
  "t_child_task_ids (apply_task_patch t p) = t_child_task_ids t"
  "t_status (apply_task_patch t p) = t_status t" "t_rework_limit (apply_task_patch t p) = t_rework_limit t"
  "t_rework_count (apply_task_patch t p) = t_rework_count t"
  by (simp_all add: apply_task_patch_def)

lemma update_first_const_map:
  assumes "find p xs = Some x" "h y = h x"
  shows "map h (update_first p (\<lambda>_. y) xs) = map h xs"
  using assms by (induction xs) (auto split: if_splits)

lemma reduce_update_task_ok:
  assumes r: "reduce_update_task env s i patch actor = Inr (s', ev, res)" and w: "world_ok uu s"
  shows "world_ok uu s'"
proof -
  from r obtain t c where t: "find_task i (s_tasks s) = Some t"
    and chk: "check_update_task s t (apply_task_patch t patch) = Inr ()"
    and c: "relock_candidate (s_tasks s) t (apply_task_patch t patch) = Inr c"
    by (auto simp: reduce_update_task_def Let_def split: option.splits sum.splits)
  let ?p = "apply_task_patch t patch" and ?s1 = "edit_task i (\<lambda>_. c) s"
  let ?new = "update_first (\<lambda>x. t_id x = i) (\<lambda>_. c) (s_tasks s)"
  have v: "validate_task_view ?p (s_tasks s) = Inr ()" and a: "t_assigned_agent ?p = t_assigned_agent t"
    using chk by (auto simp: check_update_task_def split: if_splits sum.splits)
  from relock_candidate_ok [OF c] obtain st where st: "c = ?p\<lparr>t_status := st\<rparr>"
    "st = t_status t \<or> st = task_status.Ready \<or> st = task_status.Blocked" by auto
  have ti: "t \<in> set (s_tasks s)" "t_id t = i" using find_task_SomeD [OF t] by auto
  have f: "find (\<lambda>x. t_id x = i) (s_tasks s) = Some t" using t by (simp add: find_task_def)
  have "task_shape c = task_shape ?p" by (simp add: st task_shape_def)
  then have "map task_shape ?new = map task_shape (update_first (\<lambda>x. t_id x = i) (\<lambda>_. ?p) (s_tasks s))"
    using map_update_first_cong [of task_shape "\<lambda>_. c" "\<lambda>_. ?p"] by simp
  from task_dag_shape [OF this] task_dag_replace [OF world_ok_dag [OF w] t _ _ v]
  have dag: "task_dag ?new" using ti by simp
  have "map family_of ?new = map family_of (s_tasks s)"
    by (rule update_first_const_map [OF f]) (simp add: st family_of_def)
  from family_ok_cong [OF this] w have fam: "family_ok ?new" by (simp add: world_ok_def board_ok_def)
  have "task_ok t" using w ti by (simp add: world_ok_def board_ok_def)
  then have "task_ok c" using st a by (auto simp: task_ok_def rework_limit_of_def split: if_splits)
  then have "\<forall>x \<in> set ?new. task_ok x"
    using w by (auto simp: world_ok_def board_ok_def dest!: set_update_first)
  with dag fam have "board_ok (s_tasks ?s1)" by (simp add: board_ok_def)
  moreover have "map t_id ?new = map t_id (s_tasks s)"
    by (rule update_first_const_map [OF f]) (simp add: st)
  then have "task_ids (s_tasks ?s1) = task_ids (s_tasks s)" by (simp add: task_ids_def del: set_map)
  ultimately have s1: "world_ok uu ?s1"
    using world_ok_ids [OF w] by (intro world_ok_tasks [OF w]) simp_all
  have "s' = feed env (if t_status c = t_status t then ?s1
      else if t_status c = task_status.Ready
      then feed env ?s1 i actor task_feed_kind.DependencyUnlocked ''Dependency update completed; task is now available''
      else feed env ?s1 i actor task_feed_kind.DependencyLocked ''Task unavailable until its dependency is done'')
      i actor task_feed_kind.Comment ''Task details updated''"
    using r by (simp only: reduce_update_task_def Let_def t chk c option.case sum.case Inr_inject prod.inject) simp
  then show ?thesis using s1 by (simp add: world_ok_feed)
qed


text \<open>A fan-out draws one id per child; the children are checked against the board before it.\<close>

lemma create_children_ok:
  assumes "create_children env s p m specs = Inr (s1, cs)"
  shows "s_tasks s1 = s_tasks s \<and> s_task_feed s1 = s_task_feed s \<and> s_human_inputs s1 = s_human_inputs s \<and>
      s_work_offers s1 = s_work_offers s \<and> s_organization s1 = s_organization s \<and>
      w_drawn s1 = w_drawn s + length cs \<and>
      map t_id cs = map (\<lambda>k. TaskId (e_uuid env k)) [w_drawn s..<w_drawn s + length cs] \<and>
      (\<forall>c \<in> set cs. task_ok c \<and> t_child_task_ids c = [] \<and> t_parent_task_id c = Some p \<and> t_mission_id c = m \<and>
        (\<forall>d \<in> set (t_dependencies c). \<exists>v \<in> set (s_tasks s). t_id v = d \<and> t_mission_id v = m))"
  using assms
proof (induction specs arbitrary: s s1 cs)
  case (Cons spec specs)
  let ?spec = "spec\<lparr>ws_mission_id := Some m, ws_parent_task_id := Some p\<rparr>"
  from Cons.prems obtain s2 c cs' where c: "create_work_item env s ?spec = Inr (s2, c)"
    and rest: "create_children env s2 p m specs = Inr (s1, cs')" and cs: "cs = c # cs'"
    by (auto split: if_splits sum.splits)
  note ok = create_work_item_ok [OF c]
  have "t_mission_id c = m" using ok(6) by (simp add: work_item_mission_def)
  moreover have "[w_drawn s..<w_drawn s + length cs] = w_drawn s # [w_drawn s2..<w_drawn s2 + length cs']"
    using ok(1) cs by (simp add: upt_rec)
  ultimately show ?case using Cons.IH [OF rest] ok cs by (simp add: next_uuid_def)
qed simp

lemma drawn_range:
  assumes "A \<subseteq> TaskId ` uu ` {..<n}"
  shows "A \<union> set (map (\<lambda>k. TaskId (uu k)) [n..<n + k]) \<subseteq> TaskId ` uu ` {..<n + k}"
proof -
  have "A \<subseteq> TaskId ` uu ` {..<n + k}" using drawn_mono [OF assms] by simp
  moreover have "TaskId (uu j) \<in> TaskId ` uu ` {..<n + k}" if "j \<in> set [n..<n + k]" for j
    using that by auto
  ultimately show ?thesis by auto
qed

lemma reduce_spawn_ok:
  assumes r: "reduce_spawn_child_work_items env s p specs actor = Inr (s', ev, res)"
    and w: "world_ok uu s" and uu: "inj uu" "e_uuid env = uu"
  shows "world_ok uu s'"
proof -
  from r obtain u s1 cs where u: "find_task p (s_tasks s) = Some u"
    and cc: "create_children env s p (t_mission_id u) specs = Inr (s1, cs)"
    and s': "\<exists>b. s' = feed env (edit_task p (spawn_edit env (map t_id cs)) (s1\<lparr>s_tasks := s_tasks s1 @ cs\<rparr>))
      p actor task_feed_kind.DependencyLocked b"
    by (auto simp: reduce_spawn_child_work_items_def Let_def split: option.splits if_splits sum.splits)
  note ok = create_children_ok [OF cc]
  let ?s2 = "edit_task p (spawn_edit env (map t_id cs)) (s1\<lparr>s_tasks := s_tasks s1 @ cs\<rparr>)"
  have ids: "map t_id cs = map (\<lambda>k. TaskId (uu k)) [w_drawn s..<w_drawn s + length cs]"
    using ok uu(2) by simp
  have new: "t_id c \<notin> task_ids (s_tasks s)" if "c \<in> set cs" for c
  proof -
    from that have "t_id c \<in> set (map t_id cs)" by simp
    then obtain k where "w_drawn s \<le> k" "t_id c = TaskId (uu k)" unfolding ids by auto
    with task_id_fresh [OF uu(1) world_ok_ids [OF w]] show ?thesis by metis
  qed
  have dist: "distinct (map t_id cs)" unfolding ids
    using uu(1) by (auto simp: distinct_map inj_on_def dest: injD)
  have kids: "\<forall>c \<in> set cs. t_id c \<notin> task_ids (s_tasks s) \<and> task_ok c \<and>
      t_child_task_ids c = [] \<and> t_parent_task_id c = Some p \<and> t_mission_id c = t_mission_id u \<and>
      (\<forall>d \<in> set (t_dependencies c). \<exists>v \<in> set (s_tasks s). t_id v = d \<and> t_mission_id v = t_mission_id c)"
    using ok new by simp
  have tasks: "s_tasks ?s2 = update_first (\<lambda>t. t_id t = p) (spawn_edit env (map t_id cs)) (s_tasks s) @ cs"
    using ok u by (simp add: update_first_append find_task_def)
  have "board_ok (s_tasks ?s2)" unfolding tasks
    by (rule board_append_children [OF world_ok_board [OF w] u dist kids])
      (auto simp: spawn_edit_def task_shape_def task_ok_def rework_limit_of_def split: if_splits)
  moreover have "task_ids (s_tasks ?s2) = task_ids (s_tasks s) \<union> set (map t_id cs)"
    unfolding tasks by (simp add: task_ids_update spawn_edit_def) (simp add: task_ids_def)
  then have "task_ids (s_tasks ?s2) \<subseteq> TaskId ` uu ` {..<w_drawn ?s2}"
    unfolding ids using drawn_range [OF world_ok_ids [OF w]] ok by simp
  ultimately have "world_ok uu ?s2" using ok by (intro world_ok_tasks [OF w]) simp_all
  with s' show ?thesis by (auto intro: world_ok_feed)
qed


section \<open>Handlers on offers, questions and the Organization\<close>

lemma filter_update_first_le:
  assumes "\<And>x. find p xs = Some x \<Longrightarrow> q (f x) \<Longrightarrow> q x"
  shows "length (filter q (update_first p f xs)) \<le> length (filter q xs)"
  using assms by (induction xs) (auto split: if_splits)

lemma world_ok_tables:
  assumes "world_ok uu s" "s_tasks s' = s_tasks s" "s_task_feed s' = s_task_feed s" "w_drawn s \<le> w_drawn s'"
    "\<And>i. length (pending_inputs s i) \<le> 1 \<Longrightarrow> length (pending_inputs s' i) \<le> 1"
    "\<And>i. length (open_offers s i) \<le> 1 \<Longrightarrow> length (open_offers s' i) \<le> 1"
    "\<And>g. o_published (s_organization s') = Some g \<Longrightarrow> o_published (s_organization s) \<noteq> Some g \<Longrightarrow> graph_wf g"
  shows "world_ok uu s'"
proof -
  have "task_ids (s_tasks s') \<subseteq> TaskId ` uu ` {..<w_drawn s'}"
    using drawn_mono [OF world_ok_ids [OF assms(1)] assms(4)] assms(2) by simp
  moreover have "graph_wf g" if "o_published (s_organization s') = Some g" for g
    using assms(1,7) that by (cases "o_published (s_organization s) = Some g") (simp_all add: world_ok_def)
  ultimately show ?thesis using assms(1-6) by (simp add: world_ok_def)
qed

lemma reduce_create_work_offer_ok:
  assumes "reduce_create_work_offer env s i a = Inr (s', ev, res)" "world_ok uu s"
  shows "world_ok uu s'"
proof -
  from assms(1) obtain x where s': "s' = (drew s)\<lparr>s_work_offers := s_work_offers s @ [x]\<rparr>"
    and x: "of_task_id x = i" and none: "\<not> any (\<lambda>x. of_task_id x = i \<and> offer_is_open (of_status x)) (s_work_offers s)"
    by (auto simp: reduce_create_work_offer_def Let_def split: if_splits option.splits sum.splits)
  have "open_offers s i = []" using none by (auto simp: open_offers_def filter_empty_conv list_ex_iff)
  then have "length (open_offers s' j) \<le> 1" if "length (open_offers s j) \<le> 1" for j
    using that x by (cases "j = i") (auto simp: s' open_offers_def)
  then show ?thesis
    by (intro world_ok_tables [OF assms(2)]) (simp_all add: s' pending_inputs_def)
qed

lemma answer_offer_calm:
  assumes "answer_offer env s x accept actor = Inr (s', st)"
  shows "calm s s'" "\<not> offer_is_open st"
  using assms by (auto simp: answer_offer_def Let_def offer_is_open_def split: if_splits option.splits
      intro!: calm_edit_feed tame_claim calm_feed)

lemma reduce_respond_work_offer_ok:
  assumes "reduce_respond_work_offer env s k accept actor = Inr (s', ev, res)" "world_ok uu s"
  shows "world_ok uu s'"
proof -
  from assms(1) obtain x s1 st where a: "answer_offer env s x accept actor = Inr (s1, st)"
    and s': "s' = s1\<lparr>s_work_offers := update_first (open_offer k)
      (\<lambda>_. x\<lparr>of_status := st, of_responded_at := Some (e_now env)\<rparr>) (s_work_offers s1)\<rparr>"
    by (auto simp: reduce_respond_work_offer_def Let_def split: option.splits sum.splits)
  have s1: "world_ok uu s1" using calm_world_ok [OF answer_offer_calm(1) [OF a] assms(2)] .
  have le: "length (open_offers s' i) \<le> length (open_offers s1 i)" for i
    unfolding s' open_offers_def
    using answer_offer_calm(2) [OF a] by (simp, intro filter_update_first_le) simp
  show ?thesis
  proof (rule world_ok_tables [OF s1])
    show "length (open_offers s' i) \<le> 1" if "length (open_offers s1 i) \<le> 1" for i
      using le [of i] that by linarith
  qed (simp_all add: s' pending_inputs_def)
qed

lemma reduce_request_human_input_ok:
  assumes "reduce_request_human_input env s i k p actor = Inr (s', ev, res)" "world_ok uu s"
  shows "world_ok uu s'"
proof -
  from assms(1) obtain x b where
    s': "s' = feed env (edit_task i (\<lambda>t. t\<lparr>t_status := task_status.Blocked\<rparr>)
      ((drew s)\<lparr>s_human_inputs := s_human_inputs s @ [x]\<rparr>)) i actor task_feed_kind.DependencyLocked b"
    and x: "hi_task_id x = i" and none: "\<not> any (pending_input i) (s_human_inputs s)"
    by (auto simp: reduce_request_human_input_def Let_def split: if_splits option.splits)
  let ?s1 = "(drew s)\<lparr>s_human_inputs := s_human_inputs s @ [x]\<rparr>"
  have "pending_inputs s i = []" using none by (auto simp: pending_inputs_def filter_empty_conv list_ex_iff)
  then have "length (pending_inputs ?s1 j) \<le> 1" if "length (pending_inputs s j) \<le> 1" for j
    using that x by (cases "j = i") (auto simp: pending_inputs_def pending_input_def)
  then have "world_ok uu ?s1"
    by (intro world_ok_tables [OF assms(2)]) (simp_all add: open_offers_def)
  moreover have "calm ?s1 s'" unfolding s' by (intro calm_edit_feed tame_status) simp
  ultimately show ?thesis using calm_world_ok by blast
qed

lemma tame_resume: "tame t (resume_edit s t)"
  by (rule tame_intro) (auto simp: resume_edit_def release_edit_def Let_def kin_defs split: option.splits)

lemma reduce_resolve_human_input_ok:
  assumes "reduce_resolve_human_input env s k a actor = Inr (s', ev, res)" "world_ok uu s"
  shows "world_ok uu s'"
proof -
  let ?p = "\<lambda>x. hi_id x = k \<and> hi_status x = human_input_status.Pending"
  let ?y = "\<lambda>x. x\<lparr>hi_status := human_input_status.Answered, hi_answer := Some a,
    hi_answered_by := ac_id actor, hi_updated_at := e_now env\<rparr>"
  from assms(1) obtain x t b where t: "find_task (hi_task_id x) (s_tasks s) = Some t"
    and s': "s' = feed env ((edit_task (t_id t) (\<lambda>_. resume_edit s t) s)\<lparr>s_human_inputs :=
       update_first ?p (\<lambda>_. ?y x) (s_human_inputs s)\<rparr>) (t_id t) actor task_feed_kind.DependencyUnlocked b"
    by (auto simp: reduce_resolve_human_input_def Let_def split: if_splits option.splits)
  let ?s1 = "edit_task (t_id t) (\<lambda>_. resume_edit s t) s"
  let ?s2 = "?s1\<lparr>s_human_inputs := update_first ?p (\<lambda>_. ?y x) (s_human_inputs s)\<rparr>"
  have "find_task (t_id t) (s_tasks s) = Some t" using t find_task_SomeD [OF t] by simp
  then have "calm s ?s1" by (intro calm_edit_task) (simp add: tame_resume)
  with assms(2) have s1: "world_ok uu ?s1" by (rule calm_world_ok [rotated])
  have le: "length (pending_inputs ?s2 i) \<le> length (pending_inputs ?s1 i)" for i
    unfolding pending_inputs_def by (simp, intro filter_update_first_le) (simp add: pending_input_def)
  have "world_ok uu ?s2"
  proof (rule world_ok_tables [OF s1])
    show "length (pending_inputs ?s2 i) \<le> 1" if "length (pending_inputs ?s1 i) \<le> 1" for i
      using le [of i] that by linarith
  qed (simp_all add: open_offers_def)
  then show ?thesis unfolding s' by (rule world_ok_feed)
qed


lemma tame_rework:
  assumes "\<not> rework_limit_of t \<le> t_rework_count t"
  shows "tame t (rework_edit t)"
proof -
  have c: "t_rework_count t < rework_limit_of t" using assms by simp
  then have "unat (t_rework_count t) + 1 \<le> unat (rework_limit_of t)" by unat_arith
  moreover have "unat (rework_limit_of t) < 2 ^ LENGTH(8)" by (rule unsigned_less)
  ultimately have "unat (saturating_add (t_rework_count t) 1) \<le> unat (rework_limit_of t)"
    by (simp add: unat_saturating_add)
  then have "saturating_add (t_rework_count t) 1 \<le> rework_limit_of t" by (simp add: word_le_nat_alt)
  then show ?thesis
    by (simp add: tame_def kin_defs task_ok_def rework_edit_def release_edit_def rework_limit_of_def
        split: if_splits)
qed

lemma reduce_request_task_rework_calm:
  assumes "reduce_request_task_rework env s i r actor = Inr (s', ev, res)"
  shows "calm s s'"
proof -
  from assms obtain t b where "find_task i (s_tasks s) = Some t" "\<not> rework_limit_of t \<le> t_rework_count t"
    and s': "s' = feed env (edit_task i rework_edit s) i actor task_feed_kind.StatusChanged b"
    by (auto simp: reduce_request_task_rework_def Let_def split: option.splits if_splits)
  then show ?thesis unfolding s' by (intro calm_edit_feed) (simp add: tame_rework)
qed

lemma reduce_drop_work_item_calm:
  "reduce_drop_work_item env s i b r actor = Inr (s', ev, res) \<Longrightarrow> calm s s'"
  by (auto simp: reduce_drop_work_item_def Let_def release_edit_def intro!: calm_edit_feed tame_intro
      simp: kin_defs split: option.splits sum.splits if_splits)

lemma depart_step_calm: "calm s (depart_step env actor a i s)"
proof -
  have "calm s (edit_task i (\<lambda>t. (release_edit t)\<lparr>t_status := task_status.Blocked\<rparr>) s)"
    by (rule calm_edit_task, rule tame_intro) (simp_all add: release_edit_def kin_defs)
  from calm_trans [OF calm_trans [OF this calm_revoke] calm_feed] show ?thesis
    by (simp add: depart_step_def Let_def)
qed

lemma reduce_fire_agent_calm:
  assumes "reduce_fire_agent env s a r actor = Inr (s', ev, res)"
  shows "calm s s'"
proof -
  from assms obtain ids x where "s' = (fold (depart_step env actor a) ids s)\<lparr>s_agents := x\<rparr>"
    by (auto simp: reduce_fire_agent_def Let_def split: option.splits if_splits)
  with calm_trans [OF calm_fold [of "depart_step env actor a", OF depart_step_calm] calm_agents] show ?thesis
    by simp
qed

lemma relocate_loop_calm: "relocate_loop fb tb r ids moved s = Inr s' \<Longrightarrow> calm s s'"
proof (induction fb tb r ids moved s rule: relocate_loop.induct)
  case (2 fb tb r i ids moved s)
  from 2(2) obtain t where t: "i \<notin> set moved" "find_task i (s_tasks s) = Some t" "t_taskboard_id t = Some fb"
    "t_status t \<notin> {task_status.Running, task_status.Review}"
    and rest: "relocate_loop fb tb r ids (moved @ [i]) (edit_task i (relocate_edit tb r) s) = Inr s'"
    by (auto split: if_splits option.splits)
  from t have "calm s (edit_task i (relocate_edit tb r) s)"
    by (intro calm_edit_task tame_intro) (auto simp: relocate_edit_def release_edit_def kin_defs)
  also from 2(1) [OF t(1,2)] t(3,4) rest have "calm \<dots> s'" by simp
  finally show ?case .
qed simp

lemma calm_frame:
  "s_tasks s' = s_tasks s \<Longrightarrow> s_task_feed s' = s_task_feed s \<Longrightarrow> s_human_inputs s' = s_human_inputs s \<Longrightarrow>
   s_work_offers s' = s_work_offers s \<Longrightarrow> o_published (s_organization s') = o_published (s_organization s) \<Longrightarrow>
   w_drawn s \<le> w_drawn s' \<Longrightarrow> calm s s'"
  by (simp add: calm_def)

lemma reduce_relocate_work_items_calm:
  assumes "reduce_relocate_work_items env s fb tb ids r = Inr (s', ev, res)"
  shows "calm s s'"
proof -
  from assms obtain rv s1 x y where loop: "relocate_loop fb tb rv ids [] s = Inr s1"
    and s': "s' = (drew s1)\<lparr>s_organization_relocations := x, s_organization_runtime := y\<rparr>"
    by (auto simp: reduce_relocate_work_items_def Let_def split: sum.splits if_splits)
  have "calm s1 s'" by (rule calm_frame) (simp_all add: s')
  with relocate_loop_calm [OF loop] show ?thesis by (rule calm_trans)
qed

lemma taskboard_calm:
  "reduce_create_taskboard env s bspec = Inr (s', ev, res) \<Longrightarrow> calm s s'"
  "reduce_update_taskboard env s b bp = Inr (s', ev, res) \<Longrightarrow> calm s s'"
  "reduce_archive_taskboard env s b = Inr (s', ev, res) \<Longrightarrow> calm s s'"
  by (auto simp: reduce_create_taskboard_def reduce_update_taskboard_def reduce_archive_taskboard_def Let_def
      intro!: calm_frame split: sum.splits option.splits if_splits)

lemma drain_calm:
  "reduce_request_organization_drain s v = Inr (s', ev, res) \<Longrightarrow> calm s s'"
  "reduce_complete_organization_drain s v actor = Inr (s', ev, res) \<Longrightarrow> calm s s'"
  "reduce_resume_organization s v = Inr (s', ev, res) \<Longrightarrow> calm s s'"
  by (auto simp: reduce_request_organization_drain_def reduce_complete_organization_drain_def
      reduce_resume_organization_def Let_def intro!: calm_frame split: if_splits)

lemma reduce_save_organization_draft_calm:
  "reduce_save_organization_draft s g v = Inr (s', ev, res) \<Longrightarrow> calm s s'"
  by (auto simp: reduce_save_organization_draft_def Let_def intro!: calm_frame split: sum.splits if_splits)

lemma reduce_publish_organization_ok:
  assumes "reduce_publish_organization env s v = Inr (s', ev, res)" "world_ok uu s"
  shows "world_ok uu s'"
proof -
  from assms(1) obtain x y where ok: "validate_graph s (o_draft (s_organization s)) True = Inr ()"
    and s': "s' = s\<lparr>s_organization := (s_organization s)\<lparr>
        o_published := Some ((o_draft (s_organization s))\<lparr>g_published_revision := x\<rparr>),
        o_draft := (o_draft (s_organization s))\<lparr>g_published_revision := x\<rparr>\<rparr>, s_organization_runtime := y\<rparr>"
    by (auto simp: reduce_publish_organization_def Let_def split: sum.splits if_splits)
  from validate_graph_wf [OF ok] have "graph_wf ((o_draft (s_organization s))\<lparr>g_published_revision := x\<rparr>)"
    by (simp add: graph_wf_def relation_ok_def graph_is_v2_def)
  then show ?thesis
    by (intro world_ok_tables [OF assms(2)]) (auto simp: s' pending_inputs_def open_offers_def)
qed


section \<open>The other domains are calm\<close>

lemma team_calm:
  "reduce_create_role env s rspec = Inr (s', ev, res) \<Longrightarrow> calm s s'"
  "reduce_update_role env s r rp = Inr (s', ev, res) \<Longrightarrow> calm s s'"
  "reduce_archive_role s r = Inr (s', ev, res) \<Longrightarrow> calm s s'"
  "reduce_set_agent_role s a r = Inr (s', ev, res) \<Longrightarrow> calm s s'"
  "reduce_create_agent env s aspec = Inr (s', ev, res) \<Longrightarrow> calm s s'"
  "reduce_update_agent env s a ap = Inr (s', ev, res) \<Longrightarrow> calm s s'"
  "reduce_archive_agent s a = Inr (s', ev, res) \<Longrightarrow> calm s s'"
  unfolding reduce_create_role_def reduce_update_role_def reduce_archive_role_def reduce_set_agent_role_def
    reduce_create_agent_def reduce_update_agent_def reduce_archive_agent_def Let_def
  by (auto intro!: calm_frame split: sum.splits option.splits if_splits)

lemma mission_calm:
  "reduce_create_mission env s p x = Inr (s', ev, res) \<Longrightarrow> calm s s'"
  "reduce_set_mission_status env s m st = Inr (s', ev, res) \<Longrightarrow> calm s s'"
  "reduce_retry_mission_plan env s m = Inr (s', ev, res) \<Longrightarrow> calm s s'"
  "pause_or_resume env s m st = Inr (s', ev, res) \<Longrightarrow> calm s s'"
  "reduce_deliver_mission env s m = Inr (s', ev, res) \<Longrightarrow> calm s s'"
  unfolding reduce_create_mission_def reduce_set_mission_status_def reduce_retry_mission_plan_def
    pause_or_resume_def reduce_deliver_mission_def edit_mission_def Let_def
  by (auto intro!: calm_frame split: sum.splits option.splits if_splits)

lemma project_calm:
  "reduce_create_project env s pspec = Inr (s', ev, res) \<Longrightarrow> calm s s'"
  "reduce_clone_project env s url dest = Inr (s', ev, res) \<Longrightarrow> calm s s'"
  "reduce_archive_project s p = Inr (s', ev, res) \<Longrightarrow> calm s s'"
  "reduce_cancel_operation env s x = Inr (s', ev, res) \<Longrightarrow> calm s s'"
  "reduce_retry_operation env s x = Inr (s', ev, res) \<Longrightarrow> calm s s'"
  unfolding reduce_create_project_def reduce_clone_project_def reduce_archive_project_def
    reduce_cancel_operation_def reduce_retry_operation_def edit_operation_def Let_def
  by (auto intro!: calm_frame split: sum.splits option.splits if_splits)

lemma grant_calm:
  "reduce_request_approval env s x actor = Inr (s', ev, res) \<Longrightarrow> calm s s'"
  "reduce_decide_approval env s y d = Inr (s', ev, res) \<Longrightarrow> calm s s'"
  "reduce_grant_task_access env s i a r e u actor = Inr (s', ev, res) \<Longrightarrow> calm s s'"
  "reduce_revoke_task_grant s g = Inr (s', ev, res) \<Longrightarrow> calm s s'"
  unfolding reduce_request_approval_def reduce_decide_approval_def reduce_grant_task_access_def
    reduce_revoke_task_grant_def grant_for_task_def edit_approval_def Let_def
  by (auto intro!: calm_frame split: sum.splits option.splits if_splits)

lemma calm_task_budget: "calm s (edit_task i (t_budget_update (\<lambda>_. b)) s)"
  by (intro calm_edit_task tame_intro) (simp_all add: kin_defs)

lemma adjust_budget_calm: "reduce_adjust_budget env s sc k b = Inr (s', ev, res) \<Longrightarrow> calm s s'"
  by (auto simp: reduce_adjust_budget_def edit_mission_def Let_def
      intro: calm_frame calm_task_budget split: option.splits if_splits budget_scope.splits)

lemma terminal_calm:
  "reduce_open_terminal env s i c r = Inr (s', ev, res) \<Longrightarrow> calm s s'"
  "reduce_take_control env s k actor = Inr (s', ev, res) \<Longrightarrow> calm s s'"
  "reduce_renew_control env s k l actor = Inr (s', ev, res) \<Longrightarrow> calm s s'"
  "reduce_release_control s k l actor = Inr (s', ev, res) \<Longrightarrow> calm s s'"
  "reduce_close_terminal env s k actor = Inr (s', ev, res) \<Longrightarrow> calm s s'"
  unfolding reduce_open_terminal_def reduce_take_control_def reduce_renew_control_def
    reduce_release_control_def reduce_close_terminal_def edit_terminal_def Let_def
  by (auto intro!: calm_frame split: sum.splits option.splits if_splits)

lemma message_calm:
  "reduce_send_message env s x actor = Inr (s', ev, res) \<Longrightarrow> calm s s'"
  "reduce_ack_message s m actor = Inr (s', ev, res) \<Longrightarrow> calm s s'"
  "reduce_complete_message s m b actor = Inr (s', ev, res) \<Longrightarrow> calm s s'"
  "reduce_publish_artifact env s y = Inr (s', ev, res) \<Longrightarrow> calm s s'"
  "reduce_begin_artifact_upload env s z = Inr (s', ev, res) \<Longrightarrow> calm s s'"
  "reduce_finalize_artifact_upload env s u h n = Inr (s', ev, res) \<Longrightarrow> calm s s'"
  "reduce_propose_memory env s a p c actor = Inr (s', ev, res) \<Longrightarrow> calm s s'"
  "reduce_read_memory env s a p actor = Inr (s', ev, res) \<Longrightarrow> calm s s'"
  unfolding reduce_send_message_def reduce_ack_message_def reduce_complete_message_def
    reduce_publish_artifact_def reduce_begin_artifact_upload_def reduce_finalize_artifact_upload_def
    reduce_propose_memory_def reduce_read_memory_def edit_message_def Let_def
  by (auto intro!: calm_frame split: sum.splits option.splits if_splits prod.splits)

end
