(* ===== verification/Connectors.thy ===== *)
theory Connectors
  imports BoardInvariants
begin

text \<open>
  Connector profiles: \<open>reduce/organization/connector.rs\<close>, the configuration checks of
  \<open>reduce/organization/validation.rs\<close> and the statement classifier of
  \<open>connectors.rs\<close>.

  A profile configuration is a JSON value; the size limit is on its serialised text, which is
  the parameter \<open>e_json_text\<close>. Object keys are unique, as in a \<open>serde_json\<close> map.
\<close>

section \<open>Secrets in configurations\<close>

definition is_secret_key :: "string \<Rightarrow> bool" where
  "is_secret_key key \<longleftrightarrow>
     (let k = to_ascii_lowercase key in
      contains_str k ''credential'' \<or> contains_str k ''token'' \<or> contains_str k ''password''
      \<or> k = ''dsn'' \<or> contains_str k ''cookie'' \<or> contains_str k ''secret''
      \<or> contains_str k ''api_key'' \<or> contains_str k ''private_key'' \<or> contains_str k ''access_key''
      \<or> k = ''authorization'')"

fun contains_secret_key :: "json \<Rightarrow> bool" where
  "contains_secret_key (JObject obj) =
     list_ex (\<lambda>(k, v). is_secret_key k \<or> contains_secret_key v) obj"
| "contains_secret_key (JArray vs) = list_ex contains_secret_key vs"
| "contains_secret_key _ = False"

definition is_secret_text :: "string \<Rightarrow> bool" where
  "is_secret_text raw \<longleftrightarrow>
     (let v = to_ascii_lowercase (trim raw) in
      starts_with v ''postgres://'' \<or> starts_with v ''postgresql://'' \<or> starts_with v ''mysql://''
      \<or> starts_with v ''mongodb://'' \<or> starts_with v ''redis://'' \<or> starts_with v ''bearer ''
      \<or> contains_str v ''access_token='' \<or> contains_str v ''refresh_token=''
      \<or> contains_str v ''client_secret='' \<or> contains_str v ''password='' \<or> contains_str v ''-----begin '')"

fun contains_secret_value :: "json \<Rightarrow> bool" where
  "contains_secret_value (JString raw) = is_secret_text raw"
| "contains_secret_value (JObject obj) = list_ex (\<lambda>(k, v). contains_secret_value v) obj"
| "contains_secret_value (JArray vs) = list_ex contains_secret_value vs"
| "contains_secret_value _ = False"

section \<open>Configuration checks\<close>

definition validate_profile_config :: "env \<Rightarrow> json \<Rightarrow> unit orch_result" where
  "validate_profile_config env config =
     (if 32 * 1024 < length (e_json_text env config)
      then Inl (Validation ''connector profile configuration is too large'')
      else if contains_secret_key config \<or> contains_secret_value config
      then Inl (Validation ''connector secrets must be stored through the credential API'')
      else Inr ())"

text \<open>\<open>Value::as_object\<close>, \<open>as_str\<close>, \<open>as_array\<close>, \<open>as_u64\<close>.\<close>

fun as_object :: "json \<Rightarrow> (string \<times> json) list option" where
  "as_object (JObject obj) = Some obj"
| "as_object _ = None"

fun as_str :: "json \<Rightarrow> string option" where
  "as_str (JString s) = Some s"
| "as_str _ = None"

fun as_array :: "json \<Rightarrow> json list option" where
  "as_array (JArray vs) = Some vs"
| "as_array _ = None"

fun as_u64 :: "json \<Rightarrow> nat option" where
  "as_u64 (JNumber t) = parse_uint 64 t"
| "as_u64 _ = None"

definition validate_postgres_profile_config :: "json \<Rightarrow> string + unit" where
  "validate_postgres_profile_config config =
     (case as_object config of
        None \<Rightarrow> Inl ''connector request is invalid: PostgreSQL profile config must be an object''
      | Some obj \<Rightarrow>
          if any (\<lambda>(key, _). let k = to_ascii_lowercase key in
               contains_str k ''dsn'' \<or> contains_str k ''password'' \<or> contains_str k ''token''
               \<or> contains_str k ''secret'' \<or> contains_str k ''credential'') obj
          then Inl (''connector request is invalid: ''
            @ ''PostgreSQL DSN and credentials belong in the daemon credential store'')
          else Inr ())"

definition valid_domain :: "json \<Rightarrow> bool" where
  "valid_domain v \<longleftrightarrow>
     (case as_str v of
        None \<Rightarrow> False
      | Some raw \<Rightarrow> (let domain = trim raw in
          domain \<noteq> [] \<and> length domain \<le> 253 \<and> \<not> has_control domain
          \<and> \<not> contains_str domain ''/'' \<and> \<not> contains_str domain '':''))"

definition is_absolute :: "string \<Rightarrow> bool" where
  \<comment> \<open>\<open>Path::is_absolute\<close> on Unix\<close>
  "is_absolute path \<longleftrightarrow> starts_with path ''/''"

definition check_browser_limit :: "(string \<times> json) list \<Rightarrow> string \<Rightarrow> unit orch_result" where
  "check_browser_limit obj key =
     (if (case map_of obj key of None \<Rightarrow> False
          | Some v \<Rightarrow> (case as_u64 v of None \<Rightarrow> True | Some n \<Rightarrow> n = 0))
      then Inl (Validation ''browser payload limits must be positive integers'') else Inr ())"

definition check_browser_executable :: "(string \<times> json) list \<Rightarrow> string \<Rightarrow> unit orch_result" where
  "check_browser_executable obj key =
     (case map_of obj key of
        None \<Rightarrow> Inr ()
      | Some v \<Rightarrow>
          (case as_str v of
             None \<Rightarrow> Inl (Validation ''browser executable path must be a string'')
           | Some path \<Rightarrow>
               if blank path \<or> has_control path \<or> \<not> is_absolute path
               then Inl (Validation ''browser executable path must be an absolute, non-control path'')
               else Inr ()))"

fun check_keys :: "(string \<Rightarrow> unit orch_result) \<Rightarrow> string list \<Rightarrow> unit orch_result" where
  \<comment> \<open>\<open>for key in [...]\<close> with an early return\<close>
  "check_keys f [] = Inr ()"
| "check_keys f (k # ks) = (case f k of Inl e \<Rightarrow> Inl e | Inr _ \<Rightarrow> check_keys f ks)"

definition check_browser :: "(string \<times> json) list \<Rightarrow> unit orch_result" where
  "check_browser obj =
     (if \<not> (case Option.bind (map_of obj ''allowed_domains'') as_array of
              None \<Rightarrow> False | Some vs \<Rightarrow> vs \<noteq> [] \<and> list_all valid_domain vs)
      then Inl (Validation ''browser allowed_domains must contain at least one valid host name'')
      else case check_keys (check_browser_limit obj) [''max_response_bytes'', ''max_download_bytes''] of
        Inl e \<Rightarrow> Inl e
      | Inr _ \<Rightarrow> check_keys (check_browser_executable obj) [''browser_executable'', ''executable''])"

definition check_oauth_key :: "(string \<times> json) list \<Rightarrow> string \<Rightarrow> unit orch_result" where
  "check_oauth_key obj key =
     (if (case map_of obj key of None \<Rightarrow> False
          | Some v \<Rightarrow> (case as_str v of None \<Rightarrow> True | Some t \<Rightarrow> blank t))
      then Inl (Validation ''Google Workspace OAuth client metadata is invalid'') else Inr ())"

definition validate_profile_config_for_kind :: "env \<Rightarrow> json \<Rightarrow> connector_kind \<Rightarrow> unit orch_result" where
  "validate_profile_config_for_kind env config kind =
     (case validate_profile_config env config of
        Inl e \<Rightarrow> Inl e
      | Inr _ \<Rightarrow>
        (case as_object config of
           None \<Rightarrow> Inl (Validation ''connector profile config must be an object'')
         | Some obj \<Rightarrow>
           (case kind of
              connector_kind.Postgres \<Rightarrow>
                (case validate_postgres_profile_config config of
                   Inl e \<Rightarrow> Inl (Validation e)
                 | Inr _ \<Rightarrow>
                     if (case Option.bind (map_of obj ''schema'') as_str of None \<Rightarrow> False | Some t \<Rightarrow> blank t)
                     then Inl (Validation ''PostgreSQL schema cannot be empty'') else Inr ())
            | connector_kind.Sqlite \<Rightarrow>
                (case Option.bind (or_else (map_of obj ''path'') (map_of obj ''database_path'')) as_str of
                   None \<Rightarrow> Inl (Validation ''SQLite connector requires a non-secret path'')
                 | Some path \<Rightarrow>
                     if blank path \<or> has_control path
                     then Inl (Validation ''SQLite connector path is invalid'') else Inr ())
            | connector_kind.Browser \<Rightarrow> check_browser obj
            | connector_kind.GoogleWorkspace \<Rightarrow>
                check_keys (check_oauth_key obj) [''client_id'', ''redirect_uri'']
            | connector_kind.Terminal \<Rightarrow> Inr ())))"

definition valid_name :: "string \<Rightarrow> bool" where
  "valid_name value \<longleftrightarrow>
     (let trimmed = trim value in trimmed \<noteq> [] \<and> length trimmed \<le> 128 \<and> \<not> has_control trimmed)"

definition validate_profile_spec :: "env \<Rightarrow> connector_profile_spec \<Rightarrow> unit orch_result" where
  "validate_profile_spec env spec =
     (if \<not> valid_name (cps_name spec) then Inl (Validation ''connector profile name is invalid'')
      else validate_profile_config_for_kind env (cps_config spec) (cps_kind spec))"

definition sanitize_profile_config :: "json \<Rightarrow> json" where
  "sanitize_profile_config config = config"

definition graph_references_profile :: "organization_graph \<Rightarrow> connector_profile_id \<Rightarrow> bool" where
  "graph_references_profile graph profile_id \<longleftrightarrow>
     any (\<lambda>n. n_connector_profile_id n = Some profile_id) (g_nodes graph)"

section \<open>Handlers\<close>

definition set_profiles :: "(connector_profile_view list \<Rightarrow> connector_profile_view list) \<Rightarrow> world \<Rightarrow> world" where
  "set_profiles f s = s\<lparr>s_organization := (s_organization s)\<lparr>
     o_connector_profiles := f (o_connector_profiles (s_organization s))\<rparr>\<rparr>"

fun profile_uuid :: "connector_profile_id \<Rightarrow> uuid" where
  "profile_uuid (ConnectorProfileId u) = u"

definition reduce_create_connector_profile :: "env \<Rightarrow> world \<Rightarrow> connector_profile_spec \<Rightarrow> reduction" where
  "reduce_create_connector_profile env s spec =
     (case validate_profile_spec env spec of
        Inl e \<Rightarrow> Inl e
      | Inr _ \<Rightarrow>
        if any (\<lambda>p. \<not> cp_archived p \<and> eq_ignore_ascii_case (cp_name p) (cps_name spec))
             (o_connector_profiles (s_organization s))
        then Inl (Validation ''connector profile name must be unique'')
        else
         (let i = ConnectorProfileId (next_uuid env s);
              profile = \<lparr>cp_id = i, cp_name = cps_name spec, cp_kind = cps_kind spec,
                cp_config = sanitize_profile_config (cps_config spec), cp_health = connector_health.Unknown,
                cp_configured = False, cp_diagnostic = None, cp_checked_at = None, cp_archived = False\<rparr> in
          Inr (set_profiles (\<lambda>ps. ps @ [profile]) (drew s), ConnectorProfileUpserted profile,
               ResultCreated (e_uuid_text env (profile_uuid i)))))"

definition kind_change_breaks_published ::
    "world \<Rightarrow> connector_profile_id \<Rightarrow> connector_profile_patch \<Rightarrow> bool" where
  "kind_change_breaks_published s profile_id patch \<longleftrightarrow>
     (case (cpp_kind patch, o_published (s_organization s)) of
        (Some kind, Some graph) \<Rightarrow>
          any (\<lambda>n. n_connector_profile_id n = Some profile_id
                 \<and> n_kind n = organization_node_kind.Capability
                 \<and> (case n_capability n of None \<Rightarrow> False | Some c \<Rightarrow> \<not> profile_compatible c kind))
            (g_nodes graph)
      | _ \<Rightarrow> False)"

definition patch_profile :: "connector_profile_patch \<Rightarrow> connector_profile_view \<Rightarrow> connector_profile_view" where
  "patch_profile patch p = p\<lparr>
     cp_name := (case cpp_name patch of None \<Rightarrow> cp_name p | Some n \<Rightarrow> trim n),
     cp_kind := set_some (cpp_kind patch) (cp_kind p),
     cp_config := (case cpp_config patch of None \<Rightarrow> cp_config p | Some c \<Rightarrow> sanitize_profile_config c),
     cp_health := connector_health.Unknown, cp_diagnostic := None, cp_checked_at := None\<rparr>"

definition reduce_update_connector_profile ::
    "env \<Rightarrow> world \<Rightarrow> connector_profile_id \<Rightarrow> connector_profile_patch \<Rightarrow> reduction" where
  "reduce_update_connector_profile env s profile_id patch =
     (if (case cpp_name patch of None \<Rightarrow> False | Some n \<Rightarrow> \<not> valid_name n)
      then Inl (Validation ''connector profile name is invalid'')
      else case active_profile s profile_id of
        None \<Rightarrow> Inl NotFound
      | Some current \<Rightarrow>
        (case validate_profile_config_for_kind env (set_some (cpp_config patch) (cp_config current))
                (set_some (cpp_kind patch) (cp_kind current)) of
           Inl e \<Rightarrow> Inl e
         | Inr _ \<Rightarrow>
           if kind_change_breaks_published s profile_id patch
           then Inl (Validation ''connector kind change would invalidate the published Organization'')
           else
            (let updated = patch_profile patch current;
                 s1 = set_profiles (update_first (\<lambda>p. cp_id p = profile_id \<and> \<not> cp_archived p) (\<lambda>_. updated)) s in
             if any (\<lambda>c. cp_id c \<noteq> profile_id \<and> \<not> cp_archived c
                       \<and> eq_ignore_ascii_case (cp_name c) (cp_name updated))
                  (o_connector_profiles (s_organization s1))
             then Inl (Validation ''connector profile name must be unique'')
             else Inr (s1, ConnectorProfileUpserted updated, Accepted))))"

definition reduce_archive_connector_profile :: "world \<Rightarrow> connector_profile_id \<Rightarrow> reduction" where
  "reduce_archive_connector_profile s profile_id =
     (if graph_references_profile (o_draft (s_organization s)) profile_id
         \<or> (case o_published (s_organization s) of None \<Rightarrow> False
            | Some g \<Rightarrow> graph_references_profile g profile_id)
      then Inl (Validation ''connector profile is still referenced by Organization'')
      else case active_profile s profile_id of
        None \<Rightarrow> Inl NotFound
      | Some _ \<Rightarrow>
          Inr (set_profiles (update_first (\<lambda>p. cp_id p = profile_id \<and> \<not> cp_archived p)
                 (\<lambda>p. p\<lparr>cp_archived := True\<rparr>)) s,
               ConnectorProfileArchived profile_id, Accepted))"

definition reduce_organization :: "env \<Rightarrow> world \<Rightarrow> command \<Rightarrow> reduction" where
  "reduce_organization env s command =
     (case command of
        SaveOrganizationDraft graph expected \<Rightarrow> reduce_save_organization_draft s graph expected
      | PublishOrganization expected \<Rightarrow> reduce_publish_organization env s expected
      | CreateConnectorProfile spec \<Rightarrow> reduce_create_connector_profile env s spec
      | UpdateConnectorProfile profile_id patch \<Rightarrow> reduce_update_connector_profile env s profile_id patch
      | ArchiveConnectorProfile profile_id \<Rightarrow> reduce_archive_connector_profile s profile_id
      | _ \<Rightarrow> misrouted)"


section \<open>Database statements\<close>

datatype database_statement_class = ReadOnly | Write | Reject

text \<open>\<open>split_whitespace\<close>: the maximal runs without Unicode white space.\<close>

function words_loop :: "string \<Rightarrow> string \<Rightarrow> string list" where
  "words_loop acc [] = (if acc = [] then [] else [acc])"
| "words_loop acc (c # cs) =
     (let n = ws_len (map of_char (c # cs)) in
      if n = 0 then words_loop (acc @ [c]) cs
      else (if acc = [] then [] else [acc]) @ words_loop [] (drop (n - 1) cs))"
  by pat_completeness auto
termination
  by (relation "measure (\<lambda>(acc, s). length s)") auto

definition split_whitespace :: "string \<Rightarrow> string list" where
  "split_whitespace s = words_loop [] s"

fun has_lock :: "string list \<Rightarrow> bool" where
  \<comment> \<open>\<open>rest.windows(2).any(...)\<close>\<close>
  "has_lock (a # b # ws) \<longleftrightarrow>
     (a = ''for'' \<and> b \<in> {''update'', ''share'', ''no''}) \<or> has_lock (b # ws)"
| "has_lock _ \<longleftrightarrow> False"

fun join_spaces :: "string list \<Rightarrow> string" where
  "join_spaces [] = []"
| "join_spaces [w] = w"
| "join_spaces (w # ws) = w @ '' '' @ join_spaces ws"

definition mutating_words :: "string list" where
  "mutating_words = [''insert'', ''update'', ''delete'', ''merge'', ''replace'', ''create'', ''alter'',
     ''drop'', ''truncate'']"

definition classify_tokens :: "string \<Rightarrow> string list \<Rightarrow> database_statement_class" where
  "classify_tokens first_word rest =
     (let lowered = map to_ascii_lowercase rest in
      if first_word = ''select'' then
        (if ''into'' \<in> set lowered \<or> has_lock lowered then Reject else ReadOnly)
      else if first_word \<in> {''show'', ''describe'', ''desc''} then ReadOnly
      else if first_word = ''explain'' then
        (if any (\<lambda>w. w = ''analyze'' \<or> w = ''analyse'') lowered \<or> any (\<lambda>w. w \<in> set mutating_words) lowered
         then Reject else ReadOnly)
      else if first_word = ''pragma'' then
        (let text = to_ascii_lowercase (join_spaces rest) in
         if starts_with text ''table_info('' \<or> starts_with text ''table_xinfo(''
            \<or> starts_with text ''index_list('' \<or> starts_with text ''foreign_key_list(''
         then ReadOnly else Reject)
      else if first_word \<in> set (mutating_words @ [''grant'', ''revoke'', ''vacuum'', ''reindex'']) then Write
      else Reject)"

definition classify_database_statement :: "string \<Rightarrow> database_statement_class" where
  "classify_database_statement statement =
     (let trimmed = trim statement; lowered = to_ascii_lowercase trimmed in
      if trimmed = [] \<or> contains_nul trimmed \<or> contains_str trimmed '';'' \<or> contains_str trimmed ''--''
         \<or> contains_str trimmed ''/*'' \<or> contains_str trimmed ''*/''
         \<or> contains_str lowered ''load_extension'' \<or> contains_str lowered ''attach ''
      then Reject
      else case split_whitespace trimmed of
        [] \<Rightarrow> Reject
      | w # ws \<Rightarrow> classify_tokens (to_ascii_lowercase w) ws)"

section \<open>What the checks guarantee\<close>

text \<open>A JSON value inside another one.\<close>

fun json_subvalues :: "json \<Rightarrow> json list" where
  "json_subvalues (JObject obj) = JObject obj # concat (map (\<lambda>(k, v). json_subvalues v) obj)"
| "json_subvalues (JArray vs) = JArray vs # concat (map json_subvalues vs)"
| "json_subvalues v = [v]"

lemma deep_any:
  assumes "\<And>k v. (k, v) \<in> set obj \<Longrightarrow> f v \<longleftrightarrow> (\<exists>x \<in> set (json_subvalues v). p x)"
  shows "list_ex (\<lambda>(k, v). h k \<or> f v) obj \<longleftrightarrow>
    list_ex (\<lambda>(k, v). h k) obj \<or> (\<exists>x \<in> set (concat (map (\<lambda>(k, v). json_subvalues v) obj)). p x)"
  using assms
proof (induction obj)
  case (Cons kv obj)
  obtain k v where kv: "kv = (k, v)" by (cases kv)
  from Cons.prems [of k v] kv have "f v \<longleftrightarrow> (\<exists>x \<in> set (json_subvalues v). p x)" by simp
  moreover note Cons.IH [OF Cons.prems [OF list.set_intros(2)]]
  ultimately show ?case unfolding kv by (simp add: bex_Un) blast
qed simp

lemma deep_any_array:
  assumes "\<And>v. v \<in> set vs \<Longrightarrow> f v \<longleftrightarrow> (\<exists>x \<in> set (json_subvalues v). p x)"
  shows "list_ex f vs \<longleftrightarrow> (\<exists>x \<in> set (concat (map json_subvalues vs)). p x)"
  using assms by (induction vs) auto

fun has_secret_key :: "json \<Rightarrow> bool" where
  "has_secret_key (JObject obj) = list_ex (\<lambda>(k, v). is_secret_key k) obj"
| "has_secret_key _ = False"

fun is_secret_string :: "json \<Rightarrow> bool" where
  "is_secret_string (JString t) = is_secret_text t"
| "is_secret_string _ = False"

lemma secret_keys_deep:
  "contains_secret_key v \<longleftrightarrow> (\<exists>x \<in> set (json_subvalues v). has_secret_key x)"
proof (induction v rule: contains_secret_key.induct)
  case (1 obj)
  from deep_any [of obj contains_secret_key has_secret_key is_secret_key, OF 1] show ?case by simp
next
  case (2 vs)
  from deep_any_array [of vs contains_secret_key has_secret_key, OF 2] show ?case by simp
qed simp_all

lemma secret_values_deep:
  "contains_secret_value v \<longleftrightarrow> (\<exists>x \<in> set (json_subvalues v). is_secret_string x)"
proof (induction v rule: contains_secret_value.induct)
  case (2 obj)
  from deep_any [of obj contains_secret_value is_secret_string "\<lambda>_. False", OF 2] show ?case
    by (simp add: list_ex_iff)
next
  case (3 vs)
  from deep_any_array [of vs contains_secret_value is_secret_string, OF 3] show ?case by simp
qed simp_all

text \<open>No secret at any depth, the invariant of stored configurations.\<close>

definition profile_clean :: "connector_profile_view \<Rightarrow> bool" where
  "profile_clean p \<longleftrightarrow>
     list_all (\<lambda>v. \<not> has_secret_key v \<and> \<not> is_secret_string v) (json_subvalues (cp_config p))"

lemma validated_config_clean:
  assumes "validate_profile_config_for_kind env (cp_config p) kind = Inr ()"
  shows "profile_clean p"
proof -
  from assms have "\<not> contains_secret_key (cp_config p)" "\<not> contains_secret_value (cp_config p)"
    by (auto simp: validate_profile_config_for_kind_def validate_profile_config_def
        split: if_splits sum.splits)
  then show ?thesis
    by (auto simp: profile_clean_def list_all_iff secret_keys_deep secret_values_deep)
qed

lemma read_only_statement:
  assumes "classify_database_statement st = ReadOnly"
  shows "\<not> contains_str (trim st) '';''"
    and "\<exists>w ws. split_whitespace (trim st) = w # ws \<and>
      to_ascii_lowercase w \<in> {''select'', ''show'', ''describe'', ''desc'', ''explain'', ''pragma''} \<and>
      (to_ascii_lowercase w = ''select'' \<longrightarrow> ''into'' \<notin> to_ascii_lowercase ` set ws) \<and>
      (to_ascii_lowercase w = ''explain'' \<longrightarrow> to_ascii_lowercase ` set ws \<inter> set mutating_words = {})"
proof -
  from assms obtain w ws where tok: "split_whitespace (trim st) = w # ws"
    and cl: "classify_tokens (to_ascii_lowercase w) ws = ReadOnly" and semi: "\<not> contains_str (trim st) '';''"
    by (auto simp: classify_database_statement_def Let_def split: if_splits list.splits)
  show "\<not> contains_str (trim st) '';''" by (rule semi)
  have "to_ascii_lowercase w \<in> {''select'', ''show'', ''describe'', ''desc'', ''explain'', ''pragma''}"
    using cl by (auto simp: classify_tokens_def Let_def split: if_splits)
  moreover have "''into'' \<notin> to_ascii_lowercase ` set ws" if "to_ascii_lowercase w = ''select''"
    using cl that by (auto simp: classify_tokens_def Let_def split: if_splits)
  moreover have "to_ascii_lowercase ` set ws \<inter> set mutating_words = {}" if "to_ascii_lowercase w = ''explain''"
    using cl that by (auto simp: classify_tokens_def Let_def list_ex_iff split: if_splits)
  ultimately show "\<exists>w ws. split_whitespace (trim st) = w # ws \<and>
      to_ascii_lowercase w \<in> {''select'', ''show'', ''describe'', ''desc'', ''explain'', ''pragma''} \<and>
      (to_ascii_lowercase w = ''select'' \<longrightarrow> ''into'' \<notin> to_ascii_lowercase ` set ws) \<and>
      (to_ascii_lowercase w = ''explain'' \<longrightarrow> to_ascii_lowercase ` set ws \<inter> set mutating_words = {})"
    using tok by blast
qed

lemma connector_calm:
  "reduce_create_connector_profile env s spec = Inr (s', ev, res) \<Longrightarrow> calm s s'"
  "reduce_update_connector_profile env s p patch = Inr (s', ev, res) \<Longrightarrow> calm s s'"
  "reduce_archive_connector_profile s p = Inr (s', ev, res) \<Longrightarrow> calm s s'"
  unfolding reduce_create_connector_profile_def reduce_update_connector_profile_def
    reduce_archive_connector_profile_def set_profiles_def Let_def
  by (auto intro!: calm_frame split: sum.splits option.splits if_splits)

end
