(* ===== verification/Settings.thy ===== *)
theory Settings
  imports BoardInvariants
begin

text \<open>
  Server settings: \<open>reduce/settings.rs\<close> and \<open>apply_settings_patch\<close> of
  \<open>validate.rs\<close>. The bind address is read with the IP address parser of Rust's standard
  library, which is modelled as its recursive descent: a parser returns the value and the rest
  of the input, and consumes nothing when it fails.
\<close>

section \<open>IP addresses\<close>

type_synonym 'a parser = "string \<Rightarrow> ('a \<times> string) option"

datatype ip_addr = V4 "nat list" | V6 "nat list"

definition to_digit :: "nat \<Rightarrow> char \<Rightarrow> nat option" where
  "to_digit radix c =
     (let a = (of_char c :: nat);
          d = (if 48 \<le> a \<and> a \<le> 57 then a - 48
               else if 97 \<le> a \<and> a \<le> 122 then a - 87
               else if 65 \<le> a \<and> a \<le> 90 then a - 55 else radix) in
      if d < radix then Some d else None)"

fun digits_prefix :: "nat \<Rightarrow> string \<Rightarrow> nat list \<times> string" where
  "digits_prefix radix [] = ([], [])"
| "digits_prefix radix (c # cs) =
     (case to_digit radix c of
        None \<Rightarrow> ([], c # cs)
      | Some d \<Rightarrow> (case digits_prefix radix cs of (ds, rest) \<Rightarrow> (d # ds, rest)))"

text \<open>\<open>read_number(radix, Some(max_digits), allow_zero_prefix)\<close> with the bound of the result type.\<close>

definition read_number :: "nat \<Rightarrow> nat \<Rightarrow> bool \<Rightarrow> nat \<Rightarrow> nat parser" where
  "read_number radix max_digits allow_zero_prefix bound s =
     (case digits_prefix radix s of (ds, rest) \<Rightarrow>
        let n = foldl (\<lambda>acc d. acc * radix + d) 0 ds in
        if ds = [] \<or> max_digits < length ds \<or> bound \<le> n
           \<or> (\<not> allow_zero_prefix \<and> hd ds = 0 \<and> 1 < length ds)
        then None else Some (n, rest))"

definition read_separator :: "char \<Rightarrow> nat \<Rightarrow> 'a parser \<Rightarrow> 'a parser" where
  "read_separator sep index inner s =
     (if index = 0 then inner s
      else case s of
        [] \<Rightarrow> None
      | c # cs \<Rightarrow> if c = sep then inner cs else None)"

fun read_octets :: "nat \<Rightarrow> nat \<Rightarrow> nat list parser" where
  "read_octets i 0 s = Some ([], s)"
| "read_octets i (Suc n) s =
     (case read_separator (CHR ''.'') i (read_number 10 3 False 256) s of
        None \<Rightarrow> None
      | Some (b, rest) \<Rightarrow>
          (case read_octets (Suc i) n rest of
             None \<Rightarrow> None
           | Some (bs, rest') \<Rightarrow> Some (b # bs, rest')))"

definition read_ipv4_addr :: "nat list parser" where
  "read_ipv4_addr s = read_octets 0 4 s"

text \<open>\<open>read_groups\<close>: at most \<open>limit\<close> groups from position \<open>i\<close>; an IPv4 address may stand
  for the last two. The flag says that one was read.\<close>

fun read_groups :: "nat \<Rightarrow> nat \<Rightarrow> string \<Rightarrow> nat list \<times> bool \<times> string" where
  "read_groups i 0 s = ([], False, s)"
| "read_groups i (Suc n) s =
     (case (if 0 < n then read_separator (CHR '':'') i read_ipv4_addr s else None) of
        Some (bs, rest) \<Rightarrow> ([bs ! 0 * 256 + bs ! 1, bs ! 2 * 256 + bs ! 3], True, rest)
      | None \<Rightarrow>
          (case read_separator (CHR '':'') i (read_number 16 4 True 65536) s of
             None \<Rightarrow> ([], False, s)
           | Some (g, rest) \<Rightarrow>
               (case read_groups (Suc i) n rest of
                  (gs, v4, rest') \<Rightarrow> (g # gs, v4, rest'))))"

definition read_ipv6_addr :: "nat list parser" where
  "read_ipv6_addr s =
     (case read_groups 0 8 s of (head, head_v4, rest) \<Rightarrow>
        if length head = 8 then Some (head, rest)
        else if head_v4 then None
        else if \<not> starts_with rest ''::'' then None
        else (case read_groups 0 (8 - (length head + 1)) (drop 2 rest) of (tail, _, rest') \<Rightarrow>
          Some (head @ replicate (8 - length head - length tail) 0 @ tail, rest')))"

definition parse_ip_addr :: "string \<Rightarrow> ip_addr option" where
  \<comment> \<open>\<open>s.parse::<IpAddr>()\<close>: the whole input\<close>
  "parse_ip_addr s =
     (case read_ipv4_addr s of
        Some (bs, rest) \<Rightarrow> if rest = [] then Some (V4 bs) else None
      | None \<Rightarrow>
          (case read_ipv6_addr s of
             Some (gs, rest) \<Rightarrow> if rest = [] then Some (V6 gs) else None
           | None \<Rightarrow> None))"

fun is_loopback :: "ip_addr \<Rightarrow> bool" where
  "is_loopback (V4 bs) = (hd bs = 127)"
| "is_loopback (V6 gs) = (gs = [0, 0, 0, 0, 0, 0, 0, 1])"

section \<open>The patch\<close>

definition clamp_word :: "'a::len word \<Rightarrow> 'a word \<Rightarrow> 'a word \<Rightarrow> 'a word" where
  \<comment> \<open>\<open>value.clamp(lo, hi)\<close>\<close>
  "clamp_word lo hi v = (if v < lo then lo else if hi < v then hi else v)"

definition patch_name :: "server_settings \<Rightarrow> settings_patch \<Rightarrow> server_settings orch_result" where
  "patch_name settings patch =
     (case se_name patch of
        None \<Rightarrow> Inr settings
      | Some name \<Rightarrow>
          if blank name \<or> 128 < length name then Inl (Validation ''server name is invalid'')
          else Inr (settings\<lparr>sv_name := name\<rparr>))"

definition patch_bind :: "server_settings \<Rightarrow> settings_patch \<Rightarrow> server_settings orch_result" where
  "patch_bind settings patch =
     (case se_bind_address patch of
        None \<Rightarrow> Inr settings
      | Some bind \<Rightarrow>
          if blank bind then Inl (Validation ''bind address is empty'')
          else if 256 < length bind \<or> has_control bind then Inl (Validation ''bind address is invalid'')
          else if (case parse_ip_addr bind of None \<Rightarrow> False
                   | Some address \<Rightarrow> \<not> is_loopback address \<and> blank (sv_tls_fingerprint settings))
          then Inl (Validation ''non-loopback binds require a configured TLS identity'')
          else Inr (settings\<lparr>sv_bind_address := bind\<rparr>))"

definition patch_port :: "server_settings \<Rightarrow> settings_patch \<Rightarrow> server_settings orch_result" where
  "patch_port settings patch =
     (case se_port patch of
        None \<Rightarrow> Inr settings
      | Some port \<Rightarrow>
          if port = 0 then Inl (Validation ''port must be non-zero'')
          else Inr (settings\<lparr>sv_port := port\<rparr>))"

definition patch_roots :: "server_settings \<Rightarrow> settings_patch \<Rightarrow> server_settings orch_result" where
  "patch_roots settings patch =
     (case se_allowed_project_roots patch of
        None \<Rightarrow> Inr settings
      | Some roots \<Rightarrow>
          if 64 < length roots \<or> any (\<lambda>r. blank r \<or> 4096 < length r \<or> has_control r) roots
          then Inl (Validation ''allowed project roots are invalid'')
          else Inr (settings\<lparr>sv_allowed_project_roots := roots\<rparr>))"

definition patch_worktree_root :: "server_settings \<Rightarrow> settings_patch \<Rightarrow> server_settings orch_result" where
  "patch_worktree_root settings patch =
     (case se_worktree_root patch of
        None \<Rightarrow> Inr settings
      | Some root \<Rightarrow>
          if 4096 < length root \<or> has_control root then Inl (Validation ''worktree root is invalid'')
          else Inr (settings\<lparr>sv_worktree_root := root\<rparr>))"

definition patch_limits :: "server_settings \<Rightarrow> settings_patch \<Rightarrow> server_settings" where
  "patch_limits settings patch = settings\<lparr>
     sv_max_concurrency := (case se_max_concurrency patch of
        None \<Rightarrow> sv_max_concurrency settings | Some v \<Rightarrow> clamp_word 1 64 v),
     sv_default_budget := set_some (se_default_budget patch) (sv_default_budget settings),
     sv_approval_ttl_seconds := (case se_approval_ttl_seconds patch of
        None \<Rightarrow> sv_approval_ttl_seconds settings | Some v \<Rightarrow> clamp_word 30 86400 v),
     sv_event_retention_days := (case se_event_retention_days patch of
        None \<Rightarrow> sv_event_retention_days settings | Some v \<Rightarrow> clamp_word 1 3650 v),
     sv_terminal_retention_days := (case se_terminal_retention_days patch of
        None \<Rightarrow> sv_terminal_retention_days settings | Some v \<Rightarrow> clamp_word 1 3650 v),
     sv_artifact_retention_days := (case se_artifact_retention_days patch of
        None \<Rightarrow> sv_artifact_retention_days settings | Some v \<Rightarrow> clamp_word 1 3650 v)\<rparr>"

definition patch_supervisor_model :: "server_settings \<Rightarrow> settings_patch \<Rightarrow> server_settings orch_result" where
  "patch_supervisor_model settings patch =
     (if se_clear_supervisor_model patch then Inr (settings\<lparr>sv_supervisor_model := None\<rparr>)
      else case se_supervisor_model patch of
        None \<Rightarrow> Inr settings
      | Some model \<Rightarrow>
          if \<not> valid_optional_agent_text model 256
          then Inl (Validation ''supervisor model is invalid'')
          else Inr (settings\<lparr>sv_supervisor_model := model\<rparr>))"

text \<open>The steps in the order of the source; the first error ends the patch. The caller passes a
  clone of the snapshot, so a failed patch leaves no trace.\<close>

definition and_patch ::
    "(server_settings \<Rightarrow> settings_patch \<Rightarrow> server_settings orch_result) \<Rightarrow> settings_patch
      \<Rightarrow> server_settings orch_result \<Rightarrow> server_settings orch_result" where
  "and_patch f patch r = (case r of Inl e \<Rightarrow> Inl e | Inr settings \<Rightarrow> f settings patch)"

definition apply_settings_patch :: "server_settings \<Rightarrow> settings_patch \<Rightarrow> server_settings orch_result" where
  "apply_settings_patch settings patch =
     and_patch patch_supervisor_model patch
      (and_patch (\<lambda>v p. Inr (patch_limits v p)) patch
        (and_patch patch_worktree_root patch
          (and_patch patch_roots patch
            (and_patch patch_port patch
              (and_patch patch_bind patch (patch_name settings patch))))))"

definition reduce_settings :: "env \<Rightarrow> world \<Rightarrow> command \<Rightarrow> reduction" where
  "reduce_settings env s command =
     (case command of
        Pair _ \<Rightarrow> Inl Forbidden
      | UpdateSettings patch \<Rightarrow>
          if (case se_supervisor_model patch of Some (Some model) \<Rightarrow> blank model | _ \<Rightarrow> False)
          then Inl (Validation ''supervisor model cannot be empty'')
          else
           (case (case (se_clear_supervisor_model patch, se_supervisor_model patch) of
                    (False, Some (Some model)) \<Rightarrow> validate_openrouter_model env (Some model)
                  | _ \<Rightarrow> Inr ()) of
              Inl e \<Rightarrow> Inl e
            | Inr _ \<Rightarrow>
              (case apply_settings_patch (s_server s) patch of
                 Inl e \<Rightarrow> Inl e
               | Inr settings \<Rightarrow> Inr (s\<lparr>s_server := settings\<rparr>, SettingsChanged settings, Accepted)))
      | _ \<Rightarrow> misrouted)"


section \<open>Properties\<close>

text \<open>The values a successful patch can leave behind.\<close>

definition settings_ok :: "server_settings \<Rightarrow> bool" where
  "settings_ok v \<longleftrightarrow>
     1 \<le> sv_max_concurrency v \<and> sv_max_concurrency v \<le> 64 \<and>
     30 \<le> sv_approval_ttl_seconds v \<and> sv_approval_ttl_seconds v \<le> 86400 \<and>
     1 \<le> sv_event_retention_days v \<and> sv_event_retention_days v \<le> 3650 \<and>
     1 \<le> sv_terminal_retention_days v \<and> sv_terminal_retention_days v \<le> 3650 \<and>
     1 \<le> sv_artifact_retention_days v \<and> sv_artifact_retention_days v \<le> 3650 \<and>
     sv_port v \<noteq> 0 \<and> length (sv_allowed_project_roots v) \<le> 64 \<and>
     (\<forall>a. parse_ip_addr (sv_bind_address v) = Some a \<longrightarrow> \<not> is_loopback a \<longrightarrow> \<not> blank (sv_tls_fingerprint v))"

lemma clamp_word_bounds:
  "lo \<le> hi \<Longrightarrow> lo \<le> clamp_word lo hi v \<and> clamp_word lo hi v \<le> hi"
  by (auto simp: clamp_word_def)

lemma patch_steps_ok:
  assumes "settings_ok v"
  shows "patch_name v p = Inr v' \<Longrightarrow> settings_ok v'"
    and "patch_bind v p = Inr v' \<Longrightarrow> settings_ok v'"
    and "patch_port v p = Inr v' \<Longrightarrow> settings_ok v'"
    and "patch_roots v p = Inr v' \<Longrightarrow> settings_ok v'"
    and "patch_worktree_root v p = Inr v' \<Longrightarrow> settings_ok v'"
    and "patch_supervisor_model v p = Inr v' \<Longrightarrow> settings_ok v'"
  using assms
  by (auto simp: settings_ok_def patch_name_def patch_bind_def patch_port_def patch_roots_def
      patch_worktree_root_def patch_supervisor_model_def split: option.splits if_splits)

lemma patch_limits_ok: "settings_ok v \<Longrightarrow> settings_ok (patch_limits v p)"
  by (auto simp: settings_ok_def patch_limits_def clamp_word_bounds split: option.splits)

lemma and_patch_ok:
  "and_patch f p r = Inr v \<Longrightarrow> (\<And>u. r = Inr u \<Longrightarrow> settings_ok u) \<Longrightarrow>
   (\<And>u v. settings_ok u \<Longrightarrow> f u p = Inr v \<Longrightarrow> settings_ok v) \<Longrightarrow> settings_ok v"
  by (cases r) (auto simp: and_patch_def)

lemma apply_settings_patch_ok:
  assumes "apply_settings_patch v p = Inr v'" "settings_ok v"
  shows "settings_ok v'"
  using assms(1) unfolding apply_settings_patch_def
  by (rule and_patch_ok, (elim and_patch_ok)?)
    (auto elim!: and_patch_ok intro: patch_steps_ok [OF assms(2)] patch_steps_ok patch_limits_ok)

lemma settings_calm: "reduce_settings env s c = Inr (s', ev, res) \<Longrightarrow> calm s s'"
  by (auto simp: reduce_settings_def misrouted_def intro!: calm_frame
      split: command.splits option.splits sum.splits if_splits prod.splits bool.splits)

text \<open>The dotted text of an IPv4 address reads back as the address.\<close>

fun show_octets :: "nat list \<Rightarrow> string" where
  "show_octets [] = []"
| "show_octets [b] = show_nat b"
| "show_octets (b # bs) = show_nat b @ ''.'' @ show_octets bs"

lemma to_digit_char: "d < 10 \<Longrightarrow> to_digit 10 (char_of (48 + d)) = Some d"
  by (simp add: to_digit_def Let_def of_char_of)

lemma digits_prefix_map:
  assumes "list_all (\<lambda>d. d < 10) ds" "rest = [] \<or> to_digit 10 (hd rest) = None"
  shows "digits_prefix 10 (map (\<lambda>d. char_of (48 + d)) ds @ rest) = (ds, rest)"
  using assms by (induction ds) (cases rest; auto simp: to_digit_char)+

lemma show_nat_octet:
  assumes "n < 256"
  obtains ds where "show_nat n = map (\<lambda>d. char_of (48 + d)) ds" "list_all (\<lambda>d. d < 10) ds" "ds \<noteq> []"
    "length ds \<le> 3" "foldl (\<lambda>acc d. acc * 10 + d) 0 ds = n" "hd ds = 0 \<longrightarrow> length ds = 1"
proof -
  consider "n < 10" | "10 \<le> n" "n < 100" | "100 \<le> n" by linarith
  then show ?thesis
  proof cases
    case 1
    then show ?thesis by (intro that [of "[n]"]) (simp_all add: show_nat.simps)
  next
    case 2
    then have "n div 10 < 10" by simp
    with 2 show ?thesis
      by (intro that [of "[n div 10, n mod 10]"]) (simp_all add: show_nat.simps [of n] show_nat.simps [of "n div 10"])
  next
    case 3
    define q p where "q = n div 10" and "p = q div 10"
    then have n: "n = 10 * q + n mod 10" "q = 10 * p + q mod 10" by (simp_all only: mult_div_mod_eq)
    with 3 assms have b: "\<not> q < 10" "p < 10" "p \<noteq> 0" by linarith+
    then have "show_nat n = map (\<lambda>d. char_of (48 + d)) [p, q mod 10, n mod 10]"
      using 3 by (simp add: show_nat.simps [of n] show_nat.simps [of q] show_nat.simps [of p] flip: q_def p_def)
    moreover have "foldl (\<lambda>acc d. acc * 10 + d) 0 [p, q mod 10, n mod 10] = n"
    proof -
      have "p * 10 + q mod 10 = q" "q * 10 + n mod 10 = n" using n by linarith+
      then show ?thesis by simp
    qed
    ultimately show ?thesis using b by (intro that [of "[p, q mod 10, n mod 10]"]) simp_all
  qed
qed

lemma read_number_octet:
  assumes "n < 256" "rest = [] \<or> to_digit 10 (hd rest) = None"
  shows "read_number 10 3 False 256 (show_nat n @ rest) = Some (n, rest)"
proof -
  obtain ds where ds: "show_nat n = map (\<lambda>d. char_of (48 + d)) ds" "list_all (\<lambda>d. d < 10) ds" "ds \<noteq> []"
    "length ds \<le> 3" "foldl (\<lambda>acc d. acc * 10 + d) 0 ds = n" "hd ds = 0 \<longrightarrow> length ds = 1"
    using show_nat_octet [OF assms(1)] by blast
  from digits_prefix_map [OF ds(2) assms(2)] ds assms(1) show ?thesis
    by (auto simp: read_number_def Let_def)
qed

lemma parse_ipv4_show:
  assumes "a < 256" "b < 256" "c < 256" "d < 256"
  shows "parse_ip_addr (show_octets [a, b, c, d]) = Some (V4 [a, b, c, d])"
proof -
  have dot: "to_digit 10 CHR ''.'' = None" by (simp add: to_digit_def Let_def)
  have "read_ipv4_addr (show_octets [a, b, c, d]) = Some ([a, b, c, d], [])"
    using read_number_octet [OF assms(1), of "''.'' @ show_octets [b, c, d]"]
      read_number_octet [OF assms(2), of "''.'' @ show_octets [c, d]"]
      read_number_octet [OF assms(3), of "''.'' @ show_octets [d]"]
      read_number_octet [OF assms(4), of "[]"] dot
    by (simp add: read_ipv4_addr_def read_separator_def numeral_eq_Suc)
  then show ?thesis by (simp add: parse_ip_addr_def)
qed

end
