(* ===== verification/Updates.thy ===== *)
theory Updates
  imports BoardInvariants
begin

text \<open>
  Self-update: manifest checks of \<open>frank-update/src/lib.rs\<close>, target selection of
  \<open>update_flow.rs\<close> and the command handlers of \<open>reduce/update.rs\<close>.

  Fetching and checking the signature is network and cryptography; its result is the parameter
  \<open>e_update_manifest\<close>. The JSON payloads of the two operation kinds are encoded and decoded by
  parameters.
\<close>

section \<open>Versions\<close>

record version =
  ver_major :: nat
  ver_minor :: nat
  ver_patch :: nat
  ver_suffix :: string

fun split_char :: "char \<Rightarrow> string \<Rightarrow> string list" where
  \<comment> \<open>\<open>s.split(c)\<close>\<close>
  "split_char d [] = [[]]"
| "split_char d (c # cs) =
     (if c = d then [] # split_char d cs
      else case split_char d cs of [] \<Rightarrow> [[c]] | w # ws \<Rightarrow> (c # w) # ws)"

fun split_once :: "char \<Rightarrow> string \<Rightarrow> (string \<times> string) option" where
  "split_once d [] = None"
| "split_once d (c # cs) =
     (if c = d then Some ([], cs)
      else map_option (\<lambda>(a, b). (c # a, b)) (split_once d cs))"

datatype update_error =
    InvalidSignature
  | UnsupportedSchema u16
  | InvalidVersion string
  | InvalidArtifact
  | DigestMismatch
  | SizeMismatch
  | Downgrade string string

definition strip_v :: "string \<Rightarrow> string" where
  "strip_v value = (if starts_with value ''v'' then drop 1 value else value)"

definition parse_version :: "string \<Rightarrow> update_error + version" where
  "parse_version raw =
     (let value = strip_v raw;
          (numbers, suffix) = (case split_once (CHR ''-'') value of None \<Rightarrow> (value, []) | Some p \<Rightarrow> p);
          bad = Inl (InvalidVersion value) in
      case split_char (CHR ''.'') numbers of
        [a, b, c] \<Rightarrow>
          (case (parse_uint 64 a, parse_uint 64 b, parse_uint 64 c) of
             (Some x, Some y, Some z) \<Rightarrow>
               Inr \<lparr>ver_major = x, ver_minor = y, ver_patch = z, ver_suffix = suffix\<rparr>
           | _ \<Rightarrow> bad)
      | _ \<Rightarrow> bad)"

text \<open>The derived order: lexicographic in the order of the fields, the suffix as bytes.\<close>

definition version_less :: "version \<Rightarrow> version \<Rightarrow> bool" where
  "version_less a b \<longleftrightarrow>
     ver_major a < ver_major b \<or> (ver_major a = ver_major b \<and>
      (ver_minor a < ver_minor b \<or> (ver_minor a = ver_minor b \<and>
       (ver_patch a < ver_patch b \<or> (ver_patch a = ver_patch b \<and> ver_suffix a < ver_suffix b)))))"

definition show_version :: "version \<Rightarrow> string" where
  "show_version v =
     (let core = show_nat (ver_major v) @ ''.'' @ show_nat (ver_minor v) @ ''.'' @ show_nat (ver_patch v) in
      if ver_suffix v = [] then core else core @ ''-'' @ ver_suffix v)"

section \<open>Manifests and artifacts\<close>

definition MANIFEST_SCHEMA_VERSION :: u16 where "MANIFEST_SCHEMA_VERSION = 1"
definition MAX_UPDATE_ARTIFACT_BYTES :: u64 where "MAX_UPDATE_ARTIFACT_BYTES = 256 * 1024 * 1024"

definition artifact_ok :: "update_artifact \<Rightarrow> bool" where
  "artifact_ok a \<longleftrightarrow>
     \<not> blank (ua_target a) \<and> \<not> blank (ua_package_kind a) \<and> starts_with (ua_url a) ''https://''
     \<and> ua_size a \<le> MAX_UPDATE_ARTIFACT_BYTES \<and> length (ua_sha256 a) = 64
     \<and> list_all is_ascii_hexdigit (ua_sha256 a)"

definition validate_manifest :: "update_manifest \<Rightarrow> update_error + unit" where
  "validate_manifest m =
     (if um_schema_version m \<noteq> MANIFEST_SCHEMA_VERSION then Inl (UnsupportedSchema (um_schema_version m))
      else case parse_version (um_frank_version m) of
        Inl e \<Rightarrow> Inl e
      | Inr release_version \<Rightarrow>
        (case parse_version (um_minimum_rollback_version m) of
           Inl e \<Rightarrow> Inl e
         | Inr rollback_version \<Rightarrow>
           if version_less release_version rollback_version
           then Inl (InvalidVersion ''minimum rollback version is newer than the release'')
           else if um_protocol_min m = 0 \<or> um_protocol_max m < um_protocol_min m then Inl InvalidArtifact
           else if blank (um_key_id m) \<or> blank (um_release_notes_url m)
              \<or> \<not> starts_with (um_release_notes_url m) ''https://'' \<or> um_artifacts m = []
           then Inl InvalidArtifact
           else if \<not> list_all artifact_ok (um_artifacts m) then Inl InvalidArtifact
           else Inr ()))"

definition accepts_protocol :: "update_manifest \<Rightarrow> u16 \<Rightarrow> bool" where
  "accepts_protocol m v \<longleftrightarrow> um_protocol_min m \<le> v \<and> v \<le> um_protocol_max m"

definition rejects_downgrade_from :: "update_manifest \<Rightarrow> string \<Rightarrow> update_error + unit" where
  "rejects_downgrade_from m current =
     (case parse_version current of
        Inl e \<Rightarrow> Inl e
      | Inr cur \<Rightarrow>
        (case parse_version (um_frank_version m) of
           Inl e \<Rightarrow> Inl e
         | Inr candidate \<Rightarrow>
             if version_less candidate cur then Inl (Downgrade (show_version cur) (show_version candidate))
             else Inr ()))"

definition verify_artifact_bytes :: "env \<Rightarrow> update_artifact \<Rightarrow> string \<Rightarrow> update_error + unit" where
  \<comment> \<open>\<open>e_sha256\<close> is \<open>hex::encode(Sha256::digest(bytes))\<close>\<close>
  "verify_artifact_bytes env a bytes =
     (if MAX_UPDATE_ARTIFACT_BYTES < ua_size a then Inl InvalidArtifact
      else if (of_nat (length bytes) :: u64) \<noteq> ua_size a then Inl SizeMismatch
      else if \<not> eq_ignore_ascii_case (e_sha256 env bytes) (ua_sha256 a) then Inl DigestMismatch
      else Inr ())"

definition sanitize_component :: "string \<Rightarrow> string" where
  "sanitize_component value =
     (let kept = filter (\<lambda>c. is_ascii_alphanumeric [c] \<or> c = CHR ''-'' \<or> c = CHR ''_'') value in
      if kept = [] then ''artifact'' else kept)"

definition staged_artifact_path :: "update_artifact \<Rightarrow> string \<Rightarrow> string" where
  "staged_artifact_path a staging_root =
     path_join staging_root (sanitize_component (ua_target a) @ ''-'' @ ua_sha256 a @ ''.staged'')"

section \<open>Target selection\<close>

definition current_update_target :: "env \<Rightarrow> string" where
  "current_update_target env =
     e_arch env @ ''-'' @
       (if e_os env = ''macos'' then ''apple-darwin''
        else if e_os env = ''windows'' then ''pc-windows-msvc''
        else if e_os env = ''linux'' then ''unknown-linux-gnu'' else e_os env)"

definition current_update_package_kind :: "env \<Rightarrow> string" where
  "current_update_package_kind env =
     (if e_os env = ''macos'' then ''dmg'' else if e_os env = ''windows'' then ''msi'' else ''tar.gz'')"

definition select_update_artifact :: "update_manifest \<Rightarrow> string \<Rightarrow> string \<Rightarrow> update_artifact option" where
  "select_update_artifact m target package_kind =
     find (\<lambda>a. ua_target a = target \<and> ua_package_kind a = package_kind) (um_artifacts m)"

definition env_or :: "env \<Rightarrow> string \<Rightarrow> string \<Rightarrow> string" where
  "env_or env name fallback = (case e_env_var env name of Some v \<Rightarrow> v | None \<Rightarrow> fallback)"

section \<open>Handlers\<close>

text \<open>The projection of the fetch result into the update record.\<close>

definition project_manifest :: "env \<Rightarrow> update_view \<Rightarrow> update_view" where
  "project_manifest env update =
     (case e_update_manifest env of
        Inl _ \<Rightarrow> update\<lparr>uv_state := update_state.Failed,
                   uv_error := Some ''update manifest verification failed'', uv_checked_at := e_now env\<rparr>
      | Inr m \<Rightarrow>
          (let target = env_or env ''FRANK_UPDATE_TARGET'' (current_update_target env);
               package_kind = env_or env ''FRANK_UPDATE_PACKAGE_KIND'' (current_update_package_kind env);
               compatible = accepts_protocol m PROTOCOL_VERSION
                 \<and> rejects_downgrade_from m (e_package_version env) = Inr () in
           case select_update_artifact m target package_kind of
             Some a \<Rightarrow>
               if compatible
               then update\<lparr>uv_version := um_frank_version m, uv_target := ua_target a, uv_size := ua_size a,
                      uv_sha256 := ua_sha256 a, uv_state := update_state.Available, uv_error := None,
                      uv_checked_at := e_now env\<rparr>
               else update\<lparr>uv_state := update_state.Failed,
                      uv_error := Some ''update manifest is incompatible with this host'',
                      uv_checked_at := e_now env\<rparr>
           | None \<Rightarrow> update\<lparr>uv_state := update_state.Failed,
                      uv_error := Some ''update manifest is incompatible with this host'',
                      uv_checked_at := e_now env\<rparr>))"

text \<open>\<open>unwrap_or\<close> evaluates the default, so the id is drawn even when an update is present.\<close>

definition reduce_check_for_update :: "env \<Rightarrow> world \<Rightarrow> reduction" where
  "reduce_check_for_update env s =
     (let fresh = \<lparr>uv_id = UpdateId (next_uuid env s), uv_version = e_package_version env,
            uv_state = update_state.Idle, uv_target = [], uv_size = 0, uv_sha256 = [], uv_error = None,
            uv_checked_at = e_now env\<rparr>;
          update = project_manifest env (case s_update s of Some u \<Rightarrow> u | None \<Rightarrow> fresh) in
      Inr ((drew s)\<lparr>s_update := Some update\<rparr>, UpdateStateChanged update, Update update))"

definition stages :: "env \<Rightarrow> update_id \<Rightarrow> operation_view \<Rightarrow> bool" where
  "stages env i x \<longleftrightarrow>
     op_kind x = operation_kind.StageUpdate \<and> e_stage_decode env (op_resource x) = Some i"

definition reduce_prepare_update :: "env \<Rightarrow> world \<Rightarrow> string \<Rightarrow> reduction" where
  "reduce_prepare_update env s version =
     (if blank version \<or> 64 < length version then Inl (Validation ''update version is invalid'')
      else case s_update s of
        None \<Rightarrow> Inl (Validation ''no verified update manifest is available for this version'')
      | Some update \<Rightarrow>
        if uv_version update \<noteq> version
        then Inl (Validation ''no verified update manifest is available for this version'')
        else if uv_state update \<notin> {update_state.Available, update_state.Failed} then
          (case (if uv_state update = update_state.Staged
                 then find (\<lambda>x. stages env (uv_id update) x \<and> op_status x = operation_status.Succeeded)
                        (s_operations s)
                 else None) of
             Some operation \<Rightarrow> Inr (s, OperationChanged operation, Operation operation)
           | None \<Rightarrow> Inl (InvalidTransition ''update is not available for staging''))
        else case find (\<lambda>x. stages env (uv_id update) x
                   \<and> op_status x \<notin> {operation_status.Failed, operation_status.Cancelled}) (s_operations s) of
          Some operation \<Rightarrow> Inr (s, OperationChanged operation, Operation operation)
        | None \<Rightarrow>
            (case e_stage_encode env (uv_id update) of
               Inl e \<Rightarrow> Inl (Validation e)
             | Inr resource \<Rightarrow>
                 (let operation = queued_operation env operation_kind.StageUpdate (next_uuid env s) resource ''queued'' in
                  Inr ((drew s)\<lparr>s_operations := s_operations s @ [operation]\<rparr>,
                       OperationChanged operation, Operation operation))))"

fun update_uuid :: "update_id \<Rightarrow> uuid" where
  "update_uuid (UpdateId u) = u"

text \<open>\<open>find ... unwrap_or_else(push)\<close>: the live host operation of the update or a new one.\<close>

definition host_operation ::
    "env \<Rightarrow> world \<Rightarrow> update_id \<Rightarrow> host_update_action \<Rightarrow> string \<Rightarrow> world \<times> operation_view" where
  "host_operation env s update_id action phase =
     (case find (\<lambda>x. op_kind x = operation_kind.HostUpdate
                \<and> e_host_decode env (op_resource x) = Some (update_id, action)
                \<and> \<not> operation_is_settled x) (s_operations s) of
        Some operation \<Rightarrow> (s, operation)
      | None \<Rightarrow>
          (let resource = (case e_host_encode env update_id action of
                 Some r \<Rightarrow> r | None \<Rightarrow> e_uuid_text env (update_uuid update_id));
               operation = queued_operation env operation_kind.HostUpdate (next_uuid env s) resource phase in
           ((drew s)\<lparr>s_operations := s_operations s @ [operation]\<rparr>, operation)))"

definition reduce_apply_update :: "env \<Rightarrow> world \<Rightarrow> update_id \<Rightarrow> reduction" where
  "reduce_apply_update env s update_id =
     (case s_update s of
        None \<Rightarrow> Inl NotFound
      | Some current \<Rightarrow>
        if uv_id current \<noteq> update_id then Inl NotFound
        else if uv_state current \<noteq> update_state.Staged
        then Inl (InvalidTransition ''only a staged update can be applied'')
        else
         (let update = current\<lparr>uv_state := update_state.Applying, uv_checked_at := e_now env\<rparr>;
              (s1, operation) = host_operation env (s\<lparr>s_update := Some update\<rparr>) update_id Apply ''queued'' in
          Inr (s1, UpdateStateChanged update, Operation operation)))"

definition reduce_rollback_update :: "env \<Rightarrow> world \<Rightarrow> reduction" where
  "reduce_rollback_update env s =
     (case s_update s of
        None \<Rightarrow> Inl NotFound
      | Some current \<Rightarrow>
        if uv_state current \<notin> {update_state.Applying, update_state.Failed}
        then Inl (InvalidTransition ''no failed or applying update can be rolled back'')
        else
         (let update = current\<lparr>uv_state := update_state.Applying, uv_error := Some ''rollback queued'',
                uv_checked_at := e_now env\<rparr>;
              (s1, operation) = host_operation env (s\<lparr>s_update := Some update\<rparr>) (uv_id update) Rollback
                ''rollback-queued'' in
          Inr (s1, UpdateStateChanged update, Operation operation)))"

definition reduce_update :: "env \<Rightarrow> world \<Rightarrow> command \<Rightarrow> reduction" where
  "reduce_update env s command =
     (case command of
        CheckForUpdate \<Rightarrow> reduce_check_for_update env s
      | PrepareUpdate version \<Rightarrow> reduce_prepare_update env s version
      | ApplyUpdate update_id \<Rightarrow> reduce_apply_update env s update_id
      | RollbackUpdate \<Rightarrow> reduce_rollback_update env s
      | _ \<Rightarrow> misrouted)"

section \<open>Properties\<close>

lemma update_calm: "reduce_update env s c = Inr (s', ev, res) \<Longrightarrow> calm s s'"
  unfolding reduce_update_def reduce_check_for_update_def reduce_prepare_update_def reduce_apply_update_def
    reduce_rollback_update_def host_operation_def misrouted_def Let_def
  by (auto intro!: calm_frame split: command.splits option.splits sum.splits if_splits prod.splits)

lemma version_less_irrefl: "\<not> version_less v v"
  by (simp add: version_less_def)

lemma version_less_trans: "version_less a b \<Longrightarrow> version_less b c \<Longrightarrow> version_less a c"
  by (auto simp: version_less_def)

lemma version_less_linear: "version_less a b \<or> a = b \<or> version_less b a"
  by (cases a, cases b) (auto simp: version_less_def)

text \<open>An available update passed every compatibility check.\<close>

lemma project_manifest_available:
  assumes "uv_state (project_manifest env u) = update_state.Available"
  shows "\<exists>m a. e_update_manifest env = Inr m \<and> accepts_protocol m PROTOCOL_VERSION \<and>
    rejects_downgrade_from m (e_package_version env) = Inr () \<and> a \<in> set (um_artifacts m) \<and>
    ua_target a = env_or env ''FRANK_UPDATE_TARGET'' (current_update_target env) \<and>
    ua_package_kind a = env_or env ''FRANK_UPDATE_PACKAGE_KIND'' (current_update_package_kind env) \<and>
    project_manifest env u = u\<lparr>uv_version := um_frank_version m, uv_target := ua_target a, uv_size := ua_size a,
      uv_sha256 := ua_sha256 a, uv_state := update_state.Available, uv_error := None, uv_checked_at := e_now env\<rparr>"
proof -
  from assms obtain m a where m: "e_update_manifest env = Inr m"
    and a: "select_update_artifact m (env_or env ''FRANK_UPDATE_TARGET'' (current_update_target env))
      (env_or env ''FRANK_UPDATE_PACKAGE_KIND'' (current_update_package_kind env)) = Some a"
    and ok: "accepts_protocol m PROTOCOL_VERSION" "rejects_downgrade_from m (e_package_version env) = Inr ()"
    by (auto simp: project_manifest_def Let_def split: sum.splits option.splits if_splits)
  from find_SomeD [OF a [unfolded select_update_artifact_def]] m a ok show ?thesis
    by (intro exI [of _ m] exI [of _ a]) (simp add: project_manifest_def Let_def)
qed

lemma sanitize_component_safe:
  "CHR ''/'' \<notin> set (sanitize_component v)" "CHR ''.'' \<notin> set (sanitize_component v)" "sanitize_component v \<noteq> []"
  by (auto simp: sanitize_component_def Let_def is_ascii_alphanumeric_def)

end
