(* ===== verification/Orchestrator.thy ===== *)
theory Orchestrator
  imports Connectors Settings Updates
begin

text \<open>
  The command path: authorization (\<open>validate.rs\<close>), the dispatch \<open>reduce\<close> and
  \<open>apply\<close> (\<open>approval_flow.rs\<close>), the transactional commit
  (\<open>frank-store/src/commit.rs\<close>) and \<open>execute\<close> (\<open>lib.rs\<close>).

  \<open>store\<close> is the database as far as the commit path uses it: the \<open>server_state\<close> row, the
  event log, the audit outbox and the table of answered commands. The row keeps the revision
  and the sequence number as signed 64-bit columns. The snapshot of the row is held together
  with the daemon's memory (\<open>world\<close>); a commit that fails leaves the row alone and the
  memory changed. SQLite is assumed to run a transaction without I/O errors, and the
  projection tables and the journal, which no modelled code reads, are left out.
\<close>

section \<open>Authorization\<close>

definition agent_command :: "command \<Rightarrow> bool" where
  "agent_command c \<longleftrightarrow>
     (case c of
        UpdateTask _ _ \<Rightarrow> True | CreateTask _ \<Rightarrow> True | SetTaskStatus _ _ \<Rightarrow> True
      | AssignTask _ _ \<Rightarrow> True | ClaimTask _ _ _ \<Rightarrow> True | TaskAccept _ \<Rightarrow> True
      | DecideReview _ _ _ \<Rightarrow> True | ReleaseTask _ \<Rightarrow> True | AddTaskComment _ _ _ \<Rightarrow> True
      | SendMessage _ \<Rightarrow> True | AckMessage _ \<Rightarrow> True | CompleteMessage _ _ \<Rightarrow> True
      | RequestApproval _ \<Rightarrow> True | ProposeMemory _ _ _ \<Rightarrow> True | ReadMemory _ _ \<Rightarrow> True
      | PublishArtifact _ \<Rightarrow> True | BeginArtifactUpload _ \<Rightarrow> True | FinalizeArtifactUpload _ _ _ \<Rightarrow> True
      | CreateWorkItem _ \<Rightarrow> True | DropWorkItem _ _ _ \<Rightarrow> True | SpawnChildWorkItems _ _ \<Rightarrow> True
      | RespondWorkOffer _ _ \<Rightarrow> True | RequestHumanInput _ _ _ \<Rightarrow> True | RequestTaskRework _ _ \<Rightarrow> True
      | _ \<Rightarrow> False)"

definition owner_only :: "command \<Rightarrow> bool" where
  "owner_only c \<longleftrightarrow>
     (case c of
        UpdateSettings _ \<Rightarrow> True | CreateProject _ \<Rightarrow> True | CloneProject _ _ \<Rightarrow> True
      | ArchiveProject _ \<Rightarrow> True | CreateAgent _ \<Rightarrow> True | UpdateAgent _ _ \<Rightarrow> True | ArchiveAgent _ \<Rightarrow> True
      | CreateRole _ \<Rightarrow> True | UpdateRole _ _ \<Rightarrow> True | ArchiveRole _ \<Rightarrow> True | SetAgentRole _ _ \<Rightarrow> True
      | CreateTaskboard _ \<Rightarrow> True | UpdateTaskboard _ _ \<Rightarrow> True | ArchiveTaskboard _ \<Rightarrow> True
      | SaveOrganizationDraft _ _ \<Rightarrow> True | PublishOrganization _ \<Rightarrow> True
      | CreateConnectorProfile _ \<Rightarrow> True | UpdateConnectorProfile _ _ \<Rightarrow> True | ArchiveConnectorProfile _ \<Rightarrow> True
      | PrepareUpdate _ \<Rightarrow> True | ApplyUpdate _ \<Rightarrow> True | RollbackUpdate \<Rightarrow> True
      | RequestOrganizationDrain _ \<Rightarrow> True | ResumeOrganization _ \<Rightarrow> True | FireAgent _ _ \<Rightarrow> True
      | GrantTaskAccess _ _ _ _ _ \<Rightarrow> True | RevokeTaskGrant _ \<Rightarrow> True
      | _ \<Rightarrow> False)"

definition is_pair :: "command \<Rightarrow> bool" where
  "is_pair c \<longleftrightarrow> (case c of Pair _ \<Rightarrow> True | _ \<Rightarrow> False)"

definition authorize :: "command \<Rightarrow> actor_kind \<Rightarrow> device_role \<Rightarrow> unit orch_result" where
  "authorize command kind role =
     (if is_pair command then Inr ()
      else if kind = actor_kind.System then Inr ()
      else if kind = actor_kind.Agent \<and> \<not> agent_command command then Inl Forbidden
      else if \<not> can_mutate role then Inl Forbidden
      else if owner_only command \<and> \<not> can_admin role then Inl Forbidden
      else Inr ())"

section \<open>Dispatch\<close>

definition reduce_project :: "env \<Rightarrow> world \<Rightarrow> command \<Rightarrow> reduction" where
  "reduce_project env s command =
     (case command of
        CreateProject spec \<Rightarrow> reduce_create_project env s spec
      | CloneProject url destination \<Rightarrow> reduce_clone_project env s url destination
      | ArchiveProject project_id \<Rightarrow> reduce_archive_project s project_id
      | _ \<Rightarrow> misrouted)"

definition reduce_agent :: "env \<Rightarrow> world \<Rightarrow> command \<Rightarrow> reduction" where
  "reduce_agent env s command =
     (case command of
        CreateAgent spec \<Rightarrow> reduce_create_agent env s spec
      | UpdateAgent agent_id patch \<Rightarrow> reduce_update_agent env s agent_id patch
      | ArchiveAgent agent_id \<Rightarrow> reduce_archive_agent s agent_id
      | _ \<Rightarrow> misrouted)"

definition reduce_role :: "env \<Rightarrow> world \<Rightarrow> command \<Rightarrow> reduction" where
  "reduce_role env s command =
     (case command of
        CreateRole spec \<Rightarrow> reduce_create_role env s spec
      | UpdateRole role_id patch \<Rightarrow> reduce_update_role env s role_id patch
      | ArchiveRole role_id \<Rightarrow> reduce_archive_role s role_id
      | SetAgentRole agent_id role_id \<Rightarrow> reduce_set_agent_role s agent_id role_id
      | _ \<Rightarrow> misrouted)"

definition reduce_memory :: "env \<Rightarrow> world \<Rightarrow> command \<Rightarrow> actor_ref \<Rightarrow> reduction" where
  "reduce_memory env s command actor =
     (case command of
        ProposeMemory agent_id path content \<Rightarrow> reduce_propose_memory env s agent_id path content actor
      | ReadMemory agent_id path \<Rightarrow> reduce_read_memory env s agent_id path actor
      | _ \<Rightarrow> misrouted)"

definition reduce_artifact :: "env \<Rightarrow> world \<Rightarrow> command \<Rightarrow> reduction" where
  "reduce_artifact env s command =
     (case command of
        PublishArtifact spec \<Rightarrow> reduce_publish_artifact env s spec
      | BeginArtifactUpload spec \<Rightarrow> reduce_begin_artifact_upload env s spec
      | FinalizeArtifactUpload upload_id sha256 bytes \<Rightarrow> reduce_finalize_artifact_upload env s upload_id sha256 bytes
      | _ \<Rightarrow> misrouted)"

definition reduce_operation :: "env \<Rightarrow> world \<Rightarrow> command \<Rightarrow> reduction" where
  "reduce_operation env s command =
     (case command of
        CancelOperation operation_id \<Rightarrow> reduce_cancel_operation env s operation_id
      | RetryOperation operation_id \<Rightarrow> reduce_retry_operation env s operation_id
      | _ \<Rightarrow> misrouted)"

datatype domain = DSettings | DProject | DAgent | DRole | DWorkflow | DOrganization | DMission | DTask
  | DMessage | DApproval | DMemory | DArtifact | DTerminal | DOperation | DUpdate

definition domain_of :: "command \<Rightarrow> domain" where
  "domain_of c =
     (case c of
        Pair _ \<Rightarrow> DSettings | UpdateSettings _ \<Rightarrow> DSettings
      | CreateProject _ \<Rightarrow> DProject | CloneProject _ _ \<Rightarrow> DProject | ArchiveProject _ \<Rightarrow> DProject
      | CreateAgent _ \<Rightarrow> DAgent | UpdateAgent _ _ \<Rightarrow> DAgent | ArchiveAgent _ \<Rightarrow> DAgent
      | FireAgent _ _ \<Rightarrow> DWorkflow
      | CreateRole _ \<Rightarrow> DRole | UpdateRole _ _ \<Rightarrow> DRole | ArchiveRole _ \<Rightarrow> DRole | SetAgentRole _ _ \<Rightarrow> DRole
      | CreateTaskboard _ \<Rightarrow> DWorkflow | UpdateTaskboard _ _ \<Rightarrow> DWorkflow | ArchiveTaskboard _ \<Rightarrow> DWorkflow
      | CreateWorkItem _ \<Rightarrow> DWorkflow | DropWorkItem _ _ _ \<Rightarrow> DWorkflow | SpawnChildWorkItems _ _ \<Rightarrow> DWorkflow
      | CreateWorkOffer _ _ \<Rightarrow> DWorkflow | RespondWorkOffer _ _ \<Rightarrow> DWorkflow
      | RequestHumanInput _ _ _ \<Rightarrow> DWorkflow | ResolveHumanInput _ _ \<Rightarrow> DWorkflow
      | RequestTaskRework _ _ \<Rightarrow> DWorkflow | RequestOrganizationDrain _ \<Rightarrow> DWorkflow
      | CompleteOrganizationDrain _ \<Rightarrow> DWorkflow | ResumeOrganization _ \<Rightarrow> DWorkflow
      | RelocateWorkItems _ _ _ _ \<Rightarrow> DWorkflow
      | SaveOrganizationDraft _ _ \<Rightarrow> DOrganization | PublishOrganization _ \<Rightarrow> DOrganization
      | CreateConnectorProfile _ \<Rightarrow> DOrganization | UpdateConnectorProfile _ _ \<Rightarrow> DOrganization
      | ArchiveConnectorProfile _ \<Rightarrow> DOrganization
      | CreateMission _ _ \<Rightarrow> DMission | SetMissionStatus _ _ \<Rightarrow> DMission | RetryMissionPlan _ \<Rightarrow> DMission
      | PauseMission _ \<Rightarrow> DMission | ResumeMission _ \<Rightarrow> DMission | DeliverMission _ \<Rightarrow> DMission
      | SubmitSupervisorPlan _ _ \<Rightarrow> DMission
      | CreateTask _ \<Rightarrow> DTask | UpdateTask _ _ \<Rightarrow> DTask | SetTaskStatus _ _ \<Rightarrow> DTask | AssignTask _ _ \<Rightarrow> DTask
      | ClaimTask _ _ _ \<Rightarrow> DTask | ReleaseTask _ \<Rightarrow> DTask | AddTaskComment _ _ _ \<Rightarrow> DTask | TaskAccept _ \<Rightarrow> DTask
      | DecideReview _ _ _ \<Rightarrow> DTask
      | SendMessage _ \<Rightarrow> DMessage | AckMessage _ \<Rightarrow> DMessage | CompleteMessage _ _ \<Rightarrow> DMessage
      | RequestApproval _ \<Rightarrow> DApproval | DecideApproval _ _ \<Rightarrow> DApproval | GrantTaskAccess _ _ _ _ _ \<Rightarrow> DApproval
      | RevokeTaskGrant _ \<Rightarrow> DApproval | AdjustBudget _ _ _ \<Rightarrow> DApproval
      | ProposeMemory _ _ _ \<Rightarrow> DMemory | ReadMemory _ _ \<Rightarrow> DMemory
      | PublishArtifact _ \<Rightarrow> DArtifact | BeginArtifactUpload _ \<Rightarrow> DArtifact | FinalizeArtifactUpload _ _ _ \<Rightarrow> DArtifact
      | OpenTerminal _ _ _ \<Rightarrow> DTerminal | TakeControl _ \<Rightarrow> DTerminal | RenewControl _ _ \<Rightarrow> DTerminal
      | ReleaseControl _ _ \<Rightarrow> DTerminal | CloseTerminal _ \<Rightarrow> DTerminal
      | CancelOperation _ \<Rightarrow> DOperation | RetryOperation _ \<Rightarrow> DOperation
      | CheckForUpdate \<Rightarrow> DUpdate | PrepareUpdate _ \<Rightarrow> DUpdate | ApplyUpdate _ \<Rightarrow> DUpdate | RollbackUpdate \<Rightarrow> DUpdate)"

definition reduce :: "env \<Rightarrow> world \<Rightarrow> command \<Rightarrow> actor_ref \<Rightarrow> reduction" where
  "reduce env s command actor =
     (case domain_of command of
        DSettings \<Rightarrow> reduce_settings env s command
      | DProject \<Rightarrow> reduce_project env s command
      | DAgent \<Rightarrow> reduce_agent env s command
      | DRole \<Rightarrow> reduce_role env s command
      | DWorkflow \<Rightarrow> reduce_workflow env s command actor
      | DOrganization \<Rightarrow> reduce_organization env s command
      | DMission \<Rightarrow> reduce_mission env s command
      | DTask \<Rightarrow> reduce_task env s command actor
      | DMessage \<Rightarrow> reduce_message env s command actor
      | DApproval \<Rightarrow> reduce_approval env s command actor
      | DMemory \<Rightarrow> reduce_memory env s command actor
      | DArtifact \<Rightarrow> reduce_artifact env s command
      | DTerminal \<Rightarrow> reduce_terminal env s command actor
      | DOperation \<Rightarrow> reduce_operation env s command
      | DUpdate \<Rightarrow> reduce_update env s command)"


section \<open>Responses\<close>

datatype error_code =
    Unauthorized | CodeForbidden | CodeValidation | CodeNotFound | Conflict | CodeStaleRevision
  | CodeOrganizationRevisionConflict | CodeBudgetExceeded | CodeProviderUnavailable | ResyncRequired
  | VersionMismatch | Internal | PayloadTooLarge | PairingExpired | PairingReused | CertificateMismatch
  | LeaseUnavailable | RateLimited | PairingDisabled

record api_error =
  ae_code :: error_code
  ae_message :: string
  ae_retryable :: bool
  ae_latest_snapshot :: "snapshot option"

definition api_error_new :: "error_code \<Rightarrow> string \<Rightarrow> api_error" where
  "api_error_new code message =
     \<lparr>ae_code = code, ae_message = message, ae_retryable = False, ae_latest_snapshot = None\<rparr>"

definition api_error_conflict :: "snapshot \<Rightarrow> api_error" where
  "api_error_conflict s = \<lparr>ae_code = CodeStaleRevision,
     ae_message = ''the server state changed; refresh and retry'', ae_retryable = True,
     ae_latest_snapshot = Some s\<rparr>"

record command_response =
  cr_command_id :: command_id
  cr_revision :: u64
  cr_result :: "command_result option"
  cr_error :: "api_error option"

definition response_ok :: "command_id \<Rightarrow> u64 \<Rightarrow> command_result \<Rightarrow> command_response" where
  "response_ok i revision result =
     \<lparr>cr_command_id = i, cr_revision = revision, cr_result = Some result, cr_error = None\<rparr>"

definition response_failed :: "command_id \<Rightarrow> u64 \<Rightarrow> api_error \<Rightarrow> command_response" where
  "response_failed i revision error =
     \<lparr>cr_command_id = i, cr_revision = revision, cr_result = None, cr_error = Some error\<rparr>"

record event_envelope =
  ee_seq :: u64
  ee_occurred_at :: timestamp
  ee_actor :: actor_ref
  ee_correlation_id :: "command_id option"
  ee_event :: event

section \<open>The store\<close>

record store =
  st_world :: world
  st_revision :: u64
  st_event_seq :: u64
  st_answers :: "(command_id \<times> command_response \<times> event_envelope) list"
  st_events :: "(u64 \<times> event_envelope) list"
  st_outbox :: "event_envelope list"

definition snapshot_of :: "world \<Rightarrow> snapshot" where
  "snapshot_of w = snapshot.truncate w"

text \<open>The columns hold the bits as \<open>i64\<close>; a read is \<open>value.max(0) as u64\<close>.\<close>

definition read_column :: "u64 \<Rightarrow> u64" where
  "read_column v = (if sint v < 0 then 0 else v)"

definition current_revision :: "store \<Rightarrow> u64" where
  "current_revision st = read_column (st_revision st)"

definition idempotent_response :: "store \<Rightarrow> command_id \<Rightarrow> command_response option" where
  "idempotent_response st i = map_option fst (map_of (st_answers st) i)"

record commit =
  cm_response :: command_response
  cm_event :: event_envelope

record commit_input =
  rq_command_id :: command_id
  rq_expected_revision :: "u64 option"
  rq_actor :: actor_ref
  rq_event :: event
  rq_snapshot :: world
  rq_result :: command_result
  rq_artifact_bytes :: "string option"

definition is_artifact_published :: "event \<Rightarrow> bool" where
  "is_artifact_published ev \<longleftrightarrow> (case ev of ArtifactPublished _ \<Rightarrow> True | _ \<Rightarrow> False)"

definition check_artifact_bytes :: "commit_input \<Rightarrow> store_error + unit" where
  "check_artifact_bytes rq =
     (case rq_artifact_bytes rq of
        None \<Rightarrow> Inr ()
      | Some bytes \<Rightarrow>
          if MAX_ARTIFACT_BYTES < length bytes
          then Inl (StoreValidation ''artifact exceeds the configured size cap'')
          else if \<not> is_artifact_published (rq_event rq)
          then Inl (StoreValidation ''artifact bytes require an ArtifactPublished event'')
          else Inr ())"

definition commit_request :: "env \<Rightarrow> store \<Rightarrow> commit_input \<Rightarrow> store_error + (store \<times> commit)" where
  "commit_request env st rq =
     (case check_artifact_bytes rq of
        Inl e \<Rightarrow> Inl e
      | Inr _ \<Rightarrow>
        (case map_of (st_answers st) (rq_command_id rq) of
           Some (response, ev) \<Rightarrow> Inr (st, \<lparr>cm_response = response, cm_event = ev\<rparr>)
         | None \<Rightarrow>
           (let current = current_revision st; current_seq = read_column (st_event_seq st) in
            if rq_expected_revision rq \<noteq> None \<and> rq_expected_revision rq \<noteq> Some current
            then Inl (StaleRevision current)
            else
             (let revision = saturating_add current 1; seq = saturating_add current_seq 1;
                  envelope = \<lparr>ee_seq = seq, ee_occurred_at = e_now env, ee_actor = rq_actor rq,
                    ee_correlation_id = Some (rq_command_id rq), ee_event = rq_event rq\<rparr>;
                  response = response_ok (rq_command_id rq) revision (rq_result rq) in
              Inr (\<lparr>st_world = (rq_snapshot rq)\<lparr>s_revision := revision, s_event_seq := seq\<rparr>,
                     st_revision = revision, st_event_seq = seq,
                     st_answers = (rq_command_id rq, response, envelope) # st_answers st,
                     st_events = st_events st @ [(revision, envelope)],
                     st_outbox = st_outbox st @ [envelope]\<rparr>,
                   \<lparr>cm_response = response, cm_event = envelope\<rparr>)))))"

section \<open>Apply and execute\<close>

text \<open>A reduction draws UUIDs and marks message ids as seen even when its result is not stored.\<close>

definition remember :: "world \<Rightarrow> store \<Rightarrow> store" where
  "remember next st = st\<lparr>st_world := (st_world st)\<lparr>w_drawn := w_drawn next, w_seen := w_seen next\<rparr>\<rparr>"

text \<open>Work the daemon starts after the commit, outside the transaction.\<close>

datatype follow_up =
    DeliverMessage message_id
  | RespondToProviderApproval approval_id approval_decision
  | PauseForTerminal terminal_session_id
  | ResumeAfterTerminal terminal_session_id
  | PlanMission mission_id string
  | RetryPlan mission_id
  | MaterializePlan supervisor_plan_proposal

definition existing_message_id :: "world \<Rightarrow> command \<Rightarrow> message_id option" where
  "existing_message_id s command =
     (case command of
        SendMessage spec \<Rightarrow>
          (case ms_message_id spec of
             None \<Rightarrow> None
           | Some i \<Rightarrow> if any (\<lambda>m. mv_id m = i) (s_messages s) then Some i else None)
      | _ \<Rightarrow> None)"

definition artifact_bytes :: "env \<Rightarrow> command \<Rightarrow> string option" where
  "artifact_bytes env command =
     (case command of
        PublishArtifact spec \<Rightarrow> Some (ars_bytes spec)
      | FinalizeArtifactUpload upload_id _ _ \<Rightarrow>
          (case e_upload_bytes env upload_id of Inl _ \<Rightarrow> None | Inr bytes \<Rightarrow> bytes)
      | _ \<Rightarrow> None)"

definition delivery_of :: "env \<Rightarrow> command \<Rightarrow> command_response \<Rightarrow> follow_up list" where
  "delivery_of env command response =
     (case command of
        SendMessage _ \<Rightarrow>
          (case cr_result response of
             Some (ResultCreated i) \<Rightarrow>
               (case e_uuid_parse env i of None \<Rightarrow> [] | Some u \<Rightarrow> [DeliverMessage (MessageId u)])
           | _ \<Rightarrow> [])
      | _ \<Rightarrow> [])"

text \<open>\<open>apply\<close> on a loaded snapshot \<open>w\<close>: the snapshot was read before, the memory is the one
  of the moment of the reduction.\<close>

definition with_memory :: "world \<Rightarrow> store \<Rightarrow> world" where
  "with_memory w st = w\<lparr>w_drawn := w_drawn (st_world st), w_seen := w_seen (st_world st)\<rparr>"

definition apply_loaded ::
    "env \<Rightarrow> store \<Rightarrow> world \<Rightarrow> command_envelope \<Rightarrow> actor_ref
       \<Rightarrow> store \<times> (command_response \<times> follow_up list) orch_result" where
  "apply_loaded env st w envelope actor =
     (let current = with_memory w st in
      case reduce env current (ce_command envelope) actor of
        Inl e \<Rightarrow> (st, Inl e)
      | Inr (next, event, result) \<Rightarrow>
          if (case event of
                MessageQueued m \<Rightarrow> existing_message_id current (ce_command envelope) = Some (mv_id m)
              | _ \<Rightarrow> False)
          then (remember next st, Inr (response_ok (ce_command_id envelope) (s_revision current) result, []))
          else
           (case commit_request env st \<lparr>rq_command_id = ce_command_id envelope,
                   rq_expected_revision = ce_expected_revision envelope, rq_actor = actor, rq_event = event,
                   rq_snapshot = next, rq_result = result,
                   rq_artifact_bytes = artifact_bytes env (ce_command envelope)\<rparr> of
              Inl e \<Rightarrow> (remember next st, Inl (Store e))
            | Inr (st', commit) \<Rightarrow>
                (remember next st', Inr (cm_response commit, delivery_of env (ce_command envelope) (cm_response commit)))))"

definition apply_command ::
    "env \<Rightarrow> store \<Rightarrow> command_envelope \<Rightarrow> actor_ref
       \<Rightarrow> store \<times> (command_response \<times> follow_up list) orch_result" where
  "apply_command env st envelope actor = apply_loaded env st (st_world st) envelope actor"


text \<open>Up to four attempts, each on a fresh snapshot. \<open>others k\<close> is what other requests do to the
  store between the read and the commit of attempt \<open>k\<close>.\<close>

fun commit_organization_with_retry ::
    "nat \<Rightarrow> (nat \<Rightarrow> store \<Rightarrow> store) \<Rightarrow> env \<Rightarrow> store \<Rightarrow> command_envelope \<Rightarrow> actor_ref
       \<Rightarrow> store \<times> command_response orch_result" where
  "commit_organization_with_retry 0 others env st envelope actor =
     (st, Inl (Store (StaleRevision (current_revision st))))"
| "commit_organization_with_retry (Suc k) others env st envelope actor =
     (case reduce env (st_world st) (ce_command envelope) actor of
        Inl e \<Rightarrow> (st, Inl e)
      | Inr (next, event, result) \<Rightarrow>
          (let st1 = others k (remember next st) in
           case commit_request env st1 \<lparr>rq_command_id = ce_command_id envelope,
                  rq_expected_revision = Some (s_revision (st_world st)), rq_actor = actor, rq_event = event,
                  rq_snapshot = with_memory next st1, rq_result = result, rq_artifact_bytes = None\<rparr> of
             Inr (st', commit) \<Rightarrow> (st', Inr (cm_response commit))
           | Inl (StaleRevision _) \<Rightarrow> commit_organization_with_retry k others env st1 envelope actor
           | Inl e \<Rightarrow> (st1, Inl (Store e))))"

definition api_of_error :: "store \<Rightarrow> orchestrator_error \<Rightarrow> api_error" where
  "api_of_error st error =
     (case error of
        Forbidden \<Rightarrow> api_error_new CodeForbidden ''permission denied''
      | NotFound \<Rightarrow> api_error_new CodeNotFound ''resource not found''
      | InvalidTransition message \<Rightarrow> api_error_new Conflict message
      | Validation message \<Rightarrow> api_error_new CodeValidation message
      | OrganizationRevisionConflict expected actual \<Rightarrow>
          (api_error_new CodeOrganizationRevisionConflict
            (''Organization revision changed elsewhere (expected '' @ show_nat (unat expected)
              @ '', actual '' @ show_nat (unat actual) @ '')''))\<lparr>ae_retryable := True,
             ae_latest_snapshot := Some (snapshot_of (st_world st))\<rparr>
      | BudgetExceeded \<Rightarrow>
          api_error_new CodeBudgetExceeded ''measured budget exceeded; adjust the budget or cancel the work''
      | ProviderUnavailable message \<Rightarrow> api_error_new CodeProviderUnavailable message
      | Store (StaleRevision _) \<Rightarrow> api_error_conflict (snapshot_of (st_world st))
      | Store (StoreValidation _) \<Rightarrow> api_error_new Internal ''persistence failed'')"

definition error_response :: "store \<Rightarrow> command_id \<Rightarrow> orchestrator_error \<Rightarrow> command_response" where
  "error_response st i error =
     (let api = api_of_error st error in
      response_failed i (current_revision st)
        (if ae_code api \<in> {Conflict, CodeStaleRevision} then api\<lparr>ae_retryable := True\<rparr> else api))"

definition validate_command_size :: "env \<Rightarrow> command_envelope \<Rightarrow> api_error + unit" where
  "validate_command_size env envelope =
     (case e_envelope_json env envelope of
        None \<Rightarrow> Inl (api_error_new CodeValidation ''command could not be serialized for validation'')
      | Some encoded \<Rightarrow>
          if MAX_COMMAND_BODY_BYTES < length encoded
          then Inl (api_error_new PayloadTooLarge ''command payload exceeds the server limit'')
          else Inr ())"

definition organization_command :: "command \<Rightarrow> bool" where
  "organization_command c \<longleftrightarrow>
     (case c of
        SaveOrganizationDraft _ _ \<Rightarrow> True | PublishOrganization _ \<Rightarrow> True
      | CreateConnectorProfile _ \<Rightarrow> True | UpdateConnectorProfile _ _ \<Rightarrow> True
      | ArchiveConnectorProfile _ \<Rightarrow> True | _ \<Rightarrow> False)"

text \<open>The follow-up work of \<open>execute\<close> after a successful \<open>apply\<close>, in its order.\<close>

definition follow_ups :: "env \<Rightarrow> command \<Rightarrow> command_response \<Rightarrow> follow_up list" where
  "follow_ups env command response =
     (case command of
        DecideApproval approval_id decision \<Rightarrow> [RespondToProviderApproval approval_id decision]
      | TakeControl session_id \<Rightarrow> if cr_error response = None then [PauseForTerminal session_id] else []
      | ReleaseControl session_id _ \<Rightarrow> if cr_error response = None then [ResumeAfterTerminal session_id] else []
      | CloseTerminal session_id \<Rightarrow> if cr_error response = None then [ResumeAfterTerminal session_id] else []
      | CreateMission _ objective \<Rightarrow>
          (case cr_result response of
             Some (ResultCreated i) \<Rightarrow>
               (case e_uuid_parse env i of None \<Rightarrow> [] | Some u \<Rightarrow> [PlanMission (MissionId u) objective])
           | _ \<Rightarrow> [])
      | RetryMissionPlan mission_id \<Rightarrow> if cr_error response = None then [RetryPlan mission_id] else []
      | SubmitSupervisorPlan _ proposal \<Rightarrow> [MaterializePlan proposal]
      | _ \<Rightarrow> [])"

text \<open>The guards of \<open>execute\<close> before a command is reduced: either a final answer, or the
  envelope bound to the revision seen at the start.\<close>

definition admit ::
    "env \<Rightarrow> store \<Rightarrow> command_envelope \<Rightarrow> actor_kind \<Rightarrow> device_role \<Rightarrow> command_response + command_envelope" where
  "admit env st envelope kind role =
     (let i = ce_command_id envelope; revision = current_revision st in
      if ce_protocol_version envelope \<noteq> PROTOCOL_VERSION
      then Inl (response_failed i revision
             (api_error_new VersionMismatch ''command protocol version is not supported''))
      else case validate_command_size env envelope of
        Inl e \<Rightarrow> Inl (response_failed i revision e)
      | Inr _ \<Rightarrow>
        (case authorize (ce_command envelope) kind role of
           Inl _ \<Rightarrow> Inl (response_failed i revision (api_error_new CodeForbidden ''permission denied''))
         | Inr _ \<Rightarrow>
           (case idempotent_response st i of
              Some response \<Rightarrow> Inl response
            | None \<Rightarrow>
              if ce_expected_revision envelope = None \<and> organization_command (ce_command envelope)
              then Inr envelope
              else
               (let bound = (case ce_expected_revision envelope of
                       None \<Rightarrow> envelope\<lparr>ce_expected_revision := Some revision\<rparr> | Some _ \<Rightarrow> envelope) in
                if ce_expected_revision bound \<noteq> Some revision
                then Inl (response_failed i revision (api_error_conflict (snapshot_of (st_world st))))
                else Inr bound))))"

definition execute ::
    "(nat \<Rightarrow> store \<Rightarrow> store) \<Rightarrow> env \<Rightarrow> store \<Rightarrow> command_envelope \<Rightarrow> actor_ref \<Rightarrow> device_role
       \<Rightarrow> store \<times> command_response \<times> follow_up list" where
  "execute others env st envelope actor role =
     (case admit env st envelope (ac_kind actor) role of
        Inl response \<Rightarrow> (st, response, [])
      | Inr bound \<Rightarrow>
          if ce_expected_revision bound = None then
            (case commit_organization_with_retry 4 others env st bound actor of
               (st', Inr response) \<Rightarrow> (st', response, [])
             | (st', Inl e) \<Rightarrow> (st', error_response st' (ce_command_id envelope) e, []))
          else
            (case apply_command env st bound actor of
               (st', Inr (response, delivery)) \<Rightarrow>
                 (st', response, delivery @ follow_ups env (ce_command envelope) response)
             | (st', Inl e) \<Rightarrow> (st', error_response st' (ce_command_id envelope) e, [])))"

section \<open>Delivery\<close>

text \<open>\<open>deliver_message\<close> marks a queued message as delivered; the command id of its commit is drawn.\<close>

definition deliver_message :: "env \<Rightarrow> store \<Rightarrow> message_id \<Rightarrow> store orch_result" where
  "deliver_message env st message_id =
     (let w = st_world st in
      case find (\<lambda>m. mv_id m = message_id) (s_messages w) of
        None \<Rightarrow> Inr st
      | Some message \<Rightarrow>
          if mv_delivery message \<noteq> delivery_status.Queued then Inr st
          else
           (case commit_request env st \<lparr>rq_command_id = CommandId (next_uuid env w),
                   rq_expected_revision = Some (s_revision w), rq_actor = actor_system,
                   rq_event = MessageDelivered message_id,
                   rq_snapshot = edit_message message_id (\<lambda>m. m\<lparr>mv_delivery := delivery_status.Delivered\<rparr>) (drew w),
                   rq_result = Accepted, rq_artifact_bytes = None\<rparr> of
              Inl e \<Rightarrow> Inl (Store e)
            | Inr (st', _) \<Rightarrow> Inr st'))"

end
