(* ===== verification/DaemonJobs.thy ===== *)
theory DaemonJobs
  imports Orchestrator
begin

text \<open>
  The transactions the daemon makes on its own, outside the command path: agent sessions and failed
  workers (\<open>runtime_flow.rs\<close>), long-running operations (\<open>operations.rs\<close>), expiry and recovery
  (\<open>reconcile.rs\<close>, \<open>messaging.rs\<close>, \<open>approval_flow.rs\<close>), usage and budget events
  (\<open>budget_enforce.rs\<close>), supervisor sessions and internal commands (\<open>mission_flow.rs\<close>), the
  update state (\<open>update_flow.rs\<close>) and the built-in profiles (\<open>lib.rs\<close>).

  Each of them reads the snapshot, edits it and commits it against the revision it read. The edit is
  a function of the snapshot: \<open>Inl\<close> is an early error, \<open>Inr None\<close> an early return without a
  commit. \<open>commit_job\<close> is the loop around it.
\<close>

type_synonym edit_result = "((world \<times> event \<times> command_result) option) orch_result"

section \<open>Agents and workers\<close>

definition edit_agent :: "agent_id \<Rightarrow> (agent_view \<Rightarrow> agent_view) \<Rightarrow> world \<Rightarrow> world" where
  "edit_agent i f s = s\<lparr>s_agents := update_first (\<lambda>a. a_id a = i) f (s_agents s)\<rparr>"

text \<open>The boundary at which a pending model and the latest role revision take effect.\<close>

definition idle_boundary :: "role_view list \<Rightarrow> bool \<Rightarrow> agent_view \<Rightarrow> agent_view" where
  "idle_boundary roles boundary agent =
     (let applies_pending_override = boundary \<and> a_pending_model_override agent \<noteq> None;
          agent1 = (case a_pending_model_override agent of
              Some model_override \<Rightarrow>
                if boundary then agent\<lparr>a_pending_model_override := None, a_model_override := model_override,
                                      a_pending_model_change := False\<rparr> else agent
            | None \<Rightarrow> agent);
          role = (if boundary
                  then Option.bind (a_role_id agent1) (\<lambda>i. find (\<lambda>r. r_id r = i \<and> \<not> r_archived r) roles)
                  else None);
          agent2 = (case role of
              Some r \<Rightarrow>
                if a_role_revision agent1 < r_revision r \<or> applies_pending_override then materialize_role agent1 r
                else agent1
            | None \<Rightarrow> if applies_pending_override then agent1\<lparr>a_model := a_model_override agent1\<rparr> else agent1) in
      if applies_pending_override
      then agent2\<lparr>a_effective_model := a_model agent2,
             a_model_source := (if a_model_override agent2 \<noteq> None then model_source.Agent else model_source.Role)\<rparr>
      else agent2)"

definition set_agent :: "agent_id \<Rightarrow> agent_status \<Rightarrow> string option \<Rightarrow> world \<Rightarrow> edit_result" where
  "set_agent agent_id status provider_session_id s =
     (case find (\<lambda>a. a_id a = agent_id) (s_agents s) of
        None \<Rightarrow> Inl NotFound
      | Some agent \<Rightarrow>
          (let agent1 = agent\<lparr>a_status := status, a_provider_session_id :=
                 (if provider_session_id \<noteq> None then provider_session_id else a_provider_session_id agent)\<rparr>;
               agent2 = idle_boundary (s_roles s) (status \<in> {agent_status.Idle, agent_status.Offline}) agent1 in
           Inr (Some (edit_agent agent_id (\<lambda>_. agent2) s, AgentUpserted agent2, Accepted))))"

definition clear_agent_session :: "agent_id \<Rightarrow> agent_status \<Rightarrow> world \<Rightarrow> edit_result" where
  "clear_agent_session agent_id status s =
     (case find (\<lambda>a. a_id a = agent_id) (s_agents s) of
        None \<Rightarrow> Inl NotFound
      | Some agent \<Rightarrow>
          (let agent1 = agent\<lparr>a_status := status, a_provider_session_id := None\<rparr>;
               agent2 = idle_boundary (s_roles s) (status = agent_status.Idle) agent1 in
           Inr (Some (edit_agent agent_id (\<lambda>_. agent2) s, AgentUpserted agent2, Accepted))))"

text \<open>The committed part of \<open>mark_task_failure\<close>: the attempt is counted and the task goes back to
  \<open>Ready\<close> or to \<open>Blocked\<close>, whatever its status was.\<close>

definition failed_task :: "task_view \<Rightarrow> task_view" where
  "failed_task task = (case retry_after_failure task of (t, status) \<Rightarrow> t\<lparr>t_status := status\<rparr>)"

definition mark_task_failure :: "env \<Rightarrow> task_id \<Rightarrow> world \<Rightarrow> edit_result" where
  "mark_task_failure env task_id s =
     (case find_task task_id (s_tasks s) of
        None \<Rightarrow> Inl NotFound
      | Some task \<Rightarrow>
          (let status = t_status (failed_task task);
               s1 = edit_task task_id failed_task s;
               s2 = feed env s1 task_id actor_system task_feed_kind.StatusChanged
                      (''Worker attempt failed; status changed to '' @ debug_task_status status);
               s3 = update_dependency_locks env s2 task_id actor_system status in
           Inr (Some (s3, TaskUpdated (failed_task task), Accepted))))"

section \<open>Missions and supervisors\<close>

definition sanitize_mission_error :: "string \<Rightarrow> string" where
  "sanitize_mission_error reason =
     (let lower = to_ascii_lowercase reason in
      if contains_str lower ''model'' \<or> contains_str lower ''openrouter'' \<or> contains_str lower ''provider''
      then ''Planning could not reach the selected supervisor model.''
      else if contains_str lower ''repository'' \<or> contains_str lower ''git''
      then ''Planning could not validate the project repository.''
      else if contains_str lower ''timeout'' \<or> contains_str lower ''timed out''
      then ''Planning timed out. Retry planning to try again.''
      else ''Planning failed. Retry planning after checking the mission readiness items.'')"

definition block_mission :: "env \<Rightarrow> mission_id \<Rightarrow> string \<Rightarrow> world \<Rightarrow> edit_result" where
  "block_mission env mission_id reason s =
     (case find_mission mission_id (s_missions s) of
        None \<Rightarrow> Inl NotFound
      | Some mission \<Rightarrow>
          if \<not> mission_can_transition_to (m_status mission) mission_status.Blocked then Inr None
          else Inr (Some (edit_mission mission_id (\<lambda>m. m\<lparr>m_status := mission_status.Blocked,
                 m_last_error := Some (sanitize_mission_error reason), m_updated_at := e_now env\<rparr>) s,
               MissionBlocked mission_id reason, Accepted)))"

definition persist_supervisor_session_id :: "env \<Rightarrow> mission_id \<Rightarrow> string option \<Rightarrow> world \<Rightarrow> edit_result" where
  "persist_supervisor_session_id env mission_id session s =
     (case find_mission mission_id (s_missions s) of
        None \<Rightarrow> Inl NotFound
      | Some _ \<Rightarrow>
          Inr (Some (edit_mission mission_id (\<lambda>m. m\<lparr>m_supervisor_session_id := session, m_updated_at := e_now env\<rparr>) s,
               MissionSupervisorSessionChanged mission_id session, Accepted)))"

section \<open>Operations\<close>

definition update_operation ::
    "env \<Rightarrow> operation_id \<Rightarrow> operation_status \<Rightarrow> string \<Rightarrow> string option \<Rightarrow> world \<Rightarrow> edit_result" where
  "update_operation env i status phase error s =
     (case find (\<lambda>x. op_id x = i) (s_operations s) of
        None \<Rightarrow> Inl NotFound
      | Some operation \<Rightarrow>
          (let updated = operation\<lparr>op_status := status, op_phase := phase,
                 op_attempt := saturating_add (op_attempt operation) 1, op_error := error, op_updated_at := e_now env\<rparr> in
           Inr (Some (edit_operation i (\<lambda>_. updated) s, OperationChanged updated, Accepted))))"

definition finish_operation :: "env \<Rightarrow> operation_id \<Rightarrow> operation_status \<Rightarrow> string \<Rightarrow> world \<Rightarrow> edit_result" where
  "finish_operation env i status error s =
     (case find (\<lambda>x. op_id x = i) (s_operations s) of
        None \<Rightarrow> Inl NotFound
      | Some operation \<Rightarrow>
          (let updated = operation\<lparr>op_status := status,
                 op_phase := (if status = operation_status.Succeeded then ''complete'' else ''failed''),
                 op_error := (if error = '''' then None else Some error), op_updated_at := e_now env\<rparr> in
           Inr (Some (edit_operation i (\<lambda>_. updated) s, OperationChanged updated, Accepted))))"

definition queue_draft_pr_operation :: "env \<Rightarrow> mission_id \<Rightarrow> world \<Rightarrow> edit_result" where
  "queue_draft_pr_operation env mission_id s =
     (let resource = e_uuid_text env (mission_uuid mission_id) in
      if any (\<lambda>x. op_kind x = operation_kind.OpenDraftPullRequest \<and> op_resource x = resource
               \<and> op_status x \<noteq> operation_status.Cancelled) (s_operations s)
      then Inr None
      else (let operation = queued_operation env operation_kind.OpenDraftPullRequest (next_uuid env s) resource ''queued'' in
            Inr (Some ((drew s)\<lparr>s_operations := s_operations s @ [operation]\<rparr>, OperationChanged operation,
                 Operation operation))))"

text \<open>The checks of \<open>run_push_mission_operation\<close> before its first event.\<close>

definition start_delivery :: "mission_id \<Rightarrow> world \<Rightarrow> edit_result" where
  "start_delivery mission_id s =
     (case find_mission mission_id (s_missions s) of
        None \<Rightarrow> Inl NotFound
      | Some mission \<Rightarrow>
          if m_status mission \<noteq> mission_status.Completed
             \<or> any (\<lambda>t. t_mission_id t = mission_id \<and> t_status t \<noteq> task_status.Done) (s_tasks s)
          then Inl (Validation ''all mission tasks must be accepted before delivery'')
          else Inr (Some (s, DeliveryStarted mission_id, Accepted)))"

text \<open>An event that leaves the snapshot as it is.\<close>

definition announce :: "event \<Rightarrow> world \<Rightarrow> edit_result" where
  "announce event s = Inr (Some (s, event, Accepted))"

text \<open>A running task without a worktree operation gets the operation it lacks.\<close>

definition recover_running_worktree_intent :: "env \<Rightarrow> task_id \<Rightarrow> world \<Rightarrow> edit_result" where
  "recover_running_worktree_intent env task_id s =
     (case find_task task_id (s_tasks s) of
        None \<Rightarrow> Inr None
      | Some task \<Rightarrow>
        if t_status task \<noteq> task_status.Running
           \<or> any (\<lambda>x. worktree_operation_matches_task env x task_id) (s_operations s)
        then Inr None
        else (case find_mission (t_mission_id task) (s_missions s) of
           None \<Rightarrow> Inl NotFound
         | Some mission \<Rightarrow>
           (case find (\<lambda>p. p_id p = m_project_id mission \<and> \<not> p_archived p) (s_projects s) of
              None \<Rightarrow> Inl NotFound
            | Some project \<Rightarrow>
              (case git_workflow_new env project (sv_allowed_project_roots (s_server s)) of
                 Inl e \<Rightarrow> Inl (Validation (git_error_text e))
               | Inr workflow \<Rightarrow>
                 (let mission_plan = branch_plan workflow (m_branch mission) (p_base_branch project);
                      task_plan = task_plan_from_base env workflow (t_id task) (m_branch mission);
                      planned = (\<lambda>t. t\<lparr>t_worktree := Some (wp_path task_plan), t_branch := Some (wp_branch task_plan)\<rparr>);
                      request = \<lparr>cw_project_id = m_project_id mission, cw_mission_id = m_id mission,
                        cw_mission_branch = wp_branch mission_plan, cw_mission_base = wp_base mission_plan,
                        cw_mission_path = wp_path mission_plan, cw_task_id = task_id,
                        cw_task_branch = wp_branch task_plan, cw_task_base = wp_base task_plan,
                        cw_task_path = wp_path task_plan\<rparr> in
                  case e_worktree_encode env request of
                    Inl e \<Rightarrow> Inl (Validation e)
                  | Inr resource \<Rightarrow>
                      (let operation = queued_operation env operation_kind.CreateWorktree (next_uuid env s) resource
                             ''recovery-queued'';
                           s1 = edit_task task_id planned (drew s) in
                       Inr (Some (s1\<lparr>s_operations := s_operations s1 @ [operation]\<rparr>,
                            TaskWorktreeProvisioning (planned task) operation, Accepted))))))))"

section \<open>Expiry\<close>

definition expired_by :: "nat \<Rightarrow> string \<Rightarrow> bool" where
  \<comment> \<open>\<open>expires_at.parse::<u128>().is_ok_and(|expires_at| expires_at <= now)\<close>\<close>
  "expired_by now text \<longleftrightarrow> (case parse_uint 128 text of None \<Rightarrow> False | Some e \<Rightarrow> e \<le> now)"

definition expire_approval :: "nat \<Rightarrow> approval_id \<Rightarrow> world \<Rightarrow> edit_result" where
  "expire_approval now i s =
     (case find (\<lambda>a. av_id a = i) (s_approvals s) of
        None \<Rightarrow> Inr None
      | Some approval \<Rightarrow>
          if av_status approval \<noteq> approval_status.Pending \<or> \<not> expired_by now (av_expires_at approval) then Inr None
          else Inr (Some (edit_approval i (\<lambda>a. a\<lparr>av_status := approval_status.Expired\<rparr>) s, ApprovalExpired i, Accepted)))"

text \<open>\<open>previous\<close> is the lease the pass saw at its start.\<close>

definition expire_terminal_lease :: "nat \<Rightarrow> terminal_session_id \<Rightarrow> control_lease_view \<Rightarrow> world \<Rightarrow> edit_result" where
  "expire_terminal_lease now session_id previous s =
     (case find (\<lambda>t. te_id t = session_id) (s_terminals s) of
        None \<Rightarrow> Inr None
      | Some session \<Rightarrow>
          if \<not> (case te_lease session of None \<Rightarrow> False
                 | Some lease \<Rightarrow> cl_lease_id lease = cl_lease_id previous \<and> expired_by now (cl_expires_at lease))
          then Inr None
          else Inr (Some (edit_terminal session_id (\<lambda>t. t\<lparr>te_lease := None\<rparr>) s,
                 TerminalLeaseChanged \<lparr>cl_lease_id = cl_lease_id previous, cl_session_id = session_id,
                   cl_actor = cl_actor previous, cl_expires_at = ''released''\<rparr>, Accepted)))"

definition expire_pending_message :: "message_id \<Rightarrow> world \<Rightarrow> edit_result" where
  "expire_pending_message i s =
     (case find (\<lambda>m. mv_id m = i) (s_messages s) of
        None \<Rightarrow> Inr None
      | Some message \<Rightarrow>
          if \<not> requires_reply (mv_act message)
             \<or> mv_delivery message \<notin> {delivery_status.Delivered, delivery_status.Acknowledged}
          then Inr None
          else Inr (Some (edit_message i (\<lambda>m. m\<lparr>mv_delivery := delivery_status.Failed\<rparr>) s, MessageFailed i, Accepted)))"

section \<open>Usage, updates, built-in profiles\<close>

definition commit_usage_event :: "usage_view \<Rightarrow> world \<Rightarrow> edit_result" where
  "commit_usage_event usage s =
     Inr (Some (s\<lparr>s_usage := s_usage s @ [usage]\<rparr>, UsageRecorded usage, Accepted))"

definition set_update_state :: "env \<Rightarrow> update_id \<Rightarrow> update_state \<Rightarrow> string option \<Rightarrow> world \<Rightarrow> edit_result" where
  "set_update_state env i state error s =
     (case s_update s of
        None \<Rightarrow> Inl NotFound
      | Some u \<Rightarrow>
          if uv_id u \<noteq> i then Inl NotFound
          else (let updated = u\<lparr>uv_state := state, uv_error := error, uv_checked_at := e_now env\<rparr> in
                Inr (Some (s\<lparr>s_update := Some updated\<rparr>, UpdateStateChanged updated, Accepted))))"

definition DEFAULT_LUNA_MODEL :: string where "DEFAULT_LUNA_MODEL = ''openai/gpt-5.6-luna''"

definition ensure_builtin_role :: "env \<Rightarrow> world \<Rightarrow> edit_result" where
  "ensure_builtin_role env s =
     (if any (\<lambda>r. eq_ignore_ascii_case (r_name r) ''Generalist'' \<and> \<not> r_archived r) (s_roles s) then Inr None
      else (let u = next_uuid env s;
                role = \<lparr>r_id = RoleId u, r_name = ''Generalist'', r_model = Some DEFAULT_LUNA_MODEL,
                  r_instructions = ''Complete the assigned task and document every handoff on its taskboard card.'',
                  r_policy = policy_default, r_budget = budget_unlimited, r_revision = 1, r_archived = False\<rparr> in
            Inr (Some ((drew s)\<lparr>s_roles := s_roles s @ [role]\<rparr>, RoleUpserted role,
                 ResultCreated (e_uuid_text env u)))))"

definition ensure_default_supervisor_model :: "world \<Rightarrow> edit_result" where
  "ensure_default_supervisor_model s =
     (if sv_supervisor_model (s_server s) \<noteq> None then Inr None
      else (let server = (s_server s)\<lparr>sv_supervisor_model := Some DEFAULT_LUNA_MODEL\<rparr> in
            Inr (Some (s\<lparr>s_server := server\<rparr>, SettingsChanged server, Accepted))))"

definition ensure_builtin_supervisor :: "env \<Rightarrow> world \<Rightarrow> edit_result" where
  "ensure_builtin_supervisor env s =
     (if any (\<lambda>a. a_display_name a = ''Frank supervisor'' \<and> \<not> a_archived a) (s_agents s) then Inr None
      else (let supervisor = \<lparr>a_id = AgentId (next_uuid env s), a_role_id = None, a_role_revision = 0,
                  a_display_name = ''Frank supervisor'', a_model = Some DEFAULT_LUNA_MODEL,
                  a_effective_model = Some DEFAULT_LUNA_MODEL, a_model_source = model_source.Role,
                  a_model_override = None, a_pending_model_override = None, a_pending_model_change = False,
                  a_instructions = ''Decompose missions, coordinate workers, review results, and deliver safely.'',
                  a_policy = \<lparr>po_filesystem = filesystem_policy.ReadOnly, po_shell = shell_policy.Deny,
                    po_network = network_policy.Deny, po_approval = approval_policy.Never\<rparr>,
                  a_budget = budget_unlimited, a_status = agent_status.Offline, a_provider_session_id = None,
                  a_last_claimed_at = None, a_archived = False\<rparr> in
            Inr (Some ((drew s)\<lparr>s_agents := s_agents s @ [supervisor]\<rparr>, AgentUpserted supervisor,
                 ResultCreated (show_agent_id env (a_id supervisor))))))"

section \<open>Jobs and their commit\<close>

text \<open>\<open>commit_reduced\<close> runs a command of the protocol as the system actor. The other jobs are the
  edits above; \<open>Announce\<close> covers the events that leave the snapshot alone (a paused budget, the
  result of a delivery, a written memory).\<close>

datatype (plugins only: code) daemon_job =
    Reduced command
  | SetAgent agent_id agent_status "string option"
  | ClearAgentSession agent_id agent_status
  | MarkTaskFailure task_id
  | BlockMission mission_id string
  | PersistSupervisorSession mission_id "string option"
  | UpdateOperation operation_id operation_status string "string option"
  | FinishOperation operation_id operation_status string
  | QueueDraftPr mission_id
  | StartDelivery mission_id
  | RecoverWorktree task_id
  | ExpireApproval nat approval_id
  | ExpireTerminalLease nat terminal_session_id control_lease_view
  | ExpirePendingMessage message_id
  | CommitUsage usage_view
  | Announce event
  | SetUpdateState update_id update_state "string option"
  | EnsureBuiltinRole
  | EnsureBuiltinSupervisor
  | EnsureDefaultSupervisorModel

definition commit_reduced :: "env \<Rightarrow> command \<Rightarrow> world \<Rightarrow> edit_result" where
  "commit_reduced env command s =
     (case reduce env s command actor_system of Inl e \<Rightarrow> Inl e | Inr x \<Rightarrow> Inr (Some x))"

definition job_edit :: "env \<Rightarrow> daemon_job \<Rightarrow> world \<Rightarrow> edit_result" where
  "job_edit env job s =
     (case job of
        Reduced command \<Rightarrow> commit_reduced env command s
      | SetAgent i status session \<Rightarrow> set_agent i status session s
      | ClearAgentSession i status \<Rightarrow> clear_agent_session i status s
      | MarkTaskFailure i \<Rightarrow> mark_task_failure env i s
      | BlockMission i reason \<Rightarrow> block_mission env i reason s
      | PersistSupervisorSession i session \<Rightarrow> persist_supervisor_session_id env i session s
      | UpdateOperation i status phase error \<Rightarrow> update_operation env i status phase error s
      | FinishOperation i status error \<Rightarrow> finish_operation env i status error s
      | QueueDraftPr i \<Rightarrow> queue_draft_pr_operation env i s
      | StartDelivery i \<Rightarrow> start_delivery i s
      | RecoverWorktree i \<Rightarrow> recover_running_worktree_intent env i s
      | ExpireApproval now i \<Rightarrow> expire_approval now i s
      | ExpireTerminalLease now i lease \<Rightarrow> expire_terminal_lease now i lease s
      | ExpirePendingMessage i \<Rightarrow> expire_pending_message i s
      | CommitUsage usage \<Rightarrow> commit_usage_event usage s
      | Announce event \<Rightarrow> announce event s
      | SetUpdateState i state error \<Rightarrow> set_update_state env i state error s
      | EnsureBuiltinRole \<Rightarrow> ensure_builtin_role env s
      | EnsureBuiltinSupervisor \<Rightarrow> ensure_builtin_supervisor env s
      | EnsureDefaultSupervisorModel \<Rightarrow> ensure_default_supervisor_model s)"

definition job_request :: "command_id \<Rightarrow> u64 \<Rightarrow> world \<Rightarrow> event \<Rightarrow> command_result \<Rightarrow> commit_input" where
  "job_request cid revision next event result = \<lparr>rq_command_id = cid, rq_expected_revision = Some revision,
     rq_actor = actor_system, rq_event = event, rq_snapshot = next, rq_result = result, rq_artifact_bytes = None\<rparr>"

text \<open>The loop of the source: read, edit, commit, and again when the revision is stale. \<open>cid\<close> is
  the command id drawn for the commit, \<open>others k\<close> what other requests do to the store between
  the read and the commit of attempt \<open>k\<close>. Most jobs make four attempts, \<open>commit_usage_event\<close>
  and \<open>set_update_state\<close> three, the expiry passes and the single announcements one.\<close>

fun commit_job ::
    "nat \<Rightarrow> (nat \<Rightarrow> store \<Rightarrow> store) \<Rightarrow> env \<Rightarrow> command_id \<Rightarrow> daemon_job \<Rightarrow> store \<Rightarrow> store \<times> unit orch_result" where
  "commit_job 0 others env cid job st = (st, Inl (Store (StaleRevision (current_revision st))))"
| "commit_job (Suc k) others env cid job st =
     (case job_edit env job (st_world st) of
        Inl e \<Rightarrow> (st, Inl e)
      | Inr None \<Rightarrow> (st, Inr ())
      | Inr (Some (next, event, result)) \<Rightarrow>
          (let st1 = others k (remember next st) in
           case commit_request env st1 (job_request cid (s_revision (st_world st)) (with_memory next st1) event result) of
             Inr (st', _) \<Rightarrow> (st', Inr ())
           | Inl (StaleRevision _) \<Rightarrow> commit_job k others env cid job st1
           | Inl e \<Rightarrow> (st1, Inl (Store e))))"

end
