(* ===== verification/DaemonInvariants.thy ===== *)
theory DaemonInvariants
  imports DaemonJobs BoardInvariants
begin

text \<open>The daemon's own transactions are calm: they add no task, move no family and ask no question.\<close>

lemma agent_jobs_calm:
  "set_agent i st session s = Inr (Some (s', ev, res)) \<Longrightarrow> calm s s'"
  "clear_agent_session i st s = Inr (Some (s', ev, res)) \<Longrightarrow> calm s s'"
  unfolding set_agent_def clear_agent_session_def edit_agent_def Let_def
  by (auto intro!: calm_frame split: option.splits)

lemma mission_jobs_calm:
  "block_mission env m reason s = Inr (Some (s', ev, res)) \<Longrightarrow> calm s s'"
  "persist_supervisor_session_id env m session s = Inr (Some (s', ev, res)) \<Longrightarrow> calm s s'"
  unfolding block_mission_def persist_supervisor_session_id_def edit_mission_def Let_def
  by (auto intro!: calm_frame split: option.splits if_splits)

lemma operation_jobs_calm:
  "update_operation env k st phase error s = Inr (Some (s', ev, res)) \<Longrightarrow> calm s s'"
  "finish_operation env k st text s = Inr (Some (s', ev, res)) \<Longrightarrow> calm s s'"
  "queue_draft_pr_operation env m s = Inr (Some (s', ev, res)) \<Longrightarrow> calm s s'"
  "start_delivery m s = Inr (Some (s', ev, res)) \<Longrightarrow> calm s s'"
  "announce event s = Inr (Some (s', ev, res)) \<Longrightarrow> calm s s'"
  unfolding update_operation_def finish_operation_def queue_draft_pr_operation_def start_delivery_def announce_def
    edit_operation_def Let_def
  by (auto intro!: calm_frame split: option.splits if_splits)

lemma expiry_jobs_calm:
  "expire_approval now a s = Inr (Some (s', ev, res)) \<Longrightarrow> calm s s'"
  "expire_terminal_lease now t lease s = Inr (Some (s', ev, res)) \<Longrightarrow> calm s s'"
  "expire_pending_message m s = Inr (Some (s', ev, res)) \<Longrightarrow> calm s s'"
  unfolding expire_approval_def expire_terminal_lease_def expire_pending_message_def
    edit_approval_def edit_terminal_def edit_message_def Let_def
  by (auto intro!: calm_frame split: option.splits if_splits)

lemma setup_jobs_calm:
  "commit_usage_event u s = Inr (Some (s', ev, res)) \<Longrightarrow> calm s s'"
  "set_update_state env k state error s = Inr (Some (s', ev, res)) \<Longrightarrow> calm s s'"
  "ensure_builtin_role env s = Inr (Some (s', ev, res)) \<Longrightarrow> calm s s'"
  "ensure_builtin_supervisor env s = Inr (Some (s', ev, res)) \<Longrightarrow> calm s s'"
  "ensure_default_supervisor_model s = Inr (Some (s', ev, res)) \<Longrightarrow> calm s s'"
  unfolding commit_usage_event_def set_update_state_def ensure_builtin_role_def ensure_builtin_supervisor_def
    ensure_default_supervisor_model_def Let_def
  by (auto intro!: calm_frame split: option.splits if_splits)

lemma failed_task_status: "t_status (failed_task t) \<in> {task_status.Ready, task_status.Blocked}"
  by (simp add: failed_task_def retry_after_failure_def Let_def)

lemma tame_failed: "tame t (failed_task t)"
  by (simp add: tame_def failed_task_def retry_after_failure_def Let_def kin_defs task_ok_def rework_limit_of_def)

lemma mark_task_failure_calm: "mark_task_failure env i s = Inr (Some (s', ev, res)) \<Longrightarrow> calm s s'"
  unfolding mark_task_failure_def Let_def
  by (auto intro: calm_trans [OF calm_edit_feed calm_dependency_locks] tame_failed split: option.splits)

lemma recover_worktreeE:
  assumes "recover_running_worktree_intent env i s = Inr (Some (s', ev, res))"
  obtains w b op where
    "s' = (edit_task i (\<lambda>t. t\<lparr>t_worktree := w, t_branch := b\<rparr>) (drew s))\<lparr>s_operations := s_operations s @ [op]\<rparr>"
  using assms by (force simp: recover_running_worktree_intent_def Let_def split: option.splits if_splits sum.splits)

lemma recover_worktree_calm:
  assumes "recover_running_worktree_intent env i s = Inr (Some (s', ev, res))"
  shows "calm s s'"
proof -
  have f: "tame t (t\<lparr>t_worktree := w, t_branch := b\<rparr>)" for t w b
    by (simp add: tame_def kin_defs task_ok_def rework_limit_of_def)
  obtain w b op where s': "s' = (edit_task i (\<lambda>t. t\<lparr>t_worktree := w, t_branch := b\<rparr>) (drew s))\<lparr>s_operations := s_operations s @ [op]\<rparr>"
    by (rule recover_worktreeE [OF assms])
  have "calm s (drew s)" by (rule calm_drew)
  also have "calm (drew s) (edit_task i (\<lambda>t. t\<lparr>t_worktree := w, t_branch := b\<rparr>) (drew s))"
    by (rule calm_edit_task) (rule f)
  also have "calm (edit_task i (\<lambda>t. t\<lparr>t_worktree := w, t_branch := b\<rparr>) (drew s)) s'" unfolding s' by (rule calm_frame) simp_all
  finally show ?thesis .
qed

lemmas job_calms = agent_jobs_calm mission_jobs_calm operation_jobs_calm expiry_jobs_calm setup_jobs_calm
  mark_task_failure_calm recover_worktree_calm

lemma job_calm:
  assumes "job_edit env job s = Inr (Some (s', ev, res))" "\<And>c. job \<noteq> Reduced c"
  shows "calm s s'"
  using assms by (cases job) (auto simp: job_edit_def dest: job_calms)

end
