(* ===== verification/Accounting.thy ===== *)
theory Accounting
  imports TaskGraph Environment "HOL-Library.Multiset"
begin

text \<open>
  Usage totals and hard budgets (\<open>budget.rs\<close>), the concurrency limit (\<open>scheduler.rs\<close>).
  A \<open>HashMap\<close> is a map with \<open>None\<close> for absent keys.
\<close>

section \<open>Usage totals\<close>

record usage_telemetry =
  ut_measured_input_tokens :: "u64 option"
  ut_measured_output_tokens :: "u64 option"
  ut_estimated_input_tokens :: "u64 option"
  ut_estimated_output_tokens :: "u64 option"
  ut_cost_micros :: "u64 option"
  ut_cached_input_tokens :: "u64 option"
  ut_reasoning_tokens :: "u64 option"

record usage_totals =
  tot_measured_input_tokens :: u64
  tot_measured_output_tokens :: u64
  tot_estimated_input_tokens :: u64
  tot_estimated_output_tokens :: u64
  tot_cost_micros :: u64

definition totals_default :: usage_totals where
  "totals_default = \<lparr>tot_measured_input_tokens = 0, tot_measured_output_tokens = 0,
     tot_estimated_input_tokens = 0, tot_estimated_output_tokens = 0, tot_cost_micros = 0\<rparr>"

definition unwrap_or_default :: "u64 option \<Rightarrow> u64" where
  "unwrap_or_default v = (case v of None \<Rightarrow> 0 | Some x \<Rightarrow> x)"

definition totals_add :: "usage_totals \<Rightarrow> usage_telemetry \<Rightarrow> usage_totals" where
  "totals_add t u = \<lparr>
     tot_measured_input_tokens =
       saturating_add (tot_measured_input_tokens t) (unwrap_or_default (ut_measured_input_tokens u)),
     tot_measured_output_tokens =
       saturating_add (tot_measured_output_tokens t) (unwrap_or_default (ut_measured_output_tokens u)),
     tot_estimated_input_tokens =
       saturating_add (tot_estimated_input_tokens t) (unwrap_or_default (ut_estimated_input_tokens u)),
     tot_estimated_output_tokens =
       saturating_add (tot_estimated_output_tokens t) (unwrap_or_default (ut_estimated_output_tokens u)),
     tot_cost_micros = saturating_add (tot_cost_micros t) (unwrap_or_default (ut_cost_micros u))\<rparr>"

definition measured_tokens :: "usage_totals \<Rightarrow> u64" where
  "measured_tokens t = saturating_add (tot_measured_input_tokens t) (tot_measured_output_tokens t)"

definition estimated_tokens :: "usage_totals \<Rightarrow> u64" where
  "estimated_tokens t = saturating_add (tot_estimated_input_tokens t) (tot_estimated_output_tokens t)"

section \<open>Ledger\<close>

record budget_ledger =
  bl_totals :: "string \<Rightarrow> usage_totals option"
  bl_turns :: "string \<Rightarrow> u32 option"

definition ledger_empty :: budget_ledger where
  "ledger_empty = \<lparr>bl_totals = (\<lambda>_. None), bl_turns = (\<lambda>_. None)\<rparr>"

definition ledger_totals :: "budget_ledger \<Rightarrow> string \<Rightarrow> usage_totals" where
  "ledger_totals l scope_id =
     (case bl_totals l scope_id of None \<Rightarrow> totals_default | Some t \<Rightarrow> t)"

definition ledger_turns :: "budget_ledger \<Rightarrow> string \<Rightarrow> u32" where
  "ledger_turns l scope_id = (case bl_turns l scope_id of None \<Rightarrow> 0 | Some n \<Rightarrow> n)"

definition ledger_record :: "string \<Rightarrow> usage_telemetry \<Rightarrow> budget_ledger \<Rightarrow> budget_ledger" where
  "ledger_record scope_id usage l = l\<lparr>
     bl_totals := (bl_totals l)(scope_id \<mapsto> totals_add (ledger_totals l scope_id) usage),
     bl_turns := (bl_turns l)(scope_id \<mapsto> saturating_add (ledger_turns l scope_id) 1)\<rparr>"

definition telemetry_of_usage :: "usage_view \<Rightarrow> usage_telemetry" where
  "telemetry_of_usage u = \<lparr>ut_measured_input_tokens = us_measured_input_tokens u,
     ut_measured_output_tokens = us_measured_output_tokens u,
     ut_estimated_input_tokens = us_estimated_input_tokens u,
     ut_estimated_output_tokens = us_estimated_output_tokens u,
     ut_cost_micros = us_cost_micros u, ut_cached_input_tokens = us_cached_input_tokens u,
     ut_reasoning_tokens = us_reasoning_tokens u\<rparr>"

text \<open>The body of the loop in \<open>rebuild_from_snapshot\<close>: task usage also counts for the mission
  and the assigned agent.\<close>

definition record_usage_row :: "env \<Rightarrow> 'z snapshot_scheme \<Rightarrow> usage_view \<Rightarrow> budget_ledger \<Rightarrow> budget_ledger" where
  "record_usage_row env s usage l =
     (let telemetry = telemetry_of_usage usage;
          l1 = ledger_record (us_scope_id usage) telemetry l in
      if us_scope usage \<noteq> budget_scope.Task then l1
      else case e_uuid_parse env (us_scope_id usage) of
        None \<Rightarrow> l1
      | Some u \<Rightarrow>
        (case find_task (TaskId u) (s_tasks s) of
           None \<Rightarrow> l1
         | Some task \<Rightarrow>
           (let l2 = ledger_record (e_uuid_text env (mission_uuid (t_mission_id task))) telemetry l1 in
            case t_assigned_agent task of
              None \<Rightarrow> l2
            | Some agent_id \<Rightarrow> ledger_record (show_agent_id env agent_id) telemetry l2)))"

definition rebuild_from_snapshot :: "env \<Rightarrow> 'z snapshot_scheme \<Rightarrow> budget_ledger" where
  "rebuild_from_snapshot env s = fold (record_usage_row env s) (s_usage s) ledger_empty"

definition allows_measured :: "budget_ledger \<Rightarrow> string \<Rightarrow> budget \<Rightarrow> bool" where
  "allows_measured l scope_id budget \<longleftrightarrow>
     (let totals = ledger_totals l scope_id in
      (case bu_turns budget of None \<Rightarrow> True | Some limit \<Rightarrow> ledger_turns l scope_id \<le> limit)
      \<and> (case bu_measured_tokens budget of None \<Rightarrow> True | Some limit \<Rightarrow> measured_tokens totals \<le> limit)
      \<and> (case bu_cost_micros budget of None \<Rightarrow> True | Some limit \<Rightarrow> tot_cost_micros totals \<le> limit))"

section \<open>Scheduler\<close>

definition DEFAULT_MAX_CONCURRENCY :: nat where "DEFAULT_MAX_CONCURRENCY = 4"

record scheduler =
  sc_max_concurrency :: nat
  sc_running :: "task_id set"

definition scheduler_default :: scheduler where
  "scheduler_default = \<lparr>sc_max_concurrency = DEFAULT_MAX_CONCURRENCY, sc_running = {}\<rparr>"

definition can_start :: "scheduler \<Rightarrow> bool" where
  "can_start sc \<longleftrightarrow> card (sc_running sc) < sc_max_concurrency sc"

definition scheduler_start :: "task_id \<Rightarrow> scheduler \<Rightarrow> bool \<times> scheduler" where
  "scheduler_start task sc =
     (if \<not> can_start sc \<or> task \<in> sc_running sc then (False, sc)
      else (True, sc\<lparr>sc_running := insert task (sc_running sc)\<rparr>))"

definition scheduler_finish :: "task_id \<Rightarrow> scheduler \<Rightarrow> scheduler" where
  "scheduler_finish task sc = sc\<lparr>sc_running := sc_running sc - {task}\<rparr>"

section \<open>Properties\<close>

text \<open>
  The ledger is a saturating monoid of frames: the interface below is what the budget check
  relies on, and is interpreted on the totals of the code.
\<close>

locale accumulator =
  fixes zero :: 'a and add :: "'a \<Rightarrow> 'u \<Rightarrow> 'a" and leq :: "'a \<Rightarrow> 'a \<Rightarrow> bool"
  assumes add_swap: "add (add a u) v = add (add a v) u"
    and add_grows: "leq a (add a u)"
    and leq_trans: "leq a b \<Longrightarrow> leq b c \<Longrightarrow> leq a c"
    and leq_refl: "leq a a"
begin

lemma fold_pull: "fold (\<lambda>u a. add a u) us (add a v) = add (fold (\<lambda>u a. add a u) us a) v"
  by (induction us arbitrary: a) (simp_all add: add_swap)

lemma fold_permute:
  "mset us = mset vs \<Longrightarrow> fold (\<lambda>u a. add a u) us a = fold (\<lambda>u a. add a u) vs a"
  by (rule fold_permuted_eq [where P = "\<lambda>_. True"]) (auto simp: add_swap)

lemma fold_grows: "leq a (fold (\<lambda>u a. add a u) us a)"
proof (induction us arbitrary: a)
  case (Cons u us)
  then show ?case using add_grows [of a u] leq_trans by fastforce
qed (simp add: leq_refl)

end

definition totals_le :: "usage_totals \<Rightarrow> usage_totals \<Rightarrow> bool" where
  "totals_le a b \<longleftrightarrow>
     tot_measured_input_tokens a \<le> tot_measured_input_tokens b
     \<and> tot_measured_output_tokens a \<le> tot_measured_output_tokens b
     \<and> tot_estimated_input_tokens a \<le> tot_estimated_input_tokens b
     \<and> tot_estimated_output_tokens a \<le> tot_estimated_output_tokens b
     \<and> tot_cost_micros a \<le> tot_cost_micros b"

interpretation totals: accumulator totals_default totals_add totals_le
  by unfold_locales
    (auto simp: totals_add_def totals_le_def saturating_add_ac saturating_add_ge)

interpretation turn_count: accumulator "0 :: u32" "\<lambda>n (_ :: unit). saturating_add n 1" "(\<le>)"
  by unfold_locales (auto simp: saturating_add_ge)

lemma saturating_add_mono:
  "a \<le> c \<Longrightarrow> b \<le> d \<Longrightarrow> saturating_add a b \<le> saturating_add c (d :: 'a::len word)"
  by (auto simp: word_le_nat_alt unat_saturating_add)

lemma measured_tokens_mono: "totals_le a b \<Longrightarrow> measured_tokens a \<le> measured_tokens b"
  by (simp add: totals_le_def measured_tokens_def saturating_add_mono)

text \<open>The scopes one usage row is charged to, in the order of the code.\<close>

definition charged_scopes :: "env \<Rightarrow> 'z snapshot_scheme \<Rightarrow> usage_view \<Rightarrow> string list" where
  "charged_scopes env s usage =
     us_scope_id usage #
     (if us_scope usage \<noteq> budget_scope.Task then []
      else case Option.bind (e_uuid_parse env (us_scope_id usage)) (\<lambda>u. find_task (TaskId u) (s_tasks s)) of
        None \<Rightarrow> []
      | Some task \<Rightarrow>
          e_uuid_text env (mission_uuid (t_mission_id task)) #
          (case t_assigned_agent task of None \<Rightarrow> [] | Some a \<Rightarrow> [show_agent_id env a]))"

lemma record_usage_row_charges:
  "record_usage_row env s usage l =
     fold (\<lambda>scope. ledger_record scope (telemetry_of_usage usage)) (charged_scopes env s usage) l"
  by (auto simp: record_usage_row_def charged_scopes_def Let_def split: option.split)

definition charges :: "env \<Rightarrow> 'z snapshot_scheme \<Rightarrow> (string \<times> usage_telemetry) list" where
  "charges env s =
     concat (map (\<lambda>row. map (\<lambda>x. (x, telemetry_of_usage row)) (charged_scopes env s row)) (s_usage s))"

lemma rebuild_charges:
  "rebuild_from_snapshot env s = fold (\<lambda>(x, u). ledger_record x u) (charges env s) ledger_empty"
proof -
  have "fold (record_usage_row env s) rows l =
      fold (\<lambda>(x, u). ledger_record x u)
        (concat (map (\<lambda>row. map (\<lambda>x. (x, telemetry_of_usage row)) (charged_scopes env s row)) rows)) l"
    for rows l
    by (induction rows arbitrary: l) (auto simp: record_usage_row_charges fold_map comp_def)
  then show ?thesis by (simp add: rebuild_from_snapshot_def charges_def)
qed

lemma ledger_totals_record [simp]:
  "ledger_totals (ledger_record x u l) y =
     (if y = x then totals_add (ledger_totals l x) u else ledger_totals l y)"
  by (simp add: ledger_totals_def ledger_record_def)

lemma ledger_turns_record [simp]:
  "ledger_turns (ledger_record x u l) y =
     (if y = x then saturating_add (ledger_turns l x) 1 else ledger_turns l y)"
  by (simp add: ledger_turns_def ledger_record_def)

lemma ledger_empty_totals [simp]: "ledger_totals ledger_empty y = totals_default"
  by (simp add: ledger_totals_def ledger_empty_def)

lemma ledger_empty_turns [simp]: "ledger_turns ledger_empty y = 0"
  by (simp add: ledger_turns_def ledger_empty_def)

lemma ledger_totals_fold:
  "ledger_totals (fold (\<lambda>(x, u). ledger_record x u) cs l) y =
     fold (\<lambda>u t. totals_add t u) (map snd (filter (\<lambda>c. fst c = y) cs)) (ledger_totals l y)"
  by (induction cs arbitrary: l) auto

lemma ledger_turns_fold:
  "unat (ledger_turns (fold (\<lambda>(x, u). ledger_record x u) cs l) y) =
     min (unat (ledger_turns l y) + length (filter (\<lambda>c. fst c = y) cs)) (2 ^ 32 - 1)"
proof (induction cs arbitrary: l)
  case Nil
  have "unat (ledger_turns l y) < 2 ^ 32" using unsigned_less [of "ledger_turns l y"] by simp
  then show ?case by simp
next
  case (Cons c cs)
  then show ?case by (cases c) (auto simp: unat_saturating_add)
qed

lemma fold_totals_cost:
  "unat (tot_cost_micros (fold (\<lambda>u t. totals_add t u) us t)) =
     min (unat (tot_cost_micros t) + sum_list (map (\<lambda>u. unat (unwrap_or_default (ut_cost_micros u))) us))
       (2 ^ 64 - 1)"
proof (induction us arbitrary: t)
  case Nil
  have "unat (tot_cost_micros t) < 2 ^ 64" using unsigned_less [of "tot_cost_micros t"] by simp
  then show ?case by simp
next
  case (Cons u us)
  then show ?case by (auto simp: totals_add_def unat_saturating_add)
qed

lemma allows_measured_antimono:
  assumes "ledger_turns l x \<le> ledger_turns l' x" "totals_le (ledger_totals l x) (ledger_totals l' x)"
    and "allows_measured l' x b"
  shows "allows_measured l x b"
  using assms measured_tokens_mono [OF assms(2)]
  by (auto simp: allows_measured_def Let_def totals_le_def split: option.splits)

lemma record_grows:
  "ledger_turns l x \<le> ledger_turns (ledger_record y u l) x"
  "totals_le (ledger_totals l x) (ledger_totals (ledger_record y u l) x)"
  using totals.add_grows totals.leq_refl by (auto simp: saturating_add_ge)

text \<open>The scheduler as a bounded set.\<close>

definition scheduler_ok :: "scheduler \<Rightarrow> bool" where
  "scheduler_ok sc \<longleftrightarrow> finite (sc_running sc) \<and> card (sc_running sc) \<le> sc_max_concurrency sc"

inductive scheduler_step :: "scheduler \<Rightarrow> scheduler \<Rightarrow> bool" where
  sched_start: "scheduler_step sc (snd (scheduler_start t sc))"
| sched_finish: "scheduler_step sc (scheduler_finish t sc)"

inductive_cases scheduler_stepE: "scheduler_step sc sc'"

lemma scheduler_start_ok: "scheduler_ok sc \<Longrightarrow> scheduler_ok (snd (scheduler_start t sc))"
  by (auto simp: scheduler_ok_def scheduler_start_def can_start_def card_insert_if)

lemma scheduler_finish_ok: "scheduler_ok sc \<Longrightarrow> scheduler_ok (scheduler_finish t sc)"
  by (auto simp: scheduler_ok_def scheduler_finish_def intro: order_trans [OF card_Diff1_le])

interpretation scheduling: invariant_system "\<lambda>sc. sc = scheduler_default" scheduler_step scheduler_ok
proof
  show "scheduler_ok s" if "s = scheduler_default" for s
    using that by (simp add: scheduler_ok_def scheduler_default_def)
  show "scheduler_ok t" if "scheduler_ok s" "scheduler_step s t" for s t
    using that(2,1) by (elim scheduler_stepE) (auto intro: scheduler_start_ok scheduler_finish_ok)
qed

end
