(* ===== verification/Server.thy ===== *)
theory Server
  imports DaemonInvariants Accounting
begin

text \<open>
  The command path as a whole: every reduction keeps \<open>world_ok\<close>, the store answers a command
  once, and requests that interleave never overwrite each other.
\<close>

section \<open>Drawn identifiers\<close>

lemma calm_drawn: "calm s s' \<Longrightarrow> w_drawn s \<le> w_drawn s'"
  by (simp add: calm_def)

lemma create_task_drawn: "reduce_create_task env s spec actor = Inr (s', ev, res) \<Longrightarrow> w_drawn s \<le> w_drawn s'"
  by (auto simp: reduce_create_task_def link_parent_def Let_def split: sum.splits option.splits if_splits)

lemma create_work_item_drawn:
  "reduce_create_work_item env s spec actor = Inr (s', ev, res) \<Longrightarrow> w_drawn s \<le> w_drawn s'"
  by (auto simp: reduce_create_work_item_def Let_def dest!: create_work_item_ok(1) split: sum.splits option.splits)

lemma update_task_drawn: "reduce_update_task env s i p actor = Inr (s', ev, res) \<Longrightarrow> w_drawn s \<le> w_drawn s'"
  by (auto simp: reduce_update_task_def Let_def split: sum.splits option.splits if_splits)

lemma spawn_drawn:
  "reduce_spawn_child_work_items env s i cs actor = Inr (s', ev, res) \<Longrightarrow> w_drawn s \<le> w_drawn s'"
  by (auto simp: reduce_spawn_child_work_items_def Let_def dest!: create_children_ok
      split: sum.splits option.splits if_splits)

lemma create_offer_drawn: "reduce_create_work_offer env s i a = Inr (s', ev, res) \<Longrightarrow> w_drawn s \<le> w_drawn s'"
  by (auto simp: reduce_create_work_offer_def Let_def split: sum.splits option.splits if_splits)

lemma respond_offer_drawn:
  "reduce_respond_work_offer env s k b actor = Inr (s', ev, res) \<Longrightarrow> w_drawn s \<le> w_drawn s'"
  by (auto simp: reduce_respond_work_offer_def Let_def dest!: calm_drawn [OF answer_offer_calm(1)]
      split: sum.splits option.splits)

lemma request_input_drawn:
  "reduce_request_human_input env s i k p actor = Inr (s', ev, res) \<Longrightarrow> w_drawn s \<le> w_drawn s'"
  by (auto simp: reduce_request_human_input_def Let_def split: option.splits if_splits)

lemma resolve_input_drawn:
  "reduce_resolve_human_input env s k a actor = Inr (s', ev, res) \<Longrightarrow> w_drawn s \<le> w_drawn s'"
  by (auto simp: reduce_resolve_human_input_def Let_def split: option.splits if_splits)

lemma publish_drawn: "reduce_publish_organization env s v = Inr (s', ev, res) \<Longrightarrow> w_drawn s \<le> w_drawn s'"
  by (auto simp: reduce_publish_organization_def Let_def split: sum.splits if_splits)

lemmas handler_drawn = create_task_drawn create_work_item_drawn update_task_drawn spawn_drawn create_offer_drawn
  respond_offer_drawn request_input_drawn resolve_input_drawn publish_drawn

section \<open>Every command keeps the invariant\<close>

definition keeps :: "(nat \<Rightarrow> uuid) \<Rightarrow> world \<Rightarrow> reduction \<Rightarrow> bool" where
  "keeps uu s r \<longleftrightarrow>
     (\<forall>s' ev res. r = Inr (s', ev, res) \<longrightarrow> world_ok uu s' \<and> w_drawn s \<le> w_drawn s')"

lemma keepsI:
  "(\<And>s' ev res. r = Inr (s', ev, res) \<Longrightarrow> w_drawn s \<le> w_drawn s') \<Longrightarrow>
   (\<And>s' ev res. r = Inr (s', ev, res) \<Longrightarrow> world_ok uu s') \<Longrightarrow> keeps uu s r"
  by (auto simp: keeps_def)

lemma keeps_calm: "world_ok uu s \<Longrightarrow> (\<And>s' ev res. r = Inr (s', ev, res) \<Longrightarrow> calm s s') \<Longrightarrow> keeps uu s r"
  using calm_world_ok calm_drawn by (auto simp: keeps_def)

lemma keeps_misrouted [simp]: "keeps uu s misrouted"
  by (simp add: keeps_def misrouted_def)

lemmas handler_ok = reduce_create_task_ok reduce_create_work_item_ok reduce_update_task_ok reduce_spawn_ok
  reduce_create_work_offer_ok reduce_respond_work_offer_ok reduce_request_human_input_ok
  reduce_resolve_human_input_ok reduce_publish_organization_ok

lemma reduce_assign_task_calm: "reduce_assign_task env s i a actor = Inr (s', ev, res) \<Longrightarrow> calm s s'"
  by (auto simp: reduce_assign_task_def split: sum.splits intro: assign_task_calm)

lemma reduce_claim_task_calm: "reduce_claim_task env s i a src actor = Inr (s', ev, res) \<Longrightarrow> calm s s'"
  by (auto simp: reduce_claim_task_def Let_def split: sum.splits intro: assign_task_calm)

lemmas handler_calm = reduce_assign_task_calm reduce_claim_task_calm reduce_set_task_status_calm
  reduce_release_task_calm reduce_add_task_comment_calm reduce_task_accept_calm reduce_decide_review_calm
  reduce_request_task_rework_calm reduce_drop_work_item_calm reduce_fire_agent_calm
  reduce_relocate_work_items_calm taskboard_calm drain_calm reduce_save_organization_draft_calm team_calm
  mission_calm project_calm grant_calm adjust_budget_calm terminal_calm message_calm connector_calm
  settings_calm update_calm

text \<open>One case per command; each arm is a handler that is calm or has its own lemma.\<close>

lemma keeps_task:
  assumes "world_ok uu s" "inj uu" "e_uuid env = uu"
  shows "keeps uu s (reduce_task env s c actor)"
  unfolding reduce_task_def
  by (cases c; simp only: command.case;
      (rule keeps_misrouted | rule keeps_calm [OF assms(1)], erule handler_calm
        | rule keepsI, erule handler_drawn, erule handler_ok, (rule assms)+))

lemma keeps_proposal:
  "world_ok uu s \<Longrightarrow> keeps uu s (case validate_supervisor_proposal s m p of
     Inl e \<Rightarrow> Inl e | Inr _ \<Rightarrow> Inr (s, SupervisorPlanProposed m p, Accepted))"
  by (auto simp: keeps_def split: sum.splits)

lemma keeps_workflow:
  assumes "world_ok uu s" "inj uu" "e_uuid env = uu"
  shows "keeps uu s (reduce_workflow env s c actor)"
  unfolding reduce_workflow_def
  by (cases c; simp only: command.case;
      (rule keeps_misrouted | rule keeps_calm [OF assms(1)], erule handler_calm
        | rule keepsI, erule handler_drawn, erule handler_ok, (rule assms)+))

lemma keeps_organization:
  assumes "world_ok uu s" "inj uu" "e_uuid env = uu"
  shows "keeps uu s (reduce_organization env s c)"
  unfolding reduce_organization_def
  by (cases c; simp only: command.case;
      (rule keeps_misrouted | rule keeps_calm [OF assms(1)], erule handler_calm
        | rule keepsI, erule handler_drawn, erule handler_ok, (rule assms)+))

lemma keeps_project:
  assumes "world_ok uu s" "inj uu" "e_uuid env = uu"
  shows "keeps uu s (reduce_project env s c)"
  unfolding reduce_project_def
  by (cases c; simp only: command.case;
      (rule keeps_misrouted | rule keeps_calm [OF assms(1)], erule handler_calm
        | rule keepsI, erule handler_drawn, erule handler_ok, (rule assms)+))

lemma keeps_agent:
  assumes "world_ok uu s" "inj uu" "e_uuid env = uu"
  shows "keeps uu s (reduce_agent env s c)"
  unfolding reduce_agent_def
  by (cases c; simp only: command.case;
      (rule keeps_misrouted | rule keeps_calm [OF assms(1)], erule handler_calm
        | rule keepsI, erule handler_drawn, erule handler_ok, (rule assms)+))

lemma keeps_role:
  assumes "world_ok uu s" "inj uu" "e_uuid env = uu"
  shows "keeps uu s (reduce_role env s c)"
  unfolding reduce_role_def
  by (cases c; simp only: command.case;
      (rule keeps_misrouted | rule keeps_calm [OF assms(1)], erule handler_calm
        | rule keepsI, erule handler_drawn, erule handler_ok, (rule assms)+))

lemma keeps_message:
  assumes "world_ok uu s" "inj uu" "e_uuid env = uu"
  shows "keeps uu s (reduce_message env s c actor)"
  unfolding reduce_message_def
  by (cases c; simp only: command.case;
      (rule keeps_misrouted | rule keeps_calm [OF assms(1)], erule handler_calm
        | rule keepsI, erule handler_drawn, erule handler_ok, (rule assms)+))

lemma keeps_approval:
  assumes "world_ok uu s" "inj uu" "e_uuid env = uu"
  shows "keeps uu s (reduce_approval env s c actor)"
  unfolding reduce_approval_def
  by (cases c; simp only: command.case;
      (rule keeps_misrouted | rule keeps_calm [OF assms(1)], erule handler_calm
        | rule keepsI, erule handler_drawn, erule handler_ok, (rule assms)+))

lemma keeps_memory:
  assumes "world_ok uu s" "inj uu" "e_uuid env = uu"
  shows "keeps uu s (reduce_memory env s c actor)"
  unfolding reduce_memory_def
  by (cases c; simp only: command.case;
      (rule keeps_misrouted | rule keeps_calm [OF assms(1)], erule handler_calm
        | rule keepsI, erule handler_drawn, erule handler_ok, (rule assms)+))

lemma keeps_artifact:
  assumes "world_ok uu s" "inj uu" "e_uuid env = uu"
  shows "keeps uu s (reduce_artifact env s c)"
  unfolding reduce_artifact_def
  by (cases c; simp only: command.case;
      (rule keeps_misrouted | rule keeps_calm [OF assms(1)], erule handler_calm
        | rule keepsI, erule handler_drawn, erule handler_ok, (rule assms)+))

lemma keeps_terminal:
  assumes "world_ok uu s" "inj uu" "e_uuid env = uu"
  shows "keeps uu s (reduce_terminal env s c actor)"
  unfolding reduce_terminal_def
  by (cases c; simp only: command.case;
      (rule keeps_misrouted | rule keeps_calm [OF assms(1)], erule handler_calm
        | rule keepsI, erule handler_drawn, erule handler_ok, (rule assms)+))

lemma keeps_operation:
  assumes "world_ok uu s" "inj uu" "e_uuid env = uu"
  shows "keeps uu s (reduce_operation env s c)"
  unfolding reduce_operation_def
  by (cases c; simp only: command.case;
      (rule keeps_misrouted | rule keeps_calm [OF assms(1)], erule handler_calm
        | rule keepsI, erule handler_drawn, erule handler_ok, (rule assms)+))

lemma keeps_mission:
  assumes "world_ok uu s" "inj uu" "e_uuid env = uu"
  shows "keeps uu s (reduce_mission env s c)"
  unfolding reduce_mission_def
  by (cases c; simp only: command.case;
      (rule keeps_misrouted | rule keeps_proposal [OF assms(1)] | rule keeps_calm [OF assms(1)], erule handler_calm
        | rule keepsI, erule handler_drawn, erule handler_ok, (rule assms)+))

lemma keeps_settings: "world_ok uu s \<Longrightarrow> keeps uu s (reduce_settings env s c)"
  by (erule keeps_calm) (rule settings_calm)

lemma keeps_update: "world_ok uu s \<Longrightarrow> keeps uu s (reduce_update env s c)"
  by (erule keeps_calm) (rule update_calm)

lemma reduce_keeps:
  assumes "world_ok uu s" "inj uu" "e_uuid env = uu"
  shows "keeps uu s (reduce env s c actor)"
  using assms unfolding reduce_def
  by (cases "domain_of c")
    (simp_all add: keeps_settings keeps_update keeps_task keeps_workflow keeps_organization keeps_project
      keeps_agent keeps_role keeps_message keeps_approval keeps_memory keeps_artifact keeps_terminal
      keeps_operation keeps_mission)


section \<open>Commits\<close>

lemma read_column_id: "unat v < 2 ^ 63 \<Longrightarrow> read_column v = v"
proof -
  assume "unat v < 2 ^ 63"
  then have "int (unat v) < int (2 ^ 63)" by (simp only: of_nat_less_iff)
  then have "uint v < 2 ^ 63" by simp
  moreover have "- (2 ^ 63) \<le> uint v" by (rule order_trans [OF _ uint_ge_0]) simp
  ultimately have "signed_take_bit 63 (uint v) = uint v" by (intro signed_take_bit_int_eq_self)
  then have "sint v = uint v" by (simp add: sint_uint)
  then show ?thesis by (simp add: read_column_def)
qed

text \<open>A commit either replays a stored answer and leaves the store alone, or advances both
  counters by one and appends one event.\<close>

lemma commit_requestE:
  assumes "commit_request env st rq = Inr (st', cm)"
  obtains (replay) ev where "map_of (st_answers st) (rq_command_id rq) = Some (cm_response cm, ev)" "st' = st"
  | (fresh) "map_of (st_answers st) (rq_command_id rq) = None"
      "rq_expected_revision rq \<in> {None, Some (current_revision st)}"
      "st_world st' = (rq_snapshot rq)\<lparr>s_revision := saturating_add (current_revision st) 1,
         s_event_seq := saturating_add (read_column (st_event_seq st)) 1\<rparr>"
      "st_revision st' = saturating_add (current_revision st) 1"
      "st_event_seq st' = saturating_add (read_column (st_event_seq st)) 1"
      "st_answers st' = (rq_command_id rq, cm_response cm, cm_event cm) # st_answers st"
      "cm_response cm = response_ok (rq_command_id rq) (saturating_add (current_revision st) 1) (rq_result rq)"
  using assms
  by (auto simp: commit_request_def Let_def split: sum.splits option.splits if_splits)

lemma saturating_add_one: "unat v + 1 < 2 ^ LENGTH('a) \<Longrightarrow> unat (saturating_add v (1 :: 'a::len word)) = unat v + 1"
  by (cases "LENGTH('a) = 0") (simp_all add: unat_saturating_add)

lemma world_ok_counters:
  "world_ok uu (w\<lparr>s_revision := r, s_event_seq := q\<rparr>) \<longleftrightarrow> world_ok uu w"
  by (simp add: world_ok_def pending_inputs_def open_offers_def)

lemma world_ok_memory:
  assumes "world_ok uu w" "w_drawn w \<le> n"
  shows "world_ok uu (w\<lparr>w_drawn := n, w_seen := x\<rparr>)"
  using drawn_mono [OF world_ok_ids [OF assms(1)] assms(2)] assms(1)
  by (simp add: world_ok_def pending_inputs_def open_offers_def)

section \<open>Interleaved requests\<close>

text \<open>A request is admitted, loads the snapshot and finishes in separate steps, between which other
  requests run: the awaits of \<open>execute\<close> and \<open>apply\<close>. A request of
  \<open>commit_organization_with_retry\<close> binds itself to the snapshot it loads, and may load again
  after a stale commit. The jobs of the daemon run between the requests; an attempt of a job that another
  commit overtakes changes nothing, so an attempt is one step (\<open>commit_job_serial\<close> below). A restart
  loses the requests in flight and the memory of the mailbox, and \<open>boot\<close> writes the address of the
  new process. \<open>unat (st_revision \<dots>) + 1 < 2 ^ 63\<close> keeps the revision inside the signed column.\<close>

datatype phase = Bound command_envelope actor_ref | Loaded command_envelope actor_ref world

record server =
  sr_uuids :: "nat \<Rightarrow> uuid"
  sr_store :: store
  sr_pending :: "nat \<Rightarrow> phase option"

definition replace_snapshot :: "world \<Rightarrow> store \<Rightarrow> store" where
  "replace_snapshot w st = st\<lparr>st_world := w, st_revision := s_revision w, st_event_seq := s_event_seq w\<rparr>"

definition boot :: "string \<Rightarrow> string \<Rightarrow> u16 \<Rightarrow> store \<Rightarrow> store" where
  "boot fingerprint bind port st =
     (let w = st_world st in
      replace_snapshot (w\<lparr>s_server := (s_server w)\<lparr>sv_tls_fingerprint := fingerprint, sv_bind_address := bind, sv_port := port\<rparr>,
        w_seen := {}\<rparr>) st)"

inductive server_step :: "server \<Rightarrow> server \<Rightarrow> bool" where
  step_admit:
    "admit env (sr_store v) envelope (ac_kind actor) role = Inr bound \<Longrightarrow> ce_expected_revision bound \<noteq> None \<Longrightarrow>
     sr_pending v c = None \<Longrightarrow>
     server_step v (v\<lparr>sr_pending := (sr_pending v)(c := Some (Bound bound actor))\<rparr>)"
| step_load:
    "sr_pending v c = Some (Bound e actor) \<Longrightarrow>
     server_step v (v\<lparr>sr_pending := (sr_pending v)(c := Some (Loaded e actor (st_world (sr_store v))))\<rparr>)"
| step_organization:
    "admit env (sr_store v) envelope (ac_kind actor) role = Inr bound \<Longrightarrow> ce_expected_revision bound = None \<Longrightarrow>
     w = st_world (sr_store v) \<Longrightarrow>
     server_step v (v\<lparr>sr_pending := (sr_pending v)(c :=
       Some (Loaded (bound\<lparr>ce_expected_revision := Some (s_revision w)\<rparr>) actor w))\<rparr>)"
| step_finish:
    "sr_pending v c = Some (Loaded e actor w) \<Longrightarrow> e_uuid env = sr_uuids v \<Longrightarrow>
     unat (st_revision (sr_store v)) + 1 < 2 ^ 63 \<Longrightarrow>
     apply_loaded env (sr_store v) w e actor = (st', r) \<Longrightarrow>
     server_step v (v\<lparr>sr_store := st', sr_pending := (sr_pending v)(c := None)\<rparr>)"
| step_deliver:
    "e_uuid env = sr_uuids v \<Longrightarrow> unat (st_revision (sr_store v)) + 1 < 2 ^ 63 \<Longrightarrow>
     deliver_message env (sr_store v) m = Inr st' \<Longrightarrow> server_step v (v\<lparr>sr_store := st'\<rparr>)"
| step_daemon:
    "e_uuid env = sr_uuids v \<Longrightarrow> unat (st_revision (sr_store v)) + 1 < 2 ^ 63 \<Longrightarrow>
     commit_job 1 (\<lambda>_ st. st) env cid job (sr_store v) = (st', r) \<Longrightarrow> server_step v (v\<lparr>sr_store := st'\<rparr>)"
| step_restart:
    "server_step v (v\<lparr>sr_store := boot fingerprint bind port (sr_store v), sr_pending := (\<lambda>_. None)\<rparr>)"

inductive_cases server_stepE: "server_step v v'"

definition fresh_world :: "server_id \<Rightarrow> organization_id \<Rightarrow> nat \<Rightarrow> world" where
  "fresh_world i oid n = snapshot.extend (snapshot_empty i oid) (world.fields n {})"

definition fresh_store :: "server_id \<Rightarrow> organization_id \<Rightarrow> nat \<Rightarrow> store" where
  "fresh_store i oid n = \<lparr>st_world = fresh_world i oid n, st_revision = 0, st_event_seq = 0, st_answers = [],
     st_events = [], st_outbox = []\<rparr>"

definition server_init :: "server \<Rightarrow> bool" where
  "server_init v \<longleftrightarrow> inj (sr_uuids v) \<and> (\<exists>i oid n. sr_store v = fresh_store i oid n) \<and>
     sr_pending v = (\<lambda>_. None)"

text \<open>What a loaded snapshot may assume about the store: it is not newer, and when the revisions
  agree the snapshots do.\<close>

definition loaded_ok :: "server \<Rightarrow> command_envelope \<Rightarrow> world \<Rightarrow> bool" where
  "loaded_ok v e w \<longleftrightarrow>
     (let st = sr_store v in
      world_ok (sr_uuids v) w \<and> w_drawn w \<le> w_drawn (st_world st) \<and>
      unat (s_revision w) \<le> unat (st_revision st) \<and>
      (s_revision w = st_revision st \<longrightarrow> snapshot_of w = snapshot_of (st_world st)) \<and>
      (\<exists>r. ce_expected_revision e = Some r \<and> unat r \<le> unat (s_revision w)))"

definition phase_ok :: "server \<Rightarrow> phase \<Rightarrow> bool" where
  "phase_ok v p \<longleftrightarrow>
     (case p of
        Bound e _ \<Rightarrow> \<exists>r. ce_expected_revision e = Some r \<and> unat r \<le> unat (st_revision (sr_store v))
      | Loaded e _ w \<Rightarrow> loaded_ok v e w)"

definition server_ok :: "server \<Rightarrow> bool" where
  "server_ok v \<longleftrightarrow>
     inj (sr_uuids v) \<and> world_ok (sr_uuids v) (st_world (sr_store v)) \<and>
     s_revision (st_world (sr_store v)) = st_revision (sr_store v) \<and>
     s_event_seq (st_world (sr_store v)) = st_event_seq (sr_store v) \<and>
     unat (st_revision (sr_store v)) < 2 ^ 63 \<and>
     (\<forall>c p. sr_pending v c = Some p \<longrightarrow> phase_ok v p)"


definition store_ok :: "(nat \<Rightarrow> uuid) \<Rightarrow> store \<Rightarrow> bool" where
  "store_ok uu st \<longleftrightarrow> world_ok uu (st_world st) \<and> s_revision (st_world st) = st_revision st \<and>
     s_event_seq (st_world st) = st_event_seq st \<and> unat (st_revision st) < 2 ^ 63"

text \<open>The change of the store a step makes: a newer revision, or the same snapshot.\<close>

definition advances :: "(nat \<Rightarrow> uuid) \<Rightarrow> store \<Rightarrow> store \<Rightarrow> bool" where
  "advances uu st st' \<longleftrightarrow>
     store_ok uu st' \<and> w_drawn (st_world st) \<le> w_drawn (st_world st') \<and>
     unat (st_revision st) \<le> unat (st_revision st') \<and>
     (st_revision st' = st_revision st \<longrightarrow> snapshot_of (st_world st') = snapshot_of (st_world st))"

lemma snapshot_of_memory [simp]: "snapshot_of (w\<lparr>w_drawn := n, w_seen := x\<rparr>) = snapshot_of w"
  by (simp add: snapshot_of_def snapshot.truncate_def)

lemma advances_refl: "store_ok uu st \<Longrightarrow> advances uu st st"
  by (simp add: advances_def)

lemma advances_trans: "advances uu a b \<Longrightarrow> advances uu b c \<Longrightarrow> advances uu a c"
  unfolding advances_def by (metis order_antisym_conv order_trans word_unat_eq_iff)

lemma advances_remember:
  assumes "store_ok uu st" "w_drawn (st_world st) \<le> w_drawn next"
  shows "advances uu st (remember next st)"
  using assms world_ok_memory by (simp add: advances_def store_ok_def remember_def)

lemma advances_commit:
  assumes st: "store_ok uu st" and room: "unat (st_revision st) + 1 < 2 ^ 63"
    and cm: "commit_request env st rq = Inr (st', cm)"
    and w: "world_ok uu (rq_snapshot rq)" "w_drawn (st_world st) \<le> w_drawn (rq_snapshot rq)"
  shows "advances uu st st'"
  using cm
proof (cases rule: commit_requestE)
  case replay
  with st show ?thesis by (simp add: advances_refl)
next
  case fresh
  have cur: "current_revision st = st_revision st"
    using room by (simp add: current_revision_def read_column_id)
  have rev: "unat (st_revision st') = unat (st_revision st) + 1"
    using fresh(4) room saturating_add_one [of "st_revision st"] by (simp add: cur)
  then have "st_revision st' \<noteq> st_revision st" by auto
  moreover have "store_ok uu st'"
    using fresh(3,4,5) w(1) rev room by (simp add: store_ok_def world_ok_counters)
  moreover have "w_drawn (st_world st') = w_drawn (rq_snapshot rq)" using fresh(3) by simp
  ultimately show ?thesis using w(2) rev by (simp add: advances_def)
qed

lemma reduce_ok:
  assumes "world_ok uu s" "inj uu" "e_uuid env = uu" "reduce env s c actor = Inr (s', ev, res)"
  shows "world_ok uu s'" "w_drawn s \<le> w_drawn s'"
  using reduce_keeps [OF assms(1-3), of c actor] assms(4) by (simp_all add: keeps_def)

text \<open>The four ways a request can finish on the snapshot it loaded.\<close>

definition request_of :: "env \<Rightarrow> command_envelope \<Rightarrow> actor_ref \<Rightarrow> world \<Rightarrow> event \<Rightarrow> command_result \<Rightarrow> commit_input" where
  "request_of env e actor next ev res = \<lparr>rq_command_id = ce_command_id e,
     rq_expected_revision = ce_expected_revision e, rq_actor = actor, rq_event = ev,
     rq_snapshot = next, rq_result = res, rq_artifact_bytes = artifact_bytes env (ce_command e)\<rparr>"

lemma apply_loadedE:
  assumes "apply_loaded env st w e actor = (st', r)"
  obtains (refused) x where "reduce env (with_memory w st) (ce_command e) actor = Inl x" "st' = st" "r = Inl x"
  | (known) nxt ev res where "reduce env (with_memory w st) (ce_command e) actor = Inr (nxt, ev, res)"
      "st' = remember nxt st" "r = Inr (response_ok (ce_command_id e) (s_revision w) res, [])"
  | (stale) nxt ev res x where "reduce env (with_memory w st) (ce_command e) actor = Inr (nxt, ev, res)"
      "commit_request env st (request_of env e actor nxt ev res) = Inl x"
      "st' = remember nxt st" "r = Inl (Store x)"
  | (committed) nxt ev res st1 cm where
      "reduce env (with_memory w st) (ce_command e) actor = Inr (nxt, ev, res)"
      "commit_request env st (request_of env e actor nxt ev res) = Inr (st1, cm)"
      "st' = remember nxt st1" "r = Inr (cm_response cm, delivery_of env (ce_command e) (cm_response cm))"
proof -
  note d = assms [unfolded apply_loaded_def Let_def, folded request_of_def]
  show thesis
  proof (cases "reduce env (with_memory w st) (ce_command e) actor")
    case (Inl x)
    with d show thesis by (intro refused [OF Inl]) auto
  next
    case (Inr x)
    then obtain nxt ev res where x: "reduce env (with_memory w st) (ce_command e) actor = Inr (nxt, ev, res)"
      by (cases x) simp
    note d = d [unfolded x sum.case prod.case]
    let ?dup = "case ev of MessageQueued m \<Rightarrow> existing_message_id (with_memory w st) (ce_command e) = Some (mv_id m)
      | _ \<Rightarrow> False"
    show thesis
    proof (cases ?dup)
      case True
      with d show thesis by (intro known [OF x]) (auto simp: with_memory_def)
    next
      case False
      note d = d [unfolded if_not_P [OF False]]
      show thesis
      proof (cases "commit_request env st (request_of env e actor nxt ev res)")
        case (Inl y)
        with d show thesis by (intro stale [OF x Inl]) (auto simp: request_of_def)
      next
        case (Inr y)
        with d show thesis by (cases y, intro committed [OF x]) (auto simp: request_of_def)
      qed
    qed
  qed
qed

lemma apply_loaded_advances:
  assumes st: "store_ok uu st" and uu: "inj uu" "e_uuid env = uu" and room: "unat (st_revision st) + 1 < 2 ^ 63"
    and w: "world_ok uu w" "w_drawn w \<le> w_drawn (st_world st)"
    and a: "apply_loaded env st w e actor = (st', r)"
  shows "advances uu st st'"
proof -
  let ?w = "with_memory w st"
  have w': "world_ok uu ?w" using world_ok_memory [OF w] by (simp add: with_memory_def)
  have drawn: "w_drawn ?w = w_drawn (st_world st)" by (simp add: with_memory_def)
  from a show ?thesis
  proof (cases rule: apply_loadedE)
    case (refused x)
    with st show ?thesis by (simp add: advances_refl)
  next
    case (known nxt ev res)
    with advances_remember [OF st] reduce_ok(2) [OF w' uu known(1)] drawn show ?thesis by simp
  next
    case (stale nxt ev res x)
    with advances_remember [OF st] reduce_ok(2) [OF w' uu stale(1)] drawn show ?thesis by simp
  next
    case (committed nxt ev res st1 cm)
    note ok = reduce_ok [OF w' uu committed(1), unfolded drawn]
    have adv: "advances uu st st1"
      using advances_commit [OF st room committed(2)] ok by (simp add: request_of_def)
    from committed(2) have "w_drawn (st_world st1) \<le> w_drawn nxt"
      using ok(2) by (cases rule: commit_requestE) (auto simp: request_of_def)
    then have "advances uu st1 (remember nxt st1)" using adv by (intro advances_remember) (simp_all add: advances_def)
    then show ?thesis unfolding committed(3) by (rule advances_trans [OF adv])
  qed
qed

lemma deliver_calm: "calm w (edit_message m f (drew w))"
  by (rule calm_frame) (simp_all add: edit_message_def)

lemma deliver_messageE:
  assumes "deliver_message env st m = Inr st'"
  obtains (idle) "st' = st"
  | (commit) rq cm where "commit_request env st rq = Inr (st', cm)"
      "rq_snapshot rq = edit_message m (\<lambda>x. x\<lparr>mv_delivery := delivery_status.Delivered\<rparr>) (drew (st_world st))"
  using assms by (auto simp: deliver_message_def Let_def split: option.splits if_splits sum.splits)

lemma deliver_message_advances:
  assumes st: "store_ok uu st" and room: "unat (st_revision st) + 1 < 2 ^ 63"
    and d: "deliver_message env st m = Inr st'"
  shows "advances uu st st'"
  using d
proof (cases rule: deliver_messageE)
  case idle
  with st show ?thesis by (simp add: advances_refl)
next
  case (commit rq cm)
  have "world_ok uu (st_world st)" using st by (simp add: store_ok_def)
  then show ?thesis
    using advances_commit [OF st room commit(1)] commit(2) calm_world_ok [OF deliver_calm]
      calm_drawn [OF deliver_calm] by simp
qed

text \<open>An undisturbed attempt of a job: it stops early, or it commits its edit.\<close>

lemma with_memory_remember [simp]: "with_memory next (remember next st) = next"
  by (simp add: with_memory_def remember_def)

lemma commit_jobE:
  assumes "commit_job 1 (\<lambda>_ st. st) env cid job st = (st', r)"
  obtains (still) "st' = st"
  | (drawn) nxt ev res where "job_edit env job (st_world st) = Inr (Some (nxt, ev, res))" "st' = remember nxt st"
  | (committed) nxt ev res cm where "job_edit env job (st_world st) = Inr (Some (nxt, ev, res))"
      "commit_request env (remember nxt st) (job_request cid (s_revision (st_world st)) nxt ev res) = Inr (st', cm)"
  using assms
  by (auto simp: One_nat_def Let_def split: sum.splits option.splits prod.splits store_error.splits)

lemma job_edit_ok:
  assumes "world_ok uu s" "inj uu" "e_uuid env = uu" "job_edit env job s = Inr (Some (s', ev, res))"
  shows "world_ok uu s'" "w_drawn s \<le> w_drawn s'"
proof -
  have "world_ok uu s' \<and> w_drawn s \<le> w_drawn s'"
  proof (cases "\<exists>c. job = Reduced c")
    case True
    with assms(4) obtain c where "reduce env s c actor_system = Inr (s', ev, res)"
      by (auto simp: job_edit_def commit_reduced_def split: sum.splits)
    with reduce_ok [OF assms(1-3)] show ?thesis by blast
  next
    case False
    then have "calm s s'" using job_calm [OF assms(4)] by blast
    with assms(1) show ?thesis by (simp add: calm_world_ok calm_drawn)
  qed
  then show "world_ok uu s'" "w_drawn s \<le> w_drawn s'" by auto
qed

lemma commit_job_advances:
  assumes st: "store_ok uu st" and uu: "inj uu" "e_uuid env = uu" and room: "unat (st_revision st) + 1 < 2 ^ 63"
    and c: "commit_job 1 (\<lambda>_ st. st) env cid job st = (st', r)"
  shows "advances uu st st'"
  using c
proof (cases rule: commit_jobE)
  case still
  with st show ?thesis by (simp add: advances_refl)
next
  case (drawn nxt ev res)
  have "world_ok uu (st_world st)" using st by (simp add: store_ok_def)
  from job_edit_ok(2) [OF this uu drawn(1)] show ?thesis unfolding drawn(2) by (rule advances_remember [OF st])
next
  case (committed nxt ev res cm)
  have w: "world_ok uu (st_world st)" using st by (simp add: store_ok_def)
  note ok = job_edit_ok [OF w uu committed(1)]
  have a: "advances uu st (remember nxt st)" by (rule advances_remember [OF st ok(2)])
  then have "store_ok uu (remember nxt st)" by (simp add: advances_def)
  then have "advances uu (remember nxt st) st'"
    using ok room by (intro advances_commit [OF _ _ committed(2)]) (simp_all add: job_request_def remember_def)
  with a show ?thesis by (rule advances_trans)
qed

text \<open>A job under interference: whatever other requests do between its reads and its commits, it leaves
  the store to them or commits once, and then its edit is that of the snapshot current at the commit.\<close>

definition job_committed :: "env \<Rightarrow> command_id \<Rightarrow> daemon_job \<Rightarrow> store \<Rightarrow> store \<Rightarrow> bool" where
  "job_committed env cid job a st' \<longleftrightarrow>
     (\<exists>w nxt ev res cm. snapshot_of w = snapshot_of (st_world a) \<and> job_edit env job w = Inr (Some (nxt, ev, res)) \<and>
        commit_request env a (job_request cid (s_revision w) (with_memory nxt a) ev res) = Inr (st', cm))"

text \<open>The stores other requests make of one, the memory of UUIDs a job has drawn aside.\<close>

inductive meanwhile :: "(nat \<Rightarrow> store \<Rightarrow> store) \<Rightarrow> store \<Rightarrow> store \<Rightarrow> bool" for others :: "nat \<Rightarrow> store \<Rightarrow> store" where
  meanwhile_none: "meanwhile others st st"
| meanwhile_some: "meanwhile others (others k (remember w st)) a \<Longrightarrow> meanwhile others st a"

lemma commit_job_serial:
  assumes "store_ok uu st" and uu: "inj uu" "e_uuid env = uu"
    and others: "\<And>k s. store_ok uu s \<Longrightarrow> advances uu s (others k s)"
    and "commit_job n others env cid job st = (st', r)"
  shows "\<exists>a. meanwhile others st a \<and> (st' = a \<or> r = Inr () \<and> job_committed env cid job a st')"
  using assms(1,5)
proof (induction n arbitrary: st)
  case 0
  then show ?case using meanwhile_none by auto
next
  case (Suc k)
  have st: "store_ok uu st" "world_ok uu (st_world st)" "s_revision (st_world st) = st_revision st"
    using Suc.prems(1) by (simp_all add: store_ok_def)
  note d = Suc.prems(2) [unfolded commit_job.simps Let_def]
  consider e where "job_edit env job (st_world st) = Inl e" | "job_edit env job (st_world st) = Inr None"
    | nxt ev res where "job_edit env job (st_world st) = Inr (Some (nxt, ev, res))"
    by (metis sum.exhaust option.exhaust prod_cases3)
  then show ?case
  proof cases
    case (3 nxt ev res)
    define st1 where "st1 = others k (remember nxt st)"
    note d = d [unfolded 3 sum.case option.case prod.case, folded st1_def]
    have "advances uu st (remember nxt st)" by (rule advances_remember [OF st(1) job_edit_ok(2) [OF st(2) uu 3]])
    moreover from this have "advances uu (remember nxt st) st1"
      unfolding st1_def by (intro others) (simp add: advances_def)
    ultimately have a: "advances uu st st1" by (rule advances_trans)
    then have ok: "store_ok uu st1" by (simp add: advances_def)
    have m: "meanwhile others st b" if "meanwhile others st1 b" for b
      using that unfolding st1_def by (rule meanwhile_some)
    then have m1: "meanwhile others st st1" by (simp add: meanwhile_none)
    show ?thesis
    proof (cases "commit_request env st1 (job_request cid (s_revision (st_world st)) (with_memory nxt st1) ev res)")
      case (Inl e)
      show ?thesis
      proof (cases e)
        case (StaleRevision x)
        with Inl d have "commit_job k others env cid job st1 = (st', r)" by simp
        from Suc.IH [OF ok this] m show ?thesis by blast
      qed (use Inl d m1 in auto)
    next
      case (Inr y)
      then obtain cm where c: "commit_request env st1
          (job_request cid (s_revision (st_world st)) (with_memory nxt st1) ev res) = Inr (st', cm)" "r = Inr ()"
        using d by (cases y) auto
      from c(1) show ?thesis
      proof (cases rule: commit_requestE)
        case replay
        with m1 show ?thesis by blast
      next
        case fresh
        have "current_revision st1 = st_revision st1"
          using ok by (simp add: store_ok_def current_revision_def read_column_id)
        with fresh(2) st(3) a have "snapshot_of (st_world st) = snapshot_of (st_world st1)"
          by (simp add: job_request_def advances_def)
        with 3 c have "job_committed env cid job st1 st'" unfolding job_committed_def by blast
        with m1 c(2) show ?thesis by blast
      qed
    qed
  qed (use d meanwhile_none in auto)
qed

lemma boot_store_ok: "store_ok uu st \<Longrightarrow> store_ok uu (boot fingerprint bind port st)"
  by (simp add: store_ok_def boot_def replace_snapshot_def world_ok_def pending_inputs_def open_offers_def Let_def)

lemma phase_ok_advances:
  assumes "phase_ok v p" "advances (sr_uuids v) (sr_store v) st'"
  shows "phase_ok (v\<lparr>sr_store := st', sr_pending := x\<rparr>) p"
proof (cases p)
  case (Bound e a)
  with assms show ?thesis by (auto simp: phase_ok_def advances_def)
next
  case (Loaded e a w)
  with assms(1) have l: "loaded_ok v e w" by (simp add: phase_ok_def)
  have same: "snapshot_of w = snapshot_of (st_world st')" if "s_revision w = st_revision st'"
  proof -
    from that l assms(2) have "unat (st_revision (sr_store v)) = unat (st_revision st')"
      by (auto simp: loaded_ok_def Let_def advances_def)
    then have "st_revision (sr_store v) = st_revision st'" by (simp add: word_unat_eq_iff)
    with that l assms(2) show ?thesis by (simp add: loaded_ok_def Let_def advances_def)
  qed
  then have "loaded_ok (v\<lparr>sr_store := st', sr_pending := x\<rparr>) e w"
    using l assms(2) by (auto simp: loaded_ok_def Let_def advances_def)
  with Loaded show ?thesis by (simp add: phase_ok_def)
qed

lemma server_ok_store: "server_ok v \<Longrightarrow> store_ok (sr_uuids v) (sr_store v)"
  by (simp add: server_ok_def store_ok_def)

lemma server_ok_advances:
  assumes v: "server_ok v" and adv: "advances (sr_uuids v) (sr_store v) st'"
    and x: "\<And>c p. x c = Some p \<Longrightarrow> sr_pending v c = Some p"
  shows "server_ok (v\<lparr>sr_store := st', sr_pending := x\<rparr>)"
proof -
  have "phase_ok (v\<lparr>sr_store := st', sr_pending := x\<rparr>) p" if "x c = Some p" for c p
    using phase_ok_advances [OF _ adv] v x [OF that] by (simp add: server_ok_def)
  with v adv show ?thesis by (simp add: server_ok_def advances_def store_ok_def)
qed

lemma server_ok_pending:
  assumes v: "server_ok v" and p: "phase_ok v p"
  shows "server_ok (v\<lparr>sr_pending := (sr_pending v)(c := Some p)\<rparr>)"
proof -
  have "phase_ok (v\<lparr>sr_pending := x\<rparr>) q \<longleftrightarrow> phase_ok v q" for x q
    by (cases q) (simp_all add: phase_ok_def loaded_ok_def)
  with v p show ?thesis by (simp add: server_ok_def)
qed

lemma admit_bound:
  assumes "admit env st e k r = Inr b" "ce_expected_revision b \<noteq> None"
  shows "ce_expected_revision b = Some (current_revision st)"
  using assms by (auto simp: admit_def Let_def split: if_splits sum.splits option.splits)

lemma loaded_now:
  assumes "server_ok v" "ce_expected_revision e = Some r" "unat r \<le> unat (st_revision (sr_store v))"
  shows "loaded_ok v e (st_world (sr_store v))"
  using assms by (simp add: loaded_ok_def Let_def server_ok_def)

lemma server_step_ok: "server_step v v' \<Longrightarrow> server_ok v \<Longrightarrow> server_ok v'"
proof (induction rule: server_step.induct)
  case (step_admit env v envelope actor role bound c)
  have "current_revision (sr_store v) = st_revision (sr_store v)"
    using step_admit.prems by (simp add: server_ok_def current_revision_def read_column_id)
  then show ?case
    using step_admit.prems admit_bound [OF step_admit.hyps(1,2)]
    by (intro server_ok_pending) (simp_all add: phase_ok_def)
next
  case (step_load v c e actor)
  then have "phase_ok v (Bound e actor)" by (simp add: server_ok_def)
  then show ?case
    using step_load.prems loaded_now [OF step_load.prems, of e]
    by (intro server_ok_pending) (auto simp: phase_ok_def)
next
  case (step_organization env v envelope actor role bound w c)
  then show ?case
    using loaded_now [OF step_organization.prems, of "bound\<lparr>ce_expected_revision := Some (s_revision w)\<rparr>"]
    by (intro server_ok_pending) (simp_all add: phase_ok_def server_ok_def)
next
  case (step_finish v c e actor w env st' r)
  then have "phase_ok v (Loaded e actor w)" and i: "inj (sr_uuids v)" by (simp_all add: server_ok_def)
  then have l: "loaded_ok v e w" by (simp add: phase_ok_def)
  have "advances (sr_uuids v) (sr_store v) st'"
    using l by (intro apply_loaded_advances [OF server_ok_store [OF step_finish.prems] i
          step_finish.hyps(2,3) _ _ step_finish.hyps(4)]) (simp_all add: loaded_ok_def Let_def)
  then show ?case by (rule server_ok_advances [OF step_finish.prems]) (simp split: if_splits)
next
  case (step_deliver env v m st')
  have "advances (sr_uuids v) (sr_store v) st'"
    by (rule deliver_message_advances [OF server_ok_store [OF step_deliver.prems] step_deliver.hyps(2,3)])
  from server_ok_advances [OF step_deliver.prems this, of "sr_pending v"] show ?case by simp
next
  case (step_daemon env v cid job st' r)
  then have "inj (sr_uuids v)" by (simp add: server_ok_def)
  then have "advances (sr_uuids v) (sr_store v) st'"
    by (rule commit_job_advances [OF server_ok_store [OF step_daemon.prems] _ step_daemon.hyps])
  from server_ok_advances [OF step_daemon.prems this, of "sr_pending v"] show ?case by simp
next
  case (step_restart v fingerprint bind port)
  then have "store_ok (sr_uuids v) (boot fingerprint bind port (sr_store v))"
    by (intro boot_store_ok server_ok_store)
  with step_restart show ?case by (simp add: server_ok_def store_ok_def)
qed

lemma fresh_world_ok: "world_ok uu (fresh_world i oid n)"
  by (simp add: world_ok_def board_ok_def task_dag_def family_ok_def deps_in_mission_def task_deps_def
      pending_inputs_def open_offers_def fresh_world_def snapshot_empty_def organization_default_def
      snapshot.defs world.defs acyclic_def trancl_empty)

interpretation serving: invariant_system server_init server_step server_ok
proof
  show "server_ok v" if "server_init v" for v
    using that fresh_world_ok
    by (auto simp: server_init_def server_ok_def fresh_store_def fresh_world_def snapshot_empty_def
        snapshot.defs world.defs)
qed (rule server_step_ok)

end
