(* ===== verification/EventLog.thy ===== *)
theory EventLog
  imports Server
begin

text \<open>
  The event log as a history: what is in the store after any interleaving of requests. The answers
  and the events are the same commits, one per command id, numbered without gaps.
\<close>

section \<open>The log invariant\<close>

definition answered :: "command_id \<times> command_response \<times> event_envelope \<Rightarrow> bool" where
  "answered x \<longleftrightarrow>
     (case x of (i, r, ev) \<Rightarrow> ee_correlation_id ev = Some i \<and> cr_command_id r = i \<and> cr_error r = None)"

definition log_ok :: "store \<Rightarrow> bool" where
  "log_ok st \<longleftrightarrow>
     unat (st_revision st) < 2 ^ 63 \<and> st_event_seq st = st_revision st \<and>
     distinct (map fst (st_answers st)) \<and> (\<forall>x \<in> set (st_answers st). answered x) \<and>
     st_events st = rev (map (\<lambda>(_, r, ev). (cr_revision r, ev)) (st_answers st)) \<and>
     st_outbox st = map snd (st_events st) \<and>
     map (unat \<circ> fst) (st_events st) = [1..<Suc (unat (st_revision st))] \<and>
     map (unat \<circ> ee_seq \<circ> snd) (st_events st) = [1..<Suc (unat (st_revision st))]"

lemma log_ok_remember [simp]: "log_ok (remember nxt st) = log_ok st"
  by (simp add: log_ok_def remember_def)

lemma log_ok_commit:
  assumes st: "log_ok st" and room: "unat (st_revision st) + 1 < 2 ^ 63"
    and cm: "commit_request env st rq = Inr (st', cm)"
  shows "log_ok st'"
proof (cases "map_of (st_answers st) (rq_command_id rq)")
  case (Some a)
  then have "st' = st" using cm by (auto simp: commit_request_def split: sum.splits prod.splits)
  with st show ?thesis by simp
next
  case None
  have col: "read_column (st_revision st) = st_revision st"
    using st by (simp add: log_ok_def read_column_id)
  define n where "n = saturating_add (st_revision st) 1"
  have n: "unat n = unat (st_revision st) + 1"
    using room saturating_add_one [of "st_revision st"] by (simp add: n_def)
  have seq: "st_event_seq st = st_revision st" using st by (simp add: log_ok_def)
  define ev where "ev = \<lparr>ee_seq = n, ee_occurred_at = e_now env, ee_actor = rq_actor rq,
    ee_correlation_id = Some (rq_command_id rq), ee_event = rq_event rq\<rparr>"
  have st': "st_revision st' = n" "st_event_seq st' = n"
    "st_answers st' = (rq_command_id rq, response_ok (rq_command_id rq) n (rq_result rq), ev) # st_answers st"
    "st_events st' = st_events st @ [(n, ev)]" "st_outbox st' = st_outbox st @ [ev]"
    using cm None by (auto simp: commit_request_def current_revision_def col seq n_def ev_def Let_def
        split: sum.splits if_splits)
  have "rq_command_id rq \<notin> fst ` set (st_answers st)" using None by (simp add: map_of_eq_None_iff)
  then show ?thesis
    using st n room unfolding log_ok_def st'
    by (auto simp: answered_def response_ok_def ev_def)
qed

lemma log_ok_world [simp]: "log_ok (st\<lparr>st_world := w\<rparr>) = log_ok st"
  by (simp add: log_ok_def)

lemma boot_world:
  "store_ok uu st \<Longrightarrow> boot fingerprint bind port st = st\<lparr>st_world := st_world (boot fingerprint bind port st)\<rparr>"
  by (cases st) (simp add: store_ok_def boot_def replace_snapshot_def Let_def)

lemma log_ok_boot: "store_ok uu st \<Longrightarrow> log_ok st \<Longrightarrow> log_ok (boot fingerprint bind port st)"
  by (subst boot_world) simp_all

lemma log_ok_step: "server_step v v' \<Longrightarrow> server_ok v \<Longrightarrow> log_ok (sr_store v) \<Longrightarrow> log_ok (sr_store v')"
proof (induction rule: server_step.induct)
  case (step_finish v c e actor w env st' r)
  from step_finish.hyps(4) have "log_ok st'"
    using step_finish.prems(2) log_ok_commit [OF step_finish.prems(2) step_finish.hyps(3)]
    by (cases rule: apply_loadedE) auto
  then show ?case by simp
next
  case (step_deliver env v m st')
  from step_deliver.hyps(3) have "log_ok st'"
    using step_deliver.prems(2) log_ok_commit [OF step_deliver.prems(2) step_deliver.hyps(2)]
    by (cases rule: deliver_messageE) auto
  then show ?case by simp
next
  case (step_daemon env v cid job st' r)
  from step_daemon.hyps(3) have "log_ok st'"
  proof (cases rule: commit_jobE)
    case (committed nxt ev res cm)
    have "log_ok (remember nxt (sr_store v))" using step_daemon.prems(2) by simp
    from log_ok_commit [OF this _ committed(2)] step_daemon.hyps(2) show ?thesis by (simp add: remember_def)
  qed (use step_daemon.prems(2) in simp_all)
  then show ?case by simp
next
  case (step_restart v fingerprint bind port)
  then show ?case using log_ok_boot [OF server_ok_store [OF step_restart.prems(1)]] by simp
qed simp_all

text \<open>The log invariant needs the service invariant: a restart writes the counters of the snapshot back.\<close>

interpretation logging: invariant_system server_init server_step "\<lambda>v. server_ok v \<and> log_ok (sr_store v)"
proof
  show "server_ok v \<and> log_ok (sr_store v)" if "server_init v" for v
    using that serving.init_inv by (auto simp: server_init_def fresh_store_def log_ok_def)
qed (simp add: server_step_ok log_ok_step)

lemmas reachable_log = logging.reachable_inv [THEN conjunct2]

section \<open>Answers are final\<close>

lemma commit_keeps_answer:
  assumes "commit_request env st rq = Inr (st', cm)" "map_of (st_answers st) i = Some a"
  shows "map_of (st_answers st') i = Some a"
  using assms(1) by (cases rule: commit_requestE) (use assms(2) in auto)

lemma step_keeps_answer:
  "server_step v v' \<Longrightarrow> map_of (st_answers (sr_store v)) i = Some a \<Longrightarrow>
   map_of (st_answers (sr_store v')) i = Some a"
proof (induction rule: server_step.induct)
  case (step_finish v c e actor w env st' r)
  from step_finish.hyps(4) have "map_of (st_answers st') i = Some a"
    using step_finish.prems commit_keeps_answer
    by (cases rule: apply_loadedE) (auto simp: remember_def)
  then show ?case by simp
next
  case (step_deliver env v m st')
  from step_deliver.hyps(3) have "map_of (st_answers st') i = Some a"
    using step_deliver.prems commit_keeps_answer
    by (cases rule: deliver_messageE) auto
  then show ?case by simp
next
  case (step_daemon env v cid job st' r)
  from step_daemon.hyps(3) have "map_of (st_answers st') i = Some a"
    using step_daemon.prems commit_keeps_answer by (cases rule: commit_jobE) (auto simp: remember_def)
  then show ?case by simp
qed (simp_all add: boot_def replace_snapshot_def Let_def)

lemma run_keeps_answer:
  "server_step\<^sup>*\<^sup>* v v' \<Longrightarrow> map_of (st_answers (sr_store v)) i = Some a \<Longrightarrow>
   map_of (st_answers (sr_store v')) i = Some a"
  by (induction rule: rtranclp_induct) (auto intro: step_keeps_answer)

section \<open>A commit works on the latest snapshot\<close>

lemma with_memory_current:
  assumes "snapshot_of w = snapshot_of (st_world st)"
  shows "with_memory w st = st_world st"
  using assms by (cases w; cases "st_world st") (auto simp: with_memory_def snapshot_of_def snapshot.truncate_def)

lemma finish_on_current:
  assumes v: "server_ok v" and p: "sr_pending v c = Some (Loaded e actor w)"
    and a: "apply_loaded env (sr_store v) w e actor = (st', r)"
    and n: "st_revision st' \<noteq> st_revision (sr_store v)"
  obtains nxt ev res cm st1 where
    "reduce env (st_world (sr_store v)) (ce_command e) actor = Inr (nxt, ev, res)"
    "commit_request env (sr_store v) (request_of env e actor nxt ev res) = Inr (st1, cm)"
    "st' = remember nxt st1" "map_of (st_answers (sr_store v)) (ce_command_id e) = None"
    "r = Inr (cm_response cm, delivery_of env (ce_command e) (cm_response cm))"
proof -
  let ?st = "sr_store v"
  have "phase_ok v (Loaded e actor w)" using v p by (simp add: server_ok_def)
  then have l: "loaded_ok v e w" by (simp add: phase_ok_def)
  have cur: "current_revision ?st = st_revision ?st"
    using v by (simp add: server_ok_def current_revision_def read_column_id)
  from a show thesis
  proof (cases rule: apply_loadedE)
    case (committed nxt ev res st1 cm)
    from committed(2) show thesis
    proof (cases rule: commit_requestE)
      case (replay a)
      with committed(3) n show thesis by (simp add: remember_def)
    next
      case fresh
      obtain x where x: "ce_expected_revision e = Some x" "unat x \<le> unat (s_revision w)"
        "unat (s_revision w) \<le> unat (st_revision ?st)"
        using l by (auto simp: loaded_ok_def Let_def)
      with fresh(2) cur have "x = st_revision ?st" by (simp add: request_of_def)
      with x have "s_revision w = st_revision ?st" by (simp add: word_unat_eq_iff)
      with l have "with_memory w ?st = st_world ?st"
        by (intro with_memory_current) (simp add: loaded_ok_def Let_def)
      with committed fresh(1) show thesis by (intro that) (auto simp: request_of_def)
    qed
  qed (use n in \<open>simp_all add: remember_def\<close>)
qed

end
