(* ===== verification/Installation.thy ===== *)
theory Installation
  imports EventLog "HOL-Library.Code_Target_Nat"
begin

text \<open>
  A small concrete installation: one project, one active mission, two workers and a board of tasks.
  The theorems about the command path are applied to it, so that their hypotheses are seen to hold
  somewhere. The parameters of \<open>env\<close> are plain functions: ids are counted, texts are unary.
\<close>

definition demo_env :: env where
  "demo_env = \<lparr>e_now = ''1700000000000'', e_epoch_seconds = 1700000000, e_uuid = Suc,
     e_uuid_text = (\<lambda>u. replicate u CHR ''i''), e_uuid_parse = (\<lambda>s. Some (length s)),
     e_worktree_encode = (\<lambda>r. Inr (replicate (task_uuid (cw_task_id r)) CHR ''i'')), e_worktree_decode = (\<lambda>_. None),
     e_exists = (\<lambda>_. True), e_canonicalize = Some, e_is_dir = (\<lambda>_. True),
     e_model_catalog = Inr [(''model'', None)], e_json_text = (\<lambda>_. ''{}''), e_connector_secret = (\<lambda>_. Inr None),
     e_sha256 = (\<lambda>s. s), e_memory_encode = (\<lambda>_ p c. Inr (p @ c)), e_memory_read = (\<lambda>_ _. Inr None),
     e_validate_repository = (\<lambda>_. None), e_upload_bytes = (\<lambda>_. Inr None), e_max_message_bytes = 65536,
     e_update_manifest = Inl ''offline'', e_package_version = ''1.0.0'', e_arch = ''x86_64'', e_os = ''linux'',
     e_env_var = (\<lambda>_. None), e_stage_encode = (\<lambda>_. Inr ''stage''), e_stage_decode = (\<lambda>_. None),
     e_host_encode = (\<lambda>_ _. None), e_host_decode = (\<lambda>_. None), e_envelope_json = (\<lambda>_. Some [])\<rparr>"

definition demo_actor :: actor_ref where
  "demo_actor = \<lparr>ac_kind = actor_kind.Device, ac_id = None, ac_display_name = Some ''owner''\<rparr>"

definition demo_project :: project_view where
  "demo_project = \<lparr>p_id = ProjectId 1001, p_name = ''repo'', p_path = ''/repo'', p_base_branch = ''main'',
     p_remote = None, p_check_commands = [], p_worktree_root = ''/trees'',
     p_push_policy = push_policy.MissionBranch, p_pr_policy = pr_policy.Disabled, p_archived = False\<rparr>"

definition demo_mission :: mission_view where
  "demo_mission = \<lparr>m_id = MissionId 1002, m_project_id = ProjectId 1001, m_objective = ''ship'',
     m_status = mission_status.Active, m_supervisor_session_id = None, m_branch = ''frank/ship'',
     m_budget = budget_unlimited, m_last_error = None, m_created_at = ''0'', m_updated_at = ''0''\<rparr>"

definition demo_agent :: "nat \<Rightarrow> string \<Rightarrow> agent_view" where
  "demo_agent i name = \<lparr>a_id = AgentId i, a_role_id = None, a_role_revision = 0, a_display_name = name,
     a_model = None, a_effective_model = None, a_model_source = model_source.Role, a_model_override = None,
     a_pending_model_override = None, a_pending_model_change = False, a_instructions = [],
     a_policy = policy_default, a_budget = budget_unlimited, a_status = agent_status.Idle,
     a_provider_session_id = None, a_last_claimed_at = None, a_archived = False\<rparr>"

definition demo_task :: "nat \<Rightarrow> task_id list \<Rightarrow> task_status \<Rightarrow> agent_id option \<Rightarrow> task_view" where
  "demo_task i deps st agent = \<lparr>t_id = TaskId i, t_mission_id = MissionId 1002, t_title = ''work'',
     t_objective = ''do it'', t_dependencies = deps, t_required_role_id = None, t_priority = 0,
     t_budget = budget_unlimited, t_status = st, t_assigned_agent = agent, t_reviewer_agent = None,
     t_claimed_at = None, t_claim_source = None, t_attempt = 0, t_max_attempts = 2, t_worktree = None,
     t_branch = None, t_result_artifact = None, t_taskboard_id = None, t_workflow_id = None,
     t_parent_task_id = None, t_child_task_ids = [], t_kind = work_item_kind.Task,
     t_active_role_node_id = None, t_organization_revision = None, t_rework_limit = 3, t_rework_count = 0\<rparr>"

text \<open>Task 1 is ready and claimed by agent 11, task 2 waits for it; agent 12 is free.\<close>

definition demo_world :: world where
  "demo_world = (fresh_world (ServerId 1000) (OrganizationId 1003) 2)\<lparr>
     s_projects := [demo_project], s_missions := [demo_mission],
     s_agents := [demo_agent 11 ''ada'', demo_agent 12 ''bob''],
     s_tasks := [demo_task 1 [] task_status.Ready (Some (AgentId 11)),
                 demo_task 2 [TaskId 1] task_status.Blocked None]\<rparr>"

section \<open>A run of the server\<close>

text \<open>One request served from admission to the end without interruption.\<close>

definition serve :: "env \<Rightarrow> actor_ref \<Rightarrow> device_role \<Rightarrow> command_envelope \<Rightarrow> server \<Rightarrow> server" where
  "serve env actor role envelope v =
     (case admit env (sr_store v) envelope (ac_kind actor) role of
        Inl _ \<Rightarrow> v
      | Inr bound \<Rightarrow>
          if ce_expected_revision bound = None \<or> 2 ^ 63 \<le> unat (st_revision (sr_store v)) + 1 then v
          else v\<lparr>sr_store := fst (apply_loaded env (sr_store v) (st_world (sr_store v)) bound actor)\<rparr>)"

lemma serve_frame [simp]:
  "sr_pending (serve env actor role envelope v) = sr_pending v"
  "sr_uuids (serve env actor role envelope v) = sr_uuids v"
  by (simp_all add: serve_def split: sum.split)

lemma serve_run:
  assumes p: "sr_pending v = (\<lambda>_. None)" and u: "e_uuid env = sr_uuids v"
  shows "server_step\<^sup>*\<^sup>* v (serve env actor role envelope v)"
proof (cases "admit env (sr_store v) envelope (ac_kind actor) role")
  case (Inr e)
  show ?thesis
  proof (cases "ce_expected_revision e = None \<or> 2 ^ 63 \<le> unat (st_revision (sr_store v)) + 1")
    case False
    let ?v1 = "v\<lparr>sr_pending := (sr_pending v)(0 := Some (Bound e actor))\<rparr>"
    let ?v2 = "?v1\<lparr>sr_pending := (sr_pending ?v1)(0 := Some (Loaded e actor (st_world (sr_store v))))\<rparr>"
    obtain st' r where a: "apply_loaded env (sr_store v) (st_world (sr_store v)) e actor = (st', r)" by fastforce
    have "server_step v ?v1" using False by (intro step_admit [OF Inr]) (simp_all add: p)
    moreover have "server_step ?v1 ?v2" using step_load [of ?v1 0 e actor] by simp
    moreover have "server_step ?v2 (?v2\<lparr>sr_store := st', sr_pending := (sr_pending ?v2)(0 := None)\<rparr>)"
      using False a u by (intro step_finish [of ?v2 0 e actor "st_world (sr_store v)" env]) simp_all
    moreover have "?v2\<lparr>sr_store := st', sr_pending := (sr_pending ?v2)(0 := None)\<rparr> =
        serve env actor role envelope v"
      using False Inr a p by (cases v) (auto simp: serve_def)
    ultimately show ?thesis by (metis converse_rtranclp_into_rtranclp rtranclp.rtrancl_refl)
  qed (simp add: serve_def Inr)
qed (simp add: serve_def)

lemma serve_all_run:
  assumes "sr_pending v = (\<lambda>_. None)" "e_uuid env = sr_uuids v"
  shows "server_step\<^sup>*\<^sup>* v (fold (serve env actor role) envelopes v)"
  using assms
proof (induction envelopes arbitrary: v)
  case (Cons e es)
  have "server_step\<^sup>*\<^sup>* v (serve env actor role e v)" using Cons.prems by (rule serve_run)
  also have "server_step\<^sup>*\<^sup>* \<dots> (fold (serve env actor role) es (serve env actor role e v))"
    using Cons.prems by (intro Cons.IH) simp_all
  finally show ?case by simp
qed simp

lemma reachable_run: "server_step\<^sup>*\<^sup>* v v' \<Longrightarrow> reachable server_init server_step v \<Longrightarrow> reachable server_init server_step v'"
  by (induction rule: rtranclp_induct) (auto intro: reachable.intros)

definition demo_envelope :: "nat \<Rightarrow> command \<Rightarrow> command_envelope" where
  "demo_envelope i c = \<lparr>ce_protocol_version = PROTOCOL_VERSION, ce_command_id = CommandId (2000 + i),
     ce_expected_revision = None, ce_command = c\<rparr>"

definition demo_project_spec :: project_spec where
  "demo_project_spec = \<lparr>ps_name = ''repo'', ps_path = Some ''/repo'', ps_clone_url = None, ps_base_branch = ''main'',
     ps_remote = None, ps_check_commands = [], ps_worktree_root = None, ps_push_policy = push_policy.MissionBranch,
     ps_pr_policy = pr_policy.Disabled\<rparr>"

definition demo_settings_patch :: settings_patch where
  "demo_settings_patch = \<lparr>se_name = None, se_bind_address = None, se_port = None,
     se_allowed_project_roots = None, se_worktree_root = None, se_max_concurrency = None,
     se_default_budget = None, se_approval_ttl_seconds = None, se_event_retention_days = None,
     se_terminal_retention_days = None, se_artifact_retention_days = None,
     se_supervisor_model = Some (Some ''model''), se_clear_supervisor_model = False\<rparr>"

definition demo_task_spec :: "mission_id \<Rightarrow> task_id list \<Rightarrow> task_id option \<Rightarrow> task_spec" where
  "demo_task_spec m deps parent = \<lparr>ts_mission_id = m, ts_title = ''work'', ts_objective = ''do it'',
     ts_dependencies = deps, ts_required_role_id = None, ts_priority = 0, ts_assigned_agent = None,
     ts_budget = budget_unlimited, ts_taskboard_id = None, ts_workflow_id = None, ts_parent_task_id = parent,
     ts_kind = work_item_kind.Task, ts_rework_limit = 3\<rparr>"

text \<open>Ids are drawn from 1 on: the project is 1, the mission 2, its tasks follow.\<close>

definition demo_start :: server where
  "demo_start = \<lparr>sr_uuids = Suc, sr_store = fresh_store (ServerId 1000) (OrganizationId 1003) 0,
     sr_pending = (\<lambda>_. None)\<rparr>"

definition demo_server :: server where
  "demo_server = fold (serve demo_env demo_actor device_role.Owner)
     [demo_envelope 4 (UpdateSettings demo_settings_patch),
      demo_envelope 0 (CreateProject demo_project_spec),
      demo_envelope 1 (CreateMission (ProjectId 1) ''ship''),
      demo_envelope 2 (CreateTask (demo_task_spec (MissionId 2) [] None)),
      demo_envelope 3 (CreateTask (demo_task_spec (MissionId 2) [TaskId 3] None)),
      demo_envelope 5 (CreateTask (demo_task_spec (MissionId 2) [] (Some (TaskId 3))))] demo_start"

lemma demo_start_init: "server_init demo_start"
  by (auto simp: server_init_def demo_start_def)

lemma demo_server_run: "server_step\<^sup>*\<^sup>* demo_start demo_server"
  unfolding demo_server_def by (rule serve_all_run) (simp_all add: demo_start_def demo_env_def)

lemma demo_server_reachable: "reachable server_init server_step demo_server"
  by (rule reachable_run [OF demo_server_run]) (rule reachable.intros, rule demo_start_init)

definition demo_summary :: "server \<Rightarrow> task_id list \<times> u64 \<times> u64 \<times> nat \<times> command_id list \<times> timestamp list" where
  "demo_summary v = (let st = sr_store v in
     (map t_id (s_tasks (st_world st)), st_revision st, s_revision (st_world st), length (st_events st),
      map fst (st_answers st), map (ee_occurred_at \<circ> snd) (st_events st)))"

definition demo_comment :: command_envelope where
  "demo_comment = demo_envelope 9 (AddTaskComment (TaskId 3) ''on it'' [])"

definition demo_bound :: "command_envelope \<Rightarrow> command_envelope" where
  "demo_bound e = e\<lparr>ce_expected_revision := Some 6\<rparr>"

section \<open>The installation with an organization\<close>

text \<open>A role, two agents of it and a graph in which the second reviews the work of the first.\<close>

definition demo_role_spec :: role_spec where
  "demo_role_spec = \<lparr>rs_name = ''developer'', rs_model = Some ''model'', rs_instructions = ''build'',
     rs_policy = policy_default, rs_budget = budget_unlimited\<rparr>"

definition demo_agent_spec :: "role_id \<Rightarrow> string \<Rightarrow> agent_spec" where
  "demo_agent_spec r name = \<lparr>as_role_id = r, as_display_name = name, as_model_override = None\<rparr>"

definition staff :: "string \<Rightarrow> agent_id \<Rightarrow> organization_node" where
  "staff i a = \<lparr>n_id = i, n_kind = organization_node_kind.Staff, n_label = ''worker'',
     n_position = \<lparr>pt_x = 0, pt_y = 0\<rparr>, n_group_id = None, n_agent_id = Some a, n_capability = None,
     n_connector_profile_id = None, n_profile_ref = None, n_configured = True, n_approval_required = False,
     n_role_id = None, n_taskboard_id = None, n_child_workflow_id = None, n_input_port = None,
     n_output_port = None, n_rework_limit = None\<rparr>"

definition reviews :: "string \<Rightarrow> string \<Rightarrow> organization_relation" where
  "reviews i j = \<lparr>rel_id = ''review'', rel_kind = organization_relation_kind.Review, rel_source_node_id = i,
     rel_target_node_id = j, rel_contract = default_contract, rel_permissions = []\<rparr>"

definition demo_graph :: "organization_id \<Rightarrow> agent_id \<Rightarrow> agent_id \<Rightarrow> organization_graph" where
  "demo_graph i a b = (graph_empty i)\<lparr>g_nodes := [staff ''ada'' a, staff ''bob'' b],
     g_relations := [reviews ''ada'' ''bob'']\<rparr>"

definition at_revision :: "u64 \<Rightarrow> command_envelope \<Rightarrow> command_envelope" where
  "at_revision r e = e\<lparr>ce_expected_revision := Some r\<rparr>"

definition demo_company :: server where
  "demo_company = fold (serve demo_env demo_actor device_role.Owner)
     [demo_envelope 4 (UpdateSettings demo_settings_patch),
      demo_envelope 10 (CreateRole demo_role_spec),
      demo_envelope 11 (CreateAgent (demo_agent_spec (RoleId 1) ''ada'')),
      demo_envelope 12 (CreateAgent (demo_agent_spec (RoleId 1) ''bob'')),
      at_revision 4 (demo_envelope 13 (SaveOrganizationDraft
        (demo_graph (OrganizationId 1003) (AgentId 2) (AgentId 3)) 0)),
      at_revision 5 (demo_envelope 14 (PublishOrganization 0))] demo_start"

definition demo_message :: message_spec where
  "demo_message = \<lparr>ms_message_id = Some (MessageId 77), ms_mission_id = MissionId 1002, ms_task_id = None,
     ms_recipient = \<lparr>ac_kind = actor_kind.Supervisor, ac_id = None, ac_display_name = None\<rparr>,
     ms_act = message_act.Inform, ms_body = ''hello'', ms_artifact_ids = [], ms_reply_to = None, ms_hop = 0\<rparr>"

definition demo_race :: store where
  "demo_race = \<lparr>st_world = demo_world, st_revision = 1, st_event_seq = 1, st_answers = [], st_events = [], st_outbox = []\<rparr>"

definition run :: "command list \<Rightarrow> world \<Rightarrow> world" where
  \<comment> \<open>the commands that succeed, one after the other\<close>
  "run cs s = fold (\<lambda>c s. case reduce demo_env s c demo_actor of Inl _ \<Rightarrow> s | Inr (s', _) \<Rightarrow> s') cs s"

definition demo_cancelled :: world where
  "demo_cancelled = run [RequestHumanInput (TaskId 1) human_input_kind.Question ''which one?'',
     SetTaskStatus (TaskId 1) task_status.Cancelled] demo_world"

definition demo_cancel :: command_envelope where
  "demo_cancel = demo_bound (demo_envelope 9 (SetTaskStatus (TaskId 7) task_status.Cancelled))"

section \<open>Trials\<close>

text \<open>The evaluations the properties refer to, on the server, the company and the cancelled task above.\<close>

definition demo_trials :: "server \<Rightarrow> server \<Rightarrow> world \<Rightarrow> bool" where
  "demo_trials v c w \<longleftrightarrow>
     demo_summary v = ([TaskId 3, TaskId 5, TaskId 7], 6, 6, 6, map CommandId [2005, 2003, 2002, 2001, 2000, 2004],
       replicate 6 ''1700000000000'') \<and>
     st_revision (fst (apply_loaded demo_env (sr_store v) (st_world (sr_store v)) (demo_bound demo_comment) demo_actor)) = 7 \<and>
     length (st_events (fst (apply_loaded demo_env (sr_store v) (st_world (sr_store v)) (demo_bound demo_comment) demo_actor))) = 7 \<and>
     (TaskId 7, task_status.Cancelled) \<in> set (map (\<lambda>t. (t_id t, t_status t)) (s_tasks (st_world
       (fst (apply_loaded demo_env (sr_store v) (st_world (sr_store v)) demo_cancel demo_actor))))) \<and>
     snd (commit_organization_with_retry 4 (\<lambda>_ st. st) demo_env (sr_store v)
       (demo_envelope 40 (PublishOrganization 7)) demo_actor) = Inl (OrganizationRevisionConflict 7 0) \<and>
     st_revision (fst (commit_job 4 (\<lambda>_ st. st) demo_env (CommandId 9) EnsureBuiltinRole (sr_store v))) = 7 \<and>
     (case execute (\<lambda>_ st. st) demo_env (sr_store v) (demo_envelope 30 (ReleaseTask (TaskId 99))) demo_actor device_role.Owner of
        (_, r, _) \<Rightarrow> (case cr_error r of None \<Rightarrow> False | Some _ \<Rightarrow> True)) \<and>
     o_published (s_organization (st_world (sr_store c))) =
       Some ((demo_graph (OrganizationId 1003) (AgentId 2) (AgentId 3))\<lparr>g_draft_revision := 1, g_published_revision := 1\<rparr>) \<and>
     (case apply_loaded demo_env demo_race demo_world (at_revision 0 (demo_envelope 9 (SendMessage demo_message))) demo_actor of
        (_, Inl (Store _)) \<Rightarrow> True | _ \<Rightarrow> False) \<and>
     map t_status (s_tasks w) = [task_status.Cancelled, task_status.Blocked] \<and>
     (case reduce_resolve_human_input demo_env w (HumanInputId 3) ''this one'' demo_actor of Inr _ \<Rightarrow> True | Inl _ \<Rightarrow> False) \<and>
     map hi_task_id (s_human_inputs w) = [TaskId 1] \<and>
     map_option t_child_task_ids (find_task (TaskId 1) (s_tasks w)) = Some []"

lemma demo_trials: "demo_trials demo_server demo_company demo_cancelled"
  by code_simp

lemmas demo_trial = demo_trials [unfolded demo_trials_def]

lemma demo_trial_server:
  "demo_summary demo_server = ([TaskId 3, TaskId 5, TaskId 7], 6, 6, 6, map CommandId [2005, 2003, 2002, 2001, 2000, 2004],
     replicate 6 ''1700000000000'')"
  "st_revision (fst (apply_loaded demo_env (sr_store demo_server) (st_world (sr_store demo_server)) (demo_bound demo_comment) demo_actor)) = 7"
  "length (st_events (fst (apply_loaded demo_env (sr_store demo_server) (st_world (sr_store demo_server)) (demo_bound demo_comment) demo_actor))) = 7"
  "(TaskId 7, task_status.Cancelled) \<in> set (map (\<lambda>t. (t_id t, t_status t)) (s_tasks (st_world
     (fst (apply_loaded demo_env (sr_store demo_server) (st_world (sr_store demo_server)) demo_cancel demo_actor)))))"
  "snd (commit_organization_with_retry 4 (\<lambda>_ st. st) demo_env (sr_store demo_server)
     (demo_envelope 40 (PublishOrganization 7)) demo_actor) = Inl (OrganizationRevisionConflict 7 0)"
  "st_revision (fst (commit_job 4 (\<lambda>_ st. st) demo_env (CommandId 9) EnsureBuiltinRole (sr_store demo_server))) = 7"
  "case execute (\<lambda>_ st. st) demo_env (sr_store demo_server) (demo_envelope 30 (ReleaseTask (TaskId 99))) demo_actor device_role.Owner of
     (_, r, _) \<Rightarrow> (case cr_error r of None \<Rightarrow> False | Some _ \<Rightarrow> True)"
  by (insert demo_trial, elim conjE, assumption)+

lemma demo_trial_world:
  "o_published (s_organization (st_world (sr_store demo_company))) =
     Some ((demo_graph (OrganizationId 1003) (AgentId 2) (AgentId 3))\<lparr>g_draft_revision := 1, g_published_revision := 1\<rparr>)"
  "case apply_loaded demo_env demo_race demo_world (at_revision 0 (demo_envelope 9 (SendMessage demo_message))) demo_actor of
     (_, Inl (Store _)) \<Rightarrow> True | _ \<Rightarrow> False"
  "map t_status (s_tasks demo_cancelled) = [task_status.Cancelled, task_status.Blocked]"
  "case reduce_resolve_human_input demo_env demo_cancelled (HumanInputId 3) ''this one'' demo_actor of Inr _ \<Rightarrow> True | Inl _ \<Rightarrow> False"
  "map hi_task_id (s_human_inputs demo_cancelled) = [TaskId 1]"
  "map_option t_child_task_ids (find_task (TaskId 1) (s_tasks demo_cancelled)) = Some []"
  by (insert demo_trial, elim conjE, assumption)+

lemma demo_server_facts:
  "map t_id (s_tasks (st_world (sr_store demo_server))) = [TaskId 3, TaskId 5, TaskId 7]"
  "st_revision (sr_store demo_server) = 6" "s_revision (st_world (sr_store demo_server)) = 6"
  "length (st_events (sr_store demo_server)) = 6"
  "map fst (st_answers (sr_store demo_server)) = map CommandId [2005, 2003, 2002, 2001, 2000, 2004]"
  "map (ee_occurred_at \<circ> snd) (st_events (sr_store demo_server)) = replicate 6 ''1700000000000''"
  using demo_trial_server(1) by (simp_all add: demo_summary_def Let_def)

text \<open>A server with one more request between its load and its end.\<close>

definition holding :: "command_envelope \<Rightarrow> actor_ref \<Rightarrow> server \<Rightarrow> server" where
  "holding e actor v = v\<lparr>sr_pending := (sr_pending v)(0 := Some (Loaded e actor (st_world (sr_store v))))\<rparr>"

lemma holding_store [simp]: "sr_store (holding e actor v) = sr_store v" "sr_uuids (holding e actor v) = sr_uuids v"
  "sr_pending (holding e actor v) 0 = Some (Loaded e actor (st_world (sr_store v)))"
  by (simp_all add: holding_def)

lemma holding_reachable:
  assumes v: "reachable server_init server_step v" and free: "sr_pending v 0 = None"
    and a: "admit env (sr_store v) e (ac_kind actor) role = Inr b" "ce_expected_revision b \<noteq> None"
  shows "reachable server_init server_step (holding b actor v)"
proof -
  let ?v1 = "v\<lparr>sr_pending := (sr_pending v)(0 := Some (Bound b actor))\<rparr>"
  have "server_step v ?v1" by (rule step_admit [OF a free])
  moreover have "server_step ?v1 (holding b actor v)"
    using step_load [of ?v1 0 b actor] by (simp add: holding_def)
  ultimately show ?thesis using v by (meson reach_step)
qed

definition demo_pending :: server where
  "demo_pending = holding (demo_bound demo_comment) demo_actor demo_server"

lemma demo_server_idle: "sr_pending demo_server = (\<lambda>_. None)"
  by (simp add: demo_server_def demo_start_def)

lemma demo_admit:
  assumes "CommandId (2000 + i) \<notin> set (map fst (st_answers (sr_store demo_server)))"
    and "\<not> organization_command c" "\<not> is_pair c"
  shows "admit demo_env (sr_store demo_server) (demo_envelope i c) (ac_kind demo_actor) device_role.Owner =
    Inr (demo_bound (demo_envelope i c))"
proof -
  have "map_of (st_answers (sr_store demo_server)) (CommandId (2000 + i)) = None"
    using assms(1) by (simp add: map_of_eq_None_iff)
  with assms(2,3) show ?thesis
    by (simp add: admit_def demo_bound_def demo_envelope_def demo_env_def demo_actor_def Let_def
        validate_command_size_def authorize_def can_mutate_def can_admin_def
        idempotent_response_def current_revision_def read_column_def demo_server_facts(2))
qed

lemma demo_held:
  assumes "CommandId (2000 + i) \<notin> set (map fst (st_answers (sr_store demo_server)))"
    and "\<not> organization_command c" "\<not> is_pair c"
  shows "reachable server_init server_step (holding (demo_bound (demo_envelope i c)) demo_actor demo_server)"
  by (rule holding_reachable [OF demo_server_reachable _ demo_admit [OF assms]])
    (simp_all add: demo_server_idle demo_bound_def)

lemma demo_pending_reachable: "reachable server_init server_step demo_pending"
  unfolding demo_pending_def demo_comment_def
  by (rule demo_held) (simp_all only: demo_server_facts(5), simp_all add: organization_command_def is_pair_def)

lemmas demo_defs = demo_env_def demo_actor_def demo_project_def demo_mission_def demo_agent_def demo_task_def
  demo_world_def fresh_world_def snapshot_empty_def snapshot.defs world.defs organization_default_def
  runtime_default_def

section \<open>The company is a state of the server\<close>

lemma demo_company_reachable: "reachable server_init server_step demo_company"
  unfolding demo_company_def
  by (rule reachable_run [OF serve_all_run]) (auto simp: demo_start_def demo_env_def
      intro!: reach_init demo_start_init [unfolded demo_start_def])

lemma demo_company_published:
  "o_published (s_organization (st_world (sr_store demo_company))) =
     Some ((demo_graph (OrganizationId 1003) (AgentId 2) (AgentId 3))\<lparr>g_draft_revision := 1, g_published_revision := 1\<rparr>)"
  by (rule demo_trial_world(1))

end
