(* ===== verification/ServiceProperties.thy ===== *)
theory ServiceProperties
  imports Installation
begin

text \<open>
  What every client of the daemon may rely on, however requests interleave: the shape of the board,
  the history of commits, and who may cause one.
\<close>

section \<open>The reachable board\<close>

text \<open>
  C1: in every state the server can reach, whatever requests run and however they interleave, task
  ids are unique, every dependency is a task of the same mission, the dependencies have no cycle,
  parents and children name each other and form a forest, a running task has an owner and no task
  has been reworked beyond its limit.
\<close>

theorem reachable_board:
  assumes "reachable server_init server_step v"
  defines "tasks \<equiv> s_tasks (st_world (sr_store v))"
  shows "distinct (map t_id tasks) \<and> deps_in_mission tasks \<and> acyclic (task_deps tasks) \<and> family_ok tasks \<and>
    (\<forall>t \<in> set tasks. (t_status t = task_status.Running \<longrightarrow> t_assigned_agent t \<noteq> None) \<and>
       t_rework_count t \<le> rework_limit_of t)"
  using serving.reachable_inv [OF assms(1)]
  by (simp add: tasks_def server_ok_def world_ok_def board_ok_def task_dag_def task_ok_def)

theorem reachable_board_witness:
  "acyclic (task_deps (s_tasks (st_world (sr_store demo_server))))
   \<and> map t_id (s_tasks (st_world (sr_store demo_server))) = [TaskId 3, TaskId 5, TaskId 7]"
  using reachable_board [OF demo_server_reachable] demo_server_facts(1) by simp

text \<open>
  C2: in every reachable state the activity feed holds at most 2048 entries, a task waits for at
  most one human input and has at most one open work offer.
\<close>

theorem reachable_limits:
  assumes "reachable server_init server_step v"
  defines "w \<equiv> st_world (sr_store v)"
  shows "length (s_task_feed w) \<le> 2048 \<and> length (filter (pending_input i) (s_human_inputs w)) \<le> 1
    \<and> length (filter (\<lambda>x. of_task_id x = i \<and> offer_is_open (of_status x)) (s_work_offers w)) \<le> 1"
  using serving.reachable_inv [OF assms(1)]
  by (simp add: w_def server_ok_def world_ok_def FEED_LIMIT_def pending_inputs_def open_offers_def)

theorem reachable_limits_witness: "length (s_task_feed (st_world (sr_store demo_server))) \<le> 2048"
  using reachable_limits [OF demo_server_reachable] by simp

text \<open>
  C3: in every reachable state the published organization graph is well formed: node and relation
  ids are unique, no agent staffs two nodes, there is no approval node and every relation joins
  two different existing nodes of the kinds its relation kind asks for.
\<close>

theorem reachable_graph:
  assumes "reachable server_init server_step v"
    and "o_published (s_organization (st_world (sr_store v))) = Some g"
  shows "graph_wf g"
  using serving.reachable_inv [OF assms(1)] assms(2) by (simp add: server_ok_def world_ok_def)

theorem reachable_graph_witness:
  "graph_wf ((demo_graph (OrganizationId 1003) (AgentId 2) (AgentId 3))\<lparr>g_draft_revision := 1, g_published_revision := 1\<rparr>)"
  by (rule reachable_graph [OF demo_company_reachable demo_company_published])

section \<open>Commits\<close>

text \<open>
  no update is lost. When a request that loaded its snapshot earlier finishes and moves the
  revision, the committed state is the reduction of the state of that moment, not of the snapshot
  it loaded: changes other requests committed in between are never overwritten.
\<close>

theorem no_lost_update:
  assumes v: "reachable server_init server_step v"
    and p: "sr_pending v c = Some (Loaded e actor w)"
    and a: "apply_loaded env (sr_store v) w e actor = (st', r)"
    and n: "st_revision st' \<noteq> st_revision (sr_store v)"
  shows "\<exists>next ev res. reduce env (st_world (sr_store v)) (ce_command e) actor = Inr (next, ev, res)
    \<and> snapshot_of (st_world st') = snapshot_of (next\<lparr>s_revision := st_revision st', s_event_seq := st_event_seq st'\<rparr>)"
proof (rule finish_on_current [OF serving.reachable_inv [OF v] p a n])
  fix nxt ev res cm st1
  assume x: "reduce env (st_world (sr_store v)) (ce_command e) actor = Inr (nxt, ev, res)"
    and c: "commit_request env (sr_store v) (request_of env e actor nxt ev res) = Inr (st1, cm)"
    and s: "st' = remember nxt st1" and f: "map_of (st_answers (sr_store v)) (ce_command_id e) = None"
  from c f have "st_world st1 = nxt\<lparr>s_revision := st_revision st1, s_event_seq := st_event_seq st1\<rparr>"
    by (auto simp: commit_request_def request_of_def Let_def split: sum.splits if_splits)
  with s x show ?thesis by (auto simp: remember_def)
qed

theorem no_lost_update_witness:
  "\<exists>next ev res. reduce demo_env (st_world (sr_store demo_pending)) (ce_command demo_comment) demo_actor
     = Inr (next, ev, res)"
proof -
  let ?e = "demo_bound demo_comment"
  let ?w = "st_world (sr_store demo_server)"
  obtain st' r where a: "apply_loaded demo_env (sr_store demo_pending) ?w ?e demo_actor = (st', r)" by fastforce
  have "st_revision (fst (apply_loaded demo_env (sr_store demo_server) ?w ?e demo_actor)) = 7" by (rule demo_trial_server(2))
  with a have "st_revision st' \<noteq> st_revision (sr_store demo_pending)"
    by (simp add: demo_pending_def demo_server_facts)
  from no_lost_update [OF demo_pending_reachable _ a this, of 0] show ?thesis
    by (auto simp: demo_pending_def demo_bound_def)
qed

text \<open>
  C5: a command is answered once. After a command id has been answered, however the server runs on,
  executing an envelope with that id again returns the stored response, changes nothing and starts
  no follow-up work.
\<close>

theorem answer_is_final:
  assumes run: "server_step\<^sup>*\<^sup>* v v'"
    and answered: "idempotent_response (sr_store v) (ce_command_id e) = Some r"
    and admitted: "ce_protocol_version e = PROTOCOL_VERSION" "validate_command_size env e = Inr ()"
      "authorize (ce_command e) (ac_kind actor) role = Inr ()"
  shows "execute others env (sr_store v') e actor role = (sr_store v', r, [])"
proof -
  obtain ev where "map_of (st_answers (sr_store v)) (ce_command_id e) = Some (r, ev)"
    using answered by (auto simp: idempotent_response_def)
  from run_keeps_answer [OF run this] admitted show ?thesis
    by (simp add: execute_def admit_def Let_def idempotent_response_def)
qed

theorem answer_is_final_witness:
  "\<exists>r. idempotent_response (sr_store demo_server) (CommandId 2002) = Some r \<and>
     execute (\<lambda>_ st. st) demo_env (sr_store demo_server) (demo_envelope 2 (ReleaseTask (TaskId 3))) demo_actor
       device_role.Owner = (sr_store demo_server, r, [])"
proof -
  have "CommandId 2002 \<in> set (map fst (st_answers (sr_store demo_server)))"
    unfolding demo_server_facts by simp
  then obtain a where "map_of (st_answers (sr_store demo_server)) (CommandId 2002) = Some a"
    by (metis list.set_map map_of_eq_None_iff not_None_eq)
  then have r: "idempotent_response (sr_store demo_server) (CommandId 2002) = Some (fst a)"
    by (simp add: idempotent_response_def)
  have "execute (\<lambda>_ st. st) demo_env (sr_store demo_server) (demo_envelope 2 (ReleaseTask (TaskId 3))) demo_actor
      device_role.Owner = (sr_store demo_server, fst a, [])"
    by (rule answer_is_final [OF rtranclp.rtrancl_refl])
      (simp_all add: demo_envelope_def r validate_command_size_def authorize_def demo_env_def demo_actor_def
        is_pair_def owner_only_def can_mutate_def)
  with r show ?thesis by blast
qed

text \<open>
  C6: what the commits that compare the revision append is a gapless history. \<open>st_events\<close> holds every event they have
  appended, also those whose rows the retention loop has deleted from the table since. In every state that requests, deliveries,
  daemon jobs that name the revision they have read, and restarts reach (the steps of \<open>server_step\<close>), the revisions of this
  history are 1, 2, ..., up to the current revision, so are the sequence numbers, every event belongs to exactly one
  answered command and the audit outbox holds the same events in the same order. The writers that do not compare the
  revision, the commits of check runs and installations and the snapshots that retention writes, are not steps: after one of
  them a restart can put an older revision back.
\<close>

theorem gapless_log:
  assumes "reachable server_init server_step v"
  defines "st \<equiv> sr_store v"
  shows "map (unat \<circ> fst) (st_events st) = [1..<Suc (unat (st_revision st))]
    \<and> map (unat \<circ> ee_seq \<circ> snd) (st_events st) = [1..<Suc (unat (st_revision st))]
    \<and> st_outbox st = map snd (st_events st)
    \<and> distinct (map (ee_correlation_id \<circ> snd) (st_events st))
    \<and> map (ee_correlation_id \<circ> snd) (st_events st) = rev (map (Some \<circ> fst) (st_answers st))"
proof -
  have l: "log_ok st" unfolding st_def by (rule reachable_log [OF assms(1)])
  have c: "map (ee_correlation_id \<circ> snd) (st_events st) = rev (map (Some \<circ> fst) (st_answers st))"
    using l by (auto simp: log_ok_def answered_def rev_map)
  from l have "distinct (map fst (st_answers st))" by (simp add: log_ok_def)
  then have "distinct (map (Some \<circ> fst) (st_answers st))" by (auto simp: distinct_map inj_on_def)
  then have "distinct (map (ee_correlation_id \<circ> snd) (st_events st))" unfolding c by simp
  with l c show ?thesis unfolding log_ok_def by blast
qed

theorem gapless_log_witness: "map (unat \<circ> fst) (st_events (sr_store demo_server)) = [1, 2, 3, 4, 5, 6]"
  using gapless_log [OF demo_server_reachable] by (simp add: demo_server_facts upt_rec)

section \<open>Refusals\<close>

text \<open>
  C10: an observer changes nothing, and an agent never gets an owner command through. Such a request,
  unless it is a pairing or comes from the daemon itself, leaves the store as it is, starts no
  work and is answered with an error.
\<close>

theorem forbidden_execute:
  assumes "\<not> is_pair (ce_command e)" "ac_kind actor \<noteq> actor_kind.System"
    and "role = device_role.Observer
      \<or> ac_kind actor = actor_kind.Agent \<and> (owner_only (ce_command e) \<or> \<not> agent_command (ce_command e))
      \<or> role \<noteq> device_role.Owner \<and> owner_only (ce_command e)"
  shows "\<exists>r x. execute others env st e actor role = (st, r, []) \<and> cr_error r = Some x \<and>
    ae_code x \<in> {VersionMismatch, CodeValidation, PayloadTooLarge, CodeForbidden}"
proof -
  have "owner_only (ce_command e) \<Longrightarrow> \<not> agent_command (ce_command e)"
    by (cases "ce_command e") (simp_all add: owner_only_def agent_command_def)
  with assms have "authorize (ce_command e) (ac_kind actor) role = Inl Forbidden"
    by (auto simp: authorize_def can_mutate_def can_admin_def)
  then show ?thesis
    by (auto simp: execute_def admit_def Let_def validate_command_size_def response_failed_def api_error_new_def
        split: option.split)
qed

theorem forbidden_execute_witness:
  "\<exists>r. execute (\<lambda>_ st. st) demo_env (sr_store demo_server) (demo_envelope 20 RollbackUpdate) demo_actor
     device_role.Operator = (sr_store demo_server, r, [])"
proof -
  let ?e = "demo_envelope 20 RollbackUpdate"
  have "\<exists>r x. execute (\<lambda>_ st. st) demo_env (sr_store demo_server) ?e demo_actor device_role.Operator
      = (sr_store demo_server, r, []) \<and> cr_error r = Some x \<and>
      ae_code x \<in> {VersionMismatch, CodeValidation, PayloadTooLarge, CodeForbidden}"
    by (rule forbidden_execute) (simp_all add: demo_envelope_def demo_actor_def is_pair_def owner_only_def)
  then show ?thesis by blast
qed

end
