(* ===== verification/StateMachine.thy ===== *)
theory StateMachine
  imports Server
begin

text \<open>
  The life of a task under the whole command set. A change is quiet when no task enters
  \<open>Running\<close>, \<open>Review\<close>, \<open>Done\<close> or \<open>Cancelled\<close> by it. Every
  handler but the status commands is quiet, and the status commands follow the transition table.
\<close>

section \<open>Quiet changes\<close>

definition engaged :: "task_status set" where
  "engaged = {task_status.Running, task_status.Review, task_status.Done, task_status.Cancelled}"

definition quiet :: "task_view list \<Rightarrow> task_view list \<Rightarrow> bool" where
  "quiet ts ts' \<longleftrightarrow> (\<forall>t' \<in> set ts'. t_status t' \<in> engaged \<longrightarrow>
     (\<exists>t \<in> set ts. t_id t = t_id t' \<and> t_status t = t_status t'))"

lemma quiet_refl [simp, intro]: "quiet ts ts"
  by (auto simp: quiet_def)

lemma quiet_trans [trans]: "quiet a b \<Longrightarrow> quiet b c \<Longrightarrow> quiet a c"
  unfolding quiet_def by (metis (no_types))

lemma quiet_append: "(\<And>t. t \<in> set ts \<Longrightarrow> t_status t \<notin> engaged) \<Longrightarrow> quiet a b \<Longrightarrow> quiet a (b @ ts)"
  by (auto simp: quiet_def)

lemma quiet_update_first:
  assumes "\<And>t. find p ts = Some t \<Longrightarrow> t_id (f t) = t_id t \<and> (t_status (f t) = t_status t \<or> t_status (f t) \<notin> engaged)"
  shows "quiet ts (update_first p f ts)"
proof -
  have "\<exists>u \<in> set ts. t_id u = t_id t' \<and> t_status u = t_status t'"
    if "t' \<in> set (update_first p f ts)" "t_status t' \<in> engaged" for t'
    using set_update_first [OF that(1)]
  proof
    assume "\<exists>x. find p ts = Some x \<and> t' = f x"
    then obtain t where t: "find p ts = Some t" "t' = f t" by blast
    with assms [OF t(1)] that(2) find_SomeD [OF t(1)] show ?thesis by auto
  qed blast
  then show ?thesis by (simp add: quiet_def)
qed

lemma quiet_edit_task:
  "(\<And>t. find_task i (s_tasks s) = Some t \<Longrightarrow>
      t_id (f t) = t_id t \<and> (t_status (f t) = t_status t \<or> t_status (f t) \<notin> engaged)) \<Longrightarrow>
   quiet (s_tasks s) (s_tasks (edit_task i f s))"
  by (simp add: quiet_update_first find_task_def)

lemma quiet_fold: "(\<And>x s. quiet (s_tasks s) (s_tasks (f x s))) \<Longrightarrow> quiet (s_tasks s) (s_tasks (fold f xs s))"
proof (induction xs arbitrary: s)
  case (Cons x xs)
  have "quiet (s_tasks s) (s_tasks (f x s))" by (rule Cons.prems)
  also have "quiet \<dots> (s_tasks (fold f xs (f x s)))" by (rule Cons.IH [OF Cons.prems])
  finally show ?case by simp
qed simp

lemma engaged_simps [simp]:
  "task_status.Ready \<notin> engaged" "task_status.Blocked \<notin> engaged" "task_status.Backlog \<notin> engaged"
  by (simp_all add: engaged_def)

section \<open>The handlers outside the status commands\<close>

lemma quiet_dependency_locks: "quiet (s_tasks s) (s_tasks (update_dependency_locks env s i actor st))"
  unfolding update_dependency_locks_def
  by (rule quiet_fold) (auto simp: dependency_lock_step_def intro!: quiet_update_first split: option.split)

lemma quiet_parent_locks: "quiet (s_tasks s) (s_tasks (update_parent_child_locks env s i actor))"
  by (auto simp: update_parent_child_locks_def intro!: quiet_update_first split: option.split)

definition calls_quiet :: "world \<Rightarrow> reduction \<Rightarrow> bool" where
  "calls_quiet s r \<longleftrightarrow> (\<forall>s' ev res. r = Inr (s', ev, res) \<longrightarrow> quiet (s_tasks s) (s_tasks s'))"

lemma calls_quietI:
  "(\<And>s' ev res. r = Inr (s', ev, res) \<Longrightarrow> quiet (s_tasks s) (s_tasks s')) \<Longrightarrow> calls_quiet s r"
  by (simp add: calls_quiet_def)

lemma calls_quiet_frame:
  "(\<And>s' ev res. r = Inr (s', ev, res) \<Longrightarrow> s_tasks s' = s_tasks s) \<Longrightarrow> calls_quiet s r"
  by (auto simp: calls_quiet_def)

lemma calls_quiet_misrouted [simp]: "calls_quiet s misrouted"
  by (simp add: calls_quiet_def misrouted_def)

lemma claim_edit_quiet:
  "t_id (claim_edit now a src t) = t_id t \<and>
     (t_status (claim_edit now a src t) = t_status t \<or> t_status (claim_edit now a src t) \<notin> engaged)"
  by (simp add: claim_edit_def)

lemma assign_task_quiet: "assign_task env s i a src k actor = Inr s' \<Longrightarrow> quiet (s_tasks s) (s_tasks s')"
  by (auto simp: assign_task_def Let_def intro!: quiet_update_first claim_edit_quiet split: sum.splits)

lemma assign_quiet:
  "calls_quiet s (reduce_assign_task env s i a actor)"
  "calls_quiet s (reduce_claim_task env s i a src actor)"
  by (auto simp: reduce_assign_task_def reduce_claim_task_def Let_def intro!: calls_quietI
      dest!: assign_task_quiet split: sum.splits)

lemma release_quiet: "calls_quiet s (reduce_release_task env s i actor)"
  by (auto simp: reduce_release_task_def intro!: calls_quietI quiet_update_first split: option.splits if_splits)

lemma comment_quiet: "calls_quiet s (reduce_add_task_comment env s i b xs actor)"
  by (rule calls_quiet_frame)
    (auto simp: reduce_add_task_comment_def append_task_feed_def Let_def split: option.splits if_splits)

lemma create_task_quiet: "calls_quiet s (reduce_create_task env s spec actor)"
proof (rule calls_quietI)
  fix s' ev res assume "reduce_create_task env s spec actor = Inr (s', ev, res)"
  then obtain s2 where l: "link_parent env (drew s) (new_task env s spec (TaskId (next_uuid env s))) = Inr s2"
    and s': "s_tasks s' = s_tasks s2 @ [new_task env s spec (TaskId (next_uuid env s))]"
    by (auto simp: reduce_create_task_def Let_def split: sum.splits)
  have "quiet (s_tasks s) (s_tasks s2)"
    using l by (auto simp: link_parent_def intro!: quiet_update_first split: option.splits if_splits)
  then show "quiet (s_tasks s) (s_tasks s')"
    unfolding s' by (rule quiet_append [rotated]) (simp add: new_task_def task_candidate_def)
qed

lemma update_task_quiet: "calls_quiet s (reduce_update_task env s i patch actor)"
proof (rule calls_quietI)
  fix s' ev res assume r: "reduce_update_task env s i patch actor = Inr (s', ev, res)"
  then obtain t c where t: "find_task i (s_tasks s) = Some t"
    and c: "relock_candidate (s_tasks s) t (apply_task_patch t patch) = Inr c"
    and s': "s_tasks s' = s_tasks (edit_task i (\<lambda>_. c) s)"
    by (auto simp: reduce_update_task_def Let_def split: option.splits sum.splits if_splits)
  from relock_candidate_ok [OF c] obtain st where "c = (apply_task_patch t patch)\<lparr>t_status := st\<rparr>"
    "st = t_status t \<or> st = task_status.Ready \<or> st = task_status.Blocked" by auto
  with t show "quiet (s_tasks s) (s_tasks s')"
    unfolding s' by (intro quiet_edit_task) auto
qed

lemma create_work_item_status:
  "create_work_item env s spec = Inr (s1, t) \<Longrightarrow> s_tasks s1 = s_tasks s \<and> t_status t \<notin> engaged"
  by (auto simp: create_work_item_def work_item_task_def Let_def split: option.splits sum.splits if_splits)

lemma create_work_item_quiet: "calls_quiet s (reduce_create_work_item env s spec actor)"
  by (auto simp: reduce_create_work_item_def Let_def dest!: create_work_item_status
      intro!: calls_quietI quiet_append quiet_update_first split: sum.splits option.splits)

lemma create_children_status:
  "create_children env s p m specs = Inr (s1, ts) \<Longrightarrow> s_tasks s1 = s_tasks s \<and> (\<forall>t \<in> set ts. t_status t \<notin> engaged)"
  by (induction env s p m specs arbitrary: ts rule: create_children.induct)
    (auto dest!: create_work_item_status split: if_splits sum.splits option.splits)

lemma spawn_quiet: "calls_quiet s (reduce_spawn_child_work_items env s i cs actor)"
proof (rule calls_quietI)
  fix s' ev res assume "reduce_spawn_child_work_items env s i cs actor = Inr (s', ev, res)"
  then obtain s1 ts m where c: "create_children env s i m cs = Inr (s1, ts)"
    and s': "s_tasks s' = update_first (\<lambda>t. t_id t = i) (spawn_edit env (map t_id ts)) (s_tasks s1 @ ts)"
    by (auto simp: reduce_spawn_child_work_items_def Let_def split: option.splits if_splits sum.splits)
  have "quiet (s_tasks s) (s_tasks s1 @ ts)"
    using create_children_status [OF c] by (intro quiet_append) auto
  also have "quiet \<dots> (s_tasks s')"
    unfolding s' by (rule quiet_update_first) (auto simp: spawn_edit_def)
  finally show "quiet (s_tasks s) (s_tasks s')" .
qed

lemma workflow_quiet:
  "calls_quiet s (reduce_create_work_offer env s i a)"
  "calls_quiet s (reduce_request_human_input env s i k p actor)"
  "calls_quiet s (reduce_request_task_rework env s i r actor)"
  "calls_quiet s (reduce_drop_work_item env s i b ro actor)"
  by (auto simp: reduce_create_work_offer_def reduce_request_human_input_def reduce_request_task_rework_def
      reduce_drop_work_item_def rework_edit_def release_edit_def Let_def
      intro!: calls_quietI quiet_update_first split: option.splits if_splits sum.splits)

lemma answer_offer_quiet: "answer_offer env s x b actor = Inr (s', st) \<Longrightarrow> quiet (s_tasks s) (s_tasks s')"
  by (auto simp: answer_offer_def Let_def intro!: quiet_update_first claim_edit_quiet
      split: if_splits option.splits)

lemma respond_offer_quiet: "calls_quiet s (reduce_respond_work_offer env s k b actor)"
  by (auto simp: reduce_respond_work_offer_def Let_def dest!: answer_offer_quiet
      intro!: calls_quietI split: option.splits sum.splits)

lemma resolve_input_quiet: "calls_quiet s (reduce_resolve_human_input env s k a actor)"
proof (rule calls_quietI)
  fix s' ev res assume "reduce_resolve_human_input env s k a actor = Inr (s', ev, res)"
  then obtain i t where t: "find_task i (s_tasks s) = Some t"
    and s': "s_tasks s' = s_tasks (edit_task (t_id t) (\<lambda>_. resume_edit s t) s)"
    by (auto simp: reduce_resolve_human_input_def Let_def split: if_splits option.splits)
  have "find_task (t_id t) (s_tasks s) = Some t" using t find_task_SomeD [OF t] by simp
  then show "quiet (s_tasks s) (s_tasks s')"
    unfolding s' by (intro quiet_edit_task) (auto simp: resume_edit_def release_edit_def Let_def)
qed

lemma fire_quiet: "calls_quiet s (reduce_fire_agent env s a r actor)"
proof (rule calls_quietI)
  fix s' ev res assume "reduce_fire_agent env s a r actor = Inr (s', ev, res)"
  then obtain ids where s': "s_tasks s' = s_tasks (fold (depart_step env actor a) ids s)"
    by (auto simp: reduce_fire_agent_def Let_def split: option.splits if_splits)
  show "quiet (s_tasks s) (s_tasks s')"
    unfolding s' by (rule quiet_fold) (auto simp: depart_step_def release_edit_def Let_def intro!: quiet_update_first)
qed

lemma relocate_loop_quiet:
  "relocate_loop fb tb r ids moved s = Inr s' \<Longrightarrow> quiet (s_tasks s) (s_tasks s')"
proof (induction fb tb r ids moved s rule: relocate_loop.induct)
  case (2 fb tb r i ids moved s)
  from 2(2) obtain t where t: "i \<notin> set moved" "find_task i (s_tasks s) = Some t" "t_taskboard_id t = Some fb"
    "t_status t \<notin> {task_status.Running, task_status.Review}"
    and rest: "relocate_loop fb tb r ids (moved @ [i]) (edit_task i (relocate_edit tb r) s) = Inr s'"
    by (auto split: if_splits option.splits)
  have "quiet (s_tasks s) (s_tasks (edit_task i (relocate_edit tb r) s))"
    by (rule quiet_edit_task) (simp add: relocate_edit_def release_edit_def)
  also from 2(1) [OF t(1,2)] t(3,4) rest have "quiet \<dots> (s_tasks s')" by simp
  finally show ?case .
qed simp

lemma relocate_quiet: "calls_quiet s (reduce_relocate_work_items env s fb tb ids r)"
proof (rule calls_quietI)
  fix s' ev res assume "reduce_relocate_work_items env s fb tb ids r = Inr (s', ev, res)"
  then obtain rv s1 where "relocate_loop fb tb rv ids [] s = Inr s1" "s_tasks s' = s_tasks s1"
    by (auto simp: reduce_relocate_work_items_def Let_def split: sum.splits if_splits)
  then show "quiet (s_tasks s) (s_tasks s')" using relocate_loop_quiet by metis
qed

lemma adjust_budget_quiet: "calls_quiet s (reduce_adjust_budget env s sc k b)"
  by (auto simp: reduce_adjust_budget_def edit_mission_def Let_def
      intro!: calls_quietI quiet_update_first split: option.splits if_splits budget_scope.splits)

section \<open>The handlers that leave the tasks alone\<close>

lemma board_frame_quiet:
  "calls_quiet s (reduce_create_taskboard env s bspec)"
  "calls_quiet s (reduce_update_taskboard env s b bp)"
  "calls_quiet s (reduce_archive_taskboard env s b)"
  "calls_quiet s (reduce_request_organization_drain s v)"
  "calls_quiet s (reduce_complete_organization_drain s v actor)"
  "calls_quiet s (reduce_resume_organization s v)"
  "calls_quiet s (reduce_save_organization_draft s g v)"
  "calls_quiet s (reduce_publish_organization env s v)"
  unfolding reduce_create_taskboard_def reduce_update_taskboard_def reduce_archive_taskboard_def
    reduce_request_organization_drain_def reduce_complete_organization_drain_def reduce_resume_organization_def
    reduce_save_organization_draft_def reduce_publish_organization_def Let_def
  by (auto intro!: calls_quiet_frame split: sum.splits option.splits if_splits)

lemma team_frame_quiet:
  "calls_quiet s (reduce_create_role env s rspec)"
  "calls_quiet s (reduce_update_role env s r rp)"
  "calls_quiet s (reduce_archive_role s r)"
  "calls_quiet s (reduce_set_agent_role s a r')"
  "calls_quiet s (reduce_create_agent env s aspec)"
  "calls_quiet s (reduce_update_agent env s a ap)"
  "calls_quiet s (reduce_archive_agent s a)"
  unfolding reduce_create_role_def reduce_update_role_def reduce_archive_role_def reduce_set_agent_role_def
    reduce_create_agent_def reduce_update_agent_def reduce_archive_agent_def Let_def
  by (auto intro!: calls_quiet_frame split: sum.splits option.splits if_splits)

lemma mission_frame_quiet:
  "calls_quiet s (reduce_create_mission env s p x)"
  "calls_quiet s (reduce_set_mission_status env s m st)"
  "calls_quiet s (reduce_retry_mission_plan env s m)"
  "calls_quiet s (pause_or_resume env s m st)"
  "calls_quiet s (reduce_deliver_mission env s m)"
  unfolding reduce_create_mission_def reduce_set_mission_status_def reduce_retry_mission_plan_def
    pause_or_resume_def reduce_deliver_mission_def edit_mission_def Let_def
  by (auto intro!: calls_quiet_frame split: sum.splits option.splits if_splits)

lemma proposal_quiet:
  "calls_quiet s (case validate_supervisor_proposal s m p of
     Inl e \<Rightarrow> Inl e | Inr _ \<Rightarrow> Inr (s, SupervisorPlanProposed m p, Accepted))"
  by (auto simp: calls_quiet_def split: sum.splits)

lemma project_frame_quiet:
  "calls_quiet s (reduce_create_project env s pspec)"
  "calls_quiet s (reduce_clone_project env s url dest)"
  "calls_quiet s (reduce_archive_project s p)"
  "calls_quiet s (reduce_cancel_operation env s x)"
  "calls_quiet s (reduce_retry_operation env s x)"
  unfolding reduce_create_project_def reduce_clone_project_def reduce_archive_project_def
    reduce_cancel_operation_def reduce_retry_operation_def edit_operation_def Let_def
  by (auto intro!: calls_quiet_frame split: sum.splits option.splits if_splits)

lemma grant_frame_quiet:
  "calls_quiet s (reduce_request_approval env s x actor)"
  "calls_quiet s (reduce_decide_approval env s y d)"
  "calls_quiet s (reduce_grant_task_access env s i a r e u actor)"
  "calls_quiet s (reduce_revoke_task_grant s g)"
  unfolding reduce_request_approval_def reduce_decide_approval_def reduce_grant_task_access_def
    reduce_revoke_task_grant_def grant_for_task_def edit_approval_def Let_def
  by (auto intro!: calls_quiet_frame split: sum.splits option.splits if_splits)

lemma terminal_frame_quiet:
  "calls_quiet s (reduce_open_terminal env s i c r)"
  "calls_quiet s (reduce_take_control env s k actor)"
  "calls_quiet s (reduce_renew_control env s k l actor)"
  "calls_quiet s (reduce_release_control s k l actor)"
  "calls_quiet s (reduce_close_terminal env s k actor)"
  unfolding reduce_open_terminal_def reduce_take_control_def reduce_renew_control_def
    reduce_release_control_def reduce_close_terminal_def edit_terminal_def Let_def
  by (auto intro!: calls_quiet_frame split: sum.splits option.splits if_splits)

lemma message_frame_quiet:
  "calls_quiet s (reduce_send_message env s x actor)"
  "calls_quiet s (reduce_ack_message s m actor)"
  "calls_quiet s (reduce_complete_message s m b actor)"
  "calls_quiet s (reduce_publish_artifact env s y)"
  "calls_quiet s (reduce_begin_artifact_upload env s z)"
  "calls_quiet s (reduce_finalize_artifact_upload env s u h n)"
  "calls_quiet s (reduce_propose_memory env s a p c actor)"
  "calls_quiet s (reduce_read_memory env s a p actor)"
  unfolding reduce_send_message_def reduce_ack_message_def reduce_complete_message_def
    reduce_publish_artifact_def reduce_begin_artifact_upload_def reduce_finalize_artifact_upload_def
    reduce_propose_memory_def reduce_read_memory_def edit_message_def Let_def
  by (auto intro!: calls_quiet_frame split: sum.splits option.splits if_splits prod.splits)

lemma connector_frame_quiet:
  "calls_quiet s (reduce_create_connector_profile env s cspec)"
  "calls_quiet s (reduce_update_connector_profile env s k cp)"
  "calls_quiet s (reduce_archive_connector_profile s k)"
  unfolding reduce_create_connector_profile_def reduce_update_connector_profile_def
    reduce_archive_connector_profile_def set_profiles_def Let_def
  by (auto intro!: calls_quiet_frame split: sum.splits option.splits if_splits)

lemma settings_frame_quiet: "calls_quiet s (reduce_settings env s c)"
  by (rule calls_quiet_frame) (auto simp: reduce_settings_def misrouted_def Let_def
      split: command.splits sum.splits option.splits if_splits)

lemma update_frame_quiet: "calls_quiet s (reduce_update env s c)"
  by (rule calls_quiet_frame) (auto simp: reduce_update_def misrouted_def reduce_check_for_update_def
      reduce_prepare_update_def reduce_apply_update_def reduce_rollback_update_def host_operation_def Let_def
      split: command.splits sum.splits option.splits if_splits prod.splits)

lemmas frame_quiet = board_frame_quiet team_frame_quiet mission_frame_quiet proposal_quiet project_frame_quiet
  grant_frame_quiet terminal_frame_quiet message_frame_quiet connector_frame_quiet

section \<open>The status commands follow the table\<close>

text \<open>What must hold of the board for a task to enter an engaged status.\<close>

definition may_enter :: "task_view list \<Rightarrow> task_view \<Rightarrow> task_status \<Rightarrow> bool" where
  "may_enter ts t st \<longleftrightarrow> task_can_transition_to (t_status t) st \<and>
     (st = task_status.Done \<longrightarrow> all_done ts (t_child_task_ids t)) \<and>
     (st = task_status.Running \<longrightarrow> all_done ts (t_dependencies t) \<and> t_assigned_agent t \<noteq> None)"

definition follows_table :: "task_view list \<Rightarrow> task_view list \<Rightarrow> bool" where
  "follows_table ts ts' \<longleftrightarrow> (\<forall>t' \<in> set ts'. t_status t' \<in> engaged \<longrightarrow>
     (\<exists>t \<in> set ts. t_id t = t_id t' \<and>
        (t_status t' = t_status t \<or> may_enter ts t (t_status t'))))"

definition obeys :: "world \<Rightarrow> reduction \<Rightarrow> bool" where
  "obeys s r \<longleftrightarrow> (\<forall>s' ev res. r = Inr (s', ev, res) \<longrightarrow> follows_table (s_tasks s) (s_tasks s'))"

lemma quiet_follows: "quiet ts ts' \<Longrightarrow> follows_table ts ts'"
  unfolding quiet_def follows_table_def by metis

lemma follows_quiet: "follows_table a b \<Longrightarrow> quiet b c \<Longrightarrow> follows_table a c"
  unfolding quiet_def follows_table_def by (metis (no_types))

lemma calls_quiet_obeys: "calls_quiet s r \<Longrightarrow> obeys s r"
  by (simp add: calls_quiet_def obeys_def quiet_follows)

lemma obeysI:
  "(\<And>s' ev res. r = Inr (s', ev, res) \<Longrightarrow> follows_table (s_tasks s) (s_tasks s')) \<Longrightarrow> obeys s r"
  by (simp add: obeys_def)

lemma status_step_follows:
  assumes "find_task i ts = Some task" "may_enter ts task st" "quiet ts ts1"
    and f: "\<And>t. t_id (f t) = t_id t" "\<And>t. t_status (f t) = st"
  shows "follows_table ts (update_first (\<lambda>t. t_id t = i) f ts1)"
proof -
  have "\<exists>t \<in> set ts. t_id t = t_id t' \<and> (t_status t' = t_status t \<or> may_enter ts t (t_status t'))"
    if "t' \<in> set (update_first (\<lambda>t. t_id t = i) f ts1)" "t_status t' \<in> engaged" for t'
    using set_update_first [OF that(1)]
  proof
    assume "t' \<in> set ts1"
    with assms(3) that(2) show ?thesis unfolding quiet_def by metis
  next
    assume "\<exists>x. find (\<lambda>t. t_id t = i) ts1 = Some x \<and> t' = f x"
    then obtain x where "find (\<lambda>t. t_id t = i) ts1 = Some x" "t' = f x" by blast
    with find_SomeD [of _ ts1 x] f have "t_id t' = i" "t_status t' = st" by auto
    with find_task_SomeD [OF assms(1)] assms(2) show ?thesis by metis
  qed
  then show ?thesis by (simp add: follows_table_def)
qed

lemma provision_worktree_quiet:
  assumes "provision_worktree env s task = Inr (s1, queued)"
  shows "quiet (s_tasks s) (s_tasks s1)"
  using assms
  by (auto simp: provision_worktree_def Let_def intro!: quiet_update_first split: option.splits if_splits sum.splits)

lemma set_task_status_obeys: "obeys s (reduce_set_task_status env s i st actor)"
proof (rule obeysI)
  fix s' ev res assume "reduce_set_task_status env s i st actor = Inr (s', ev, res)"
  then show "follows_table (s_tasks s) (s_tasks s')"
  proof (rule reduce_set_task_statusE)
    fix task rt s1 queued s3 review
    assume t: "find_task i (s_tasks s) = Some task"
      and c: "check_set_task_status env s task st actor = Inr rt"
      and p: "(if st = task_status.Running then provision_worktree env s task else Inr (s, False)) = Inr (s1, queued)"
      and r: "review_event env (apply_status s1 i (t_status task) st rt) task (t_status task) st rt = Inr (s3, review)"
      and s': "s' = (if st = task_status.Done then (\<lambda>s5. update_parent_child_locks env s5 i actor) else (\<lambda>s5. s5))
              (update_dependency_locks env (feed env s3 i actor task_feed_kind.StatusChanged
                 (''Status changed to '' @ debug_task_status st)) i actor st)"
    have "quiet (s_tasks s) (s_tasks s1)"
      using p provision_worktree_quiet by (auto split: if_splits)
    moreover have "may_enter (s_tasks s) task st"
      using check_set_task_status_ok [OF c] by (auto simp: may_enter_def dest: check_running_ok)
    ultimately
    have "follows_table (s_tasks s) (update_first (\<lambda>t. t_id t = i) (status_edit (t_status task) st rt) (s_tasks s1))"
      by (intro status_step_follows [OF t]) (simp_all add: status_edit_def)
    then have "follows_table (s_tasks s) (s_tasks (apply_status s1 i (t_status task) st rt))"
      by (simp add: apply_status_def Let_def)
    also have "s_tasks (apply_status s1 i (t_status task) st rt) = s_tasks s3" using review_event_calm [OF r] by simp
    finally have "follows_table (s_tasks s) (s_tasks (update_dependency_locks env (feed env s3 i actor
        task_feed_kind.StatusChanged (''Status changed to '' @ debug_task_status st)) i actor st))"
      using follows_quiet quiet_dependency_locks [of "feed env s3 i actor task_feed_kind.StatusChanged
        (''Status changed to '' @ debug_task_status st)"] by auto
    then show "follows_table (s_tasks s) (s_tasks s')"
      using follows_quiet quiet_parent_locks by (auto simp: s')
  qed
qed

lemma task_accept_obeys: "obeys s (reduce_task_accept env s i actor)"
proof (rule obeysI)
  fix s' ev res assume r: "reduce_task_accept env s i actor = Inr (s', ev, res)"
  then obtain task where t: "find_task i (s_tasks s) = Some task" and c: "check_task_accept env s task actor = Inr ()"
    by (auto simp: reduce_task_accept_def split: option.splits sum.splits)
  from c have rev: "may_enter (s_tasks s) task task_status.Done"
    by (auto simp: check_task_accept_def may_enter_def split: if_splits)
  show "follows_table (s_tasks s) (s_tasks s')"
  proof (cases "t_worktree task")
    case None
    let ?s1 = "edit_task i (\<lambda>t. t\<lparr>t_status := task_status.Done\<rparr>) s"
    let ?s3 = "update_dependency_locks env (feed env ?s1 i actor task_feed_kind.StatusChanged
      ''Task accepted and marked done'') i actor task_status.Done"
    from r t c None have s': "s_tasks s' = s_tasks (update_parent_child_locks env ?s3 i actor)"
      by (auto simp: reduce_task_accept_def Let_def)
    have "follows_table (s_tasks s) (s_tasks ?s1)"
      using status_step_follows [OF t rev quiet_refl, of "\<lambda>t. t\<lparr>t_status := task_status.Done\<rparr>"] by simp
    then have "follows_table (s_tasks s) (s_tasks ?s3)"
      using follows_quiet quiet_dependency_locks [of "feed env ?s1 i actor task_feed_kind.StatusChanged
        ''Task accepted and marked done''"] by simp
    then show ?thesis unfolding s' by (rule follows_quiet) (rule quiet_parent_locks)
  next
    case (Some w)
    from r t c Some have "s_tasks s' = s_tasks s"
      by (auto simp: reduce_task_accept_def accept_with_worktree_def Let_def split: if_splits)
    then show ?thesis by (simp add: quiet_follows)
  qed
qed

lemma obeysD: "obeys s r \<Longrightarrow> r = Inr (s', ev, res) \<Longrightarrow> follows_table (s_tasks s) (s_tasks s')"
  by (simp add: obeys_def)

lemma decide_review_obeys: "obeys s (reduce_decide_review env s k d r actor)"
  by (rule obeysI) (auto simp: reduce_decide_review_def Let_def
      dest!: obeysD [OF task_accept_obeys] obeysD [OF set_task_status_obeys]
      split: if_splits option.splits sum.splits review_decision.splits prod.splits)

lemmas handler_quiet = assign_quiet release_quiet comment_quiet create_task_quiet update_task_quiet
  create_work_item_quiet spawn_quiet workflow_quiet respond_offer_quiet resolve_input_quiet fire_quiet
  relocate_quiet adjust_budget_quiet frame_quiet

lemmas handler_obeys = set_task_status_obeys task_accept_obeys decide_review_obeys
  calls_quiet_obeys [OF calls_quiet_misrouted]

lemma domains_obey:
  "obeys s (reduce_task env s c actor)" "obeys s (reduce_workflow env s c actor)"
  "obeys s (reduce_organization env s c)" "obeys s (reduce_project env s c)" "obeys s (reduce_agent env s c)"
  "obeys s (reduce_role env s c)" "obeys s (reduce_message env s c actor)" "obeys s (reduce_approval env s c actor)"
  "obeys s (reduce_memory env s c actor)" "obeys s (reduce_artifact env s c)"
  "obeys s (reduce_terminal env s c actor)" "obeys s (reduce_operation env s c)" "obeys s (reduce_mission env s c)"
  unfolding reduce_task_def reduce_workflow_def reduce_organization_def reduce_project_def reduce_agent_def
    reduce_role_def reduce_message_def reduce_approval_def reduce_memory_def reduce_artifact_def
    reduce_terminal_def reduce_operation_def reduce_mission_def
  by (cases c; simp only: command.case;
      (rule handler_obeys | rule calls_quiet_obeys, rule handler_quiet))+

lemma reduce_obeys: "obeys s (reduce env s c actor)"
  unfolding reduce_def
  by (cases "domain_of c")
    (simp_all add: domains_obey calls_quiet_obeys [OF settings_frame_quiet] calls_quiet_obeys [OF update_frame_quiet])

section \<open>The daemon's jobs\<close>

lemma failed_task_quiet: "quiet ts (update_first (\<lambda>t. t_id t = i) failed_task ts)"
  by (rule quiet_update_first) (simp add: failed_task_def retry_after_failure_def Let_def)

lemma mark_task_failure_quiet:
  assumes "mark_task_failure env i s = Inr (Some (s', ev, res))"
  shows "quiet (s_tasks s) (s_tasks s')"
proof -
  obtain s1 st where s': "s' = update_dependency_locks env s1 i actor_system st"
    and s1: "s_tasks s1 = update_first (\<lambda>t. t_id t = i) failed_task (s_tasks s)"
    using assms by (auto simp: mark_task_failure_def Let_def split: option.splits)
  have "quiet (s_tasks s) (s_tasks s1)" unfolding s1 by (rule failed_task_quiet)
  also have "quiet (s_tasks s1) (s_tasks s')" unfolding s' by (rule quiet_dependency_locks)
  finally show ?thesis .
qed

lemma recover_worktree_quiet:
  assumes "recover_running_worktree_intent env i s = Inr (Some (s', ev, res))"
  shows "quiet (s_tasks s) (s_tasks s')"
  using assms by (rule recover_worktreeE) (simp add: quiet_update_first)

lemma job_tasks:
  assumes "job_edit env job s = Inr (Some (s', ev, res))" "\<And>c. job \<noteq> Reduced c"
  shows "quiet (s_tasks s) (s_tasks s')"
  using assms
  by (cases job)
    (auto simp: job_edit_def set_agent_def clear_agent_session_def edit_agent_def block_mission_def edit_mission_def
      persist_supervisor_session_id_def update_operation_def finish_operation_def edit_operation_def
      queue_draft_pr_operation_def start_delivery_def announce_def expire_approval_def edit_approval_def
      expire_terminal_lease_def edit_terminal_def expire_pending_message_def edit_message_def commit_usage_event_def
      set_update_state_def ensure_builtin_role_def ensure_builtin_supervisor_def ensure_default_supervisor_model_def
      Let_def intro: mark_task_failure_quiet recover_worktree_quiet split: option.splits if_splits sum.splits)

lemma job_follows:
  assumes "job_edit env job s = Inr (Some (s', ev, res))"
  shows "follows_table (s_tasks s) (s_tasks s')"
proof (cases "\<exists>c. job = Reduced c")
  case True
  with assms obtain c where "reduce env s c actor_system = Inr (s', ev, res)"
    by (auto simp: job_edit_def commit_reduced_def split: sum.splits)
  then show ?thesis by (rule obeysD [OF reduce_obeys])
next
  case False
  with job_tasks [OF assms] show ?thesis by (blast intro: quiet_follows)
qed

end
