(* ===== verification/PlanOrder.thy ===== *)
theory PlanOrder
  imports Missions
begin

text \<open>
  Correctness of the cycle check of \<open>validate_supervisor_proposal\<close>: the loop of Kahn's algorithm ends
  within one round per task, and it visits every task exactly when each task lists its dependencies
  once and the plan has no cycle.
\<close>

section \<open>The plan as a relation\<close>

definition plan_keys :: "supervisor_task_proposal list \<Rightarrow> string set" where
  "plan_keys tasks = sp_client_key ` set tasks"

definition plan_rel :: "supervisor_task_proposal list \<Rightarrow> (string \<times> string) set" where
  "plan_rel tasks = {(sp_client_key t, d) | t d. t \<in> set tasks \<and> d \<in> set (sp_dependencies t)}"

definition plan_ok :: "supervisor_task_proposal list \<Rightarrow> bool" where
  "plan_ok tasks \<longleftrightarrow> distinct (map sp_client_key tasks) \<and>
     (\<forall>t \<in> set tasks. set (sp_dependencies t) \<subseteq> plan_keys tasks)"

text \<open>How many dependencies of a task are still counted after the keys in \<open>V\<close> were visited.\<close>

definition open_deps :: "string set \<Rightarrow> supervisor_task_proposal \<Rightarrow> nat" where
  "open_deps V t = length (sp_dependencies t) - card (set (sp_dependencies t) \<inter> V)"

lemma open_deps_0: "open_deps V t = 0 \<longleftrightarrow> distinct (sp_dependencies t) \<and> set (sp_dependencies t) \<subseteq> V"
proof -
  let ?ds = "sp_dependencies t"
  have a: "card (set ?ds \<inter> V) \<le> card (set ?ds)" by (intro card_mono) auto
  have b: "card (set ?ds) \<le> length ?ds" by (rule card_length)
  have "open_deps V t = 0 \<longleftrightarrow> card (set ?ds \<inter> V) = card (set ?ds) \<and> card (set ?ds) = length ?ds"
    using a b by (auto simp: open_deps_def)
  also have "card (set ?ds \<inter> V) = card (set ?ds) \<longleftrightarrow> set ?ds \<subseteq> V"
    by (metis Int_absorb2 Int_lower1 List.finite_set card_subset_eq inf.absorb_iff1)
  also have "card (set ?ds) = length ?ds \<longleftrightarrow> distinct ?ds" by (metis card_distinct distinct_card)
  finally show ?thesis by blast
qed

lemma open_deps_insert:
  "key \<notin> V \<Longrightarrow> open_deps (insert key V) t = (if key \<in> set (sp_dependencies t) then open_deps V t - 1 else open_deps V t)"
  by (simp add: open_deps_def)

section \<open>One round\<close>

lemma release_dependents_eq:
  assumes "distinct (map sp_client_key tasks)" "\<forall>t \<in> set tasks. indegree (sp_client_key t) = Some (n t)"
  shows "release_dependents key tasks indegree remaining =
    (\<lambda>k. case find (\<lambda>t. sp_client_key t = k \<and> key \<in> set (sp_dependencies t)) tasks of
           None \<Rightarrow> indegree k | Some t \<Rightarrow> Some (n t - 1),
     rev (map sp_client_key (filter (\<lambda>t. key \<in> set (sp_dependencies t) \<and> n t - 1 = 0) tasks)) @ remaining)"
  using assms
proof (induction tasks arbitrary: indegree remaining)
  case (Cons t tasks)
  let ?k = "sp_client_key t"
  have none: "find (\<lambda>u. sp_client_key u = ?k \<and> key \<in> set (sp_dependencies u)) tasks = None"
    using Cons.prems(1) by (simp add: find_None_iff) (metis imageI)
  show ?case
  proof (cases "key \<in> set (sp_dependencies t)")
    case False
    with Cons.IH [of indegree remaining] Cons.prems show ?thesis by (simp add: fun_eq_iff)
  next
    case True
    have "\<forall>u \<in> set tasks. sp_client_key u \<noteq> ?k" using Cons.prems(1) by simp (metis imageI)
    then have "\<forall>u \<in> set tasks. (indegree(?k \<mapsto> n t - 1)) (sp_client_key u) = Some (n u)"
      using Cons.prems by simp
    note ih = Cons.IH [OF _ this, of "if n t - 1 = 0 then ?k # remaining else remaining"]
    let ?find = "\<lambda>k. find (\<lambda>u. sp_client_key u = k \<and> key \<in> set (sp_dependencies u))"
    have "(\<lambda>k. case ?find k tasks of None \<Rightarrow> (indegree(?k \<mapsto> n t - 1)) k | Some u \<Rightarrow> Some (n u - 1)) =
        (\<lambda>k. case ?find k (t # tasks) of None \<Rightarrow> indegree k | Some u \<Rightarrow> Some (n u - 1))"
      using True none by (auto simp: fun_eq_iff split: option.split)
    moreover have "release_dependents key (t # tasks) indegree remaining =
        release_dependents key tasks (indegree(?k \<mapsto> n t - 1)) (if n t - 1 = 0 then ?k # remaining else remaining)"
      using True Cons.prems by (simp del: fun_upd_apply)
    ultimately show ?thesis
      using True Cons.prems(1) ih by (simp del: fun_upd_apply find.simps One_nat_def)
  qed
qed simp

text \<open>\<open>V\<close> is the set of keys already visited.\<close>

definition kahn_inv ::
    "supervisor_task_proposal list \<Rightarrow> string set \<Rightarrow> (string \<Rightarrow> nat option) \<Rightarrow> string list \<Rightarrow> bool" where
  "kahn_inv tasks V indegree remaining \<longleftrightarrow>
     (\<forall>t \<in> set tasks. indegree (sp_client_key t) = Some (open_deps V t)) \<and>
     distinct remaining \<and> V \<inter> set remaining = {} \<and> V \<subseteq> plan_keys tasks \<and> set remaining \<subseteq> plan_keys tasks \<and>
     (\<forall>t \<in> set tasks. sp_client_key t \<in> V \<union> set remaining \<longleftrightarrow> open_deps V t = 0) \<and>
     plan_rel tasks `` V \<subseteq> V \<and> (\<forall>x \<in> V. (x, x) \<notin> (plan_rel tasks)\<^sup>+)"

lemma plan_key_unique:
  "distinct (map sp_client_key tasks) \<Longrightarrow> t \<in> set tasks \<Longrightarrow> u \<in> set tasks \<Longrightarrow>
     sp_client_key t = sp_client_key u \<Longrightarrow> t = u"
  by (simp add: distinct_map inj_on_def)

lemma find_key:
  assumes "distinct (map sp_client_key tasks)" "t \<in> set tasks"
  shows "find (\<lambda>u. sp_client_key u = sp_client_key t \<and> P u) tasks = (if P t then Some t else None)"
  using assms
proof (induction tasks)
  case (Cons u tasks)
  show ?case
  proof (cases "t = u")
    case True
    then have "\<forall>x \<in> set tasks. sp_client_key x \<noteq> sp_client_key t"
      using Cons.prems(1) by simp (metis imageI)
    then have "find (\<lambda>u. sp_client_key u = sp_client_key t \<and> P u) tasks = None" by (auto simp: find_None_iff)
    with True show ?thesis by simp
  next
    case False
    with Cons.prems have "t \<in> set tasks" "sp_client_key u \<noteq> sp_client_key t" by auto
    with Cons show ?thesis by simp
  qed
qed simp

lemma acyclic_visit:
  assumes V: "R `` V \<subseteq> V" "\<forall>x \<in> V. (x, x) \<notin> R\<^sup>+" and k: "k \<notin> V" "R `` {k} \<subseteq> V"
  shows "R `` insert k V \<subseteq> insert k V" "\<forall>x \<in> insert k V. (x, x) \<notin> R\<^sup>+"
proof -
  show "R `` insert k V \<subseteq> insert k V" using V k by auto
  have "y \<in> V" if "(k, y) \<in> R\<^sup>+" for y
    using that by (induction rule: trancl_induct) (use k V in auto)
  with V k show "\<forall>x \<in> insert k V. (x, x) \<notin> R\<^sup>+" by auto
qed

lemma kahn_round:
  assumes ok: "plan_ok tasks" and inv: "kahn_inv tasks V indegree (key # remaining)"
    and r: "release_dependents key tasks indegree remaining = (indegree', remaining')"
  shows "kahn_inv tasks (insert key V) indegree' remaining'"
proof -
  let ?V = "insert key V"
  have dist: "distinct (map sp_client_key tasks)" using ok by (simp add: plan_ok_def)
  have deg: "\<forall>t \<in> set tasks. indegree (sp_client_key t) = Some (open_deps V t)"
    and rem: "distinct (key # remaining)" "V \<inter> set (key # remaining) = {}" "V \<subseteq> plan_keys tasks"
      "set (key # remaining) \<subseteq> plan_keys tasks"
    and zero: "\<forall>t \<in> set tasks. sp_client_key t \<in> V \<union> set (key # remaining) \<longleftrightarrow> open_deps V t = 0"
    and V: "plan_rel tasks `` V \<subseteq> V" "\<forall>x \<in> V. (x, x) \<notin> (plan_rel tasks)\<^sup>+"
    using inv unfolding kahn_inv_def by blast+
  have key: "key \<notin> V" using rem by simp
  note eq = release_dependents_eq [OF dist deg, of key remaining, unfolded r]
  define new where "new = filter (\<lambda>t. key \<in> set (sp_dependencies t) \<and> open_deps V t - 1 = 0) tasks"
  have rem': "remaining' = rev (map sp_client_key new) @ remaining" using eq by (simp add: new_def)
  have deg': "\<forall>t \<in> set tasks. indegree' (sp_client_key t) = Some (open_deps ?V t)"
  proof
    fix t assume t: "t \<in> set tasks"
    have "indegree' (sp_client_key t) =
      (case find (\<lambda>u. sp_client_key u = sp_client_key t \<and> key \<in> set (sp_dependencies u)) tasks of
           None \<Rightarrow> indegree (sp_client_key t) | Some u \<Rightarrow> Some (open_deps V u - 1))"
      using eq by simp
    also have "\<dots> = Some (open_deps ?V t)"
      using find_key [OF dist t, of "\<lambda>u. key \<in> set (sp_dependencies u)"] deg t
      by (simp add: open_deps_insert [OF key])
    finally show "indegree' (sp_client_key t) = Some (open_deps ?V t)" .
  qed
  have pos: "open_deps V t \<noteq> 0" if "key \<in> set (sp_dependencies t)" for t
    using that key by (auto simp: open_deps_0)
  have new: "t \<in> set new \<longleftrightarrow> t \<in> set tasks \<and> open_deps V t \<noteq> 0 \<and> open_deps ?V t = 0" for t
    using pos [of t] by (auto simp: new_def open_deps_insert [OF key])
  have fresh: "sp_client_key t \<notin> V \<union> set (key # remaining)" if "t \<in> set new" for t
    using that zero new by blast
  have dnew: "distinct (map sp_client_key new)"
    using dist unfolding new_def by (rule distinct_map_filter)
  have rset: "set remaining' = sp_client_key ` set new \<union> set remaining" by (simp add: rem')
  have mem: "sp_client_key t \<in> ?V \<union> set remaining' \<longleftrightarrow> open_deps ?V t = 0" if t: "t \<in> set tasks" for t
  proof -
    have "sp_client_key t \<in> sp_client_key ` set new \<longleftrightarrow> t \<in> set new"
      using plan_key_unique [OF dist t] by (auto simp: new)
    moreover have "open_deps V t = 0 \<Longrightarrow> open_deps ?V t = 0" by (auto simp: open_deps_insert [OF key])
    moreover have "sp_client_key t \<in> V \<union> set (key # remaining) \<longleftrightarrow> open_deps V t = 0" using zero t by blast
    ultimately show ?thesis
      using rset t new [of t] by (cases "open_deps V t = 0") auto
  qed
  have sub: "set remaining' \<subseteq> plan_keys tasks"
    using rem(4) by (auto simp: rem' new plan_keys_def)
  from rem(4) obtain t where t: "t \<in> set tasks" "sp_client_key t = key" by (auto simp: plan_keys_def)
  with zero have "open_deps V t = 0" by auto
  then have "set (sp_dependencies t) \<subseteq> V" by (simp add: open_deps_0)
  moreover have "u = t" if "u \<in> set tasks" "sp_client_key u = key" for u
    using plan_key_unique [OF dist that(1) t(1)] that(2) t(2) by simp
  ultimately have "plan_rel tasks `` {key} \<subseteq> V" by (auto simp: plan_rel_def)
  note vis = acyclic_visit [OF V key this]
  have "distinct remaining'" "?V \<inter> set remaining' = {}"
    using dnew rem fresh by (auto simp: rem')
  with deg' mem sub vis rem show ?thesis unfolding kahn_inv_def by auto
qed

lemma kahn_run:
  assumes ok: "plan_ok tasks"
  shows "kahn_inv tasks V indegree remaining \<Longrightarrow> length tasks \<le> fuel + card V \<Longrightarrow> visited = card V \<Longrightarrow>
    \<exists>W indegree'. kahn_inv tasks W indegree' [] \<and> kahn fuel tasks indegree remaining visited = Some (card W)"
proof (induction fuel arbitrary: V indegree remaining visited)
  case (0 V indegree remaining visited)
  have "V \<subset> plan_keys tasks" if "remaining = key # rest" for key rest
    using "0.prems"(1) that by (auto simp: kahn_inv_def)
  then have "card V < card (plan_keys tasks)" if "remaining = key # rest" for key rest
    using that by (metis List.finite_set finite_imageI plan_keys_def psubset_card_mono)
  moreover have "card (plan_keys tasks) \<le> length tasks"
    using card_image_le [of "set tasks" sp_client_key] card_length [of tasks] by (simp add: plan_keys_def)
  ultimately have "remaining = []" using "0.prems"(2) by (cases remaining) fastforce+
  with "0.prems" show ?case by auto
next
  case (Suc fuel V indegree remaining visited)
  show ?case
  proof (cases remaining)
    case Nil
    with Suc.prems show ?thesis by auto
  next
    case (Cons key rest)
    obtain indegree' rest' where r: "release_dependents key tasks indegree rest = (indegree', rest')"
      by (cases "release_dependents key tasks indegree rest")
    have key: "key \<notin> V" "finite V"
      using Suc.prems(1) Cons finite_subset [of V "plan_keys tasks"] by (auto simp: kahn_inv_def plan_keys_def)
    have "kahn_inv tasks (insert key V) indegree' rest'"
      using kahn_round [OF ok _ r] Suc.prems(1) Cons by simp
    from Suc.IH [OF this] Suc.prems key r Cons show ?thesis by simp
  qed
qed

section \<open>The whole check\<close>

lemma plan_indegree_mem:
  assumes "distinct (map sp_client_key tasks)" "t \<in> set tasks"
  shows "plan_indegree tasks (sp_client_key t) = Some (length (sp_dependencies t))"
  unfolding plan_indegree_def
  by (rule map_of_is_SomeI) (use assms in \<open>auto simp: rev_map [symmetric] comp_def\<close>)

lemma kahn_start:
  assumes "plan_ok tasks"
  shows "kahn_inv tasks {} (plan_indegree tasks) (plan_roots tasks)"
proof -
  have d: "distinct (map sp_client_key tasks)" using assms by (simp add: plan_ok_def)
  have "sp_client_key t \<in> set (plan_roots tasks) \<longleftrightarrow> sp_dependencies t = []" if "t \<in> set tasks" for t
    using plan_key_unique [OF d that] that by (auto simp: plan_roots_def)
  then show ?thesis
    using d plan_indegree_mem [OF d]
    by (auto simp: kahn_inv_def open_deps_def plan_roots_def plan_keys_def distinct_map_filter)
qed

lemma kahn_visitedE:
  assumes "plan_ok tasks"
  obtains W where "kahn_visited tasks = Some (card W)" "W \<subseteq> plan_keys tasks"
    "\<forall>t \<in> set tasks. sp_client_key t \<in> W \<longleftrightarrow> distinct (sp_dependencies t) \<and> set (sp_dependencies t) \<subseteq> W"
    "\<forall>x \<in> W. (x, x) \<notin> (plan_rel tasks)\<^sup>+"
  using kahn_run [OF assms kahn_start [OF assms], of "kahn_fuel tasks" 0] that
  by (auto simp: kahn_visited_def kahn_fuel_def kahn_inv_def open_deps_0)

lemma plan_keys_card: "plan_ok tasks \<Longrightarrow> card (plan_keys tasks) = length tasks"
  by (metis distinct_card length_map plan_keys_def plan_ok_def set_map)

lemma kahn_visited_iff:
  assumes ok: "plan_ok tasks"
  shows "kahn_visited tasks = Some (length tasks) \<longleftrightarrow>
    acyclic (plan_rel tasks) \<and> (\<forall>t \<in> set tasks. distinct (sp_dependencies t))"
proof -
  let ?R = "plan_rel tasks" and ?K = "plan_keys tasks"
  obtain W where W: "kahn_visited tasks = Some (card W)" "W \<subseteq> ?K"
    and fix_W: "\<forall>t \<in> set tasks. sp_client_key t \<in> W \<longleftrightarrow> distinct (sp_dependencies t) \<and> set (sp_dependencies t) \<subseteq> W"
    and nocycle: "\<forall>x \<in> W. (x, x) \<notin> ?R\<^sup>+"
    using kahn_visitedE [OF ok] by blast
  have fin: "finite ?K" by (simp add: plan_keys_def)
  have R: "?R \<subseteq> ?K \<times> ?K" using ok by (auto simp: plan_rel_def plan_ok_def plan_keys_def)
  have all: "kahn_visited tasks = Some (length tasks) \<longleftrightarrow> W = ?K"
    using W plan_keys_card [OF ok] fin card_subset_eq [OF fin W(2)] by auto
  have "acyclic ?R \<and> (\<forall>t \<in> set tasks. distinct (sp_dependencies t))" if "W = ?K"
  proof
    show "acyclic ?R"
    proof (unfold acyclic_def, intro allI notI)
      fix x assume x: "(x, x) \<in> ?R\<^sup>+"
      then obtain y where "(x, y) \<in> ?R" by (meson tranclD)
      with R have "x \<in> W" using that by auto
      with nocycle x show False by blast
    qed
    show "\<forall>t \<in> set tasks. distinct (sp_dependencies t)" using fix_W that by (auto simp: plan_keys_def)
  qed
  moreover have "W = ?K" if acyc: "acyclic ?R" and d: "\<forall>t \<in> set tasks. distinct (sp_dependencies t)"
  proof (rule ccontr)
    assume "W \<noteq> ?K"
    have "finite ?R" using R fin by (meson finite_SigmaI finite_subset)
    then have "wf (?R\<inverse>)" using acyc by (simp add: finite_acyclic_wf_converse)
    obtain k where k: "k \<in> ?K - W" using \<open>W \<noteq> ?K\<close> W(2) by blast
    from wfE_min [OF \<open>wf (?R\<inverse>)\<close> k] obtain k where k: "k \<in> ?K - W" and min: "\<And>d. (d, k) \<in> ?R\<inverse> \<Longrightarrow> d \<notin> ?K - W"
      by blast
    then obtain t where t: "t \<in> set tasks" "sp_client_key t = k" by (auto simp: plan_keys_def)
    with min R have "set (sp_dependencies t) \<subseteq> W" by (auto simp: plan_rel_def)
    with fix_W d t k show False by auto
  qed
  ultimately show ?thesis using all by blast
qed

end
