(* ===== verification/TaskProperties.thy ===== *)
theory TaskProperties
  imports StateMachine PlanOrder Installation
begin

text \<open>
  What the task commands promise: the life of a task, the locks between tasks, claims, and the
  searches that keep the graphs acyclic.
\<close>

section \<open>The loop over the dependents as one parallel update\<close>

definition lock_task :: "task_view list \<Rightarrow> task_status \<Rightarrow> task_view \<Rightarrow> task_view" where
  "lock_task tasks st t =
     (if st = task_status.Done
      then if t_status t = task_status.Blocked \<and> all_done tasks (t_dependencies t)
           then t\<lparr>t_status := task_status.Ready\<rparr> else t
      else if t_status t = task_status.Ready then t\<lparr>t_status := task_status.Blocked\<rparr> else t)"

lemma lock_task_same [simp]: "t_id (lock_task ts st t) = t_id t" "t_dependencies (lock_task ts st t) = t_dependencies t"
  "t_status (lock_task ts st t) = task_status.Done \<longleftrightarrow> t_status t = task_status.Done"
  by (auto simp: lock_task_def)

lemma all_done_cong:
  assumes "map (\<lambda>t. (t_id t, t_status t = task_status.Done)) ts' = map (\<lambda>t. (t_id t, t_status t = task_status.Done)) ts"
  shows "all_done ts' ds = all_done ts ds"
proof -
  have "is_done ts' i = is_done ts i" for i
    using assms
  proof (induction ts arbitrary: ts')
    case (Cons t ts)
    then obtain u us where u: "ts' = u # us" by (cases ts') auto
    with Cons.prems have "t_id u = t_id t" "(t_status u = task_status.Done) = (t_status t = task_status.Done)"
      and us: "map (\<lambda>t. (t_id t, t_status t = task_status.Done)) us = map (\<lambda>t. (t_id t, t_status t = task_status.Done)) ts"
      by auto
    with Cons.IH [OF us] u show ?case by (auto simp: is_done_def find_task_def)
  qed simp
  then have "is_done ts' = is_done ts" ..
  then show ?thesis by (simp add: all_done_def)
qed

lemma map_update_id:
  assumes "distinct (map t_id ts)" "find_task i ts = Some t"
  shows "update_first (\<lambda>u. t_id u = i) f ts = map (\<lambda>u. if t_id u = i then f u else u) ts"
  using assms(1)
proof (induction ts)
  case (Cons u ts)
  have "map (\<lambda>u. if t_id u = i then f u else u) ts = ts" if "t_id u = i"
    using Cons.prems that by (intro map_idI) (simp, metis imageI)
  with Cons show ?case by simp
qed simp

lemma lock_step_tasks:
  assumes "distinct (map t_id (s_tasks s))"
  shows "s_tasks (dependency_lock_step env actor st i s) =
    map (\<lambda>t. if t_id t = i then lock_task (s_tasks s) st t else t) (s_tasks s)"
proof (cases "find_task i (s_tasks s)")
  case None
  then have "map (\<lambda>t. if t_id t = i then lock_task (s_tasks s) st t else t) (s_tasks s) = s_tasks s"
    by (intro map_idI) (auto simp: find_task_None_iff task_ids_def)
  with None show ?thesis by (simp add: dependency_lock_step_def)
next
  case (Some t)
  have only: "u = t" if "u \<in> set (s_tasks s)" "t_id u = i" for u
    using that find_task_SomeD [OF Some] assms by (auto simp: distinct_map inj_on_def)
  have "update_first (\<lambda>u. t_id u = i) f (s_tasks s) = map (\<lambda>u. if t_id u = i then f u else u) (s_tasks s)" for f
    by (rule map_update_id [OF assms Some])
  with Some only show ?thesis
    by (auto simp: dependency_lock_step_def lock_task_def intro!: map_idI [symmetric])
qed

lemma lock_fold_tasks:
  assumes "distinct (map t_id (s_tasks s))" "distinct ids"
  shows "s_tasks (fold (dependency_lock_step env actor st) ids s) =
    map (\<lambda>t. if t_id t \<in> set ids then lock_task (s_tasks s) st t else t) (s_tasks s)"
  using assms
proof (induction ids arbitrary: s)
  case (Cons i ids)
  let ?s = "dependency_lock_step env actor st i s"
  note step = lock_step_tasks [OF Cons.prems(1), of env actor st i]
  have ids: "map t_id (s_tasks ?s) = map t_id (s_tasks s)" unfolding step by (simp add: comp_def)
  have lock: "lock_task (s_tasks ?s) st = lock_task (s_tasks s) st"
  proof -
    have "all_done (s_tasks ?s) = all_done (s_tasks s)"
      unfolding step by (rule ext, rule all_done_cong) simp
    then show ?thesis by (simp only: lock_task_def [abs_def])
  qed
  have "s_tasks (fold (dependency_lock_step env actor st) ids ?s) =
    map (\<lambda>t. if t_id t \<in> set ids then lock_task (s_tasks s) st t else t) (s_tasks ?s)"
    using Cons.IH [of ?s] Cons.prems ids lock by simp
  also have "\<dots> = map (\<lambda>t. if t_id t \<in> set (i # ids) then lock_task (s_tasks s) st t else t) (s_tasks s)"
    using Cons.prems(2) unfolding step by (auto simp: comp_def)
  finally show ?case by simp
qed simp


lemma dependents_distinct: "distinct (map t_id ts) \<Longrightarrow> distinct (dependents i ts)"
  by (simp add: dependents_def distinct_map_filter)

section \<open>The life of a task\<close>

lemma server_step_follows:
  assumes v: "server_ok v" and step: "server_step v v'"
  shows "follows_table (s_tasks (st_world (sr_store v))) (s_tasks (st_world (sr_store v')))"
  using step v
proof (induction rule: server_step.induct)
  case (step_finish v c e actor w env st' r)
  show ?case
  proof (cases "st_revision st' = st_revision (sr_store v)")
    case False
    obtain nxt ev res cm st1 where
      x: "reduce env (st_world (sr_store v)) (ce_command e) actor = Inr (nxt, ev, res)"
      and c: "commit_request env (sr_store v) (request_of env e actor nxt ev res) = Inr (st1, cm)"
      and s: "st' = remember nxt st1" and f: "map_of (st_answers (sr_store v)) (ce_command_id e) = None"
      by (rule finish_on_current [OF step_finish.prems step_finish.hyps(1,4) False])
    from c f have "s_tasks (st_world st') = s_tasks nxt"
      by (auto simp: s remember_def commit_request_def request_of_def Let_def split: sum.splits if_splits)
    with obeysD [OF reduce_obeys x] show ?thesis by simp
  next
    case True
    from step_finish.hyps(4) have "s_tasks (st_world st') = s_tasks (st_world (sr_store v))"
    proof (cases rule: apply_loadedE)
      case (committed nxt ev res st1 cm)
      from committed(2) show ?thesis
      proof (cases rule: commit_requestE)
        case fresh
        have "read_column (st_revision (sr_store v)) = st_revision (sr_store v)"
          using step_finish.hyps(3) by (intro read_column_id) simp
        with fresh(4) step_finish.hyps(3) have "unat (st_revision st1) \<noteq> unat (st_revision (sr_store v))"
          by (simp add: current_revision_def saturating_add_one)
        with True committed(3) show ?thesis by (simp add: remember_def)
      qed (use committed(3) in \<open>simp add: remember_def\<close>)
    qed (simp_all add: remember_def)
    then show ?thesis by (simp add: quiet_follows)
  qed
next
  case (step_deliver env v m st')
  from step_deliver.hyps(3) have "s_tasks (st_world st') = s_tasks (st_world (sr_store v))"
  proof (cases rule: deliver_messageE)
    case (commit rq cm)
    from commit(1) show ?thesis
      by (cases rule: commit_requestE) (simp_all add: commit(2) edit_message_def)
  qed simp
  then show ?case by (simp add: quiet_follows)
next
  case (step_daemon env v cid job st' r)
  from step_daemon.hyps(3) show ?case
  proof (cases rule: commit_jobE)
    case (committed nxt ev res cm)
    from committed(2) have "s_tasks (st_world st') \<in> {s_tasks (st_world (sr_store v)), s_tasks nxt}"
      by (cases rule: commit_requestE) (simp_all add: job_request_def remember_def)
    with job_follows [OF committed(1)] show ?thesis by (auto simp: quiet_follows)
  qed (simp_all add: quiet_follows remember_def)
qed (simp_all add: quiet_follows boot_def replace_snapshot_def Let_def)

text \<open>
  C12: a task takes up work only along the transition table, as far as commits compare the revision. At every step of
  \<open>server_step\<close> (a request, a delivery, a daemon job that names the revision it has read, a restart) a task that is running,
  in review, done or cancelled afterwards was so before, or its old status may move to the new one by the table, and
  then a running task has an owner and only finished dependencies, and a task becomes done only when all its
  children are done. The commit of a check run or of an installation and the snapshots that retention writes do not
  compare the revision and are not among these steps: they can put back an older status.
\<close>

theorem task_life:
  assumes "reachable server_init server_step v" "server_step v v'"
    and "t' \<in> set (s_tasks (st_world (sr_store v')))"
    and "t_status t' \<in> {task_status.Running, task_status.Review, task_status.Done, task_status.Cancelled}"
  shows "\<exists>t \<in> set (s_tasks (st_world (sr_store v))). t_id t = t_id t' \<and>
    (t_status t = t_status t' \<or>
     task_can_transition_to (t_status t) (t_status t') \<and>
     (t_status t' = task_status.Done \<longrightarrow> all_done (s_tasks (st_world (sr_store v))) (t_child_task_ids t)) \<and>
     (t_status t' = task_status.Running \<longrightarrow>
        all_done (s_tasks (st_world (sr_store v))) (t_dependencies t) \<and> t_assigned_agent t \<noteq> None))"
  using server_step_follows [OF serving.reachable_inv [OF assms(1)] assms(2)] assms(3,4)
  unfolding follows_table_def may_enter_def engaged_def by metis


lemma demo_cancel_held: "reachable server_init server_step (holding demo_cancel demo_actor demo_server)"
  unfolding demo_cancel_def
  by (rule demo_held) (simp_all only: demo_server_facts(5), simp_all add: organization_command_def is_pair_def)

lemma demo_cancel_result:
  "(TaskId 7, task_status.Cancelled) \<in> set (map (\<lambda>t. (t_id t, t_status t)) (s_tasks (st_world
     (fst (apply_loaded demo_env (sr_store demo_server) (st_world (sr_store demo_server)) demo_cancel demo_actor)))))"
  by (rule demo_trial_server(4))

theorem task_life_witness:
  "\<exists>t \<in> set (s_tasks (st_world (sr_store demo_server))). t_id t = TaskId 7 \<and>
     (t_status t = task_status.Cancelled \<or> task_can_transition_to (t_status t) task_status.Cancelled)"
proof -
  let ?v = "holding demo_cancel demo_actor demo_server"
  obtain st' r where a: "apply_loaded demo_env (sr_store ?v) (st_world (sr_store demo_server)) demo_cancel demo_actor
      = (st', r)" by fastforce
  have "server_step ?v (?v\<lparr>sr_store := st', sr_pending := (sr_pending ?v)(0 := None)\<rparr>)"
    by (rule step_finish [OF _ _ _ a])
      (simp_all add: demo_server_facts(2), simp add: demo_server_def demo_start_def demo_env_def)
  note life = task_life [OF demo_cancel_held this]
  obtain t' where "t' \<in> set (s_tasks (st_world st'))" "t_id t' = TaskId 7" "t_status t' = task_status.Cancelled"
    using demo_cancel_result a by auto
  with life [of t'] show ?thesis by auto
qed

section \<open>Locks between tasks\<close>

text \<open>
  C13: the loop that locks and unlocks the dependents of a task is one parallel update. Although
  each round reads the board the rounds before have changed, the result is that of
  \<open>lock_task\<close> on the old board for every task that lists the dependency: when it is done, a
  blocked dependent whose dependencies are all done becomes ready, otherwise a ready dependent
  becomes blocked, and nothing else changes.
\<close>

theorem dependency_locks_parallel:
  assumes "distinct (map t_id (s_tasks s))"
  shows "s_tasks (update_dependency_locks env s i actor st) =
    map (\<lambda>t. if i \<in> set (t_dependencies t) then lock_task (s_tasks s) st t else t) (s_tasks s)"
proof -
  have "t_id t \<in> set (dependents i (s_tasks s)) \<longleftrightarrow> i \<in> set (t_dependencies t)" if "t \<in> set (s_tasks s)" for t
    using that assms by (auto simp: dependents_def distinct_map inj_on_def)
  then show ?thesis
    unfolding update_dependency_locks_def lock_fold_tasks [OF assms dependents_distinct [OF assms]]
    by (intro map_cong) auto
qed

theorem dependency_locks_parallel_witness:
  "map t_status (s_tasks (update_dependency_locks demo_env
     (demo_world\<lparr>s_tasks := [demo_task 1 [] task_status.Done None, demo_task 2 [TaskId 1] task_status.Blocked None]\<rparr>)
     (TaskId 1) demo_actor task_status.Done)) = [task_status.Done, task_status.Ready]"
  by (subst dependency_locks_parallel)
    (simp_all add: demo_task_def lock_task_def all_done_def is_done_def find_task_def)

section \<open>Starting work\<close>

lemma lock_step_skips:
  assumes "find_task i (s_tasks s) = Some t" "t_status t \<notin> {task_status.Ready, task_status.Blocked}"
  shows "find_task i (s_tasks (dependency_lock_step env actor st j s)) = Some t"
  using assms by (auto simp: dependency_lock_step_def find_task_edit split: option.split simp del: edit_task_simps)

lemma dependency_locks_skip:
  assumes "find_task i (s_tasks s) = Some t" "t_status t \<notin> {task_status.Ready, task_status.Blocked}"
  shows "find_task i (s_tasks (update_dependency_locks env s j actor st)) = Some t"
proof -
  have "find_task i (s_tasks (fold (dependency_lock_step env actor st) ids s)) = Some t" for ids
    using assms(1) by (induction ids arbitrary: s) (simp_all add: lock_step_skips [OF _ assms(2)])
  then show ?thesis by (simp add: update_dependency_locks_def)
qed

lemma dependency_locks_operations [simp]:
  "s_operations (update_dependency_locks env s j actor st) = s_operations s"
proof -
  have "s_operations (fold (dependency_lock_step env actor st) ids s) = s_operations s" for ids
    by (induction ids arbitrary: s) (simp_all add: dependency_lock_step_def split: option.split)
  then show ?thesis by (simp add: update_dependency_locks_def)
qed


definition has_worktree_operation :: "env \<Rightarrow> task_id \<Rightarrow> operation_view list \<Rightarrow> bool" where
  "has_worktree_operation env i operations \<longleftrightarrow> (\<exists>x \<in> set operations. op_kind x = operation_kind.CreateWorktree \<and>
     worktree_operation_matches_task env x i \<and> \<not> operation_is_settled x)"

lemma provision_worktree_idle:
  assumes "provision_worktree env s task = Inr (s1, False)"
  shows "has_worktree_operation env (t_id task) (s_operations s1)"
  using assms by (auto simp: provision_worktree_def Let_def has_worktree_operation_def list_ex_iff
      split: option.splits if_splits sum.splits)

lemma set_running_queued:
  assumes "reduce_set_task_status env s i task_status.Running actor = Inr (s', ev, res)"
    and "find_task i (s_tasks s) = Some task" "provision_worktree env s task = Inr (s1, True)"
  shows "has_worktree_operation env i (s_operations s')"
proof -
  have "find (\<lambda>x. op_kind x = operation_kind.CreateWorktree \<and> worktree_operation_matches_task env x i
      \<and> op_status x = operation_status.Queued) (s_operations s') \<noteq> None"
    using assms by (auto simp: reduce_set_task_status_def Let_def split: option.splits sum.splits if_splits)
  then obtain x where "find (\<lambda>x. op_kind x = operation_kind.CreateWorktree \<and> worktree_operation_matches_task env x i
      \<and> op_status x = operation_status.Queued) (s_operations s') = Some x" by blast
  from find_SomeD [OF this] show ?thesis by (auto simp: has_worktree_operation_def operation_is_settled_def)
qed

lemma set_running_task:
  assumes "reduce_set_task_status env s i task_status.Running actor = Inr (s', ev, res)"
  obtains task where "find_task i (s_tasks s) = Some task" "check_running s task = Inr ()"
    "all_done (s_tasks s) (t_dependencies task)"
    "\<exists>m. find_mission (t_mission_id task) (s_missions s) = Some m \<and> m_status m = mission_status.Active"
    "\<exists>t'. find_task i (s_tasks s') = Some t' \<and> t_status t' = task_status.Running"
    "has_worktree_operation env i (s_operations s')"
  using assms
proof (rule reduce_set_task_statusE)
  fix task rt s1 queued s3 review
  assume t: "find_task i (s_tasks s) = Some task"
    and c: "check_set_task_status env s task task_status.Running actor = Inr rt"
    and p: "(if task_status.Running = task_status.Running then provision_worktree env s task else Inr (s, False)) =
      Inr (s1, queued)"
    and r: "review_event env (apply_status s1 i (t_status task) task_status.Running rt) task (t_status task)
      task_status.Running rt = Inr (s3, review)"
    and s': "s' = (if task_status.Running = task_status.Done then (\<lambda>s5. update_parent_child_locks env s5 i actor)
        else (\<lambda>s5. s5)) (update_dependency_locks env (feed env s3 i actor task_feed_kind.StatusChanged
               (''Status changed to '' @ debug_task_status task_status.Running)) i actor task_status.Running)"
  have id: "t_id task = i" using find_task_SomeD [OF t] by simp
  from p have p: "provision_worktree env s task = Inr (s1, queued)" by simp
  note w = provision_worktree_ok [OF p, unfolded id, OF t]
  obtain t1 where t1: "find_task i (s_tasks s1) = Some t1" using w(2) by auto
  have "find_task i (s_tasks s3) = Some (status_edit (t_status task) task_status.Running rt t1)"
    using review_event_calm [OF r] t1 find_task_edit [of "status_edit (t_status task) task_status.Running rt" i i s1]
    by (simp add: apply_status_def status_edit_def)
  then have "find_task i (s_tasks s') = Some (status_edit (t_status task) task_status.Running rt t1)"
    unfolding s' by (simp add: dependency_locks_skip status_edit_def)
  moreover have "has_worktree_operation env i (s_operations s')"
  proof (cases queued)
    case True
    with p show ?thesis by (intro set_running_queued [OF assms t, of s1]) simp
  next
    case False
    have "s_operations s3 = s_operations s1"
      using r by (auto simp: review_event_def apply_status_def settle_review_def Let_def split: if_splits)
    with False p provision_worktree_idle [of env s task s1] id s' show ?thesis by simp
  qed
  ultimately show thesis
    using t w(3) check_set_task_status_ok(2,3) [OF c] by (intro that [of task]) (simp_all add: status_edit_def)
qed

text \<open>
  C14: a task starts running only when everything it needs is there. When the command that sets a
  task running succeeds, the task's dependencies are done, its mission is active, its owner is an
  active agent that the published organization allows and that has the required role, the task
  is running afterwards and the creation of its worktree is queued or under way.
\<close>

theorem running_needs_everything:
  assumes "reduce_set_task_status env s i task_status.Running actor = Inr (s', ev, res)"
  shows "\<exists>t a m t'. find_task i (s_tasks s) = Some t \<and> all_done (s_tasks s) (t_dependencies t) \<and>
    find_mission (t_mission_id t) (s_missions s) = Some m \<and> m_status m = mission_status.Active \<and>
    t_assigned_agent t = Some a \<and> has_active_agent s a \<and> organization_allows_agent s a \<and>
    (\<forall>r. t_required_role_id t = Some r \<longrightarrow> agent_role s a = Some r) \<and>
    find_task i (s_tasks s') = Some t' \<and> t_status t' = task_status.Running \<and>
    has_worktree_operation env i (s_operations s')"
  by (rule set_running_task [OF assms]) (use check_running_ok in blast)


theorem running_needs_everything_witness:
  "\<exists>m. find_mission (MissionId 1002) (s_missions demo_world) = Some m \<and> m_status m = mission_status.Active"
proof -
  have "case reduce_set_task_status demo_env demo_world (TaskId 1) task_status.Running demo_actor of
      Inr (s', _) \<Rightarrow> True | Inl _ \<Rightarrow> False"
    by code_simp
  then obtain s' ev res where
    "reduce_set_task_status demo_env demo_world (TaskId 1) task_status.Running demo_actor = Inr (s', ev, res)"
    by (auto split: sum.splits)
  from running_needs_everything [OF this] show ?thesis
    by (auto simp: demo_world_def demo_task_def find_task_def)
qed

section \<open>Claims\<close>

lemma check_assign_ok:
  assumes "check_assign env s i a src actor = Inr ()"
  shows "organization_allows_agent s a" and "\<exists>t. find_task i (s_tasks s) = Some t \<and>
      t_status t \<notin> {task_status.Done, task_status.Cancelled, task_status.Running, task_status.Review} \<and>
      all_done (s_tasks s) (t_dependencies t) \<and> (t_assigned_agent t = None \<or> t_assigned_agent t = Some a)"
    and "\<exists>x. active_agent s a = Some x \<and> agent_is_idle x"
    and "\<forall>t \<in> set (s_tasks s). t_assigned_agent t = Some a \<and> is_unfinished t \<longrightarrow> t_id t = i"
  using assms by (auto simp: check_assign_def list_ex_iff split: if_splits option.splits sum.splits)

lemma assign_taskE:
  assumes "assign_task env s i a src k actor = Inr s'"
  obtains "check_assign env s i a src actor = Inr ()"
    "s_tasks s' = s_tasks (edit_task i (claim_edit (e_now env) a src) s)"
    "s_task_grants s' = update_where (\<lambda>g. gv_task_id g = i \<and> gv_agent_id g \<noteq> a) (\<lambda>g. g\<lparr>gv_revoked := True\<rparr>)
       (s_task_grants s)"
  using assms by (auto simp: assign_task_def Let_def revoke_grants_def split: sum.splits)

text \<open>
  C15: a claim is exclusive. When an agent claims a task, or is assigned to it, the task was
  available with all its dependencies done and no other owner, the agent is idle staff, and
  afterwards it owns the task, the task is the only unfinished one it owns, no grant of another agent
  on the task remains usable and every other task is as before.
\<close>

theorem claim_exclusive:
  assumes "assign_task env s i a src k actor = Inr s'"
  shows "organization_allows_agent s a \<and> (\<exists>x. active_agent s a = Some x \<and> agent_is_idle x) \<and>
    (\<exists>t. find_task i (s_tasks s) = Some t \<and> (t_assigned_agent t = None \<or> t_assigned_agent t = Some a) \<and>
       t_status t \<notin> {task_status.Done, task_status.Cancelled, task_status.Running, task_status.Review} \<and>
       all_done (s_tasks s) (t_dependencies t) \<and>
       find_task i (s_tasks s') = Some (claim_edit (e_now env) a src t)) \<and>
    (\<forall>t \<in> set (s_tasks s'). t_assigned_agent t = Some a \<and> is_unfinished t \<longrightarrow> t_id t = i) \<and>
    (\<forall>g \<in> set (s_task_grants s'). gv_task_id g = i \<and> gv_agent_id g \<noteq> a \<longrightarrow> gv_revoked g) \<and>
    (\<forall>j. j \<noteq> i \<longrightarrow> find_task j (s_tasks s') = find_task j (s_tasks s))"
proof (rule assign_taskE [OF assms])
  let ?f = "claim_edit (e_now env) a src"
  assume c: "check_assign env s i a src actor = Inr ()"
    and t: "s_tasks s' = s_tasks (edit_task i ?f s)"
    and g: "s_task_grants s' = update_where (\<lambda>g. gv_task_id g = i \<and> gv_agent_id g \<noteq> a)
      (\<lambda>g. g\<lparr>gv_revoked := True\<rparr>) (s_task_grants s)"
  note ok = check_assign_ok [OF c]
  have find: "find_task j (s_tasks s') = (if j = i then map_option ?f (find_task i (s_tasks s)) else find_task j (s_tasks s))" for j
    unfolding t by (rule find_task_edit) (simp add: claim_edit_def)
  have "t_id t' = i" if "t' \<in> set (s_tasks s')" "t_assigned_agent t' = Some a \<and> is_unfinished t'" for t'
    using set_update_first [OF that(1) [unfolded t edit_task_simps]]
  proof
    assume "\<exists>x. find (\<lambda>t. t_id t = i) (s_tasks s) = Some x \<and> t' = ?f x"
    then obtain x where x: "find (\<lambda>t. t_id t = i) (s_tasks s) = Some x" "t' = ?f x" by blast
    from find_SomeD [OF x(1)] x(2) show ?thesis by (simp add: claim_edit_def)
  qed (use that(2) ok(4) in blast)
  then have one: "\<forall>t \<in> set (s_tasks s'). t_assigned_agent t = Some a \<and> is_unfinished t \<longrightarrow> t_id t = i" by blast
  have rv: "\<forall>g \<in> set (s_task_grants s'). gv_task_id g = i \<and> gv_agent_id g \<noteq> a \<longrightarrow> gv_revoked g"
    unfolding g ball_update_where by (simp, blast)
  have mine: "\<exists>t. find_task i (s_tasks s) = Some t \<and> (t_assigned_agent t = None \<or> t_assigned_agent t = Some a) \<and>
       t_status t \<notin> {task_status.Done, task_status.Cancelled, task_status.Running, task_status.Review} \<and>
       all_done (s_tasks s) (t_dependencies t) \<and> find_task i (s_tasks s') = Some (?f t)"
    using ok(2) find [of i] by auto
  have rest: "\<forall>j. j \<noteq> i \<longrightarrow> find_task j (s_tasks s') = find_task j (s_tasks s)" by (simp add: find)
  show ?thesis by (intro conjI ok(1) ok(3) mine one rv rest)
qed

theorem claim_exclusive_witness:
  "\<exists>s'. assign_task demo_env (demo_world\<lparr>s_tasks := [demo_task 1 [] task_status.Backlog None]\<rparr>) (TaskId 1)
      (AgentId 12) task_claim_source.Manual task_feed_kind.Claimed demo_actor = Inr s' \<and>
    (\<exists>t. find_task (TaskId 1) (s_tasks s') =
       Some (claim_edit (e_now demo_env) (AgentId 12) task_claim_source.Manual t))"
proof -
  let ?s = "demo_world\<lparr>s_tasks := [demo_task 1 [] task_status.Backlog None]\<rparr>"
  have "case assign_task demo_env ?s (TaskId 1) (AgentId 12) task_claim_source.Manual task_feed_kind.Claimed demo_actor of
      Inr _ \<Rightarrow> True | Inl _ \<Rightarrow> False"
    by code_simp
  then obtain s' where a: "assign_task demo_env ?s (TaskId 1) (AgentId 12) task_claim_source.Manual
      task_feed_kind.Claimed demo_actor = Inr s'"
    by (auto split: sum.splits)
  with claim_exclusive [OF a] show ?thesis by blast
qed

end
