(* ===== verification/GraphProperties.thy ===== *)
theory GraphProperties
  imports PlanOrder Installation
begin

text \<open>
  The searches that keep the graphs acyclic: the depth-first search of task validation, the walk
  along parents, and the cycle check of supervisor plans.
\<close>

section \<open>Task dependencies\<close>

text \<open>
  the depth-first cycle search is exact. It ends on every graph, cyclic ones included, and
  says yes if and only if a cycle can be reached from the task it starts at.
\<close>

theorem cycle_search_exact:
  "fst (dfs_cycle g i {} {}) \<longleftrightarrow> (\<exists>x. (i, x) \<in> (dep_edges g)\<^sup>* \<and> (x, x) \<in> (dep_edges g)\<^sup>+)"
  by (simp add: dfs_cycle_iff leads_to_cycle_def)

lemma parent_chain_errors:
  "parent_chain tasks a c vis \<noteq> Inl (Validation ''task dependencies must form a DAG'')"
  by (induction tasks a c vis rule: parent_chain.induct) auto

lemma parent_link_errors:
  "validate_parent_link c tasks \<noteq> Inl (Validation ''task dependencies must form a DAG'')"
  by (auto simp: validate_parent_link_def parent_chain_errors simp del: parent_chain.simps split: option.splits)

definition candidate_graph :: "task_view \<Rightarrow> task_view list \<Rightarrow> dep_graph" where
  "candidate_graph c tasks = (t_id c, t_dependencies c) # dep_graph_of tasks"

lemma cycle_check_iff:
  "any (\<lambda>i. fst (dfs_cycle g i {} {})) (map fst g) \<longleftrightarrow> \<not> acyclic (dep_edges g)"
  by (auto simp: list_ex_iff dfs_cycle_iff acyclic_iff_no_lead)

text \<open>
  C16: a task view is refused for a cycle exactly when it makes one. An accepted candidate leaves
  the dependencies of the board acyclic, and when validation answers that dependencies must form a
  DAG, the board with the candidate in it really has a cycle.
\<close>

theorem dag_check_exact:
  "(validate_task_view c tasks = Inr () \<longrightarrow> acyclic (dep_edges (candidate_graph c tasks))) \<and>
   (validate_task_view c tasks = Inl (Validation ''task dependencies must form a DAG'') \<longrightarrow>
      \<not> acyclic (dep_edges (candidate_graph c tasks)))"
proof (cases "any (\<lambda>i. fst (dfs_cycle (candidate_graph c tasks) i {} {})) (map fst (candidate_graph c tasks))")
  case True
  then have "validate_task_view c tasks \<noteq> Inr ()"
    unfolding validate_task_view_def candidate_graph_def [symmetric] Let_def by (simp split: sum.split)
  with True show ?thesis unfolding cycle_check_iff by simp
next
  case False
  then have "validate_task_view c tasks \<noteq> Inl (Validation ''task dependencies must form a DAG'')"
    unfolding validate_task_view_def candidate_graph_def [symmetric] Let_def
    using parent_link_errors [of c tasks] by (simp split: sum.split) blast
  with False show ?thesis unfolding cycle_check_iff by simp
qed

theorem dag_check_exact_witness:
  "acyclic (dep_edges (candidate_graph (demo_task 3 [TaskId 2] task_status.Ready None) (s_tasks demo_world))) \<and>
   \<not> acyclic (dep_edges (candidate_graph (demo_task 1 [TaskId 2] task_status.Ready None) (s_tasks demo_world)))"
proof
  have "validate_task_view (demo_task 3 [TaskId 2] task_status.Ready None) (s_tasks demo_world) = Inr ()" by code_simp
  with dag_check_exact show
    "acyclic (dep_edges (candidate_graph (demo_task 3 [TaskId 2] task_status.Ready None) (s_tasks demo_world)))" by blast
  have "validate_task_view (demo_task 1 [TaskId 2] task_status.Ready None) (s_tasks demo_world) =
      Inl (Validation ''task dependencies must form a DAG'')" by code_simp
  with dag_check_exact show
    "\<not> acyclic (dep_edges (candidate_graph (demo_task 1 [TaskId 2] task_status.Ready None) (s_tasks demo_world)))" by blast
qed

section \<open>Parents\<close>

text \<open>
  the walk along parents decides ancestry. It ends even when parent links form a cycle, and it
  answers yes exactly when one task is reached from the other by one or more parent links.
\<close>

theorem ancestor_search_exact: "is_parent_of tasks a d \<longleftrightarrow> (d, a) \<in> (parent_rel tasks)\<^sup>+"
  by (rule is_parent_of_iff)

section \<open>Supervisor plans\<close>

lemma check_proposed_tasks_ok:
  assumes "check_proposed_tasks s tasks keys = Inr keys'"
  shows "keys' = keys \<union> plan_keys tasks" "distinct (map sp_client_key tasks)" "keys \<inter> plan_keys tasks = {}"
proof -
  have "keys' = keys \<union> plan_keys tasks \<and> distinct (map sp_client_key tasks) \<and> keys \<inter> plan_keys tasks = {}"
    using assms
  proof (induction tasks arbitrary: keys)
    case (Cons t tasks)
    from Cons.prems have "check_proposed_task s keys t = Inr ()"
      and r: "check_proposed_tasks s tasks (insert (sp_client_key t) keys) = Inr keys'"
      by (auto split: sum.splits)
    then have "sp_client_key t \<notin> keys" by (auto simp: check_proposed_task_def split: if_splits)
    with Cons.IH [OF r] show ?case by (auto simp: plan_keys_def)
  qed (simp add: plan_keys_def)
  then show "keys' = keys \<union> plan_keys tasks" "distinct (map sp_client_key tasks)" "keys \<inter> plan_keys tasks = {}"
    by blast+
qed

lemma check_proposed_tasks_errors:
  "check_proposed_tasks s tasks keys \<noteq> Inl (Validation ''supervisor proposal dependencies contain a cycle'')"
proof (induction tasks arbitrary: keys)
  case (Cons t tasks)
  have "check_candidates s r as \<noteq> Inl (Validation ''supervisor proposal dependencies contain a cycle'')" for r as
    by (induction as) auto
  then have "check_proposed_task s keys t \<noteq> Inl (Validation ''supervisor proposal dependencies contain a cycle'')"
    by (auto simp: check_proposed_task_def split: option.splits sum.splits)
  with Cons.IH show ?case by (auto split: sum.split)
qed simp

lemma proposal_plan_ok:
  assumes "check_proposed_tasks s (pp_tasks p) {} = Inr keys"
    and "\<not> any (\<lambda>t. any (\<lambda>d. d = sp_client_key t \<or> d \<notin> keys) (sp_dependencies t)) (pp_tasks p)"
  shows "plan_ok (pp_tasks p)"
  using check_proposed_tasks_ok [OF assms(1)] assms(2) by (auto simp: plan_ok_def list_ex_iff)

text \<open>
  C17: an accepted supervisor plan can be carried out. It has between 1 and 32 tasks with
  distinct keys, every dependency is a task of the plan and the dependencies have no cycle.
\<close>

theorem accepted_plan_acyclic:
  assumes "validate_supervisor_proposal s m p = Inr ()"
  shows "pp_mission_id p = m \<and> 1 \<le> length (pp_tasks p) \<and> length (pp_tasks p) \<le> 32 \<and>
    distinct (map sp_client_key (pp_tasks p)) \<and>
    (\<forall>t \<in> set (pp_tasks p). set (sp_dependencies t) \<subseteq> plan_keys (pp_tasks p)) \<and> acyclic (plan_rel (pp_tasks p))"
proof -
  from assms obtain keys where k: "check_proposed_tasks s (pp_tasks p) {} = Inr keys"
    "\<not> any (\<lambda>t. any (\<lambda>d. d = sp_client_key t \<or> d \<notin> keys) (sp_dependencies t)) (pp_tasks p)"
    and v: "kahn_visited (pp_tasks p) = Some (length (pp_tasks p))"
    and n: "pp_mission_id p = m" "pp_tasks p \<noteq> []" "length (pp_tasks p) \<le> 32"
    by (auto simp: validate_supervisor_proposal_def split: if_splits sum.splits)
  note ok = proposal_plan_ok [OF k]
  from kahn_visited_iff [OF ok] v have "acyclic (plan_rel (pp_tasks p))" by blast
  with ok n show ?thesis by (auto simp: plan_ok_def Suc_le_eq)
qed

definition demo_step :: "string \<Rightarrow> string list \<Rightarrow> supervisor_task_proposal" where
  "demo_step key deps = \<lparr>sp_client_key = key, sp_title = ''step'', sp_objective = ''do it'', sp_dependencies = deps,
     sp_priority = 0, sp_candidate_agents = [], sp_target_role_id = None, sp_assigned_agent = None,
     sp_policy_requirement = None, sp_budget = budget_unlimited\<rparr>"

definition demo_plan :: "supervisor_task_proposal list \<Rightarrow> supervisor_plan_proposal" where
  "demo_plan tasks = \<lparr>pp_mission_id = MissionId 1002, pp_summary = ''plan'', pp_tasks = tasks,
     pp_reasoning = None\<rparr>"

theorem accepted_plan_acyclic_witness:
  "acyclic (plan_rel [demo_step ''a'' [], demo_step ''b'' [''a''], demo_step ''c'' [''b'', ''a'']])"
proof -
  let ?p = "demo_plan [demo_step ''a'' [], demo_step ''b'' [''a''], demo_step ''c'' [''b'', ''a'']]"
  have "validate_supervisor_proposal demo_world (MissionId 1002) ?p = Inr ()" by code_simp
  from accepted_plan_acyclic [OF this] show ?thesis by (simp add: demo_plan_def)
qed

text \<open>
  C18: the cycle check ends within one round per task, and a plan refused for a cycle has one, or
  a task of it names a dependency twice. The second case is a plan without a cycle that the check
  still refuses, because its counter is lowered once per named task and not once per mention.
\<close>

theorem refused_plan_reason:
  assumes "validate_supervisor_proposal s m p = Inl (Validation ''supervisor proposal dependencies contain a cycle'')"
  shows "(\<exists>n. kahn_visited (pp_tasks p) = Some n \<and> n < length (pp_tasks p)) \<and>
    (\<not> acyclic (plan_rel (pp_tasks p)) \<or> (\<exists>t \<in> set (pp_tasks p). \<not> distinct (sp_dependencies t)))"
proof -
  have "check_proposed_tasks s (pp_tasks p) {} \<noteq> Inl (Validation ''supervisor proposal dependencies contain a cycle'')"
    by (rule check_proposed_tasks_errors)
  with assms obtain keys where k: "check_proposed_tasks s (pp_tasks p) {} = Inr keys"
    "\<not> any (\<lambda>t. any (\<lambda>d. d = sp_client_key t \<or> d \<notin> keys) (sp_dependencies t)) (pp_tasks p)"
    and v: "kahn_visited (pp_tasks p) \<noteq> Some (length (pp_tasks p))"
    by (auto simp: validate_supervisor_proposal_def split: if_splits sum.splits)
  note ok = proposal_plan_ok [OF k]
  obtain W where W: "kahn_visited (pp_tasks p) = Some (card W)" "W \<subseteq> plan_keys (pp_tasks p)"
    by (rule kahn_visitedE [OF ok])
  have "finite (plan_keys (pp_tasks p))" by (simp add: plan_keys_def)
  from card_mono [OF this W(2)] W(1) v plan_keys_card [OF ok] have "card W < length (pp_tasks p)" by simp
  with W(1) kahn_visited_iff [OF ok] v show ?thesis by auto
qed

lemma plan_rel_Cons: "plan_rel (t # ts) = {sp_client_key t} \<times> set (sp_dependencies t) \<union> plan_rel ts"
  by (auto simp: plan_rel_def)

theorem refused_plan_reason_witness:
  defines "plan \<equiv> [demo_step ''a'' [], demo_step ''b'' [''a'', ''a'']]"
  shows "acyclic (plan_rel plan) \<and> (\<exists>n. kahn_visited plan = Some n \<and> n < 2)"
proof
  let ?plan' = "[demo_step ''a'' [], demo_step ''b'' [''a'']]"
  have "validate_supervisor_proposal demo_world (MissionId 1002) (demo_plan plan) =
      Inl (Validation ''supervisor proposal dependencies contain a cycle'')"
    unfolding plan_def by code_simp
  from refused_plan_reason [OF this] show "\<exists>n. kahn_visited plan = Some n \<and> n < 2"
    by (simp add: demo_plan_def plan_def numeral_2_eq_2)
  have "plan_ok ?plan'" by (simp add: plan_ok_def plan_keys_def demo_step_def)
  moreover have "kahn_visited ?plan' = Some (length ?plan')" by code_simp
  ultimately have "acyclic (plan_rel ?plan')" using kahn_visited_iff by blast
  moreover have "plan_rel plan = plan_rel ?plan'" by (simp add: plan_rel_Cons plan_def demo_step_def)
  ultimately show "acyclic (plan_rel plan)" by simp
qed

end
