(* ===== verification/PolicyProperties.thy ===== *)
theory PolicyProperties
  imports StateMachine Installation
begin

text \<open>
  What the published organization, approvals, grants and leases allow.
\<close>

section \<open>Review\<close>

text \<open>Agents 11 and 12 with a published graph in which the second reviews the first.\<close>

definition demo_published :: world where
  "demo_published = demo_world\<lparr>s_organization := (s_organization demo_world)\<lparr>
     o_published := Some (demo_graph (OrganizationId 1003) (AgentId 11) (AgentId 12))\<rparr>,
     s_tasks := [demo_task 1 [] task_status.Running (Some (AgentId 11))]\<rparr>"

lemma demo_graph_wf: "graph_wf (demo_graph i (AgentId 11) (AgentId 12))"
  by (simp add: graph_wf_def demo_graph_def graph_empty_def staff_def reviews_def staff_unique_def relation_ok_def
      validate_relation_kind_def graph_is_v2_def node_is_v2_def)

lemma demo_published_graph:
  "o_published (s_organization demo_published) = Some (demo_graph (OrganizationId 1003) (AgentId 11) (AgentId 12))"
  by (simp add: demo_published_def)

lemma review_event_opens:
  assumes "review_event env s t cur task_status.Review rt = Inr (s3, review)"
    and "o_published (s_organization s) \<noteq> None" "t_assigned_agent t = Some a"
  shows "\<exists>x k c item. rt = Some x \<and> organization_review_contract s a x = Some (k, c) \<and> review = Some item \<and>
    rv_source_agent item = a \<and> rv_reviewer_agent item = x \<and> rv_contract item = c \<and>
    rv_status item = review_work_item_status.Pending"
  using assms by (auto simp: review_event_def Let_def split: option.splits)

lemma set_review_opens:
  assumes "reduce_set_task_status env s i task_status.Review actor = Inr (s', ev, res)"
    and "o_published (s_organization s) \<noteq> None"
  obtains t a r c k where "find_task i (s_tasks s) = Some t" "t_assigned_agent t = Some a"
    "organization_review_target s a = Some r" "organization_review_contract s a r = Some (k, c)"
    "\<exists>t' item. ev = ReviewWorkItemOpened t' item \<and> rv_source_agent item = a \<and> rv_reviewer_agent item = r \<and>
       rv_contract item = c \<and> rv_status item = review_work_item_status.Pending \<and>
       t_status t' = task_status.Review \<and> t_reviewer_agent t' = Some r"
proof -
  from assms(1) obtain t rt s3 review where t: "find_task i (s_tasks s) = Some t"
    and c: "check_set_task_status env s t task_status.Review actor = Inr rt"
    and r: "review_event env (apply_status s i (t_status t) task_status.Review rt) t (t_status t) task_status.Review rt
      = Inr (s3, review)"
    and ev: "ev = (case review of
           Some r \<Rightarrow> ReviewWorkItemOpened (case find_task i (s_tasks (apply_status s i (t_status t) task_status.Review rt)) of
             Some t \<Rightarrow> t | None \<Rightarrow> t) r
         | None \<Rightarrow> TaskStatusChanged i task_status.Review)"
    by (auto simp: reduce_set_task_status_def Let_def split: option.splits sum.splits)
  have org: "s_organization (apply_status s i (t_status t) task_status.Review rt) = s_organization s"
    "s_agents (apply_status s i (t_status t) task_status.Review rt) = s_agents s"
    by (simp_all add: apply_status_def)
  have same: "organization_review_contract (apply_status s i (t_status t) task_status.Review rt) = organization_review_contract s"
    by (intro ext)
      (simp add: organization_review_contract_def organization_node_for_agent_def active_agent_def org split: option.split)
  from check_set_task_status_ok(7) [OF c] obtain a where a: "t_assigned_agent t = Some a"
    "rt = organization_review_target s a"
    by (auto simp: resolve_review_target_def split: option.splits if_splits)
  from review_event_opens [OF r _ a(1)] org same assms(2) obtain x k cc item where x: "rt = Some x" "organization_review_contract s a x = Some (k, cc)"
    "review = Some item" "rv_source_agent item = a" "rv_reviewer_agent item = x" "rv_contract item = cc"
    "rv_status item = review_work_item_status.Pending"
    by metis
  have "find_task i (s_tasks (apply_status s i (t_status t) task_status.Review rt)) =
      Some (status_edit (t_status t) task_status.Review rt t)"
    using find_task_edit [of "status_edit (t_status t) task_status.Review rt" i i s] t
    by (simp add: apply_status_def status_edit_def)
  with ev x have "ev = ReviewWorkItemOpened (status_edit (t_status t) task_status.Review rt t) item" by simp
  with x a t show thesis by (intro that [of t a x k cc]) (auto simp: status_edit_def)
qed

text \<open>
  work goes to a reviewer who may review it. With a well-formed published graph, a task that
  enters review gets an active reviewer that the graph connects to its owner by a review
  relation, with that relation's contract; the review item that is opened names both.
\<close>

theorem reviewer_may_review:
  assumes "reduce_set_task_status env s i task_status.Review actor = Inr (s', ev, res)"
    and "o_published (s_organization s) = Some g" "graph_wf g"
  shows "\<exists>t a r t' item. find_task i (s_tasks s) = Some t \<and> t_assigned_agent t = Some a \<and>
    organization_allows_review s a r \<and> has_active_agent s r \<and> ev = ReviewWorkItemOpened t' item \<and>
    t_status t' = task_status.Review \<and> t_reviewer_agent t' = Some r \<and>
    rv_source_agent item = a \<and> rv_reviewer_agent item = r \<and> rv_status item = review_work_item_status.Pending"
proof -
  have "o_published (s_organization s) \<noteq> None" using assms(2) by simp
  from assms(1) this show ?thesis
    by (rule set_review_opens) (use review_target_allowed [OF assms(2,3)] in blast)
qed

theorem reviewer_may_review_witness: "organization_allows_review demo_published (AgentId 11) (AgentId 12)"
proof -
  have "case reduce_set_task_status demo_env demo_published (TaskId 1) task_status.Review demo_actor of
      Inr (_, ReviewWorkItemOpened t item, _) \<Rightarrow>
        rv_source_agent item = AgentId 11 \<and> rv_reviewer_agent item = AgentId 12 | _ \<Rightarrow> False"
    by code_simp
  then obtain s' t item res where r: "reduce_set_task_status demo_env demo_published (TaskId 1) task_status.Review
      demo_actor = Inr (s', ReviewWorkItemOpened t item, res)"
    and "rv_source_agent item = AgentId 11" "rv_reviewer_agent item = AgentId 12"
    by (auto split: sum.splits event.splits)
  with reviewer_may_review [OF r demo_published_graph demo_graph_wf] show ?thesis by auto
qed

text \<open>
  no task can be sent to review while a routing graph is published. A well-formed graph with
  roles, boards or child workflows has no review relation, so the command always fails and the
  task cannot be finished through review.
\<close>

theorem routing_graph_blocks_review:
  assumes "o_published (s_organization s) = Some g" "graph_wf g" "graph_is_v2 g"
  shows "\<exists>e. reduce_set_task_status env s i task_status.Review actor = Inl e"
proof (cases "reduce_set_task_status env s i task_status.Review actor")
  case (Inr x)
  then obtain s' ev res where "reduce_set_task_status env s i task_status.Review actor = Inr (s', ev, res)"
    by (cases x) auto
  moreover have "o_published (s_organization s) \<noteq> None" using assms(1) by simp
  ultimately show ?thesis
    by (rule set_review_opens) (simp add: review_target_v2_None [OF assms])
qed simp

definition demo_routing :: organization_graph where
  "demo_routing = (graph_empty (OrganizationId 1003))\<lparr>g_nodes := [(staff ''r'' (AgentId 11))\<lparr>
     n_kind := organization_node_kind.Role, n_agent_id := None, n_role_id := Some (RoleId 1)\<rparr>]\<rparr>"

theorem routing_graph_blocks_review_witness:
  "\<exists>e. reduce_set_task_status demo_env (demo_published\<lparr>s_organization := (s_organization demo_world)\<lparr>
      o_published := Some demo_routing\<rparr>\<rparr>) (TaskId 1) task_status.Review demo_actor = Inl e"
proof (rule routing_graph_blocks_review)
  have "g_nodes demo_routing = [(staff ''r'' (AgentId 11))\<lparr>n_kind := organization_node_kind.Role, n_agent_id := None,
      n_role_id := Some (RoleId 1)\<rparr>]" "g_relations demo_routing = []"
    by (simp_all add: demo_routing_def graph_empty_def)
  then show "graph_wf demo_routing" "graph_is_v2 demo_routing"
    by (simp_all add: graph_wf_def staff_unique_def graph_is_v2_def node_is_v2_def)
qed simp


section \<open>Tools\<close>

text \<open>
  a tool the published graph grants can be used, and others cannot. With a well-formed graph
  published, a call of a controlled tool is not denied exactly when some tool relation of the
  caller's node names the permission and leads to a capability node with a healthy profile of a
  fitting kind, and then the profile lookup that follows the check finds a profile that is not
  archived.
\<close>

theorem granted_tool_has_profile:
  assumes "organization_tool_permission tool = Some (c, p)" "o_published (s_organization s) = Some g" "graph_wf g"
  shows "(organization_tool_denial s a tool = None \<longleftrightarrow>
      (\<exists>n r. organization_node_for_agent s g a = Some n \<and> r \<in> set (g_relations g) \<and> relation_grants_tool s g n c p r)) \<and>
    (organization_tool_denial s a tool = None \<longrightarrow>
      (\<exists>profile. organization_tool_profile s a tool = Some profile \<and> \<not> cp_archived profile))"
proof (cases "organization_node_for_agent s g a")
  case None
  with assms show ?thesis by (simp add: organization_tool_denial_def)
next
  case (Some n)
  have denial: "organization_tool_denial s a tool = None \<longleftrightarrow> (\<exists>r \<in> set (g_relations g). relation_grants_tool s g n c p r)"
    using assms(1,2) Some by (simp add: organization_tool_denial_def list_ex_iff)
  have "\<exists>profile. organization_tool_profile s a tool = Some profile \<and> \<not> cp_archived profile"
    if r: "r \<in> set (g_relations g)" "relation_grants_tool s g n c p r" for r
  proof -
    from relation_grant_has_profile [OF assms(3) r(2)] obtain y where "relation_tool_profile s g n c p r = Some y" ..
    from find_map_exists [of r "g_relations g" "relation_tool_profile s g n c p" y] r(1) this obtain x
      where x: "find_map (relation_tool_profile s g n c p) (g_relations g) = Some x" by blast
    from find_map_SomeD [OF x] obtain r' where "relation_tool_profile s g n c p r' = Some x" by blast
    then have "\<not> cp_archived x"
      by (auto simp: relation_tool_profile_def active_profile_def dest!: find_SomeD split: if_splits option.splits)
    with x assms(1,2) Some show ?thesis by (simp add: organization_tool_profile_def)
  qed
  with denial Some show ?thesis by auto
qed

theorem granted_tool_has_profile_witness:
  "organization_tool_denial demo_published (AgentId 11) ''email_send'' \<noteq> None"
  using granted_tool_has_profile [OF _ demo_published_graph demo_graph_wf, of "''email_send''"]
  by (auto simp: organization_tool_permission_def organization_permission_def demo_graph_def reviews_def
      relation_grants_tool_def)

section \<open>Organization revisions\<close>

text \<open>
  C19: publishing is a compare-and-swap on the published revision. When a publish with an expected
  revision succeeds, that was the revision in force, the new one is one higher, the draft is what is
  published, and until the counter reaches its maximum a second publish with the same expectation is
  refused as a conflict that names the new revision.
\<close>

theorem publish_compare_and_swap:
  assumes "reduce_publish_organization env s r = Inr (s', ev, res)" "r \<noteq> - 1"
  shows "published_revision_of s = r \<and> unat (published_revision_of s') = unat r + 1 \<and>
    o_published (s_organization s') = Some ((o_draft (s_organization s))\<lparr>g_published_revision := published_revision_of s'\<rparr>) \<and>
    reduce_publish_organization env' s' r = Inl (OrganizationRevisionConflict r (published_revision_of s'))"
proof -
  have r: "unat r + 1 < 2 ^ 64"
  proof -
    have "unat (- 1 :: u64) = 2 ^ 64 - 1" by (simp add: unsigned_minus_1_eq_mask mask_eq_exp_minus_1)
    with assms(2) have "unat r \<noteq> 2 ^ 64 - 1" by (simp add: word_unat_eq_iff)
    moreover have "unat r < 2 ^ 64" using unsigned_less [of r] by simp
    ultimately show ?thesis by simp
  qed
  from assms(1) have p: "published_revision_of s = r"
    by (auto simp: reduce_publish_organization_def Let_def split: if_splits sum.splits)
  from assms(1) have o: "o_published (s_organization s') =
      Some ((o_draft (s_organization s))\<lparr>g_published_revision := saturating_add r 1\<rparr>)"
    unfolding reduce_publish_organization_def Let_def p by (auto split: if_splits sum.splits)
  then have n: "published_revision_of s' = saturating_add r 1" by (simp add: published_revision_of_def)
  have u: "unat (published_revision_of s') = unat r + 1" unfolding n using r by (simp add: saturating_add_one)
  then have "published_revision_of s' \<noteq> r" by auto
  then have "reduce_publish_organization env' s' r = Inl (OrganizationRevisionConflict r (published_revision_of s'))"
    by (simp add: reduce_publish_organization_def Let_def)
  with p o u n show ?thesis by simp
qed

theorem publish_compare_and_swap_witness:
  "\<exists>s'. reduce_publish_organization demo_env s' 0 = Inl (OrganizationRevisionConflict 0 1)"
proof -
  let ?s = "demo_world\<lparr>s_organization := (s_organization demo_world)\<lparr>
    o_draft := demo_graph (OrganizationId 1003) (AgentId 11) (AgentId 12)\<rparr>\<rparr>"
  have "case reduce_publish_organization demo_env ?s 0 of Inr (s', _) \<Rightarrow> published_revision_of s' = 1 | Inl _ \<Rightarrow> False"
    by code_simp
  then obtain s' ev res where r: "reduce_publish_organization demo_env ?s 0 = Inr (s', ev, res)"
    and n: "published_revision_of s' = 1"
    by (auto split: sum.splits)
  have "(0 :: u64) \<noteq> - 1" by simp
  from publish_compare_and_swap [OF r this, of demo_env] n show ?thesis by auto
qed

section \<open>Terminals\<close>

lemma parse_show_expiry: "n < 2 ^ 128 \<Longrightarrow> parse_or_zero 128 (show_nat n) = n"
  by (simp add: parse_or_zero_def parse_uint_show_nat)

lemma find_terminal_edit:
  assumes "\<And>t. te_id (f t) = te_id t"
  shows "find_terminal (edit_terminal k f s) j = (if j = k then map_option f (find_terminal s k) else find_terminal s j)"
proof -
  from assms have "keyed_edit te_id f" by unfold_locales
  from keyed_edit.find_update [OF this] show ?thesis by (simp add: find_terminal_def edit_terminal_def)
qed

text \<open>
  C21: a terminal has one controller. After a successful take of control, for the thirty seconds
  the lease lasts nobody can take control again, no one but the holder can renew or release the
  lease or close the terminal, and the holder can release it.
\<close>

theorem control_is_exclusive:
  assumes "reduce_take_control env s k a = Inr (s', ev, res)"
    and "e_epoch_seconds env' < e_epoch_seconds env + 30" "e_epoch_seconds env + 30 < 2 ^ 128"
    and "\<not> same_actor a b"
  shows "(\<forall>c. reduce_take_control env' s' k c = Inl (Validation ''terminal is already controlled by another device'')) \<and>
    (\<forall>l. reduce_renew_control env' s' k l b = Inl Forbidden) \<and>
    (\<forall>l. reduce_release_control s' k l b = Inl Forbidden) \<and>
    reduce_close_terminal env' s' k b = Inl Forbidden \<and>
    (\<exists>l s''. reduce_release_control s' k l a = Inr (s'', TerminalLeaseChanged \<lparr>cl_lease_id = l, cl_session_id = k,
       cl_actor = a, cl_expires_at = ''released''\<rparr>, Accepted))"
proof -
  let ?lease = "\<lparr>cl_lease_id = e_uuid_text env (next_uuid env s), cl_session_id = k,
                cl_actor = a, cl_expires_at = show_nat (now_plus_seconds env 30)\<rparr>"
  from assms(1) obtain x where x: "find_terminal s k = Some x"
    and s': "s' = edit_terminal k (\<lambda>t. t\<lparr>te_lease := Some ?lease\<rparr>) (drew s)"
    by (auto simp: reduce_take_control_def Let_def split: option.splits if_splits)
  have "find_terminal (drew s) k = Some x" using x by (simp add: find_terminal_def drew_def)
  then have f: "find_terminal s' k = Some (x\<lparr>te_lease := Some ?lease\<rparr>)"
    unfolding s' by (subst find_terminal_edit) simp_all
  have live: "lease_live env' ?lease"
    using assms(2,3) by (simp add: lease_live_def now_plus_seconds_def parse_show_expiry)
  have other: "\<not> holds_lease l b ?lease" for l using assms(4) by (simp add: holds_lease_def)
  have mine: "holds_lease (cl_lease_id ?lease) a ?lease" by (simp add: holds_lease_def same_actor_def)
  show ?thesis
    using f live other mine assms(4)
    by (auto simp: reduce_take_control_def reduce_renew_control_def reduce_release_control_def reduce_close_terminal_def)
qed


theorem control_is_exclusive_witness:
  "\<exists>s'. reduce_take_control demo_env s' (TerminalSessionId 9) demo_actor =
     Inl (Validation ''terminal is already controlled by another device'')"
proof -
  let ?s = "demo_world\<lparr>s_terminals := [\<lparr>te_id = TerminalSessionId 9, te_task_id = TaskId 1, te_cwd = ''/trees'',
    te_cols = 80, te_rows = 24, te_active = True, te_lease = None\<rparr>]\<rparr>"
  let ?b = "demo_actor\<lparr>ac_id := Some ''other''\<rparr>"
  have "case reduce_take_control demo_env ?s (TerminalSessionId 9) demo_actor of Inr _ \<Rightarrow> True | Inl _ \<Rightarrow> False"
    by code_simp
  then obtain s' ev res where r: "reduce_take_control demo_env ?s (TerminalSessionId 9) demo_actor = Inr (s', ev, res)"
    by (auto split: sum.splits)
  have "e_epoch_seconds demo_env < e_epoch_seconds demo_env + 30" "e_epoch_seconds demo_env + 30 < 2 ^ 128"
    "\<not> same_actor demo_actor ?b"
    by (simp_all add: demo_env_def demo_actor_def same_actor_def)
  from control_is_exclusive [OF r this] show ?thesis by blast
qed

section \<open>Approvals and grants\<close>

lemma find_approval_edit:
  assumes "\<And>t. av_id (f t) = av_id t"
  shows "find (\<lambda>a. av_id a = j) (s_approvals (edit_approval k f s)) =
    (if j = k then map_option f (find (\<lambda>a. av_id a = k) (s_approvals s)) else find (\<lambda>a. av_id a = j) (s_approvals s))"
proof -
  from assms have "keyed_edit av_id f" by unfold_locales
  from keyed_edit.find_update [OF this] show ?thesis by (simp add: edit_approval_def)
qed

lemma grant_for_task_approvals: "grant_for_task env s x = Inr (s', ev, res) \<Longrightarrow> s_approvals s' = s_approvals s"
  by (auto simp: grant_for_task_def Let_def drew_def split: option.splits if_splits)

text \<open>
  C22: an approval is decided once and in time. When a decision is accepted the approval was
  pending; afterwards it is not, so every further decision is refused; and when its time had run
  out it becomes expired whatever the decision says, and no grant is created.
\<close>

theorem approval_decided_once:
  assumes "reduce_decide_approval env s k d = Inr (s', ev, res)"
  shows "(\<exists>a. find (\<lambda>a. av_id a = k) (s_approvals s) = Some a \<and> av_status a = approval_status.Pending \<and>
      (parse_or_zero 128 (av_expires_at a) \<le> e_epoch_seconds env \<longrightarrow>
         s_task_grants s' = s_task_grants s \<and> ev = ApprovalExpired k)) \<and>
    reduce_decide_approval env' s' k d' = Inl (InvalidTransition ''approval is no longer pending'')"
proof -
  from assms obtain a where a: "find (\<lambda>a. av_id a = k) (s_approvals s) = Some a" "av_status a = approval_status.Pending"
    by (auto simp: reduce_decide_approval_def split: option.splits if_splits)
  from find_SomeD [OF a(1)] have id: "av_id a = k" by simp
  have n: "now_plus_seconds env 0 = e_epoch_seconds env" by (simp add: now_plus_seconds_def)
  have late: "s_task_grants s' = s_task_grants s \<and> ev = ApprovalExpired k"
    if "parse_or_zero 128 (av_expires_at a) \<le> e_epoch_seconds env"
    using assms a id that by (auto simp: reduce_decide_approval_def n edit_approval_def)
  obtain st where st: "s_approvals s' = s_approvals (edit_approval k (\<lambda>a. a\<lparr>av_status := st\<rparr>) s)"
    "st \<noteq> approval_status.Pending"
  proof (cases "parse_or_zero 128 (av_expires_at a) \<le> e_epoch_seconds env")
    case True
    with assms a show thesis by (intro that [of approval_status.Expired]) (auto simp: reduce_decide_approval_def n)
  next
    case False
    with assms a show thesis
      by (intro that [of "decision_status d"]; cases d)
        (auto simp: reduce_decide_approval_def n Let_def dest!: grant_for_task_approvals split: if_splits)
  qed
  have "find (\<lambda>a. av_id a = k) (s_approvals s') = Some (a\<lparr>av_status := st\<rparr>)"
    unfolding st(1) using a(1) by (subst find_approval_edit) simp_all
  with st(2) have "reduce_decide_approval env' s' k d' = Inl (InvalidTransition ''approval is no longer pending'')"
    by (simp add: reduce_decide_approval_def)
  with a late show ?thesis by blast
qed

definition demo_approval :: "timestamp \<Rightarrow> approval_view" where
  "demo_approval t = \<lparr>av_id = ApprovalId 8, av_agent_id = AgentId 11, av_task_id = TaskId 1, av_operation = ''write'',
     av_cwd = ''/trees'', av_project = ''repo'', av_reason = ''needed'', av_status = approval_status.Pending,
     av_expires_at = t\<rparr>"

theorem approval_decided_once_witness:
  "\<exists>s'. reduce_decide_approval demo_env s' (ApprovalId 8) approval_decision.AllowOnce =
     Inl (InvalidTransition ''approval is no longer pending'')"
proof -
  let ?s = "demo_world\<lparr>s_approvals := [demo_approval ''1700000001'']\<rparr>"
  have "case reduce_decide_approval demo_env ?s (ApprovalId 8) approval_decision.DenyOnce of
      Inr (_, ApprovalDecided _ _, _) \<Rightarrow> True | _ \<Rightarrow> False"
    by code_simp
  then obtain s' ev res where r: "reduce_decide_approval demo_env ?s (ApprovalId 8) approval_decision.DenyOnce =
      Inr (s', ev, res)"
    by (auto split: sum.splits)
  from approval_decided_once [OF r, of demo_env] show ?thesis by blast
qed

lemma dependency_locks_grants [simp]: "s_task_grants (update_dependency_locks env s j actor st) = s_task_grants s"
proof -
  have "s_task_grants (fold (dependency_lock_step env actor st) ids s) = s_task_grants s" for ids
    by (induction ids arbitrary: s) (simp_all add: dependency_lock_step_def split: option.split)
  then show ?thesis by (simp add: update_dependency_locks_def)
qed

lemma parent_locks_grants [simp]: "s_task_grants (update_parent_child_locks env s j actor) = s_task_grants s"
  by (simp add: update_parent_child_locks_def split: option.split)

lemma task_grant_allowsD:
  assumes "task_grant_allows env s i a wt tool"
  shows "\<exists>t g root. find_task i (s_tasks s) = Some t \<and> t_assigned_agent t = Some a \<and>
    t_status t \<in> {task_status.Running, task_status.Review} \<and>
    g \<in> set (s_task_grants s) \<and> gv_task_id g = i \<and> gv_agent_id g = a \<and> \<not> gv_revoked g \<and>
    (\<exists>x. parse_uint 128 (gv_expires_at g) = Some x \<and> e_epoch_seconds env < x) \<and>
    required_grant_effect tool = Some (gv_effect g) \<and>
    (\<exists>p. t_worktree t = Some p \<and> e_canonicalize env (components p) = Some root) \<and>
    e_canonicalize env (components wt) = Some root \<and> e_canonicalize env (components (gv_worktree g)) = Some root"
  using assms unfolding task_grant_allows_def is_active_work_def
  by (fastforce simp: list_ex_iff bind_eq_Some_conv split: option.splits if_splits)

text \<open>
  C23: what a grant allows, and when it ends. A tool call passes on the strength of a grant only for the agent that has the
  task, while the task is running or in review, and with a grant of that agent for that task that is not revoked, has
  not expired, covers the effect the tool needs and names, as the call does, the worktree of the task. A status command that sends
  the task to review, done or cancelled revokes every grant of the task: right after it, and until a new grant is made, no
  call on the task passes on the strength of a grant.
\<close>

theorem grants_end_with_work:
  assumes "reduce_set_task_status env s i st actor = Inr (s', ev, res)"
    and "st \<in> {task_status.Review, task_status.Done, task_status.Cancelled}"
  shows "(task_grant_allows env0 s0 i a wt tool \<longrightarrow>
      (\<exists>t g root. find_task i (s_tasks s0) = Some t \<and> t_assigned_agent t = Some a \<and>
        t_status t \<in> {task_status.Running, task_status.Review} \<and>
        g \<in> set (s_task_grants s0) \<and> gv_task_id g = i \<and> gv_agent_id g = a \<and> \<not> gv_revoked g \<and>
        (\<exists>x. parse_uint 128 (gv_expires_at g) = Some x \<and> e_epoch_seconds env0 < x) \<and>
        required_grant_effect tool = Some (gv_effect g) \<and>
        (\<exists>p. t_worktree t = Some p \<and> e_canonicalize env0 (components p) = Some root) \<and>
        e_canonicalize env0 (components wt) = Some root \<and> e_canonicalize env0 (components (gv_worktree g)) = Some root)) \<and>
    (\<forall>g \<in> set (s_task_grants s'). gv_task_id g = i \<longrightarrow> gv_revoked g) \<and>
    \<not> task_grant_allows env' s' i a wt tool"
proof -
  from assms(1) have "\<forall>g \<in> set (s_task_grants s'). gv_task_id g = i \<longrightarrow> gv_revoked g"
  proof (rule reduce_set_task_statusE)
    fix task rt s1 queued s3 review
    assume p: "(if st = task_status.Running then provision_worktree env s task else Inr (s, False)) = Inr (s1, queued)"
      and r: "review_event env (apply_status s1 i (t_status task) st rt) task (t_status task) st rt = Inr (s3, review)"
      and s': "s' = (if st = task_status.Done then (\<lambda>s5. update_parent_child_locks env s5 i actor) else (\<lambda>s5. s5))
            (update_dependency_locks env (feed env s3 i actor task_feed_kind.StatusChanged
               (''Status changed to '' @ debug_task_status st)) i actor st)"
    have "s_task_grants s' = s_task_grants s3" by (simp add: s')
    also have "\<dots> = s_task_grants (apply_status s1 i (t_status task) st rt)"
      using r by (auto simp: review_event_def settle_review_def Let_def split: if_splits option.splits)
    also have "\<dots> = update_where (\<lambda>g. gv_task_id g = i) (\<lambda>g. g\<lparr>gv_revoked := True\<rparr>) (s_task_grants s1)"
      using assms(2) by (auto simp: apply_status_def revoke_grants_def)
    finally have e: "s_task_grants s' =
      update_where (\<lambda>g. gv_task_id g = i) (\<lambda>g. g\<lparr>gv_revoked := True\<rparr>) (s_task_grants s1)" .
    show ?thesis unfolding e ball_update_where by simp
  qed
  moreover from this have "\<not> task_grant_allows env' s' i a wt tool"
    by (meson task_grant_allowsD)
  ultimately show ?thesis using task_grant_allowsD by blast
qed

definition demo_granted :: world where
  "demo_granted = demo_world\<lparr>
     s_tasks := [(demo_task 1 [] task_status.Running (Some (AgentId 11)))\<lparr>t_worktree := Some ''/trees/1''\<rparr>],
     s_task_grants := [\<lparr>gv_id = ''g'', gv_task_id = TaskId 1, gv_agent_id = AgentId 11, gv_worktree = ''/trees/1'',
       gv_effect = task_grant_effect.Check, gv_expires_at = ''1700000001'', gv_revoked = False,
       gv_source_approval_id = None\<rparr>]\<rparr>"

theorem grants_end_with_work_witness:
  "task_grant_allows demo_env demo_granted (TaskId 1) (AgentId 11) ''/trees/1'' ''run_check'' \<and>
   (\<exists>s' ev res. reduce_set_task_status demo_env demo_granted (TaskId 1) task_status.Cancelled demo_actor = Inr (s', ev, res)
      \<and> \<not> task_grant_allows demo_env s' (TaskId 1) (AgentId 11) ''/trees/1'' ''run_check'')"
proof
  show "task_grant_allows demo_env demo_granted (TaskId 1) (AgentId 11) ''/trees/1'' ''run_check''" by code_simp
  have "case reduce_set_task_status demo_env demo_granted (TaskId 1) task_status.Cancelled demo_actor of
      Inr _ \<Rightarrow> True | Inl _ \<Rightarrow> False"
    by code_simp
  then obtain s' ev res where
    r: "reduce_set_task_status demo_env demo_granted (TaskId 1) task_status.Cancelled demo_actor = Inr (s', ev, res)"
    by (auto split: sum.splits)
  have "task_status.Cancelled \<in> {task_status.Review, task_status.Done, task_status.Cancelled}" by simp
  from grants_end_with_work [OF r this] r show
    "\<exists>s' ev res. reduce_set_task_status demo_env demo_granted (TaskId 1) task_status.Cancelled demo_actor = Inr (s', ev, res)
      \<and> \<not> task_grant_allows demo_env s' (TaskId 1) (AgentId 11) ''/trees/1'' ''run_check''"
    by blast
qed

end
