(* ===== verification/LedgerProperties.thy ===== *)
theory LedgerProperties
  imports Installation
begin

text \<open>
  Messages, usage totals and the scheduler.
\<close>

section \<open>Messages\<close>

lemma check_send_message_frame:
  assumes "s_missions s' = s_missions s" "s_tasks s' = s_tasks s" "s_artifacts s' = s_artifacts s"
    and "ms_message_id_update (\<lambda>_. None) spec' = ms_message_id_update (\<lambda>_. None) spec"
  shows "check_send_message env s' spec' actor = check_send_message env s spec actor"
proof -
  from assms(4) have "ms_mission_id spec' = ms_mission_id spec" "ms_task_id spec' = ms_task_id spec"
    "ms_recipient spec' = ms_recipient spec" "ms_body spec' = ms_body spec" "ms_hop spec' = ms_hop spec"
    "ms_artifact_ids spec' = ms_artifact_ids spec"
    by (cases spec; cases spec'; simp)+
  note fields = this
  show ?thesis unfolding check_send_message_def fields assms(1-3) ..
qed

lemma reduce_send_messageE:
  assumes "reduce_send_message env s spec actor = Inr (s', ev, res)"
  obtains (known) m where "check_send_message env s spec actor = Inr ()" "ev = MessageQueued m"
      "m \<in> set (s_messages s)" "s' = (if ms_message_id spec = None then drew s else s)"
      "ms_message_id spec \<in> {None, Some (mv_id m)}"
  | (fresh) i where "check_send_message env s spec actor = Inr ()" "ev = MessageQueued (message_of_spec env spec actor i)"
      "i \<notin> mv_id ` set (s_messages s)" "i \<notin> w_seen s" "ms_hop spec \<le> DEFAULT_MESSAGE_HOP_LIMIT"
      "ms_message_id spec \<in> {None, Some i}"
      "s' = (if ms_message_id spec = None then drew s else s)\<lparr>w_seen := insert i (w_seen s),
         s_messages := s_messages s @ [message_of_spec env spec actor i]\<rparr>"
proof -
  have c: "check_send_message env s spec actor = Inr ()"
    using assms by (auto simp: reduce_send_message_def split: sum.splits)
  define i where "i = (case ms_message_id spec of Some i \<Rightarrow> i | None \<Rightarrow> MessageId (next_uuid env s))"
  define s1 where "s1 = (if ms_message_id spec = None then drew s else s)"
  have pair: "(case ms_message_id spec of Some i \<Rightarrow> (i, s) | None \<Rightarrow> (MessageId (next_uuid env s), drew s)) = (i, s1)"
    by (simp add: i_def s1_def split: option.split)
  have s1: "s_messages s1 = s_messages s" "w_seen s1 = w_seen s" by (simp_all add: s1_def drew_def)
  note r = assms [unfolded reduce_send_message_def c sum.case pair prod.case Let_def s1]
  have i: "ms_message_id spec \<in> {None, Some i}" by (simp add: i_def split: option.split)
  show thesis
  proof (cases "find (\<lambda>m. mv_id m = i) (s_messages s)")
    case (Some m)
    with find_SomeD [OF Some] r c i show thesis by (intro known [of m]) (simp_all add: s1_def)
  next
    case None
    then have "i \<notin> mv_id ` set (s_messages s)" by (auto simp: find_None_iff)
    with r c i None show thesis
      by (intro fresh [of i]) (auto simp: mailbox_accept_def s1_def split: if_splits)
  qed
qed

text \<open>
  C24: sending is idempotent. A message keeps its id, an id is never used by two messages, the hop
  count of what is queued is at most six, and repeating the same request under the id of the message
  it produced returns that message and changes nothing.
\<close>

theorem message_sent_once:
  assumes "reduce_send_message env s spec actor = Inr (s', ev, res)" "distinct (map mv_id (s_messages s))"
  shows "distinct (map mv_id (s_messages s')) \<and> (\<exists>m res'. ev = MessageQueued m \<and> m \<in> set (s_messages s') \<and>
    (m \<notin> set (s_messages s) \<longrightarrow> mv_hop m \<le> 6) \<and>
    reduce_send_message env s' (spec\<lparr>ms_message_id := Some (mv_id m)\<rparr>) actor = Inr (s', MessageQueued m, res'))"
proof -
  have retry: "\<exists>res'. reduce_send_message env s' (spec\<lparr>ms_message_id := Some (mv_id m)\<rparr>) actor =
      Inr (s', MessageQueued m, res')"
    if c: "check_send_message env s spec actor = Inr ()" and m: "m \<in> set (s_messages s')"
      and d: "distinct (map mv_id (s_messages s'))"
      and f: "s_missions s' = s_missions s" "s_tasks s' = s_tasks s" "s_artifacts s' = s_artifacts s" for m
  proof -
    have "check_send_message env s' (spec\<lparr>ms_message_id := Some (mv_id m)\<rparr>) actor = Inr ()"
      using c by (subst check_send_message_frame [OF f]) simp_all
    moreover have "find (\<lambda>x. mv_id x = mv_id m) (s_messages s') = Some m"
      by (rule find_distinct_key [OF d m])
    ultimately show ?thesis by (simp add: reduce_send_message_def)
  qed
  from assms(1) show ?thesis
  proof (cases rule: reduce_send_messageE)
    case (known m)
    then have "s_messages s' = s_messages s" "s_missions s' = s_missions s" "s_tasks s' = s_tasks s"
      "s_artifacts s' = s_artifacts s" by (simp_all add: drew_def)
    with retry [OF known(1), of m] known assms(2) show ?thesis by auto
  next
    case (fresh i)
    then have "s_messages s' = s_messages s @ [message_of_spec env spec actor i]" "s_missions s' = s_missions s"
      "s_tasks s' = s_tasks s" "s_artifacts s' = s_artifacts s" by (simp_all add: drew_def)
    with retry [OF fresh(1), of "message_of_spec env spec actor i"] fresh(2,3,5) assms(2) show ?thesis
      by (auto simp: message_of_spec_def DEFAULT_MESSAGE_HOP_LIMIT_def)
  qed
qed

theorem message_sent_once_witness:
  "\<exists>s' m res. reduce_send_message demo_env s' demo_message demo_actor = Inr (s', MessageQueued m, res) \<and> m \<in> set (s_messages s')"
proof -
  have "case reduce_send_message demo_env demo_world demo_message demo_actor of
      Inr (_, MessageQueued m, _) \<Rightarrow> mv_id m = MessageId 77 | _ \<Rightarrow> False"
    by code_simp
  then obtain s' m res where r: "reduce_send_message demo_env demo_world demo_message demo_actor =
      Inr (s', MessageQueued m, res)" "mv_id m = MessageId 77"
    by (auto split: sum.splits event.splits)
  have "distinct (map mv_id (s_messages demo_world))" by (simp add: demo_defs)
  from message_sent_once [OF r(1) this] r(2) show ?thesis by (auto simp: demo_message_def)
qed

lemma reduce_send: "reduce env s (SendMessage spec) actor = reduce_send_message env s spec actor"
  by (simp add: reduce_def domain_of_def reduce_message_def)

lemma send_not_store: "reduce_send_message env s spec actor \<noteq> Inl (Store x)"
proof -
  have "check_send_message env s spec actor \<noteq> Inl (Store x)"
    by (auto simp: check_send_message_def Let_def split: option.splits)
  then show ?thesis by (auto simp: reduce_send_message_def Let_def split: sum.splits option.splits prod.splits)
qed

text \<open>
  a send that loses a race cannot be retried under its id. When the commit of a new message
  fails because the revision has moved on, the message is not stored, yet its id stays in
  the in-memory mailbox: every later request with that id is refused and stores nothing.
\<close>

theorem lost_send_blocks_retry:
  assumes "apply_loaded env st w e actor = (st', Inl (Store x))"
    and "ce_command e = SendMessage spec" "ms_message_id spec = Some i"
    and "i \<notin> mv_id ` set (s_messages w)" "i \<notin> mv_id ` set (s_messages w')"
    and "ce_command e' = SendMessage spec'" "ms_message_id spec' = Some i"
  shows "\<exists>y. apply_loaded env' st' w' e' actor' = (st', Inl y)"
proof -
  from assms(1) obtain nxt ev res where n: "reduce env (with_memory w st) (ce_command e) actor = Inr (nxt, ev, res)"
    "st' = remember nxt st"
    by (cases rule: apply_loadedE) (auto simp: assms(2) reduce_send send_not_store)
  from n(1) [unfolded assms(2) reduce_send] have "i \<in> w_seen nxt"
    by (cases rule: reduce_send_messageE) (use assms(3,4) in \<open>auto simp: with_memory_def\<close>)
  then have seen: "i \<in> w_seen (with_memory w' st')" by (simp add: n(2) remember_def with_memory_def)
  show ?thesis
  proof (cases "reduce env' (with_memory w' st') (ce_command e') actor'")
    case (Inl y)
    then show ?thesis by (simp add: apply_loaded_def)
  next
    case (Inr z)
    then obtain n2 ev2 res2 where "reduce_send_message env' (with_memory w' st') spec' actor' = Inr (n2, ev2, res2)"
      unfolding assms(6) reduce_send by (cases z) auto
    then show ?thesis
      by (cases rule: reduce_send_messageE) (use assms(5,7) seen in \<open>auto simp: with_memory_def\<close>)
  qed
qed

theorem lost_send_blocks_retry_witness:
  "\<exists>st' x y. apply_loaded demo_env demo_race demo_world (at_revision 0 (demo_envelope 9 (SendMessage demo_message))) demo_actor
     = (st', Inl (Store x)) \<and>
   apply_loaded demo_env st' demo_world (at_revision 1 (demo_envelope 10 (SendMessage demo_message))) demo_actor = (st', Inl y)"
proof -
  let ?e = "at_revision 0 (demo_envelope 9 (SendMessage demo_message))"
  have "case apply_loaded demo_env demo_race demo_world ?e demo_actor of (_, Inl (Store _)) \<Rightarrow> True | _ \<Rightarrow> False"
    by (rule demo_trial_world(2))
  then obtain st' x where a: "apply_loaded demo_env demo_race demo_world ?e demo_actor = (st', Inl (Store x))"
    by (auto split: prod.splits sum.splits orchestrator_error.splits)
  have m: "ms_message_id demo_message = Some (MessageId 77)" by (simp add: demo_message_def)
  have "MessageId 77 \<notin> mv_id ` set (s_messages demo_world)" by (simp add: demo_defs)
  with lost_send_blocks_retry [OF a _ m this this _ m,
      of "at_revision 1 (demo_envelope 10 (SendMessage demo_message))" demo_env demo_actor] a
  show ?thesis by (auto simp: at_revision_def demo_envelope_def)
qed

section \<open>Usage totals\<close>

lemma rebuild_totals:
  "ledger_totals (rebuild_from_snapshot env s) x =
     fold (\<lambda>u t. totals_add t u) (map snd (filter (\<lambda>c. fst c = x) (charges env s))) totals_default"
  by (simp add: rebuild_charges ledger_totals_fold)

lemma rebuild_turns:
  "unat (ledger_turns (rebuild_from_snapshot env s) x) =
     min (length (filter (\<lambda>c. fst c = x) (charges env s))) (2 ^ 32 - 1)"
  by (simp add: rebuild_charges ledger_turns_fold)

text \<open>
  rebuilding the ledger adds everything up. The cost of a scope is the sum of the costs of all
  usage rows charged to it, where a row of a task is charged to the task, to its mission and to its
  agent, and the turns are their number; both stop at the largest value of their type instead of
  wrapping around.
\<close>

theorem rebuilt_totals_are_sums:
  "unat (tot_cost_micros (ledger_totals (rebuild_from_snapshot env s) x)) =
     min (\<Sum>c \<leftarrow> filter (\<lambda>c. fst c = x) (charges env s). unat (unwrap_or_default (ut_cost_micros (snd c)))) (2 ^ 64 - 1) \<and>
   unat (ledger_turns (rebuild_from_snapshot env s) x) =
     min (length (filter (\<lambda>c. fst c = x) (charges env s))) (2 ^ 32 - 1)"
  by (simp add: rebuild_totals rebuild_turns fold_totals_cost totals_default_def comp_def)

text \<open>
  the order of the usage rows does not matter. Two snapshots with the same tasks whose usage
  rows differ only in order give the same totals and turns for every scope, although every addition
  saturates.
\<close>

theorem rebuild_order_irrelevant:
  assumes "mset (s_usage s) = mset (s_usage s')" "s_tasks s = s_tasks s'"
  shows "ledger_totals (rebuild_from_snapshot env s) x = ledger_totals (rebuild_from_snapshot env s') x \<and>
    ledger_turns (rebuild_from_snapshot env s) x = ledger_turns (rebuild_from_snapshot env s') x"
proof -
  have scopes: "charged_scopes env s = charged_scopes env s'"
    unfolding charged_scopes_def [abs_def] assms(2) ..
  have "mset (charges env s) = mset (charges env s')"
    unfolding charges_def scopes mset_concat map_map using assms(1) by (simp flip: sum_mset_sum_list)
  then have m: "mset (filter (\<lambda>c. fst c = x) (charges env s)) = mset (filter (\<lambda>c. fst c = x) (charges env s'))"
    by simp
  then have "mset (map snd (filter (\<lambda>c. fst c = x) (charges env s))) =
      mset (map snd (filter (\<lambda>c. fst c = x) (charges env s')))"
    by simp
  moreover have "length (filter (\<lambda>c. fst c = x) (charges env s)) = length (filter (\<lambda>c. fst c = x) (charges env s'))"
    by (rule mset_eq_length [OF m])
  ultimately show ?thesis
    unfolding rebuild_totals by (intro conjI totals.fold_permute) (simp_all add: word_unat_eq_iff rebuild_turns)
qed

definition demo_usage :: "nat \<Rightarrow> u64 \<Rightarrow> usage_view" where
  "demo_usage i c = \<lparr>us_id = AttemptId i, us_scope = budget_scope.Task, us_scope_id = replicate i CHR ''i'',
     us_provider = ''p'', us_model = None, us_measured_input_tokens = Some 5, us_measured_output_tokens = None,
     us_estimated_input_tokens = None, us_estimated_output_tokens = None, us_cost_micros = Some c,
     us_cached_input_tokens = None, us_reasoning_tokens = None, us_recorded_at = ''0''\<rparr>"

theorem rebuild_order_irrelevant_witness:
  "ledger_totals (rebuild_from_snapshot demo_env (demo_world\<lparr>s_usage := [demo_usage 1 7, demo_usage 2 8]\<rparr>)) ''i'' =
   ledger_totals (rebuild_from_snapshot demo_env (demo_world\<lparr>s_usage := [demo_usage 2 8, demo_usage 1 7]\<rparr>)) ''i''"
proof -
  have "mset (s_usage (demo_world\<lparr>s_usage := [demo_usage 1 7, demo_usage 2 8]\<rparr>)) =
      mset (s_usage (demo_world\<lparr>s_usage := [demo_usage 2 8, demo_usage 1 7]\<rparr>))" by simp
  from rebuild_order_irrelevant [OF this] show ?thesis by simp
qed

text \<open>
  an exhausted budget stays exhausted. Once the totals of a scope exceed a limit of its budget,
  no further usage of any scope makes the check pass again.
\<close>

theorem exhausted_budget_stays:
  assumes "\<not> allows_measured l x b"
  shows "\<not> allows_measured (fold (\<lambda>(y, u). ledger_record y u) us l) x b"
  using assms
proof (induction us arbitrary: l)
  case (Cons yu us)
  obtain y u where yu: "yu = (y, u)" by (cases yu)
  have "\<not> allows_measured (ledger_record y u l) x b"
    using Cons.prems allows_measured_antimono [OF record_grows] by blast
  with Cons.IH show ?case by (simp add: yu)
qed simp

theorem exhausted_budget_stays_witness:
  "\<not> allows_measured (ledger_record ''m'' (telemetry_of_usage (demo_usage 1 9))
     (ledger_record ''m'' (telemetry_of_usage (demo_usage 1 9)) ledger_empty)) ''m'' (budget_unlimited\<lparr>bu_turns := Some 0\<rparr>)"
proof -
  have "\<not> allows_measured (ledger_record ''m'' (telemetry_of_usage (demo_usage 1 9)) ledger_empty) ''m''
      (budget_unlimited\<lparr>bu_turns := Some 0\<rparr>)"
    by (simp add: allows_measured_def Let_def saturating_add_def)
  from exhausted_budget_stays [OF this, of "[(''m'', telemetry_of_usage (demo_usage 1 9))]"] show ?thesis by simp
qed

section \<open>Scheduler\<close>

lemma scheduler_max: "scheduler_step sc sc' \<Longrightarrow> sc_max_concurrency sc' = sc_max_concurrency sc"
  by (elim scheduler_stepE) (auto simp: scheduler_start_def scheduler_finish_def)

text \<open>
  at most four tasks run at once. However starts and finishes interleave from the default
  scheduler, the running set never exceeds the limit, and a start reports success only when the
  task was not running already and there was room.
\<close>

theorem concurrency_bounded:
  assumes "reachable (\<lambda>sc. sc = scheduler_default) scheduler_step sc"
  shows "card (sc_running sc) \<le> 4 \<and>
    (fst (scheduler_start t sc) \<longleftrightarrow> card (sc_running sc) < 4 \<and> t \<notin> sc_running sc)"
proof -
  have "sc_max_concurrency sc = 4"
    using assms by induction (simp_all add: scheduler_max scheduler_default_def DEFAULT_MAX_CONCURRENCY_def)
  with scheduling.reachable_inv [OF assms] show ?thesis
    by (simp add: scheduler_ok_def scheduler_start_def can_start_def)
qed

theorem concurrency_bounded_witness: "fst (scheduler_start (TaskId 1) scheduler_default)"
  using concurrency_bounded [OF reach_init [of "\<lambda>sc. sc = scheduler_default"], of _ "TaskId 1"]
  by (simp add: scheduler_default_def)

end
