(* ===== verification/HostProperties.thy ===== *)
theory HostProperties
  imports Installation
begin

text \<open>
  Settings, connector profiles, updates, versions and paths.
\<close>

section \<open>Settings\<close>

definition demo_server_settings :: server_settings where
  "demo_server_settings = (s_server demo_world)\<lparr>sv_port := 8443, sv_bind_address := ''127.0.0.1'',
     sv_allowed_project_roots := [], sv_max_concurrency := 4, sv_approval_ttl_seconds := 300,
     sv_event_retention_days := 30, sv_terminal_retention_days := 30, sv_artifact_retention_days := 30\<rparr>"

text \<open>
  C36: a settings patch keeps every value in its range. If the settings were in range before and the patch is accepted, they
  are in range after it, whatever values the patch carries: the limits (clamped), the retention days (clamped), the number of
  project roots and the port; and a bind address that parses as an IP address is a loopback address unless there is a TLS
  identity. A bind address that is no IP address, such as a host name, is not restricted. The patch changes nothing but
  the settings, and the event carries the new ones.
\<close>

theorem patched_settings_in_range:
  assumes "reduce_settings env s (UpdateSettings patch) = Inr (s', ev, res)" "settings_ok (s_server s)"
  shows "settings_ok (s_server s') \<and> ev = SettingsChanged (s_server s') \<and> s' = s\<lparr>s_server := s_server s'\<rparr>"
  using assms by (auto simp: reduce_settings_def dest: apply_settings_patch_ok split: if_splits sum.splits)

theorem patched_settings_in_range_witness:
  "\<exists>s' :: world. settings_ok (s_server s') \<and> sv_max_concurrency (s_server s') = 64"
proof -
  let ?s = "demo_world\<lparr>s_server := demo_server_settings\<rparr>"
  let ?p = "demo_settings_patch\<lparr>se_max_concurrency := Some 1000\<rparr>"
  have "case reduce_settings demo_env ?s (UpdateSettings ?p) of
      Inr (s', _) \<Rightarrow> sv_max_concurrency (s_server s') = 64 | Inl _ \<Rightarrow> False" by code_simp
  then obtain s' ev res where r: "reduce_settings demo_env ?s (UpdateSettings ?p) = Inr (s', ev, res)"
    "sv_max_concurrency (s_server s') = 64"
    by (auto split: sum.splits)
  have "parse_ip_addr ''127.0.0.1'' = Some (V4 [127, 0, 0, 1])" by code_simp
  then have "settings_ok (s_server ?s)" by (simp add: settings_ok_def demo_server_settings_def)
  from patched_settings_in_range [OF r(1) this] r(2) show ?thesis by blast
qed

text \<open>
  the text of an IPv4 address reads back as that address, for every four bytes; so the check
  of the bind address looks at the address the text names.
\<close>

theorem ipv4_round_trip:
  fixes a b c d :: "8 word"
  shows "parse_ip_addr (show_octets [unat a, unat b, unat c, unat d]) = Some (V4 [unat a, unat b, unat c, unat d])"
proof -
  have "unat x < 256" for x :: "8 word" using unsigned_less [of x] by simp
  then show ?thesis by (intro parse_ipv4_show)
qed

section \<open>Connector profiles\<close>

definition profiles_of :: "world \<Rightarrow> connector_profile_view list" where
  "profiles_of s = o_connector_profiles (s_organization s)"

lemma create_profile_clean:
  assumes "reduce_create_connector_profile env s spec = Inr (s', ev, res)" "list_all profile_clean (profiles_of s)"
  shows "list_all profile_clean (profiles_of s')"
proof -
  let ?p = "\<lparr>cp_id = ConnectorProfileId (next_uuid env s), cp_name = cps_name spec, cp_kind = cps_kind spec,
    cp_config = cps_config spec, cp_health = connector_health.Unknown, cp_configured = False, cp_diagnostic = None,
    cp_checked_at = None, cp_archived = False\<rparr>"
  from assms(1) have "validate_profile_spec env spec = Inr ()"
    by (auto simp: reduce_create_connector_profile_def split: sum.splits)
  then have v: "validate_profile_config_for_kind env (cp_config ?p) (cps_kind spec) = Inr ()"
    by (simp add: validate_profile_spec_def split: if_splits)
  from assms(1) have s': "profiles_of s' = profiles_of s @ [?p]"
    by (auto simp: reduce_create_connector_profile_def sanitize_profile_config_def
        profiles_of_def set_profiles_def drew_def Let_def split: sum.splits if_splits)
  show ?thesis using assms(2) validated_config_clean [OF v] by (simp add: s')
qed

lemma update_profile_clean:
  assumes "reduce_update_connector_profile env s i patch = Inr (s', ev, res)" "list_all profile_clean (profiles_of s)"
  shows "list_all profile_clean (profiles_of s')"
proof -
  from assms(1) obtain cur where v: "validate_profile_config_for_kind env (set_some (cpp_config patch) (cp_config cur))
        (set_some (cpp_kind patch) (cp_kind cur)) = Inr ()"
    and s': "profiles_of s' = update_first (\<lambda>p. cp_id p = i \<and> \<not> cp_archived p) (\<lambda>_. patch_profile patch cur) (profiles_of s)"
    by (auto simp: reduce_update_connector_profile_def profiles_of_def set_profiles_def Let_def
        split: sum.splits if_splits option.splits)
  have "cp_config (patch_profile patch cur) = set_some (cpp_config patch) (cp_config cur)"
    by (simp add: patch_profile_def sanitize_profile_config_def set_some_def split: option.split)
  with v have "profile_clean (patch_profile patch cur)" by (metis validated_config_clean)
  then show ?thesis
    unfolding s' list_all_iff using assms(2) by (auto simp: list_all_iff dest!: set_update_first)
qed

lemma archive_profile_clean:
  assumes "reduce_archive_connector_profile s i = Inr (s', ev, res)" "list_all profile_clean (profiles_of s)"
  shows "list_all profile_clean (profiles_of s')"
proof -
  from assms(1) have s': "profiles_of s' = update_first (\<lambda>p. cp_id p = i \<and> \<not> cp_archived p)
      (\<lambda>p. p\<lparr>cp_archived := True\<rparr>) (profiles_of s)"
    by (auto simp: reduce_archive_connector_profile_def profiles_of_def set_profiles_def split: if_splits option.splits)
  have "profile_clean (p\<lparr>cp_archived := True\<rparr>) = profile_clean p" for p by (simp add: profile_clean_def)
  then show ?thesis
    unfolding s' list_all_iff using assms(2)
    by (auto simp: list_all_iff dest!: set_update_first find_SomeD)
qed

lemma graph_keeps_profiles:
  "reduce_save_organization_draft s g r = Inr (s', ev, res) \<Longrightarrow> profiles_of s' = profiles_of s"
  "reduce_publish_organization env s r = Inr (s', ev, res) \<Longrightarrow> profiles_of s' = profiles_of s"
  by (auto simp: reduce_save_organization_draft_def reduce_publish_organization_def profiles_of_def Let_def
      split: sum.splits if_splits)

text \<open>
  no stored connector profile holds a secret. Every organization command keeps all profiles
  free of secret keys and of credential texts at any depth of the JSON configuration.
\<close>

theorem profiles_stay_clean:
  assumes "reduce_organization env s c = Inr (s', ev, res)" "list_all profile_clean (profiles_of s)"
  shows "list_all profile_clean (profiles_of s')"
proof (cases c)
  case (SaveOrganizationDraft g r)
  with assms graph_keeps_profiles(1) [of s g r s' ev res] show ?thesis by (simp add: reduce_organization_def)
next
  case (PublishOrganization r)
  with assms graph_keeps_profiles(2) [of env s r s' ev res] show ?thesis by (simp add: reduce_organization_def)
next
  case (CreateConnectorProfile spec)
  with assms create_profile_clean [of env s spec s' ev res] show ?thesis by (simp add: reduce_organization_def)
next
  case (UpdateConnectorProfile i patch)
  with assms update_profile_clean [of env s i patch s' ev res] show ?thesis by (simp add: reduce_organization_def)
next
  case (ArchiveConnectorProfile i)
  with assms archive_profile_clean [of s i s' ev res] show ?thesis by (simp add: reduce_organization_def)
qed (use assms(1) in \<open>simp_all add: reduce_organization_def misrouted_def\<close>)

definition demo_profile_spec :: "json \<Rightarrow> connector_profile_spec" where
  "demo_profile_spec c = \<lparr>cps_name = ''shell'', cps_kind = connector_kind.Terminal, cps_config = c\<rparr>"

theorem profiles_stay_clean_witness:
  "\<exists>s'. length (profiles_of s') = 1 \<and> list_all profile_clean (profiles_of s')"
proof -
  let ?c = "CreateConnectorProfile (demo_profile_spec (JObject [(''shell'', JString ''bash'')]))"
  have "case reduce_organization demo_env demo_world ?c of Inr (s', _) \<Rightarrow> length (profiles_of s') = 1 | Inl _ \<Rightarrow> False"
    by code_simp
  then obtain s' ev res where r: "reduce_organization demo_env demo_world ?c = Inr (s', ev, res)"
    "length (profiles_of s') = 1"
    by (auto split: sum.splits)
  have "list_all profile_clean (profiles_of demo_world)" by (simp add: profiles_of_def demo_defs)
  from profiles_stay_clean [OF r(1) this] r(2) show ?thesis by blast
qed

section \<open>Updates\<close>

lemma rejects_downgrade_ok:
  assumes "rejects_downgrade_from m current = Inr ()"
  shows "\<exists>cur new. parse_version current = Inr cur \<and> parse_version (um_frank_version m) = Inr new \<and> \<not> version_less new cur"
  using assms by (auto simp: rejects_downgrade_from_def split: sum.splits if_splits)

text \<open>
  an update is offered only when this host can take it. If the check reports an available
  update, the fetched manifest accepts the daemon's protocol version, its version is not older
  than the running one, and it has an artifact for the host's target and package kind, whose size and
  digest the update record carries.
\<close>

theorem offered_update_fits:
  assumes "reduce_check_for_update env s = Inr (s', ev, Update u)" "uv_state u = update_state.Available"
  shows "s_update s' = Some u \<and> (\<exists>m a cur new. e_update_manifest env = Inr m \<and> a \<in> set (um_artifacts m) \<and>
    um_protocol_min m \<le> PROTOCOL_VERSION \<and> PROTOCOL_VERSION \<le> um_protocol_max m \<and>
    parse_version (e_package_version env) = Inr cur \<and> parse_version (um_frank_version m) = Inr new \<and> \<not> version_less new cur \<and>
    ua_target a = env_or env ''FRANK_UPDATE_TARGET'' (current_update_target env) \<and>
    ua_package_kind a = env_or env ''FRANK_UPDATE_PACKAGE_KIND'' (current_update_package_kind env) \<and>
    uv_version u = um_frank_version m \<and> uv_size u = ua_size a \<and> uv_sha256 u = ua_sha256 a)"
proof -
  from assms(1) obtain x where u: "u = project_manifest env x" and s': "s_update s' = Some u"
    by (auto simp: reduce_check_for_update_def Let_def)
  from project_manifest_available [of env x] assms(2) u obtain m a where
    m: "e_update_manifest env = Inr m" "accepts_protocol m PROTOCOL_VERSION"
      "rejects_downgrade_from m (e_package_version env) = Inr ()"
    and a: "a \<in> set (um_artifacts m)" "ua_target a = env_or env ''FRANK_UPDATE_TARGET'' (current_update_target env)"
      "ua_package_kind a = env_or env ''FRANK_UPDATE_PACKAGE_KIND'' (current_update_package_kind env)"
    and p: "u = x\<lparr>uv_version := um_frank_version m, uv_target := ua_target a, uv_size := ua_size a,
      uv_sha256 := ua_sha256 a, uv_state := update_state.Available, uv_error := None, uv_checked_at := e_now env\<rparr>"
    by auto
  from rejects_downgrade_ok [OF m(3)] obtain cur new where v: "parse_version (e_package_version env) = Inr cur"
    "parse_version (um_frank_version m) = Inr new" "\<not> version_less new cur" by blast
  have f: "uv_version u = um_frank_version m" "uv_size u = ua_size a" "uv_sha256 u = ua_sha256 a" by (simp_all add: p)
  have l: "um_protocol_min m \<le> PROTOCOL_VERSION" "PROTOCOL_VERSION \<le> um_protocol_max m"
    using m(2) by (simp_all add: accepts_protocol_def)
  show ?thesis
    by (intro conjI s' exI [of _ m] exI [of _ a] exI [of _ cur] exI [of _ new] m(1) a v f l)
qed

definition demo_update_env :: env where
  "demo_update_env = demo_env\<lparr>e_update_manifest := Inr \<lparr>um_schema_version = 1, um_frank_version = ''1.2.0'',
     um_release_timestamp = ''0'', um_protocol_min = 1, um_protocol_max = 2, um_minimum_rollback_version = ''1.0.0'',
     um_artifacts = [\<lparr>ua_target = ''x86_64-unknown-linux-gnu'', ua_package_kind = ''tar.gz'', ua_url = ''https://x'',
       ua_size = 10, ua_sha256 = replicate 64 CHR ''a''\<rparr>],
     um_release_notes_url = ''https://n'', um_key_id = ''k''\<rparr>\<rparr>"

theorem offered_update_fits_witness:
  "\<exists>m. e_update_manifest demo_update_env = Inr m \<and> PROTOCOL_VERSION \<le> um_protocol_max m"
proof -
  have "case reduce_check_for_update demo_update_env demo_world of
      Inr (_, _, Update u) \<Rightarrow> uv_state u = update_state.Available | _ \<Rightarrow> False"
    by code_simp
  moreover obtain s' ev u where r: "reduce_check_for_update demo_update_env demo_world = Inr (s', ev, Update u)"
    by (simp add: reduce_check_for_update_def Let_def)
  ultimately have "uv_state u = update_state.Available" by simp
  from offered_update_fits [OF r this] show ?thesis by blast
qed

lemma show_nat_digits: "c \<in> set (show_nat n) \<Longrightarrow> \<exists>d < 10. c = char_of (48 + d :: nat)"
proof (induction n rule: show_nat.induct)
  case (1 n)
  then show ?case
  proof (cases "n < 10")
    case True
    with "1.prems" show ?thesis by (auto simp: show_nat.simps [of n])
  next
    case False
    with "1.prems" have "c \<in> set (show_nat (n div 10)) \<or> c = char_of (48 + n mod 10)"
      by (subst (asm) show_nat.simps) auto
    then show ?thesis
    proof
      assume "c = char_of (48 + n mod 10)"
      then show ?thesis by (intro exI [of _ "n mod 10"]) simp
    qed (rule "1.IH" [OF False])
  qed
qed

lemma not_digit: "d < 10 \<Longrightarrow> c \<in> {CHR ''-'', CHR ''.'', CHR ''v''} \<Longrightarrow> char_of (48 + d :: nat) \<noteq> c"
proof
  assume d: "d < 10" and c: "c \<in> {CHR ''-'', CHR ''.'', CHR ''v''}" and e: "char_of (48 + d :: nat) = c"
  from e have "of_char (char_of (48 + d :: nat)) = (of_char c :: nat)" by simp
  with d have "48 + d = (of_char c :: nat)" by (simp add: of_char_of)
  with c d show False by auto
qed

lemma show_nat_free: "CHR ''-'' \<notin> set (show_nat n)" "CHR ''.'' \<notin> set (show_nat n)" "CHR ''v'' \<notin> set (show_nat n)"
  using show_nat_digits not_digit by fastforce+

lemma split_once_append: "d \<notin> set a \<Longrightarrow> split_once d (a @ d # b) = Some (a, b)"
  by (induction a) auto

lemma split_once_free: "d \<notin> set a \<Longrightarrow> split_once d a = None"
  by (induction a) auto

lemma split_char_free: "d \<notin> set a \<Longrightarrow> split_char d a = [a]"
  by (induction a) auto

lemma split_char_append: "d \<notin> set a \<Longrightarrow> split_char d (a @ d # b) = a # split_char d b"
  by (induction a) auto

text \<open>
  C37: the text of a version reads back as the version, for all numbers that fit 64 bits and every
  suffix, one with further dashes included.
\<close>

theorem version_round_trip:
  assumes "ver_major v < 2 ^ 64" "ver_minor v < 2 ^ 64" "ver_patch v < 2 ^ 64"
  shows "parse_version (show_version v) = Inr v"
proof -
  let ?core = "show_nat (ver_major v) @ CHR ''.'' # show_nat (ver_minor v) @ CHR ''.'' # show_nat (ver_patch v)"
  have dash: "CHR ''-'' \<notin> set ?core" by (simp add: show_nat_free)
  obtain d cs where hd: "show_nat (ver_major v) = char_of (48 + d :: nat) # cs" "d < 10"
    using show_nat_hd_digit by blast
  have strip: "strip_v (?core @ t) = ?core @ t" for t
    using hd not_digit [of d "CHR ''v''"] by (simp add: strip_v_def)
  have split: "split_char (CHR ''.'') ?core = [show_nat (ver_major v), show_nat (ver_minor v), show_nat (ver_patch v)]"
    by (simp add: split_char_append split_char_free show_nat_free)
  have parts: "parse_uint 64 (show_nat (ver_major v)) = Some (ver_major v)"
    "parse_uint 64 (show_nat (ver_minor v)) = Some (ver_minor v)"
    "parse_uint 64 (show_nat (ver_patch v)) = Some (ver_patch v)"
    using assms by (simp_all add: parse_uint_show_nat)
  show ?thesis
  proof (cases "ver_suffix v = []")
    case True
    then have "show_version v = ?core @ []" by (simp add: show_version_def)
    with True strip [of "[]"] split_once_free [OF dash] split parts show ?thesis
      by (cases v) (simp add: parse_version_def Let_def)
  next
    case False
    then have "show_version v = ?core @ CHR ''-'' # ver_suffix v" by (simp add: show_version_def)
    with strip [of "CHR ''-'' # ver_suffix v"] split_once_append [OF dash, of "ver_suffix v"] split parts show ?thesis
      by (cases v) (simp add: parse_version_def Let_def)
  qed
qed

theorem version_round_trip_witness:
  "parse_version (show_version \<lparr>ver_major = 1, ver_minor = 2, ver_patch = 3, ver_suffix = ''rc-1''\<rparr>) =
     Inr \<lparr>ver_major = 1, ver_minor = 2, ver_patch = 3, ver_suffix = ''rc-1''\<rparr>"
  by (rule version_round_trip) simp_all

section \<open>Protocol versions\<close>

text \<open>
  negotiation picks the newest common protocol version. The result is the greatest version both
  ranges accept, and there is an error exactly when they accept none in common.
\<close>

theorem negotiation_is_best:
  defines "common c s \<equiv> {w. range_accepts c w \<and> range_accepts s w}"
  shows "(negotiate_versions c s = Inr v \<longleftrightarrow> v \<in> common c s \<and> common c s \<subseteq> {..v}) \<and>
    ((\<exists>e. negotiate_versions c s = Inl e) \<longleftrightarrow> common c s = {})"
proof (cases "min (vr_max c) (vr_max s) < max (vr_min c) (vr_min s)")
  case True
  then have "common c s = {}"
    by (auto simp: common_def range_accepts_def min_def max_def split: if_splits)
  with True show ?thesis by (auto simp: negotiate_versions_def Let_def)
next
  case False
  then have m: "min (vr_max c) (vr_max s) \<in> common c s"
    by (simp_all add: common_def range_accepts_def not_less)
  moreover have "common c s \<subseteq> {..min (vr_max c) (vr_max s)}"
    by (auto simp: common_def range_accepts_def)
  ultimately show ?thesis
    using False by (auto simp: negotiate_versions_def Let_def intro: antisym)
qed

section \<open>Paths\<close>

text \<open>What \<open>std::fs::canonicalize\<close> documents: an absolute path without \<open>.\<close>, \<open>..\<close> or links.\<close>

definition resolved :: "component list \<Rightarrow> bool" where
  "resolved p \<longleftrightarrow> (\<exists>names. p = RootDir # map Normal names)"

definition canonical_results :: "env \<Rightarrow> bool" where
  "canonical_results env \<longleftrightarrow> (\<forall>p q. e_canonicalize env p = Some q \<longrightarrow> resolved q)"

lemma resolved_append: "resolved r \<Longrightarrow> resolved (r @ map Normal names)"
  unfolding resolved_def by (metis append_Cons map_append)

lemma canonicalize_loop_resolved:
  "canonical_results env \<Longrightarrow> canonicalize_loop env p missing = Some q \<Longrightarrow> resolved q"
proof (induction env p missing rule: canonicalize_loop.induct)
  case (1 env p missing)
  note loop = "1.prems"(2) [unfolded canonicalize_loop.simps [of env p missing]]
  show ?case
  proof (cases "e_exists env p")
    case True
    with loop obtain r where "e_canonicalize env p = Some r" "q = r @ map Normal (rev missing)" by auto
    with "1.prems"(1) show ?thesis by (auto simp: canonical_results_def intro: resolved_append)
  next
    case False
    with loop obtain name up where n: "path_file_name p = Some name" "path_parent p = Some up"
      and rest: "canonicalize_loop env up (missing @ [name]) = Some q"
      by (auto split: option.splits)
    from "1.IH" [OF False n "1.prems"(1) rest] show ?thesis .
  qed
qed

lemma resolved_below:
  assumes "resolved c" "resolved r" "path_starts_with c r"
  shows "\<exists>names. c = r @ map Normal names"
proof -
  obtain xs ys where c: "c = RootDir # map Normal xs" and r: "r = RootDir # map Normal ys"
    using assms(1,2) by (auto simp: resolved_def)
  from assms(3) have "take (length ys) (map Normal xs) = map Normal ys"
    by (simp add: path_starts_with_def c r)
  then have "map Normal xs = map Normal ys @ map Normal (drop (length ys) xs)"
    by (metis append_take_drop_id drop_map)
  with c r show ?thesis by auto
qed

text \<open>
  an accepted path cannot leave the allowed roots. With at least one root configured, the
  resolved form of an accepted path is a resolved root followed by plain names only, also when
  the last parts of the path do not exist yet.
\<close>

theorem allowed_path_contained:
  assumes "is_allowed_path env path roots" "roots \<noteq> []" "canonical_results env"
  shows "\<exists>root \<in> set roots. \<exists>r names. canonicalize_allow_missing env (components root) = Some r \<and> resolved r \<and>
    canonicalize_allow_missing env (components path) = Some (r @ map Normal names)"
proof -
  from assms(1,2) obtain c root r where c: "canonicalize_allow_missing env (components path) = Some c"
    and root: "root \<in> set roots" and r: "canonicalize_allow_missing env (components root) = Some r"
    and below: "path_starts_with c r"
    by (auto simp: is_allowed_path_def list_ex_iff split: if_splits option.splits)
  have "resolved c" "resolved r"
    using c r canonicalize_loop_resolved [OF assms(3)] by (auto simp: canonicalize_allow_missing_def)
  from resolved_below [OF this below] c root r \<open>resolved r\<close> show ?thesis by metis
qed

definition demo_fs :: env where
  "demo_fs = demo_env\<lparr>e_canonicalize := (\<lambda>p. case p of RootDir # rest \<Rightarrow>
      if list_all (\<lambda>c. case c of Normal _ \<Rightarrow> True | _ \<Rightarrow> False) rest then Some p else None | _ \<Rightarrow> None),
     e_exists := (\<lambda>p. p \<in> {[RootDir], [RootDir, Normal ''repo'']})\<rparr>"

lemma demo_fs_resolves: "canonical_results demo_fs"
proof -
  have "\<exists>names. rest = map Normal names" if "list_all (\<lambda>c. case c of Normal _ \<Rightarrow> True | _ \<Rightarrow> False) rest" for rest
    using that
  proof (induction rest)
    case (Cons c rest)
    then obtain n names where "c = Normal n" "rest = map Normal names" by (auto split: component.splits)
    then show ?case by (intro exI [of _ "n # names"]) simp
  qed simp
  then show ?thesis
    by (auto simp: canonical_results_def resolved_def demo_fs_def split: list.splits component.splits if_splits)
qed

theorem allowed_path_contained_witness:
  "is_allowed_path demo_fs ''/repo/new'' [''/repo''] \<and> \<not> is_allowed_path demo_fs ''/etc'' [''/repo''] \<and>
   (\<exists>r names. canonicalize_allow_missing demo_fs (components ''/repo/new'') = Some (r @ map Normal names))"
proof -
  have a: "is_allowed_path demo_fs ''/repo/new'' [''/repo'']" "\<not> is_allowed_path demo_fs ''/etc'' [''/repo'']"
    by code_simp+
  from allowed_path_contained [OF a(1) _ demo_fs_resolves] a show ?thesis by auto
qed

end
