(* ===== verification/CommandProperties.thy ===== *)
theory CommandProperties
  imports StateMachine Installation
begin

text \<open>
  Failed commands, answers of humans and the end of a mission.
\<close>

section \<open>Failed commands\<close>

definition same_data :: "store \<Rightarrow> store \<Rightarrow> bool" where
  "same_data st st' \<longleftrightarrow> snapshot_of (st_world st') = snapshot_of (st_world st) \<and> st_revision st' = st_revision st \<and>
     st_event_seq st' = st_event_seq st \<and> st_answers st' = st_answers st \<and> st_events st' = st_events st \<and>
     st_outbox st' = st_outbox st"

lemma same_data_refl [simp]: "same_data st st"
  by (simp add: same_data_def)

lemma same_data_trans: "same_data a b \<Longrightarrow> same_data b c \<Longrightarrow> same_data a c"
  by (simp add: same_data_def)

lemma same_data_remember [simp]: "same_data st (remember nxt st)"
  by (simp add: same_data_def remember_def snapshot_of_def snapshot.truncate_def)

lemma commit_fresh_no_error:
  assumes "commit_request env st rq = Inr (st', cm)" "map_of (st_answers st) (rq_command_id rq) = None"
  shows "cr_error (cm_response cm) = None"
  using assms(1) by (cases rule: commit_requestE) (simp_all add: assms(2) response_ok_def)

lemma retry_alone:
  assumes "map_of (st_answers st) (ce_command_id e) = None"
  shows "case commit_organization_with_retry k (\<lambda>_ st. st) env st e actor of
    (st', Inl x) \<Rightarrow> same_data st st' | (st', Inr r) \<Rightarrow> cr_error r = None"
  using assms
proof (induction k arbitrary: st)
  case (Suc k)
  show ?case
  proof (cases "reduce env (st_world st) (ce_command e) actor")
    case (Inr x)
    then obtain nxt ev res where r: "reduce env (st_world st) (ce_command e) actor = Inr (nxt, ev, res)" by (cases x) auto
    let ?st1 = "remember nxt st"
    let ?rq = "\<lparr>rq_command_id = ce_command_id e, rq_expected_revision = Some (s_revision (st_world st)), rq_actor = actor,
      rq_event = ev, rq_snapshot = with_memory nxt ?st1, rq_result = res, rq_artifact_bytes = None\<rparr>"
    have fresh: "map_of (st_answers ?st1) (ce_command_id e) = None" using Suc.prems by (simp add: remember_def)
    show ?thesis
    proof (cases "commit_request env ?st1 ?rq")
      case (Inl x)
      show ?thesis
      proof (cases x)
        case (StaleRevision v)
        with Suc.IH [OF fresh] Inl r same_data_trans [OF same_data_remember] show ?thesis
          by (auto simp: Let_def split: prod.splits sum.splits)
      qed (use Inl r in \<open>simp add: Let_def\<close>)
    next
      case (Inr y)
      then obtain st2 cm where c: "commit_request env ?st1 ?rq = Inr (st2, cm)" by (cases y) auto
      with commit_fresh_no_error [OF c] fresh r show ?thesis by (simp add: Let_def)
    qed
  qed simp
qed simp

lemma apply_alone:
  assumes "apply_loaded env st w e actor = (st', r)" "map_of (st_answers st) (ce_command_id e) = None"
  shows "case r of Inl x \<Rightarrow> same_data st st' | Inr (resp, _) \<Rightarrow> cr_error resp = None"
  using assms(1)
proof (cases rule: apply_loadedE)
  case (committed nxt ev res st1 cm)
  with commit_fresh_no_error [OF committed(2)] assms(2) show ?thesis by (simp add: request_of_def)
qed (simp_all add: response_ok_def)

lemma admit_fresh:
  "admit env st e kind role = Inr b \<Longrightarrow>
   map_of (st_answers st) (ce_command_id e) = None \<and> ce_command_id b = ce_command_id e \<and> ce_command b = ce_command e"
  by (auto simp: admit_def Let_def idempotent_response_def split: if_splits sum.splits option.splits)

text \<open>
  C38: a command that is answered with an error has done nothing. With no other request in between,
  the snapshot, the revision, the stored answers, the event log and the audit outbox are as before
  and no follow-up work is started.
\<close>

theorem failed_command_is_atomic:
  assumes "execute (\<lambda>_ st. st) env st e actor role = (st', r, fs)" "cr_error r \<noteq> None"
  shows "snapshot_of (st_world st') = snapshot_of (st_world st) \<and> st_revision st' = st_revision st \<and>
    st_answers st' = st_answers st \<and> st_events st' = st_events st \<and> st_outbox st' = st_outbox st \<and> fs = []"
proof -
  have "same_data st st' \<and> fs = []"
  proof (cases "admit env st e (ac_kind actor) role")
    case (Inl x)
    with assms(1) show ?thesis by (simp add: execute_def)
  next
    case (Inr b)
    note f = admit_fresh [OF Inr]
    show ?thesis
    proof (cases "ce_expected_revision b = None")
      case True
      with retry_alone [of st b 4 env actor] f Inr assms show ?thesis
        by (auto simp: execute_def split: prod.splits sum.splits)
    next
      case False
      obtain st1 y where a: "apply_loaded env st (st_world st) b actor = (st1, y)" by fastforce
      with apply_alone [OF a] f False Inr assms show ?thesis
        by (auto simp: execute_def apply_command_def split: prod.splits sum.splits)
    qed
  qed
  then show ?thesis by (simp add: same_data_def)
qed

theorem failed_command_is_atomic_witness:
  "\<exists>st' r fs. execute (\<lambda>_ st. st) demo_env (sr_store demo_server) (demo_envelope 30 (ReleaseTask (TaskId 99))) demo_actor
     device_role.Owner = (st', r, fs) \<and> st_events st' = st_events (sr_store demo_server)"
proof -
  let ?e = "demo_envelope 30 (ReleaseTask (TaskId 99))"
  have "case execute (\<lambda>_ st. st) demo_env (sr_store demo_server) ?e demo_actor device_role.Owner of
      (_, r, _) \<Rightarrow> (case cr_error r of None \<Rightarrow> False | Some _ \<Rightarrow> True)"
    by (rule demo_trial_server(7))
  moreover obtain st' r fs where x: "execute (\<lambda>_ st. st) demo_env (sr_store demo_server) ?e demo_actor device_role.Owner
      = (st', r, fs)" by (metis prod_cases3)
  ultimately have "cr_error r \<noteq> None" by (auto split: option.splits)
  from failed_command_is_atomic [OF x this] x show ?thesis by blast
qed

section \<open>Human input\<close>

lemma find_updated: "find p xs = Some x \<Longrightarrow> p (f x) \<Longrightarrow> find p (update_first p f xs) = Some (f x)"
  by (induction xs) (auto split: if_splits)

text \<open>
  an answer makes the task available whatever became of it. When a pending human input is
  answered, the task is ready, or blocked if it has unfinished children, and this also holds for a
  task that was cancelled or done in the meantime: it leaves a final status.
\<close>

theorem answer_revives_task:
  assumes "reduce_resolve_human_input env s k a actor = Inr (s', ev, res)"
  shows "\<exists>x t t'. x \<in> set (s_human_inputs s) \<and> hi_id x = k \<and> find_task (hi_task_id x) (s_tasks s) = Some t \<and>
    find_task (hi_task_id x) (s_tasks s') = Some t' \<and>
    t_status t' = (if all_done (s_tasks s) (t_child_task_ids t) then task_status.Ready else task_status.Blocked)"
proof -
  from assms obtain x t where x: "find (\<lambda>x. hi_id x = k \<and> hi_status x = human_input_status.Pending) (s_human_inputs s) = Some x"
    and t: "find_task (hi_task_id x) (s_tasks s) = Some t"
    and s': "s_tasks s' = s_tasks (edit_task (t_id t) (\<lambda>_. resume_edit s t) s)"
    by (auto simp: reduce_resolve_human_input_def Let_def split: if_splits option.splits)
  have id: "t_id t = hi_task_id x" using find_task_SomeD [OF t] by simp
  have e: "t_id (resume_edit s t) = t_id t"
    "t_status (resume_edit s t) = (if all_done (s_tasks s) (t_child_task_ids t) then task_status.Ready else task_status.Blocked)"
    by (simp_all add: resume_edit_def release_edit_def Let_def)
  have "find_task (hi_task_id x) (s_tasks s') = Some (resume_edit s t)"
    unfolding s' using t e(1) id by (simp add: find_task_def find_updated)
  with find_SomeD [OF x] t e(2) show ?thesis by blast
qed

theorem answer_revives_task_witness:
  "map t_status (s_tasks demo_cancelled) = [task_status.Cancelled, task_status.Blocked] \<and>
   (\<exists>s' t'. reduce_resolve_human_input demo_env demo_cancelled (HumanInputId 3) ''this one'' demo_actor = Inr s' \<and>
      find_task (TaskId 1) (s_tasks (fst s')) = Some t' \<and> t_status t' = task_status.Ready)"
proof
  show "map t_status (s_tasks demo_cancelled) = [task_status.Cancelled, task_status.Blocked]" by (rule demo_trial_world(3))
  have "case reduce_resolve_human_input demo_env demo_cancelled (HumanInputId 3) ''this one'' demo_actor of
      Inr _ \<Rightarrow> True | Inl _ \<Rightarrow> False" by (rule demo_trial_world(4))
  then obtain s' ev res where
    r: "reduce_resolve_human_input demo_env demo_cancelled (HumanInputId 3) ''this one'' demo_actor = Inr (s', ev, res)"
    by (auto split: sum.splits)
  have i: "map hi_task_id (s_human_inputs demo_cancelled) = [TaskId 1]"
    "map_option t_child_task_ids (find_task (TaskId 1) (s_tasks demo_cancelled)) = Some []" by (rule demo_trial_world)+
  from answer_revives_task [OF r] obtain x t t' where "x \<in> set (s_human_inputs demo_cancelled)"
    "find_task (hi_task_id x) (s_tasks demo_cancelled) = Some t" "find_task (hi_task_id x) (s_tasks s') = Some t'"
    "t_status t' = (if all_done (s_tasks demo_cancelled) (t_child_task_ids t) then task_status.Ready else task_status.Blocked)"
    by blast
  moreover have "hi_task_id x = TaskId 1" if "x \<in> set (s_human_inputs demo_cancelled)" for x
    using that i(1) by (cases "s_human_inputs demo_cancelled") auto
  ultimately show "\<exists>s' t'. reduce_resolve_human_input demo_env demo_cancelled (HumanInputId 3) ''this one'' demo_actor = Inr s' \<and>
      find_task (TaskId 1) (s_tasks (fst s')) = Some t' \<and> t_status t' = task_status.Ready"
    using r i(2) by (intro exI [of _ "(s', ev, res)"] exI [of _ t']) (auto simp: all_done_def)
qed

section \<open>Missions\<close>

lemma find_mission_edit:
  assumes "\<And>m. m_id (f m) = m_id m"
  shows "find_mission j (s_missions (edit_mission i f s)) =
    (if j = i then map_option f (find_mission i (s_missions s)) else find_mission j (s_missions s))"
proof -
  from assms have "keyed_edit m_id f" by unfold_locales
  from keyed_edit.find_update [OF this] show ?thesis by (simp add: find_mission_def edit_mission_def)
qed

lemma edit_mission_status:
  assumes "find_mission i (s_missions (edit_mission j f s)) = Some m'"
    and "\<And>m. m_id (f m) = m_id m" "\<And>m. m_status (f m) = m_status m \<or> m_status (f m) \<in> S"
  shows "(\<exists>m. find_mission i (s_missions s) = Some m \<and> m_status m' = m_status m) \<or> m_status m' \<in> S"
  using assms(1,3) by (auto simp: find_mission_edit [OF assms(2)] split: if_splits)

lemma mission_keeps_status:
  assumes "reduce_mission env s c = Inr (s', ev, res)" "\<And>j st. c \<noteq> SetMissionStatus j st"
    and "find_mission i (s_missions s') = Some m'"
  shows "(\<exists>m. find_mission i (s_missions s) = Some m \<and> m_status m' = m_status m) \<or>
    m_status m' \<in> {mission_status.Draft, mission_status.Active, mission_status.Paused}"
proof (cases c)
  case (CreateMission p obj)
  with assms(1,3) show ?thesis
    by (auto simp: reduce_mission_def reduce_create_mission_def find_mission_def find_append Let_def
        split: option.splits if_splits sum.splits)
next
  case (RetryMissionPlan j)
  with assms(1,3) show ?thesis
    by (auto simp: reduce_mission_def reduce_retry_mission_plan_def split: option.splits if_splits
        dest!: edit_mission_status [where S = "{}"])
next
  case (PauseMission j)
  with assms(1,3) show ?thesis
    by (auto simp: reduce_mission_def pause_or_resume_def split: option.splits if_splits
        dest!: edit_mission_status [where S = "{mission_status.Paused}"])
next
  case (ResumeMission j)
  with assms(1,3) show ?thesis
    by (auto simp: reduce_mission_def pause_or_resume_def split: option.splits if_splits
        dest!: edit_mission_status [where S = "{mission_status.Active}"])
next
  case (DeliverMission j)
  with assms(1,3) show ?thesis
    by (auto simp: reduce_mission_def reduce_deliver_mission_def Let_def split: option.splits if_splits)
next
  case (SubmitSupervisorPlan j p)
  with assms(1,3) show ?thesis by (auto simp: reduce_mission_def split: sum.splits)
qed (use assms(1,2) in \<open>simp_all add: reduce_mission_def misrouted_def\<close>)

lemma set_mission_status_ok:
  assumes "reduce_set_mission_status env s j st = Inr (s', ev, res)" "find_mission i (s_missions s') = Some m'"
  shows "(\<exists>m. find_mission i (s_missions s) = Some m \<and> m_status m' = m_status m) \<or> i = j \<and> m_status m' = st"
    and "st = mission_status.Completed \<Longrightarrow> (\<exists>t \<in> set (s_tasks s). t_mission_id t = j) \<and>
      (\<forall>t \<in> set (s_tasks s). t_mission_id t = j \<longrightarrow> t_status t = task_status.Done)"
  using assms
  by (auto simp: reduce_set_mission_status_def find_mission_edit list_ex_iff filter_empty_conv
      split: option.splits if_splits sum.splits)

text \<open>
  a mission ends only with its work. If a mission command leaves a mission completed that was
  not, the mission has tasks and all of them are done.
\<close>

theorem completed_mission_has_no_open_task:
  assumes "reduce_mission env s c = Inr (s', ev, res)"
    and "find_mission i (s_missions s') = Some m'" "m_status m' = mission_status.Completed"
    and "\<And>m. find_mission i (s_missions s) = Some m \<Longrightarrow> m_status m \<noteq> mission_status.Completed"
  shows "(\<exists>t \<in> set (s_tasks s). t_mission_id t = i) \<and>
    (\<forall>t \<in> set (s_tasks s). t_mission_id t = i \<longrightarrow> t_status t = task_status.Done)"
proof (cases "\<exists>j st. c = SetMissionStatus j st")
  case True
  then obtain j st where c: "c = SetMissionStatus j st" by blast
  with assms(1) have r: "reduce_set_mission_status env s j st = Inr (s', ev, res)" by (simp add: reduce_mission_def)
  from set_mission_status_ok [OF r assms(2)] assms(3,4) show ?thesis by auto
next
  case False
  with mission_keeps_status [OF assms(1) _ assms(2)] assms(3,4) show ?thesis by fastforce
qed

theorem completed_mission_has_no_open_task_witness:
  defines "s \<equiv> demo_world\<lparr>s_tasks := [demo_task 1 [] task_status.Done None]\<rparr>"
  shows "(\<exists>s' ev res. reduce_mission demo_env s (SetMissionStatus (MissionId 1002) mission_status.Completed) = Inr (s', ev, res))
    \<and> filter (\<lambda>t. t_mission_id t = MissionId 1002 \<and> t_status t \<noteq> task_status.Done) (s_tasks s) = []"
proof -
  let ?c = "SetMissionStatus (MissionId 1002) mission_status.Completed"
  have "case reduce_mission demo_env s ?c of Inr (s', _) \<Rightarrow>
      map_option m_status (find_mission (MissionId 1002) (s_missions s')) = Some mission_status.Completed | Inl _ \<Rightarrow> False"
    unfolding s_def by code_simp
  then obtain s' ev res m' where r: "reduce_mission demo_env s ?c = Inr (s', ev, res)"
    and m: "find_mission (MissionId 1002) (s_missions s') = Some m'" "m_status m' = mission_status.Completed"
    by (auto split: sum.splits)
  have "m_status m \<noteq> mission_status.Completed" if "find_mission (MissionId 1002) (s_missions s) = Some m" for m
    using that by (auto simp: s_def demo_world_def find_mission_def demo_mission_def)
  from completed_mission_has_no_open_task [OF r m this] r show ?thesis
    by (simp add: filter_empty_conv)
qed

end
