(* ===== verification/SignIn.thy ===== *)
theory SignIn
  imports Orchestrator "HOL-Library.AList"
begin

text \<open>
  The local owner account: sign-in, bearer sessions, password changes and the login rate limit
  (\<open>frank-server/src/auth.rs\<close>) over the tables \<open>owner_account_slot\<close>,
  \<open>owner_accounts\<close> and \<open>auth_sessions\<close> (\<open>frank-store/src/auth.rs\<close>).

  Argon2 and SHA-256 are arguments: \<open>verify password encoded\<close>, \<open>hash token\<close>; the
  encoded form of a new password, whose salt is random, is what the call got, \<open>Inl\<close> when it
  failed. Ids and tokens are drawn by the caller. A constraint of the schema that refuses an
  insert is \<open>auth_error.Store\<close>.
\<close>

section \<open>Tables\<close>

datatype user_id = UserId uuid
datatype device_id = DeviceId (device_uuid: uuid)
datatype session_id = SessionId uuid

record stored_owner =
  ow_id :: user_id
  ow_username :: string
  ow_password_hash :: string
  ow_created_at :: u64
  ow_password_changed_at :: u64

record stored_auth_session =
  ss_session_id :: session_id
  ss_owner_id :: user_id
  ss_device_id :: device_id
  ss_token_hash :: string
  ss_created_at :: u64
  ss_expires_at :: u64
  ss_last_seen_at :: u64
  ss_revoked :: bool

record accounts =
  au_slot :: "user_id option"
  au_owners :: "stored_owner list"
  au_sessions :: "stored_auth_session list"

datatype auth_error = Store | InvalidUsername | InvalidPassword | InvalidCredentials | NotConfigured
  | AlreadyConfigured | Password | RateLimited u64 | Internal

type_synonym 'a auth_result = "auth_error + 'a"

section \<open>Store operations\<close>

definition owner :: "accounts \<Rightarrow> stored_owner option" where
  "owner db = Option.bind (au_slot db) (\<lambda>i. find (\<lambda>x. ow_id x = i) (au_owners db))"

text \<open>One transaction: the slot is taken and the account inserted, or neither.\<close>

definition create_owner :: "user_id \<Rightarrow> string \<Rightarrow> string \<Rightarrow> u64 \<Rightarrow> accounts \<Rightarrow> auth_error + (bool \<times> accounts)" where
  "create_owner i username password_hash created_at db =
     (if username = [] \<or> password_hash = [] then Inl auth_error.Store
      else if au_slot db \<noteq> None then Inr (False, db)
      else if any (\<lambda>x. ow_id x = i \<or> ow_username x = username) (au_owners db) then Inr (False, db)
      else Inr (True, db\<lparr>au_slot := Some i, au_owners := au_owners db @
             [\<lparr>ow_id = i, ow_username = username, ow_password_hash = password_hash,
               ow_created_at = created_at, ow_password_changed_at = created_at\<rparr>]\<rparr>))"

definition update_owner_password :: "user_id \<Rightarrow> string \<Rightarrow> u64 \<Rightarrow> accounts \<Rightarrow> auth_error + (bool \<times> accounts)" where
  "update_owner_password i password_hash changed_at db =
     (if password_hash = [] then Inl auth_error.Store
      else Inr (any (\<lambda>x. ow_id x = i) (au_owners db),
             db\<lparr>au_owners := update_first (\<lambda>x. ow_id x = i)
                  (\<lambda>x. x\<lparr>ow_password_hash := password_hash, ow_password_changed_at := changed_at\<rparr>) (au_owners db)\<rparr>))"

text \<open>\<open>INSERT \<dots> SELECT \<dots> WHERE EXISTS\<close>: the row is inserted only while the account still
  carries the hash the caller verified.\<close>

definition insert_auth_session_if_owner_hash ::
    "user_id \<Rightarrow> string \<Rightarrow> stored_auth_session \<Rightarrow> accounts \<Rightarrow> auth_error + (bool \<times> accounts)" where
  "insert_auth_session_if_owner_hash i password_hash session db =
     (if password_hash = [] \<or> ss_token_hash session = [] \<or> ss_owner_id session \<noteq> i then Inl auth_error.Store
      else if \<not> any (\<lambda>x. ow_id x = i \<and> ow_password_hash x = password_hash) (au_owners db) then Inr (False, db)
      else if any (\<lambda>x. ss_session_id x = ss_session_id session \<or> ss_token_hash x = ss_token_hash session) (au_sessions db)
      then Inl auth_error.Store
      else Inr (True, db\<lparr>au_sessions := au_sessions db @ [session]\<rparr>))"

text \<open>The columns are \<open>i64\<close>, so times compare as signed numbers and are read with
  \<open>max(0) as u64\<close>.\<close>

definition session_live :: "u64 \<Rightarrow> stored_auth_session \<Rightarrow> bool" where
  "session_live now x \<longleftrightarrow> \<not> ss_revoked x \<and> sint now < sint (ss_expires_at x)"

definition auth_session :: "string \<Rightarrow> u64 \<Rightarrow> accounts \<Rightarrow> stored_auth_session option \<times> accounts" where
  "auth_session token_hash now db =
     (case find (\<lambda>x. ss_token_hash x = token_hash \<and> session_live now x) (au_sessions db) of
        None \<Rightarrow> (None, db)
      | Some x \<Rightarrow>
          (Some (x\<lparr>ss_created_at := read_column (ss_created_at x), ss_expires_at := read_column (ss_expires_at x),
                   ss_last_seen_at := now\<rparr>),
           db\<lparr>au_sessions := update_where (\<lambda>y. ss_session_id y = ss_session_id x)
                (\<lambda>y. y\<lparr>ss_last_seen_at := now\<rparr>) (au_sessions db)\<rparr>))"

definition revoke_auth_session :: "session_id \<Rightarrow> accounts \<Rightarrow> bool \<times> accounts" where
  "revoke_auth_session i db =
     (any (\<lambda>x. ss_session_id x = i \<and> \<not> ss_revoked x) (au_sessions db),
      db\<lparr>au_sessions := update_where (\<lambda>x. ss_session_id x = i \<and> \<not> ss_revoked x)
           (\<lambda>x. x\<lparr>ss_revoked := True\<rparr>) (au_sessions db)\<rparr>)"

definition revoke_auth_sessions :: "user_id \<Rightarrow> accounts \<Rightarrow> nat \<times> accounts" where
  "revoke_auth_sessions i db =
     (length (filter (\<lambda>x. ss_owner_id x = i \<and> \<not> ss_revoked x) (au_sessions db)),
      db\<lparr>au_sessions := update_where (\<lambda>x. ss_owner_id x = i \<and> \<not> ss_revoked x)
           (\<lambda>x. x\<lparr>ss_revoked := True\<rparr>) (au_sessions db)\<rparr>)"

definition prune_auth_sessions :: "u64 \<Rightarrow> accounts \<Rightarrow> nat \<times> accounts" where
  "prune_auth_sessions now db =
     (let gone = (\<lambda>x. sint (ss_expires_at x) \<le> sint now \<or> ss_revoked x) in
      (length (filter gone (au_sessions db)), db\<lparr>au_sessions := filter (\<lambda>x. \<not> gone x) (au_sessions db)\<rparr>))"

section \<open>Formats\<close>

definition username_byte :: "char \<Rightarrow> bool" where
  "username_byte c \<longleftrightarrow> is_ascii_alphanumeric [c] \<or> c \<in> {CHR ''.'', CHR ''_'', CHR ''-''}"

definition normalize_username :: "string \<Rightarrow> string auth_result" where
  "normalize_username value =
     (if \<not> (3 \<le> length value \<and> length value \<le> 32) \<or> \<not> list_all username_byte value
      then Inl InvalidUsername else Inr (to_ascii_lowercase value))"

definition validate_password :: "string \<Rightarrow> unit auth_result" where
  "validate_password value =
     (let n = length (chars value) in if 15 \<le> n \<and> n \<le> 128 then Inr () else Inl InvalidPassword)"

text \<open>\<open>AuthManager::hash_password\<close>: the format check, then Argon2 on another thread.\<close>

definition hash_password :: "string auth_result \<Rightarrow> string \<Rightarrow> string auth_result" where
  "hash_password encoded password =
     (case validate_password password of Inl e \<Rightarrow> Inl e | Inr _ \<Rightarrow> encoded)"

section \<open>Rate limit\<close>

definition SESSION_TTL_SECONDS :: u64 where "SESSION_TTL_SECONDS = 30 * 24 * 60 * 60"
definition RATE_WINDOW_SECONDS :: u64 where "RATE_WINDOW_SECONDS = 60"
definition PER_IP_ATTEMPT_LIMIT :: u32 where "PER_IP_ATTEMPT_LIMIT = 10"
definition GLOBAL_ATTEMPT_LIMIT :: u32 where "GLOBAL_ATTEMPT_LIMIT = 100"

record rate_window =
  rw_started_at :: u64
  rw_attempts :: u32

record rate_state =
  ra_by_ip :: "(string \<times> rate_window) list"
  ra_global :: rate_window

definition window_default :: rate_window where
  "window_default = \<lparr>rw_started_at = 0, rw_attempts = 0\<rparr>"

definition rate_default :: rate_state where
  "rate_default = \<lparr>ra_by_ip = [], ra_global = window_default\<rparr>"

definition refresh_window :: "u64 \<Rightarrow> rate_window \<Rightarrow> rate_window" where
  "refresh_window now w =
     (let w1 = (if RATE_WINDOW_SECONDS \<le> saturating_sub now (rw_started_at w)
                then \<lparr>rw_started_at = now, rw_attempts = 0\<rparr> else w) in
      if rw_started_at w1 = 0 then w1\<lparr>rw_started_at := now\<rparr> else w1)"

text \<open>\<open>now\<close> is the clock of the caller: the source reads it before it waits for the lock, so calls may take the lock in another
  order than their times.\<close>

definition allow_attempt :: "u64 \<Rightarrow> string \<Rightarrow> rate_state \<Rightarrow> unit auth_result \<times> rate_state" where
  "allow_attempt now ip st =
     (let w = refresh_window now (case map_of (ra_by_ip st) ip of None \<Rightarrow> window_default | Some w \<Rightarrow> w);
          g = refresh_window now (ra_global st);
          by_ip = AList.update ip w (ra_by_ip st) in
      if PER_IP_ATTEMPT_LIMIT \<le> rw_attempts w \<or> GLOBAL_ATTEMPT_LIMIT \<le> rw_attempts g
      then (let ip_retry = saturating_sub RATE_WINDOW_SECONDS (saturating_sub now (rw_started_at w));
                global_retry = saturating_sub RATE_WINDOW_SECONDS (saturating_sub now (rw_started_at g)) in
            (Inl (auth_error.RateLimited (max (max ip_retry global_retry) 1)), st\<lparr>ra_by_ip := by_ip, ra_global := g\<rparr>))
      else (Inr (), st\<lparr>ra_by_ip := filter (\<lambda>(k, x). saturating_sub now (rw_started_at x) < RATE_WINDOW_SECONDS * 2)
                        (AList.update ip (w\<lparr>rw_attempts := saturating_add (rw_attempts w) 1\<rparr>) by_ip),
                      ra_global := g\<lparr>rw_attempts := saturating_add (rw_attempts g) 1\<rparr>\<rparr>))"

section \<open>Requests\<close>

record auth_login_request =
  lr_username :: string
  lr_password :: string
  lr_device_name :: "string option"

record owner_view =
  ov_id :: user_id
  ov_username :: string

record auth_session_view =
  asv_session_id :: session_id
  asv_device_id :: device_id
  asv_expires_at :: timestamp

record auth_login_response =
  lo_access_token :: string
  lo_expires_at :: timestamp
  lo_server_id :: server_id
  lo_device_id :: device_id
  lo_owner :: owner_view
  lo_session :: auth_session_view

record auth_me_response =
  me_owner :: owner_view
  me_session :: auth_session_view

record device_auth =
  da_device_id :: device_id
  da_role :: device_role
  da_name :: string

definition initialize_owner ::
    "user_id \<Rightarrow> u64 \<Rightarrow> string auth_result \<Rightarrow> string \<Rightarrow> string \<Rightarrow> accounts \<Rightarrow> owner_view auth_result \<times> accounts" where
  "initialize_owner i now encoded username password db =
     (case normalize_username username of
        Inl e \<Rightarrow> (Inl e, db)
      | Inr name \<Rightarrow>
        (case hash_password encoded password of
           Inl e \<Rightarrow> (Inl e, db)
         | Inr h \<Rightarrow>
           (case create_owner i name h now db of
              Inl e \<Rightarrow> (Inl e, db)
            | Inr (False, db') \<Rightarrow> (Inl AlreadyConfigured, db')
            | Inr (True, db') \<Rightarrow> (Inr \<lparr>ov_id = i, ov_username = name\<rparr>, db'))))"

text \<open>The part of \<open>login\<close> before the insert: it reads the account and proves the password.\<close>

definition login_verify ::
    "(string \<Rightarrow> string \<Rightarrow> bool) \<Rightarrow> auth_login_request \<Rightarrow> accounts \<Rightarrow> stored_owner auth_result" where
  "login_verify verify request db =
     (case normalize_username (lr_username request) of
        Inl e \<Rightarrow> Inl e
      | Inr name \<Rightarrow>
        (case validate_password (lr_password request) of
           Inl e \<Rightarrow> Inl e
         | Inr _ \<Rightarrow>
           (case owner db of
              None \<Rightarrow> Inl NotConfigured
            | Some account \<Rightarrow>
                let password_matches = verify (lr_password request) (ow_password_hash account);
                    device_name = (case lr_device_name request of
                        None \<Rightarrow> ''Frank desktop'' | Some n \<Rightarrow> if blank n then ''Frank desktop'' else n) in
                if ow_username account \<noteq> name \<or> \<not> password_matches then Inl InvalidCredentials
                else if 128 < length (chars device_name) \<or> has_control device_name then Inl InvalidCredentials
                else Inr account)))"

definition new_session :: "session_id \<Rightarrow> device_id \<Rightarrow> string \<Rightarrow> u64 \<Rightarrow> stored_owner \<Rightarrow> stored_auth_session" where
  "new_session sid did token_hash now account =
     \<lparr>ss_session_id = sid, ss_owner_id = ow_id account, ss_device_id = did, ss_token_hash = token_hash,
      ss_created_at = now, ss_expires_at = saturating_add now SESSION_TTL_SECONDS, ss_last_seen_at = now,
      ss_revoked = False\<rparr>"

text \<open>The insert and the answer.\<close>

definition login_open ::
    "(string \<Rightarrow> string) \<Rightarrow> server_id \<Rightarrow> session_id \<Rightarrow> device_id \<Rightarrow> string \<Rightarrow> u64 \<Rightarrow> stored_owner \<Rightarrow> accounts
       \<Rightarrow> auth_login_response auth_result \<times> accounts" where
  "login_open hash server_id sid did token now account db =
     (let session = new_session sid did (hash token) now account in
      case insert_auth_session_if_owner_hash (ow_id account) (ow_password_hash account) session db of
        Inl e \<Rightarrow> (Inl e, db)
      | Inr (False, db') \<Rightarrow> (Inl InvalidCredentials, db')
      | Inr (True, db') \<Rightarrow>
          (let expires = show_nat (unat (ss_expires_at session)) in
           (Inr \<lparr>lo_access_token = token, lo_expires_at = expires, lo_server_id = server_id, lo_device_id = did,
                 lo_owner = \<lparr>ov_id = ow_id account, ov_username = ow_username account\<rparr>,
                 lo_session = \<lparr>asv_session_id = sid, asv_device_id = did, asv_expires_at = expires\<rparr>\<rparr>, db')))"

definition login ::
    "(string \<Rightarrow> string \<Rightarrow> bool) \<Rightarrow> (string \<Rightarrow> string) \<Rightarrow> server_id \<Rightarrow> session_id \<Rightarrow> device_id \<Rightarrow> string \<Rightarrow> u64
       \<Rightarrow> string \<Rightarrow> auth_login_request \<Rightarrow> rate_state \<Rightarrow> accounts
       \<Rightarrow> auth_login_response auth_result \<times> rate_state \<times> accounts" where
  "login verify hash server_id sid did token now ip request rate db =
     (case allow_attempt now ip rate of
        (Inl e, rate') \<Rightarrow> (Inl e, rate', db)
      | (Inr _, rate') \<Rightarrow>
        (case login_verify verify request db of
           Inl e \<Rightarrow> (Inl e, rate', db)
         | Inr account \<Rightarrow>
             (case login_open hash server_id sid did token now account db of (r, db') \<Rightarrow> (r, rate', db'))))"

definition session_owner ::
    "(string \<Rightarrow> string) \<Rightarrow> u64 \<Rightarrow> string \<Rightarrow> accounts \<Rightarrow> (stored_auth_session \<times> stored_owner) option \<times> accounts" where
  \<comment> \<open>the common prefix of \<open>session\<close> and \<open>authenticate\<close>\<close>
  "session_owner hash now token db =
     (case auth_session (hash token) now db of
        (None, db') \<Rightarrow> (None, db')
      | (Some x, db') \<Rightarrow>
          (case owner db' of
             None \<Rightarrow> (None, db')
           | Some account \<Rightarrow>
               if ow_id account \<noteq> ss_owner_id x then (None, db') else (Some (x, account), db')))"

definition session_me ::
    "(string \<Rightarrow> string) \<Rightarrow> u64 \<Rightarrow> string \<Rightarrow> accounts \<Rightarrow> auth_me_response option \<times> accounts" where
  "session_me hash now token db =
     (case session_owner hash now token db of
        (None, db') \<Rightarrow> (None, db')
      | (Some (x, account), db') \<Rightarrow>
          (Some \<lparr>me_owner = \<lparr>ov_id = ow_id account, ov_username = ow_username account\<rparr>,
                 me_session = \<lparr>asv_session_id = ss_session_id x, asv_device_id = ss_device_id x,
                   asv_expires_at = show_nat (unat (ss_expires_at x))\<rparr>\<rparr>, db'))"

definition authenticate ::
    "(string \<Rightarrow> string) \<Rightarrow> u64 \<Rightarrow> string \<Rightarrow> accounts \<Rightarrow> device_auth option \<times> accounts" where
  "authenticate hash now token db =
     (case session_owner hash now token db of
        (None, db') \<Rightarrow> (None, db')
      | (Some (x, account), db') \<Rightarrow>
          (Some \<lparr>da_device_id = ss_device_id x, da_role = device_role.Owner, da_name = ow_username account\<rparr>, db'))"

definition logout :: "(string \<Rightarrow> string) \<Rightarrow> u64 \<Rightarrow> string \<Rightarrow> accounts \<Rightarrow> bool \<times> accounts" where
  "logout hash now token db =
     (case auth_session (hash token) now db of
        (None, db') \<Rightarrow> (False, db')
      | (Some x, db') \<Rightarrow> revoke_auth_session (ss_session_id x) db')"

definition logout_all :: "(string \<Rightarrow> string) \<Rightarrow> u64 \<Rightarrow> string \<Rightarrow> accounts \<Rightarrow> bool \<times> accounts" where
  "logout_all hash now token db =
     (case auth_session (hash token) now db of
        (None, db') \<Rightarrow> (False, db')
      | (Some x, db') \<Rightarrow> (True, snd (revoke_auth_sessions (ss_owner_id x) db')))"

record auth_password_request =
  pr_current_password :: string
  pr_new_password :: string

text \<open>\<open>change_password\<close> in the three parts other requests may run between: the proof of the
  current password, the write of the new hash, the revocation.\<close>

definition change_verify ::
    "(string \<Rightarrow> string \<Rightarrow> bool) \<Rightarrow> (string \<Rightarrow> string) \<Rightarrow> u64 \<Rightarrow> string auth_result \<Rightarrow> string \<Rightarrow> auth_password_request
       \<Rightarrow> accounts \<Rightarrow> (user_id \<times> string) auth_result \<times> accounts" where
  "change_verify verify hash now encoded token request db =
     (case auth_session (hash token) now db of
        (None, db') \<Rightarrow> (Inl InvalidCredentials, db')
      | (Some x, db') \<Rightarrow>
        (case owner db' of
           None \<Rightarrow> (Inl NotConfigured, db')
         | Some account \<Rightarrow>
             if ow_id account \<noteq> ss_owner_id x
                \<or> \<not> verify (pr_current_password request) (ow_password_hash account)
             then (Inl InvalidCredentials, db')
             else (case hash_password encoded (pr_new_password request) of
                     Inl e \<Rightarrow> (Inl e, db') | Inr h \<Rightarrow> (Inr (ow_id account, h), db'))))"

definition change_write :: "u64 \<Rightarrow> user_id \<Rightarrow> string \<Rightarrow> accounts \<Rightarrow> unit auth_result \<times> accounts" where
  "change_write now i h db =
     (case update_owner_password i h now db of
        Inl e \<Rightarrow> (Inl e, db)
      | Inr (False, db') \<Rightarrow> (Inl NotConfigured, db')
      | Inr (True, db') \<Rightarrow> (Inr (), db'))"

definition change_password ::
    "(string \<Rightarrow> string \<Rightarrow> bool) \<Rightarrow> (string \<Rightarrow> string) \<Rightarrow> u64 \<Rightarrow> string auth_result \<Rightarrow> string \<Rightarrow> auth_password_request
       \<Rightarrow> accounts \<Rightarrow> bool auth_result \<times> accounts" where
  "change_password verify hash now encoded token request db =
     (case change_verify verify hash now encoded token request db of
        (Inl e, db1) \<Rightarrow> (Inl e, db1)
      | (Inr (i, h), db1) \<Rightarrow>
        (case change_write now i h db1 of
           (Inl e, db2) \<Rightarrow> (Inl e, db2)
         | (Inr _, db2) \<Rightarrow> (Inr True, snd (revoke_auth_sessions i db2))))"

definition reset_owner_password ::
    "u64 \<Rightarrow> string auth_result \<Rightarrow> string \<Rightarrow> accounts \<Rightarrow> unit auth_result \<times> accounts" where
  "reset_owner_password now encoded password db =
     (case owner db of
        None \<Rightarrow> (Inl NotConfigured, db)
      | Some account \<Rightarrow>
        (case hash_password encoded password of
           Inl e \<Rightarrow> (Inl e, db)
         | Inr h \<Rightarrow>
           (case change_write now (ow_id account) h db of
              (Inl e, db1) \<Rightarrow> (Inl e, db1)
            | (Inr _, db1) \<Rightarrow> (Inr (), snd (revoke_auth_sessions (ow_id account) db1)))))"

definition revoke_sessions_for_owner :: "accounts \<Rightarrow> nat \<times> accounts" where
  "revoke_sessions_for_owner db =
     (case owner db of None \<Rightarrow> (0, db) | Some account \<Rightarrow> revoke_auth_sessions (ow_id account) db)"

text \<open>The bearer token of the \<open>authorization\<close> header.\<close>

definition bearer :: "string option \<Rightarrow> string option" where
  "bearer header =
     Option.bind (Option.bind header (split_once (CHR '' '')))
       (\<lambda>(scheme, token). if eq_ignore_ascii_case scheme ''bearer'' then Some token else None)"

end
