(* ===== verification/SignInRuns.thy ===== *)
theory SignInRuns
  imports SignIn
begin

text \<open>
  Sign-in requests that interleave. Each request runs as the parts between its calls of the store;
  \<open>si_pending\<close> holds the requests in flight, and the ghost \<open>si_proof\<close> records for each
  session the stored password hash its login proved knowledge of.
\<close>

datatype signin_phase = Verified stored_owner | Proved user_id string | Written user_id

record signin =
  si_db :: accounts
  si_pending :: "nat \<Rightarrow> signin_phase option"
  si_proof :: "session_id \<Rightarrow> string option"

definition signin_init :: "signin \<Rightarrow> bool" where
  "signin_init v \<longleftrightarrow>
     si_db v = \<lparr>au_slot = None, au_owners = [], au_sessions = []\<rparr> \<and> si_pending v = (\<lambda>_. None)"

definition simple_requests :: "(string \<Rightarrow> string) \<Rightarrow> accounts \<Rightarrow> accounts set" where
  "simple_requests hash db =
     {snd (session_me hash now token db) | now token. True} \<union> {snd (authenticate hash now token db) | now token. True}
     \<union> {snd (logout hash now token db) | now token. True} \<union> {snd (logout_all hash now token db) | now token. True}
     \<union> {snd (prune_auth_sessions now db) | now. True} \<union> {snd (revoke_sessions_for_owner db)}
     \<union> {snd (initialize_owner i now encoded name password db) | i now encoded name password. True}"

inductive signin_step :: "(string \<Rightarrow> string \<Rightarrow> bool) \<Rightarrow> (string \<Rightarrow> string) \<Rightarrow> signin \<Rightarrow> signin \<Rightarrow> bool" for verify hash where
  login_begin:
    "login_verify verify request (si_db v) = Inr account \<Longrightarrow> si_pending v c = None \<Longrightarrow>
     signin_step verify hash v (v\<lparr>si_pending := (si_pending v)(c := Some (Verified account))\<rparr>)"
| login_end:
    "si_pending v c = Some (Verified account) \<Longrightarrow>
     login_open hash server_id sid did token now account (si_db v) = (r, db') \<Longrightarrow>
     signin_step verify hash v (v\<lparr>si_db := db', si_pending := (si_pending v)(c := None),
       si_proof := (case r of Inl _ \<Rightarrow> si_proof v | Inr _ \<Rightarrow> (si_proof v)(sid \<mapsto> ow_password_hash account))\<rparr>)"
| change_begin:
    "change_verify verify hash now encoded token request (si_db v) = (r, db') \<Longrightarrow> si_pending v c = None \<Longrightarrow>
     signin_step verify hash v (v\<lparr>si_db := db', si_pending := (si_pending v)(c :=
       (case r of Inl _ \<Rightarrow> None | Inr (i, h) \<Rightarrow> Some (Proved i h)))\<rparr>)"
| reset_begin:
    "owner (si_db v) = Some account \<Longrightarrow> hash_password encoded password = Inr h \<Longrightarrow> si_pending v c = None \<Longrightarrow>
     signin_step verify hash v (v\<lparr>si_pending := (si_pending v)(c := Some (Proved (ow_id account) h))\<rparr>)"
| change_middle:
    "si_pending v c = Some (Proved i h) \<Longrightarrow> change_write now i h (si_db v) = (r, db') \<Longrightarrow>
     signin_step verify hash v (v\<lparr>si_db := db', si_pending := (si_pending v)(c :=
       (case r of Inl _ \<Rightarrow> None | Inr _ \<Rightarrow> Some (Written i)))\<rparr>)"
| change_end:
    "si_pending v c = Some (Written i) \<Longrightarrow>
     signin_step verify hash v (v\<lparr>si_db := snd (revoke_auth_sessions i (si_db v)),
       si_pending := (si_pending v)(c := None)\<rparr>)"
| simple:
    "db' \<in> simple_requests hash (si_db v) \<Longrightarrow> signin_step verify hash v (v\<lparr>si_db := db'\<rparr>)"

section \<open>Invariant\<close>

text \<open>Every live session was opened with the password hash in force, unless a password change has
  written its hash and still has to revoke.\<close>

definition proof_current :: "signin \<Rightarrow> stored_auth_session \<Rightarrow> bool" where
  "proof_current v x \<longleftrightarrow>
     (\<exists>account \<in> set (au_owners (si_db v)). ow_id account = ss_owner_id x \<and>
        si_proof v (ss_session_id x) = Some (ow_password_hash account))"

definition signin_ok :: "signin \<Rightarrow> bool" where
  "signin_ok v \<longleftrightarrow>
     distinct (map ow_id (au_owners (si_db v))) \<and> distinct (map ss_session_id (au_sessions (si_db v))) \<and>
     (\<forall>x \<in> set (au_sessions (si_db v)). ss_revoked x \<or> proof_current v x \<or>
        (\<exists>c. si_pending v c = Some (Written (ss_owner_id x))))"

text \<open>The session rows after a request that opens none: some may be gone, some revoked, and the
  rest keep their identity.\<close>

definition shrinks :: "accounts \<Rightarrow> accounts \<Rightarrow> bool" where
  "shrinks db db' \<longleftrightarrow> au_owners db' = au_owners db \<and> au_slot db' = au_slot db \<and>
     (distinct (map ss_session_id (au_sessions db)) \<longrightarrow> distinct (map ss_session_id (au_sessions db'))) \<and>
     (\<forall>x' \<in> set (au_sessions db'). \<not> ss_revoked x' \<longrightarrow>
        (\<exists>x \<in> set (au_sessions db). \<not> ss_revoked x \<and> ss_session_id x = ss_session_id x' \<and>
           ss_owner_id x = ss_owner_id x' \<and> ss_token_hash x = ss_token_hash x' \<and> ss_expires_at x = ss_expires_at x'))"

lemma shrinks_refl [simp, intro]: "shrinks db db"
  by (auto simp: shrinks_def)

lemma shrinks_trans: "shrinks a b \<Longrightarrow> shrinks b c \<Longrightarrow> shrinks a c"
  unfolding shrinks_def by (metis (no_types, lifting))

lemma map_update_where_id: "(\<And>x. f (g x) = f x) \<Longrightarrow> map f (update_where p g xs) = map f xs"
  by (simp add: update_where_def)

lemma shrinks_update:
  assumes "\<And>x. ss_session_id (g x) = ss_session_id x \<and> ss_owner_id (g x) = ss_owner_id x \<and>
      ss_token_hash (g x) = ss_token_hash x \<and> ss_expires_at (g x) = ss_expires_at x \<and> (ss_revoked x \<longrightarrow> ss_revoked (g x))"
  shows "shrinks db (db\<lparr>au_sessions := update_where p g (au_sessions db)\<rparr>)"
proof -
  have "map ss_session_id (update_where p g (au_sessions db)) = map ss_session_id (au_sessions db)"
    using assms by (simp add: map_update_where_id)
  moreover have "\<exists>x \<in> set (au_sessions db). \<not> ss_revoked x \<and> ss_session_id x = ss_session_id x' \<and>
      ss_owner_id x = ss_owner_id x' \<and> ss_token_hash x = ss_token_hash x' \<and> ss_expires_at x = ss_expires_at x'"
    if "x' \<in> set (update_where p g (au_sessions db))" "\<not> ss_revoked x'" for x'
  proof -
    from that(1) obtain x where x: "x \<in> set (au_sessions db)" "x' = (if p x then g x else x)"
      by (auto simp: update_where_def)
    with that(2) assms [of x] show ?thesis by (intro bexI [OF _ x(1)]) (auto split: if_splits)
  qed
  ultimately show ?thesis by (simp add: shrinks_def)
qed

lemma shrinks_prune: "shrinks db (snd (prune_auth_sessions now db))"
  by (auto simp: shrinks_def prune_auth_sessions_def Let_def distinct_map_filter)

lemma shrinks_revoke: "shrinks db (snd (revoke_auth_sessions i db))" "shrinks db (snd (revoke_auth_session j db))"
  by (simp_all add: revoke_auth_sessions_def revoke_auth_session_def shrinks_update)

lemma shrinks_auth_session: "shrinks db (snd (auth_session h now db))"
  by (simp add: auth_session_def shrinks_update split: option.split)

lemma auth_session_SomeD:
  assumes "auth_session h now db = (Some x, db')"
  shows "\<exists>y \<in> set (au_sessions db). ss_session_id y = ss_session_id x \<and> ss_owner_id y = ss_owner_id x \<and>
    ss_token_hash y = h \<and> session_live now y" "shrinks db db'"
proof -
  show "shrinks db db'" using shrinks_auth_session [of db h now] assms by simp
  from assms obtain y where y: "find (\<lambda>x. ss_token_hash x = h \<and> session_live now x) (au_sessions db) = Some y"
    "ss_session_id x = ss_session_id y" "ss_owner_id x = ss_owner_id y"
    by (auto simp: auth_session_def split: option.splits)
  then show "\<exists>y \<in> set (au_sessions db). ss_session_id y = ss_session_id x \<and> ss_owner_id y = ss_owner_id x \<and>
    ss_token_hash y = h \<and> session_live now y"
    by (intro bexI [of _ y]) (auto dest: find_SomeD)
qed

section \<open>Every step keeps the invariant\<close>

lemma signin_ok_shrinks:
  assumes "signin_ok v" "shrinks (si_db v) db'"
    and "\<And>c i. si_pending v c = Some (Written i) \<Longrightarrow> p c = Some (Written i)"
  shows "signin_ok (v\<lparr>si_db := db', si_pending := p\<rparr>)"
proof -
  let ?v = "v\<lparr>si_db := db', si_pending := p\<rparr>"
  have "ss_revoked x' \<or> proof_current ?v x' \<or> (\<exists>c. p c = Some (Written (ss_owner_id x')))"
    if x': "x' \<in> set (au_sessions db')" for x'
  proof (cases "ss_revoked x'")
    case False
    with assms(2) x' obtain x where x: "x \<in> set (au_sessions (si_db v))" "\<not> ss_revoked x"
      "ss_session_id x = ss_session_id x'" "ss_owner_id x = ss_owner_id x'"
      unfolding shrinks_def by blast
    with assms(1) have "proof_current v x \<or> (\<exists>c. si_pending v c = Some (Written (ss_owner_id x)))"
      by (auto simp: signin_ok_def)
    moreover have "proof_current ?v x'" if "proof_current v x"
      using that x(3,4) assms(2) by (simp add: proof_current_def shrinks_def)
    ultimately show ?thesis using x(4) assms(3) by metis
  qed simp
  with assms(1,2) show ?thesis by (simp add: signin_ok_def shrinks_def)
qed

lemma signin_ok_pending:
  assumes "signin_ok v" "\<And>i. si_pending v c \<noteq> Some (Written i)"
  shows "signin_ok (v\<lparr>si_pending := (si_pending v)(c := x)\<rparr>)"
proof -
  have "si_pending v k = Some (Written i) \<Longrightarrow> ((si_pending v)(c := x)) k = Some (Written i)" for k i
    using assms(2) by auto
  from signin_ok_shrinks [where p = "(si_pending v)(c := x)", OF assms(1) shrinks_refl this] show ?thesis by simp
qed

lemma signin_ok_session:
  "signin_ok v \<Longrightarrow> x \<in> set (au_sessions (si_db v)) \<Longrightarrow>
   ss_revoked x \<or> proof_current v x \<or> (\<exists>c. si_pending v c = Some (Written (ss_owner_id x)))"
  by (simp add: signin_ok_def)

lemma update_first_other: "x \<in> set xs \<Longrightarrow> \<not> p x \<Longrightarrow> x \<in> set (update_first p f xs)"
  by (induction xs) auto

lemma signin_ok_owners:
  assumes "signin_ok v" "set (au_owners (si_db v)) \<subseteq> set owners" "distinct (map ow_id owners)"
  shows "signin_ok (v\<lparr>si_db := (si_db v)\<lparr>au_slot := slot, au_owners := owners\<rparr>\<rparr>)"
proof -
  have "proof_current (v\<lparr>si_db := (si_db v)\<lparr>au_slot := slot, au_owners := owners\<rparr>\<rparr>) x" if "proof_current v x" for x
    using that assms(2) by (auto simp: proof_current_def)
  with assms(1,3) show ?thesis by (auto simp: signin_ok_def)
qed

lemma create_owner_ok:
  assumes "signin_ok v" "create_owner i name h now (si_db v) = Inr (b, db')"
  shows "signin_ok (v\<lparr>si_db := db'\<rparr>)"
proof (cases b)
  case True
  with assms(2) have db': "i \<notin> set (map ow_id (au_owners (si_db v)))"
    "db' = (si_db v)\<lparr>au_slot := Some i, au_owners := au_owners (si_db v) @ [\<lparr>ow_id = i, ow_username = name,
       ow_password_hash = h, ow_created_at = now, ow_password_changed_at = now\<rparr>]\<rparr>"
    by (auto simp: create_owner_def list_ex_iff split: if_splits)
  from db'(1) assms(1) show ?thesis unfolding db'(2)
    by (intro signin_ok_owners) (auto simp: signin_ok_def)
next
  case False
  with assms(2) have "db' = si_db v" by (auto simp: create_owner_def split: if_splits)
  with assms(1) show ?thesis by simp
qed

lemma initialize_owner_ok: "signin_ok v \<Longrightarrow> signin_ok (v\<lparr>si_db := snd (initialize_owner i now encoded name password (si_db v))\<rparr>)"
  using create_owner_ok
  by (fastforce simp: initialize_owner_def split: sum.split prod.split bool.split)

lemma shrinks_session_owner: "shrinks db (snd (session_owner hash now token db))"
  using shrinks_auth_session [of db "hash token" now]
  by (auto simp: session_owner_def split: prod.splits option.splits)

lemma shrinks_requests:
  "shrinks db (snd (session_me hash now token db))" "shrinks db (snd (authenticate hash now token db))"
  "shrinks db (snd (revoke_sessions_for_owner db))" "shrinks db (snd (change_verify verify hash now encoded token rq db))"
  using shrinks_session_owner [of db hash now token] shrinks_auth_session [of db "hash token" now] shrinks_revoke(1)
  by (auto simp: session_me_def authenticate_def revoke_sessions_for_owner_def change_verify_def
      split: prod.splits option.splits sum.splits if_splits)

lemma shrinks_logout:
  "shrinks db (snd (logout hash now token db))" "shrinks db (snd (logout_all hash now token db))"
  using shrinks_auth_session [of db "hash token" now] shrinks_trans [OF _ shrinks_revoke(1)] shrinks_trans [OF _ shrinks_revoke(2)]
  by (auto simp: logout_def logout_all_def split: prod.splits option.splits)

lemma simple_requests_ok:
  assumes "signin_ok v" "db' \<in> simple_requests hash (si_db v)"
  shows "signin_ok (v\<lparr>si_db := db'\<rparr>)"
proof -
  consider "shrinks (si_db v) db'" | i now encoded name password where
      "db' = snd (initialize_owner i now encoded name password (si_db v))"
    using assms(2) unfolding simple_requests_def
    by (auto simp: shrinks_requests shrinks_logout shrinks_prune)
  then show ?thesis
  proof cases
    case 1
    from signin_ok_shrinks [OF assms(1) 1, of "si_pending v"] show ?thesis by simp
  qed (simp add: assms(1) initialize_owner_ok)
qed

lemma login_open_ok:
  assumes ok: "signin_ok v" and o: "login_open hash sv sid did token now account (si_db v) = (Inr answer, db')"
    and w: "\<And>c i. si_pending v c = Some (Written i) \<Longrightarrow> p c = Some (Written i)"
  shows "signin_ok (v\<lparr>si_db := db', si_pending := p, si_proof := (si_proof v)(sid \<mapsto> ow_password_hash account)\<rparr>)"
    (is "signin_ok ?v")
proof -
  let ?x = "new_session sid did (hash token) now account"
  let ?ss = "au_sessions (si_db v)"
  have sid [simp]: "ss_session_id ?x = sid" "ss_owner_id ?x = ow_id account" by (simp_all add: new_session_def)
  from o have db': "db' = (si_db v)\<lparr>au_sessions := ?ss @ [?x]\<rparr>"
    and here: "\<exists>y \<in> set (au_owners (si_db v)). ow_id y = ow_id account \<and> ow_password_hash y = ow_password_hash account"
    and new: "\<forall>y \<in> set ?ss. ss_session_id y \<noteq> sid"
    by (auto simp: login_open_def insert_auth_session_if_owner_hash_def Let_def list_ex_iff
        split: sum.splits bool.splits if_splits)
  have "ss_revoked x \<or> proof_current ?v x \<or> (\<exists>c. p c = Some (Written (ss_owner_id x)))"
    if "x \<in> set ?ss" for x
  proof -
    have "proof_current ?v x" if "proof_current v x"
      using that new \<open>x \<in> set ?ss\<close> by (auto simp: proof_current_def db')
    with signin_ok_session [OF ok that] w show ?thesis by blast
  qed
  moreover have "proof_current ?v ?x" using here by (auto simp: proof_current_def db')
  moreover from ok new have "distinct (map ss_session_id (?ss @ [?x]))" by (auto simp: signin_ok_def)
  ultimately show ?thesis using ok by (simp add: signin_ok_def db')
qed

lemma login_open_refused: "login_open hash sv sid did token now account db = (Inl e, db') \<Longrightarrow> db' = db"
  by (auto simp: login_open_def insert_auth_session_if_owner_hash_def Let_def split: sum.splits bool.splits if_splits)

lemma change_write_ok:
  assumes ok: "signin_ok v" and o: "change_write now i h (si_db v) = (Inr u, db')"
    and w: "\<And>c j. si_pending v c = Some (Written j) \<Longrightarrow> p c = Some (Written j)" and i: "p c = Some (Written i)"
  shows "signin_ok (v\<lparr>si_db := db', si_pending := p\<rparr>)" (is "signin_ok ?v")
proof -
  let ?f = "\<lambda>x. x\<lparr>ow_password_hash := h, ow_password_changed_at := now\<rparr>"
  from o have db': "db' = (si_db v)\<lparr>au_owners := update_first (\<lambda>x. ow_id x = i) ?f (au_owners (si_db v))\<rparr>"
    by (auto simp: change_write_def update_owner_password_def split: sum.splits bool.splits if_splits)
  have "ss_revoked x \<or> proof_current ?v x \<or> (\<exists>c. p c = Some (Written (ss_owner_id x)))"
    if x: "x \<in> set (au_sessions (si_db v))" for x
  proof (cases "ss_owner_id x = i")
    case False
    have "proof_current ?v x" if "proof_current v x"
      using that False unfolding proof_current_def db'
      by (auto intro!: bexI [OF _ update_first_other [where p = "\<lambda>x. ow_id x = i" and f = ?f]])
    with signin_ok_session [OF ok x] w show ?thesis by blast
  qed (use i in blast)
  moreover have "map ow_id (au_owners db') = map ow_id (au_owners (si_db v))"
    by (simp add: db' map_update_first)
  ultimately show ?thesis using ok by (simp add: signin_ok_def db')
qed

lemma change_write_refused:
  assumes "change_write now i h db = (Inl e, db')" shows "db' = db"
proof -
  have "update_first p f xs = xs" if "\<not> any p xs" for p f and xs :: "stored_owner list"
    using that by (induction xs) auto
  with assms show ?thesis
    by (auto simp: change_write_def update_owner_password_def split: sum.splits bool.splits if_splits)
qed

lemma revoke_ok:
  assumes ok: "signin_ok v" and i: "si_pending v c = Some (Written i)"
  shows "signin_ok (v\<lparr>si_db := snd (revoke_auth_sessions i (si_db v)), si_pending := (si_pending v)(c := None)\<rparr>)"
proof -
  let ?u = "update_where (\<lambda>x. ss_owner_id x = i \<and> \<not> ss_revoked x) (\<lambda>x. x\<lparr>ss_revoked := True\<rparr>) (au_sessions (si_db v))"
  have "ss_revoked x' \<or> proof_current v x' \<or> (\<exists>k. ((si_pending v)(c := None)) k = Some (Written (ss_owner_id x')))"
    if "x' \<in> set ?u" for x'
  proof (cases "ss_revoked x'")
    case False
    from that obtain y where "y \<in> set (au_sessions (si_db v))"
      "x' = (if ss_owner_id y = i \<and> \<not> ss_revoked y then y\<lparr>ss_revoked := True\<rparr> else y)"
      unfolding update_where_def by (simp only: set_map image_iff) blast
    with False have x: "x' \<in> set (au_sessions (si_db v))" "ss_owner_id x' \<noteq> i"
      by (cases "ss_owner_id y = i \<and> \<not> ss_revoked y", simp, simp)+
    from signin_ok_session [OF ok x(1)] False
    have "proof_current v x' \<or> (\<exists>k. si_pending v k = Some (Written (ss_owner_id x')))" by simp
    moreover have "((si_pending v)(c := None)) k = si_pending v k" if "si_pending v k = Some (Written (ss_owner_id x'))" for k
      using that x(2) i by auto
    ultimately show ?thesis by metis
  qed simp
  then show ?thesis using ok
    by (simp add: signin_ok_def revoke_auth_sessions_def proof_current_def map_update_where_id)
qed

lemma signin_step_ok:
  assumes "signin_step verify hash v v'" "signin_ok v"
  shows "signin_ok v'"
  using assms
proof (cases rule: signin_step.cases)
  case (login_begin request account c)
  with signin_ok_pending [OF assms(2), of c "Some (Verified account)"] show ?thesis by simp
next
  case (login_end c account sv sid did token now r db')
  have w: "\<And>k i. si_pending v k = Some (Written i) \<Longrightarrow> ((si_pending v)(c := None)) k = Some (Written i)"
    using login_end(2) by auto
  show ?thesis
  proof (cases r)
    case (Inl e)
    with login_end(3) login_open_refused have "db' = si_db v" by blast
    with login_end(1,2) Inl signin_ok_pending [OF assms(2), of c None] show ?thesis by simp
  next
    case (Inr answer)
    with login_end login_open_ok [where p = "(si_pending v)(c := None)", OF assms(2) _ w, of hash sv sid did token now account answer db'] show ?thesis by simp
  qed
next
  case (change_begin now encoded token request r db' c)
  with shrinks_requests(4) [of "si_db v" verify hash now encoded token request] have "shrinks (si_db v) db'" by simp
  from signin_ok_shrinks [OF assms(2) this, of "si_pending v"] have "signin_ok (v\<lparr>si_db := db'\<rparr>)" by simp
  from signin_ok_pending [OF this, of c] change_begin show ?thesis by simp
next
  case (reset_begin account encoded password h c)
  with signin_ok_pending [OF assms(2), of c "Some (Proved (ow_id account) h)"] show ?thesis by simp
next
  case (change_middle c i h now r db')
  show ?thesis
  proof (cases r)
    case (Inl e)
    with change_middle(3) change_write_refused have "db' = si_db v" by blast
    with change_middle(1,2) Inl signin_ok_pending [OF assms(2), of c None] show ?thesis by simp
  next
    case (Inr u)
    have w: "si_pending v k = Some (Written j) \<Longrightarrow> ((si_pending v)(c := Some (Written i))) k = Some (Written j)" for k j
      using change_middle(2) by auto
    from Inr change_middle change_write_ok [where p = "(si_pending v)(c := Some (Written i))" and c = c, OF assms(2) _ w]
    show ?thesis by simp
  qed
next
  case (change_end c i)
  with revoke_ok [OF assms(2)] show ?thesis by simp
next
  case (simple db')
  with simple_requests_ok [OF assms(2)] show ?thesis by simp
qed

interpretation signing_in: invariant_system signin_init "signin_step verify hash" signin_ok
proof
  show "signin_ok v" if "signin_init v" for v using that by (simp add: signin_init_def signin_ok_def)
  show "signin_ok v'" if "signin_ok v" "signin_step verify hash v v'" for v v' using signin_step_ok that by blast
qed

end
