(* ===== verification/RateLimit.thy ===== *)
theory RateLimit
  imports SignIn
begin

text \<open>
  What the login rate limit bounds. A fixed window lets a burst end one window and open the next,
  so the count over any 60 seconds is bounded by twice the limit.
\<close>

section \<open>One window\<close>

definition burst_ok :: "nat \<Rightarrow> nat list \<Rightarrow> bool" where
  "burst_ok limit H \<longleftrightarrow> (\<forall>t. length (filter (\<lambda>x. t \<le> x \<and> x < t + 60) H) \<le> 2 * limit)"

text \<open>\<open>H\<close> holds the times of the attempts let through, \<open>now\<close> is the last reading of the clock.\<close>

definition window_ok :: "nat \<Rightarrow> nat list \<Rightarrow> nat \<Rightarrow> rate_window \<Rightarrow> bool" where
  "window_ok limit H now w \<longleftrightarrow>
     (let s = unat (rw_started_at w) in
      s \<le> now \<and> unat (rw_attempts w) \<le> limit \<and> (\<forall>x \<in> set H. x \<le> now \<and> x < s + 60) \<and>
      length (filter (\<lambda>x. s \<le> x) H) \<le> unat (rw_attempts w) \<and>
      (\<forall>t. s < t + 60 \<longrightarrow> length (filter (\<lambda>x. t \<le> x \<and> x < s) H) \<le> limit) \<and> burst_ok limit H)"

definition old_ok :: "nat \<Rightarrow> nat list \<Rightarrow> nat \<Rightarrow> bool" where
  "old_ok limit H now \<longleftrightarrow> (\<forall>x \<in> set H. x + 60 \<le> now) \<and> burst_ok limit H"

lemma length_filter_le_imp: "(\<And>x. x \<in> set xs \<Longrightarrow> p x \<Longrightarrow> q x) \<Longrightarrow> length (filter p xs) \<le> length (filter q xs)"
  by (induction xs) auto

lemma length_filter_add: "(\<And>x. x \<in> set xs \<Longrightarrow> p x \<Longrightarrow> q x \<or> r x) \<Longrightarrow>
    length (filter p xs) \<le> length (filter q xs) + length (filter r xs)"
  by (induction xs) (auto simp: le_SucI)

lemma filter_none: "(\<And>x. x \<in> set xs \<Longrightarrow> \<not> p x) \<Longrightarrow> length (filter p xs) = 0"
  by simp

lemma unat_saturating_sub: "unat (saturating_sub a (b :: u64)) = unat a - unat b"
  by (auto simp: saturating_sub_def word_less_nat_alt unat_sub_if' unat_sub word_le_nat_alt)

lemma rate_window_nat: "RATE_WINDOW_SECONDS \<le> saturating_sub a b \<longleftrightarrow> 60 \<le> unat a - unat b"
  "saturating_sub a b < RATE_WINDOW_SECONDS * 2 \<longleftrightarrow> unat a - unat b < 120"
  by (simp_all add: RATE_WINDOW_SECONDS_def word_le_nat_alt word_less_nat_alt unat_saturating_sub)

lemma refresh_cases:
  assumes "60 \<le> unat now"
  shows "refresh_window now w = (if 60 \<le> unat now - unat (rw_started_at w)
    then \<lparr>rw_started_at = now, rw_attempts = 0\<rparr> else w)"
proof -
  have "now \<noteq> 0" using assms by auto
  moreover have "unat now - unat (rw_started_at w) \<ge> 60" if "rw_started_at w = 0" using that assms by simp
  ultimately show ?thesis by (auto simp: refresh_window_def rate_window_nat)
qed

lemma window_restart:
  assumes "burst_ok limit H" "\<And>x. x \<in> set H \<Longrightarrow> x < unat now"
    and "\<And>t. unat now < t + 60 \<Longrightarrow> length (filter (\<lambda>x. t \<le> x) H) \<le> limit"
  shows "window_ok limit H (unat now) \<lparr>rw_started_at = now, rw_attempts = 0\<rparr>"
proof -
  have "length (filter (\<lambda>x. t \<le> x \<and> x < unat now) H) \<le> limit" if "unat now < t + 60" for t
    using assms(3) [OF that] length_filter_le_imp [of H "\<lambda>x. t \<le> x \<and> x < unat now" "\<lambda>x. t \<le> x"] by linarith
  moreover have "length (filter (\<lambda>x. unat now \<le> x) H) = 0"
    using assms(2) by (intro filter_none) (meson not_less)
  moreover have "\<forall>x \<in> set H. x \<le> unat now \<and> x < unat now + 60" using assms(2) by fastforce
  ultimately show ?thesis using assms(1) by (simp add: window_ok_def)
qed

lemma window_refresh:
  assumes ok: "window_ok limit H n0 w" and "n0 \<le> unat now" "60 \<le> unat now"
  shows "window_ok limit H (unat now) (refresh_window now w)"
    "unat now < unat (rw_started_at (refresh_window now w)) + 60"
proof -
  let ?s = "unat (rw_started_at w)"
  have old: "x \<le> n0" "x < ?s + 60" if "x \<in> set H" for x
    using ok that by (auto simp: window_ok_def Let_def)
  show "unat now < unat (rw_started_at (refresh_window now w)) + 60"
    using assms(3) by (simp add: refresh_cases) linarith
  show "window_ok limit H (unat now) (refresh_window now w)"
  proof (cases "60 \<le> unat now - ?s")
    case True
    have "window_ok limit H (unat now) \<lparr>rw_started_at = now, rw_attempts = 0\<rparr>"
    proof (rule window_restart)
      show "burst_ok limit H" using ok by (simp add: window_ok_def Let_def)
      show "x < unat now" if "x \<in> set H" for x using old(2) [OF that] True by linarith
      show "length (filter (\<lambda>x. t \<le> x) H) \<le> limit" if "unat now < t + 60" for t
      proof -
        have "length (filter (\<lambda>x. t \<le> x) H) \<le> length (filter (\<lambda>x. ?s \<le> x) H)"
          using that True by (intro length_filter_le_imp) linarith
        then show ?thesis using ok by (simp add: window_ok_def Let_def)
      qed
    qed
    with True assms(3) show ?thesis by (simp add: refresh_cases)
  next
    case False
    with ok assms old(1) show ?thesis by (fastforce simp: refresh_cases window_ok_def Let_def)
  qed
qed

lemma window_fresh:
  assumes "old_ok limit H n0" "n0 \<le> unat now" "60 \<le> unat now"
  shows "window_ok limit H (unat now) (refresh_window now window_default)"
    "unat now < unat (rw_started_at (refresh_window now window_default)) + 60"
proof -
  have "window_ok limit H (unat now) \<lparr>rw_started_at = now, rw_attempts = 0\<rparr>"
  proof (rule window_restart)
    show "burst_ok limit H" using assms(1) by (simp add: old_ok_def)
    show "x < unat now" if "x \<in> set H" for x using assms(1,2) that by (fastforce simp: old_ok_def)
    have "length (filter (\<lambda>x. t \<le> x) H) = 0" if "unat now < t + 60" for t
      using assms(1,2) that by (intro filter_none) (fastforce simp: old_ok_def)
    then show "length (filter (\<lambda>x. t \<le> x) H) \<le> limit" if "unat now < t + 60" for t using that by simp
  qed
  then show "window_ok limit H (unat now) (refresh_window now window_default)"
    "unat now < unat (rw_started_at (refresh_window now window_default)) + 60"
    using assms(3) by (simp_all add: refresh_cases window_default_def)
qed

lemma window_count:
  assumes ok: "window_ok limit H now w" and "now < unat (rw_started_at w) + 60" "unat (rw_attempts w) < limit"
    "limit < 2 ^ 32"
  shows "window_ok limit (now # H) now (w\<lparr>rw_attempts := saturating_add (rw_attempts w) 1\<rparr>)"
proof -
  let ?s = "unat (rw_started_at w)" and ?n = "unat (rw_attempts w)"
  from ok have s: "?s \<le> now" "length (filter (\<lambda>x. ?s \<le> x) H) \<le> ?n"
    and prev: "\<And>t. ?s < t + 60 \<Longrightarrow> length (filter (\<lambda>x. t \<le> x \<and> x < ?s) H) \<le> limit"
    and burst: "burst_ok limit H"
    by (auto simp: window_ok_def Let_def)
  have n: "unat (saturating_add (rw_attempts w) 1) = ?n + 1"
    using assms(3,4) by (simp add: unat_saturating_add)
  have "length (filter (\<lambda>x. t \<le> x \<and> x < t + 60) (now # H)) \<le> 2 * limit" for t
  proof (cases "t \<le> now \<and> now < t + 60")
    case True
    have "length (filter (\<lambda>x. t \<le> x \<and> x < t + 60) H) \<le>
        length (filter (\<lambda>x. t \<le> x \<and> x < ?s) H) + length (filter (\<lambda>x. ?s \<le> x) H)"
      by (rule length_filter_add) auto
    also have "\<dots> \<le> limit + ?n" using prev [of t] s True by linarith
    finally show ?thesis using True assms(3) by simp
  next
    case False
    with burst show ?thesis by (auto simp: burst_ok_def)
  qed
  then have "burst_ok limit (now # H)" by (simp add: burst_ok_def)
  with ok n s assms(2,3) show ?thesis by (simp add: window_ok_def Let_def)
qed

section \<open>The limiter\<close>

text \<open>A sequence of attempts \<open>(time, address)\<close> and those let through, the last one first.\<close>

fun let_through :: "(u64 \<times> string) list \<Rightarrow> (u64 \<times> string) list \<times> rate_state \<Rightarrow> (u64 \<times> string) list \<times> rate_state" where
  "let_through [] r = r"
| "let_through ((now, ip) # xs) (H, st) =
     (case allow_attempt now ip st of
        (Inl _, st') \<Rightarrow> let_through xs (H, st')
      | (Inr _, st') \<Rightarrow> let_through xs ((now, ip) # H, st'))"

definition times_of :: "string \<Rightarrow> (u64 \<times> string) list \<Rightarrow> nat list" where
  "times_of ip H = map (\<lambda>x. unat (fst x)) (filter (\<lambda>(_, k). k = ip) H)"

definition ip_ok :: "(u64 \<times> string) list \<Rightarrow> nat \<Rightarrow> string \<Rightarrow> rate_window option \<Rightarrow> bool" where
  "ip_ok H now ip w \<longleftrightarrow>
     (case w of None \<Rightarrow> old_ok 10 (times_of ip H) now | Some w \<Rightarrow> window_ok 10 (times_of ip H) now w)"

definition rate_ok :: "(u64 \<times> string) list \<Rightarrow> nat \<Rightarrow> rate_state \<Rightarrow> bool" where
  "rate_ok H now st \<longleftrightarrow> distinct (map fst (ra_by_ip st)) \<and>
     window_ok 100 (map (\<lambda>x. unat (fst x)) H) now (ra_global st) \<and>
     (\<forall>ip. ip_ok H now ip (map_of (ra_by_ip st) ip))"

lemma window_later: "window_ok limit H n w \<Longrightarrow> n \<le> m \<Longrightarrow> window_ok limit H m w"
  by (fastforce simp: window_ok_def Let_def)

lemma ip_later: "ip_ok H n ip w \<Longrightarrow> n \<le> m \<Longrightarrow> ip_ok H m ip w"
  unfolding ip_ok_def old_ok_def by (fastforce split: option.splits intro: window_later)

lemma ip_refresh:
  assumes "ip_ok H n ip w" "n \<le> unat now" "60 \<le> unat now"
  defines "w' \<equiv> refresh_window now (case w of None \<Rightarrow> window_default | Some w \<Rightarrow> w)"
  shows "window_ok 10 (times_of ip H) (unat now) w'" "unat now < unat (rw_started_at w') + 60"
  using assms window_fresh [of 10 "times_of ip H" n now] window_refresh [of 10 "times_of ip H" n _ now]
  by (auto simp: ip_ok_def split: option.splits)

lemma ip_forget:
  assumes "window_ok limit H now w" "120 \<le> now - unat (rw_started_at w)"
  shows "old_ok limit H now"
  using assms by (fastforce simp: old_ok_def window_ok_def Let_def)

lemma times_of_Cons: "times_of ip ((now, k) # H) = (if k = ip then unat now # times_of ip H else times_of ip H)"
  by (simp add: times_of_def)

lemma map_of_retain:
  "distinct (map fst xs) \<Longrightarrow>
   map_of (filter (\<lambda>(k, x). p x) xs) k = (case map_of xs k of None \<Rightarrow> None | Some x \<Rightarrow> if p x then Some x else None)"
  by (induction xs) (auto split: option.splits dest: map_of_SomeD simp: map_of_eq_None_iff image_iff)

lemma ip_retain:
  assumes "distinct (map fst T)" "ip_ok H (unat now) k (map_of T k)"
  shows "ip_ok H (unat now) k (map_of (filter (\<lambda>(k, x). saturating_sub now (rw_started_at x) < RATE_WINDOW_SECONDS * 2) T) k)"
  unfolding map_of_retain [OF assms(1)]
  using assms(2) ip_forget [of 10 "times_of k H" "unat now"]
  by (auto simp: rate_window_nat ip_ok_def not_less split: option.splits)

lemma limits_nat: "PER_IP_ATTEMPT_LIMIT \<le> a \<longleftrightarrow> 10 \<le> unat a" "GLOBAL_ATTEMPT_LIMIT \<le> a \<longleftrightarrow> 100 \<le> unat a"
  by (simp_all add: PER_IP_ATTEMPT_LIMIT_def GLOBAL_ATTEMPT_LIMIT_def word_le_nat_alt)

lemma allow_attempt_refused:
  assumes ok: "rate_ok H n st" and t: "n \<le> unat now" "60 \<le> unat now" and r: "allow_attempt now ip st = (Inl e, st')"
  shows "rate_ok H (unat now) st'"
proof -
  let ?w = "refresh_window now (case map_of (ra_by_ip st) ip of None \<Rightarrow> window_default | Some w \<Rightarrow> w)"
  from r have st': "st' = st\<lparr>ra_by_ip := AList.update ip ?w (ra_by_ip st), ra_global := refresh_window now (ra_global st)\<rparr>"
    by (auto simp: allow_attempt_def Let_def split: if_splits)
  have here: "ip_ok H n k (map_of (ra_by_ip st) k)" for k using ok by (simp add: rate_ok_def)
  from ip_refresh(1) [OF here t, of ip] have "ip_ok H (unat now) ip (Some ?w)" by (simp add: ip_ok_def)
  moreover from ok t window_refresh(1) have "window_ok 100 (map (\<lambda>x. unat (fst x)) H) (unat now) (refresh_window now (ra_global st))"
    by (auto simp: rate_ok_def)
  ultimately show ?thesis
    using ok ip_later [OF here t(1)] by (simp add: rate_ok_def st' update_conv AList.distinct_update)
qed

lemma allow_attempt_allowed:
  assumes ok: "rate_ok H n st" and t: "n \<le> unat now" "60 \<le> unat now" and r: "allow_attempt now ip st = (Inr u, st')"
  shows "rate_ok ((now, ip) # H) (unat now) st'"
proof -
  let ?w = "refresh_window now (case map_of (ra_by_ip st) ip of None \<Rightarrow> window_default | Some w \<Rightarrow> w)"
  let ?g = "refresh_window now (ra_global st)"
  let ?up = "\<lambda>w. w\<lparr>rw_attempts := saturating_add (rw_attempts w) 1\<rparr>"
  let ?table = "AList.update ip (?up ?w) (AList.update ip ?w (ra_by_ip st))"
  from r have room: "unat (rw_attempts ?w) < 10" "unat (rw_attempts ?g) < 100"
    and st': "st' = st\<lparr>ra_by_ip := filter (\<lambda>(k, x). saturating_sub now (rw_started_at x) < RATE_WINDOW_SECONDS * 2) ?table,
       ra_global := ?up ?g\<rparr>"
    by (auto simp: allow_attempt_def Let_def limits_nat split: if_splits)
  have here: "ip_ok H n k (map_of (ra_by_ip st) k)" for k using ok by (simp add: rate_ok_def)
  from window_count [OF ip_refresh [OF here t] room(1)]
  have mine: "ip_ok ((now, ip) # H) (unat now) ip (Some (?up ?w))" by (simp add: ip_ok_def times_of_Cons)
  from ok have "window_ok 100 (map (\<lambda>x. unat (fst x)) H) n (ra_global st)" by (simp add: rate_ok_def)
  from window_count [OF window_refresh [OF this t] room(2)]
  have "window_ok 100 (map (\<lambda>x. unat (fst x)) ((now, ip) # H)) (unat now) (?up ?g)" by simp
  moreover have dist: "distinct (map fst ?table)" using ok by (simp add: rate_ok_def AList.distinct_update)
  moreover have "ip_ok ((now, ip) # H) (unat now) k (map_of ?table k)" for k
    using mine ip_later [OF here t(1), of k]
    by (cases "k = ip") (auto simp: update_conv ip_ok_def times_of_Cons split: option.splits)
  from ip_retain [OF dist this] have "ip_ok ((now, ip) # H) (unat now) k (map_of (ra_by_ip st') k)" for k
    by (simp add: st')
  ultimately show ?thesis by (simp add: rate_ok_def st' distinct_map_filter)
qed

lemma let_through_ok:
  assumes "rate_ok H n st" "sorted (n # map (\<lambda>x. unat (fst x)) xs)" "\<forall>x \<in> set xs. 60 \<le> unat (fst x)"
    and "let_through xs (H, st) = (H', st')"
  shows "\<exists>m. rate_ok H' m st'"
  using assms
proof (induction xs arbitrary: H n st)
  case (Cons x xs)
  obtain now ip where x: "x = (now, ip)" by (cases x)
  from Cons.prems have t: "n \<le> unat now" "60 \<le> unat now" "sorted (unat now # map (\<lambda>x. unat (fst x)) xs)" by (auto simp: x)
  obtain r st1 where a: "allow_attempt now ip st = (r, st1)" by (cases "allow_attempt now ip st")
  show ?case
  proof (cases r)
    case (Inl e)
    from Cons.IH [OF allow_attempt_refused [OF Cons.prems(1) t(1,2) a [unfolded Inl]] t(3)] Cons.prems(3,4) a Inl
    show ?thesis by (simp add: x)
  next
    case (Inr u)
    from Cons.IH [OF allow_attempt_allowed [OF Cons.prems(1) t(1,2) a [unfolded Inr]] t(3)] Cons.prems(3,4) a Inr
    show ?thesis by (simp add: x)
  qed
qed auto

lemma rate_default_ok: "rate_ok [] 0 rate_default"
  by (simp add: rate_ok_def rate_default_def window_ok_def window_default_def ip_ok_def old_ok_def burst_ok_def times_of_def)

lemma rate_ok_burst: "rate_ok H n st \<Longrightarrow> burst_ok 10 (times_of ip H) \<and> burst_ok 100 (map (\<lambda>x. unat (fst x)) H)"
  by (cases "map_of (ra_by_ip st) ip")
    (auto simp: rate_ok_def ip_ok_def old_ok_def window_ok_def Let_def dest!: spec [of _ ip])

end
