(* ===== verification/AgentScope.thy ===== *)
theory AgentScope
  imports Orchestrator "HOL-Library.AList"
begin

text \<open>
  What a provider session may see and do: the task-scoped projection of a snapshot
  (\<open>frank-protocol/src/snapshot_scope.rs\<close>), the registry of agent capabilities
  (\<open>frank-orchestrator/src/capability.rs\<close>) and the checks of the transport boundary
  (\<open>frank-server/src/auth.rs\<close>, \<open>routes/commands.rs\<close>).

  The random tokens and the header text (crates \<open>getrandom\<close>, \<open>http\<close>) are arguments;
  so is the outcome of a write whose error the source drops (\<open>let _ = \<dots>\<close>). The registry is a
  hash map: an association list with distinct keys.
\<close>

section \<open>Projection of a snapshot to one task\<close>

definition scope_project :: "project_view \<Rightarrow> project_view" where
  "scope_project p = p\<lparr>p_path := [], p_remote := None, p_worktree_root := []\<rparr>"

definition scope_mission :: "mission_view \<Rightarrow> mission_view" where
  "scope_mission m = m\<lparr>m_supervisor_session_id := None, m_branch := [], m_budget := budget_unlimited\<rparr>"

definition only_caller :: "agent_id \<Rightarrow> agent_id option \<Rightarrow> agent_id option" where
  "only_caller caller x = (if x = Some caller then x else None)"

definition scope_task :: "agent_id \<Rightarrow> task_view \<Rightarrow> task_view" where
  "scope_task caller t = t\<lparr>t_dependencies := [], t_required_role_id := None,
     t_assigned_agent := only_caller caller (t_assigned_agent t),
     t_reviewer_agent := only_caller caller (t_reviewer_agent t),
     t_worktree := None, t_workflow_id := None, t_parent_task_id := None, t_child_task_ids := [],
     t_active_role_node_id := None, t_organization_revision := None\<rparr>"

definition scope_agent :: "agent_view \<Rightarrow> agent_view" where
  "scope_agent a = a\<lparr>a_role_id := None, a_role_revision := 0, a_model_override := None,
     a_pending_model_override := None, a_pending_model_change := False, a_instructions := [],
     a_policy := policy_default, a_budget := budget_unlimited, a_provider_session_id := None,
     a_last_claimed_at := None\<rparr>"

definition scope_taskboard :: "taskboard_view \<Rightarrow> taskboard_view" where
  "scope_taskboard b = b\<lparr>b_project_id := None, b_workflow_id := None, b_default_role_id := None\<rparr>"

definition supervisor_ids :: "agent_view list \<Rightarrow> agent_id list" where
  "supervisor_ids agents = map a_id (filter (\<lambda>a. a_display_name a = ''Frank supervisor'') agents)"

text \<open>\<open>oid\<close> is the id the empty organization of \<open>Snapshot::empty\<close> draws.\<close>

definition project_task_scope ::
    "env \<Rightarrow> organization_id \<Rightarrow> 'z snapshot_scheme \<Rightarrow> task_id \<Rightarrow> agent_id \<Rightarrow> snapshot option" where
  "project_task_scope env oid s task_id caller =
     (case find_task task_id (s_tasks s) of
        None \<Rightarrow> None
      | Some task \<Rightarrow>
        (case find (\<lambda>m. m_id m = t_mission_id task) (s_missions s) of
           None \<Rightarrow> None
         | Some mission \<Rightarrow>
           (case find (\<lambda>p. p_id p = m_project_id mission) (s_projects s) of
              None \<Rightarrow> None
            | Some project \<Rightarrow>
                Some ((snapshot_empty (s_server_id s) oid)\<lparr>
                  s_revision := s_revision s,
                  s_event_seq := s_event_seq s,
                  s_projects := [scope_project project],
                  s_missions := [scope_mission mission],
                  s_tasks := [scope_task caller task],
                  s_agents := map scope_agent (filter (\<lambda>a. a_id a = caller
                                \<or> a_id a \<in> set (supervisor_ids (s_agents s))) (s_agents s)),
                  s_taskboards := (case t_taskboard_id task of
                      None \<Rightarrow> []
                    | Some i \<Rightarrow> map scope_taskboard (filter (\<lambda>b. b_id b = i) (s_taskboards s))),
                  s_messages := filter (\<lambda>m. mv_task_id m = Some task_id) (s_messages s),
                  s_approvals := filter (\<lambda>a. av_task_id a = task_id) (s_approvals s),
                  s_artifacts := filter (\<lambda>a. ar_task_id a = Some task_id) (s_artifacts s),
                  s_usage := filter (\<lambda>u. us_scope u = budget_scope.Task
                               \<and> us_scope_id u = show_task_id env task_id) (s_usage s),
                  s_terminals := filter (\<lambda>t. te_task_id t = task_id) (s_terminals s),
                  s_task_feed := filter (\<lambda>f. f_task_id f = task_id) (s_task_feed s),
                  s_work_offers := filter (\<lambda>x. of_task_id x = task_id \<and> of_agent_id x = caller) (s_work_offers s),
                  s_human_inputs := filter (\<lambda>h. hi_task_id h = task_id) (s_human_inputs s),
                  s_review_items := filter (\<lambda>r. rv_source_task_id r = task_id
                      \<and> (rv_source_agent r = caller \<or> rv_reviewer_agent r = caller)) (s_review_items s)\<rparr>))))"

definition scoped_agent_snapshot ::
    "env \<Rightarrow> organization_id \<Rightarrow> 'z snapshot_scheme \<Rightarrow> agent_id \<Rightarrow> task_id \<Rightarrow> snapshot option" where
  "scoped_agent_snapshot env oid s agent_id task_id =
     (case find_task task_id (s_tasks s) of
        None \<Rightarrow> None
      | Some task \<Rightarrow>
          if t_assigned_agent task \<noteq> Some agent_id
             \<and> \<not> any (\<lambda>r. rv_source_task_id r = task_id \<and> rv_reviewer_agent r = agent_id
                       \<and> rv_status r = review_work_item_status.Pending) (s_review_items s)
          then None else project_task_scope env oid s task_id agent_id)"

section \<open>Agent capabilities\<close>

record agent_capability =
  ca_agent_id :: agent_id
  ca_task_id :: task_id
  ca_issued_at :: u64
  ca_expires_at :: u64

record stored_agent_capability =
  sc_agent_id :: agent_id
  sc_task_id :: task_id
  sc_issued_at :: u64
  sc_expires_at :: u64
  sc_revoked :: bool

text \<open>The live registry by token, the table by the hash of the token.\<close>

record capabilities =
  cs_live :: "(string \<times> agent_capability) list"
  cs_table :: "(string \<times> stored_agent_capability) list"

definition upsert_agent_capability ::
    "string \<Rightarrow> stored_agent_capability \<Rightarrow> (string \<times> stored_agent_capability) list
       \<Rightarrow> (string \<times> stored_agent_capability) list" where
  "upsert_agent_capability h c table = (if blank h then table else AList.update h c table)"

definition table_revoke ::
    "string \<Rightarrow> (string \<times> stored_agent_capability) list \<Rightarrow> (string \<times> stored_agent_capability) list" where
  "table_revoke h table = map (\<lambda>(k, c). (k, if k = h then c\<lparr>sc_revoked := True\<rparr> else c)) table"

definition prune_agent_capabilities ::
    "u64 \<Rightarrow> (string \<times> stored_agent_capability) list \<Rightarrow> (string \<times> stored_agent_capability) list" where
  "prune_agent_capabilities now table =
     filter (\<lambda>(k, c). \<not> (sint (sc_expires_at c) < sint now \<or> sc_revoked c)) table"

text \<open>\<open>token\<close> is the 64 hexadecimal digits drawn for the session; \<open>written\<close> says whether
  the write to the table went through.\<close>

definition store_capability ::
    "bool \<Rightarrow> (string \<Rightarrow> string) \<Rightarrow> string \<Rightarrow> agent_capability \<Rightarrow> capabilities \<Rightarrow> capabilities" where
  "store_capability written hash token c r =
     (if written
      then r\<lparr>cs_table := upsert_agent_capability (hash token)
             \<lparr>sc_agent_id = ca_agent_id c, sc_task_id = ca_task_id c, sc_issued_at = ca_issued_at c,
              sc_expires_at = ca_expires_at c, sc_revoked = False\<rparr> (cs_table r)\<rparr>
      else r)"

definition drop_stored :: "bool \<Rightarrow> (string \<Rightarrow> string) \<Rightarrow> string \<Rightarrow> capabilities \<Rightarrow> capabilities" where
  "drop_stored written hash token r =
     (if written then r\<lparr>cs_table := table_revoke (hash token) (cs_table r)\<rparr> else r)"

definition issue_agent_capability ::
    "bool \<Rightarrow> (string \<Rightarrow> string) \<Rightarrow> u64 \<Rightarrow> string \<Rightarrow> agent_id \<Rightarrow> task_id \<Rightarrow> capabilities \<Rightarrow> capabilities" where
  "issue_agent_capability written hash now token agent_id task_id r =
     (let c = \<lparr>ca_agent_id = agent_id, ca_task_id = task_id, ca_issued_at = now,
               ca_expires_at = saturating_add now 900\<rparr> in
      store_capability written hash token c (r\<lparr>cs_live := AList.update token c (cs_live r)\<rparr>))"

definition validate_agent_capability ::
    "bool \<Rightarrow> (string \<Rightarrow> string) \<Rightarrow> u64 \<Rightarrow> string \<Rightarrow> agent_id \<Rightarrow> task_id \<Rightarrow> capabilities \<Rightarrow> bool \<times> capabilities" where
  "validate_agent_capability written hash now token agent_id task_id r =
     (case map_of (cs_live r) token of
        None \<Rightarrow> (False, r)
      | Some c \<Rightarrow>
          if ca_expires_at c < now
          then (False, drop_stored written hash token (r\<lparr>cs_live := AList.delete token (cs_live r)\<rparr>))
          else (ca_agent_id c = agent_id \<and> ca_task_id c = task_id, r))"

definition agent_capability_actor ::
    "bool \<Rightarrow> (string \<Rightarrow> string) \<Rightarrow> u64 \<Rightarrow> string \<Rightarrow> capabilities \<Rightarrow> (agent_id \<times> task_id) option \<times> capabilities" where
  "agent_capability_actor written hash now token r =
     (case map_of (cs_live r) token of
        None \<Rightarrow> (None, r)
      | Some c \<Rightarrow>
          if ca_expires_at c < now
          then (None, drop_stored written hash token (r\<lparr>cs_live := AList.delete token (cs_live r)\<rparr>))
          else (Some (ca_agent_id c, ca_task_id c), r))"

definition revoke_agent_capability ::
    "bool \<Rightarrow> (string \<Rightarrow> string) \<Rightarrow> string \<Rightarrow> capabilities \<Rightarrow> capabilities" where
  "revoke_agent_capability written hash token r =
     drop_stored written hash token (r\<lparr>cs_live := AList.delete token (cs_live r)\<rparr>)"

definition renewal_due :: "u64 \<Rightarrow> agent_capability \<Rightarrow> bool" where
  "renewal_due now c \<longleftrightarrow> ca_expires_at c \<le> saturating_add now 300"

definition renew_capability :: "u64 \<Rightarrow> agent_capability \<Rightarrow> agent_capability" where
  "renew_capability now c =
     (if renewal_due now c then c\<lparr>ca_issued_at := now, ca_expires_at := saturating_add now 900\<rparr> else c)"

definition renew_agent_capabilities ::
    "bool \<Rightarrow> (string \<Rightarrow> string) \<Rightarrow> u64 \<Rightarrow> capabilities \<Rightarrow> capabilities" where
  "renew_agent_capabilities written hash now r =
     (let due = filter (\<lambda>(token, c). renewal_due now c) (cs_live r);
          r1 = r\<lparr>cs_live := map (\<lambda>(token, c). (token, renew_capability now c)) (cs_live r)\<rparr> in
      fold (\<lambda>(token, c). store_capability written hash token (renew_capability now c)) due r1)"

section \<open>Scope of an agent's command\<close>

definition task_is_owned :: "'z snapshot_scheme \<Rightarrow> mission_id \<Rightarrow> agent_id \<Rightarrow> task_id \<Rightarrow> bool" where
  "task_is_owned s mission_id agent_id candidate \<longleftrightarrow>
     (case find_task candidate (s_tasks s) of
        None \<Rightarrow> False
      | Some t \<Rightarrow> t_mission_id t = mission_id \<and> t_assigned_agent t = Some agent_id)"

definition none_or :: "'a option \<Rightarrow> ('a \<Rightarrow> bool) \<Rightarrow> bool" where
  "none_or x p \<longleftrightarrow> (case x of None \<Rightarrow> True | Some v \<Rightarrow> p v)"

definition message_for_agent ::
    "env \<Rightarrow> 'z snapshot_scheme \<Rightarrow> mission_id \<Rightarrow> task_id \<Rightarrow> agent_id \<Rightarrow> message_id \<Rightarrow> bool" where
  "message_for_agent env s mission_id task_id agent_id i \<longleftrightarrow>
     any (\<lambda>m. mv_id m = i \<and> mv_mission_id m = mission_id \<and> mv_task_id m = Some task_id
           \<and> ac_kind (mv_recipient m) = actor_kind.Agent
           \<and> ac_id (mv_recipient m) = Some (show_agent_id env agent_id)) (s_messages s)"

definition worker_command_is_scoped ::
    "env \<Rightarrow> 'z snapshot_scheme \<Rightarrow> mission_id \<Rightarrow> command \<Rightarrow> agent_id \<Rightarrow> task_id \<Rightarrow> bool" where
  "worker_command_is_scoped env s mission_id command agent_id task_id \<longleftrightarrow>
     (let owned = (\<lambda>i. i = task_id \<or> task_is_owned s mission_id agent_id i) in
      case command of
        UpdateTask i patch \<Rightarrow>
          i = task_id \<and> tp_budget patch = None \<and> tp_required_role_id patch = None
            \<and> tp_dependencies patch = None
            \<and> (case tp_assigned_agent patch of None \<Rightarrow> True | Some None \<Rightarrow> False | Some (Some a) \<Rightarrow> a = agent_id)
      | SetTaskStatus i status \<Rightarrow>
          i = task_id \<and> status \<in> {task_status.Review, task_status.Blocked, task_status.Done}
      | AssignTask i _ \<Rightarrow> any (\<lambda>t. t_id t = i \<and> t_mission_id t = mission_id) (s_tasks s)
      | ClaimTask i a _ \<Rightarrow> i = task_id \<and> a = agent_id
      | ReleaseTask i \<Rightarrow> i = task_id
      | TaskAccept i \<Rightarrow> i = task_id
      | CreateTask spec \<Rightarrow>
          ts_mission_id spec = mission_id \<and> none_or (ts_assigned_agent spec) (\<lambda>a. a = agent_id)
            \<and> none_or (ts_parent_task_id spec) owned \<and> list_all owned (ts_dependencies spec)
      | CreateWorkItem spec \<Rightarrow>
          none_or (ws_mission_id spec) (\<lambda>m. m = mission_id)
            \<and> none_or (ws_parent_task_id spec) owned \<and> list_all owned (ws_dependencies spec)
      | DropWorkItem i _ role_id \<Rightarrow>
          i = task_id \<and> none_or role_id (\<lambda>role. any (\<lambda>r. r_id r = role \<and> \<not> r_archived r) (s_roles s))
      | SpawnChildWorkItems parent children \<Rightarrow>
          parent = task_id \<and> children \<noteq> []
            \<and> list_all (\<lambda>c. none_or (ws_mission_id c) (\<lambda>m. m = mission_id)
                 \<and> list_all owned (ws_dependencies c)) children
      | RequestHumanInput i _ _ \<Rightarrow> i = task_id
      | RequestTaskRework i _ \<Rightarrow> i = task_id
      | SendMessage spec \<Rightarrow> ms_mission_id spec = mission_id \<and> ms_task_id spec = Some task_id
      | AddTaskComment i _ _ \<Rightarrow> i = task_id
      | AckMessage i \<Rightarrow> message_for_agent env s mission_id task_id agent_id i
      | CompleteMessage i _ \<Rightarrow> message_for_agent env s mission_id task_id agent_id i
      | RequestApproval spec \<Rightarrow> aps_agent_id spec = agent_id \<and> aps_task_id spec = task_id
      | PublishArtifact spec \<Rightarrow> ars_mission_id spec = mission_id \<and> ars_task_id spec = Some task_id
      | BeginArtifactUpload spec \<Rightarrow> ups_mission_id spec = mission_id \<and> ups_task_id spec = Some task_id
      | FinalizeArtifactUpload i _ _ \<Rightarrow>
          any (\<lambda>u. up_id u = i \<and> ups_task_id (up_spec u) = Some task_id) (s_uploads s)
      | ProposeMemory a _ _ \<Rightarrow> a = agent_id
      | ReadMemory a _ \<Rightarrow> a = agent_id
      | _ \<Rightarrow> False)"

definition agent_command_is_scoped ::
    "env \<Rightarrow> 'z snapshot_scheme \<Rightarrow> command \<Rightarrow> agent_id \<Rightarrow> task_id \<Rightarrow> bool" where
  "agent_command_is_scoped env s command agent_id task_id \<longleftrightarrow>
     (case find_task task_id (s_tasks s) of
        None \<Rightarrow> False
      | Some scoped \<Rightarrow>
        (case command of
           DecideReview i _ _ \<Rightarrow>
             any (\<lambda>r. rv_id r = i \<and> rv_status r = review_work_item_status.Pending
                   \<and> rv_source_task_id r = task_id \<and> rv_mission_id r = t_mission_id scoped
                   \<and> rv_reviewer_agent r = agent_id) (s_review_items s)
         | RespondWorkOffer i _ \<Rightarrow>
             any (\<lambda>x. of_id x = i \<and> of_task_id x = task_id \<and> of_agent_id x = agent_id
                   \<and> of_status x = work_offer_status.Pending) (s_work_offers s)
         | _ \<Rightarrow>
             t_assigned_agent scoped = Some agent_id
               \<and> worker_command_is_scoped env s (t_mission_id scoped) command agent_id task_id))"

end
