(* ===== verification/AgentConfinement.thy ===== *)
theory AgentConfinement
  imports AgentScope StateMachine
begin

text \<open>
  What an agent's command can change. \<open>estate\<close> collects what belongs to the operator: settings,
  projects, roles, missions, the organization, boards, updates, terminals, recorded usage. \<open>pact\<close> is
  what a task was agreed on: mission, budget, kind and limits. A change is confined when it keeps the
  estate and the pact of every task there is; new tasks may follow at the end of the list.
\<close>

definition estate :: "world \<Rightarrow> server_settings \<times> project_view list \<times> role_view list \<times> mission_view list
    \<times> organization_state_view \<times> organization_runtime_view \<times> organization_relocation_view list
    \<times> taskboard_view list \<times> update_view option \<times> usage_view list \<times> terminal_session_view list" where
  "estate s = (s_server s, s_projects s, s_roles s, s_missions s, s_organization s, s_organization_runtime s,
     s_organization_relocations s, s_taskboards s, s_update s, s_usage s, s_terminals s)"

definition pact :: "task_view \<Rightarrow> task_id \<times> mission_id \<times> budget \<times> work_item_kind \<times> u8 \<times> u8" where
  "pact t = (t_id t, t_mission_id t, t_budget t, t_kind t, t_max_attempts t, t_rework_limit t)"

definition confined :: "world \<Rightarrow> world \<Rightarrow> bool" where
  "confined s s' \<longleftrightarrow> estate s' = estate s \<and> (\<exists>xs. map pact (s_tasks s') = map pact (s_tasks s) @ xs)"

lemma confined_refl [simp, intro]: "confined s s"
  by (simp add: confined_def)

lemma confined_trans [trans]: "confined a b \<Longrightarrow> confined b c \<Longrightarrow> confined a c"
  by (auto simp: confined_def)

lemma confined_fold: "(\<And>x s. confined s (f x s)) \<Longrightarrow> confined s (fold f xs s)"
proof (induction xs arbitrary: s)
  case (Cons x xs)
  have "confined s (f x s)" by (rule Cons.prems)
  also have "confined \<dots> (fold f xs (f x s))" by (rule Cons.IH [OF Cons.prems])
  finally show ?case by simp
qed simp

lemma estate_simps [simp]:
  "estate (feed env s i actor k b) = estate s" "estate (drew s) = estate s" "estate (edit_task i f s) = estate s"
  "estate (revoke_grants p s) = estate s" "estate (settle_review env s i r) = estate s"
  "estate (s\<lparr>s_tasks := ts\<rparr>) = estate s" "estate (s\<lparr>s_agents := as\<rparr>) = estate s"
  "estate (s\<lparr>s_review_items := rs\<rparr>) = estate s" "estate (s\<lparr>s_operations := os\<rparr>) = estate s"
  "estate (s\<lparr>s_work_offers := ws\<rparr>) = estate s" "estate (s\<lparr>s_human_inputs := hs\<rparr>) = estate s"
  "estate (s\<lparr>s_messages := ms\<rparr>) = estate s" "estate (s\<lparr>s_approvals := aps\<rparr>) = estate s"
  "estate (s\<lparr>s_artifacts := ars\<rparr>) = estate s" "estate (s\<lparr>s_uploads := us\<rparr>) = estate s"
  "estate (s\<lparr>s_task_feed := fs\<rparr>) = estate s" "estate (s\<lparr>w_seen := x\<rparr>) = estate s"
  by (simp_all add: estate_def feed_def append_task_feed_def drew_def edit_task_def revoke_grants_def settle_review_def Let_def)

lemma pact_update:
  assumes "\<And>t. find p ts = Some t \<Longrightarrow> pact (f t) = pact t"
  shows "map pact (update_first p f ts) = map pact ts"
  using assms by (induction ts) (auto split: if_splits)

lemma confinedI: "estate s' = estate s \<Longrightarrow> map pact (s_tasks s') = map pact (s_tasks s) @ xs \<Longrightarrow> confined s s'"
  by (auto simp: confined_def)

lemma confined_same: "estate s' = estate s \<Longrightarrow> map pact (s_tasks s') = map pact (s_tasks s) \<Longrightarrow> confined s s'"
  by (rule confinedI [where xs = "[]"]) simp_all

lemma confined_edit:
  "(\<And>t. find_task i (s_tasks s) = Some t \<Longrightarrow> pact (f t) = pact t) \<Longrightarrow> confined s (edit_task i f s)"
  by (rule confined_same) (auto simp: pact_update find_task_def)

lemma pact_edits [simp]:
  "pact (claim_edit now a src t) = pact t" "pact (release_edit t) = pact t" "pact (status_edit c st rt t) = pact t"
  "pact (rework_edit t) = pact t" "pact (spawn_edit env cs t) = pact t" "pact (t\<lparr>t_status := st\<rparr>) = pact t"
  "pact (t\<lparr>t_child_task_ids := cs\<rparr>) = pact t" "pact (t\<lparr>t_worktree := w\<rparr>) = pact t" "pact (t\<lparr>t_branch := b\<rparr>) = pact t"
  by (simp_all add: pact_def claim_edit_def release_edit_def status_edit_def rework_edit_def spawn_edit_def)

lemma confined_dependency_locks: "confined s (update_dependency_locks env s i actor st)"
  unfolding update_dependency_locks_def
  by (rule confined_fold) (auto simp: dependency_lock_step_def intro!: confined_same pact_update split: option.split)

lemma confined_parent_locks: "confined s (update_parent_child_locks env s i actor)"
  by (auto simp: update_parent_child_locks_def intro!: confined_same pact_update split: option.split)

definition confines :: "world \<Rightarrow> reduction \<Rightarrow> bool" where
  "confines s r \<longleftrightarrow> (\<forall>s' ev res. r = Inr (s', ev, res) \<longrightarrow> confined s s')"

lemma confinesI: "(\<And>s' ev res. r = Inr (s', ev, res) \<Longrightarrow> confined s s') \<Longrightarrow> confines s r"
  by (simp add: confines_def)

section \<open>Task commands\<close>

lemma assign_task_confined: "assign_task env s i a src k actor = Inr s' \<Longrightarrow> confined s s'"
  by (auto simp: assign_task_def Let_def intro!: confined_same pact_update split: sum.splits)

lemma assign_confines:
  "confines s (reduce_assign_task env s i a actor)" "confines s (reduce_claim_task env s i a src actor)"
  by (auto simp: reduce_assign_task_def reduce_claim_task_def Let_def intro!: confinesI
      dest!: assign_task_confined split: sum.splits)

lemma release_confines: "confines s (reduce_release_task env s i actor)"
  by (auto simp: reduce_release_task_def intro!: confinesI confined_same pact_update split: option.splits if_splits)
    (auto simp: pact_def)

lemma comment_confines: "confines s (reduce_add_task_comment env s i b xs actor)"
  by (rule confinesI, rule confined_same)
    (auto simp: reduce_add_task_comment_def append_task_feed_def Let_def estate_def drew_def split: option.splits if_splits)

lemma create_task_confines: "confines s (reduce_create_task env s spec actor)"
proof (rule confinesI)
  fix s' ev res assume "reduce_create_task env s spec actor = Inr (s', ev, res)"
  then obtain s2 where l: "link_parent env (drew s) (new_task env s spec (TaskId (next_uuid env s))) = Inr s2"
    and s': "s_tasks s' = s_tasks s2 @ [new_task env s spec (TaskId (next_uuid env s))]" "estate s' = estate s2"
    by (auto simp: reduce_create_task_def Let_def split: sum.splits)
  from l have "estate s2 = estate s" "map pact (s_tasks s2) = map pact (s_tasks s)"
    by (auto simp: link_parent_def intro!: pact_update split: option.splits if_splits)
  with s' show "confined s s'" by (simp add: confined_def)
qed

lemma update_task_confines:
  assumes "tp_budget patch = None"
  shows "confines s (reduce_update_task env s i patch actor)"
proof (rule confinesI)
  fix s' ev res assume "reduce_update_task env s i patch actor = Inr (s', ev, res)"
  then obtain t c where t: "find_task i (s_tasks s) = Some t"
    and c: "relock_candidate (s_tasks s) t (apply_task_patch t patch) = Inr c"
    and s': "s_tasks s' = s_tasks (edit_task i (\<lambda>_. c) s)" "estate s' = estate s"
    by (auto simp: reduce_update_task_def Let_def split: option.splits sum.splits if_splits)
  from relock_candidate_ok [OF c] obtain st where "c = (apply_task_patch t patch)\<lparr>t_status := st\<rparr>" by auto
  then have "pact c = pact t" using assms by (simp add: pact_def apply_task_patch_def set_some_def)
  with t s' show "confined s s'" by (auto simp: find_task_def intro!: confined_same pact_update)
qed

lemma provision_worktree_confined:
  assumes "provision_worktree env s task = Inr (s1, queued)"
  shows "confined s s1"
  using assms by (auto simp: provision_worktree_def Let_def intro!: confined_same pact_update
      split: option.splits if_splits sum.splits)

lemma review_event_confined: "review_event env s task c st rt = Inr (s', r) \<Longrightarrow> confined s s'"
  by (auto simp: review_event_def Let_def intro!: confined_same split: if_splits option.splits)

lemma set_status_confined:
  assumes "reduce_set_task_status env s i st actor = Inr (s', ev, res)"
  shows "confined s s'"
  using assms
proof (rule reduce_set_task_statusE)
  fix task rt s1 queued s3 review
  assume p: "(if st = task_status.Running then provision_worktree env s task else Inr (s, False)) = Inr (s1, queued)"
    and r: "review_event env (apply_status s1 i (t_status task) st rt) task (t_status task) st rt = Inr (s3, review)"
    and s': "s' = (if st = task_status.Done then (\<lambda>s5. update_parent_child_locks env s5 i actor) else (\<lambda>s5. s5))
            (update_dependency_locks env (feed env s3 i actor task_feed_kind.StatusChanged
               (''Status changed to '' @ debug_task_status st)) i actor st)"
  from p have "confined s s1" using provision_worktree_confined by (auto split: if_splits)
  also have "confined s1 (apply_status s1 i (t_status task) st rt)"
    by (auto simp: apply_status_def Let_def intro!: confined_same pact_update)
  also from r have "confined \<dots> s3" by (rule review_event_confined)
  also have "confined s3 (feed env s3 i actor task_feed_kind.StatusChanged
      (''Status changed to '' @ debug_task_status st))" by (rule confined_same) simp_all
  also have "confined \<dots> s'" unfolding s'
    by (simp add: confined_dependency_locks confined_trans [OF confined_dependency_locks confined_parent_locks])
  finally show "confined s s'" .
qed

lemma set_status_confines: "confines s (reduce_set_task_status env s i st actor)"
  by (rule confinesI) (rule set_status_confined)

lemma accept_worktree_confined: "accept_with_worktree env s task w = Inr (s', ev, res) \<Longrightarrow> confined s s'"
  by (auto simp: accept_with_worktree_def Let_def intro!: confined_same split: option.splits sum.splits if_splits)

lemma task_accept_confines: "confines s (reduce_task_accept env s i actor)"
proof (rule confinesI)
  fix s' ev res assume r: "reduce_task_accept env s i actor = Inr (s', ev, res)"
  then obtain task where t: "find_task i (s_tasks s) = Some task" by (auto simp: reduce_task_accept_def split: option.splits)
  let ?s2 = "feed env (edit_task i (\<lambda>t. t\<lparr>t_status := task_status.Done\<rparr>) s) i actor task_feed_kind.StatusChanged
    ''Task accepted and marked done''"
  let ?s4 = "update_parent_child_locks env (update_dependency_locks env ?s2 i actor task_status.Done) i actor"
  show "confined s s'"
  proof (cases "t_worktree task")
    case None
    with r t have s': "s' = settle_review env ?s4 i review_work_item_status.Approved"
      by (auto simp: reduce_task_accept_def Let_def split: sum.splits)
    have "confined s ?s2" by (rule confined_same) (simp_all add: pact_update)
    also have "confined ?s2 ?s4" by (rule confined_trans [OF confined_dependency_locks confined_parent_locks])
    also have "confined ?s4 s'" unfolding s' by (rule confined_same) simp_all
    finally show ?thesis .
  next
    case (Some w)
    with r t have "accept_with_worktree env s task w = Inr (s', ev, res)"
      by (auto simp: reduce_task_accept_def split: sum.splits)
    then show ?thesis by (rule accept_worktree_confined)
  qed
qed

section \<open>Workflow commands\<close>

lemma create_work_item_confined: "create_work_item env s spec = Inr (s1, t) \<Longrightarrow> s_tasks s1 = s_tasks s \<and> estate s1 = estate s"
  by (auto simp: create_work_item_def work_item_task_def Let_def split: option.splits sum.splits if_splits)

lemma create_work_item_confines: "confines s (reduce_create_work_item env s spec actor)"
  by (auto simp: reduce_create_work_item_def Let_def confined_def dest!: create_work_item_confined
      intro!: confinesI pact_update split: sum.splits option.splits)

lemma create_children_confined:
  "create_children env s p m specs = Inr (s1, ts) \<Longrightarrow> s_tasks s1 = s_tasks s \<and> estate s1 = estate s"
  by (induction env s p m specs arbitrary: ts rule: create_children.induct)
    (auto dest!: create_work_item_confined split: if_splits sum.splits option.splits)

lemma spawn_confines: "confines s (reduce_spawn_child_work_items env s i cs actor)"
proof (rule confinesI)
  fix s' ev res assume "reduce_spawn_child_work_items env s i cs actor = Inr (s', ev, res)"
  then obtain s1 ts m where c: "create_children env s i m cs = Inr (s1, ts)"
    and s': "s_tasks s' = update_first (\<lambda>t. t_id t = i) (spawn_edit env (map t_id ts)) (s_tasks s1 @ ts)" "estate s' = estate s1"
    by (auto simp: reduce_spawn_child_work_items_def Let_def split: option.splits if_splits sum.splits)
  have "map pact (s_tasks s') = map pact (s_tasks s1 @ ts)" unfolding s' by (rule pact_update) simp
  with create_children_confined [OF c] s'(2) show "confined s s'" by (simp add: confined_def)
qed

lemma workflow_confines:
  "confines s (reduce_request_human_input env s i k p actor)" "confines s (reduce_request_task_rework env s i r actor)"
  "confines s (reduce_drop_work_item env s i b ro actor)"
  by (auto simp: reduce_request_human_input_def reduce_request_task_rework_def reduce_drop_work_item_def Let_def
      intro!: confinesI confined_same pact_update split: option.splits if_splits sum.splits)
    (simp_all add: pact_def release_edit_def)

lemma answer_offer_confined: "answer_offer env s x b actor = Inr (s', st) \<Longrightarrow> confined s s'"
  by (auto simp: answer_offer_def Let_def intro!: confined_same pact_update split: if_splits option.splits)

lemma respond_offer_confines: "confines s (reduce_respond_work_offer env s k b actor)"
  by (auto simp: reduce_respond_work_offer_def Let_def confined_def dest!: answer_offer_confined
      intro!: confinesI split: option.splits sum.splits)

lemma decide_review_confines: "confines s (reduce_decide_review env s k d reason actor)"
proof (rule confinesI)
  fix s' ev res assume "reduce_decide_review env s k d reason actor = Inr (s', ev, res)"
  then obtain i n ev' res' where n: "(case d of review_decision.Approve \<Rightarrow> reduce_task_accept env s i actor
      | review_decision.Reject \<Rightarrow> reduce_set_task_status env s i task_status.Running actor) = Inr (n, ev', res')"
    and s': "s_tasks s' = s_tasks n" "estate s' = estate n"
    by (auto simp: reduce_decide_review_def Let_def split: if_splits option.splits sum.splits)
  from n task_accept_confines set_status_confines have "confined s n"
    unfolding confines_def by (cases d) fastforce+
  with s' show "confined s s'" by (simp add: confined_def)
qed

section \<open>Messages, approvals, artifacts, memory\<close>

lemma record_confines:
  "confines s (reduce_send_message env s x actor)" "confines s (reduce_ack_message s m actor)"
  "confines s (reduce_complete_message s m b actor)" "confines s (reduce_publish_artifact env s y)"
  "confines s (reduce_begin_artifact_upload env s z)" "confines s (reduce_finalize_artifact_upload env s u h n)"
  "confines s (reduce_propose_memory env s a p c actor)" "confines s (reduce_read_memory env s a p actor)"
  "confines s (reduce_request_approval env s w actor)"
  unfolding reduce_send_message_def reduce_ack_message_def reduce_complete_message_def
    reduce_publish_artifact_def reduce_begin_artifact_upload_def reduce_finalize_artifact_upload_def
    reduce_propose_memory_def reduce_read_memory_def reduce_request_approval_def edit_message_def edit_approval_def Let_def
  by (auto intro!: confinesI confined_same split: sum.splits option.splits if_splits prod.splits)

lemmas agent_confines = assign_confines release_confines comment_confines create_task_confines set_status_confines
  task_accept_confines create_work_item_confines spawn_confines workflow_confines respond_offer_confines
  decide_review_confines record_confines

text \<open>The snapshot of the check need not be the one of the reduction.\<close>

lemma scoped_confines:
  assumes "agent_command_is_scoped env s0 c a i"
  shows "confines s (reduce env s c actor)"
  using assms
  by (cases c) (auto simp: agent_command_is_scoped_def worker_command_is_scoped_def reduce_def domain_of_def reduce_task_def
      reduce_workflow_def reduce_message_def reduce_approval_def reduce_memory_def reduce_artifact_def
      intro: agent_confines update_task_confines split: option.splits)

end
