(* ===== verification/Gateway.thy ===== *)
theory Gateway
  imports AgentConfinement SignIn
begin

text \<open>
  The HTTP boundary of the command path (\<open>frank-server/src/routes/commands.rs\<close>): a request
  presents an agent capability or a bearer session, its actor follows from that, an agent's command is
  checked against the scope of its task, and the rest is \<open>execute\<close>. \<open>to_str\<close> is the text of
  a header value (crate \<open>http\<close>). The pseudo terminal that a successful \<open>OpenTerminal\<close>
  starts after the answer is I/O and not part of the model.
\<close>

record request_headers =
  rh_agent_token :: "string option"
  rh_authorization :: "string option"

definition agent_capability_from_headers ::
    "(string \<Rightarrow> string option) \<Rightarrow> bool \<Rightarrow> env \<Rightarrow> u64 \<Rightarrow> request_headers \<Rightarrow> capabilities
       \<Rightarrow> (agent_id \<times> task_id) option \<times> capabilities" where
  "agent_capability_from_headers to_str written env now headers caps =
     (case Option.bind (rh_agent_token headers) to_str of
        None \<Rightarrow> (None, caps)
      | Some token \<Rightarrow> agent_capability_actor written (e_sha256 env) now token caps)"

definition authenticate_headers ::
    "(string \<Rightarrow> string option) \<Rightarrow> env \<Rightarrow> u64 \<Rightarrow> request_headers \<Rightarrow> accounts \<Rightarrow> device_auth option \<times> accounts" where
  "authenticate_headers to_str env now headers db =
     (case bearer (Option.bind (rh_authorization headers) to_str) of
        None \<Rightarrow> (None, db)
      | Some token \<Rightarrow> authenticate (e_sha256 env) now token db)"

definition request_actor ::
    "(string \<Rightarrow> string option) \<Rightarrow> bool \<Rightarrow> env \<Rightarrow> u64 \<Rightarrow> request_headers \<Rightarrow> command \<Rightarrow> 'z snapshot_scheme
       \<Rightarrow> capabilities \<Rightarrow> accounts \<Rightarrow> (api_error + actor_ref \<times> device_role) \<times> capabilities \<times> accounts" where
  "request_actor to_str written env now headers command s caps db =
     (if rh_agent_token headers \<noteq> None then
        (case agent_capability_from_headers to_str written env now headers caps of
           (None, caps') \<Rightarrow> (Inl (api_error_new Unauthorized ''agent session capability is invalid''), caps', db)
         | (Some (agent_id, task_id), caps') \<Rightarrow>
             if \<not> agent_command_is_scoped env s command agent_id task_id
             then (Inl (api_error_new CodeForbidden ''agent session capability is outside this task scope''), caps', db)
             else (Inr (\<lparr>ac_kind = actor_kind.Agent, ac_id = Some (show_agent_id env agent_id), ac_display_name = None\<rparr>,
                        device_role.Operator), caps', db))
      else
        (case authenticate_headers to_str env now headers db of
           (None, db') \<Rightarrow> (Inl (api_error_new Unauthorized ''device authentication required''), caps, db')
         | (Some auth, db') \<Rightarrow>
             (Inr (\<lparr>ac_kind = actor_kind.Device, ac_id = Some (e_uuid_text env (device_uuid (da_device_id auth))),
                     ac_display_name = Some (da_name auth)\<rparr>, da_role auth), caps, db')))"

datatype reply = Refused api_error | Answered command_response

text \<open>\<open>between\<close> is what other requests do to the store after the scope check and before
  \<open>execute\<close> reads it.\<close>

definition commands_route ::
    "(string \<Rightarrow> string option) \<Rightarrow> bool \<Rightarrow> (store \<Rightarrow> store) \<Rightarrow> (nat \<Rightarrow> store \<Rightarrow> store) \<Rightarrow> env \<Rightarrow> u64 \<Rightarrow> request_headers
       \<Rightarrow> command_envelope \<Rightarrow> store \<Rightarrow> capabilities \<Rightarrow> accounts \<Rightarrow> reply \<times> store \<times> capabilities \<times> accounts" where
  "commands_route to_str written between others env now headers envelope st caps db =
     (case request_actor to_str written env now headers (ce_command envelope) (st_world st) caps db of
        (Inl e, caps', db') \<Rightarrow> (Refused e, between st, caps', db')
      | (Inr (actor, role), caps', db') \<Rightarrow>
          (case execute others env (between st) envelope actor role of
             (st', response, _) \<Rightarrow>
               ((case cr_error response of None \<Rightarrow> Answered response | Some e \<Rightarrow> Refused e), st', caps', db')))"

section \<open>Confinement through the whole path\<close>

lemma scoped_not_organization: "agent_command_is_scoped env s c a i \<Longrightarrow> \<not> organization_command c"
  by (cases c) (simp_all add: agent_command_is_scoped_def worker_command_is_scoped_def organization_command_def
      split: option.splits)

lemma confined_memory [simp]:
  "confined s (s'\<lparr>w_drawn := n, w_seen := x\<rparr>) \<longleftrightarrow> confined s s'"
  "confined (s\<lparr>w_drawn := n, w_seen := x\<rparr>) s' \<longleftrightarrow> confined s s'"
  "confined s (s'\<lparr>s_revision := r, s_event_seq := q\<rparr>) \<longleftrightarrow> confined s s'"
  by (simp_all add: confined_def estate_def)

lemma commit_confined:
  assumes "commit_request env st rq = Inr (st', cm)" "confined (st_world st) (rq_snapshot rq)"
  shows "confined (st_world st) (st_world st')"
  using assms(1) by (cases rule: commit_requestE) (simp_all add: assms(2))

lemma apply_confined:
  assumes "apply_loaded env st (st_world st) e actor = (st', r)" "\<And>s. confines s (reduce env s (ce_command e) actor)"
  shows "confined (st_world st) (st_world st')"
  using assms(1)
proof (cases rule: apply_loadedE)
  case (committed nxt ev res st1 cm)
  from assms(2) committed(1) have "confined (with_memory (st_world st) st) nxt" by (auto simp: confines_def)
  then have "confined (st_world st) nxt" by (simp add: with_memory_def)
  with commit_confined [OF committed(2)] committed show ?thesis by (simp add: request_of_def remember_def)
qed (simp_all add: remember_def)

lemma execute_confined:
  assumes "execute others env st e actor role = (st', r, fs)" "\<And>s. confines s (reduce env s (ce_command e) actor)"
    "\<not> organization_command (ce_command e)"
  shows "confined (st_world st) (st_world st')"
proof (cases "admit env st e (ac_kind actor) role")
  case (Inr b)
  then have b: "ce_command b = ce_command e" "ce_expected_revision b \<noteq> None"
    using assms(3) by (auto simp: admit_def Let_def split: if_splits sum.splits option.splits)
  obtain st1 y where a: "apply_loaded env st (st_world st) b actor = (st1, y)" by fastforce
  with apply_confined [OF a] assms(1,2) b Inr show ?thesis
    by (auto simp: execute_def apply_command_def split: sum.splits prod.splits)
qed (use assms(1) in \<open>simp add: execute_def\<close>)

end
