(* ===== verification/AccessProperties.thy ===== *)
theory AccessProperties
  imports SignInRuns RateLimit Gateway Installation
begin

text \<open>
  Properties of the access boundary: bearer sessions and password changes, the login rate limit,
  agent capabilities, the task-scoped view and the scope of an agent's command.
\<close>

section \<open>Sessions\<close>

lemma owner_mem: "owner db = Some account \<Longrightarrow> account \<in> set (au_owners db)"
  by (auto simp: owner_def dest: find_SomeD split: Option.bind_splits)

lemma authenticateD:
  assumes "fst (authenticate hash now token db) = Some d"
  shows "\<exists>x \<in> set (au_sessions db). \<exists>account. ss_token_hash x = hash token \<and> session_live now x \<and>
    owner db = Some account \<and> ow_id account = ss_owner_id x"
proof -
  from assms obtain x db' account where a: "auth_session (hash token) now db = (Some x, db')"
    and o: "owner db' = Some account" "ow_id account = ss_owner_id x"
    by (auto simp: authenticate_def session_owner_def split: prod.splits option.splits if_splits)
  note y = auth_session_SomeD [OF a]
  from y(2) have "owner db' = owner db" by (simp add: shrinks_def owner_def)
  with o y(1) show ?thesis by auto
qed

text \<open>
  C27: a password change ends the sessions opened with the old password, whatever else runs. In
  every state that interleaved logins, logouts, password changes and resets reach, and in which no
  password change stands between its write and its revocation, a token that authenticates belongs to
  a session opened by a login that proved knowledge of the password hash stored now. In particular a
  login that verified the old password and inserts after the change gets no session.
\<close>

theorem password_change_ends_sessions:
  assumes "reachable signin_init (signin_step verify hash) v"
    and "fst (authenticate hash now token (si_db v)) = Some d"
    and "\<And>c i. si_pending v c \<noteq> Some (Written i)"
  shows "\<exists>x \<in> set (au_sessions (si_db v)). \<exists>account. ss_token_hash x = hash token \<and> session_live now x \<and>
    owner (si_db v) = Some account \<and> si_proof v (ss_session_id x) = Some (ow_password_hash account)"
proof -
  have ok: "signin_ok v" by (rule signing_in.reachable_inv [OF assms(1)])
  from authenticateD [OF assms(2)] obtain x account where x: "x \<in> set (au_sessions (si_db v))"
    "ss_token_hash x = hash token" "session_live now x" "owner (si_db v) = Some account" "ow_id account = ss_owner_id x"
    by blast
  from signin_ok_session [OF ok x(1)] x(3) assms(3) have "proof_current v x" by (auto simp: session_live_def)
  then obtain a where a: "a \<in> set (au_owners (si_db v))" "ow_id a = ss_owner_id x"
    "si_proof v (ss_session_id x) = Some (ow_password_hash a)"
    by (auto simp: proof_current_def)
  have "a = account" using ok a(1,2) owner_mem [OF x(4)] x(5)
    by (metis (no_types, lifting) signin_ok_def distinct_map inj_onD)
  with a(3) x show ?thesis by blast
qed

definition demo_verify :: "string \<Rightarrow> string \<Rightarrow> bool" where
  "demo_verify password encoded \<longleftrightarrow> encoded = ''argon2:'' @ password"

definition demo_login :: auth_login_request where
  "demo_login = \<lparr>lr_username = ''Alice'', lr_password = ''correct horse battery'', lr_device_name = None\<rparr>"

definition demo_accounts :: accounts where
  "demo_accounts = snd (initialize_owner (UserId 1) 1000 (Inr ''argon2:correct horse battery'') ''alice''
     ''correct horse battery'' \<lparr>au_slot = None, au_owners = [], au_sessions = []\<rparr>)"

definition demo_owner :: stored_owner where
  "demo_owner = \<lparr>ow_id = UserId 1, ow_username = ''alice'', ow_password_hash = ''argon2:correct horse battery'',
     ow_created_at = 1000, ow_password_changed_at = 1000\<rparr>"

definition demo_signed_in :: signin where
  "demo_signed_in = \<lparr>si_db = snd (login_open rev (ServerId 0) (SessionId 7) (DeviceId 8) ''tok'' 1005 demo_owner demo_accounts),
     si_pending = (\<lambda>_. None), si_proof = [SessionId 7 \<mapsto> ow_password_hash demo_owner]\<rparr>"

lemma demo_signed_in_reachable: "reachable signin_init (signin_step demo_verify rev) demo_signed_in"
proof -
  let ?v0 = "\<lparr>si_db = \<lparr>au_slot = None, au_owners = [], au_sessions = []\<rparr>, si_pending = (\<lambda>_. None), si_proof = Map.empty\<rparr>"
  let ?v1 = "?v0\<lparr>si_db := demo_accounts\<rparr>"
  let ?v2 = "?v1\<lparr>si_pending := (\<lambda>_. None)(0 := Some (Verified demo_owner))\<rparr>"
  have "reachable signin_init (signin_step demo_verify rev) ?v0"
    by (rule reach_init) (simp add: signin_init_def)
  then have 1: "reachable signin_init (signin_step demo_verify rev) ?v1"
  proof (rule reach_step)
    show "signin_step demo_verify rev ?v0 ?v1"
      by (rule simple) (simp only: simple_requests_def demo_accounts_def signin.simps, rule UnI2, blast)
  qed
  have "login_verify demo_verify demo_login demo_accounts = Inr demo_owner" by code_simp
  then have "signin_step demo_verify rev ?v1 ?v2"
    using login_begin [of demo_verify demo_login ?v1 demo_owner 0 rev] by simp
  with 1 have 2: "reachable signin_init (signin_step demo_verify rev) ?v2" by (rule reach_step)
  obtain r db where o: "login_open rev (ServerId 0) (SessionId 7) (DeviceId 8) ''tok'' 1005 demo_owner demo_accounts = (r, db)"
    by (cases "login_open rev (ServerId 0) (SessionId 7) (DeviceId 8) ''tok'' 1005 demo_owner demo_accounts")
  have "case fst (login_open rev (ServerId 0) (SessionId 7) (DeviceId 8) ''tok'' 1005 demo_owner demo_accounts) of
      Inl _ \<Rightarrow> False | Inr _ \<Rightarrow> True" by code_simp
  then obtain answer where "r = Inr answer" using o by (auto split: sum.splits)
  with login_end [of ?v2 0 demo_owner rev "ServerId 0" "SessionId 7" "DeviceId 8" "''tok''" 1005 r db demo_verify] o
  have "signin_step demo_verify rev ?v2 demo_signed_in" by (simp add: demo_signed_in_def fun_upd_idem)
  with 2 show ?thesis by (rule reach_step)
qed

theorem password_change_ends_sessions_witness:
  "\<exists>(x :: stored_auth_session) account. owner (si_db demo_signed_in) = Some account \<and>
     si_proof demo_signed_in (ss_session_id x) = Some (ow_password_hash account)"
proof -
  have "fst (authenticate rev 1010 ''tok'' (si_db demo_signed_in)) \<noteq> None" by code_simp
  then obtain d where d: "fst (authenticate rev 1010 ''tok'' (si_db demo_signed_in)) = Some d" by blast
  have "si_pending demo_signed_in c \<noteq> Some (Written i)" for c i by (simp add: demo_signed_in_def)
  from password_change_ends_sessions [OF demo_signed_in_reachable d this] show ?thesis by blast
qed

text \<open>
  C28: the login rate limit holds over time. However attempts from any addresses follow each other,
  at most 20 of one address and at most 200 in all are let through within any 60 seconds (a fixed
  window of 10 and 100 allows a full burst on each side of its border), as long as the clock does not
  run backwards and stands at least one minute after the epoch.
\<close>

theorem login_rate_bounded:
  assumes "sorted (map (\<lambda>x. unat (fst x)) xs)" "\<forall>x \<in> set xs. 60 \<le> unat (fst x)"
    and "let_through xs ([], rate_default) = (H, st)"
  shows "length (filter (\<lambda>x. snd x = ip \<and> t \<le> unat (fst x) \<and> unat (fst x) < t + 60) H) \<le> 20 \<and>
    length (filter (\<lambda>x. t \<le> unat (fst x) \<and> unat (fst x) < t + 60) H) \<le> 200"
proof -
  have "sorted (0 # map (\<lambda>x. unat (fst x)) xs)" using assms(1) by simp
  from let_through_ok [OF rate_default_ok this assms(2,3)] obtain m where "rate_ok H m st" ..
  from rate_ok_burst [OF this, of ip] show ?thesis
    by (simp add: burst_ok_def times_of_def filter_map filter_filter o_def case_prod_beta conj_ac)
qed

theorem login_rate_bounded_witness:
  "length (filter (\<lambda>x. snd x = ''ip'' \<and> 1000 \<le> unat (fst x) \<and> unat (fst x) < 1000 + 60)
     (fst (let_through (replicate 2 (1000, ''ip'')) ([], rate_default)))) \<le> 20 \<and>
   length (fst (let_through (replicate 2 (1000, ''ip'')) ([], rate_default))) = 2"
proof -
  let ?xs = "replicate 2 (1000, ''ip'') :: (u64 \<times> string) list"
  obtain H st where h: "let_through ?xs ([], rate_default) = (H, st)" by (cases "let_through ?xs ([], rate_default)")
  have xs: "sorted (map (\<lambda>x. unat (fst x)) ?xs)" "\<forall>x \<in> set ?xs. 60 \<le> unat (fst x)" by simp_all
  have "length (fst (let_through ?xs ([], rate_default))) = 2" by code_simp
  with login_rate_bounded [OF xs h, of "''ip''" 1000] h show ?thesis by (simp only: fst_conv)
qed

section \<open>Agent capabilities\<close>

text \<open>A history of the registry: each operation with the clock it read.\<close>

datatype capability_op =
    Issue bool u64 string agent_id task_id
  | Validate bool u64 string agent_id task_id
  | LookUp bool u64 string
  | Revoke bool string
  | Renew bool u64

fun capability_step :: "(string \<Rightarrow> string) \<Rightarrow> capability_op \<Rightarrow> capabilities \<Rightarrow> capabilities" where
  "capability_step hash (Issue w now token a i) r = issue_agent_capability w hash now token a i r"
| "capability_step hash (Validate w now token a i) r = snd (validate_agent_capability w hash now token a i r)"
| "capability_step hash (LookUp w now token) r = snd (agent_capability_actor w hash now token r)"
| "capability_step hash (Revoke w token) r = revoke_agent_capability w hash token r"
| "capability_step hash (Renew w now) r = renew_agent_capabilities w hash now r"

text \<open>The last issue or revocation of the token in the history was an issue to this agent and task.\<close>

definition standing :: "capability_op list \<Rightarrow> string \<Rightarrow> agent_id \<Rightarrow> task_id \<Rightarrow> bool" where
  "standing ops token a i \<longleftrightarrow>
     (\<exists>pre post w now. ops = pre @ Issue w now token a i # post \<and>
        (\<forall>op \<in> set post. (\<forall>w. op \<noteq> Revoke w token) \<and> (\<forall>w now a i. op \<noteq> Issue w now token a i)))"

lemma standing_keep:
  "standing ops token a i \<Longrightarrow> (\<And>w. op \<noteq> Revoke w token) \<Longrightarrow> (\<And>w now a i. op \<noteq> Issue w now token a i) \<Longrightarrow>
   standing (ops @ [op]) token a i"
  unfolding standing_def
  by (elim exE conjE, rule_tac x = pre in exI, rule_tac x = "post @ [op]" in exI) auto

lemma standing_issue: "standing (ops @ [Issue w now token a i]) token a i"
  unfolding standing_def by (intro exI [of _ ops] exI [of _ "[]"]) auto

lemma live_stored [simp]:
  "cs_live (store_capability w hash token c r) = cs_live r" "cs_live (drop_stored w hash token r) = cs_live r"
  by (simp_all add: store_capability_def drop_stored_def)

lemma live_renewed:
  "cs_live (renew_agent_capabilities w hash now r) = map (\<lambda>(token, c). (token, renew_capability now c)) (cs_live r)"
proof -
  have "cs_live (fold (\<lambda>(token, c). store_capability w hash token (renew_capability now c)) xs r) = cs_live r" for xs r
    by (induction xs arbitrary: r) (auto split: prod.splits)
  then show ?thesis by (simp add: renew_agent_capabilities_def Let_def)
qed

lemma renewed_lookup:
  "map_of (cs_live (renew_agent_capabilities w hash now r)) token = map_option (renew_capability now) (map_of (cs_live r) token)"
  by (simp add: live_renewed map_of_map)

lemma renew_capability_ids [simp]:
  "ca_agent_id (renew_capability now c) = ca_agent_id c" "ca_task_id (renew_capability now c) = ca_task_id c"
  by (simp_all add: renew_capability_def)

lemma live_standing:
  assumes "map_of (cs_live (fold (capability_step hash) ops \<lparr>cs_live = [], cs_table = t\<rparr>)) token = Some c"
  shows "standing ops token (ca_agent_id c) (ca_task_id c)"
  using assms
proof (induction ops arbitrary: c rule: rev_induct)
  case (snoc op ops)
  let ?r = "fold (capability_step hash) ops \<lparr>cs_live = [], cs_table = t\<rparr>"
  show ?case
  proof (cases op)
    case (Issue w now token' a i)
    show ?thesis
    proof (cases "token' = token")
      case True
      with snoc.prems Issue show ?thesis
        by (simp add: issue_agent_capability_def Let_def update_conv) (auto intro: standing_issue)
    next
      case False
      with snoc.prems Issue have "map_of (cs_live ?r) token = Some c"
        by (simp add: issue_agent_capability_def Let_def update_conv)
      from standing_keep [OF snoc.IH [OF this]] Issue False show ?thesis by simp
    qed
  next
    case (Validate w now token' a i)
    with snoc.prems have "map_of (cs_live ?r) token = Some c"
      by (auto simp: validate_agent_capability_def delete_conv' split: option.splits if_splits)
    from standing_keep [OF snoc.IH [OF this]] Validate show ?thesis by simp
  next
    case (LookUp w now token')
    with snoc.prems have "map_of (cs_live ?r) token = Some c"
      by (auto simp: agent_capability_actor_def delete_conv' split: option.splits if_splits)
    from standing_keep [OF snoc.IH [OF this]] LookUp show ?thesis by simp
  next
    case (Revoke w token')
    with snoc.prems have "token' \<noteq> token" "map_of (cs_live ?r) token = Some c"
      by (auto simp: revoke_agent_capability_def delete_conv' split: if_splits)
    from standing_keep [OF snoc.IH [OF this(2)]] this(1) Revoke show ?thesis by simp
  next
    case (Renew w now)
    with snoc.prems obtain c0 where "map_of (cs_live ?r) token = Some c0" "c = renew_capability now c0"
      by (auto simp: renewed_lookup)
    with standing_keep [OF snoc.IH, of c0 "Renew w now"] Renew show ?thesis by simp
  qed
qed simp

text \<open>
  C29: a capability speaks for the agent and task it was issued to. After any history of the registry,
  a token that is accepted was issued to exactly this agent and task, was neither revoked nor issued
  to another since, and is not past its expiry.
\<close>

theorem capability_was_issued:
  assumes "fst (agent_capability_actor w hash now token (fold (capability_step hash) ops \<lparr>cs_live = [], cs_table = t\<rparr>)) = Some (a, i)"
  shows "(\<exists>pre post w now. ops = pre @ Issue w now token a i # post \<and>
      (\<forall>op \<in> set post. (\<forall>w. op \<noteq> Revoke w token) \<and> (\<forall>w now a i. op \<noteq> Issue w now token a i))) \<and>
    (\<exists>c. map_of (cs_live (fold (capability_step hash) ops \<lparr>cs_live = [], cs_table = t\<rparr>)) token = Some c \<and> now \<le> ca_expires_at c)"
proof -
  from assms obtain c where c: "map_of (cs_live (fold (capability_step hash) ops \<lparr>cs_live = [], cs_table = t\<rparr>)) token = Some c"
    "now \<le> ca_expires_at c" "a = ca_agent_id c" "i = ca_task_id c"
    by (auto simp: agent_capability_actor_def not_less split: option.splits if_splits)
  with live_standing [OF c(1)] show ?thesis by (simp add: standing_def)
qed

theorem capability_was_issued_witness:
  "\<exists>pre post w now. [Issue True 100 ''k'' (AgentId 1) (TaskId 2), Renew True 800] = pre @ Issue w now ''k'' (AgentId 1) (TaskId 2) # post"
proof -
  have "fst (agent_capability_actor True rev 1200 ''k'' (fold (capability_step rev)
      [Issue True 100 ''k'' (AgentId 1) (TaskId 2), Renew True 800] \<lparr>cs_live = [], cs_table = []\<rparr>)) = Some (AgentId 1, TaskId 2)"
    by code_simp
  from capability_was_issued [OF this] show ?thesis by blast
qed

text \<open>The renewal asks neither whether the session is alive nor whether the capability still was:
  one past its expiry is accepted again.\<close>

lemma renewal_revives_expired:
  assumes "map_of (cs_live r) token = Some c" "ca_expires_at c < now"
  shows "fst (agent_capability_actor w hash now token r) = None"
    "fst (agent_capability_actor w hash now token (renew_agent_capabilities w hash now r)) = Some (ca_agent_id c, ca_task_id c)"
proof -
  show "fst (agent_capability_actor w hash now token r) = None"
    using assms by (simp add: agent_capability_actor_def)
  have "renewal_due now c"
    using assms(2) saturating_add_ge [of now 300] by (simp add: renewal_due_def)
  moreover have "now \<le> saturating_add now 900" by (rule saturating_add_ge)
  ultimately show "fst (agent_capability_actor w hash now token (renew_agent_capabilities w hash now r)) = Some (ca_agent_id c, ca_task_id c)"
    using assms(1)
    by (simp add: agent_capability_actor_def renewed_lookup renew_capability_def not_less)
qed

section \<open>The view of a task\<close>

















text \<open>
  what a provider session does see is redacted. The view holds the one task, its mission and its
  project without host paths, remote, branch, budget of the mission and provider session; of the agents
  only the caller and those named as supervisor, without instructions, role and session; messages,
  approvals, artifacts, terminals, questions and feed entries of this task only, offers and reviews of
  this caller only; and it is a fixed point: seen again through the same scope it does not shrink.
\<close>

theorem scoped_view_redacted:
  assumes "project_task_scope env oid s i a = Some v"
  shows "project_task_scope env oid v i a = Some v \<and>
    map t_id (s_tasks v) = [i] \<and>
    filter (\<lambda>t. t_worktree t \<noteq> None \<or> t_dependencies t \<noteq> [] \<or> t_assigned_agent t \<notin> {None, Some a}) (s_tasks v) = [] \<and>
    filter (\<lambda>p. p_path p \<noteq> [] \<or> p_remote p \<noteq> None \<or> p_worktree_root p \<noteq> []) (s_projects v) = [] \<and>
    filter (\<lambda>m. m_supervisor_session_id m \<noteq> None \<or> m_branch m \<noteq> [] \<or> m_budget m \<noteq> budget_unlimited) (s_missions v) = [] \<and>
    filter (\<lambda>x. a_instructions x \<noteq> [] \<or> a_role_id x \<noteq> None \<or> a_provider_session_id x \<noteq> None
      \<or> (a_id x \<noteq> a \<and> a_id x \<notin> set (supervisor_ids (s_agents s)))) (s_agents v) = [] \<and>
    filter (\<lambda>m. mv_task_id m \<noteq> Some i) (s_messages v) = [] \<and> filter (\<lambda>x. av_task_id x \<noteq> i) (s_approvals v) = [] \<and>
    filter (\<lambda>x. ar_task_id x \<noteq> Some i) (s_artifacts v) = [] \<and>
    filter (\<lambda>x. of_agent_id x \<noteq> a) (s_work_offers v) = [] \<and>
    filter (\<lambda>r. rv_source_agent r \<noteq> a \<and> rv_reviewer_agent r \<noteq> a) (s_review_items v) = [] \<and>
    s_terminals v = filter (\<lambda>t. te_task_id t = i) (s_terminals s) \<and> s_roles v = [] \<and> s_task_grants v = [] \<and>
    s_operations v = [] \<and> o_published (s_organization v) = None \<and> s_server v = server_settings_default"
proof -
  from assms obtain t m p where found: "find_task i (s_tasks s) = Some t"
    "find (\<lambda>m. m_id m = t_mission_id t) (s_missions s) = Some m" "find (\<lambda>p. p_id p = m_project_id m) (s_projects s) = Some p"
    by (auto simp: project_task_scope_def split: option.splits)
  have ids: "t_id t = i" "m_id m = t_mission_id t" "p_id p = m_project_id m"
    using find_task_SomeD [OF found(1)] find_SomeD [OF found(2)] find_SomeD [OF found(3)] by auto
  have sup: "supervisor_ids (map scope_agent (filter q as)) = supervisor_ids (filter q as)" for q as
    by (induction as) (auto simp: supervisor_ids_def scope_agent_def)
  have keep: "filter (\<lambda>x. a_id x = a \<or> a_id x \<in> set (supervisor_ids (filter (\<lambda>x. a_id x = a \<or> a_id x \<in> set (supervisor_ids as)) as)))
      (filter (\<lambda>x. a_id x = a \<or> a_id x \<in> set (supervisor_ids as)) as)
    = filter (\<lambda>x. a_id x = a \<or> a_id x \<in> set (supervisor_ids as)) as" for as
    unfolding filter_filter by (rule filter_cong) (auto simp: supervisor_ids_def)
  have agents: "filter (\<lambda>x. a_id x = a \<or> a_id x \<in> X) (map scope_agent xs) = map scope_agent (filter (\<lambda>x. a_id x = a \<or> a_id x \<in> X) xs)" for X xs
    by (simp add: filter_map o_def scope_agent_def)
  have boards: "filter (\<lambda>b. b_id b = k) (map scope_taskboard (filter (\<lambda>b. b_id b = k) bs)) = map scope_taskboard (filter (\<lambda>b. b_id b = k) bs)" for k bs
    by (simp add: filter_map o_def scope_taskboard_def)
  have twice: "scope_task a (scope_task a t) = scope_task a t" "scope_mission (scope_mission m) = scope_mission m"
    "scope_project (scope_project p) = scope_project p" "scope_agent (scope_agent x) = scope_agent x"
    "scope_taskboard (scope_taskboard b) = scope_taskboard b" for x b
    by (simp_all add: scope_task_def scope_mission_def scope_project_def scope_agent_def scope_taskboard_def only_caller_def)
  let ?own = "\<lambda>x. a_id x = a \<or> a_id x \<in> set (supervisor_ids (s_agents s))"
  let ?v = "(snapshot_empty (s_server_id s) oid)\<lparr>
      s_revision := s_revision s, s_event_seq := s_event_seq s, s_projects := [scope_project p], s_missions := [scope_mission m],
      s_tasks := [scope_task a t], s_agents := map scope_agent (filter ?own (s_agents s)),
      s_taskboards := (case t_taskboard_id t of None \<Rightarrow> []
        | Some k \<Rightarrow> map scope_taskboard (filter (\<lambda>b. b_id b = k) (s_taskboards s))),
      s_messages := filter (\<lambda>m. mv_task_id m = Some i) (s_messages s),
      s_approvals := filter (\<lambda>x. av_task_id x = i) (s_approvals s),
      s_artifacts := filter (\<lambda>x. ar_task_id x = Some i) (s_artifacts s),
      s_usage := filter (\<lambda>u. us_scope u = budget_scope.Task \<and> us_scope_id u = show_task_id env i) (s_usage s),
      s_terminals := filter (\<lambda>t. te_task_id t = i) (s_terminals s),
      s_task_feed := filter (\<lambda>f. f_task_id f = i) (s_task_feed s),
      s_work_offers := filter (\<lambda>x. of_task_id x = i \<and> of_agent_id x = a) (s_work_offers s),
      s_human_inputs := filter (\<lambda>h. hi_task_id h = i) (s_human_inputs s),
      s_review_items := filter (\<lambda>r. rv_source_task_id r = i \<and> (rv_source_agent r = a \<or> rv_reviewer_agent r = a)) (s_review_items s)\<rparr>"
  have v: "v = ?v" using assms found by (simp add: project_task_scope_def)
  have same [simp]: "t_id (scope_task a t) = i" "t_mission_id (scope_task a t) = m_id m" "m_id (scope_mission m) = m_id m"
    "m_project_id (scope_mission m) = p_id p" "p_id (scope_project p) = p_id p" "t_taskboard_id (scope_task a t) = t_taskboard_id t"
    using ids by (simp_all add: scope_task_def scope_mission_def scope_project_def)
  have "project_task_scope env oid v i a = Some v"
    unfolding v by (simp add: project_task_scope_def find_task_def snapshot_empty_def twice agents keep [unfolded filter_filter] sup boards o_def
        split: option.split)
  moreover have "filter (\<lambda>x. a_instructions x \<noteq> [] \<or> a_role_id x \<noteq> None \<or> a_provider_session_id x \<noteq> None
      \<or> (a_id x \<noteq> a \<and> a_id x \<notin> set (supervisor_ids (s_agents s)))) (s_agents v) = []"
    by (auto simp: v filter_empty_conv scope_agent_def)
  moreover have "map t_id (s_tasks v) = [i]" by (simp add: v)
  ultimately show ?thesis
    by (simp add: v snapshot_empty_def scope_task_def scope_mission_def scope_project_def only_caller_def
        filter_empty_conv organization_default_def ids(1)) blast
qed

theorem scoped_view_redacted_witness:
  "\<exists>v. project_task_scope demo_env (OrganizationId 0) demo_world (TaskId 1) (AgentId 12) = Some v \<and>
     project_task_scope demo_env (OrganizationId 0) v (TaskId 1) (AgentId 12) = Some v \<and> map t_id (s_tasks v) = [TaskId 1]"
proof -
  have "project_task_scope demo_env (OrganizationId 0) demo_world (TaskId 1) (AgentId 12) \<noteq> None" by code_simp
  then obtain v where v: "project_task_scope demo_env (OrganizationId 0) demo_world (TaskId 1) (AgentId 12) = Some v" by blast
  note r = scoped_view_redacted [OF v]
  show ?thesis by (rule exI [of _ v], intro conjI v r [THEN conjunct1] r [THEN conjunct2, THEN conjunct1])
qed

section \<open>Agents at the gateway\<close>

text \<open>
  C11: a provider session stays inside its task. Whatever capability a request presents and whatever other
  requests do between the scope check and the execution, a command that enters with an agent token
  leaves the settings, projects, roles, missions, organization, boards, updates, terminals and recorded
  usage as they are, deletes no task and changes the mission, budget, kind or limits of none.
\<close>

theorem agent_request_confined:
  assumes "commands_route to_str written between others env now headers envelope st caps db = (answer, st', caps', db')"
    and "rh_agent_token headers \<noteq> None"
  shows "estate (st_world st') = estate (st_world (between st)) \<and>
    (\<exists>new. map pact (s_tasks (st_world st')) = map pact (s_tasks (st_world (between st))) @ new)"
proof -
  obtain r caps1 db1 where q: "request_actor to_str written env now headers (ce_command envelope) (st_world st) caps db = (r, caps1, db1)"
    by (metis prod_cases3)
  have "confined (st_world (between st)) (st_world st')"
  proof (cases r)
    case (Inl e)
    with assms(1) q show ?thesis by (simp add: commands_route_def)
  next
    case (Inr x)
    obtain actor role where x: "x = (actor, role)" by (cases x)
    from q Inr assms(2) obtain a i where "agent_command_is_scoped env (st_world st) (ce_command envelope) a i"
      by (auto simp: request_actor_def split: prod.splits option.splits if_splits)
    note scoped = scoped_confines [OF this] scoped_not_organization [OF this]
    obtain resp fs where "execute others env (between st) envelope actor role = (st', resp, fs)"
      using assms(1) q Inr x by (auto simp: commands_route_def split: prod.splits)
    from execute_confined [OF this scoped] show ?thesis .
  qed
  then show ?thesis by (simp add: confined_def)
qed

definition demo_gateway_store :: store where
  "demo_gateway_store = \<lparr>st_world = demo_world\<lparr>s_tasks := [demo_task 1 [] task_status.Running (Some (AgentId 12))]\<rparr>,
     st_revision = 0, st_event_seq = 0, st_answers = [], st_events = [], st_outbox = []\<rparr>"

definition demo_request :: "reply \<times> store \<times> capabilities \<times> accounts" where
  "demo_request = commands_route Some True (\<lambda>st. st) (\<lambda>_ st. st) demo_env 100
     \<lparr>rh_agent_token = Some ''k'', rh_authorization = None\<rparr> (demo_envelope 30 (AddTaskComment (TaskId 1) ''hello'' []))
     demo_gateway_store (issue_agent_capability True rev 50 ''k'' (AgentId 12) (TaskId 1) \<lparr>cs_live = [], cs_table = []\<rparr>)
     \<lparr>au_slot = None, au_owners = [], au_sessions = []\<rparr>"

theorem agent_request_confined_witness:
  "(case fst demo_request of Answered _ \<Rightarrow> True | Refused _ \<Rightarrow> False) \<and>
   estate (st_world (fst (snd demo_request))) = estate (st_world demo_gateway_store)"
proof
  show "case fst demo_request of Answered _ \<Rightarrow> True | Refused _ \<Rightarrow> False" by code_simp
  obtain answer st' caps' db' where r: "demo_request = (answer, st', caps', db')" by (metis prod_cases4)
  have "estate (st_world st') = estate (st_world demo_gateway_store)"
    using agent_request_confined [OF r [unfolded demo_request_def]] by simp
  then show "estate (st_world (fst (snd demo_request))) = estate (st_world demo_gateway_store)"
    by (simp only: r fst_conv snd_conv)
qed

end
