(* ===== verification/AtomicService.thy ===== *)
theory AtomicService
  imports EventLog
begin

text \<open>
  The service as its clients may think of it: a snapshot and the list of what happened, changed by one
  command at a time. There are no revisions, no loaded snapshots, no stored answers and no requests
  in flight in this machine; \<open>server_step\<close> implements it.
\<close>

section \<open>Simulation\<close>

text \<open>A transition system that implements an abstract one, with steps the abstract one does not see.\<close>

locale simulation =
  fixes init :: "'s \<Rightarrow> bool" and step :: "'s \<Rightarrow> 's \<Rightarrow> bool"
    and ainit :: "'a \<Rightarrow> bool" and astep :: "'a \<Rightarrow> 'a \<Rightarrow> bool" and abs :: "'s \<Rightarrow> 'a"
  assumes init_sim: "init s \<Longrightarrow> ainit (abs s)"
    and step_sim: "reachable init step s \<Longrightarrow> step s t \<Longrightarrow> abs t = abs s \<or> astep (abs s) (abs t)"
begin

lemma reachable_sim: "reachable init step s \<Longrightarrow> reachable ainit astep (abs s)"
proof (induction rule: reachable.induct)
  case (reach_step s t)
  from step_sim [OF reach_step.hyps(1,2)] reach_step.IH show ?case by (auto intro: reachable.reach_step)
qed (auto intro: reachable.reach_init init_sim)

lemma run_sim: "step\<^sup>*\<^sup>* s t \<Longrightarrow> reachable init step s \<Longrightarrow> astep\<^sup>*\<^sup>* (abs s) (abs t) \<and> reachable init step t"
proof (induction rule: rtranclp_induct)
  case (step t u)
  then have t: "reachable init step t" "astep\<^sup>*\<^sup>* (abs s) (abs t)" by auto
  from step_sim [OF t(1) step.hyps(2)] t step.hyps(2) show ?case
    by (auto intro: rtranclp.rtrancl_into_rtrancl reachable.reach_step)
qed simp

end

section \<open>The abstract machine\<close>

record atomic =
  at_snapshot :: snapshot
  at_log :: "(command_id \<times> actor_ref \<times> event) list"

definition erase :: "world \<Rightarrow> snapshot" where
  "erase w = snapshot_of (w\<lparr>s_revision := 0, s_event_seq := 0\<rparr>)"

text \<open>A world that shows the abstract state, with any memory of drawn ids and seen messages.\<close>

definition shows_state :: "world \<Rightarrow> atomic \<Rightarrow> bool" where
  "shows_state w a \<longleftrightarrow> erase w = at_snapshot a \<and> s_revision w = of_nat (length (at_log a)) \<and>
     s_event_seq w = of_nat (length (at_log a))"

definition fresh_id :: "command_id \<Rightarrow> atomic \<Rightarrow> bool" where
  "fresh_id i a \<longleftrightarrow> i \<notin> fst ` set (at_log a)"

inductive atomic_step :: "atomic \<Rightarrow> atomic \<Rightarrow> bool" where
  atomic_command:
    "shows_state w a \<Longrightarrow> fresh_id i a \<Longrightarrow> reduce env w c actor = Inr (next, ev, res) \<Longrightarrow>
     atomic_step a \<lparr>at_snapshot = erase next, at_log = at_log a @ [(i, actor, ev)]\<rparr>"
| atomic_delivery:
    "shows_state w a \<Longrightarrow> fresh_id i a \<Longrightarrow> find (\<lambda>x. mv_id x = m) (s_messages w) = Some x \<Longrightarrow>
     mv_delivery x = delivery_status.Queued \<Longrightarrow>
     atomic_step a \<lparr>at_snapshot = erase (edit_message m (\<lambda>x. x\<lparr>mv_delivery := delivery_status.Delivered\<rparr>) w),
       at_log = at_log a @ [(i, actor_system, MessageDelivered m)]\<rparr>"
| atomic_job:
    "shows_state w a \<Longrightarrow> fresh_id i a \<Longrightarrow> job_edit env job w = Inr (Some (next, ev, res)) \<Longrightarrow>
     atomic_step a \<lparr>at_snapshot = erase next, at_log = at_log a @ [(i, actor_system, ev)]\<rparr>"
| atomic_boot:
    "shows_state w a \<Longrightarrow>
     atomic_step a (a\<lparr>at_snapshot := erase (w\<lparr>s_server := (s_server w)\<lparr>sv_tls_fingerprint := fingerprint,
       sv_bind_address := bind, sv_port := port\<rparr>\<rparr>)\<rparr>)"

definition atomic_init :: "atomic \<Rightarrow> bool" where
  "atomic_init a \<longleftrightarrow> (\<exists>i oid. at_snapshot a = snapshot_empty i oid) \<and> at_log a = []"

definition abs_store :: "store \<Rightarrow> atomic" where
  "abs_store st = \<lparr>at_snapshot = erase (st_world st),
     at_log = map (\<lambda>(_, e). (the (ee_correlation_id e), ee_actor e, ee_event e)) (st_events st)\<rparr>"

section \<open>Refinement\<close>

lemma erase_simps [simp]:
  "erase (w\<lparr>s_revision := r, s_event_seq := q\<rparr>) = erase w" "erase (w\<lparr>w_drawn := n, w_seen := x\<rparr>) = erase w"
  "erase (drew w) = erase w" "erase (edit_message m f (drew w)) = erase (edit_message m f w)"
  by (simp_all add: erase_def snapshot_of_def snapshot.truncate_def drew_def edit_message_def)

lemma abs_store_remember [simp]: "abs_store (remember nxt st) = abs_store st"
  by (simp add: abs_store_def remember_def)

lemma log_length: "log_ok st \<Longrightarrow> length (st_events st) = unat (st_revision st)"
  by (metis (no_types, lifting) log_ok_def length_map length_upt diff_Suc_1)

lemma store_shows_state:
  assumes "log_ok st" "store_ok uu st"
  shows "shows_state (st_world st) (abs_store st)"
  using assms log_length [OF assms(1)] by (simp add: shows_state_def abs_store_def store_ok_def log_ok_def)

lemma store_fresh_id:
  assumes "log_ok st" "map_of (st_answers st) i = None"
  shows "fresh_id i (abs_store st)"
proof -
  have "fst ` set (at_log (abs_store st)) = (\<lambda>x. the (ee_correlation_id (snd (snd x)))) ` set (st_answers st)"
    using assms(1) by (auto simp: log_ok_def abs_store_def image_image case_prod_beta)
  also have "\<dots> = fst ` set (st_answers st)"
    using assms(1) by (intro image_cong) (auto simp: log_ok_def answered_def)
  finally show ?thesis using assms(2) by (simp add: fresh_id_def map_of_eq_None_iff)
qed

lemma commit_abs:
  assumes "commit_request env st rq = Inr (st', cm)" "map_of (st_answers st) (rq_command_id rq) = None"
  shows "abs_store st' = \<lparr>at_snapshot = erase (rq_snapshot rq),
    at_log = at_log (abs_store st) @ [(rq_command_id rq, rq_actor rq, rq_event rq)]\<rparr>"
  using assms by (auto simp: commit_request_def abs_store_def Let_def split: sum.splits if_splits)

lemma commit_replayed: "commit_request env st rq = Inr (st', cm) \<Longrightarrow> map_of (st_answers st) (rq_command_id rq) \<noteq> None \<Longrightarrow> st' = st"
  by (auto simp: commit_request_def split: sum.splits)

lemma finish_abs:
  assumes v: "server_ok v" "log_ok (sr_store v)"
    and p: "sr_pending v c = Some (Loaded e actor w)" and a: "apply_loaded env (sr_store v) w e actor = (st', r)"
    and room: "unat (st_revision (sr_store v)) + 1 < 2 ^ 63"
  shows "abs_store st' = abs_store (sr_store v) \<or> atomic_step (abs_store (sr_store v)) (abs_store st')"
proof (cases "st_revision st' = st_revision (sr_store v)")
  case False
  show ?thesis
  proof (rule finish_on_current [OF v(1) p a False])
    fix nxt ev res cm st1
    assume x: "reduce env (st_world (sr_store v)) (ce_command e) actor = Inr (nxt, ev, res)"
      and c: "commit_request env (sr_store v) (request_of env e actor nxt ev res) = Inr (st1, cm)"
      and s: "st' = remember nxt st1" and f: "map_of (st_answers (sr_store v)) (ce_command_id e) = None"
    have "shows_state (st_world (sr_store v)) (abs_store (sr_store v))"
      using v server_ok_store by (blast intro: store_shows_state)
    from atomic_command [OF this store_fresh_id [OF v(2) f] x] commit_abs [OF c] f s
    show ?thesis by (simp add: request_of_def)
  qed
next
  case True
  from a have "abs_store st' = abs_store (sr_store v)"
  proof (cases rule: apply_loadedE)
    case (committed nxt ev res st1 cm)
    show ?thesis
    proof (cases "map_of (st_answers (sr_store v)) (ce_command_id e)")
      case None
      have "st_revision st1 = saturating_add (current_revision (sr_store v)) 1"
        using committed(2) None by (cases rule: commit_requestE) (auto simp: request_of_def)
      moreover have "current_revision (sr_store v) = st_revision (sr_store v)"
        using v(1) by (simp add: server_ok_def current_revision_def read_column_id)
      ultimately have "unat (st_revision st1) = unat (st_revision (sr_store v)) + 1"
        using room by (simp add: saturating_add_one)
      with True committed(3) show ?thesis by (simp add: remember_def)
    next
      case (Some x)
      with commit_replayed [OF committed(2)] committed(3) show ?thesis by (simp add: request_of_def)
    qed
  qed simp_all
  then show ?thesis ..
qed

lemma deliver_abs:
  assumes v: "server_ok v" "log_ok (sr_store v)"
    and d: "deliver_message env (sr_store v) m = Inr st'"
  shows "abs_store st' = abs_store (sr_store v) \<or> atomic_step (abs_store (sr_store v)) (abs_store st')"
proof -
  let ?st = "sr_store v" and ?i = "CommandId (next_uuid env (st_world (sr_store v)))"
  from d consider "st' = ?st" | x cm where "find (\<lambda>x. mv_id x = m) (s_messages (st_world ?st)) = Some x"
      "mv_delivery x = delivery_status.Queued"
      "commit_request env ?st \<lparr>rq_command_id = ?i, rq_expected_revision = Some (s_revision (st_world ?st)),
         rq_actor = actor_system, rq_event = MessageDelivered m, rq_snapshot = edit_message m
           (\<lambda>x. x\<lparr>mv_delivery := delivery_status.Delivered\<rparr>) (drew (st_world ?st)),
         rq_result = Accepted, rq_artifact_bytes = None\<rparr> = Inr (st', cm)"
    by (auto simp: deliver_message_def Let_def split: option.splits if_splits sum.splits)
  then show ?thesis
  proof cases
    case (2 x cm)
    show ?thesis
    proof (cases "map_of (st_answers ?st) ?i")
      case None
      have "shows_state (st_world ?st) (abs_store ?st)"
        using v server_ok_store by (blast intro: store_shows_state)
      from atomic_delivery [OF this store_fresh_id [OF v(2) None] 2(1,2)] commit_abs [OF 2(3)] None
      show ?thesis by simp
    next
      case (Some y)
      with commit_replayed [OF 2(3)] show ?thesis by simp
    qed
  qed simp
qed

lemma job_abs:
  assumes v: "server_ok v" "log_ok (sr_store v)"
    and c: "commit_job 1 (\<lambda>_ st. st) env cid job (sr_store v) = (st', r)"
  shows "abs_store st' = abs_store (sr_store v) \<or> atomic_step (abs_store (sr_store v)) (abs_store st')"
  using c
proof (cases rule: commit_jobE)
  case (committed nxt ev res cm)
  let ?st = "remember nxt (sr_store v)"
  show ?thesis
  proof (cases "map_of (st_answers ?st) cid")
    case None
    then have "fresh_id cid (abs_store (sr_store v))" by (intro store_fresh_id [OF v(2)]) (simp add: remember_def)
    moreover have "shows_state (st_world (sr_store v)) (abs_store (sr_store v))"
      using v server_ok_store by (blast intro: store_shows_state)
    ultimately have "atomic_step (abs_store (sr_store v)) \<lparr>at_snapshot = erase nxt,
        at_log = at_log (abs_store (sr_store v)) @ [(cid, actor_system, ev)]\<rparr>"
      using committed(1) by (intro atomic_job)
    with commit_abs [OF committed(2)] None show ?thesis by (simp add: job_request_def)
  next
    case (Some x)
    with commit_replayed [OF committed(2)] show ?thesis by (simp add: job_request_def)
  qed
qed simp_all

lemma boot_abs:
  assumes v: "server_ok v" "log_ok (sr_store v)"
  shows "atomic_step (abs_store (sr_store v)) (abs_store (boot fingerprint bind port (sr_store v)))"
proof -
  have e: "erase (w\<lparr>s_server := x, w_seen := y\<rparr>) = erase (w\<lparr>s_server := x\<rparr>)" for w x y
    by (simp add: erase_def snapshot_of_def snapshot.truncate_def)
  have "shows_state (st_world (sr_store v)) (abs_store (sr_store v))"
    using v server_ok_store by (blast intro: store_shows_state)
  from atomic_boot [OF this, where fingerprint = fingerprint and bind = bind and port = port] show ?thesis
    by (simp add: abs_store_def boot_def replace_snapshot_def Let_def e)
qed

interpretation serializing: simulation server_init server_step atomic_init atomic_step "\<lambda>v. abs_store (sr_store v)"
proof
  show "atomic_init (abs_store (sr_store v))" if "server_init v" for v
    using that by (auto simp: server_init_def atomic_init_def abs_store_def fresh_store_def erase_def fresh_world_def
        snapshot_of_def snapshot.defs snapshot_empty_def)
next
  fix v v' assume "reachable server_init server_step v" and s: "server_step v v'"
  then have v: "server_ok v" "log_ok (sr_store v)"
    using logging.reachable_inv by blast+
  from s show "abs_store (sr_store v') = abs_store (sr_store v) \<or> atomic_step (abs_store (sr_store v)) (abs_store (sr_store v'))"
    by (cases rule: server_step.cases) (use finish_abs [OF v] deliver_abs [OF v] job_abs [OF v] boot_abs [OF v] in auto)
qed

end
