(* ===== verification/ProgressProperties.thy ===== *)
theory ProgressProperties
  imports AtomicService Installation
begin

text \<open>
  The service against its abstract machine, and that requests end.
\<close>

text \<open>
  C4: the commits that compare the revision are linearizable. The steps are those of \<open>server_step\<close>: requests, deliveries of
  messages, the daemon jobs that name the revision they have read, and restarts. Every state that they reach in any
  interleaving maps to a state of the machine that runs one command at a time on the current snapshot, and every such step is
  invisible to that machine or one of its commands: among these steps a snapshot loaded long before its commit, a retry, a
  replayed command id or a stale revision never shows in the data or in the log. Three writers are not among them
  because they do not compare the revision: the commit of a check run (\<open>runners.rs:973\<close>), the commit of an installation
  (\<open>runners.rs:921\<close>) and the retention loop (\<open>operations_store.rs:166\<close>, \<open>artifacts.rs:213\<close>); what they overwrite is shown by
  \<open>unguarded_writes_lose_commits\<close>.
\<close>

theorem service_refines_atomic:
  assumes "reachable server_init server_step v" "server_step v v'"
  shows "reachable atomic_init atomic_step (abs_store (sr_store v)) \<and>
    (abs_store (sr_store v') = abs_store (sr_store v) \<or> atomic_step (abs_store (sr_store v)) (abs_store (sr_store v')))"
  using serializing.reachable_sim [OF assms(1)] serializing.step_sim [OF assms] by blast

theorem service_refines_atomic_witness:
  "\<exists>v'. server_step demo_pending v' \<and> atomic_step (abs_store (sr_store demo_pending)) (abs_store (sr_store v'))"
proof -
  let ?e = "demo_bound demo_comment" and ?w = "st_world (sr_store demo_server)"
  obtain st' r where a: "apply_loaded demo_env (sr_store demo_server) ?w ?e demo_actor = (st', r)" by fastforce
  let ?v = "demo_pending\<lparr>sr_store := st', sr_pending := (sr_pending demo_pending)(0 := None)\<rparr>"
  have "length (st_events (fst (apply_loaded demo_env (sr_store demo_server) ?w ?e demo_actor))) = 7" by (rule demo_trial_server(3))
  with a have n: "length (at_log (abs_store st')) = 7" by (simp add: abs_store_def)
  have "sr_uuids demo_pending = e_uuid demo_env"
    by (simp add: demo_pending_def demo_server_def demo_start_def demo_env_def)
  with a have s: "server_step demo_pending ?v"
    by (intro step_finish [where env = demo_env and e = ?e and actor = demo_actor and w = ?w and r = r])
      (simp_all add: demo_pending_def demo_server_facts)
  have "length (at_log (abs_store (sr_store demo_server))) = 6" by (simp add: abs_store_def demo_server_facts)
  then have "abs_store st' \<noteq> abs_store (sr_store demo_server)"
    using n by auto
  with service_refines_atomic [OF demo_pending_reachable s] s show ?thesis
    by (intro exI [of _ ?v]) (simp add: demo_pending_def)
qed

section \<open>Requests end\<close>

definition synced :: "store \<Rightarrow> bool" where
  "synced st \<longleftrightarrow> s_revision (st_world st) = st_revision st \<and> unat (st_revision st) < 2 ^ 63"

lemma synced_remember [simp]: "synced (remember nxt st) = synced st"
  by (simp add: synced_def remember_def)

lemma synced_current: "synced st \<Longrightarrow> current_revision st = s_revision (st_world st)"
  by (simp add: synced_def current_revision_def read_column_id)

lemma commit_on_time:
  assumes "synced st" "rq_artifact_bytes rq = None" "rq_expected_revision rq = Some (s_revision (st_world st))"
  shows "\<exists>x. commit_request env st rq = Inr x"
  using assms synced_current [OF assms(1)]
  by (auto simp: commit_request_def check_artifact_bytes_def Let_def split: option.splits)

lemma commit_stale_only: "rq_artifact_bytes rq = None \<Longrightarrow> commit_request env st rq = Inl x \<Longrightarrow> \<exists>r. x = StaleRevision r"
  by (auto simp: commit_request_def check_artifact_bytes_def Let_def split: option.splits if_splits)

lemma commit_stores_answer:
  "commit_request env st rq = Inr (st', cm) \<Longrightarrow> map_of (st_answers st') (rq_command_id rq) = Some (cm_response cm, cm_event cm)"
  by (auto simp: commit_request_def Let_def split: sum.splits option.splits if_splits)

text \<open>The stores that the attempts of \<open>commit_organization_with_retry\<close> read, one after the other.\<close>

fun retry_stores :: "nat \<Rightarrow> (nat \<Rightarrow> store \<Rightarrow> store) \<Rightarrow> env \<Rightarrow> store \<Rightarrow> command_envelope \<Rightarrow> actor_ref \<Rightarrow> store list" where
  "retry_stores 0 others env st e actor = []"
| "retry_stores (Suc k) others env st e actor =
     st # (case reduce env (st_world st) (ce_command e) actor of
             Inl _ \<Rightarrow> []
           | Inr (nxt, _, _) \<Rightarrow> retry_stores k others env (others k (remember nxt st)) e actor)"

text \<open>
  C20: an organization command without a revision makes progress. It is reduced and committed up to four times, each time on
  the snapshot of the moment. On a store whose snapshot carries the revision of its row, which the other writers keep so
  (the retention loop can break it, see \<open>unguarded_writes_lose_commits\<close>): if just one of these attempts is not overtaken by
  another commit, the command is answered with the error that its own reduction gives on the snapshot of an attempt,
  and then that store is unchanged, or it is committed and its answer is stored under its id.
\<close>

theorem organization_retry_progress:
  assumes "synced st" "\<And>k st. synced st \<Longrightarrow> synced (others k st)" "k < n" "\<And>st. others k st = st"
    and "commit_organization_with_retry n others env st e actor = (st', r)"
  shows "(\<exists>response ev. r = Inr response \<and> map_of (st_answers st') (ce_command_id e) = Some (response, ev)) \<or>
    (\<exists>s \<in> set (retry_stores n others env st e actor). \<exists>err.
       r = Inl err \<and> st' = s \<and> reduce env (st_world s) (ce_command e) actor = Inl err)"
  using assms(1,3,5)
proof (induction n arbitrary: st)
  case (Suc n)
  show ?case
  proof (cases "reduce env (st_world st) (ce_command e) actor")
    case (Inr x)
    obtain nxt ev res where x: "x = (nxt, ev, res)" by (cases x)
    let ?st1 = "others n (remember nxt st)"
    let ?rq = "\<lparr>rq_command_id = ce_command_id e, rq_expected_revision = Some (s_revision (st_world st)), rq_actor = actor,
      rq_event = ev, rq_snapshot = with_memory nxt ?st1, rq_result = res, rq_artifact_bytes = None\<rparr>"
    show ?thesis
    proof (cases "commit_request env ?st1 ?rq")
      case ok: (Inr y)
      obtain st2 cm where y: "y = (st2, cm)" by (cases y)
      have "st' = st2" "r = Inr (cm_response cm)" using Suc.prems(3) Inr ok x y by (simp_all add: Let_def)
      then show ?thesis using commit_stores_answer [OF ok [unfolded y]] by simp
    next
      case (Inl y)
      from commit_stale_only [OF _ Inl] obtain v where y: "y = StaleRevision v" by auto
      have "n \<noteq> k"
      proof
        assume "n = k"
        with assms(4) have "?st1 = remember nxt st" by simp
        with commit_on_time [of ?st1 ?rq env] Suc.prems(1) Inl show False by (simp add: remember_def synced_def)
      qed
      with Suc.prems(2) have "k < n" by simp
      with Suc.IH [of ?st1] Suc.prems Inl \<open>reduce env _ _ _ = Inr x\<close> x y assms(2) show ?thesis
        by (simp add: Let_def)
    qed
  qed (use Suc.prems(3) in auto)
qed simp

theorem organization_retry_progress_witness:
  "snd (commit_organization_with_retry 4 (\<lambda>_ st. st) demo_env (sr_store demo_server)
       (demo_envelope 40 (PublishOrganization 7)) demo_actor) = Inl (OrganizationRevisionConflict 7 0) \<and>
   (\<exists>s. reduce demo_env s (PublishOrganization 7) demo_actor = Inl (OrganizationRevisionConflict 7 0))"
proof -
  let ?c = "commit_organization_with_retry 4 (\<lambda>_ st. st) demo_env (sr_store demo_server)
       (demo_envelope 40 (PublishOrganization 7)) demo_actor"
  obtain st' r where c: "?c = (st', r)" by (cases ?c)
  have "synced (sr_store demo_server)" by (simp add: synced_def demo_server_facts)
  from organization_retry_progress [OF this _ _ _ c, of 0]
  have p: "(\<exists>response. r = Inr response) \<or> (\<exists>s err. r = Inl err \<and>
      reduce demo_env s (PublishOrganization 7) demo_actor = Inl err)" by (auto simp: demo_envelope_def)
  have r: "snd ?c = Inl (OrganizationRevisionConflict 7 0)" by (rule demo_trial_server(5))
  with p c have "\<exists>s. reduce demo_env s (PublishOrganization 7) demo_actor = Inl (OrganizationRevisionConflict 7 0)" by auto
  with r show ?thesis by blast
qed

end
