(* ===== verification/Retention.thy ===== *)
theory Retention
  imports Server
begin

text \<open>
  The retention loop of the server (\<open>spawn_background_exporter\<close> in \<open>frank-server/src/lib.rs\<close>) prunes
  old operations (\<open>frank-store/src/operations_store.rs\<close>) and artifacts
  (\<open>frank-store/src/artifacts.rs\<close>). Both read the snapshot, drop rows from it and write it back in a
  later transaction; \<open>between\<close> is what other requests do to the store in the meantime. The check runs
  of a host runner (\<open>frank-server/src/routes/runners.rs\<close>) are committed the same way: with the
  snapshot read before and no expected revision. These writers are not steps of \<open>server_step\<close>.
\<close>

section \<open>Cutoffs\<close>

text \<open>Timestamps are milliseconds in decimal and are compared as texts. \<open>days * 86400000\<close> of a 16-bit
  number of days does not saturate.\<close>

definition retention_cutoff :: "nat \<Rightarrow> u16 \<Rightarrow> timestamp" where
  "retention_cutoff now_ms days = show_nat (now_ms - max (unat days) 1 * 86400000)"

section \<open>Operations\<close>

definition prunable_operation :: "timestamp \<Rightarrow> operation_view \<Rightarrow> bool" where
  "prunable_operation cutoff x \<longleftrightarrow> op_updated_at x < cutoff \<and>
     op_status x \<in> {operation_status.Succeeded, operation_status.Failed, operation_status.Cancelled}"

text \<open>The last statement of both prunings: \<open>UPDATE server_state SET snapshot_json\<close>, without a revision.\<close>

definition write_snapshot :: "world \<Rightarrow> store \<Rightarrow> store" where
  "write_snapshot w st = st\<lparr>st_world := with_memory w st\<rparr>"

text \<open>\<open>table\<close> is the content of the table \<open>operations\<close>.\<close>

definition prune_operations_before ::
    "timestamp \<Rightarrow> operation_view list \<Rightarrow> (store \<Rightarrow> store) \<Rightarrow> store \<Rightarrow> store \<times> nat" where
  "prune_operations_before cutoff table between st =
     (let candidates = map op_id (filter (prunable_operation cutoff) table) in
      if candidates = [] then (st, 0)
      else (let snapshot = st_world st in
            (write_snapshot (snapshot\<lparr>s_operations := filter (\<lambda>x. op_id x \<notin> set candidates) (s_operations snapshot)\<rparr>)
               (between st), length candidates)))"

section \<open>Artifacts\<close>

definition prunable_artifact :: "timestamp \<Rightarrow> artifact_id list \<Rightarrow> 'z snapshot_scheme \<Rightarrow> artifact_view \<Rightarrow> bool" where
  "prunable_artifact cutoff linked s a \<longleftrightarrow>
     any (\<lambda>m. m_id m = ar_mission_id a \<and> m_status m = mission_status.Completed) (s_missions s) \<and>
     \<not> ar_pinned a \<and> ar_created_at a < cutoff \<and> ar_id a \<notin> set linked"

text \<open>\<open>linked\<close> are the artifacts in \<open>task_artifact_links\<close>.\<close>

definition prune_artifacts_before ::
    "timestamp \<Rightarrow> artifact_id list \<Rightarrow> (store \<Rightarrow> store) \<Rightarrow> store \<Rightarrow> store \<times> nat" where
  "prune_artifacts_before cutoff linked between st =
     (let snapshot = st_world st;
          candidates = map ar_id (filter (prunable_artifact cutoff linked snapshot) (s_artifacts snapshot)) in
      if candidates = [] then (st, 0)
      else (write_snapshot (snapshot\<lparr>s_artifacts := filter (\<lambda>a. ar_id a \<notin> set candidates) (s_artifacts snapshot)\<rparr>)
              (between st), length candidates))"

section \<open>Check runs\<close>

definition record_check_run ::
    "env \<Rightarrow> command_id \<Rightarrow> check_run_view \<Rightarrow> (store \<Rightarrow> store) \<Rightarrow> store \<Rightarrow> store_error + store" where
  "record_check_run env cid check between st =
     (let snapshot = st_world st; st1 = between st in
      case commit_request env st1 \<lparr>rq_command_id = cid, rq_expected_revision = None, rq_actor = actor_system,
             rq_event = CheckRunRecorded check, rq_snapshot = with_memory snapshot st1, rq_result = Accepted,
             rq_artifact_bytes = None\<rparr> of
        Inl e \<Rightarrow> Inl e
      | Inr (st', _) \<Rightarrow> Inr st')"

section \<open>Texts of equal length compare as numbers\<close>

lemma snoc_less:
  "length xs = length ys \<Longrightarrow> (xs @ [x] < ys @ [y]) = (xs < ys \<or> xs = ys \<and> x < (y :: 'a :: order))"
  by (induction xs ys rule: list_induct2) auto

lemma digit_less: "d < 10 \<Longrightarrow> e < 10 \<Longrightarrow> (char_of (48 + d) < (char_of (48 + e) :: char)) = (d < (e :: nat))"
  by (simp add: less_char_def)

lemma digit_eq: "d < 10 \<Longrightarrow> e < 10 \<Longrightarrow> (char_of (48 + d) = (char_of (48 + e) :: char)) = (d = (e :: nat))"
  by (metis digit_less less_irrefl linorder_neqE_nat)

lemma decimal_less: "(a div 10 < b div 10 \<or> a div 10 = b div 10 \<and> a mod 10 < b mod 10) = (a < (b :: nat))"
proof -
  have "r < 10 \<Longrightarrow> t < 10 \<Longrightarrow> (q < p \<or> q = p \<and> r < t) = (q * 10 + r < p * 10 + (t :: nat))" for q r p t
    by presburger
  from this [of "a mod 10" "b mod 10" "a div 10" "b div 10"] show ?thesis by simp
qed

lemma show_nat_less: "length (show_nat a) = length (show_nat b) \<Longrightarrow> (show_nat a < show_nat b) = (a < b)"
proof (induction a arbitrary: b rule: less_induct)
  case (less a)
  have len: "length (show_nat n) = 1 \<longleftrightarrow> n < 10" for n
    by (subst show_nat.simps) (auto simp: show_nat.simps)
  show ?case
  proof (cases "a < 10")
    case True
    with less.prems len [of a] len [of b] have "b < 10" by simp
    with True show ?thesis using digit_less [of a b] by (simp add: show_nat.simps)
  next
    case False
    with less.prems len [of a] len [of b] have b: "\<not> b < 10" by simp
    have s: "show_nat n = show_nat (n div 10) @ [char_of (48 + n mod 10)]" if "\<not> n < 10" for n
      using that by (subst show_nat.simps) simp
    have l: "length (show_nat (a div 10)) = length (show_nat (b div 10))"
      using less.prems s [OF False] s [OF b] by simp
    have "a div 10 < a" using False by simp
    from less.IH [OF this l] have lt: "(show_nat (a div 10) < show_nat (b div 10)) = (a div 10 < b div 10)" .
    have "b div 10 < b" using b by simp
    have eq: "(show_nat (a div 10) = show_nat (b div 10)) = (a div 10 = b div 10)"
      using lt less.IH [OF \<open>a div 10 < a\<close> l] by (metis parse_digits_show_nat option.inject)
    have "(show_nat a < show_nat b) = (a div 10 < b div 10 \<or> a div 10 = b div 10 \<and> a mod 10 < b mod 10)"
      unfolding s [OF False] s [OF b] snoc_less [OF l] lt eq
      using digit_less [of "a mod 10" "b mod 10"] by simp
    also have "\<dots> = (a < b)" by (rule decimal_less)
    finally show ?thesis .
  qed
qed

end
