(* ===== verification/EventFeed.thy ===== *)
theory EventFeed
  imports EventLog
begin

text \<open>
  The event log as its readers see it: the pages of \<open>frank-store/src/events.rs\<close> with pruning by age, the
  replay loop of the event socket (\<open>frank-server/src/routes/events.rs\<close>) and the export of the audit
  file. The table \<open>events\<close> is a list of rows; its \<open>seq\<close> column holds the bits of the \<open>u64\<close> as \<open>i64\<close>.
\<close>

section \<open>Pages\<close>

record event_page =
  ep_events :: "event_envelope list"
  ep_oldest_seq :: "u64 option"
  ep_latest_seq :: u64
  ep_resync_required :: bool

definition min_seq :: "event_envelope list \<Rightarrow> u64 option" where
  "min_seq table = (if table = [] then None else Some (word_of_int (Min (set (map (\<lambda>e. sint (ee_seq e)) table)))))"

text \<open>The three queries of \<open>events_after\<close> are not one transaction: \<open>event_seq\<close> is the column they see
  first, \<open>table\<close> the rows for \<open>MIN(seq)\<close> and \<open>rows\<close> those for the page.\<close>

definition events_after ::
    "u64 \<Rightarrow> event_envelope list \<Rightarrow> event_envelope list \<Rightarrow> u64 \<Rightarrow> u32 \<Rightarrow> event_page" where
  "events_after event_seq table rows after limit =
     (let latest_seq = read_column event_seq;
          oldest_seq = map_option read_column (min_seq table);
          resync_required = (case oldest_seq of
              Some first \<Rightarrow> saturating_add after 1 < first
            | None \<Rightarrow> after < latest_seq) in
      if resync_required
      then \<lparr>ep_events = [], ep_oldest_seq = oldest_seq, ep_latest_seq = latest_seq, ep_resync_required = True\<rparr>
      else \<lparr>ep_events = map (\<lambda>e. e\<lparr>ee_seq := read_column (ee_seq e)\<rparr>)
              (take (max (unat limit) 1) (sort_key (\<lambda>e. sint (ee_seq e)) (filter (\<lambda>e. sint after < sint (ee_seq e)) rows))),
            ep_oldest_seq = oldest_seq, ep_latest_seq = latest_seq, ep_resync_required = False\<rparr>)"

definition prune_events_before :: "timestamp \<Rightarrow> event_envelope list \<Rightarrow> event_envelope list" where
  "prune_events_before cutoff table = filter (\<lambda>e. \<not> ee_occurred_at e < cutoff) table"

section \<open>The replay of a subscriber\<close>

text \<open>What the three statements of one call of \<open>events_after\<close> see. Commits and the deletions of the retention loop
  come between the statements and between the pages.\<close>

record page_view =
  pv_event_seq :: u64
  pv_table :: "event_envelope list"
  pv_rows :: "event_envelope list"

definition view_page :: "page_view \<Rightarrow> u64 \<Rightarrow> u32 \<Rightarrow> event_page" where
  "view_page view = events_after (pv_event_seq view) (pv_table view) (pv_rows view)"

datatype replay_end = Drained | ResyncSent | Unfinished

text \<open>Pages are sent until one is not full. The events sent and the cursor after them; the list has one view for
  each page, and the replay is unfinished when it ends first.\<close>

fun event_replay :: "page_view list \<Rightarrow> u32 \<Rightarrow> u64 \<Rightarrow> replay_end \<times> event_envelope list \<times> u64" where
  "event_replay [] batch cursor = (Unfinished, [], cursor)"
| "event_replay (view # views) batch cursor =
     (let page = view_page view cursor batch in
      if ep_resync_required page then (ResyncSent, [], cursor)
      else (let cursor' = (if ep_events page = [] then cursor else ee_seq (last (ep_events page))) in
            if max (unat batch) 1 \<le> length (ep_events page)
            then (case event_replay views batch cursor' of (ending, sent, c) \<Rightarrow> (ending, ep_events page @ sent, c))
            else (Drained, ep_events page, cursor')))"

section \<open>The audit file\<close>

text \<open>One round of the exporter. \<open>written\<close> are the events whose lines are in the file, \<open>crash = Some j\<close>
  stops it after \<open>j\<close> appended lines, before the rows are marked. The model takes it that the file reads back in full and
  that an append is a whole line; \<open>frank_safeio::read_lines\<close> returns no line at all when it cannot read the file.\<close>

definition export_audit_once ::
    "nat \<Rightarrow> nat option \<Rightarrow> (event_envelope \<times> bool) list \<Rightarrow> event_envelope list
       \<Rightarrow> (event_envelope \<times> bool) list \<times> event_envelope list" where
  "export_audit_once max_rows crash outbox written =
     (let rows = take (max max_rows 1) (sort_key (\<lambda>e. sint (ee_seq e)) (map fst (filter (\<lambda>(e, exported). \<not> exported) outbox)));
          already_written = set (map ee_seq written);
          lines = filter (\<lambda>e. read_column (ee_seq e) \<notin> already_written) rows in
      case crash of
        Some j \<Rightarrow> (outbox, written @ take j lines)
      | None \<Rightarrow> (map (\<lambda>(e, exported). (e, exported \<or> ee_seq e \<in> set (map ee_seq rows))) outbox, written @ lines))"

section \<open>Pages of a numbered log\<close>

text \<open>A log whose events are numbered from one, as \<open>log_ok\<close> gives it.\<close>

definition numbered :: "event_envelope list \<Rightarrow> bool" where
  "numbered xs \<longleftrightarrow> length xs < 2 ^ 63 \<and> map (unat \<circ> ee_seq) xs = [1..<Suc (length xs)]"

lemma log_numbered:
  assumes "log_ok st"
  shows "numbered (map snd (st_events st))" "length (st_events st) = unat (st_event_seq st)"
proof -
  have l: "map (unat \<circ> ee_seq \<circ> snd) (st_events st) = [1..<Suc (unat (st_revision st))]"
    and q: "st_event_seq st = st_revision st" "unat (st_revision st) < 2 ^ 63"
    using assms unfolding log_ok_def by (blast | metis)+
  from arg_cong [OF l, of length] have n: "length (st_events st) = unat (st_revision st)" by simp
  with q show "length (st_events st) = unat (st_event_seq st)" by simp
  show "numbered (map snd (st_events st))" unfolding numbered_def using l n q by (simp add: comp_assoc del: upt_Suc)
qed

lemma sint_small: "unat v < 2 ^ 63 \<Longrightarrow> sint (v :: u64) = int (unat v)"
proof -
  assume "unat v < 2 ^ 63"
  then have "int (unat v) < int (2 ^ 63)" by (simp only: of_nat_less_iff)
  then have "uint v < 2 ^ 63" by simp
  moreover have "- (2 ^ 63) \<le> uint v" by (rule order_trans [OF _ uint_ge_0]) simp
  ultimately have "signed_take_bit 63 (uint v) = uint v" by (intro signed_take_bit_int_eq_self)
  then show ?thesis by (simp add: sint_uint)
qed

lemma numbered_nth:
  assumes "numbered xs" "i < length xs"
  shows "unat (ee_seq (xs ! i)) = Suc i" "sint (ee_seq (xs ! i)) = int (Suc i)" "read_column (ee_seq (xs ! i)) = ee_seq (xs ! i)"
proof -
  have "map (unat \<circ> ee_seq) xs ! i = [1..<Suc (length xs)] ! i" using assms(1) by (simp add: numbered_def)
  then show u: "unat (ee_seq (xs ! i)) = Suc i" using assms(2) by (simp add: nth_upt del: upt_Suc)
  have "Suc i < 2 ^ 63" using assms by (simp add: numbered_def)
  then have b: "unat (ee_seq (xs ! i)) < 2 ^ 63" using u by simp
  then show "read_column (ee_seq (xs ! i)) = ee_seq (xs ! i)" by (rule read_column_id)
  show "sint (ee_seq (xs ! i)) = int (Suc i)" using sint_small [OF b] u by simp
qed

lemma filter_drop_nth: "(\<And>i. i < length xs \<Longrightarrow> P (xs ! i) \<longleftrightarrow> m \<le> i) \<Longrightarrow> filter P xs = drop m xs"
proof -
  assume P: "\<And>i. i < length xs \<Longrightarrow> P (xs ! i) \<longleftrightarrow> m \<le> i"
  have "filter P (take m xs) = []" by (auto simp: filter_empty_conv in_set_conv_nth P)
  moreover have "filter P (drop m xs) = drop m xs" by (auto simp: filter_id_conv in_set_conv_nth P)
  ultimately show ?thesis by (metis append_take_drop_id filter_append append_Nil)
qed

lemma numbered_filter:
  assumes "numbered xs" "unat (c :: u64) < 2 ^ 63"
  shows "filter (\<lambda>e. sint c < sint (ee_seq e)) (drop n xs) = drop (max n (unat c)) xs"
proof -
  define k where "k = unat c"
  have k: "sint c = int k" using sint_small [OF assms(2)] by (simp only: k_def)
  have "filter (\<lambda>e. sint c < sint (ee_seq e)) (drop n xs) = drop (k - n) (drop n xs)"
    using numbered_nth(2) [OF assms(1)] unfolding k by (intro filter_drop_nth) auto
  then have "filter (\<lambda>e. sint c < sint (ee_seq e)) (drop n xs) = drop (unat c - n) (drop n xs)" by (simp only: k_def)
  also have "\<dots> = drop (max n (unat c)) xs" by (simp add: max_def)
  finally show ?thesis .
qed

lemma numbered_sorted: "numbered xs \<Longrightarrow> sort_key (\<lambda>e. sint (ee_seq e)) (drop n xs) = drop n xs"
  using numbered_nth(2) [of xs] by (intro sort_key_id_if_sorted) (auto simp: sorted_iff_nth_mono)

lemma numbered_read: "numbered xs \<Longrightarrow> set ys \<subseteq> set xs \<Longrightarrow> map (\<lambda>e. e\<lparr>ee_seq := read_column (ee_seq e)\<rparr>) ys = ys"
proof (rule map_idI)
  fix e assume "numbered xs" "set ys \<subseteq> set xs" "e \<in> set ys"
  then obtain i where "i < length xs" "e = xs ! i" by (metis in_set_conv_nth subsetD)
  then show "e\<lparr>ee_seq := read_column (ee_seq e)\<rparr> = e" using numbered_nth(3) [OF \<open>numbered xs\<close>] by simp
qed

lemma numbered_min:
  assumes "numbered xs" "n < length xs"
  shows "map_option read_column (min_seq (drop n xs)) = Some (ee_seq (xs ! n))"
proof -
  have "Min (set (map (\<lambda>e. sint (ee_seq e)) (drop n xs))) = sint (ee_seq (xs ! n))"
  proof (rule Min_eqI)
    show "y \<ge> sint (ee_seq (xs ! n))" if "y \<in> set (map (\<lambda>e. sint (ee_seq e)) (drop n xs))" for y
      using that numbered_nth(2) [OF assms(1)] assms(2) by (auto simp: in_set_conv_nth)
    show "sint (ee_seq (xs ! n)) \<in> set (map (\<lambda>e. sint (ee_seq e)) (drop n xs))"
      unfolding Cons_nth_drop_Suc [OF assms(2), symmetric] by simp
  qed simp
  then show ?thesis using assms numbered_nth(3) [OF assms] by (simp add: min_seq_def)
qed

lemma numbered_take: "numbered xs \<Longrightarrow> numbered (take k xs)"
proof -
  assume xs: "numbered xs"
  have "take k [1..<Suc (length xs)] = [1..<Suc (min (length xs) k)]" by (simp add: min_def del: upt_Suc)
  then show ?thesis using xs unfolding numbered_def take_map [symmetric] by (auto simp del: upt_Suc)
qed

text \<open>A page read while the log grows from \<open>i\<close> to \<open>j\<close> and to \<open>k\<close> events and its first \<open>n\<close> rows are gone is the next piece
  of the log, unless the cursor is before the first row left.\<close>

lemma events_after_seen:
  assumes xs: "numbered xs" and marks: "n \<le> i" "i \<le> j" "k \<le> length xs" "j \<le> length xs" and seq: "unat seq = i" and c: "unat after < 2 ^ 63"
  shows "ep_resync_required (events_after seq (drop n (take j xs)) rows after limit) \<longleftrightarrow> unat after < n"
    and "\<not> unat after < n \<Longrightarrow> rows = drop n (take k xs) \<Longrightarrow>
      ep_events (events_after seq (drop n (take j xs)) rows after limit) = take (max (unat limit) 1) (drop (unat after) (take k xs))"
proof -
  let ?page = "events_after seq (drop n (take j xs)) rows after limit"
  have len: "length xs < 2 ^ 63" using xs by (simp add: numbered_def)
  then have col: "read_column seq = seq" using seq marks by (intro read_column_id) simp
  have read: "map (\<lambda>e. e\<lparr>ee_seq := read_column (ee_seq e)\<rparr>)
      (take m (sort_key (\<lambda>e. sint (ee_seq e)) (filter (\<lambda>e. sint after < sint (ee_seq e)) (drop n (take k xs)))))
      = take m (drop (max n (unat after)) (take k xs))" for m
    unfolding numbered_filter [OF numbered_take [OF xs] c] numbered_sorted [OF numbered_take [OF xs]]
    by (rule numbered_read [OF numbered_take [OF xs, of k]]) (meson in_set_takeD in_set_dropD subsetI)
  have "unat (saturating_add after 1) = Suc (unat after)" using c by (simp add: saturating_add_one)
  then have less: "saturating_add after 1 < ee_seq (take j xs ! n) \<longleftrightarrow> unat after < n" if "n < j"
    using numbered_nth(1) [OF xs, of n] marks that by (simp add: word_less_nat_alt)
  show r: "ep_resync_required ?page \<longleftrightarrow> unat after < n"
  proof (cases "n < j")
    case True
    then have "n < length (take j xs)" using marks by simp
    note first = numbered_min [OF numbered_take [OF xs] this]
    show ?thesis unfolding events_after_def Let_def first using less [OF True] by simp
  next
    case False
    then have "n = i" "drop n (take j xs) = []" using marks by simp_all
    then show ?thesis using seq by (simp add: events_after_def Let_def min_seq_def col word_less_nat_alt)
  qed
  assume a: "\<not> unat after < n" and rows: "rows = drop n (take k xs)"
  with r have "\<not> ep_resync_required ?page" by simp
  then have "ep_events ?page = take (max (unat limit) 1) (drop (max n (unat after)) (take k xs))"
    unfolding events_after_def Let_def rows read by (simp split: if_splits)
  also have "max n (unat after) = unat after" using a by simp
  finally show "ep_events ?page = take (max (unat limit) 1) (drop (unat after) (take k xs))" .
qed

lemma numbered_last:
  assumes "numbered xs" "0 < n" "n \<le> length xs - c" "c \<le> length xs"
  shows "unat (ee_seq (last (take n (drop c xs)))) = c + n"
proof -
  have "last (take n (drop c xs)) = xs ! (c + (n - 1))"
    using assms by (subst last_conv_nth) auto
  with numbered_nth(1) [OF assms(1), of "c + (n - 1)"] assms show ?thesis by simp
qed

text \<open>The view of a page whose statements see the first \<open>i\<close>, \<open>j\<close> and \<open>k\<close> events of the log, the first \<open>n\<close> of them deleted.\<close>

definition seen_page :: "event_envelope list \<Rightarrow> nat \<times> nat \<times> nat \<times> nat \<Rightarrow> page_view" where
  "seen_page log mark = (case mark of (n, i, j, k) \<Rightarrow>
     \<lparr>pv_event_seq = word_of_nat i, pv_table = drop n (take j log), pv_rows = drop n (take k log)\<rparr>)"

definition mark_ok :: "event_envelope list \<Rightarrow> nat \<times> nat \<times> nat \<times> nat \<Rightarrow> bool" where
  "mark_ok log mark \<longleftrightarrow> (case mark of (n, i, j, k) \<Rightarrow> n \<le> i \<and> i \<le> j \<and> j \<le> k \<and> k \<le> length log)"

definition mark_deleted :: "nat \<times> nat \<times> nat \<times> nat \<Rightarrow> nat" where
  "mark_deleted mark = fst mark"

definition mark_rows :: "nat \<times> nat \<times> nat \<times> nat \<Rightarrow> nat" where
  "mark_rows mark = snd (snd (snd mark))"

lemma view_page_seen:
  assumes xs: "numbered log" and m: "mark_ok log mark" and c: "unat cursor < 2 ^ 63"
  shows "ep_resync_required (view_page (seen_page log mark) cursor batch) \<longleftrightarrow> unat cursor < mark_deleted mark"
    and "\<not> unat cursor < mark_deleted mark \<Longrightarrow>
      ep_events (view_page (seen_page log mark) cursor batch) = take (max (unat batch) 1) (drop (unat cursor) (take (mark_rows mark) log))"
proof -
  obtain n i j k where mark: "mark = (n, i, j, k)" by (cases mark)
  have l: "n \<le> i" "i \<le> j" "k \<le> length log" "j \<le> length log" using m by (simp_all add: mark_ok_def mark)
  have "length log < 2 ^ 63" using xs by (simp add: numbered_def)
  then have "i < 2 ^ LENGTH(64)" using l by simp
  then have "unat (word_of_nat i :: u64) = i" by (simp add: unsigned_of_nat take_bit_nat_eq_self)
  note page = events_after_seen [OF xs l this c]
  show "ep_resync_required (view_page (seen_page log mark) cursor batch) \<longleftrightarrow> unat cursor < mark_deleted mark"
    using page(1) by (simp add: view_page_def seen_page_def mark mark_deleted_def)
  show "ep_events (view_page (seen_page log mark) cursor batch) = take (max (unat batch) 1) (drop (unat cursor) (take (mark_rows mark) log))"
    if "\<not> unat cursor < mark_deleted mark" using that page(2)
    by (simp add: view_page_def seen_page_def mark mark_deleted_def mark_rows_def)
qed

text \<open>The cursor after a page.\<close>

lemma page_cursor:
  fixes b
  assumes xs: "numbered log" and k: "k \<le> length log" and c: "unat cursor \<le> length log"
  defines "es \<equiv> take b (drop (unat cursor) (take k log))"
  shows "unat (if es = [] then cursor else ee_seq (last es)) = unat cursor + length es"
proof (cases "es = []")
  case False
  let ?n = "min b (k - unat cursor)"
  have es: "es = take ?n (drop (unat cursor) log)" "length es = ?n" using k by (auto simp: es_def drop_take)
  then have "0 < ?n" using False by (metis gr0I list.size(3) length_0_conv)
  then have "unat (ee_seq (last (take ?n (drop (unat cursor) log)))) = unat cursor + ?n"
    using k c by (intro numbered_last [OF xs]) auto
  then show ?thesis using False es by simp
qed simp

lemma segment_join:
  assumes "as = take (length as) (drop c xs)" "bs = take (length bs) (drop (c + length as) xs)"
  shows "as @ bs = take (length (as @ bs)) (drop c xs)"
proof -
  have "take (length as + length bs) (drop c xs) = take (length as) (drop c xs) @ take (length bs) (drop (length as) (drop c xs))"
    by (rule take_add)
  also have "drop (length as) (drop c xs) = drop (c + length as) xs" by (simp add: add.commute)
  finally show ?thesis using assms by simp
qed

definition replay_ok :: "event_envelope list \<Rightarrow> (nat \<times> nat \<times> nat \<times> nat) list \<Rightarrow> u64 \<Rightarrow> replay_end \<times> event_envelope list \<times> u64 \<Rightarrow> bool" where
  "replay_ok log marks after r \<longleftrightarrow> (case r of (ending, sent, cursor) \<Rightarrow>
     sent = take (length sent) (drop (unat after) log) \<and> unat cursor = unat after + length sent \<and> unat cursor \<le> length log \<and>
     (ending = Drained \<longrightarrow> (\<exists>m \<in> set marks. mark_rows m \<le> unat cursor)) \<and>
     (ending = ResyncSent \<longrightarrow> (\<exists>m \<in> set marks. unat cursor < mark_deleted m)) \<and>
     (ending = Unfinished \<longrightarrow> length marks \<le> length sent))"

lemma event_replay_ok:
  assumes xs: "numbered log"
  shows "list_all (mark_ok log) marks \<Longrightarrow> unat c \<le> length log \<Longrightarrow>
    replay_ok log marks c (event_replay (map (seen_page log) marks) batch c)"
proof (induction marks arbitrary: c)
  case Nil
  then show ?case by (simp add: replay_ok_def)
next
  case (Cons mark marks)
  let ?page = "view_page (seen_page log mark) c batch" and ?b = "max (unat batch) 1"
  have m: "mark_ok log mark" "mark_rows mark \<le> length log" using Cons.prems(1) by (auto simp: mark_ok_def mark_rows_def)
  have c: "unat c < 2 ^ 63" using Cons.prems(2) xs by (simp add: numbered_def)
  note page = view_page_seen [OF xs m(1) c, of batch]
  show ?case
  proof (cases "unat c < mark_deleted mark")
    case True
    then show ?thesis using page(1) Cons.prems(2) by (simp add: replay_ok_def Let_def)
  next
    case False
    define es where "es = take ?b (drop (unat c) (take (mark_rows mark) log))"
    define c' where "c' = (if es = [] then c else ee_seq (last es))"
    have p: "ep_events ?page = es" "\<not> ep_resync_required ?page" using page False by (simp_all add: es_def)
    have c': "unat c' = unat c + length es" unfolding c'_def es_def by (rule page_cursor [OF xs m(2) Cons.prems(2)])
    have seg: "es = take (length es) (drop (unat c) log)" unfolding es_def using m(2) by (simp add: drop_take min_def)
    have bound: "length es \<le> mark_rows mark - unat c" "length es \<le> ?b" by (simp_all add: es_def)
    then have le: "unat c' \<le> length log" using c' m(2) Cons.prems(2) by simp
    show ?thesis
    proof (cases "?b \<le> length es")
      case True
      obtain ending sent cursor where r: "event_replay (map (seen_page log) marks) batch c' = (ending, sent, cursor)" by (metis prod_cases3)
      have ih: "replay_ok log marks c' (ending, sent, cursor)" using Cons.IH [OF _ le] Cons.prems(1) by (simp add: r)
      then have "es @ sent = take (length (es @ sent)) (drop (unat c) log)"
        unfolding replay_ok_def prod.case c' by (intro segment_join [OF seg]) blast
      moreover have "event_replay (map (seen_page log) (mark # marks)) batch c = (ending, es @ sent, cursor)"
        by (simp only: list.map event_replay.simps Let_def p(1) if_not_P [OF p(2)] c'_def [symmetric] if_P [OF True] r prod.case)
      ultimately show ?thesis using ih c' True by (auto simp: replay_ok_def)
    next
      case False
      then have "mark_rows mark \<le> unat c'" using m(2) c' by (simp add: es_def min_def split: if_splits)
      moreover have r: "event_replay (map (seen_page log) (mark # marks)) batch c = (Drained, es, c')"
        by (simp only: list.map event_replay.simps Let_def p(1) if_not_P [OF p(2)] c'_def [symmetric] if_not_P [OF False])
      ultimately show ?thesis unfolding r replay_ok_def prod.case using seg c' le by simp
    qed
  qed
qed

lemma prune_events_suffix:
  assumes "sorted (map ee_occurred_at table)"
  shows "\<exists>n. prune_events_before cutoff table = drop n table"
  using assms
proof (induction table)
  case (Cons e table)
  show ?case
  proof (cases "ee_occurred_at e < cutoff")
    case True
    with Cons obtain n where "prune_events_before cutoff table = drop n table" by auto
    with True show ?thesis by (intro exI [of _ "Suc n"]) (simp add: prune_events_before_def)
  next
    case False
    with Cons.prems have "filter (\<lambda>e. \<not> ee_occurred_at e < cutoff) (e # table) = e # table"
      by (subst filter_id_conv) (auto simp: not_less)
    then show ?thesis by (intro exI [of _ 0]) (simp add: prune_events_before_def)
  qed
qed (simp add: prune_events_before_def)

section \<open>The audit file follows the outbox\<close>

definition audit_ok :: "(event_envelope \<times> bool) list \<times> event_envelope list \<Rightarrow> bool" where
  "audit_ok v \<longleftrightarrow> (case v of (outbox, written) \<Rightarrow>
     numbered (map fst outbox) \<and>
     (\<exists>m k. k \<le> m \<and> m \<le> length outbox \<and> written = take m (map fst outbox) \<and>
        (\<forall>i < length outbox. snd (outbox ! i) \<longleftrightarrow> i < k)))"

lemma audit_okI:
  assumes "numbered (map fst outbox)" "k \<le> m" "m \<le> length outbox" "written = take m (map fst outbox)"
    "\<And>i. i < length outbox \<Longrightarrow> snd (outbox ! i) \<longleftrightarrow> i < k"
  shows "audit_ok (outbox, written)"
  unfolding audit_ok_def prod.case using assms by blast

text \<open>Commits append rows, the exporter runs a round or crashes in it.\<close>

inductive audit_step ::
    "(event_envelope \<times> bool) list \<times> event_envelope list \<Rightarrow> (event_envelope \<times> bool) list \<times> event_envelope list \<Rightarrow> bool" where
  audit_commit: "unat (ee_seq e) = Suc (length outbox) \<Longrightarrow> Suc (length outbox) < 2 ^ 63 \<Longrightarrow>
    audit_step (outbox, written) (outbox @ [(e, False)], written)"
| audit_round: "audit_step (outbox, written) (export_audit_once max_rows crash outbox written)"

lemma audit_rows:
  assumes "numbered (map fst outbox)" "\<forall>i < length outbox. snd (outbox ! i) \<longleftrightarrow> i < k"
  shows "sort_key (\<lambda>e. sint (ee_seq e)) (map fst (filter (\<lambda>(e, exported). \<not> exported) outbox)) = drop k (map fst outbox)"
proof -
  have "filter (\<lambda>(e, exported). \<not> exported) outbox = drop k outbox"
    using assms(2) by (intro filter_drop_nth) (auto simp: case_prod_beta)
  then show ?thesis using numbered_sorted [OF assms(1), of k] by (simp add: drop_map)
qed

lemma numbered_inj:
  assumes "numbered es" "i < length es" "j < length es"
  shows "ee_seq (es ! i) = ee_seq (es ! j) \<longleftrightarrow> i = j"
  by (metis assms nat.inject numbered_nth(1))

lemma numbered_snoc:
  assumes "numbered es" "unat (ee_seq e) = Suc (length es)" "Suc (length es) < 2 ^ 63"
  shows "numbered (es @ [e])"
proof -
  have "map (unat \<circ> ee_seq) es = [1..<Suc (length es)]" using assms(1) by (simp add: numbered_def)
  moreover have "[1..<Suc (length (es @ [e]))] = [1..<Suc (length es)] @ [Suc (length es)]" by simp
  ultimately show ?thesis using assms(2,3) unfolding numbered_def by (simp del: upt_Suc)
qed

lemma take_min_length: "take (min (length xs) n) xs = take n xs"
  by (simp add: min_def)

lemma audit_lines:
  assumes es: "numbered es" and m: "k \<le> m" "m \<le> length es"
  shows "filter (\<lambda>e. read_column (ee_seq e) \<notin> set (map ee_seq (take m es))) (take r (drop k es)) = take (r - (m - k)) (drop m es)"
proof -
  note seq = numbered_inj [OF es]
  have "filter (\<lambda>e. read_column (ee_seq e) \<notin> set (map ee_seq (take m es))) (take r (drop k es)) = drop (m - k) (take r (drop k es))"
  proof (rule filter_drop_nth)
    fix i assume i: "i < length (take r (drop k es))"
    then have n: "take r (drop k es) ! i = es ! (k + i)" "k + i < length es" by auto
    have in_file: "ee_seq (es ! (k + i)) \<in> set (map ee_seq (take m es)) \<longleftrightarrow> k + i < m"
    proof
      assume "ee_seq (es ! (k + i)) \<in> set (map ee_seq (take m es))"
      then obtain j where "j < m" "j < length es" "ee_seq (es ! (k + i)) = ee_seq (es ! j)"
        by (auto simp: in_set_conv_nth)
      with seq [OF n(2), of j] show "k + i < m" by simp
    next
      assume "k + i < m"
      then have "es ! (k + i) \<in> set (take m es)" using m(2) by (metis in_set_conv_nth length_take min.absorb2 nth_take)
      then show "ee_seq (es ! (k + i)) \<in> set (map ee_seq (take m es))" by simp
    qed
    show "read_column (ee_seq (take r (drop k es) ! i)) \<notin> set (map ee_seq (take m es)) \<longleftrightarrow> m - k \<le> i"
      unfolding n(1) numbered_nth(3) [OF es n(2)] in_file using m(1) by linarith
  qed
  also have "\<dots> = take (r - (m - k)) (drop m es)" using m(1) by (simp add: drop_take)
  finally show ?thesis .
qed

lemma audit_round_ok:
  assumes "audit_ok (outbox, written)"
  shows "audit_ok (export_audit_once max_rows crash outbox written)"
proof -
  let ?es = "map fst outbox" and ?r = "max max_rows 1"
  obtain m k where es: "numbered ?es" and m: "k \<le> m" "m \<le> length outbox" and f: "written = take m ?es"
    and fl: "\<forall>i < length outbox. snd (outbox ! i) \<longleftrightarrow> i < k"
    using assms by (auto simp: audit_ok_def)
  let ?lines = "take (?r - (m - k)) (drop m ?es)"
  have rows: "sort_key (\<lambda>e. sint (ee_seq e)) (map fst (filter (\<lambda>(e, exported). \<not> exported) outbox)) = drop k ?es"
    by (rule audit_rows [OF es fl])
  have lines: "filter (\<lambda>e. read_column (ee_seq e) \<notin> set (map ee_seq written)) (take ?r (drop k ?es)) = ?lines"
    unfolding f using m by (intro audit_lines [OF es]) simp_all
  note d = export_audit_once_def [of max_rows _ outbox written, unfolded rows Let_def lines]
  show ?thesis
  proof (cases crash)
    case (Some j)
    let ?m = "min (length outbox) (m + min j (?r - (m - k)))"
    have "written @ take j ?lines = take (m + min j (?r - (m - k))) ?es" by (simp add: f take_add min.commute)
    also have "\<dots> = take ?m ?es" using take_min_length [of ?es] by simp
    finally have "audit_ok (outbox, written @ take j ?lines)" using fl m by (intro audit_okI [OF es, of k ?m]) simp_all
    then show ?thesis unfolding d Some by simp
  next
    case None
    let ?k = "min (length outbox) (k + ?r)" and ?m = "min (length outbox) (m + (?r - (m - k)))"
    let ?out = "map (\<lambda>(e, exported). (e, exported \<or> ee_seq e \<in> set (map ee_seq (take ?r (drop k ?es))))) outbox"
    have seq: "ee_seq (?es ! i) = ee_seq (?es ! j) \<longleftrightarrow> i = j" if "i < length outbox" "j < length outbox" for i j
      using numbered_inj [OF es, of i j] that by simp
    have marked: "snd (?out ! i) \<longleftrightarrow> i < ?k" if i: "i < length outbox" for i
    proof -
      have "ee_seq (fst (outbox ! i)) \<in> set (map ee_seq (take ?r (drop k ?es))) \<longleftrightarrow> k \<le> i \<and> i < k + ?r"
      proof
        assume "ee_seq (fst (outbox ! i)) \<in> set (map ee_seq (take ?r (drop k ?es)))"
        then obtain j where "j < ?r" "k + j < length outbox" "ee_seq (?es ! i) = ee_seq (?es ! (k + j))"
          using i by (auto simp: in_set_conv_nth)
        with seq [OF i, of "k + j"] show "k \<le> i \<and> i < k + ?r" by simp
      next
        assume j: "k \<le> i \<and> i < k + ?r"
        then have "take ?r (drop k ?es) ! (i - k) = ?es ! i" "i - k < length (take ?r (drop k ?es))" using i by auto
        then have "?es ! i \<in> set (take ?r (drop k ?es))" by (metis nth_mem)
        then show "ee_seq (fst (outbox ! i)) \<in> set (map ee_seq (take ?r (drop k ?es)))" using i by auto
      qed
      with fl i show ?thesis by (auto simp: case_prod_beta)
    qed
    have same: "map fst ?out = ?es" by (auto simp: case_prod_beta)
    have file_lines: "written @ ?lines = take ?m ?es" using take_min_length [of ?es] by (simp add: f take_add)
    have "audit_ok (?out, written @ ?lines)"
    proof (rule audit_okI)
      show "?k \<le> ?m" using m by auto
      show "snd (?out ! i) \<longleftrightarrow> i < ?k" if "i < length ?out" for i using marked that by simp
    qed (simp_all only: same es file_lines length_map min.cobounded1)
    then show ?thesis unfolding d None by simp
  qed
qed

lemma numbered_distinct: "numbered es \<Longrightarrow> distinct (map ee_seq es)"
  by (metis (no_types) distinct_map distinct_upt list.map_comp numbered_def)

lemma audit_exported:
  assumes "audit_ok (outbox, written)" "(e, True) \<in> set outbox"
  shows "e \<in> set written"
proof -
  obtain m k where m: "k \<le> m" "written = take m (map fst outbox)" "\<forall>i < length outbox. snd (outbox ! i) \<longleftrightarrow> i < k"
    using assms(1) by (auto simp: audit_ok_def)
  from assms(2) obtain i where i: "i < length outbox" "outbox ! i = (e, True)" by (auto simp: in_set_conv_nth)
  with m have "take m (map fst outbox) ! i = e" "i < length (take m (map fst outbox))" by auto
  then show ?thesis unfolding m(2) by (metis nth_mem)
qed

lemma audit_round_all:
  assumes "audit_ok (outbox, written)" "length outbox \<le> max_rows"
  shows "snd (export_audit_once max_rows None outbox written) = map fst outbox"
proof -
  obtain m k where es: "numbered (map fst outbox)" and m: "k \<le> m" "m \<le> length (map fst outbox)"
    "written = take m (map fst outbox)" and fl: "\<forall>i < length outbox. snd (outbox ! i) \<longleftrightarrow> i < k"
    using assms(1) by (auto simp: audit_ok_def)
  have "take (max max_rows 1 - (m - k)) (drop m (map fst outbox)) = drop m (map fst outbox)"
    using assms(2) m by (intro take_all) auto
  then show ?thesis
    unfolding export_audit_once_def audit_rows [OF es fl] Let_def m(3) audit_lines [OF es m(1,2)] by simp
qed

interpretation auditing: invariant_system "\<lambda>v. v = ([], [])" audit_step audit_ok
proof
  show "audit_ok v" if "v = ([], [])" for v
    using that by (simp add: audit_ok_def numbered_def)
next
  fix v t assume "audit_ok v" "audit_step v t"
  from this(2,1) show "audit_ok t"
  proof (induction rule: audit_step.induct)
    case (audit_commit e outbox written)
    then obtain m k where es: "numbered (map fst outbox)" and m: "k \<le> m" "m \<le> length outbox"
      and f: "written = take m (map fst outbox)" and fl: "\<forall>i < length outbox. snd (outbox ! i) \<longleftrightarrow> i < k"
      by (auto simp: audit_ok_def)
    have "numbered (map fst (outbox @ [(e, False)]))"
      using numbered_snoc [OF es, of e] audit_commit by simp
    moreover have "\<forall>i < length (outbox @ [(e, False)]). snd ((outbox @ [(e, False)]) ! i) \<longleftrightarrow> i < k"
      using fl m by (simp add: nth_append less_Suc_eq)
    ultimately show ?case using m f by (intro audit_okI [of _ k m]) simp_all
  next
    case (audit_round outbox written max_rows crash)
    then show ?case by (rule audit_round_ok)
  qed
qed

end
