(* ===== verification/UpkeepProperties.thy ===== *)
theory UpkeepProperties
  imports Retention EventFeed Installation
begin

text \<open>
  What the daemon does beside the commands: the retention loop, the writers that bypass the revision,
  the feed of events with its replay, and the audit file.
\<close>

section \<open>Retention\<close>

lemma write_snapshot_simps [simp]:
  "st_revision (write_snapshot w st) = st_revision st" "st_answers (write_snapshot w st) = st_answers st"
  "snapshot_of (st_world (write_snapshot w st)) = snapshot_of w"
  by (simp_all add: write_snapshot_def with_memory_def)

text \<open>
  an artifact that the retention loop removes belongs to a completed mission, is not pinned, is linked
  to no task and was created before the retention window, as a number and not only as a text; the
  rest of the snapshot and the revision stay as they are. (Undisturbed by other requests.)
\<close>

theorem retention_keeps_window:
  assumes prune: "prune_artifacts_before (retention_cutoff now days) linked (\<lambda>st. st) st = (st', n)"
    and ids: "distinct (map ar_id (s_artifacts (st_world st)))"
    and a: "a \<in> set (s_artifacts (st_world st))" "a \<notin> set (s_artifacts (st_world st'))"
    and digits: "ar_created_at a = show_nat c" "length (show_nat c) = length (retention_cutoff now days)"
  shows "(\<exists>m \<in> set (s_missions (st_world st)). m_id m = ar_mission_id a \<and> m_status m = mission_status.Completed) \<and>
    \<not> ar_pinned a \<and> ar_id a \<notin> set linked \<and> c + max (unat days) 1 * 86400000 < now \<and>
    st_revision st' = st_revision st \<and>
    (\<exists>xs. snapshot_of (st_world st') = snapshot_of ((st_world st)\<lparr>s_artifacts := xs\<rparr>) \<and> set xs \<subseteq> set (s_artifacts (st_world st)))"
proof -
  let ?w = "st_world st" and ?cut = "retention_cutoff now days"
  let ?ids = "map ar_id (filter (prunable_artifact ?cut linked ?w) (s_artifacts ?w))"
  let ?xs = "filter (\<lambda>a. ar_id a \<notin> set ?ids) (s_artifacts ?w)"
  have st': "st' = write_snapshot (?w\<lparr>s_artifacts := ?xs\<rparr>) st"
    using prune a by (auto simp: prune_artifacts_before_def Let_def split: if_splits)
  then have s: "snapshot_of (st_world st') = snapshot_of (?w\<lparr>s_artifacts := ?xs\<rparr>)" by simp
  then have "s_artifacts (st_world st') = ?xs"
    by (simp add: st' write_snapshot_def with_memory_def)
  with a obtain b where b: "b \<in> set (s_artifacts ?w)" "prunable_artifact ?cut linked ?w b" "ar_id b = ar_id a"
    by auto
  with ids a(1) have "b = a" by (metis distinct_map inj_on_def)
  with b have p: "prunable_artifact ?cut linked ?w a" by simp
  then have "show_nat c < show_nat (now - max (unat days) 1 * 86400000)"
    by (simp add: prunable_artifact_def digits(1) retention_cutoff_def)
  then have "c < now - max (unat days) 1 * 86400000"
    using show_nat_less [of c] digits(2) by (simp add: retention_cutoff_def)
  then have "c + max (unat days) 1 * 86400000 < now" by linarith
  moreover have "set ?xs \<subseteq> set (s_artifacts ?w)" by auto
  moreover have "st_revision st' = st_revision st" by (simp add: st' write_snapshot_def)
  moreover have "(\<exists>m \<in> set (s_missions ?w). m_id m = ar_mission_id a \<and> m_status m = mission_status.Completed) \<and>
    \<not> ar_pinned a \<and> ar_id a \<notin> set linked" using p by (auto simp: prunable_artifact_def list_ex_iff)
  ultimately show ?thesis using s by blast
qed

definition demo_artifact :: "nat \<Rightarrow> bool \<Rightarrow> artifact_view" where
  "demo_artifact i pinned = \<lparr>ar_id = ArtifactId i, ar_mission_id = MissionId 1002, ar_task_id = None, ar_upload_id = None,
     ar_name = ''log'', ar_mime_type = ''text/plain'', ar_size = 3, ar_sha256 = ''0'', ar_pinned = pinned,
     ar_created_at = show_nat 100000000\<rparr>"

definition demo_archive :: store where
  "demo_archive = (fresh_store (ServerId 1000) (OrganizationId 1003) 2)\<lparr>st_world := demo_world\<lparr>
     s_missions := [demo_mission\<lparr>m_status := mission_status.Completed\<rparr>],
     s_artifacts := [demo_artifact 1 False, demo_artifact 2 True]\<rparr>\<rparr>"

theorem retention_keeps_window_witness:
  "\<exists>st'. prune_artifacts_before (retention_cutoff 900000000 1) [] (\<lambda>st. st) demo_archive = (st', 1) \<and>
     s_artifacts (st_world st') = [demo_artifact 2 True] \<and> 100000000 + 86400000 < (900000000 :: nat)"
proof -
  have p: "map ar_id (s_artifacts (st_world (fst (prune_artifacts_before (retention_cutoff 900000000 1) [] (\<lambda>st. st)
      demo_archive)))) = [ArtifactId 2]"
    "snd (prune_artifacts_before (retention_cutoff 900000000 1) [] (\<lambda>st. st) demo_archive) = 1"
    by code_simp+
  obtain st' where s: "prune_artifacts_before (retention_cutoff 900000000 1) [] (\<lambda>st. st) demo_archive = (st', 1)"
    using p(2) by (metis prod.collapse)
  have m: "map ar_id (s_artifacts (st_world st')) = [ArtifactId 2]" using p(1) s by simp
  have "demo_artifact 1 False \<notin> set (s_artifacts (st_world st'))"
  proof
    assume "demo_artifact 1 False \<in> set (s_artifacts (st_world st'))"
    then have "ar_id (demo_artifact 1 False) \<in> set (map ar_id (s_artifacts (st_world st')))" by simp
    then show False unfolding m by (simp add: demo_artifact_def)
  qed
  moreover have "length (show_nat 100000000) = length (retention_cutoff 900000000 1)" by code_simp
  ultimately have *: "100000000 + 86400000 < (900000000 :: nat)"
    "\<exists>xs. snapshot_of (st_world st') = snapshot_of ((st_world demo_archive)\<lparr>s_artifacts := xs\<rparr>) \<and>
       set xs \<subseteq> set (s_artifacts (st_world demo_archive))"
    using retention_keeps_window [OF s, of "demo_artifact 1 False" 100000000]
    by (simp_all add: demo_archive_def demo_artifact_def)
  then obtain xs where "s_artifacts (st_world st') = xs" "set xs \<subseteq> {demo_artifact 1 False, demo_artifact 2 True}"
    by (auto simp: snapshot_of_def snapshot.truncate_def demo_archive_def)
  with m have "s_artifacts (st_world st') = [demo_artifact 2 True]"
    by (auto simp: demo_artifact_def)
  with s *(1) show ?thesis by blast
qed

section \<open>Writers without a revision\<close>

text \<open>
  C40: a commit made while the retention loop works is lost. When a request commits between the read
  and the write of the loop, the requester has its answer and the revision has moved on, but the
  snapshot is the one from before the commit, with the old revision inside. The same holds for the
  commit of a check run, which overwrites the snapshot and raises the revision once more.
\<close>

theorem unguarded_writes_lose_commits:
  assumes cm: "commit_request env st rq = Inr (st1, cm)" and id: "map_of (st_answers st) (rq_command_id rq) = None"
    and st: "store_ok uu st" "unat (st_revision st) + 2 < 2 ^ 63"
    and prunable: "\<exists>x \<in> set table. prunable_operation cutoff x"
    and prune: "prune_operations_before cutoff table (\<lambda>_. st1) st = (st', n)"
    and check: "record_check_run env cid check (\<lambda>_. st1) st = Inr st2" "map_of (st_answers st1) cid = None"
  shows "map_of (st_answers st') (rq_command_id rq) = Some (cm_response cm, cm_event cm) \<and>
    s_revision (st_world st') = st_revision st \<and> unat (st_revision st') = unat (st_revision st) + 1 \<and>
    (\<exists>xs. snapshot_of (st_world st') = snapshot_of ((st_world st)\<lparr>s_operations := xs\<rparr>)) \<and>
    map_of (st_answers st2) (rq_command_id rq) = Some (cm_response cm, cm_event cm) \<and>
    unat (st_revision st2) = unat (st_revision st) + 2 \<and>
    (\<exists>r q. snapshot_of (st_world st2) = snapshot_of ((st_world st)\<lparr>s_revision := r, s_event_seq := q\<rparr>))"
proof -
  have cur: "current_revision s = st_revision s" if "unat (st_revision s) < 2 ^ 63" for s
    using that by (simp add: current_revision_def read_column_id)
  have rev: "s_revision (st_world st) = st_revision st" using st(1) by (simp add: store_ok_def)
  have st1: "map_of (st_answers st1) (rq_command_id rq) = Some (cm_response cm, cm_event cm)"
    "unat (st_revision st1) = unat (st_revision st) + 1"
    using cm id st(2) cur [of st] saturating_add_one [of "st_revision st"]
    by (auto elim!: commit_requestE)
  have st': "\<exists>xs. st' = write_snapshot ((st_world st)\<lparr>s_operations := xs\<rparr>) st1"
    using prune prunable by (auto simp: prune_operations_before_def Let_def filter_empty_conv split: if_splits)
  then obtain xs where st': "st' = write_snapshot ((st_world st)\<lparr>s_operations := xs\<rparr>) st1" ..
  then have w': "s_revision (st_world st') = st_revision st" "snapshot_of (st_world st') = snapshot_of ((st_world st)\<lparr>s_operations := xs\<rparr>)"
    by (simp_all add: write_snapshot_def with_memory_def rev)
  obtain cm2 where c2: "commit_request env st1 \<lparr>rq_command_id = cid, rq_expected_revision = None,
      rq_actor = actor_system, rq_event = CheckRunRecorded check, rq_snapshot = with_memory (st_world st) st1,
      rq_result = Accepted, rq_artifact_bytes = None\<rparr> = Inr (st2, cm2)"
    using check(1) by (auto simp: record_check_run_def Let_def split: sum.splits)
  have cid: "cid \<noteq> rq_command_id rq" using check(2) st1(1) by auto
  have "st_revision st2 = saturating_add (st_revision st1) 1 \<and> st_answers st2 = (cid, cm_response cm2, cm_event cm2) # st_answers st1 \<and>
      (\<exists>r q. st_world st2 = (with_memory (st_world st) st1)\<lparr>s_revision := r, s_event_seq := q\<rparr>)"
    using c2
  proof (cases rule: commit_requestE)
    case fresh
    then show ?thesis using cur [of st1] st1(2) st(2) by auto
  qed (use check(2) in simp)
  then obtain r q where st2: "st_revision st2 = saturating_add (st_revision st1) 1" "st_answers st2 = (cid, cm_response cm2, cm_event cm2) # st_answers st1"
    "st_world st2 = (with_memory (st_world st) st1)\<lparr>s_revision := r, s_event_seq := q\<rparr>" by blast
  have "snapshot_of (st_world st2) = snapshot_of ((st_world st)\<lparr>s_revision := r, s_event_seq := q\<rparr>)"
    unfolding st2(3) by (simp add: with_memory_def snapshot_of_def snapshot.truncate_def)
  moreover have "unat (st_revision st2) = unat (st_revision st) + 2"
    using saturating_add_one [of "st_revision st1"] st1(2) st(2) st2(1) by simp
  moreover have "map_of (st_answers st2) (rq_command_id rq) = Some (cm_response cm, cm_event cm)" using st2(2) st1(1) cid by simp
  moreover have "st_answers st' = st_answers st1" "st_revision st' = st_revision st1" by (simp_all add: st' write_snapshot_def)
  ultimately show ?thesis using st1 w' by metis
qed

definition demo_operation :: operation_view where
  "demo_operation = \<lparr>op_id = OperationId 5, op_kind = operation_kind.RunChecks, op_status = operation_status.Succeeded,
     op_resource = [], op_phase = ''complete'', op_attempt = 1, op_error = None, op_created_at = ''1'', op_updated_at = ''1''\<rparr>"

definition demo_quiet_store :: store where
  "demo_quiet_store = fresh_store (ServerId 1000) (OrganizationId 1003) 2"

definition demo_commit :: commit_input where
  "demo_commit = \<lparr>rq_command_id = CommandId 7, rq_expected_revision = Some 0, rq_actor = actor_system,
     rq_event = ProjectUpserted demo_project,
     rq_snapshot = (st_world demo_quiet_store)\<lparr>s_projects := [demo_project]\<rparr>, rq_result = Accepted,
     rq_artifact_bytes = None\<rparr>"

definition demo_check :: check_run_view where
  "demo_check = \<lparr>ck_id = [], ck_runner_id = RunnerId 1, ck_project_id = ProjectId 1001, ck_task_id = None,
     ck_check_id = [], ck_status = check_run_status.Passed, ck_exit_code = Some 0, ck_stdout = [], ck_stderr = [],
     ck_duration_ms = 1, ck_started_at = ''1'', ck_finished_at = None\<rparr>"

theorem unguarded_writes_lose_commits_witness:
  "\<exists>st1 cm st' n st2. commit_request demo_env demo_quiet_store demo_commit = Inr (st1, cm) \<and>
     s_projects (st_world st1) = [demo_project] \<and>
     prune_operations_before ''2'' [demo_operation] (\<lambda>_. st1) demo_quiet_store = (st', n) \<and>
     s_projects (st_world st') = [] \<and> map_of (st_answers st') (CommandId 7) = Some (cm_response cm, cm_event cm) \<and>
     record_check_run demo_env (CommandId 8) demo_check (\<lambda>_. st1) demo_quiet_store = Inr st2 \<and>
     s_projects (st_world st2) = []"
proof -
  have s: "store_ok Suc demo_quiet_store" "unat (st_revision demo_quiet_store) + 2 < 2 ^ 63"
    "st_answers demo_quiet_store = []" "s_projects (st_world demo_quiet_store) = []"
    using fresh_world_ok [of Suc]
    by (simp_all add: demo_quiet_store_def fresh_store_def store_ok_def fresh_world_def snapshot_empty_def snapshot.defs world.defs)
  obtain st1 cm where c: "commit_request demo_env demo_quiet_store demo_commit = Inr (st1, cm)"
    "s_projects (st_world st1) = [demo_project]" "map_of (st_answers st1) (CommandId 8) = None"
    by (simp add: demo_commit_def demo_quiet_store_def fresh_store_def commit_request_def check_artifact_bytes_def
        is_artifact_published_def current_revision_def read_column_def Let_def)
  obtain st' n where p: "prune_operations_before ''2'' [demo_operation] (\<lambda>_. st1) demo_quiet_store = (st', n)" by fastforce
  obtain st2 where r: "record_check_run demo_env (CommandId 8) demo_check (\<lambda>_. st1) demo_quiet_store = Inr st2"
    using c(3) by (auto simp: record_check_run_def commit_request_def check_artifact_bytes_def
        is_artifact_published_def Let_def)
  have "\<exists>x \<in> set [demo_operation]. prunable_operation ''2'' x"
    by (simp add: prunable_operation_def demo_operation_def less_char_def)
  note t = unguarded_writes_lose_commits [OF c(1) _ s(1,2) this p r c(3)]
  have "map_of (st_answers demo_quiet_store) (rq_command_id demo_commit) = None" by (simp add: s)
  from t [OF this] have t: "map_of (st_answers st') (CommandId 7) = Some (cm_response cm, cm_event cm)"
    "\<exists>xs. snapshot_of (st_world st') = snapshot_of ((st_world demo_quiet_store)\<lparr>s_operations := xs\<rparr>)"
    "\<exists>r q. snapshot_of (st_world st2) = snapshot_of ((st_world demo_quiet_store)\<lparr>s_revision := r, s_event_seq := q\<rparr>)"
    by (simp_all add: demo_commit_def)
  then have "s_projects (st_world st') = []" "s_projects (st_world st2) = []"
    by (auto simp: snapshot_of_def snapshot.truncate_def s)
  with c p r t(1) show ?thesis by blast
qed

section \<open>The event feed\<close>

text \<open>
  C7: the replay of a subscriber ends and skips nothing, although commits come between its pages and between the three
  statements of a page. It takes for granted that rows are deleted oldest first (the clock has not run back), that
  none is deleted between the statements of one page, and that the cursor is not beyond the log; \<open>n\<close>, \<open>i\<close>, \<open>j\<close> and \<open>k\<close> of a mark
  are the rows deleted before a page and the events that its statements see. The events sent are those after the
  cursor, in order and without a gap, and the cursor moves to the last of them. After at most one page more than
  there are events the replay has ended: it has sent everything that was committed when its first page was read, or the
  event after its cursor has been deleted and the subscriber is told to fetch a snapshot.
\<close>

theorem replay_is_complete:
  assumes v: "reachable server_init server_step v"
  defines "log \<equiv> map snd (st_events (sr_store v))"
  assumes "list_all (mark_ok log) marks" "sorted (map mark_rows marks)" "unat after \<le> length log" "length log - unat after < length marks"
    and "event_replay (map (seen_page log) marks) batch after = (ending, sent, cursor)"
  shows "sent = take (length sent) (drop (unat after) log) \<and> unat cursor = unat after + length sent \<and> unat cursor \<le> length log \<and>
    (ending = Drained \<and> mark_rows (hd marks) \<le> unat cursor \<or> ending = ResyncSent \<and> (\<exists>m \<in> set marks. unat cursor < mark_deleted m))"
proof -
  have "replay_ok log marks after (ending, sent, cursor)"
    using event_replay_ok [OF _ assms(3,5), of batch] log_numbered(1) [OF reachable_log [OF v]] assms(7) by (simp add: log_def)
  then have r: "sent = take (length sent) (drop (unat after) log)" "unat cursor = unat after + length sent" "unat cursor \<le> length log"
    "ending = Drained \<Longrightarrow> \<exists>m \<in> set marks. mark_rows m \<le> unat cursor"
    "ending = ResyncSent \<Longrightarrow> \<exists>m \<in> set marks. unat cursor < mark_deleted m"
    "ending = Unfinished \<Longrightarrow> length marks \<le> length sent" unfolding replay_ok_def prod.case by blast+
  have "mark_rows (hd marks) \<le> mark_rows m" if "m \<in> set marks" for m
    using that assms(4) by (cases marks) auto
  then have "ending = Drained \<Longrightarrow> mark_rows (hd marks) \<le> unat cursor" using r(4) le_trans by blast
  moreover have "ending \<noteq> Unfinished" using r(2,3,6) assms(6) by auto
  ultimately show ?thesis using r(1-3,5) by (cases ending) blast+
qed

theorem replay_is_complete_witness:
  "\<exists>log cursor. length log = 6 \<and> event_replay (replicate 6 (seen_page log (1, 6, 6, 6))) 2 1 = (Drained, drop 1 log, cursor) \<and> unat cursor = 6"
proof -
  let ?log = "map snd (st_events (sr_store demo_server))"
  have six: "length ?log = 6" using demo_server_facts(4) by simp
  obtain ending sent cursor where e: "event_replay (map (seen_page ?log) (replicate 6 (1, 6, 6, 6))) 2 1 = (ending, sent, cursor)"
    by (metis prod_cases3)
  have "list_all (mark_ok ?log) (replicate 6 (1, 6, 6, 6))" using six by (simp add: mark_ok_def list_all_iff)
  moreover have "sorted (map mark_rows (replicate 6 (1, 6, 6, 6)))" by (simp add: mark_rows_def)
  moreover have "unat (1 :: u64) \<le> length ?log" "length ?log - unat (1 :: u64) < length (replicate 6 (1 :: nat, 6 :: nat, 6 :: nat, 6 :: nat))"
    using six by simp_all
  ultimately have r: "sent = take (length sent) (drop (unat (1 :: u64)) ?log) \<and> unat cursor = unat (1 :: u64) + length sent \<and>
    unat cursor \<le> length ?log \<and> (ending = Drained \<and> mark_rows (hd (replicate 6 (1, 6, 6, 6))) \<le> unat cursor \<or>
      ending = ResyncSent \<and> (\<exists>m \<in> set (replicate 6 (1, 6, 6, 6)). unat cursor < mark_deleted m))"
    using replay_is_complete [OF demo_server_reachable _ _ _ _ e] by blast
  then have "ending = Drained" "unat cursor = 6" "length sent = 5" using six by (auto simp: mark_deleted_def mark_rows_def)
  then show ?thesis using r e six by (intro exI [of _ ?log] exI [of _ cursor]) simp
qed

section \<open>The audit file\<close>

text \<open>
  C39: the audit file is the history from its start, without gaps and without a line twice, however often
  the exporter is cut off between its appends and the update of the outbox; every row marked as
  exported is in it, and one undisturbed round over all rows completes it.
\<close>

theorem audit_file_is_history:
  assumes "reachable (\<lambda>v. v = ([], [])) audit_step (outbox, written)"
  shows "(\<exists>m. written = take m (map fst outbox)) \<and> distinct (map ee_seq written) \<and>
    (\<forall>e. (e, True) \<in> set outbox \<longrightarrow> e \<in> set written) \<and>
    (length outbox \<le> max_rows \<longrightarrow> snd (export_audit_once max_rows None outbox written) = map fst outbox)"
proof -
  have ok: "audit_ok (outbox, written)" by (rule auditing.reachable_inv [OF assms])
  then obtain m where m: "written = take m (map fst outbox)" by (auto simp: audit_ok_def)
  have "distinct (map ee_seq (map fst outbox))" using ok by (intro numbered_distinct) (simp add: audit_ok_def)
  then have "distinct (map ee_seq written)" unfolding m take_map [symmetric] by (rule distinct_take)
  with m audit_exported [OF ok] audit_round_all [OF ok] show ?thesis by blast
qed

definition demo_audit_event :: event_envelope where
  "demo_audit_event = \<lparr>ee_seq = 1, ee_occurred_at = [], ee_actor = actor_system, ee_correlation_id = None,
     ee_event = ProjectUpserted demo_project\<rparr>"

theorem audit_file_is_history_witness:
  "reachable (\<lambda>v. v = ([], [])) audit_step ([(demo_audit_event, False)], [demo_audit_event]) \<and>
   snd (export_audit_once 5 None [(demo_audit_event, False)] [demo_audit_event]) = [demo_audit_event]"
proof -
  have 1: "audit_step ([], []) ([(demo_audit_event, False)], [])"
    using audit_commit [of demo_audit_event "[]" "[]"] by (simp add: demo_audit_event_def)
  have 2: "audit_step ([(demo_audit_event, False)], []) ([(demo_audit_event, False)], [demo_audit_event])"
    using audit_round [of "[(demo_audit_event, False)]" "[]" 1 "Some 1"] by (simp add: export_audit_once_def)
  have 0: "reachable (\<lambda>v. v = ([], [])) audit_step ([], [])" by (rule reach_init) simp
  have r: "reachable (\<lambda>v. v = ([], [])) audit_step ([(demo_audit_event, False)], [demo_audit_event])"
    by (rule reach_step, rule reach_step, rule 0, rule 1, rule 2)
  with audit_file_is_history [OF r, of 5] show ?thesis by simp
qed

section \<open>Daemon jobs under interference\<close>

text \<open>
  C9: a job of the daemon never works on an outdated snapshot. Whatever other requests commit between its
  reads and its commits, in each of its attempts, the store it leaves behind is either the one the others
  made, or it is one commit further: the edit of the job applied to the snapshot that was current at
  that moment, and then the job reports success.
\<close>

theorem daemon_job_commits_once:
  assumes v: "reachable server_init server_step v" and "e_uuid env = sr_uuids v"
    and "\<forall>k s. store_ok (sr_uuids v) s \<longrightarrow> advances (sr_uuids v) s (others k s)"
    and "commit_job n others env cid job (sr_store v) = (st', r)"
  shows "\<exists>st. meanwhile others (sr_store v) st \<and>
    (st' = st \<or> r = Inr () \<and>
      (\<exists>w nxt event result cm. snapshot_of w = snapshot_of (st_world st) \<and>
        job_edit env job w = Inr (Some (nxt, event, result)) \<and>
        commit_request env st (job_request cid (s_revision w) (with_memory nxt st) event result) = Inr (st', cm)))"
proof -
  have "server_ok v" by (rule serving.reachable_inv [OF v])
  then have "store_ok (sr_uuids v) (sr_store v)" "inj (sr_uuids v)" by (simp_all add: server_ok_def store_ok_def)
  from commit_job_serial [OF this assms(2) _ assms(4)] assms(3) show ?thesis by (auto simp: job_committed_def)
qed

lemma meanwhile_idle: "meanwhile (\<lambda>_ st. st) st a \<Longrightarrow> st_revision a = st_revision st"
  by (induction rule: meanwhile.induct) (simp_all add: remember_def)

theorem daemon_job_commits_once_witness:
  "\<exists>st' st w nxt event result cm.
     commit_job 4 (\<lambda>_ st. st) demo_env (CommandId 9) EnsureBuiltinRole (sr_store demo_server) = (st', Inr ()) \<and>
     meanwhile (\<lambda>_ st. st) (sr_store demo_server) st \<and> snapshot_of w = snapshot_of (st_world st) \<and>
     ensure_builtin_role demo_env w = Inr (Some (nxt, event, result)) \<and>
     commit_request demo_env st (job_request (CommandId 9) (s_revision w) (with_memory nxt st) event result) = Inr (st', cm)"
proof -
  obtain st' r where c: "commit_job 4 (\<lambda>_ st. st) demo_env (CommandId 9) EnsureBuiltinRole (sr_store demo_server) = (st', r)"
    by fastforce
  have "st_revision (fst (commit_job 4 (\<lambda>_ st. st) demo_env (CommandId 9) EnsureBuiltinRole (sr_store demo_server))) = 7"
    by (rule demo_trial_server(6))
  then have "st_revision st' = 7" unfolding c by simp
  moreover have "e_uuid demo_env = sr_uuids demo_server" by (simp add: demo_server_def demo_start_def demo_env_def)
  from daemon_job_commits_once [OF demo_server_reachable this _ c] obtain st where
    st: "meanwhile (\<lambda>_ st. st) (sr_store demo_server) st"
    "st' = st \<or> r = Inr () \<and>
      (\<exists>w nxt event result cm. snapshot_of w = snapshot_of (st_world st) \<and>
        job_edit demo_env EnsureBuiltinRole w = Inr (Some (nxt, event, result)) \<and>
        commit_request demo_env st (job_request (CommandId 9) (s_revision w) (with_memory nxt st) event result) = Inr (st', cm))"
    using advances_refl by blast
  moreover have "st_revision st = 6" using meanwhile_idle [OF st(1)] demo_server_facts(2) by simp
  ultimately show ?thesis using c st(1) unfolding job_edit_def daemon_job.case by fastforce
qed

end
