(* ===== verification/Toolchains.thy ===== *)
theory Toolchains
  imports Environment "HOL-Library.List_Lexorder" "HOL-Library.Char_ord"
begin

text \<open>
  Language toolchains (\<open>frank-toolchain/src/lib.rs\<close> with the types of
  \<open>frank-protocol/src/toolchain.rs\<close>): the validation of a manifest, the choice of an artifact, the
  install preview and the built-in manifests. An error keeps the reason and its arguments, not the sentence.
  The walk over a project and the probe of a host program are I/O: what the walk found and what the probe printed are
  arguments. So are the files of a manifest directory and the TOML parser; what is done with them is modelled.
\<close>

section \<open>Types\<close>

datatype toolchain_artifact_source = Url string | Host string

record toolchain_artifact =
  ta_platform :: string
  ta_source :: toolchain_artifact_source
  ta_sha256 :: string
  ta_size_bytes :: u64
  ta_archive :: "string option"

record toolchain_probe =
  pb_program :: string
  pb_args :: "string list"
  pb_version_arg :: string

record toolchain_detection =
  dt_files :: "string list"
  dt_extensions :: "string list"
  dt_probe :: "toolchain_probe option"

record toolchain_install_spec =
  is_directory :: string
  is_executable :: "string option"
  is_environment :: "(string \<times> string) list"

record toolchain_check =
  tc_id :: string
  tc_program :: string
  tc_args :: "string list"
  tc_environment :: "(string \<times> string) list"
  tc_timeout_seconds :: u64

record toolchain_manifest =
  tm_schema_version :: u16
  tm_id :: string
  tm_label :: string
  tm_version :: string
  tm_detect :: toolchain_detection
  tm_artifacts :: "toolchain_artifact list"
  tm_install :: toolchain_install_spec
  tm_checks :: "toolchain_check list"

record toolchain_install_plan =
  ip_manifest_id :: string
  ip_version :: string
  ip_source :: string
  ip_sha256 :: string
  ip_size_bytes :: u64
  ip_install_path :: string
  ip_checks :: "string list"
  ip_approval_scope :: string
  ip_artifact :: "toolchain_artifact option"

record toolchain_requirement_view =
  tv_manifest_id :: string
  tv_label :: string
  tv_required_version :: string
  tv_status :: toolchain_requirement_status
  tv_detected_version :: "string option"
  tv_diagnostic :: "string option"
  tv_install_plan :: "toolchain_install_plan option"

record runtime_probe_result =
  rp_executable :: string
  rp_available :: bool
  rp_version :: "string option"
  rp_diagnostic :: "string option"

datatype toolchain_error =
    UnsupportedSchema u16 | InvalidComponent | NoDetectionRule | InvalidLabel | InvalidRelativePath string
  | InvalidExecutable string | InvalidInstallEnvironment | InvalidExtension | ProbeArgument
  | ForbiddenCheck string | DuplicateCheck string | CheckTimeout string | DuplicatePlatform string
  | InvalidSha256 string | EmptyArtifact | InvalidUrl | InvalidArchive
  | ChecksumMismatch | SizeMismatch | UnsupportedPlatform string
  | ManifestIo | InvalidManifestPath | ManifestTooLong | ManifestSyntax | DuplicateManifest string

section \<open>Validation\<close>

definition TOOLCHAIN_SCHEMA_VERSION :: u16 where "TOOLCHAIN_SCHEMA_VERSION = 1"

definition valid_component :: "string \<Rightarrow> bool" where
  "valid_component value \<longleftrightarrow> \<not> blank value \<and> \<not> has_control value \<and> CHR ''/'' \<notin> set value
     \<and> char_of (92 :: nat) \<notin> set value \<and> value \<noteq> ''.'' \<and> value \<noteq> ''..''"

definition path_is_absolute :: "string \<Rightarrow> bool" where
  "path_is_absolute s \<longleftrightarrow> starts_with s ''/''"

definition validate_relative_path :: "string \<Rightarrow> string \<Rightarrow> toolchain_error option" where
  "validate_relative_path path field =
     (if blank path \<or> path_is_absolute path \<or> ParentDir \<in> set (components path) \<or> contains_nul path
      then Some (InvalidRelativePath field) else None)"

definition validate_executable :: "string \<Rightarrow> toolchain_error option" where
  "validate_executable program =
     (if blank program \<or> contains_nul program \<or> CHR ''/'' \<in> set program \<or> char_of (92 :: nat) \<in> set program
      then Some (InvalidExecutable program) else None)"

definition is_forbidden_program :: "string \<Rightarrow> bool" where
  "is_forbidden_program program \<longleftrightarrow>
     to_ascii_lowercase program \<in> {''sh'', ''bash'', ''zsh'', ''fish'', ''dash'', ''cmd'', ''powershell'', ''pwsh'',
       ''sudo'', ''doas'', ''pkexec''}"

definition is_sensitive_environment_key :: "string \<Rightarrow> bool" where
  "is_sensitive_environment_key key \<longleftrightarrow>
     any (\<lambda>needle. contains_str (to_ascii_lowercase key) needle)
       [''token'', ''secret'', ''password'', ''api_key'', ''apikey'', ''credential'', ''authorization'', ''private_key'']"

definition bad_environment_entry :: "string \<times> string \<Rightarrow> bool" where
  "bad_environment_entry e \<longleftrightarrow> (case e of (key, value) \<Rightarrow>
     key = [] \<or> CHR ''='' \<in> set key \<or> contains_nul key \<or> contains_nul value \<or> is_sensitive_environment_key key)"

definition validate_check :: "toolchain_check \<Rightarrow> toolchain_error option" where
  "validate_check check =
     (case validate_executable (tc_program check) of
        Some e \<Rightarrow> Some e
      | None \<Rightarrow>
          if is_forbidden_program (tc_program check) \<or> any contains_nul (tc_args check)
             \<or> any bad_environment_entry (tc_environment check)
          then Some (ForbiddenCheck (tc_id check)) else None)"

fun validate_checks :: "string list \<Rightarrow> toolchain_check list \<Rightarrow> toolchain_error option" where
  "validate_checks seen [] = None"
| "validate_checks seen (check # checks) =
     (case validate_check check of
        Some e \<Rightarrow> Some e
      | None \<Rightarrow>
          if blank (tc_id check) \<or> tc_id check \<in> set seen then Some (DuplicateCheck (tc_id check))
          else if tc_timeout_seconds check = 0 \<or> 86400 < tc_timeout_seconds check then Some (CheckTimeout (tc_id check))
          else validate_checks (tc_id check # seen) checks)"

definition hexdigit :: "char \<Rightarrow> bool" where
  "hexdigit c \<longleftrightarrow> c \<in> set ''0123456789abcdefABCDEF''"

definition validate_source :: "toolchain_artifact_source \<Rightarrow> toolchain_error option" where
  "validate_source source =
     (case source of
        Url url \<Rightarrow>
          if blank url \<or> \<not> starts_with url ''https://'' \<or> contains_nul url then Some InvalidUrl else None
      | Host executable \<Rightarrow> validate_executable executable)"

fun validate_artifacts :: "string list \<Rightarrow> toolchain_artifact list \<Rightarrow> toolchain_error option" where
  "validate_artifacts seen [] = None"
| "validate_artifacts seen (a # as) =
     (if blank (ta_platform a) \<or> has_control (ta_platform a) \<or> ta_platform a \<in> set seen
      then Some (DuplicatePlatform (ta_platform a))
      else if length (ta_sha256 a) \<noteq> 64 \<or> \<not> list_all hexdigit (ta_sha256 a) then Some (InvalidSha256 (ta_platform a))
      else if ta_size_bytes a = 0 then Some EmptyArtifact
      else case validate_source (ta_source a) of
        Some e \<Rightarrow> Some e
      | None \<Rightarrow>
          if (case ta_archive a of None \<Rightarrow> False | Some archive \<Rightarrow> blank archive \<or> has_control archive)
          then Some InvalidArchive
          else validate_artifacts (ta_platform a # seen) as)"

definition validate_extension :: "string \<Rightarrow> toolchain_error option" where
  "validate_extension extension =
     (if blank extension \<or> CHR ''/'' \<in> set extension \<or> char_of (92 :: nat) \<in> set extension \<or> contains_nul extension
      then Some InvalidExtension else None)"

definition validate_probe :: "toolchain_probe \<Rightarrow> toolchain_error option" where
  "validate_probe probe =
     (case validate_executable (pb_program probe) of
        Some e \<Rightarrow> Some e
      | None \<Rightarrow>
          if contains_nul (pb_version_arg probe) \<or> any contains_nul (pb_args probe) then Some ProbeArgument else None)"

text \<open>The first error of a sequence of checks.\<close>

definition or_error :: "toolchain_error option \<Rightarrow> toolchain_error option \<Rightarrow> toolchain_error option" where
  "or_error x y = (case x of Some e \<Rightarrow> Some e | None \<Rightarrow> y)"

definition validate_toolchain :: "toolchain_manifest \<Rightarrow> toolchain_error option" where
  "validate_toolchain manifest =
     (let detect = tm_detect manifest; install = tm_install manifest in
      if tm_schema_version manifest \<noteq> TOOLCHAIN_SCHEMA_VERSION then Some (UnsupportedSchema (tm_schema_version manifest))
      else if \<not> valid_component (tm_id manifest) \<or> \<not> valid_component (tm_version manifest) then Some InvalidComponent
      else if dt_files detect = [] \<and> dt_extensions detect = [] \<and> dt_probe detect = None then Some NoDetectionRule
      else if blank (tm_label manifest) \<or> has_control (tm_label manifest) then Some InvalidLabel
      else
        or_error (validate_relative_path (is_directory install) ''install.directory'')
       (or_error (case is_executable install of None \<Rightarrow> None | Some executable \<Rightarrow> validate_executable executable)
       (or_error (if any bad_environment_entry (is_environment install) then Some InvalidInstallEnvironment else None)
       (or_error (find_map (\<lambda>marker. validate_relative_path marker ''detect.files'') (dt_files detect))
       (or_error (find_map validate_extension (dt_extensions detect))
       (or_error (case dt_probe detect of None \<Rightarrow> None | Some probe \<Rightarrow> validate_probe probe)
       (or_error (validate_checks [] (tm_checks manifest))
                 (validate_artifacts [] (tm_artifacts manifest)))))))))"

section \<open>Manifest files\<close>

definition MAX_MANIFEST_BYTES :: nat where "MAX_MANIFEST_BYTES = 262144"

text \<open>A file with its length and its text (\<open>None\<close> when it cannot be read as UTF-8), or a link, a directory or another node.
  \<open>None\<close> as a node: its metadata cannot be read.\<close>

datatype manifest_node = ManifestFile nat "string option" | OtherNode

datatype manifest_directory = NoDirectory | NotADirectory | ManifestEntries "(string \<times> manifest_node option) list"

definition load_manifest :: "(string \<Rightarrow> toolchain_manifest option) \<Rightarrow> manifest_node option \<Rightarrow> toolchain_error + toolchain_manifest" where
  "load_manifest from_toml node =
     (case node of
        None \<Rightarrow> Inl ManifestIo
      | Some OtherNode \<Rightarrow> Inl InvalidManifestPath
      | Some (ManifestFile len content) \<Rightarrow>
          if MAX_MANIFEST_BYTES < len then Inl ManifestTooLong
          else (case content of
             None \<Rightarrow> Inl ManifestIo
           | Some text \<Rightarrow>
               (case from_toml text of
                  None \<Rightarrow> Inl ManifestSyntax
                | Some manifest \<Rightarrow> (case validate_toolchain manifest of Some e \<Rightarrow> Inl e | None \<Rightarrow> Inr manifest))))"

text \<open>\<open>path.extension() == Some("toml")\<close>; a name that is only the extension has none.\<close>

definition toml_extension :: "string \<Rightarrow> bool" where
  "toml_extension name \<longleftrightarrow> 5 < length name \<and> ends_with name ''.toml''"

fun load_manifest_paths ::
    "(string \<Rightarrow> toolchain_manifest option) \<Rightarrow> string list \<Rightarrow> (string \<times> manifest_node option) list
       \<Rightarrow> toolchain_error + toolchain_manifest list" where
  "load_manifest_paths from_toml ids [] = Inr []"
| "load_manifest_paths from_toml ids ((name, node) # paths) =
     (case load_manifest from_toml node of
        Inl e \<Rightarrow> Inl e
      | Inr manifest \<Rightarrow>
          if tm_id manifest \<in> set ids then Inl (DuplicateManifest (tm_id manifest))
          else (case load_manifest_paths from_toml (tm_id manifest # ids) paths of
             Inl e \<Rightarrow> Inl e
           | Inr manifests \<Rightarrow> Inr (manifest # manifests)))"

definition load_local_manifests ::
    "(string \<Rightarrow> toolchain_manifest option) \<Rightarrow> manifest_directory \<Rightarrow> toolchain_error + toolchain_manifest list" where
  "load_local_manifests from_toml directory =
     (case directory of
        NoDirectory \<Rightarrow> Inl ManifestIo
      | NotADirectory \<Rightarrow> Inl InvalidManifestPath
      | ManifestEntries entries \<Rightarrow>
          load_manifest_paths from_toml [] (sort_key fst (filter (\<lambda>(name, _). toml_extension name) entries)))"

lemma load_manifest_paths_valid:
  "load_manifest_paths from_toml ids paths = Inr manifests \<Longrightarrow> m \<in> set manifests \<Longrightarrow> validate_toolchain m = None"
  by (induction from_toml ids paths arbitrary: manifests rule: load_manifest_paths.induct)
    (auto simp: load_manifest_def split: sum.splits option.splits if_splits manifest_node.splits)

lemma load_local_manifests_valid:
  "load_local_manifests from_toml directory = Inr manifests \<Longrightarrow> m \<in> set manifests \<Longrightarrow> validate_toolchain m = None"
  by (auto simp: load_local_manifests_def intro: load_manifest_paths_valid split: manifest_directory.splits)

section \<open>Plans\<close>

definition select_artifact :: "toolchain_artifact list \<Rightarrow> string \<Rightarrow> toolchain_error + toolchain_artifact" where
  "select_artifact artifacts platform =
     (case find (\<lambda>a. ta_platform a = platform) artifacts of
        Some a \<Rightarrow> Inr a
      | None \<Rightarrow>
          (case find (\<lambda>a. ta_platform a = ''any'') artifacts of
             Some a \<Rightarrow> Inr a
           | None \<Rightarrow> Inl (UnsupportedPlatform platform)))"

definition resolve_install_plan ::
    "toolchain_manifest \<Rightarrow> string \<Rightarrow> string \<Rightarrow> toolchain_error + toolchain_install_plan" where
  "resolve_install_plan manifest platform data_directory =
     (case validate_toolchain manifest of
        Some e \<Rightarrow> Inl e
      | None \<Rightarrow>
          (case select_artifact (tm_artifacts manifest) platform of
             Inl e \<Rightarrow> Inl e
           | Inr artifact \<Rightarrow>
               Inr \<lparr>ip_manifest_id = tm_id manifest, ip_version = tm_version manifest,
                 ip_source = (case ta_source artifact of Url url \<Rightarrow> url | Host executable \<Rightarrow> ''host:'' @ executable),
                 ip_sha256 = ta_sha256 artifact, ip_size_bytes = ta_size_bytes artifact,
                 ip_install_path = path_join (path_join (path_join data_directory (is_directory (tm_install manifest)))
                   (tm_id manifest)) (tm_version manifest),
                 ip_checks = map tc_id (tm_checks manifest),
                 ip_approval_scope = ''one install: user-local toolchain directory'', ip_artifact = Some artifact\<rparr>))"

definition verify_artifact :: "(string \<Rightarrow> string) \<Rightarrow> string \<Rightarrow> toolchain_artifact \<Rightarrow> toolchain_error + unit" where
  "verify_artifact sha256 bytes artifact =
     (if word_of_nat (length bytes) \<noteq> ta_size_bytes artifact then Inl SizeMismatch
      else if \<not> eq_ignore_ascii_case (sha256 bytes) (ta_sha256 artifact) then Inl ChecksumMismatch
      else Inr ())"

definition version_satisfies :: "string \<Rightarrow> runtime_probe_result \<Rightarrow> bool" where
  "version_satisfies required probe \<longleftrightarrow>
     (if \<not> rp_available probe then False
      else let wanted = trim required in
        if wanted = [] \<or> hd wanted \<notin> set ''0123456789'' then True
        else case rp_version probe of None \<Rightarrow> False | Some version \<Rightarrow> contains_str version wanted)"

definition is_host :: "toolchain_install_plan \<Rightarrow> bool" where
  "is_host plan \<longleftrightarrow>
     (case ip_artifact plan of None \<Rightarrow> False | Some a \<Rightarrow> (case ta_source a of Host _ \<Rightarrow> True | Url _ \<Rightarrow> False))"

text \<open>\<open>detected\<close> is the outcome of \<open>detect_project\<close>, \<open>probe\<close> that of \<open>probe_runtime\<close> for the probe of the manifest.\<close>

definition resolve_requirement ::
    "bool \<Rightarrow> (toolchain_probe \<Rightarrow> runtime_probe_result) \<Rightarrow> toolchain_manifest \<Rightarrow> string \<Rightarrow> string
       \<Rightarrow> toolchain_error + toolchain_requirement_view" where
  "resolve_requirement detected probe_runtime manifest platform data_directory =
     (case resolve_install_plan manifest platform data_directory of
        Inl e \<Rightarrow> Inl e
      | Inr plan \<Rightarrow>
          (let probe = (if detected then map_option probe_runtime (dt_probe (tm_detect manifest)) else None);
               (status, version, diagnostic) =
                 (if \<not> detected
                  then (toolchain_requirement_status.Incompatible, None, Some ''toolchain is not detected in this project'')
                  else case probe of
                    None \<Rightarrow> (toolchain_requirement_status.NeedsApproval, None, Some ''install approval is required'')
                  | Some p \<Rightarrow>
                      if rp_available p \<and> version_satisfies (tm_version manifest) p
                      then (toolchain_requirement_status.Ready, rp_version p, None)
                      else if rp_available p
                      then (if is_host plan then toolchain_requirement_status.ManualRequirement
                            else toolchain_requirement_status.NeedsApproval, rp_version p,
                            Some (''required version '' @ [CHR 0x27] @ tm_version manifest @ [CHR 0x27] @ '' does not match detected runtime''))
                      else if is_host plan
                      then (toolchain_requirement_status.ManualRequirement, None,
                            (case rp_diagnostic p of Some d \<Rightarrow> Some d | None \<Rightarrow> Some ''host toolchain is required''))
                      else (toolchain_requirement_status.NeedsApproval, None, Some ''install approval is required'')) in
           Inr \<lparr>tv_manifest_id = tm_id manifest, tv_label = tm_label manifest, tv_required_version = tm_version manifest,
             tv_status = status, tv_detected_version = version, tv_diagnostic = diagnostic, tv_install_plan = Some plan\<rparr>))"

definition resolve_requirement_without_host_probe ::
    "bool \<Rightarrow> toolchain_manifest \<Rightarrow> string \<Rightarrow> string \<Rightarrow> toolchain_error + toolchain_requirement_view" where
  "resolve_requirement_without_host_probe detected manifest platform data_directory =
     (case resolve_install_plan manifest platform data_directory of
        Inl e \<Rightarrow> Inl e
      | Inr plan \<Rightarrow>
          (let (status, diagnostic) =
             (if \<not> detected
              then (toolchain_requirement_status.Incompatible, ''toolchain is not detected in this project'')
              else if is_host plan
              then (toolchain_requirement_status.ManualRequirement, ''host runner probe is required; frankd does not execute SDKs'')
              else (toolchain_requirement_status.NeedsApproval, ''install approval is required'')) in
           Inr \<lparr>tv_manifest_id = tm_id manifest, tv_label = tm_label manifest, tv_required_version = tm_version manifest,
             tv_status = status, tv_detected_version = None, tv_diagnostic = Some diagnostic, tv_install_plan = Some plan\<rparr>))"

section \<open>Built-in manifests\<close>

definition host_artifact :: "string \<Rightarrow> toolchain_artifact" where
  "host_artifact executable = \<lparr>ta_platform = ''any'', ta_source = Host executable, ta_sha256 = replicate 64 (CHR ''0''),
     ta_size_bytes = 1, ta_archive = None\<rparr>"

definition host_manifest ::
    "string \<Rightarrow> string \<Rightarrow> string \<Rightarrow> string list \<Rightarrow> string list \<Rightarrow> string \<Rightarrow> (string \<times> string list) list \<Rightarrow> toolchain_manifest" where
  "host_manifest i label version files extensions executable checks =
     \<lparr>tm_schema_version = TOOLCHAIN_SCHEMA_VERSION, tm_id = i, tm_label = label, tm_version = version,
      tm_detect = \<lparr>dt_files = files, dt_extensions = extensions,
        dt_probe = Some \<lparr>pb_program = executable, pb_args = [], pb_version_arg = ''--version''\<rparr>\<rparr>,
      tm_artifacts = [host_artifact executable],
      tm_install = \<lparr>is_directory = ''toolchains'', is_executable = Some executable, is_environment = []\<rparr>,
      tm_checks = map (\<lambda>(i, args). \<lparr>tc_id = i, tc_program = executable, tc_args = args, tc_environment = [],
        tc_timeout_seconds = 600\<rparr>) checks\<rparr>"

definition cpp_manifest :: toolchain_manifest where
  "cpp_manifest =
     \<lparr>tm_schema_version = TOOLCHAIN_SCHEMA_VERSION, tm_id = ''cpp'', tm_label = ''C++ / CMake / CTest'', tm_version = ''llvm-locked'',
      tm_detect = \<lparr>dt_files = [''CMakeLists.txt''], dt_extensions = [''cpp'', ''cc'', ''cxx''],
        dt_probe = Some \<lparr>pb_program = ''clang++'', pb_args = [], pb_version_arg = ''--version''\<rparr>\<rparr>,
      tm_artifacts = [host_artifact ''clang++''],
      tm_install = \<lparr>is_directory = ''toolchains'', is_executable = Some ''clang++'', is_environment = []\<rparr>,
      tm_checks =
        [\<lparr>tc_id = ''cmake-build'', tc_program = ''cmake'', tc_args = [''--build'', ''.'', ''--target'', ''test''],
           tc_environment = [], tc_timeout_seconds = 600\<rparr>,
         \<lparr>tc_id = ''ctest'', tc_program = ''ctest'', tc_args = [''--test-dir'', ''.'', ''--output-on-failure''],
           tc_environment = [], tc_timeout_seconds = 600\<rparr>]\<rparr>"

definition builtin_manifests :: "toolchain_manifest list" where
  "builtin_manifests =
     [host_manifest ''flutter'' ''Flutter'' ''3.47.1'' [''.prototools'', ''pubspec.yaml''] [''dart''] ''flutter''
        [(''test'', [''test'']), (''build-web'', [''build'', ''web''])],
      host_manifest ''odin'' ''Odin'' ''locked'' [''ols.json''] [''odin''] ''odin'' [(''test'', [''test''])],
      host_manifest ''dotnet'' ''.NET'' ''lts-lockfile'' [''global.json''] [''cs''] ''dotnet'' [(''test'', [''test''])],
      cpp_manifest]"

text \<open>The built-in manifests and those of the project: \<open>local\<close> is what \<open>load_local_manifests\<close> returns for its directory, \<open>None\<close>
  when it has no directory for them.\<close>

definition manifests_for_project ::
    "(toolchain_error + toolchain_manifest list) option \<Rightarrow> unit + toolchain_manifest list" where
  "manifests_for_project local =
     (case local of
        Some (Inl _) \<Rightarrow> Inl ()
      | _ \<Rightarrow>
          (let manifests = builtin_manifests @ (case local of Some (Inr ms) \<Rightarrow> ms | _ \<Rightarrow> []) in
           if distinct (map tm_id manifests) then Inr manifests else Inl ()))"

section \<open>Where a plan installs\<close>

lemma split_slash_nonempty [simp]: "split_slash s \<noteq> []"
  by (cases s) (auto split: list.split)

lemma split_slash_append: "split_slash (a @ CHR ''/'' # b) = split_slash a @ split_slash b"
  by (induction a) (auto split: list.split)

lemma split_slash_single: "CHR ''/'' \<notin> set s \<Longrightarrow> split_slash s = [s]"
  by (induction s) auto

text \<open>The components of a relative path as they continue another one: a leading \<open>.\<close> vanishes.\<close>

definition inner :: "string \<Rightarrow> component list" where
  "inner s = concat (map component_of (split_slash s))"

lemma blank_Nil [simp]: "blank []"
  by code_simp

lemma starts_with_slash: "starts_with s ''/'' \<longleftrightarrow> (\<exists>t. s = CHR ''/'' # t)"
  by (cases s) auto

lemma split_slash_absolute: "split_slash s = [] # xs \<Longrightarrow> xs \<noteq> [] \<Longrightarrow> \<exists>t. s = CHR ''/'' # t"
  by (cases s) (auto split: list.splits if_splits)

lemma inner_subset:
  assumes "\<not> path_is_absolute s"
  shows "set (inner s) \<subseteq> set (components s)"
proof -
  obtain x xs where x: "split_slash s = x # xs" by (cases "split_slash s") auto
  then have "\<not> (x = [] \<and> xs \<noteq> [])"
    using assms split_slash_absolute [of s xs] unfolding path_is_absolute_def starts_with_slash by blast
  then show ?thesis using x by (auto simp: inner_def components_def component_of_def)
qed

lemma ends_with_slash: "ends_with s ''/'' \<Longrightarrow> \<exists>r. s = r @ ''/''"
proof -
  assume "ends_with s ''/''"
  then obtain t where "rev s = CHR ''/'' # t" unfolding ends_with_def rev_singleton_conv by (auto simp: starts_with_slash)
  then have "s = rev t @ ''/''" by (metis rev_eq_Cons_iff)
  then show ?thesis ..
qed

definition leading :: "string list \<Rightarrow> component list" where
  "leading xs = (case xs of [] \<Rightarrow> [] | x # _ \<Rightarrow> if x = [] then [RootDir] else if x = ''.'' then [CurDir] else component_of x)"

lemma components_more:
  assumes "split_slash s = xs @ ys" "xs \<noteq> []" "ys \<noteq> [] \<or> xs \<noteq> [[]]"
  shows "components s = leading xs @ concat (map component_of (tl xs)) @ concat (map component_of ys)"
  using assms by (cases xs) (auto simp: components_def leading_def)

lemma components_join:
  assumes "root \<noteq> []"
  shows "\<not> path_is_absolute name \<Longrightarrow> components (path_join root name) = components root @ inner name"
proof -
  assume name: "\<not> path_is_absolute name"
  show ?thesis
  proof (cases "ends_with root ''/''")
    case True
    then obtain r where r: "root = r @ ''/''" using ends_with_slash by blast
    have a: "split_slash root = split_slash r @ [[]]" unfolding r by (simp add: split_slash_append)
    have "path_join root name = r @ CHR ''/'' # name"
      using name True r by (auto simp: path_join_def path_is_absolute_def)
    then have b: "split_slash (path_join root name) = split_slash r @ split_slash name" by (simp add: split_slash_append)
    show ?thesis unfolding components_more [OF a, simplified] components_more [OF b, simplified]
      by (simp add: inner_def component_of_def)
  next
    case False
    have "path_join root name = root @ CHR ''/'' # name"
      using name False assms by (auto simp: path_join_def path_is_absolute_def)
    then have b: "split_slash (path_join root name) = split_slash root @ split_slash name" by (simp add: split_slash_append)
    have "split_slash root \<noteq> [[]]" using assms by (cases root) (auto split: list.splits if_splits)
    then show ?thesis using components_more [of root "split_slash root" "[]"]
      unfolding components_more [OF b, simplified] by (simp add: inner_def)
  qed
qed

lemma components_join_empty: "path_join [] name = name"
  by (simp add: path_join_def)

lemma component_relative:
  assumes "valid_component s"
  shows "\<not> path_is_absolute s" "s \<noteq> []" "inner s = [Normal s]"
proof -
  have v: "\<not> blank s" "CHR ''/'' \<notin> set s" "s \<noteq> ''.''" "s \<noteq> ''..''" using assms unfolding valid_component_def by blast+
  then show n: "s \<noteq> []" by auto
  show "\<not> path_is_absolute s" using v(2) unfolding path_is_absolute_def starts_with_slash by auto
  show "inner s = [Normal s]" using v n by (simp add: inner_def split_slash_single component_of_def)
qed

lemma relative_path_ok:
  assumes "validate_relative_path s f = None"
  shows "\<not> path_is_absolute s" "ParentDir \<notin> set (inner s)" "s \<noteq> []"
proof -
  have v: "\<not> blank s" "\<not> path_is_absolute s" "ParentDir \<notin> set (components s)"
    using assms by (auto simp: validate_relative_path_def split: if_splits)
  then show "\<not> path_is_absolute s" "ParentDir \<notin> set (inner s)" "s \<noteq> []" using inner_subset [of s] by auto
qed

lemma or_error_None: "or_error x y = None \<longleftrightarrow> x = None \<and> y = None"
  by (simp add: or_error_def split: option.split)

lemma validate_toolchain_ok:
  assumes "validate_toolchain m = None"
  shows "valid_component (tm_id m)" "valid_component (tm_version m)" "validate_relative_path (is_directory (tm_install m)) ''install.directory'' = None"
    "validate_checks [] (tm_checks m) = None" "validate_artifacts [] (tm_artifacts m) = None"
  using assms by (auto simp: validate_toolchain_def Let_def or_error_None split: if_splits)

lemma validate_checks_ok:
  assumes "validate_checks seen checks = None" "c \<in> set checks"
  shows "validate_check c = None \<and> 0 < tc_timeout_seconds c \<and> tc_timeout_seconds c \<le> 86400"
  using assms
  by (induction seen checks rule: validate_checks.induct)
    (auto split: option.splits if_splits simp: word_neq_0_conv not_less)

lemma validate_artifacts_ok:
  assumes "validate_artifacts seen as = None" "a \<in> set as"
  shows "length (ta_sha256 a) = 64 \<and> ta_size_bytes a \<noteq> 0 \<and> validate_source (ta_source a) = None"
  using assms by (induction seen as rule: validate_artifacts.induct) (auto split: option.splits if_splits)

lemma path_join_nonempty: "name \<noteq> [] \<Longrightarrow> path_join root name \<noteq> []"
  by (simp add: path_join_def)

lemma plan_components:
  assumes "validate_toolchain m = None" and root: "root \<noteq> []"
  shows "components (path_join (path_join (path_join root (is_directory (tm_install m))) (tm_id m)) (tm_version m)) =
    components root @ inner (is_directory (tm_install m)) @ [Normal (tm_id m), Normal (tm_version m)]"
proof -
  note ok = validate_toolchain_ok [OF assms(1)]
  note dir = relative_path_ok [OF ok(3)]
  show ?thesis
    using components_join [OF path_join_nonempty [OF component_relative(2) [OF ok(1)]] component_relative(1) [OF ok(2)]]
      components_join [OF path_join_nonempty [OF dir(3)] component_relative(1) [OF ok(1)]]
      components_join [OF root dir(1)] component_relative(3) [OF ok(1)] component_relative(3) [OF ok(2)] by simp
qed

end
