(* ===== verification/RunnerHub.thy ===== *)
theory RunnerHub
  imports Retention Toolchains
begin

text \<open>
  The daemon's side of the host runners (\<open>frank-server/src/routes/runners.rs\<close>) over the tables
  of \<open>frank-store/src/toolchains.rs\<close>: the owner pairs a runner and gets a one-time token, the runner
  exchanges it for a durable credential, jobs go out on its socket, results come back. A request that
  waits for a result is a \<open>waiter\<close>; socket, waiter and token are drawn by the caller. \<open>hash\<close> is the hex
  SHA-256 of a secret. Tables are lists of rows keyed by id. Failing writes of SQLite are left out, and the
  order of the table of runners (by their last update) is that of the list.
\<close>

section \<open>Types\<close>

record runner_path_mapping =
  rm_daemon_root :: string
  rm_host_root :: string
  rm_project_id :: "project_id option"

datatype runner_status = Pairing | Idle | Busy | Offline | Failed

record runner_view =
  rn_id :: runner_id
  rn_name :: string
  rn_host :: string
  rn_status :: runner_status
  rn_last_seen_at :: "timestamp option"
  rn_toolchains :: "string list"
  rn_path_mappings :: "runner_path_mapping list"

record runner_job =
  rj_id :: string
  rj_runner_id :: runner_id
  rj_project_id :: project_id
  rj_task_id :: "task_id option"
  rj_daemon_worktree :: string
  rj_check :: toolchain_check

record runner_job_result =
  rr_id :: string
  rr_runner_id :: runner_id
  rr_status :: check_run_status
  rr_exit_code :: "32 word option"
  rr_stdout :: string
  rr_stderr :: string
  rr_duration_ms :: u64

record runner_install_job =
  ij_id :: string
  ij_runner_id :: runner_id
  ij_project_id :: project_id
  ij_task_id :: "task_id option"
  ij_daemon_worktree :: string
  ij_manifest_id :: string
  ij_version :: string
  ij_artifact :: toolchain_artifact
  ij_install_relative_path :: string

record runner_install_result =
  ir_id :: string
  ir_runner_id :: runner_id
  ir_status :: toolchain_requirement_status
  ir_installed_path :: "string option"
  ir_diagnostic :: "string option"

datatype runner_frame =
    Hello runner_id string string
  | Welcome string
  | Run runner_job
  | Result runner_job_result
  | Install runner_install_job
  | InstallResult runner_install_result
  | Error string

datatype runner_job_kind = Check | ToolchainInstall

datatype runner_job_status = Queued | Running | Passed | Failed | TimedOut | Cancelled

record runner_job_view =
  jv_id :: string
  jv_runner_id :: runner_id
  jv_project_id :: project_id
  jv_task_id :: "task_id option"
  jv_check_id :: string
  jv_kind :: runner_job_kind
  jv_status :: runner_job_status
  jv_created_at :: timestamp
  jv_updated_at :: timestamp
  jv_result :: "check_run_view option"
  jv_install_result :: "runner_install_result option"

record runner_registration =
  rg_id :: runner_id
  rg_name :: string
  rg_mappings :: "runner_path_mapping list"

text \<open>The tables \<open>runners\<close>, \<open>runner_credentials\<close> (hash and whether revoked) and \<open>runner_jobs\<close>, and the
  registry in memory. A connection is the number of its socket, a pending job that of its waiter.\<close>

record runner_hub =
  hb_runners :: "runner_view list"
  hb_credentials :: "runner_id \<Rightarrow> (string \<times> bool) option"
  hb_jobs :: "runner_job_view list"
  hb_pending :: "string \<Rightarrow> runner_registration option"
  hb_connections :: "runner_id \<Rightarrow> nat option"
  hb_pending_jobs :: "string \<Rightarrow> nat option"

type_synonym 'a route_result = "nat \<times> api_error + 'a"

section \<open>Tables\<close>

definition upsert_runner_view :: "runner_view \<Rightarrow> runner_hub \<Rightarrow> runner_hub" where
  "upsert_runner_view view hub = hub\<lparr>hb_runners :=
     (if any (\<lambda>r. rn_id r = rn_id view) (hb_runners hub)
      then update_first (\<lambda>r. rn_id r = rn_id view) (\<lambda>_. view) (hb_runners hub)
      else hb_runners hub @ [view])\<rparr>"

definition find_runner :: "runner_hub \<Rightarrow> runner_id \<Rightarrow> runner_view option" where
  "find_runner hub i = find (\<lambda>r. rn_id r = i) (hb_runners hub)"

definition upsert_runner_credential_hash :: "runner_id \<Rightarrow> string \<Rightarrow> runner_hub \<Rightarrow> runner_hub option" where
  "upsert_runner_credential_hash i token_hash hub =
     (if blank token_hash then None
      else Some (hub\<lparr>hb_credentials := (hb_credentials hub)(i \<mapsto> (token_hash, False))\<rparr>))"

definition runner_credential_matches :: "runner_id \<Rightarrow> string \<Rightarrow> runner_hub \<Rightarrow> bool" where
  "runner_credential_matches i token_hash hub \<longleftrightarrow> hb_credentials hub i = Some (token_hash, False)"

definition revoke_runner_credential :: "runner_id \<Rightarrow> runner_hub \<Rightarrow> runner_hub" where
  "revoke_runner_credential i hub =
     hub\<lparr>hb_credentials := (\<lambda>j. if j = i then map_option (\<lambda>(h, _). (h, True)) (hb_credentials hub j)
                              else hb_credentials hub j)\<rparr>"

text \<open>On a conflict only the value, the status and the time of the row are replaced; the columns for
  runner, project and task are those of the value in every call.\<close>

definition upsert_runner_job :: "runner_job_view \<Rightarrow> runner_hub \<Rightarrow> runner_hub" where
  "upsert_runner_job job hub = hub\<lparr>hb_jobs :=
     (if any (\<lambda>j. jv_id j = jv_id job) (hb_jobs hub)
      then update_first (\<lambda>j. jv_id j = jv_id job) (\<lambda>_. job) (hb_jobs hub)
      else hb_jobs hub @ [job])\<rparr>"

definition job_in_flight :: "runner_job_view \<Rightarrow> bool" where
  "job_in_flight j \<longleftrightarrow> jv_status j \<in> {runner_job_status.Queued, runner_job_status.Running}"

definition mark_runner_jobs_interrupted :: "timestamp \<Rightarrow> runner_hub \<Rightarrow> runner_hub" where
  "mark_runner_jobs_interrupted now hub =
     hub\<lparr>hb_jobs := update_where job_in_flight (\<lambda>j. j\<lparr>jv_status := runner_job_status.Failed, jv_updated_at := now\<rparr>) (hb_jobs hub)\<rparr>"

section \<open>Pairing\<close>

definition owner_auth :: "device_role option \<Rightarrow> bool" where
  "owner_auth auth \<longleftrightarrow> (case auth of None \<Rightarrow> False | Some role \<Rightarrow> can_admin role)"

definition unauthorized_or_forbidden :: "device_role option \<Rightarrow> nat \<times> api_error" where
  "unauthorized_or_forbidden auth =
     (case auth of
        None \<Rightarrow> (401, api_error_new Unauthorized ''device authentication required'')
      | Some _ \<Rightarrow> (403, api_error_new CodeForbidden ''owner role required''))"

definition valid_mapping :: "runner_path_mapping \<Rightarrow> bool" where
  "valid_mapping mapping \<longleftrightarrow>
     list_all (\<lambda>path. starts_with path ''/'' \<and> \<not> has_control path \<and> ''..'' \<notin> set (split_slash path))
       [rm_daemon_root mapping, rm_host_root mapping]"

definition runner_toolchains :: "string list" where
  "runner_toolchains = [''flutter'', ''odin'', ''dotnet'', ''cpp'']"

text \<open>\<open>fresh\<close> is the drawn runner id with the drawn token.\<close>

definition pair_runner ::
    "device_role option \<Rightarrow> string option \<Rightarrow> runner_path_mapping list \<Rightarrow> runner_id \<times> string \<Rightarrow> timestamp \<Rightarrow> runner_hub
       \<Rightarrow> runner_hub \<times> (runner_id \<times> string \<times> runner_view) route_result" where
  "pair_runner auth name mappings fresh now hub =
     (if \<not> owner_auth auth then (hub, Inl (unauthorized_or_forbidden auth))
      else let name = trim (case name of None \<Rightarrow> ''Frank host runner'' | Some n \<Rightarrow> n) in
        if name = [] \<or> 128 < length name \<or> has_control name
        then (hub, Inl (400, api_error_new CodeValidation ''runner name is invalid''))
        else if mappings = [] \<or> 32 < length mappings
        then (hub, Inl (400, api_error_new CodeValidation ''at least one runner path mapping is required''))
        else if any (\<lambda>m. \<not> valid_mapping m) mappings
        then (hub, Inl (400, api_error_new CodeValidation
                ''runner mappings must be absolute and cannot contain parent traversal''))
        else (case fresh of (runner_id, token) \<Rightarrow>
          (let view = \<lparr>rn_id = runner_id, rn_name = name, rn_host = ''pending host connection'',
                 rn_status = runner_status.Pairing, rn_last_seen_at = Some now, rn_toolchains = runner_toolchains,
                 rn_path_mappings = mappings\<rparr>;
               hub1 = upsert_runner_view view hub in
           (hub1\<lparr>hb_pending := (hb_pending hub1)(token \<mapsto>
              \<lparr>rg_id = runner_id, rg_name = name, rg_mappings = mappings\<rparr>)\<rparr>,
            Inr (runner_id, token, view)))))"

section \<open>The socket of a runner\<close>

text \<open>The exchange of the first frame: the registration with the secret of the welcome, or the error sent.\<close>

definition runner_identity ::
    "(string \<Rightarrow> string) \<Rightarrow> runner_id \<Rightarrow> string \<Rightarrow> string \<Rightarrow> runner_hub \<Rightarrow> runner_hub \<times> (string + runner_registration \<times> string)" where
  "runner_identity hash runner_id token credential hub =
     (let hub1 = hub\<lparr>hb_pending := (hb_pending hub)(token := None)\<rparr> in
      case hb_pending hub token of
        Some registration \<Rightarrow>
          if rg_id registration \<noteq> runner_id then (hub1, Inl ''runner pairing identity mismatch'')
          else (case upsert_runner_credential_hash runner_id (hash credential) hub1 of
             None \<Rightarrow> (hub1, Inl ''runner credential could not be persisted'')
           | Some hub2 \<Rightarrow> (hub2, Inr (registration, credential)))
      | None \<Rightarrow>
          (case find_runner hub1 runner_id of
             None \<Rightarrow> (hub1, Inl ''runner is not paired'')
           | Some view \<Rightarrow>
               if \<not> runner_credential_matches runner_id (hash token) hub1
               then (hub1, Inl ''runner credential is invalid'')
               else (hub1, Inr (\<lparr>rg_id = rn_id view, rg_name = rn_name view, rg_mappings = rn_path_mappings view\<rparr>, token))))"

definition connected_view :: "runner_registration \<Rightarrow> timestamp \<Rightarrow> runner_view" where
  "connected_view registration now = \<lparr>rn_id = rg_id registration, rn_name = rg_name registration,
     rn_host = ''connected host runner'', rn_status = runner_status.Idle, rn_last_seen_at = Some now,
     rn_toolchains = runner_toolchains, rn_path_mappings = rg_mappings registration\<rparr>"

definition runner_connect ::
    "(string \<Rightarrow> string) \<Rightarrow> nat \<Rightarrow> timestamp \<Rightarrow> runner_frame \<Rightarrow> string \<Rightarrow> runner_hub
       \<Rightarrow> runner_hub \<times> runner_frame \<times> runner_registration option" where
  "runner_connect hash socket now frame credential hub =
     (case frame of
        Hello runner_id _ token \<Rightarrow>
          (case runner_identity hash runner_id token credential hub of
             (hub1, Inl e) \<Rightarrow> (hub1, Error e, None)
           | (hub1, Inr (registration, secret)) \<Rightarrow>
               (let hub2 = upsert_runner_view (connected_view registration now) hub1 in
                (hub2\<lparr>hb_connections := (hb_connections hub2)(rg_id registration \<mapsto> socket)\<rparr>, Welcome secret, Some registration)))
      | _ \<Rightarrow> (hub, Error ''runner hello is invalid'', None))"

text \<open>A later frame: a result wakes the waiter of its job, everything else is skipped.\<close>

definition frame_result :: "runner_frame \<Rightarrow> (string \<times> runner_id) option" where
  "frame_result frame = (case frame of Result r \<Rightarrow> Some (rr_id r, rr_runner_id r)
     | InstallResult r \<Rightarrow> Some (ir_id r, ir_runner_id r) | _ \<Rightarrow> None)"

definition runner_message :: "runner_registration \<Rightarrow> runner_frame \<Rightarrow> runner_hub \<Rightarrow> runner_hub \<times> (nat \<times> runner_frame) option" where
  "runner_message registration frame hub =
     (case frame_result frame of
        None \<Rightarrow> (hub, None)
      | Some (result_id, runner_id) \<Rightarrow>
          if runner_id \<noteq> rg_id registration then (hub, None)
          else (case hb_pending_jobs hub result_id of
             None \<Rightarrow> (hub, None)
           | Some waiter \<Rightarrow>
               (hub\<lparr>hb_pending_jobs := (hb_pending_jobs hub)(result_id := None)\<rparr>, Some (waiter, frame))))"

definition runner_disconnect :: "runner_registration \<Rightarrow> timestamp \<Rightarrow> timestamp \<Rightarrow> runner_hub \<Rightarrow> runner_hub" where
  "runner_disconnect registration connected_at now hub =
     upsert_runner_view ((connected_view registration connected_at)\<lparr>rn_status := runner_status.Offline, rn_last_seen_at := Some now\<rparr>)
       (hub\<lparr>hb_connections := (hb_connections hub)(rg_id registration := None)\<rparr>)"

end
