(* ===== verification/RunnerJobs.thy ===== *)
theory RunnerJobs
  imports RunnerHub
begin

text \<open>
  Jobs for host runners (\<open>dispatch_check_job\<close> and \<open>install_toolchain\<close> of
  \<open>frank-server/src/routes/runners.rs\<close>), split where they wait: a job is opened (checks and the durable row),
  sent to the socket of its runner, and closed by a result, a timeout or a dropped waiter (\<open>None\<close>).
  \<open>sent\<close> tells whether the channel of the socket still took the frame.
\<close>

definition store_api_error :: "store_error \<Rightarrow> api_error" where
  "store_api_error e = (case e of
     StaleRevision _ \<Rightarrow> api_error_new CodeStaleRevision ''the server state changed; refresh and retry''
   | StoreValidation message \<Rightarrow> api_error_new CodeValidation message)"

section \<open>Opening a check\<close>

definition select_runner_for_project :: "runner_hub \<Rightarrow> project_id \<Rightarrow> runner_id route_result" where
  "select_runner_for_project hub project_id =
     (case find (\<lambda>r. any (\<lambda>m. rm_project_id m = None \<or> rm_project_id m = Some project_id) (rn_path_mappings r))
             (filter (\<lambda>r. rn_status r \<in> {runner_status.Idle, runner_status.Busy}) (hb_runners hub)) of
        Some r \<Rightarrow> Inr (rn_id r)
      | None \<Rightarrow> Inl (503, api_error_new CodeProviderUnavailable ''no connected host runner is mapped to this project''))"

definition task_grant_allows_check :: "env \<Rightarrow> 'z snapshot_scheme \<Rightarrow> task_id \<Rightarrow> string \<Rightarrow> bool" where
  "task_grant_allows_check env s task_id worktree \<longleftrightarrow>
     (case find_task task_id (s_tasks s) of
        None \<Rightarrow> False
      | Some task \<Rightarrow>
          if t_status task \<notin> {task_status.Running, task_status.Review} then False
          else (case t_worktree task of
             None \<Rightarrow> False
           | Some task_worktree \<Rightarrow>
               (case (e_canonicalize env (components task_worktree), e_canonicalize env (components worktree)) of
                  (Some task_root, Some root) \<Rightarrow>
                    if task_root \<noteq> root then False
                    else (let now = parse_or_zero 128 (e_now env) in
                      any (\<lambda>g. gv_task_id g = task_id \<and> gv_effect g = task_grant_effect.Check \<and> \<not> gv_revoked g
                           \<and> (case parse_uint 128 (gv_expires_at g) of None \<Rightarrow> False | Some expires_at \<Rightarrow> now < expires_at)
                           \<and> e_canonicalize env (components (gv_worktree g)) = Some task_root) (s_task_grants s))
                | _ \<Rightarrow> False)))"

definition project_unmapped :: "runner_view \<Rightarrow> project_id \<Rightarrow> bool" where
  "project_unmapped view project_id \<longleftrightarrow>
     list_all (\<lambda>m. rm_project_id m \<noteq> None \<and> rm_project_id m \<noteq> Some project_id) (rn_path_mappings view)"

definition queued_job ::
    "timestamp \<Rightarrow> string \<Rightarrow> runner_id \<Rightarrow> project_id \<Rightarrow> task_id option \<Rightarrow> string \<Rightarrow> runner_job_kind \<Rightarrow> runner_job_view" where
  "queued_job now i runner_id project_id task_id check_id kind =
     \<lparr>jv_id = i, jv_runner_id = runner_id, jv_project_id = project_id, jv_task_id = task_id, jv_check_id = check_id,
      jv_kind = kind, jv_status = runner_job_status.Queued, jv_created_at = now, jv_updated_at = now, jv_result = None,
      jv_install_result = None\<rparr>"

definition open_check ::
    "env \<Rightarrow> 'z snapshot_scheme \<Rightarrow> bool \<Rightarrow> string \<Rightarrow> runner_job \<Rightarrow> runner_hub \<Rightarrow> runner_hub \<times> (runner_job \<times> runner_job_view) route_result" where
  "open_check env s enforce_task_grant fresh_id job0 hub =
     (let job = (if blank (rj_id job0) then job0\<lparr>rj_id := fresh_id\<rparr> else job0) in
      case find_runner hub (rj_runner_id job) of
        None \<Rightarrow> (hub, Inl (404, api_error_new CodeNotFound ''runner is not paired''))
      | Some view \<Rightarrow>
          if enforce_task_grant \<and> (case rj_task_id job of None \<Rightarrow> False
               | Some task_id \<Rightarrow> \<not> task_grant_allows_check env s task_id (rj_daemon_worktree job))
          then (hub, Inl (403, api_error_new CodeForbidden ''a non-network task check grant is required for this worktree''))
          else if project_unmapped view (rj_project_id job)
          then (hub, Inl (403, api_error_new CodeForbidden ''runner has no path mapping for this project''))
          else (let durable = queued_job (e_now env) (rj_id job) (rj_runner_id job) (rj_project_id job) (rj_task_id job)
                      (tc_id (rj_check job)) runner_job_kind.Check in
                (upsert_runner_job durable hub, Inr (job, durable))))"

text \<open>The two callers: the route of the owner enforces the grant of a task, the tool call of an agent
  (\<open>HostRunnerCheckExecutor\<close>) has checked it before and picks the runner.\<close>

definition run_check ::
    "env \<Rightarrow> 'z snapshot_scheme \<Rightarrow> device_role option \<Rightarrow> runner_id \<Rightarrow> string \<Rightarrow> runner_job \<Rightarrow> runner_hub
       \<Rightarrow> runner_hub \<times> (runner_job \<times> runner_job_view) route_result" where
  "run_check env s auth path_runner_id fresh_id job hub =
     (if \<not> owner_auth auth then (hub, Inl (unauthorized_or_forbidden auth))
      else if rj_runner_id job \<noteq> path_runner_id
      then (hub, Inl (400, api_error_new CodeValidation ''runner id in path and job do not match''))
      else open_check env s True fresh_id job hub)"

definition execute_host_check ::
    "env \<Rightarrow> 'z snapshot_scheme \<Rightarrow> string \<Rightarrow> project_id \<Rightarrow> task_id option \<Rightarrow> string \<Rightarrow> toolchain_check \<Rightarrow> runner_hub
       \<Rightarrow> runner_hub \<times> (runner_job \<times> runner_job_view) route_result" where
  "execute_host_check env s fresh_id project_id task_id worktree check hub =
     (case select_runner_for_project hub project_id of
        Inl e \<Rightarrow> (hub, Inl e)
      | Inr runner_id \<Rightarrow>
          open_check env s False fresh_id \<lparr>rj_id = fresh_id, rj_runner_id = runner_id, rj_project_id = project_id,
            rj_task_id = task_id, rj_daemon_worktree = worktree, rj_check = check\<rparr> hub)"

section \<open>Sending\<close>

definition settle_job :: "timestamp \<Rightarrow> runner_job_status \<Rightarrow> runner_job_view \<Rightarrow> runner_hub \<Rightarrow> runner_hub" where
  "settle_job now status durable hub = upsert_runner_job (durable\<lparr>jv_status := status, jv_updated_at := now\<rparr>) hub"

definition send_job ::
    "timestamp \<Rightarrow> bool \<Rightarrow> nat \<Rightarrow> runner_frame \<Rightarrow> runner_job_view \<Rightarrow> runner_hub \<Rightarrow> runner_hub \<times> (nat \<times> runner_frame) route_result" where
  "send_job now sent waiter frame durable hub =
     (case hb_connections hub (jv_runner_id durable) of
        None \<Rightarrow> (settle_job now runner_job_status.Failed durable hub,
                  Inl (503, api_error_new CodeProviderUnavailable ''host runner is offline''))
      | Some socket \<Rightarrow>
          if \<not> sent
          then (settle_job now runner_job_status.Failed durable
                  (hub\<lparr>hb_pending_jobs := (hb_pending_jobs hub)(jv_id durable := None)\<rparr>),
                Inl (503, api_error_new CodeProviderUnavailable ''host runner connection closed''))
          else (settle_job now runner_job_status.Running durable
                  (hub\<lparr>hb_pending_jobs := (hb_pending_jobs hub)(jv_id durable \<mapsto> waiter)\<rparr>),
                Inr (socket, frame)))"

section \<open>Closing a check\<close>

definition check_of_result :: "env \<Rightarrow> runner_job \<Rightarrow> runner_job_result \<Rightarrow> check_run_view" where
  "check_of_result env job result = \<lparr>ck_id = rr_id result, ck_runner_id = rr_runner_id result,
     ck_project_id = rj_project_id job, ck_task_id = rj_task_id job, ck_check_id = tc_id (rj_check job),
     ck_status = rr_status result, ck_exit_code = rr_exit_code result, ck_stdout = rr_stdout result,
     ck_stderr = rr_stderr result, ck_duration_ms = rr_duration_ms result,
     ck_started_at = show_nat (parse_or_zero 128 (e_now env) - unat (rr_duration_ms result)),
     ck_finished_at = Some (e_now env)\<rparr>"

definition job_status_of_check :: "check_run_status \<Rightarrow> runner_job_status" where
  "job_status_of_check status = (case status of
     check_run_status.Passed \<Rightarrow> runner_job_status.Passed
   | check_run_status.TimedOut \<Rightarrow> runner_job_status.TimedOut
   | check_run_status.Cancelled \<Rightarrow> runner_job_status.Cancelled
   | _ \<Rightarrow> runner_job_status.Failed)"

definition close_check ::
    "env \<Rightarrow> command_id \<Rightarrow> (store \<Rightarrow> store) \<Rightarrow> runner_job \<Rightarrow> runner_job_view \<Rightarrow> runner_frame option \<Rightarrow> store \<Rightarrow> runner_hub
       \<Rightarrow> runner_hub \<times> store \<times> (runner_job_result \<times> check_run_view) route_result" where
  "close_check env cid between job durable outcome st hub =
     (case outcome of
        None \<Rightarrow> (settle_job (e_now env) runner_job_status.TimedOut durable
                   (hub\<lparr>hb_pending_jobs := (hb_pending_jobs hub)(rj_id job := None)\<rparr>), st,
                 Inl (504, api_error_new RateLimited ''host runner check timed out''))
      | Some (Result result) \<Rightarrow>
          if rr_id result \<noteq> rj_id job \<or> rr_runner_id result \<noteq> rj_runner_id job
          then (settle_job (e_now env) runner_job_status.Failed durable hub, st,
                Inl (500, api_error_new Internal ''host runner result does not match the durable check job''))
          else (let check = check_of_result env job result in
            case record_check_run env cid check between st of
              Inl e \<Rightarrow> (hub, between st, Inl (500, store_api_error e))
            | Inr st' \<Rightarrow>
                (upsert_runner_job (durable\<lparr>jv_status := job_status_of_check (rr_status result), jv_updated_at := e_now env,
                   jv_result := Some check\<rparr>) hub, st', Inr (result, check)))
      | Some _ \<Rightarrow> (settle_job (e_now env) runner_job_status.Failed durable hub, st,
                 Inl (500, api_error_new Internal ''host runner returned an invalid result'')))"

section \<open>Installations\<close>

record install_toolchain_request =
  tr_project_id :: project_id
  tr_task_id :: task_id
  tr_manifest_id :: string
  tr_version :: string
  tr_project_path :: string
  tr_approval_id :: approval_id

text \<open>The approval an installation needs.\<close>

definition install_operation :: "install_toolchain_request \<Rightarrow> string" where
  "install_operation request = ''toolchain-install:'' @ tr_manifest_id request @ '':'' @ tr_version request"

definition install_approved ::
    "env \<Rightarrow> 'z snapshot_scheme \<Rightarrow> install_toolchain_request \<Rightarrow> task_view \<Rightarrow> approval_view \<Rightarrow> bool" where
  "install_approved env s request task approval \<longleftrightarrow>
     av_task_id approval = tr_task_id request \<and> av_operation approval = install_operation request \<and>
     av_status approval = approval_status.Approved \<and>
     any (\<lambda>m. m_id m = t_mission_id task \<and> m_project_id m = tr_project_id request) (s_missions s) \<and>
     t_assigned_agent task = Some (av_agent_id approval) \<and>
     (case t_assigned_agent task of None \<Rightarrow> False | Some i \<Rightarrow> any (\<lambda>a. a_id a = i \<and> \<not> a_archived a) (s_agents s)) \<and>
     parse_or_zero 128 (e_now env) < parse_or_zero 128 (av_expires_at approval) \<and>
     t_status task \<in> {task_status.Running, task_status.Review}"

text \<open>\<open>local p\<close> are the manifests found below the canonical project path \<open>p\<close>. The route quotes the error of
  an invalid manifest; the model keeps the status and the code and shortens the sentence.\<close>

definition install_plan_for ::
    "(component list \<Rightarrow> (toolchain_error + toolchain_manifest list) option) \<Rightarrow> string \<Rightarrow> string \<Rightarrow> install_toolchain_request
       \<Rightarrow> component list \<Rightarrow> (toolchain_manifest \<times> toolchain_artifact) route_result" where
  "install_plan_for local platform data_directory request path =
     (case manifests_for_project (local path) of
        Inl _ \<Rightarrow> Inl (400, api_error_new CodeValidation ''toolchain manifests are invalid'')
      | Inr manifests \<Rightarrow>
          (case find (\<lambda>m. tm_id m = tr_manifest_id request \<and> tm_version m = tr_version request) manifests of
             None \<Rightarrow> Inl (404, api_error_new CodeNotFound ''toolchain manifest/version is not available'')
           | Some manifest \<Rightarrow>
               (case resolve_install_plan manifest platform data_directory of
                  Inl _ \<Rightarrow> Inl (400, api_error_new CodeValidation ''toolchain manifest has no install plan'')
                | Inr plan \<Rightarrow>
                    (case ip_artifact plan of
                       None \<Rightarrow> Inl (400, api_error_new CodeValidation ''toolchain install preview has no immutable artifact'')
                     | Some artifact \<Rightarrow> Inr (manifest, artifact)))))"

definition open_install ::
    "env \<Rightarrow> 'z snapshot_scheme \<Rightarrow> (component list \<Rightarrow> (toolchain_error + toolchain_manifest list) option) \<Rightarrow> string \<Rightarrow> string
       \<Rightarrow> device_role option \<Rightarrow> runner_id \<Rightarrow> string \<Rightarrow> install_toolchain_request \<Rightarrow> runner_hub
       \<Rightarrow> runner_hub \<times> (runner_install_job \<times> runner_job_view) route_result" where
  "open_install env s local platform data_directory auth runner_id fresh_id request hub =
     (if \<not> owner_auth auth then (hub, Inl (unauthorized_or_forbidden auth))
      else if blank (tr_manifest_id request) \<or> blank (tr_version request) \<or> blank (tr_project_path request)
      then (hub, Inl (400, api_error_new CodeValidation ''toolchain install request is incomplete''))
      else case find (\<lambda>p. p_id p = tr_project_id request \<and> \<not> p_archived p) (s_projects s) of
        None \<Rightarrow> (hub, Inl (404, api_error_new CodeNotFound ''project is not registered''))
      | Some project \<Rightarrow>
        (case e_canonicalize env (components (tr_project_path request)) of
          None \<Rightarrow> (hub, Inl (400, api_error_new CodeValidation ''project path is not available''))
        | Some project_path \<Rightarrow>
        (case e_canonicalize env (components (p_path project)) of
          None \<Rightarrow> (hub, Inl (400, api_error_new CodeValidation ''registered project path is not available''))
        | Some registered_path \<Rightarrow>
        if project_path \<noteq> registered_path
        then (hub, Inl (403, api_error_new CodeForbidden ''toolchain install path does not match the registered project''))
        else case find_task (tr_task_id request) (s_tasks s) of
          None \<Rightarrow> (hub, Inl (404, api_error_new CodeNotFound ''install task is not found''))
        | Some task \<Rightarrow>
        (case find (\<lambda>a. av_id a = tr_approval_id request) (s_approvals s) of
          None \<Rightarrow> (hub, Inl (404, api_error_new CodeNotFound ''toolchain install approval is not found''))
        | Some approval \<Rightarrow>
        if \<not> install_approved env s request task approval
        then (hub, Inl (403, api_error_new CodeForbidden ''an unexpired, task-scoped toolchain approval is required''))
        else case install_plan_for local platform data_directory request project_path of
          Inl e \<Rightarrow> (hub, Inl e)
        | Inr (manifest, artifact) \<Rightarrow>
        (case find_runner hub runner_id of
          None \<Rightarrow> (hub, Inl (404, api_error_new CodeNotFound ''runner is not paired''))
        | Some view \<Rightarrow>
        if project_unmapped view (tr_project_id request)
        then (hub, Inl (403, api_error_new CodeForbidden ''runner has no path mapping for this project''))
        else
         (let job = \<lparr>ij_id = fresh_id, ij_runner_id = runner_id, ij_project_id = tr_project_id request,
                ij_task_id = Some (tr_task_id request), ij_daemon_worktree = tr_project_path request,
                ij_manifest_id = tm_id manifest, ij_version = tm_version manifest, ij_artifact = artifact,
                ij_install_relative_path = tm_id manifest @ ''/'' @ tm_version manifest @ ''/artifact''\<rparr>;
              durable = queued_job (e_now env) fresh_id runner_id (tr_project_id request) (Some (tr_task_id request))
                (''toolchain-install:'' @ tm_id manifest @ '':'' @ tm_version manifest) runner_job_kind.ToolchainInstall in
          (upsert_runner_job durable hub, Inr (job, durable))))))))"

definition install_timed_out :: "runner_install_job \<Rightarrow> runner_install_result" where
  "install_timed_out job = \<lparr>ir_id = ij_id job, ir_runner_id = ij_runner_id job, ir_status = toolchain_requirement_status.Failed,
     ir_installed_path = None, ir_diagnostic = Some ''host runner install timed out''\<rparr>"

definition record_installation ::
    "env \<Rightarrow> command_id \<Rightarrow> runner_install_job \<Rightarrow> runner_install_result \<Rightarrow> (store \<Rightarrow> store) \<Rightarrow> store \<Rightarrow> store_error + store" where
  "record_installation env cid job result between st =
     (let snapshot = st_world st; st1 = between st in
      case commit_request env st1 \<lparr>rq_command_id = cid, rq_expected_revision = None, rq_actor = actor_system,
             rq_event = ToolchainInstallationRecorded (ij_manifest_id job) (ij_version job) (ij_runner_id job) (ir_status result)
               (Some (ij_project_id job)) (ij_task_id job) (ir_installed_path result),
             rq_snapshot = with_memory snapshot st1, rq_result = Accepted, rq_artifact_bytes = None\<rparr> of
        Inl e \<Rightarrow> Inl e
      | Inr (st', _) \<Rightarrow> Inr st')"

definition close_install ::
    "env \<Rightarrow> command_id \<Rightarrow> (store \<Rightarrow> store) \<Rightarrow> runner_install_job \<Rightarrow> runner_job_view \<Rightarrow> runner_frame option \<Rightarrow> store \<Rightarrow> runner_hub
       \<Rightarrow> runner_hub \<times> store \<times> runner_install_result route_result" where
  "close_install env cid between job durable outcome st hub =
     (let answered = (case outcome of Some (InstallResult r) \<Rightarrow> Some r | _ \<Rightarrow> None);
          hub1 = (if answered = None then hub\<lparr>hb_pending_jobs := (hb_pending_jobs hub)(ij_id job := None)\<rparr> else hub);
          result = (case answered of Some r \<Rightarrow> r | None \<Rightarrow> install_timed_out job);
          status = (if answered = None then runner_job_status.TimedOut
                    else if ir_status result = toolchain_requirement_status.Ready then runner_job_status.Passed
                    else runner_job_status.Failed);
          hub2 = upsert_runner_job (durable\<lparr>jv_status := status, jv_updated_at := e_now env,
                   jv_install_result := Some result\<rparr>) hub1 in
      case record_installation env cid job result between st of
        Inl e \<Rightarrow> (hub2, between st, Inl (500, store_api_error e))
      | Inr st' \<Rightarrow> (hub2, st', Inr result))"

end
