(* ===== verification/RunnerNet.thy ===== *)
theory RunnerNet
  imports RunnerJobs
begin

text \<open>
  Runners, sockets and jobs together: any number of sockets and of jobs in flight, in any order. A socket
  keeps its registration and the secret it was opened with; \<open>nt_issued\<close> are the secrets the daemon has
  handed out, each with its runner, and \<open>nt_tokens\<close> the one-time tokens among them. A drawn secret is new. The
  store and the environment of a step are arbitrary.
\<close>

datatype runner_work = CheckWork runner_job | InstallWork runner_install_job

definition work_id :: "runner_work \<Rightarrow> string" where
  "work_id work = (case work of CheckWork job \<Rightarrow> rj_id job | InstallWork job \<Rightarrow> ij_id job)"

definition work_frame :: "runner_work \<Rightarrow> runner_frame" where
  "work_frame work = (case work of CheckWork job \<Rightarrow> Run job | InstallWork job \<Rightarrow> Install job)"

datatype dispatch =
    Opened runner_work runner_job_view
  | Waiting runner_work runner_job_view
  | Reported runner_work runner_job_view runner_frame nat
  | Checked runner_job runner_job_result check_run_view nat

record runner_net =
  nt_hub :: runner_hub
  nt_sockets :: "nat \<Rightarrow> (runner_registration \<times> string) option"
  nt_issued :: "(string \<times> runner_id) set"
  nt_tokens :: "string set"
  nt_jobs :: "nat \<Rightarrow> dispatch option"

definition report :: "(nat \<times> runner_frame) option \<Rightarrow> nat \<Rightarrow> (nat \<Rightarrow> dispatch option) \<Rightarrow> (nat \<Rightarrow> dispatch option)" where
  "report delivered socket jobs =
     (case delivered of
        None \<Rightarrow> jobs
      | Some (waiter, frame) \<Rightarrow>
          (case jobs waiter of
             Some (Waiting work durable) \<Rightarrow> jobs(waiter \<mapsto> Reported work durable frame socket)
           | _ \<Rightarrow> jobs))"

text \<open>A new process: the registry is empty, sockets and requests are gone, the rows in flight have failed.\<close>

definition hub_restart :: "timestamp \<Rightarrow> runner_hub \<Rightarrow> runner_hub" where
  "hub_restart now hub = (mark_runner_jobs_interrupted now hub)\<lparr>hb_pending := (\<lambda>_. None), hb_connections := (\<lambda>_. None),
     hb_pending_jobs := (\<lambda>_. None)\<rparr>"

inductive net_step :: "(string \<Rightarrow> string) \<Rightarrow> runner_net \<Rightarrow> runner_net \<Rightarrow> bool" for hash :: "string \<Rightarrow> string" where
  net_pair:
    "token \<notin> fst ` nt_issued n \<Longrightarrow>
     pair_runner auth name mappings (i, token) now (nt_hub n) = (hub, Inr reply) \<Longrightarrow>
     net_step hash n (n\<lparr>nt_hub := hub, nt_issued := insert (token, i) (nt_issued n), nt_tokens := insert token (nt_tokens n)\<rparr>)"
| net_connect:
    "credential \<notin> fst ` nt_issued n \<Longrightarrow> nt_sockets n c = None \<Longrightarrow>
     runner_connect hash c now (Hello i name token) credential (nt_hub n) = (hub, Welcome secret, Some registration) \<Longrightarrow>
     net_step hash n (n\<lparr>nt_hub := hub, nt_sockets := (nt_sockets n)(c \<mapsto> (registration, token)),
       nt_issued := insert (secret, rg_id registration) (nt_issued n)\<rparr>)"
| net_refuse:
    "runner_connect hash c now frame credential (nt_hub n) = (hub, e, None) \<Longrightarrow> net_step hash n (n\<lparr>nt_hub := hub\<rparr>)"
| net_message:
    "nt_sockets n c = Some (registration, secret) \<Longrightarrow> runner_message registration frame (nt_hub n) = (hub, delivered) \<Longrightarrow>
     net_step hash n (n\<lparr>nt_hub := hub, nt_jobs := report delivered c (nt_jobs n)\<rparr>)"
| net_disconnect:
    "nt_sockets n c = Some (registration, secret) \<Longrightarrow>
     net_step hash n (n\<lparr>nt_hub := runner_disconnect registration connected_at now (nt_hub n)\<rparr>)"
| net_open_check:
    "nt_jobs n w = None \<Longrightarrow> open_check env (s :: snapshot) enforce fresh job0 (nt_hub n) = (hub, Inr (job, durable)) \<Longrightarrow>
     net_step hash n (n\<lparr>nt_hub := hub, nt_jobs := (nt_jobs n)(w \<mapsto> Opened (CheckWork job) durable)\<rparr>)"
| net_open_install:
    "nt_jobs n w = None \<Longrightarrow>
     open_install env (s :: snapshot) manifests platform data auth i fresh request (nt_hub n) = (hub, Inr (ijob, durable)) \<Longrightarrow>
     net_step hash n (n\<lparr>nt_hub := hub, nt_jobs := (nt_jobs n)(w \<mapsto> Opened (InstallWork ijob) durable)\<rparr>)"
| net_send:
    "nt_jobs n w = Some (Opened work durable) \<Longrightarrow>
     send_job now sent w (work_frame work) durable (nt_hub n) = (hub, Inr sent_to) \<Longrightarrow>
     net_step hash n (n\<lparr>nt_hub := hub, nt_jobs := (nt_jobs n)(w \<mapsto> Waiting work durable)\<rparr>)"
| net_unsent:
    "nt_jobs n w = Some (Opened work durable) \<Longrightarrow>
     send_job now sent w (work_frame work) durable (nt_hub n) = (hub, Inl e) \<Longrightarrow>
     net_step hash n (n\<lparr>nt_hub := hub, nt_jobs := (nt_jobs n)(w := None)\<rparr>)"
| net_check_timeout:
    "nt_jobs n w = Some (Waiting (CheckWork job) durable) \<Longrightarrow>
     close_check env cid between job durable None st (nt_hub n) = (hub, st', r) \<Longrightarrow>
     net_step hash n (n\<lparr>nt_hub := hub, nt_jobs := (nt_jobs n)(w := None)\<rparr>)"
| net_check_recorded:
    "nt_jobs n w = Some (Reported (CheckWork job) durable frame c) \<Longrightarrow>
     close_check env cid between job durable (Some frame) st (nt_hub n) = (hub, st', Inr (result, check)) \<Longrightarrow>
     net_step hash n (n\<lparr>nt_hub := hub, nt_jobs := (nt_jobs n)(w \<mapsto> Checked job result check c)\<rparr>)"
| net_check_failed:
    "nt_jobs n w = Some (Reported (CheckWork job) durable frame c) \<Longrightarrow>
     close_check env cid between job durable (Some frame) st (nt_hub n) = (hub, st', Inl e) \<Longrightarrow>
     net_step hash n (n\<lparr>nt_hub := hub, nt_jobs := (nt_jobs n)(w := None)\<rparr>)"
| net_install_timeout:
    "nt_jobs n w = Some (Waiting (InstallWork ijob) durable) \<Longrightarrow>
     close_install env cid between ijob durable None st (nt_hub n) = (hub, st', ir) \<Longrightarrow>
     net_step hash n (n\<lparr>nt_hub := hub, nt_jobs := (nt_jobs n)(w := None)\<rparr>)"
| net_install_closed:
    "nt_jobs n w = Some (Reported (InstallWork ijob) durable frame c) \<Longrightarrow>
     close_install env cid between ijob durable (Some frame) st (nt_hub n) = (hub, st', ir) \<Longrightarrow>
     net_step hash n (n\<lparr>nt_hub := hub, nt_jobs := (nt_jobs n)(w := None)\<rparr>)"
| net_restart:
    "net_step hash n (n\<lparr>nt_hub := hub_restart now (nt_hub n),
       nt_jobs := (\<lambda>w. case nt_jobs n w of Some (Checked job result check c) \<Rightarrow> Some (Checked job result check c) | _ \<Rightarrow> None)\<rparr>)"

definition hub_empty :: runner_hub where
  "hub_empty = \<lparr>hb_runners = [], hb_credentials = (\<lambda>_. None), hb_jobs = [], hb_pending = (\<lambda>_. None),
     hb_connections = (\<lambda>_. None), hb_pending_jobs = (\<lambda>_. None)\<rparr>"

definition net_init :: "runner_net \<Rightarrow> bool" where
  "net_init n \<longleftrightarrow> n = \<lparr>nt_hub = hub_empty, nt_sockets = (\<lambda>_. None), nt_issued = {}, nt_tokens = {}, nt_jobs = (\<lambda>_. None)\<rparr>"

section \<open>Invariant\<close>

text \<open>The secrets that have been issued or presented at an accepted connection. What follows holds as long as no two of
  them have the same hash.\<close>

definition secrets :: "runner_net \<Rightarrow> string set" where
  "secrets n = fst ` nt_issued n \<union> {t. \<exists>c g. nt_sockets n c = Some (g, t)}"

text \<open>The secrets: a pending token and a stored credential were issued for their runner, a socket was opened
  with an issued secret, and a one-time token opens one socket.\<close>

definition secrets_ok :: "(string \<Rightarrow> string) \<Rightarrow> runner_net \<Rightarrow> bool" where
  "secrets_ok hash n \<longleftrightarrow>
     single_valued (nt_issued n) \<and> nt_tokens n \<subseteq> fst ` nt_issued n \<and>
     (\<forall>t g. hb_pending (nt_hub n) t = Some g \<longrightarrow>
        (t, rg_id g) \<in> nt_issued n \<and> t \<in> nt_tokens n \<and> (\<forall>c g'. nt_sockets n c \<noteq> Some (g', t))) \<and>
     (\<forall>i h b. hb_credentials (nt_hub n) i = Some (h, b) \<longrightarrow> (\<exists>s. (s, i) \<in> nt_issued n \<and> h = hash s \<and> s \<notin> nt_tokens n)) \<and>
     (\<forall>c g t. nt_sockets n c = Some (g, t) \<longrightarrow> (t, rg_id g) \<in> nt_issued n) \<and>
     (\<forall>c c' g g' t. nt_sockets n c = Some (g, t) \<longrightarrow> nt_sockets n c' = Some (g', t) \<longrightarrow> t \<in> nt_tokens n \<longrightarrow> c = c')"

text \<open>The jobs: a waiter is registered under the id of its job, a report came through a socket of the runner it names.\<close>

definition dispatch_ok :: "runner_net \<Rightarrow> dispatch \<Rightarrow> bool" where
  "dispatch_ok n d \<longleftrightarrow> (case d of
     Opened work durable \<Rightarrow> jv_id durable = work_id work
   | Waiting work durable \<Rightarrow> jv_id durable = work_id work
   | Reported work durable frame c \<Rightarrow>
       (\<exists>g t. nt_sockets n c = Some (g, t) \<and> frame_result frame = Some (work_id work, rg_id g))
   | Checked job result check c \<Rightarrow>
       (\<exists>g t. nt_sockets n c = Some (g, t) \<and> rg_id g = rj_runner_id job) \<and>
       rr_id result = rj_id job \<and> rr_runner_id result = rj_runner_id job \<and>
       ck_id check = rj_id job \<and> ck_runner_id check = rj_runner_id job \<and> ck_project_id check = rj_project_id job \<and>
       ck_task_id check = rj_task_id job \<and> ck_check_id check = tc_id (rj_check job) \<and> ck_status check = rr_status result)"

definition jobs_ok :: "runner_net \<Rightarrow> bool" where
  "jobs_ok n \<longleftrightarrow>
     (\<forall>k w. hb_pending_jobs (nt_hub n) k = Some w \<longrightarrow>
        (\<exists>work durable. nt_jobs n w = Some (Waiting work durable) \<and> work_id work = k)) \<and>
     (\<forall>w d. nt_jobs n w = Some d \<longrightarrow> dispatch_ok n d)"

lemma hub_frame [simp]:
  "hb_pending (upsert_runner_view v hub) = hb_pending hub" "hb_credentials (upsert_runner_view v hub) = hb_credentials hub"
  "hb_pending_jobs (upsert_runner_view v hub) = hb_pending_jobs hub"
  "hb_connections (upsert_runner_view v hub) = hb_connections hub"
  "hb_pending (upsert_runner_job j hub) = hb_pending hub" "hb_credentials (upsert_runner_job j hub) = hb_credentials hub"
  "hb_pending_jobs (upsert_runner_job j hub) = hb_pending_jobs hub"
  "hb_connections (upsert_runner_job j hub) = hb_connections hub"
  "hb_pending (settle_job now status j hub) = hb_pending hub" "hb_credentials (settle_job now status j hub) = hb_credentials hub"
  "hb_pending_jobs (settle_job now status j hub) = hb_pending_jobs hub"
  "hb_connections (settle_job now status j hub) = hb_connections hub"
  by (simp_all add: upsert_runner_view_def upsert_runner_job_def settle_job_def)

lemma secrets_okD:
  assumes "secrets_ok hash n"
  shows "single_valued (nt_issued n)" "nt_tokens n \<subseteq> fst ` nt_issued n"
    "hb_pending (nt_hub n) t = Some g \<Longrightarrow> (t, rg_id g) \<in> nt_issued n \<and> t \<in> nt_tokens n \<and> (\<forall>c g'. nt_sockets n c \<noteq> Some (g', t))"
    "hb_credentials (nt_hub n) i = Some (h, b) \<Longrightarrow> \<exists>s. (s, i) \<in> nt_issued n \<and> h = hash s \<and> s \<notin> nt_tokens n"
    "nt_sockets n c = Some (g, t) \<Longrightarrow> (t, rg_id g) \<in> nt_issued n"
    "nt_sockets n c = Some (g, t) \<Longrightarrow> nt_sockets n c' = Some (g', t) \<Longrightarrow> t \<in> nt_tokens n \<Longrightarrow> c = c'"
  using assms unfolding secrets_ok_def by blast+

lemma secrets_okI:
  assumes "single_valued (nt_issued n)" "nt_tokens n \<subseteq> fst ` nt_issued n"
    "\<And>t g. hb_pending (nt_hub n) t = Some g \<Longrightarrow> (t, rg_id g) \<in> nt_issued n \<and> t \<in> nt_tokens n \<and> (\<forall>c g'. nt_sockets n c \<noteq> Some (g', t))"
    "\<And>i h b. hb_credentials (nt_hub n) i = Some (h, b) \<Longrightarrow> \<exists>s. (s, i) \<in> nt_issued n \<and> h = hash s \<and> s \<notin> nt_tokens n"
    "\<And>c g t. nt_sockets n c = Some (g, t) \<Longrightarrow> (t, rg_id g) \<in> nt_issued n"
    "\<And>c c' g g' t. nt_sockets n c = Some (g, t) \<Longrightarrow> nt_sockets n c' = Some (g', t) \<Longrightarrow> t \<in> nt_tokens n \<Longrightarrow> c = c'"
  shows "secrets_ok hash n"
  using assms unfolding secrets_ok_def by blast

lemma secrets_frame:
  assumes "secrets_ok hash n" "hb_pending (nt_hub n') \<subseteq>\<^sub>m hb_pending (nt_hub n)" "hb_credentials (nt_hub n') = hb_credentials (nt_hub n)"
    "nt_sockets n' = nt_sockets n" "nt_issued n' = nt_issued n" "nt_tokens n' = nt_tokens n"
  shows "secrets_ok hash n'"
proof -
  have "hb_pending (nt_hub n) t = Some g" if "hb_pending (nt_hub n') t = Some g" for t g
    using assms(2) that by (metis domI map_le_def)
  then show ?thesis using assms(1) unfolding secrets_ok_def assms(3-6) by blast
qed

lemma dispatch_ok_sockets: "nt_sockets n \<subseteq>\<^sub>m nt_sockets n' \<Longrightarrow> dispatch_ok n d \<Longrightarrow> dispatch_ok n' d"
proof -
  assume le: "nt_sockets n \<subseteq>\<^sub>m nt_sockets n'" and ok: "dispatch_ok n d"
  have "nt_sockets n' c = Some x" if "nt_sockets n c = Some x" for c x
    using le that by (metis domI map_le_def)
  with ok show ?thesis by (cases d) (auto simp: dispatch_ok_def)
qed

lemma jobs_frame:
  assumes "jobs_ok n" "hb_pending_jobs (nt_hub n') = hb_pending_jobs (nt_hub n)" "nt_jobs n' = nt_jobs n"
    "nt_sockets n \<subseteq>\<^sub>m nt_sockets n'"
  shows "jobs_ok n'"
  using assms dispatch_ok_sockets [OF assms(4)] unfolding jobs_ok_def by metis

text \<open>One job changes its phase: nobody waits under its id unless it waits now.\<close>

lemma jobs_change:
  assumes ok: "jobs_ok n" and s: "nt_sockets n' = nt_sockets n" and j: "nt_jobs n' = (nt_jobs n)(w := d)"
    and d: "\<And>x. d = Some x \<Longrightarrow> dispatch_ok n' x"
    and p: "\<And>k v. hb_pending_jobs (nt_hub n') k = Some v \<Longrightarrow>
      v \<noteq> w \<and> hb_pending_jobs (nt_hub n) k = Some v \<or> v = w \<and> (\<exists>work durable. d = Some (Waiting work durable) \<and> work_id work = k)"
  shows "jobs_ok n'"
proof -
  have "dispatch_ok n' x" if "nt_jobs n v = Some x" for v x
    using ok that s dispatch_ok_sockets [of n n' x] unfolding jobs_ok_def by simp
  then show ?thesis using ok p d unfolding jobs_ok_def j by (auto split: if_splits) (metis option.inject)+
qed

lemma secrets_pair:
  assumes ok: "secrets_ok hash n" and new: "token \<notin> fst ` nt_issued n"
    and p: "pair_runner auth name mappings (i, token) now (nt_hub n) = (hub, Inr reply)"
  shows "secrets_ok hash (n\<lparr>nt_hub := hub, nt_issued := insert (token, i) (nt_issued n), nt_tokens := insert token (nt_tokens n)\<rparr>)"
proof -
  let ?g = "\<lparr>rg_id = i, rg_name = trim (case name of None \<Rightarrow> ''Frank host runner'' | Some n \<Rightarrow> n), rg_mappings = mappings\<rparr>"
  have g: "rg_id ?g = i" "hb_pending hub = (hb_pending (nt_hub n))(token \<mapsto> ?g)"
    "hb_credentials hub = hb_credentials (nt_hub n)"
    using p by (auto simp: pair_runner_def Let_def split: if_splits)
  have nt: "token \<notin> nt_tokens n" using ok new unfolding secrets_ok_def by blast
  have ns: "nt_sockets n c \<noteq> Some (g', token)" for c g'
  proof
    assume "nt_sockets n c = Some (g', token)"
    then have "(token, rg_id g') \<in> nt_issued n" using ok unfolding secrets_ok_def by blast
    then show False using new by force
  qed
  have ne: "s \<noteq> token" if "(s, j) \<in> nt_issued n" for s j using new that by force
  have sv: "single_valued (insert (token, i) (nt_issued n))"
    using secrets_okD(1) [OF ok] ne by (auto simp: single_valued_def)
  have tk: "insert token (nt_tokens n) \<subseteq> fst ` insert (token, i) (nt_issued n)"
    using ok unfolding secrets_ok_def by auto
  have pe: "(t, rg_id g) \<in> insert (token, i) (nt_issued n) \<and> t \<in> insert token (nt_tokens n) \<and> (\<forall>c g'. nt_sockets n c \<noteq> Some (g', t))"
    if "((hb_pending (nt_hub n))(token \<mapsto> ?g)) t = Some g" for t g
    using secrets_okD(3) [OF ok, of t g] ns that by (auto split: if_splits)
  have cr: "\<exists>s. (s, j) \<in> insert (token, i) (nt_issued n) \<and> h = hash s \<and> s \<notin> insert token (nt_tokens n)"
    if "hb_credentials (nt_hub n) j = Some (h, b)" for j h b
    using secrets_okD(4) [OF ok that] ne by blast
  have sk: "(t, rg_id g) \<in> insert (token, i) (nt_issued n)" if "nt_sockets n c = Some (g, t)" for c g t
    using secrets_okD(5) [OF ok that] by simp
  have si: "c = c'" if "nt_sockets n c = Some (g, t)" "nt_sockets n c' = Some (g', t)" "t \<in> insert token (nt_tokens n)" for c c' g g' t
    using secrets_okD(6) [OF ok that(1,2)] ns that by blast
  show ?thesis
  proof (rule secrets_okI, goal_cases)
    case (3 t g)
    then show ?case using pe [of t g] by (simp add: g)
  next
    case (4 j h b)
    then show ?case using cr [of j h b] by (simp add: g)
  next
    case (5 c g t)
    then show ?case using sk [of c g t] by simp
  next
    case (6 c c' g g' t)
    then show ?case using si [of c g t c' g'] by simp
  qed (use sv tk in simp_all)
qed

text \<open>What a welcome means: the token of a pairing, or the credential of the runner.\<close>

lemma find_runner_id: "find_runner hub i = Some v \<Longrightarrow> rn_id v = i"
  unfolding find_runner_def by (drule find_SomeD) simp

lemma find_runner_pending [simp]: "find_runner (hub\<lparr>hb_pending := p\<rparr>) i = find_runner hub i"
  by (simp add: find_runner_def)

lemma runner_connectE:
  assumes "runner_connect hash c now (Hello i name token) credential hub = (hub', Welcome secret, Some g)"
  obtains (token) "hb_pending hub token = Some g" "rg_id g = i" "secret = credential"
      "hb_pending hub' = (hb_pending hub)(token := None)"
      "hb_credentials hub' = (hb_credentials hub)(i \<mapsto> (hash credential, False))"
      "hb_pending_jobs hub' = hb_pending_jobs hub"
  | (credential) "hb_pending hub token = None" "hb_credentials hub i = Some (hash token, False)" "rg_id g = i" "secret = token"
      "hb_pending hub' = hb_pending hub" "hb_credentials hub' = hb_credentials hub" "hb_pending_jobs hub' = hb_pending_jobs hub"
  using assms
  by (auto simp: runner_connect_def runner_identity_def Let_def upsert_runner_credential_hash_def runner_credential_matches_def
      fun_upd_idem dest!: find_runner_id split: option.splits if_splits prod.splits sum.splits)

lemma secrets_connect:
  assumes ok: "secrets_ok hash n" and h: "inj_on hash (insert token (fst ` nt_issued n))" and new: "credential \<notin> fst ` nt_issued n" and free: "nt_sockets n c = None"
    and r: "runner_connect hash c now (Hello i name token) credential (nt_hub n) = (hub, Welcome secret, Some g)"
  shows "secrets_ok hash (n\<lparr>nt_hub := hub, nt_sockets := (nt_sockets n)(c \<mapsto> (g, token)),
       nt_issued := insert (secret, rg_id g) (nt_issued n)\<rparr>)" (is "secrets_ok hash ?n")
  using r
proof (cases rule: runner_connectE)
  case token
  note t = secrets_okD(3) [OF ok token(1)]
  have cn: "credential \<notin> nt_tokens n" "credential \<noteq> token" using secrets_okD(2) [OF ok] new t by force+
  have ne: "s \<noteq> credential" if "(s, j) \<in> nt_issued n" for s j using new that by force
  show ?thesis
  proof (rule secrets_okI)
    show "single_valued (nt_issued ?n)"
      using secrets_okD(1) [OF ok] ne unfolding single_valued_def token(3) by auto
    show "nt_tokens ?n \<subseteq> fst ` nt_issued ?n" using secrets_okD(2) [OF ok] by auto
    show "(u, rg_id g') \<in> nt_issued ?n \<and> u \<in> nt_tokens ?n \<and> (\<forall>d g''. nt_sockets ?n d \<noteq> Some (g'', u))"
      if "hb_pending (nt_hub ?n) u = Some g'" for u g'
      using that secrets_okD(3) [OF ok, of u g'] by (auto simp: token(4) split: if_splits)
    show "\<exists>s. (s, j) \<in> nt_issued ?n \<and> k = hash s \<and> s \<notin> nt_tokens ?n" if "hb_credentials (nt_hub ?n) j = Some (k, b)" for j k b
    proof (cases "j = i")
      case True
      then show ?thesis using that cn(1) token(2,3) by (auto simp: token(5))
    next
      case False
      then show ?thesis using that secrets_okD(4) [OF ok, of j k b] by (auto simp: token(5))
    qed
    show "(u, rg_id g') \<in> nt_issued ?n" if "nt_sockets ?n d = Some (g', u)" for d g' u
      using that t secrets_okD(5) [OF ok, of d g' u] by (auto split: if_splits)
    show "d = d'" if "nt_sockets ?n d = Some (g', u)" "nt_sockets ?n d' = Some (g'', u)" "u \<in> nt_tokens ?n" for d d' g' g'' u
      using that t secrets_okD(6) [OF ok, of d g' u d' g''] by (auto split: if_splits)
  qed
next
  case credential
  obtain s where s: "(s, i) \<in> nt_issued n" "hash token = hash s" "s \<notin> nt_tokens n"
    using secrets_okD(4) [OF ok credential(2)] by blast
  then have "s \<in> fst ` nt_issued n" by force
  with s(2) have t: "s = token" using inj_onD [OF h, of token s] by simp
  show ?thesis
  proof (rule secrets_okI)
    show "single_valued (nt_issued ?n)" "nt_tokens ?n \<subseteq> fst ` nt_issued ?n"
      using secrets_okD(1,2) [OF ok] s(1) t credential(3,4) by (auto simp: insert_absorb)
    show "(u, rg_id g') \<in> nt_issued ?n \<and> u \<in> nt_tokens ?n \<and> (\<forall>d g''. nt_sockets ?n d \<noteq> Some (g'', u))"
      if "hb_pending (nt_hub ?n) u = Some g'" for u g'
      using that secrets_okD(3) [OF ok, of u g'] s(3) t by (auto simp: credential(5) split: if_splits)
    show "\<exists>s. (s, j) \<in> nt_issued ?n \<and> k = hash s \<and> s \<notin> nt_tokens ?n" if "hb_credentials (nt_hub ?n) j = Some (k, b)" for j k b
      using that secrets_okD(4) [OF ok, of j k b] by (auto simp: credential(6))
    show "(u, rg_id g') \<in> nt_issued ?n" if "nt_sockets ?n d = Some (g', u)" for d g' u
      using that s(1) t credential(3) secrets_okD(5) [OF ok, of d g' u] by (auto split: if_splits)
    show "d = d'" if "nt_sockets ?n d = Some (g', u)" "nt_sockets ?n d' = Some (g'', u)" "u \<in> nt_tokens ?n" for d d' g' g'' u
      using that s(3) t secrets_okD(6) [OF ok, of d g' u d' g''] by (auto split: if_splits)
  qed
qed

lemma connect_refused:
  assumes "runner_connect hash c now frame credential hub = (hub', e, None)"
  shows "hb_pending hub' \<subseteq>\<^sub>m hb_pending hub" "hb_credentials hub' = hb_credentials hub" "hb_pending_jobs hub' = hb_pending_jobs hub"
  using assms
  by (auto simp: runner_connect_def runner_identity_def Let_def upsert_runner_credential_hash_def map_le_def
      split: runner_frame.splits option.splits if_splits prod.splits sum.splits)

lemma message_hub:
  assumes "runner_message g frame hub = (hub', delivered)"
  shows "hb_pending hub' = hb_pending hub" "hb_credentials hub' = hb_credentials hub"
    "delivered = None \<Longrightarrow> hub' = hub"
    "delivered = Some (w, f) \<Longrightarrow> f = frame \<and> (\<exists>k. frame_result frame = Some (k, rg_id g) \<and> hb_pending_jobs hub k = Some w \<and>
       hb_pending_jobs hub' = (hb_pending_jobs hub)(k := None))"
  using assms by (auto simp: runner_message_def split: option.splits if_splits prod.splits)

lemma disconnect_hub:
  "hb_pending (runner_disconnect g at now hub) = hb_pending hub" "hb_credentials (runner_disconnect g at now hub) = hb_credentials hub"
  "hb_pending_jobs (runner_disconnect g at now hub) = hb_pending_jobs hub"
  by (simp_all add: runner_disconnect_def)

lemma open_check_hub:
  assumes "open_check env s enforce fresh job0 hub = (hub', Inr (job, durable))"
  shows "hub' = upsert_runner_job durable hub" "jv_id durable = rj_id job"
  using assms by (auto simp: open_check_def Let_def queued_job_def split: option.splits if_splits)

lemma open_install_hub:
  assumes "open_install env s manifests platform data auth i fresh request hub = (hub', Inr (job, durable))"
  shows "hub' = upsert_runner_job durable hub \<and> jv_id durable = ij_id job"
  using assms
  by (auto simp: open_install_def Let_def queued_job_def split: option.splits if_splits sum.splits prod.splits)

lemma send_job_hub:
  assumes "send_job now sent w frame durable hub = (hub', r)"
  shows "hb_pending hub' = hb_pending hub" "hb_credentials hub' = hb_credentials hub"
    "r = Inr x \<Longrightarrow> hb_pending_jobs hub' = (hb_pending_jobs hub)(jv_id durable \<mapsto> w)"
    "r = Inl e \<Longrightarrow> hb_pending_jobs hub' k = Some v \<Longrightarrow> hb_pending_jobs hub k = Some v"
  using assms by (auto simp: send_job_def split: option.splits if_splits)

lemma close_check_hub:
  assumes "close_check env cid between job durable outcome st hub = (hub', st', r)"
  shows "hb_pending hub' = hb_pending hub" "hb_credentials hub' = hb_credentials hub"
    "hb_pending_jobs hub' = (if outcome = None then (hb_pending_jobs hub)(rj_id job := None) else hb_pending_jobs hub)"
    "r = Inr (result, check) \<Longrightarrow> outcome = Some (Result result) \<and> rr_id result = rj_id job \<and>
       rr_runner_id result = rj_runner_id job \<and> check = check_of_result env job result"
  using assms by (auto simp: close_check_def Let_def split: option.splits runner_frame.splits if_splits sum.splits)

lemma close_install_hub:
  assumes "close_install env cid between job durable outcome st hub = (hub', st', r)"
  shows "hb_pending hub' = hb_pending hub" "hb_credentials hub' = hb_credentials hub"
    "hb_pending_jobs hub' = (case outcome of Some (InstallResult r) \<Rightarrow> hb_pending_jobs hub
       | _ \<Rightarrow> (hb_pending_jobs hub)(ij_id job := None))"
  using assms by (auto simp: close_install_def Let_def split: option.splits runner_frame.splits sum.splits)

section \<open>Every step keeps the invariant\<close>

definition net_ok :: "(string \<Rightarrow> string) \<Rightarrow> runner_net \<Rightarrow> bool" where
  "net_ok hash n \<longleftrightarrow> secrets_ok hash n \<and> jobs_ok n"

lemma net_ok_jobs:
  assumes "net_ok hash n" "nt_sockets n' = nt_sockets n" "nt_issued n' = nt_issued n" "nt_tokens n' = nt_tokens n"
    "hb_pending (nt_hub n') = hb_pending (nt_hub n)" "hb_credentials (nt_hub n') = hb_credentials (nt_hub n)" "jobs_ok n'"
  shows "net_ok hash n'"
  using assms secrets_frame [of hash n n'] by (simp add: net_ok_def)

lemma jobs_okD:
  assumes "jobs_ok n"
  shows "hb_pending_jobs (nt_hub n) k = Some w \<Longrightarrow> \<exists>work durable. nt_jobs n w = Some (Waiting work durable) \<and> work_id work = k"
    "nt_jobs n w = Some d \<Longrightarrow> dispatch_ok n d"
  using assms unfolding jobs_ok_def by blast+

text \<open>Nobody waits for a job that is not waiting.\<close>

lemma not_waiting:
  assumes "jobs_ok n" "\<And>work durable. nt_jobs n w \<noteq> Some (Waiting work durable)" "hb_pending_jobs (nt_hub n) k = Some v"
  shows "v \<noteq> w"
  using jobs_okD(1) [OF assms(1,3)] assms(2) by blast

lemma jobs_report:
  assumes ok: "jobs_ok n" and s: "nt_sockets n c = Some (g, secret)"
    and m: "runner_message g frame (nt_hub n) = (hub, delivered)"
  shows "jobs_ok (n\<lparr>nt_hub := hub, nt_jobs := report delivered c (nt_jobs n)\<rparr>)" (is "jobs_ok ?n")
proof (cases delivered)
  case None
  then show ?thesis using ok message_hub(3) [OF m] by (intro jobs_frame [OF ok]) (simp_all add: report_def)
next
  case (Some x)
  then obtain w f where "delivered = Some (w, f)" by (cases x) auto
  from message_hub(4) [OF m this] this obtain k where d: "delivered = Some (w, frame)" "frame_result frame = Some (k, rg_id g)"
    "hb_pending_jobs (nt_hub n) k = Some w" "hb_pending_jobs hub = (hb_pending_jobs (nt_hub n))(k := None)" by blast
  obtain work durable where w: "nt_jobs n w = Some (Waiting work durable)" "work_id work = k"
    using jobs_okD(1) [OF ok d(3)] by blast
  show ?thesis
  proof (rule jobs_change [OF ok, where w = w and d = "Some (Reported work durable frame c)"])
    show "nt_jobs ?n = (nt_jobs n)(w := Some (Reported work durable frame c))" using d(1) w(1) by (simp add: report_def)
    show "dispatch_ok ?n x" if "Some (Reported work durable frame c) = Some x" for x
      using that s d(2) w(2) by (auto simp: dispatch_ok_def)
    show "v \<noteq> w \<and> hb_pending_jobs (nt_hub n) j = Some v \<or> v = w \<and>
        (\<exists>work' durable'. Some (Reported work durable frame c) = Some (Waiting work' durable') \<and> work_id work' = j)"
      if p: "hb_pending_jobs (nt_hub ?n) j = Some v" for j v
    proof -
      have "j \<noteq> k" "hb_pending_jobs (nt_hub n) j = Some v" using p by (auto simp: d(4) split: if_splits)
      then show ?thesis using jobs_okD(1) [OF ok, of j v] w by auto
    qed
  qed simp
qed

lemma jobs_end:
  assumes ok: "jobs_ok n" and hub: "\<And>k v. hb_pending_jobs hub k = Some v \<Longrightarrow> hb_pending_jobs (nt_hub n) k = Some v \<and> v \<noteq> w"
    and d: "\<And>x. d = Some x \<Longrightarrow> dispatch_ok n x"
  shows "jobs_ok (n\<lparr>nt_hub := hub, nt_jobs := (nt_jobs n)(w := d)\<rparr>)" (is "jobs_ok ?n")
proof (rule jobs_change [OF ok])
  show "nt_jobs ?n = (nt_jobs n)(w := d)" by simp
  show "dispatch_ok ?n x" if "d = Some x" for x using d [OF that] by (rule dispatch_ok_sockets [rotated]) simp
qed (use hub in auto)

lemma timeout_waiter:
  assumes ok: "jobs_ok n" and w: "nt_jobs n w = Some (Waiting work durable)"
    and "((hb_pending_jobs (nt_hub n))(work_id work := None)) k = Some v"
  shows "hb_pending_jobs (nt_hub n) k = Some v \<and> v \<noteq> w"
proof -
  have "k \<noteq> work_id work" "hb_pending_jobs (nt_hub n) k = Some v" using assms(3) by (auto split: if_splits)
  then show ?thesis using jobs_okD(1) [OF ok, of k v] w by auto
qed

lemma net_ok_job:
  assumes n: "net_ok hash n" and hub: "hb_pending hub = hb_pending (nt_hub n)" "hb_credentials hub = hb_credentials (nt_hub n)"
    and "\<And>k v. hb_pending_jobs hub k = Some v \<Longrightarrow> hb_pending_jobs (nt_hub n) k = Some v \<and> v \<noteq> w"
    and "\<And>x. d = Some x \<Longrightarrow> dispatch_ok n x"
  shows "net_ok hash (n\<lparr>nt_hub := hub, nt_jobs := (nt_jobs n)(w := d)\<rparr>)"
proof -
  have "jobs_ok (n\<lparr>nt_hub := hub, nt_jobs := (nt_jobs n)(w := d)\<rparr>)" using n assms(4,5) by (intro jobs_end) (simp_all add: net_ok_def)
  then show ?thesis by (intro net_ok_jobs [OF n]) (simp_all add: hub)
qed

lemma net_ok_sub:
  assumes "net_ok hash n"
  shows "secrets_ok hash n" "jobs_ok n"
  using assms by (simp_all add: net_ok_def)

lemma secrets_mono: "net_step hash n n' \<Longrightarrow> secrets n \<subseteq> secrets n'"
  by (induction rule: net_step.induct) (auto simp: secrets_def, metis option.distinct(1))

lemma net_step_ok:
  assumes "net_step hash n n'" "inj_on hash (secrets n')" "net_ok hash n"
  shows "net_ok hash n'"
  using assms
proof (induction rule: net_step.induct)
  case (net_pair token n auth name mappings i now hub reply)
  have "hb_pending_jobs hub = hb_pending_jobs (nt_hub n)"
    using net_pair.hyps(2) by (auto simp: pair_runner_def Let_def split: if_splits)
  then have "jobs_ok (n\<lparr>nt_hub := hub, nt_issued := insert (token, i) (nt_issued n), nt_tokens := insert token (nt_tokens n)\<rparr>)"
    by (intro jobs_frame [OF net_ok_sub(2) [OF net_pair.prems(2)]]) simp_all
  moreover have "secrets_ok hash n" using net_pair.prems(2) by (simp add: net_ok_def)
  ultimately show ?case unfolding net_ok_def by (intro conjI secrets_pair [OF _ net_pair.hyps])
next
  case (net_connect credential n c now i name token hub secret registration)
  have "hb_pending_jobs hub = hb_pending_jobs (nt_hub n)"
    using net_connect.hyps(3) by (rule runner_connectE)
  then have "jobs_ok (n\<lparr>nt_hub := hub, nt_sockets := (nt_sockets n)(c \<mapsto> (registration, token)),
      nt_issued := insert (secret, rg_id registration) (nt_issued n)\<rparr>)"
    using net_connect.hyps(2)
    by (intro jobs_frame [OF net_ok_sub(2) [OF net_connect.prems(2)]]) (auto simp: map_le_def dom_def)
  moreover have "secrets_ok hash n" using net_connect.prems(2) by (simp add: net_ok_def)
  moreover have "inj_on hash (insert token (fst ` nt_issued n))"
    by (rule inj_on_subset [OF net_connect.prems(1)]) (auto simp: secrets_def)
  ultimately show ?case unfolding net_ok_def by (intro conjI secrets_connect [OF _ _ net_connect.hyps])
next
  case (net_refuse c now frame credential n hub e)
  note h = connect_refused [OF net_refuse.hyps]
  have "secrets_ok hash (n\<lparr>nt_hub := hub\<rparr>)" using h
    by (intro secrets_frame [OF net_ok_sub(1) [OF net_refuse.prems(2)]]) simp_all
  moreover have "jobs_ok (n\<lparr>nt_hub := hub\<rparr>)" using h
    by (intro jobs_frame [OF net_ok_sub(2) [OF net_refuse.prems(2)]]) simp_all
  ultimately show ?case by (simp add: net_ok_def)
next
  case (net_message n c registration secret frame hub delivered)
  note h = message_hub(1,2) [OF net_message.hyps(2)]
  show ?case using net_message.prems(2) h jobs_report [OF _ net_message.hyps]
    by (intro net_ok_jobs [OF net_message.prems(2)]) (simp_all add: net_ok_def)
next
  case (net_disconnect n c registration secret connected_at now)
  have "jobs_ok (n\<lparr>nt_hub := runner_disconnect registration connected_at now (nt_hub n)\<rparr>)"
    by (intro jobs_frame [OF net_ok_sub(2) [OF net_disconnect.prems(2)]]) (simp_all add: disconnect_hub)
  then show ?case by (intro net_ok_jobs [OF net_disconnect.prems(2)]) (simp_all add: disconnect_hub)
next
  case (net_open_check n w env s enforce fresh job0 hub job durable)
  note h = open_check_hub [OF net_open_check.hyps(2)] and w = not_waiting [OF net_ok_sub(2) [OF net_open_check.prems(2)], of w]
  show ?case by (rule net_ok_job [OF net_open_check.prems(2)]) (use h w net_open_check.hyps(1) in \<open>auto simp: dispatch_ok_def work_id_def\<close>)
next
  case (net_open_install n w env s manifests platform data auth i fresh request hub ijob durable)
  note h = open_install_hub [OF net_open_install.hyps(2)] and w = not_waiting [OF net_ok_sub(2) [OF net_open_install.prems(2)], of w]
  show ?case by (rule net_ok_job [OF net_open_install.prems(2)]) (use h w net_open_install.hyps(1) in \<open>auto simp: dispatch_ok_def work_id_def\<close>)
next
  case (net_send n w work durable now sent hub sent_to)
  note h = send_job_hub [OF net_send.hyps(2)]
  have ok: "jobs_ok n" using net_send.prems(2) by (simp add: net_ok_def)
  then have i: "jv_id durable = work_id work" using jobs_okD(2) [OF ok net_send.hyps(1)] by (simp add: dispatch_ok_def)
  have "jobs_ok (n\<lparr>nt_hub := hub, nt_jobs := (nt_jobs n)(w := Some (Waiting work durable))\<rparr>)"
    using not_waiting [OF ok, of w] net_send.hyps(1) i h(3)
    by (intro jobs_change [OF ok]) (auto simp: dispatch_ok_def split: if_splits)
  then show ?case by (intro net_ok_jobs [OF net_send.prems(2)]) (simp_all add: h(1,2))
next
  case (net_unsent n w work durable now sent hub e)
  note h = send_job_hub [OF net_unsent.hyps(2)] and w = not_waiting [OF net_ok_sub(2) [OF net_unsent.prems(2)], of w]
  show ?case by (rule net_ok_job [OF net_unsent.prems(2)]) (use h(1,2) h(4) [OF refl] w net_unsent.hyps(1) in auto)
next
  case (net_check_timeout n w job durable env cid between st hub st' r)
  note h = close_check_hub [OF net_check_timeout.hyps(2)]
    and w = timeout_waiter [OF net_ok_sub(2) [OF net_check_timeout.prems(2)] net_check_timeout.hyps(1)]
  show ?case by (rule net_ok_job [OF net_check_timeout.prems(2)]) (use w in \<open>simp_all add: h(1-3) work_id_def\<close>)
next
  case (net_check_recorded n w job durable frame c env cid between st hub st' result check)
  note h = close_check_hub [OF net_check_recorded.hyps(2)] and w = not_waiting [OF net_ok_sub(2) [OF net_check_recorded.prems(2)], of w]
  have "dispatch_ok n (Reported (CheckWork job) durable frame c)"
    by (rule jobs_okD(2) [OF net_ok_sub(2) [OF net_check_recorded.prems(2)] net_check_recorded.hyps(1)])
  then have "dispatch_ok n (Checked job result check c)"
    using h(4) [OF refl] by (auto simp: dispatch_ok_def frame_result_def check_of_result_def work_id_def)
  then show ?case by (intro net_ok_job [OF net_check_recorded.prems(2)]) (use h(1-3) w net_check_recorded.hyps(1) in auto)
next
  case (net_check_failed n w job durable frame c env cid between st hub st' e)
  note h = close_check_hub [OF net_check_failed.hyps(2)] and w = not_waiting [OF net_ok_sub(2) [OF net_check_failed.prems(2)], of w]
  show ?case by (rule net_ok_job [OF net_check_failed.prems(2)]) (use h(1-3) w net_check_failed.hyps(1) in auto)
next
  case (net_install_timeout n w ijob durable env cid between st hub st' ir)
  note h = close_install_hub [OF net_install_timeout.hyps(2)]
    and w = timeout_waiter [OF net_ok_sub(2) [OF net_install_timeout.prems(2)] net_install_timeout.hyps(1)]
  show ?case by (rule net_ok_job [OF net_install_timeout.prems(2)]) (use w in \<open>simp_all add: h work_id_def\<close>)
next
  case (net_install_closed n w ijob durable frame c env cid between st hub st' ir)
  note h = close_install_hub [OF net_install_closed.hyps(2)] and w = not_waiting [OF net_ok_sub(2) [OF net_install_closed.prems(2)], of w]
  show ?case
    by (rule net_ok_job [OF net_install_closed.prems(2)])
      (use h w net_install_closed.hyps(1) in \<open>auto split: runner_frame.splits if_splits\<close>)
next
  case (net_restart n now)
  let ?n = "n\<lparr>nt_hub := hub_restart now (nt_hub n), nt_jobs := (\<lambda>w. case nt_jobs n w of
      Some (Checked job result check c) \<Rightarrow> Some (Checked job result check c) | _ \<Rightarrow> None)\<rparr>"
  have "secrets_ok hash ?n" 
    by (intro secrets_frame [OF net_ok_sub(1) [OF net_restart.prems(2)]])
      (auto simp: hub_restart_def mark_runner_jobs_interrupted_def map_le_def)
  moreover have "jobs_ok ?n" unfolding jobs_ok_def
    using net_restart.prems(2) jobs_okD(2) [of n] dispatch_ok_sockets [of n ?n]
    by (auto simp: net_ok_def hub_restart_def split: option.splits dispatch.splits)
  ultimately show ?case by (simp add: net_ok_def)
qed

interpretation running: invariant_system net_init "net_step hash" "\<lambda>n. inj_on hash (secrets n) \<longrightarrow> net_ok hash n" for hash
proof
  show "inj_on hash (secrets n) \<longrightarrow> net_ok hash n" if "net_init n" for n
    using that by (auto simp: net_init_def net_ok_def secrets_ok_def jobs_ok_def hub_empty_def)
  show "inj_on hash (secrets n') \<longrightarrow> net_ok hash n'" if "inj_on hash (secrets n) \<longrightarrow> net_ok hash n" "net_step hash n n'" for n n'
    using that net_step_ok inj_on_subset [OF _ secrets_mono [OF that(2)]] by blast
qed

end
