(* ===== verification/HostRunner.thy ===== *)
theory HostRunner
  imports RunnerHub
begin

text \<open>
  The runner on the host (\<open>frank-runner/src/lib.rs\<close>): its configuration, the mapping of a daemon path to
  a host path, the choice of what it executes, the redaction of what a check printed, and one connection to the
  daemon with the loop around it. The process itself, downloads and files are arguments: what the child exited
  with and printed, and what an installation did. File system queries go through \<open>env\<close>.
\<close>

datatype runner_error =
    PathDenied | MissingPath "component list" | RunnerProtocol string | RunnerInstall string | RunnerProcess string | RunnerIo

record runner_config =
  rc_runner_id :: runner_id
  rc_name :: string
  rc_daemon_url :: string
  rc_one_time_token :: string
  rc_runner_credential :: "string option"
  rc_mappings :: "runner_path_mapping list"
  rc_install_root :: "string option"
  rc_allowed_checks :: "toolchain_check list"

section \<open>Configuration\<close>

definition validate_mapping :: "runner_path_mapping \<Rightarrow> runner_error option" where
  "validate_mapping mapping =
     (let daemon = components (rm_daemon_root mapping); host = components (rm_host_root mapping) in
      if \<not> path_is_absolute (rm_daemon_root mapping) \<or> \<not> path_is_absolute (rm_host_root mapping)
      then Some (RunnerProtocol ''runner mappings must use absolute paths'')
      else if ParentDir \<in> set daemon \<or> ParentDir \<in> set host then Some PathDenied
      else None)"

definition runner_validate_check :: "toolchain_check \<Rightarrow> runner_error option" where
  "runner_validate_check check =
     (if blank (tc_id check) \<or> blank (tc_program check) \<or> CHR ''/'' \<in> set (tc_program check)
         \<or> char_of (92 :: nat) \<in> set (tc_program check) \<or> contains_nul (tc_program check)
         \<or> tc_timeout_seconds check = 0 \<or> 86400 < tc_timeout_seconds check
         \<or> any contains_nul (tc_args check) \<or> any bad_environment_entry (tc_environment check)
         \<or> is_forbidden_program (tc_program check)
      then Some (RunnerProtocol (''invalid check specification '' @ [CHR 0x27] @ tc_id check @ [CHR 0x27]))
      else None)"

definition host_runner_new :: "runner_config \<Rightarrow> runner_error + runner_config" where
  "host_runner_new config =
     (if blank (rc_one_time_token config) \<and> (case rc_runner_credential config of None \<Rightarrow> True | Some c \<Rightarrow> c = [])
      then Inl (RunnerProtocol ''runner token is empty'')
      else if rc_mappings config = []
      then Inl (RunnerProtocol ''at least one daemon-to-host path mapping is required'')
      else case find_map validate_mapping (rc_mappings config) of
        Some e \<Rightarrow> Inl e
      | None \<Rightarrow>
          (case find_map runner_validate_check (rc_allowed_checks config) of
             Some e \<Rightarrow> Inl e
           | None \<Rightarrow> Inr config))"

section \<open>Paths\<close>

definition normalize_absolute :: "string \<Rightarrow> runner_error + component list" where
  "normalize_absolute path =
     (if \<not> path_is_absolute path \<or> ParentDir \<in> set (components path) then Inl PathDenied
      else Inr (RootDir # filter (\<lambda>c. case c of Normal _ \<Rightarrow> True | _ \<Rightarrow> False) (components path)))"

definition canonicalize_existing :: "env \<Rightarrow> component list \<Rightarrow> runner_error + component list" where
  "canonicalize_existing env path =
     (if \<not> e_exists env path then Inl (MissingPath path)
      else case e_canonicalize env path of None \<Rightarrow> Inl RunnerIo | Some p \<Rightarrow> Inr p)"

fun map_worktree_loop ::
    "env \<Rightarrow> component list \<Rightarrow> project_id option \<Rightarrow> runner_path_mapping list \<Rightarrow> runner_error + component list" where
  "map_worktree_loop env daemon_path project_id [] = Inl PathDenied"
| "map_worktree_loop env daemon_path project_id (mapping # mappings) =
     (if rm_project_id mapping \<noteq> None \<and> rm_project_id mapping \<noteq> project_id
      then map_worktree_loop env daemon_path project_id mappings
      else case normalize_absolute (rm_daemon_root mapping) of
        Inl e \<Rightarrow> Inl e
      | Inr daemon_root \<Rightarrow>
          if \<not> path_starts_with daemon_path daemon_root
          then map_worktree_loop env daemon_path project_id mappings
          else (case canonicalize_existing env (components (rm_host_root mapping)) of
             Inl e \<Rightarrow> Inl e
           | Inr host_root \<Rightarrow>
               (case canonicalize_existing env (host_root @ drop (length daemon_root) daemon_path) of
                  Inl e \<Rightarrow> Inl e
                | Inr candidate \<Rightarrow>
                    if \<not> path_starts_with candidate host_root then Inl PathDenied
                    else if \<not> e_is_dir env candidate then Inl (MissingPath candidate)
                    else Inr candidate)))"

definition map_worktree_for_project :: "env \<Rightarrow> runner_config \<Rightarrow> string \<Rightarrow> project_id option \<Rightarrow> runner_error + component list" where
  "map_worktree_for_project env config daemon_path project_id =
     (case normalize_absolute daemon_path of
        Inl e \<Rightarrow> Inl e
      | Inr path \<Rightarrow> map_worktree_loop env path project_id (rc_mappings config))"

section \<open>Checks\<close>

text \<open>\<open>local cwd\<close> is the directory \<open>.frank/toolchains\<close> below a worktree, \<open>from_toml\<close> the parser.\<close>

definition check_allowed_for_worktree ::
    "(string \<Rightarrow> toolchain_manifest option) \<Rightarrow> (component list \<Rightarrow> manifest_directory) \<Rightarrow> runner_config \<Rightarrow> toolchain_check
       \<Rightarrow> component list \<Rightarrow> bool" where
  "check_allowed_for_worktree from_toml local config check cwd \<longleftrightarrow>
     check \<in> set (rc_allowed_checks config) \<or>
     (case local cwd of
        ManifestEntries entries \<Rightarrow>
          (case load_local_manifests from_toml (local cwd) of
             Inl _ \<Rightarrow> False
           | Inr manifests \<Rightarrow> check \<in> set (concat (map tm_checks manifests)))
      | _ \<Rightarrow> False)"

text \<open>What \<open>run_check\<close> starts: the check and its working directory.\<close>

definition prepare_check ::
    "env \<Rightarrow> (string \<Rightarrow> toolchain_manifest option) \<Rightarrow> (component list \<Rightarrow> manifest_directory) \<Rightarrow> runner_config \<Rightarrow> runner_job
       \<Rightarrow> runner_error + toolchain_check \<times> component list" where
  "prepare_check env from_toml local config job =
     (if rj_runner_id job \<noteq> rc_runner_id config then Inl (RunnerProtocol ''job is for another runner'')
      else case map_worktree_for_project env config (rj_daemon_worktree job) (Some (rj_project_id job)) of
        Inl e \<Rightarrow> Inl e
      | Inr cwd \<Rightarrow>
          if \<not> check_allowed_for_worktree from_toml local config (rj_check job) cwd
          then Inl (RunnerProtocol (''check '' @ [CHR 0x27] @ tc_id (rj_check job) @ [CHR 0x27] @ '' is not allowed by this runner''))
          else Inr (rj_check job, cwd))"

text \<open>A process as it is started: the environment is cleared but for these entries and the \<open>PATH\<close> of the runner; the
  time limit kills it.\<close>

record process =
  pr_program :: string
  pr_args :: "string list"
  pr_cwd :: "component list"
  pr_environment :: "(string \<times> string) list"
  pr_timeout_seconds :: "u64 option"

definition check_process :: "toolchain_check \<Rightarrow> component list \<Rightarrow> process" where
  "check_process check cwd =
     \<lparr>pr_program = tc_program check, pr_args = tc_args check, pr_cwd = cwd, pr_environment = tc_environment check,
      pr_timeout_seconds = Some (tc_timeout_seconds check)\<rparr>"

subsection \<open>Output\<close>

definition MAX_OUTPUT_BYTES :: nat where "MAX_OUTPUT_BYTES = 1048576"

definition TRUNCATION_MARKER :: string where
  "TRUNCATION_MARKER = char_of (10 :: nat) # ''[output truncated by frank-runner]''"

text \<open>The chunks a reader returned until its end, kept up to the limit. The conversion of the bytes to UTF-8 is the
  caller's.\<close>

fun read_chunks :: "nat \<Rightarrow> string \<Rightarrow> bool \<Rightarrow> string list \<Rightarrow> string \<times> bool" where
  "read_chunks limit out truncated [] = (out, truncated)"
| "read_chunks limit out truncated (chunk # chunks) =
     (let remaining = limit - length out in
      if remaining < length chunk then read_chunks limit (out @ take remaining chunk) True chunks
      else read_chunks limit (out @ chunk) truncated chunks)"

definition read_output :: "(string \<Rightarrow> string) \<Rightarrow> string list \<Rightarrow> string" where
  "read_output from_utf8_lossy chunks =
     (case read_chunks (MAX_OUTPUT_BYTES - length TRUNCATION_MARKER) [] False chunks of
        (out, truncated) \<Rightarrow> from_utf8_lossy out @ (if truncated then TRUNCATION_MARKER else []))"

fun until_whitespace :: "string \<Rightarrow> nat" where
  "until_whitespace [] = 0"
| "until_whitespace (c # cs) = (if ws_len (map of_char (c # cs)) \<noteq> 0 then 0 else Suc (until_whitespace cs))"

fun find_str :: "string \<Rightarrow> string \<Rightarrow> nat option" where
  "find_str p [] = (if p = [] then Some 0 else None)"
| "find_str p (c # cs) = (if starts_with (c # cs) p then Some 0 else map_option Suc (find_str p cs))"

lemma find_str_Some:
  "find_str p s = Some i \<Longrightarrow> i \<le> length s \<and> starts_with (drop i s) p"
  by (induction s arbitrary: i) (auto split: if_splits)

lemma starts_withE: "starts_with s p \<Longrightarrow> \<exists>t. s = p @ t"
  by (induction s p rule: starts_with.induct) auto

lemma find_str_split: "find_str p s = Some i \<Longrightarrow> s = take i s @ p @ drop (i + length p) s"
proof -
  assume "find_str p s = Some i"
  then obtain t where t: "drop i s = p @ t" using find_str_Some starts_withE by metis
  then have "drop (i + length p) s = t" by (metis add.commute append_eq_conv_conj drop_drop)
  with t show ?thesis by (metis append_take_drop_id)
qed

lemma find_str_fits: "find_str p s = Some i \<Longrightarrow> i + length p \<le> length s"
proof -
  assume f: "find_str p s = Some i"
  have "length s = length (take i s) + length p + length (drop (i + length p) s)"
    by (subst (1) find_str_split [OF f]) (simp only: length_append add.assoc)
  then show ?thesis using find_str_Some [OF f] by simp
qed

definition REDACTED :: string where "REDACTED = ''[redacted]''"

text \<open>The loops over \<open>Bearer\<close> and the keys: the search goes on after each replaced value.\<close>

function redact_values :: "string \<Rightarrow> string \<Rightarrow> string" where
  "redact_values key s =
     (case (if key = [] then None else find_str key s) of
        None \<Rightarrow> s
      | Some i \<Rightarrow>
          (let start = i + length key; rest = drop start s in
           take start s @ REDACTED @ redact_values key (drop (until_whitespace rest) rest)))"
  by pat_completeness auto
termination
proof (relation "measure (\<lambda>(key, s). length s)", simp, goal_cases)
  case (1 key s i start rest)
  then have k: "key \<noteq> []" "find_str key s = Some i" by (auto split: if_splits)
  then have "i + length key \<le> length s" by (intro find_str_fits)
  moreover have "0 < length key" using k(1) by simp
  ultimately have "length (drop (i + length key) s) < length s" by (simp only: length_drop)
  moreover have "length (drop (until_whitespace rest) rest) \<le> length (drop (i + length key) s)" by (simp only: 1 length_drop)
  ultimately show ?case by simp
qed

text \<open>The loops over \<open>sk-\<close> and \<open>rk-\<close>: the search starts again at the beginning.\<close>

datatype api_key = Sk | Rk

definition api_prefix :: "api_key \<Rightarrow> string" where
  "api_prefix k = (case k of Sk \<Rightarrow> ''sk-'' | Rk \<Rightarrow> ''rk-'')"

lemma ws_len_ascii: "32 < a \<Longrightarrow> a < 128 \<Longrightarrow> ws_len (a # as) = 0"
  by (auto split: list.split)

lemma until_whitespace_prefix: "until_whitespace (api_prefix k @ t) = 3 + until_whitespace t"
  by (cases k) (simp_all add: api_prefix_def ws_len_ascii del: ws_len.simps)

definition dashes :: "string \<Rightarrow> nat" where
  "dashes s = length (filter (\<lambda>c. c = CHR ''-'') s)"

lemma redact_step_dashes:
  assumes "find_str (api_prefix k) s = Some i"
  shows "dashes (take i s @ REDACTED @ drop (i + until_whitespace (drop i s)) s) < dashes s"
proof -
  let ?t = "drop (i + length (api_prefix k)) s"
  have s: "s = take i s @ api_prefix k @ ?t" by (rule find_str_split [OF assms])
  then have d: "drop i s = api_prefix k @ ?t" by (metis append_eq_conv_conj append_take_drop_id same_append_eq)
  have "length (api_prefix k) = 3" by (cases k) (simp_all add: api_prefix_def)
  then have r: "drop (i + until_whitespace (drop i s)) s = drop (until_whitespace ?t) ?t"
    unfolding d until_whitespace_prefix drop_drop by (simp only: add.assoc add.commute add.left_commute)
  have le: "dashes (drop (until_whitespace ?t) ?t) \<le> dashes ?t"
    by (metis append_take_drop_id dashes_def filter_append le_add2 length_append)
  have "dashes s = dashes (take i s) + (dashes (api_prefix k) + dashes ?t)"
    by (subst s) (simp only: dashes_def filter_append length_append)
  also have "dashes (api_prefix k) = 1" by (cases k) (simp_all add: dashes_def api_prefix_def)
  finally have c: "dashes s = dashes (take i s) + (1 + dashes ?t)" .
  have "dashes REDACTED = 0" by (simp add: dashes_def REDACTED_def)
  then have "dashes (take i s @ REDACTED @ drop (until_whitespace ?t) ?t) = dashes (take i s) + dashes (drop (until_whitespace ?t) ?t)"
    by (simp only: dashes_def filter_append length_append add_0)
  with le c show ?thesis unfolding r by linarith
qed

function redact_key :: "api_key \<Rightarrow> string \<Rightarrow> string" where
  "redact_key k s =
     (case find_str (api_prefix k) s of
        None \<Rightarrow> s
      | Some i \<Rightarrow> redact_key k (take i s @ REDACTED @ drop (i + until_whitespace (drop i s)) s))"
  by pat_completeness auto
termination
  by (relation "measure (\<lambda>(k, s). dashes s)") (simp_all only: in_measure prod.case redact_step_dashes wf_measure)

declare redact_values.simps [simp del] redact_key.simps [simp del]

definition sanitize_runner_output :: "string \<Rightarrow> string" where
  "sanitize_runner_output value =
     concat (take MAX_OUTPUT_BYTES (chars
       (fold redact_values [''api_key='', ''apikey='', ''token='', ''secret='', ''password='']
         (redact_key Rk (redact_key Sk (redact_values ''Bearer '' value))))))"

text \<open>The result of a check whose process exited (\<open>Some\<close> success and exit code) or ran into its time limit.\<close>

definition check_result ::
    "runner_config \<Rightarrow> runner_job \<Rightarrow> (bool \<times> 32 word option) option \<Rightarrow> string \<Rightarrow> string \<Rightarrow> u64 \<Rightarrow> runner_job_result" where
  "check_result config job outcome out err duration_ms =
     (let common = \<lparr>rr_id = rj_id job, rr_runner_id = rc_runner_id config, rr_status = check_run_status.TimedOut,
            rr_exit_code = None, rr_stdout = sanitize_runner_output out, rr_stderr = ''check timed out'',
            rr_duration_ms = duration_ms\<rparr> in
      case outcome of
        None \<Rightarrow> common
      | Some (success, code) \<Rightarrow> common\<lparr>rr_status := (if success then check_run_status.Passed else check_run_status.Failed),
          rr_exit_code := code, rr_stderr := sanitize_runner_output err\<rparr>)"

section \<open>Installations\<close>

definition safe_relative_install_path :: "string \<Rightarrow> bool" where
  "safe_relative_install_path path \<longleftrightarrow>
     \<not> blank path \<and> \<not> path_is_absolute path \<and> \<not> contains_nul path \<and> ParentDir \<notin> set (components path)"

text \<open>What \<open>install_job\<close> installs: below the install root for a download, the program itself for a host tool.
  \<open>root\<close> is the canonical install root (\<open>canonicalize_or_create_directory\<close>).\<close>

definition prepare_install ::
    "env \<Rightarrow> runner_config \<Rightarrow> (string \<Rightarrow> runner_error + string) \<Rightarrow> runner_install_job \<Rightarrow> runner_error + component list \<times> string" where
  "prepare_install env config root job =
     (if ij_runner_id job \<noteq> rc_runner_id config then Inl (RunnerProtocol ''install job is for another runner'')
      else if blank (ij_manifest_id job) \<or> blank (ij_version job) \<or> blank (ij_daemon_worktree job)
              \<or> \<not> safe_relative_install_path (ij_install_relative_path job)
      then Inl PathDenied
      else case map_worktree_for_project env config (ij_daemon_worktree job) (Some (ij_project_id job)) of
        Inl e \<Rightarrow> Inl e
      | Inr worktree \<Rightarrow>
          (case rc_install_root config of
             None \<Rightarrow> Inl (RunnerInstall ''runner has no install root'')
           | Some install_root \<Rightarrow>
               (case root install_root of
                  Inl e \<Rightarrow> Inl e
                | Inr r \<Rightarrow> Inr (worktree, path_join r (ij_install_relative_path job)))))"

text \<open>The acceptance of a download: the chunks are counted and hashed while they are written to a part file.\<close>

fun download_chunks :: "u64 \<Rightarrow> u64 \<Rightarrow> string \<Rightarrow> string list \<Rightarrow> string + u64 \<times> string" where
  "download_chunks wanted received bytes [] = Inr (received, bytes)"
| "download_chunks wanted received bytes (chunk # chunks) =
     (let received = saturating_add received (word_of_nat (length chunk)) in
      if wanted < received then Inl ''toolchain response exceeds the manifest size''
      else download_chunks wanted received (bytes @ chunk) chunks)"

definition accept_download :: "(string \<Rightarrow> string) \<Rightarrow> toolchain_artifact \<Rightarrow> string list \<Rightarrow> string + string" where
  "accept_download sha256 artifact chunks =
     (case download_chunks (ta_size_bytes artifact) 0 [] chunks of
        Inl e \<Rightarrow> Inl e
      | Inr (received, bytes) \<Rightarrow>
          if received \<noteq> ta_size_bytes artifact \<or> \<not> eq_ignore_ascii_case (sha256 bytes) (ta_sha256 artifact)
          then Inl ''downloaded toolchain artifact failed size or checksum verification''
          else Inr bytes)"

text \<open>A download to a destination that does not exist yet, from the response of the server: its length, if it says one, and its
  chunks. The part file, its renaming and errors of the file system are not modelled.\<close>

definition fetch_artifact ::
    "(string \<Rightarrow> string) \<Rightarrow> toolchain_artifact \<Rightarrow> string \<Rightarrow> u64 option \<times> string list \<Rightarrow> runner_error + string" where
  "fetch_artifact sha256 artifact url response =
     (case response of (content_length, chunks) \<Rightarrow>
        if \<not> starts_with url ''https://'' then Inl (RunnerInstall ''toolchain artifact URLs must use HTTPS'')
        else if (case content_length of None \<Rightarrow> False | Some len \<Rightarrow> len \<noteq> ta_size_bytes artifact)
        then Inl (RunnerInstall ''toolchain response size does not match the manifest'')
        else (case accept_download sha256 artifact chunks of Inl message \<Rightarrow> Inl (RunnerInstall message) | Inr bytes \<Rightarrow> Inr bytes))"

text \<open>A host tool is only started: \<open>output\<close> is whether it exited with success and what it printed, or why it did not start.\<close>

definition host_process :: "string \<Rightarrow> component list \<Rightarrow> process" where
  "host_process executable worktree =
     \<lparr>pr_program = executable, pr_args = [''--version''], pr_cwd = worktree, pr_environment = [], pr_timeout_seconds = None\<rparr>"

definition verify_host_executable :: "string \<Rightarrow> string option \<Rightarrow> string + bool \<times> string \<Rightarrow> runner_error + string" where
  "verify_host_executable executable expected_version output =
     (case output of
        Inl error \<Rightarrow> Inl (RunnerInstall (executable @ '': '' @ error))
      | Inr (success, version_output) \<Rightarrow>
          if \<not> success then Inl (RunnerInstall (''host executable '' @ [CHR 0x27] @ executable @ [CHR 0x27] @ '' is not usable''))
          else (case expected_version of
             Some expected \<Rightarrow>
               if expected \<noteq> [] \<and> hd expected \<in> set ''0123456789'' \<and> \<not> contains_str version_output expected
               then Inl (RunnerInstall (''host executable '' @ [CHR 0x27] @ executable @ [CHR 0x27]
                 @ '' did not report required version '' @ [CHR 0x27] @ expected @ [CHR 0x27]))
               else Inr executable
           | None \<Rightarrow> Inr executable))"

text \<open>\<open>run\<close> runs a process to its end, \<open>install\<close> is \<open>install_artifact\<close> for a download.\<close>

definition install_job ::
    "env \<Rightarrow> runner_config \<Rightarrow> (string \<Rightarrow> runner_error + string) \<Rightarrow> (process \<Rightarrow> string + bool \<times> string)
       \<Rightarrow> (toolchain_artifact \<Rightarrow> string \<Rightarrow> runner_error + string) \<Rightarrow> runner_install_job \<Rightarrow> runner_error + runner_install_result" where
  "install_job env config root run install job =
     (case prepare_install env config root job of
        Inl e \<Rightarrow> Inl e
      | Inr (worktree, destination) \<Rightarrow>
          (case (case ta_source (ij_artifact job) of
                   Host executable \<Rightarrow> verify_host_executable executable (Some (ij_version job)) (run (host_process executable worktree))
                 | Url _ \<Rightarrow> install (ij_artifact job) destination) of
             Inl e \<Rightarrow> Inl e
           | Inr path \<Rightarrow> Inr \<lparr>ir_id = ij_id job, ir_runner_id = rc_runner_id config, ir_status = toolchain_requirement_status.Ready,
               ir_installed_path = Some path, ir_diagnostic = None\<rparr>))"

text \<open>The process that a frame of the daemon makes the runner start, if any.\<close>

definition started ::
    "env \<Rightarrow> (string \<Rightarrow> toolchain_manifest option) \<Rightarrow> (component list \<Rightarrow> manifest_directory) \<Rightarrow> runner_config
       \<Rightarrow> (string \<Rightarrow> runner_error + string) \<Rightarrow> runner_frame \<Rightarrow> process option" where
  "started env from_toml local config root frame =
     (case frame of
        Run job \<Rightarrow> (case prepare_check env from_toml local config job of Inl _ \<Rightarrow> None | Inr (check, cwd) \<Rightarrow> Some (check_process check cwd))
      | Install job \<Rightarrow>
          (case prepare_install env config root job of
             Inl _ \<Rightarrow> None
           | Inr (worktree, destination) \<Rightarrow>
               (case ta_source (ij_artifact job) of Host executable \<Rightarrow> Some (host_process executable worktree) | Url _ \<Rightarrow> None))
      | _ \<Rightarrow> None)"

section \<open>The connection\<close>

datatype connection_end = Closed | Broken

text \<open>One connection: \<open>run_check\<close> and \<open>install\<close> answer a job, the frames are what the daemon sent until the end.
  The result is what was sent and what the caller learns: the credential of the last welcome, or an error.\<close>

fun serve_frames ::
    "(runner_job \<Rightarrow> runner_job_result) \<Rightarrow> (runner_install_job \<Rightarrow> runner_install_result) \<Rightarrow> connection_end \<Rightarrow> string option
       \<Rightarrow> runner_frame list \<Rightarrow> runner_frame list \<times> (runner_error + string option)" where
  "serve_frames run_check install fin credential [] =
     ([], if fin = Broken then Inl (RunnerProtocol ''connection failed'') else Inr credential)"
| "serve_frames run_check install fin credential (frame # frames) =
     (case frame of
        Welcome c \<Rightarrow> serve_frames run_check install fin (Some c) frames
      | Run job \<Rightarrow> (let (sent, r) = serve_frames run_check install fin credential frames in (Result (run_check job) # sent, r))
      | Install job \<Rightarrow> (let (sent, r) = serve_frames run_check install fin credential frames in (InstallResult (install job) # sent, r))
      | Error message \<Rightarrow> ([], Inl (RunnerProtocol message))
      | _ \<Rightarrow> serve_frames run_check install fin credential frames)"

definition serve_websocket_once ::
    "(runner_job \<Rightarrow> runner_job_result) \<Rightarrow> (runner_install_job \<Rightarrow> runner_install_result) \<Rightarrow> runner_config \<Rightarrow> string option
       \<Rightarrow> connection_end \<Rightarrow> runner_frame list \<Rightarrow> runner_frame list \<times> (runner_error + string option)" where
  "serve_websocket_once run_check install config credential fin frames =
     (let token = (case credential of Some c \<Rightarrow> c | None \<Rightarrow> rc_one_time_token config) in
      if blank token then ([], Inl (RunnerProtocol ''runner has neither a pairing token nor a durable credential''))
      else (let (sent, r) = serve_frames run_check install fin None frames in
            (Hello (rc_runner_id config) (rc_name config) token # sent, r)))"

text \<open>One round of \<open>serve_websocket_loop\<close>: the credential and the seconds of sleep for the next one.\<close>

definition next_round :: "runner_error + string option \<Rightarrow> string option \<times> nat \<Rightarrow> string option \<times> nat" where
  "next_round r state =
     (case state of (credential, backoff_seconds) \<Rightarrow>
        (let (credential', b) = (case r of
               Inr (Some c) \<Rightarrow> (Some c, 1)
             | Inr None \<Rightarrow> (credential, 1)
             | Inl _ \<Rightarrow> (credential, backoff_seconds)) in
         (credential', min (b * 2) 30)))"

section \<open>Redaction leaves no key\<close>

lemma starts_with_before: "x \<notin> set p \<Longrightarrow> starts_with (a @ x # b) p \<longleftrightarrow> starts_with a p"
proof (induction p arbitrary: a)
  case (Cons y p)
  then show ?case by (cases a) auto
qed simp

lemma contains_str_around: "x \<notin> set p \<Longrightarrow> p \<noteq> [] \<Longrightarrow> contains_str (a @ x # b) p \<longleftrightarrow> contains_str a p \<or> contains_str b p"
proof (induction a)
  case Nil
  then show ?case using starts_with_before [of x p "[]" b] by (cases p) auto
next
  case (Cons c a)
  then show ?case using starts_with_before [of x p "c # a" b] by simp
qed

lemma find_str_None: "find_str p s = None \<longleftrightarrow> \<not> contains_str s p"
  by (induction s) auto

lemma starts_with_take: "starts_with (take n s) p \<Longrightarrow> starts_with s p"
  by (induction s p arbitrary: n rule: starts_with.induct) (auto simp: take_Cons split: nat.splits)

lemma contains_str_take: "contains_str (take n s) p \<Longrightarrow> contains_str s p"
proof (induction s arbitrary: n)
  case (Cons c s)
  show ?case
  proof (cases n)
    case 0
    then show ?thesis using Cons.prems by simp
  next
    case (Suc m)
    then have "starts_with (take n (c # s)) p \<or> contains_str (take m s) p" using Cons.prems by simp
    then show ?thesis using starts_with_take [of n "c # s" p] Cons.IH [of m] by auto
  qed
qed simp

lemma contains_str_drop: "contains_str (drop n s) p \<Longrightarrow> contains_str s p"
proof (induction s arbitrary: n)
  case (Cons c s)
  then show ?case by (cases n) auto
qed simp

definition secret_mark :: "string \<Rightarrow> bool" where
  "secret_mark p \<longleftrightarrow> p = ''sk-'' \<or> p = ''rk-''"

lemma contains_redacted:
  assumes "secret_mark p"
  shows "contains_str (a @ REDACTED @ b) p \<longleftrightarrow> contains_str a p \<or> contains_str b p"
proof -
  have p: "CHR ''['' \<notin> set p" "CHR '']'' \<notin> set p" "p \<noteq> []" "\<not> contains_str ''redacted'' p"
    using assms by (auto simp: secret_mark_def)
  have "a @ REDACTED @ b = a @ CHR ''['' # (''redacted'' @ CHR '']'' # b)" by (simp add: REDACTED_def)
  then show ?thesis using p by (simp only: contains_str_around simp_thms)
qed

lemma redact_key_clean: "\<not> contains_str (redact_key k s) (api_prefix k)"
proof (induction k s rule: redact_key.induct)
  case (1 k s)
  show ?case
  proof (cases "find_str (api_prefix k) s")
    case None
    then show ?thesis using find_str_None [of "api_prefix k" s] by (subst redact_key.simps) simp
  next
    case (Some i)
    then show ?thesis using 1 by (subst redact_key.simps) simp
  qed
qed

lemma redact_key_keeps: "secret_mark p \<Longrightarrow> \<not> contains_str s p \<Longrightarrow> \<not> contains_str (redact_key k s) p"
proof (induction k s rule: redact_key.induct)
  case (1 k s)
  show ?case
  proof (cases "find_str (api_prefix k) s")
    case None
    then show ?thesis using 1(3) by (subst redact_key.simps) simp
  next
    case (Some i)
    have "\<not> contains_str (take i s @ REDACTED @ drop (i + until_whitespace (drop i s)) s) p"
      using 1(2,3) contains_redacted contains_str_take contains_str_drop by blast
    then show ?thesis using 1(1) [OF Some 1(2)] Some by (subst redact_key.simps) simp
  qed
qed

lemma redact_values_keeps: "secret_mark p \<Longrightarrow> \<not> contains_str s p \<Longrightarrow> \<not> contains_str (redact_values key s) p"
proof (induction key s rule: redact_values.induct)
  case (1 key s)
  show ?case
  proof (cases "if key = [] then None else find_str key s")
    case None
    then show ?thesis using 1(3) by (subst redact_values.simps) simp
  next
    case (Some i)
    let ?rest = "drop (i + length key) s"
    have "\<not> contains_str (drop (until_whitespace ?rest) ?rest) p" using 1(3) contains_str_drop by metis
    then have "\<not> contains_str (redact_values key (drop (until_whitespace ?rest) ?rest)) p"
      using 1(1) [OF Some refl refl 1(2)] by simp
    then have "\<not> contains_str (take (i + length key) s @ REDACTED @ redact_values key (drop (until_whitespace ?rest) ?rest)) p"
      using 1(2,3) contains_redacted contains_str_take by blast
    then show ?thesis by (subst redact_values.simps) (simp only: Some option.case Let_def simp_thms)
  qed
qed

lemma chars_concat: "concat (chars s) = s"
  by (induction s rule: chars.induct) simp_all

lemma chars_take: "\<exists>m. concat (take n (chars s)) = take m s"
proof -
  have "s = concat (take n (chars s)) @ concat (drop n (chars s))" by (metis append_take_drop_id chars_concat concat_append)
  then show ?thesis by (metis append_eq_conv_conj)
qed

lemma sanitized_clean: "\<not> contains_str (sanitize_runner_output v) ''sk-''" "\<not> contains_str (sanitize_runner_output v) ''rk-''"
proof -
  let ?b = "redact_values ''Bearer '' v"
  have m: "secret_mark ''sk-''" "secret_mark ''rk-''" by (simp_all add: secret_mark_def)
  have s: "\<not> contains_str (redact_key Rk (redact_key Sk ?b)) ''sk-''"
    using redact_key_keeps [OF m(1)] redact_key_clean [of Sk ?b] by (simp add: api_prefix_def)
  have r: "\<not> contains_str (redact_key Rk (redact_key Sk ?b)) ''rk-''"
    using redact_key_clean [of Rk "redact_key Sk ?b"] by (simp add: api_prefix_def)
  have k: "\<not> contains_str (fold redact_values keys t) p" if "secret_mark p" "\<not> contains_str t p" for keys t p
    using that(2) by (induction keys arbitrary: t) (simp_all add: redact_values_keeps [OF that(1)])
  show "\<not> contains_str (sanitize_runner_output v) ''sk-''" unfolding sanitize_runner_output_def
    using k [OF m(1) s] chars_take contains_str_take by metis
  show "\<not> contains_str (sanitize_runner_output v) ''rk-''" unfolding sanitize_runner_output_def
    using k [OF m(2) r] chars_take contains_str_take by metis
qed

section \<open>A streamed download\<close>

lemma saturating_add_small:
  assumes "unat (x :: u64) + n < 2 ^ 64"
  shows "unat (saturating_add x (word_of_nat n)) = unat x + n"
proof -
  have "unat (word_of_nat n :: u64) = n" using assms by (simp add: unat_of_nat)
  then show ?thesis using assms unat_saturating_add [of x "word_of_nat n"] by simp
qed

lemma download_chunks_result:
  assumes "unat received + length (concat chunks) < 2 ^ 64" "download_chunks wanted received bytes chunks = Inr (r, b)"
  shows "b = bytes @ concat chunks \<and> unat r = unat received + length (concat chunks)"
  using assms
proof (induction wanted received bytes chunks rule: download_chunks.induct)
  case (2 wanted received bytes chunk chunks)
  let ?n = "saturating_add received (word_of_nat (length chunk))"
  have u: "unat ?n = unat received + length chunk" using 2(2) by (intro saturating_add_small) simp
  have "download_chunks wanted ?n (bytes @ chunk) chunks = Inr (r, b)" "\<not> wanted < ?n"
    using 2(3) by (auto simp: Let_def split: if_splits)
  then show ?case using 2(1) [OF refl] 2(2) u by simp
qed simp

lemma download_chunks_enough:
  assumes "unat received + length (concat chunks) \<le> unat (wanted :: u64)"
  shows "\<exists>r b. download_chunks wanted received bytes chunks = Inr (r, b)"
  using assms
proof (induction wanted received bytes chunks rule: download_chunks.induct)
  case (2 wanted received bytes chunk chunks)
  let ?n = "saturating_add received (word_of_nat (length chunk))"
  have "unat wanted < 2 ^ 64" using unsigned_less [of wanted] by simp
  then have u: "unat ?n = unat received + length chunk" using 2(2) by (intro saturating_add_small) simp
  then have "\<not> wanted < ?n" using 2(2) by (simp add: word_less_nat_alt)
  then show ?case using 2(1) [OF refl] 2(2) u by (simp add: Let_def)
qed simp

end
