(* ===== verification/RunnerProperties.thy ===== *)
theory RunnerProperties
  imports RunnerNet HostRunner Installation
begin

text \<open>
  What holds of host runners on both sides: who can speak for a runner, what a runner executes and where, what its
  reports may contain, and when the daemon lets a toolchain be installed.
\<close>

section \<open>A small run\<close>

text \<open>One runner is paired, connects with its token, runs one check and reports it.\<close>

definition demo_mapping :: runner_path_mapping where
  "demo_mapping = \<lparr>rm_daemon_root = ''/repo'', rm_host_root = ''/host'', rm_project_id = None\<rparr>"

definition demo_tool_check :: toolchain_check where
  "demo_tool_check = \<lparr>tc_id = ''test'', tc_program = ''cargo'', tc_args = [''test''], tc_environment = [], tc_timeout_seconds = 60\<rparr>"

definition demo_runner_job :: runner_job where
  "demo_runner_job = \<lparr>rj_id = ''job'', rj_runner_id = RunnerId 1, rj_project_id = ProjectId 1001, rj_task_id = None,
     rj_daemon_worktree = ''/repo/tree'', rj_check = demo_tool_check\<rparr>"

definition demo_runner_result :: runner_job_result where
  "demo_runner_result = \<lparr>rr_id = ''job'', rr_runner_id = RunnerId 1, rr_status = check_run_status.Passed,
     rr_exit_code = Some 0, rr_stdout = ''ok'', rr_stderr = [], rr_duration_ms = 5\<rparr>"

definition demo_registration :: runner_registration where
  "demo_registration = \<lparr>rg_id = RunnerId 1, rg_name = ''Frank host runner'', rg_mappings = [demo_mapping]\<rparr>"

definition demo_durable :: runner_job_view where
  "demo_durable = queued_job ''1700000000000'' ''job'' (RunnerId 1) (ProjectId 1001) None ''test'' runner_job_kind.Check"

definition demo_store :: store where
  "demo_store = fresh_store (ServerId 1000) (OrganizationId 1003) 0"

text \<open>A hash with a finite range, as SHA-256 has; the two secrets of the run do not collide.\<close>

definition demo_hash :: "string \<Rightarrow> string" where
  "demo_hash s = take 1 s"

definition demo_paired :: "runner_hub \<times> (runner_id \<times> string \<times> runner_view) route_result" where
  "demo_paired = pair_runner (Some device_role.Owner) None [demo_mapping] (RunnerId 1, ''token'') ''1'' hub_empty"

definition demo_connected :: "runner_hub \<times> runner_frame \<times> runner_registration option" where
  "demo_connected = runner_connect demo_hash 0 ''2'' (Hello (RunnerId 1) ''host'' ''token'') ''credential'' (fst demo_paired)"

definition demo_opened :: "runner_hub \<times> (runner_job \<times> runner_job_view) route_result" where
  "demo_opened = open_check demo_env (snapshot_of demo_world) False ''fresh'' demo_runner_job (fst demo_connected)"

definition demo_sent :: "runner_hub \<times> (nat \<times> runner_frame) route_result" where
  "demo_sent = send_job ''3'' True 0 (Run demo_runner_job) demo_durable (fst demo_opened)"

definition demo_reported :: "runner_hub \<times> (nat \<times> runner_frame) option" where
  "demo_reported = runner_message demo_registration (Result demo_runner_result) (fst demo_sent)"

definition demo_closed :: "runner_hub \<times> store \<times> (runner_job_result \<times> check_run_view) route_result" where
  "demo_closed = close_check demo_env (CommandId 8) (\<lambda>st. st) demo_runner_job demo_durable (Some (Result demo_runner_result))
     demo_store (fst demo_reported)"

lemma demo_run_replies:
  "\<not> isl (snd demo_paired)" "snd demo_connected = (Welcome ''credential'', Some demo_registration)"
  "snd demo_opened = Inr (demo_runner_job, demo_durable)" "\<not> isl (snd demo_sent)"
  "snd demo_reported = Some (0, Result demo_runner_result)"
  by code_simp+

lemma demo_record:
  "\<exists>st'. record_check_run demo_env (CommandId 8) check (\<lambda>st. st) demo_store = Inr st'"
  by (simp add: record_check_run_def demo_store_def fresh_store_def commit_request_def check_artifact_bytes_def
      is_artifact_published_def Let_def split: sum.split)

lemma demo_close_reply:
  "snd (snd demo_closed) = Inr (demo_runner_result, check_of_result demo_env demo_runner_job demo_runner_result)"
proof -
  have "rr_id demo_runner_result = rj_id demo_runner_job" "rr_runner_id demo_runner_result = rj_runner_id demo_runner_job"
    by (simp_all add: demo_runner_result_def demo_runner_job_def)
  then show ?thesis using demo_record [of "check_of_result demo_env demo_runner_job demo_runner_result"]
    by (auto simp: demo_closed_def close_check_def Let_def)
qed

text \<open>The states of the run.\<close>

definition demo_net_paired :: runner_net where
  "demo_net_paired = \<lparr>nt_hub = fst demo_paired, nt_sockets = (\<lambda>_. None), nt_issued = {(''token'', RunnerId 1)},
     nt_tokens = {''token''}, nt_jobs = (\<lambda>_. None)\<rparr>"

definition demo_net_connected :: runner_net where
  "demo_net_connected = demo_net_paired\<lparr>nt_hub := fst demo_connected, nt_sockets := [0 \<mapsto> (demo_registration, ''token'')],
     nt_issued := {(''credential'', RunnerId 1), (''token'', RunnerId 1)}\<rparr>"

definition demo_net_checked :: runner_net where
  "demo_net_checked = demo_net_connected\<lparr>nt_hub := fst demo_closed, nt_jobs := [0 \<mapsto>
     Checked demo_runner_job demo_runner_result (check_of_result demo_env demo_runner_job demo_runner_result) 0]\<rparr>"

lemma demo_net_paired_reachable: "reachable net_init (net_step demo_hash) demo_net_paired"
proof -
  let ?n = "\<lparr>nt_hub = hub_empty, nt_sockets = (\<lambda>_. None), nt_issued = {}, nt_tokens = {}, nt_jobs = (\<lambda>_. None)\<rparr> :: runner_net"
  obtain r where "snd demo_paired = Inr r" using demo_run_replies(1) by (cases "snd demo_paired") auto
  then have "pair_runner (Some device_role.Owner) None [demo_mapping] (RunnerId 1, ''token'') ''1'' (nt_hub ?n) = (fst demo_paired, Inr r)"
    by (simp add: demo_paired_def prod_eq_iff)
  then have "net_step demo_hash ?n (?n\<lparr>nt_hub := fst demo_paired, nt_issued := insert (''token'', RunnerId 1) (nt_issued ?n),
      nt_tokens := insert ''token'' (nt_tokens ?n)\<rparr>)" by (rule net_pair [rotated]) simp
  then show ?thesis using reach_step [OF reach_init [of net_init ?n]] by (simp add: demo_net_paired_def net_init_def)
qed

lemma demo_net_connected_reachable: "reachable net_init (net_step demo_hash) demo_net_connected"
proof -
  have c: "runner_connect demo_hash 0 ''2'' (Hello (RunnerId 1) ''host'' ''token'') ''credential'' (nt_hub demo_net_paired)
      = (fst demo_connected, Welcome ''credential'', Some demo_registration)"
    using demo_run_replies(2) by (simp add: demo_connected_def demo_net_paired_def prod_eq_iff)
  have "net_step demo_hash demo_net_paired demo_net_connected"
    using net_connect [OF _ _ c] by (simp add: demo_net_connected_def demo_net_paired_def demo_registration_def)
  then show ?thesis by (rule reach_step [OF demo_net_paired_reachable])
qed

lemma demo_net_checked_reachable: "reachable net_init (net_step demo_hash) demo_net_checked"
proof -
  let ?at = "\<lambda>hub d. demo_net_connected\<lparr>nt_hub := hub, nt_jobs := [0 \<mapsto> d]\<rparr>" and ?step = "net_step demo_hash"
  let ?work = "CheckWork demo_runner_job" and ?frame = "Result demo_runner_result"
  have j: "nt_jobs demo_net_connected = (\<lambda>_. None)" "nt_hub demo_net_connected = fst demo_connected"
    "nt_sockets demo_net_connected 0 = Some (demo_registration, ''token'')"
    by (simp_all add: demo_net_connected_def demo_net_paired_def)
  obtain r where r: "snd demo_sent = Inr r" using demo_run_replies(4) by (cases "snd demo_sent") auto
  have "open_check demo_env (snapshot_of demo_world) False ''fresh'' demo_runner_job (nt_hub demo_net_connected)
      = (fst demo_opened, Inr (demo_runner_job, demo_durable))"
    using demo_run_replies(3) by (simp add: demo_opened_def j prod_eq_iff)
  from net_open_check [OF _ this, of 0] have 1: "?step demo_net_connected (?at (fst demo_opened) (Opened ?work demo_durable))"
    by (simp add: j)
  have "send_job ''3'' True 0 (work_frame ?work) demo_durable (nt_hub (?at (fst demo_opened) (Opened ?work demo_durable)))
      = (fst demo_sent, Inr r)" using r by (simp add: demo_sent_def work_frame_def prod_eq_iff)
  from net_send [OF _ this] have 2: "?step (?at (fst demo_opened) (Opened ?work demo_durable)) (?at (fst demo_sent) (Waiting ?work demo_durable))"
    by simp
  have "runner_message demo_registration ?frame (nt_hub (?at (fst demo_sent) (Waiting ?work demo_durable)))
      = (fst demo_reported, Some (0, ?frame))" using demo_run_replies(5) by (simp add: demo_reported_def prod_eq_iff)
  from net_message [OF _ this, of 0 "''token''"]
  have 3: "?step (?at (fst demo_sent) (Waiting ?work demo_durable)) (?at (fst demo_reported) (Reported ?work demo_durable ?frame 0))"
    by (simp add: j report_def)
  have "close_check demo_env (CommandId 8) (\<lambda>st. st) demo_runner_job demo_durable (Some ?frame) demo_store
      (nt_hub (?at (fst demo_reported) (Reported ?work demo_durable ?frame 0)))
      = (fst demo_closed, fst (snd demo_closed), Inr (demo_runner_result, check_of_result demo_env demo_runner_job demo_runner_result))"
    using demo_close_reply by (simp add: demo_closed_def prod_eq_iff)
  from net_check_recorded [OF _ this, of 0 0] have 4: "?step (?at (fst demo_reported) (Reported ?work demo_durable ?frame 0)) demo_net_checked"
    by (simp add: demo_net_checked_def)
  show ?thesis by (rule reach_step [OF reach_step [OF reach_step [OF reach_step [OF demo_net_connected_reachable 1] 2] 3] 4])
qed

lemma demo_no_collision: "inj_on demo_hash (secrets demo_net_connected)" "inj_on demo_hash (secrets demo_net_checked)"
proof -
  have "secrets demo_net_connected = {''token'', ''credential''}" "secrets demo_net_checked = {''token'', ''credential''}"
    by (auto simp: secrets_def demo_net_checked_def demo_net_connected_def demo_net_paired_def split: if_splits)
  then show "inj_on demo_hash (secrets demo_net_connected)" "inj_on demo_hash (secrets demo_net_checked)"
    by (simp_all add: demo_hash_def inj_on_def)
qed

section \<open>Who speaks for a runner\<close>

text \<open>
  C30: the outcome of a check comes from the runner it was sent to, as long as every drawn secret is new and no two of the
  secrets that were issued or used for a connection have the same hash. However pairings, connections, jobs, results,
  timeouts and restarts interleave, a check that the daemon records was reported through a socket opened with a
  secret the daemon had issued for that runner, names the job and the runner it was dispatched for, and is
  recorded for the project, task and check of the job.
\<close>

theorem check_result_authentic:
  assumes "reachable net_init (net_step hash) n" "inj_on hash (secrets n)" "nt_jobs n w = Some (Checked job result check c)"
  shows "\<exists>g secret. nt_sockets n c = Some (g, secret) \<and> rg_id g = rj_runner_id job \<and>
      (secret, rj_runner_id job) \<in> nt_issued n \<and> (\<forall>i. (secret, i) \<in> nt_issued n \<longrightarrow> i = rj_runner_id job) \<and>
    rr_id result = rj_id job \<and> rr_runner_id result = rj_runner_id job \<and>
    ck_runner_id check = rj_runner_id job \<and> ck_project_id check = rj_project_id job \<and> ck_task_id check = rj_task_id job \<and>
    ck_check_id check = tc_id (rj_check job) \<and> ck_status check = rr_status result"
proof -
  have ok: "net_ok hash n" using running.reachable_inv [OF assms(1)] assms(2) by blast
  have d: "dispatch_ok n (Checked job result check c)" by (rule jobs_okD(2) [OF net_ok_sub(2) [OF ok] assms(3)])
  then obtain g t where g: "nt_sockets n c = Some (g, t)" "rg_id g = rj_runner_id job" by (auto simp: dispatch_ok_def)
  have t: "(t, rj_runner_id job) \<in> nt_issued n" using secrets_okD(5) [OF net_ok_sub(1) [OF ok] g(1)] g(2) by simp
  then have "\<forall>i. (t, i) \<in> nt_issued n \<longrightarrow> i = rj_runner_id job"
    using secrets_okD(1) [OF net_ok_sub(1) [OF ok]] by (auto simp: single_valued_def)
  moreover have "rr_id result = rj_id job \<and> rr_runner_id result = rj_runner_id job \<and>
    ck_runner_id check = rj_runner_id job \<and> ck_project_id check = rj_project_id job \<and> ck_task_id check = rj_task_id job \<and>
    ck_check_id check = tc_id (rj_check job) \<and> ck_status check = rr_status result"
    using d by (simp add: dispatch_ok_def)
  ultimately show ?thesis using g t by blast
qed

theorem check_result_authentic_witness:
  "reachable net_init (net_step demo_hash) demo_net_checked \<and>
   (\<exists>g secret. nt_sockets demo_net_checked 0 = Some (g, secret) \<and> rg_id g = rj_runner_id demo_runner_job \<and>
     (secret, rj_runner_id demo_runner_job) \<in> nt_issued demo_net_checked)"
proof
  show r: "reachable net_init (net_step demo_hash) demo_net_checked" by (rule demo_net_checked_reachable)
  have "nt_jobs demo_net_checked 0 = Some (Checked demo_runner_job demo_runner_result
      (check_of_result demo_env demo_runner_job demo_runner_result) 0)" by (simp add: demo_net_checked_def)
  from check_result_authentic [OF r demo_no_collision(2) this]
  show "\<exists>g secret. nt_sockets demo_net_checked 0 = Some (g, secret) \<and> rg_id g = rj_runner_id demo_runner_job \<and>
     (secret, rj_runner_id demo_runner_job) \<in> nt_issued demo_net_checked" by blast
qed

text \<open>
  C33: a pairing token opens one socket, as long as every drawn secret is new and no two of the secrets that were issued or
  used for a connection have the same hash. Two sockets of a reachable daemon that were opened with the same
  one-time token are the same, and every socket belongs to the runner its secret was issued for.
\<close>

theorem pairing_token_single_use:
  assumes "reachable net_init (net_step hash) n" "inj_on hash (secrets n)" "nt_sockets n c = Some (g, secret)"
  shows "(secret, rg_id g) \<in> nt_issued n \<and>
    (secret \<in> nt_tokens n \<longrightarrow> (\<forall>c' g'. nt_sockets n c' = Some (g', secret) \<longrightarrow> c' = c) \<and> hb_pending (nt_hub n) secret = None)"
proof -
  have ok: "secrets_ok hash n" using running.reachable_inv [OF assms(1)] assms(2) by (simp add: net_ok_def)
  have "hb_pending (nt_hub n) secret = None"
    using secrets_okD(3) [OF ok, of secret] assms(3) by (cases "hb_pending (nt_hub n) secret") auto
  then show ?thesis using secrets_okD(5) [OF ok assms(3)] secrets_okD(6) [OF ok assms(3)] by blast
qed

theorem pairing_token_single_use_witness:
  "nt_sockets demo_net_connected 0 = Some (demo_registration, ''token'') \<and>
   (''token'', RunnerId 1) \<in> nt_issued demo_net_connected \<and> hb_pending (nt_hub demo_net_connected) ''token'' = None"
proof
  show s: "nt_sockets demo_net_connected 0 = Some (demo_registration, ''token'')" by (simp add: demo_net_connected_def)
  have "''token'' \<in> nt_tokens demo_net_connected" "rg_id demo_registration = RunnerId 1"
    by (simp_all add: demo_net_connected_def demo_net_paired_def demo_registration_def)
  then show "(''token'', RunnerId 1) \<in> nt_issued demo_net_connected \<and> hb_pending (nt_hub demo_net_connected) ''token'' = None"
    using pairing_token_single_use [OF demo_net_connected_reachable demo_no_collision(1) s] by metis
qed

section \<open>What a runner executes\<close>




















text \<open>
  the report of a finished or timed out check contains no text that starts like an API key
  (\<open>sk-\<close>, \<open>rk-\<close>), whatever the process printed.
\<close>

theorem reports_hide_keys:
  "\<not> contains_str (rr_stdout (check_result config job outcome out err ms)) ''sk-'' \<and>
   \<not> contains_str (rr_stdout (check_result config job outcome out err ms)) ''rk-'' \<and>
   \<not> contains_str (rr_stderr (check_result config job outcome out err ms)) ''sk-'' \<and>
   \<not> contains_str (rr_stderr (check_result config job outcome out err ms)) ''rk-''"
  using sanitized_clean by (auto simp: check_result_def Let_def split: option.split)

section \<open>Installations\<close>

text \<open>
  C34: a streamed download is accepted exactly when the whole response has the size and the checksum of the
  manifest, as \<open>verify_artifact\<close> checks them on the bytes in one piece, and what is installed are those bytes.
\<close>

theorem download_verified:
  assumes "length (concat chunks) < 2 ^ 64"
  shows "accept_download sha256 artifact chunks = Inr bytes \<longleftrightarrow>
    bytes = concat chunks \<and> verify_artifact sha256 (concat chunks) artifact = Inr ()"
proof -
  let ?n = "length (concat chunks)" and ?w = "ta_size_bytes artifact"
  have n: "unat (word_of_nat ?n :: u64) = ?n" using assms by (simp add: unat_of_nat)
  then have size: "word_of_nat ?n = ?w \<longleftrightarrow> ?n = unat ?w" by (metis word_unat_eq_iff)
  show ?thesis
  proof
    assume a: "accept_download sha256 artifact chunks = Inr bytes"
    then obtain r where d: "download_chunks ?w 0 [] chunks = Inr (r, bytes)" "r = ?w" "eq_ignore_ascii_case (sha256 bytes) (ta_sha256 artifact)"
      by (auto simp: accept_download_def split: sum.splits if_splits)
    have "bytes = concat chunks" "unat r = ?n" using download_chunks_result [OF _ d(1)] assms by simp_all
    then show "bytes = concat chunks \<and> verify_artifact sha256 (concat chunks) artifact = Inr ()"
      using d size by (simp add: verify_artifact_def)
  next
    assume a: "bytes = concat chunks \<and> verify_artifact sha256 (concat chunks) artifact = Inr ()"
    then have v: "?n = unat ?w" "eq_ignore_ascii_case (sha256 (concat chunks)) (ta_sha256 artifact)"
      using size by (auto simp: verify_artifact_def split: if_splits)
    obtain r b where d: "download_chunks ?w 0 [] chunks = Inr (r, b)" using download_chunks_enough [of 0 chunks ?w "[]"] v(1) by auto
    have "b = concat chunks" "unat r = ?n" using download_chunks_result [OF _ d] assms by simp_all
    then show "accept_download sha256 artifact chunks = Inr bytes"
      using d v a by (simp add: accept_download_def word_unat_eq_iff)
  qed
qed

definition demo_artifact :: toolchain_artifact where
  "demo_artifact = \<lparr>ta_platform = ''linux-x86_64'', ta_source = Url ''https://frank.dev/a'',
     ta_sha256 = ''6162'', ta_size_bytes = 3, ta_archive = None\<rparr>"

theorem download_verified_witness:
  "accept_download (\<lambda>_. ''6162'') demo_artifact [''ab'', ''c''] = Inr ''abc''"
proof -
  have "verify_artifact (\<lambda>_. ''6162'') ''abc'' demo_artifact = Inr ()"
    by (simp add: verify_artifact_def demo_artifact_def eq_ignore_ascii_case_def)
  then show ?thesis using download_verified [of "[''ab'', ''c'']" "\<lambda>_. ''6162''" demo_artifact "''abc''"] by simp
qed

section \<open>Expiry in two units\<close>

lemma parse_uint_wider: "parse_uint w s = Some m \<Longrightarrow> parse_uint (w + k) s = Some m"
  by (auto simp: parse_uint_def Let_def power_add split: option.splits if_splits intro: less_le_trans)

lemma parsed_exact:
  assumes "parse_uint w (show_nat n) = Some m"
  shows "m = n"
proof -
  have "n < 2 ^ (w + n)" using less_le_trans [OF less_exp [of n] power_increasing [of n "w + n" 2]] by simp
  then show ?thesis using parse_uint_wider [OF assms, of n] by (simp add: parse_uint_show_nat)
qed

lemma parsed_at_most: "parse_or_zero w (show_nat n) \<le> n"
  by (auto simp: parse_or_zero_def dest: parsed_exact split: option.split)

text \<open>
  C25: what an approval allows never reaches a host runner. An approval expires at a time in seconds, the routes of the
  runners compare that time with the clock in milliseconds: an installation that names the approval is refused, and
  so is a check of the task when its grants come from it, at any time after the request.
\<close>

theorem approval_expired_for_runners:
  assumes "reduce_request_approval env s spec actor = Inr (s1, ApprovalRequested approval, reply)"
    and "e_now env2 = show_nat ms" "ms < 2 ^ 128" "1000 * e_epoch_seconds env \<le> ms"
    and "unat (sv_approval_ttl_seconds (s_server s)) \<le> 999 * e_epoch_seconds env"
    and "find (\<lambda>a. av_id a = tr_approval_id request) (s_approvals s2) = Some a" "av_expires_at a = av_expires_at approval"
    and "\<forall>g \<in> set (s_task_grants s2). gv_task_id g = i \<longrightarrow> gv_expires_at g = av_expires_at approval"
  shows "(\<exists>e. open_install env2 s2 manifests platform data auth runner fresh request hub = (hub, Inl e)) \<and>
    \<not> task_grant_allows_check env2 s2 i worktree"
proof -
  have e: "av_expires_at approval = show_nat (now_plus_seconds env (sv_approval_ttl_seconds (s_server s)))"
    using assms(1) by (auto simp: reduce_request_approval_def Let_def split: if_splits option.splits)
  have now: "parse_or_zero 128 (e_now env2) = ms" using assms(2,3) by (simp add: parse_or_zero_def parse_uint_show_nat)
  have le: "now_plus_seconds env (sv_approval_ttl_seconds (s_server s)) \<le> ms" using assms(4,5) by (simp add: now_plus_seconds_def)
  have "parse_or_zero 128 (av_expires_at a) \<le> ms" using le_trans [OF parsed_at_most le] assms(7) e by simp
  then have na: "\<not> install_approved env2 s2 request task a" for task by (simp add: install_approved_def now)
  have "\<exists>e. open_install env2 s2 manifests platform data auth runner fresh request hub = (hub, Inl e)"
    unfolding open_install_def assms(6) by (simp add: na split: option.split)
  moreover have "gv_task_id g = i \<Longrightarrow> g \<in> set (s_task_grants s2) \<Longrightarrow> parse_uint 128 (gv_expires_at g) = Some x \<Longrightarrow> x \<le> ms" for g x
    using assms(8) parsed_exact [of 128 "now_plus_seconds env (sv_approval_ttl_seconds (s_server s))"] le e by auto
  then have "\<not> task_grant_allows_check env2 s2 i worktree"
    by (force simp: task_grant_allows_check_def now list_ex_iff Let_def not_less split: option.splits if_splits)
  ultimately show ?thesis by blast
qed


definition demo_install :: install_toolchain_request where
  "demo_install = \<lparr>tr_project_id = ProjectId 1001, tr_task_id = TaskId 1, tr_manifest_id = ''flutter'', tr_version = ''3'',
     tr_project_path = ''/repo'', tr_approval_id = ApprovalId 2\<rparr>"

definition demo_install_approval :: approval_spec where
  "demo_install_approval = \<lparr>aps_agent_id = AgentId 11, aps_task_id = TaskId 1, aps_operation = install_operation demo_install,
     aps_cwd = ''/repo'', aps_project = ''repo'', aps_reason = ''needed''\<rparr>"

text \<open>The approval is granted at once and used a minute later.\<close>

theorem approval_expired_for_runners_witness:
  "\<exists>s1 approval reply e. reduce_request_approval demo_env demo_world demo_install_approval demo_actor = Inr (s1, ApprovalRequested approval, reply) \<and>
     open_install (demo_env\<lparr>e_now := show_nat 1700000060000\<rparr>)
       (s1\<lparr>s_approvals := [approval\<lparr>av_id := ApprovalId 2, av_status := approval_status.Approved\<rparr>]\<rparr>)
       (\<lambda>_. None) ''linux-x86_64'' ''/data'' (Some device_role.Owner) (RunnerId 1) ''job'' demo_install (fst demo_connected)
     = (fst demo_connected, Inl e)"
proof -
  have "case reduce_request_approval demo_env demo_world demo_install_approval demo_actor of
      Inr (s1, ApprovalRequested approval, _) \<Rightarrow> s_task_grants s1 = [] | _ \<Rightarrow> False" by code_simp
  then obtain s1 approval reply where
    r: "reduce_request_approval demo_env demo_world demo_install_approval demo_actor = Inr (s1, ApprovalRequested approval, reply)"
      "s_task_grants s1 = []" by (auto split: sum.splits event.splits)
  let ?a = "approval\<lparr>av_id := ApprovalId 2, av_status := approval_status.Approved\<rparr>"
  have ttl: "unat (sv_approval_ttl_seconds (s_server demo_world)) \<le> 999 * e_epoch_seconds demo_env" by code_simp
  have f: "find (\<lambda>a. av_id a = tr_approval_id demo_install) (s_approvals (s1\<lparr>s_approvals := [?a]\<rparr>)) = Some ?a"
    by (simp add: demo_install_def)
  have now: "e_now (demo_env\<lparr>e_now := show_nat 1700000060000\<rparr>) = show_nat 1700000060000" by simp
  have ms: "(1700000060000 :: nat) < 2 ^ 128" "1000 * e_epoch_seconds demo_env \<le> 1700000060000" by (simp_all add: demo_env_def)
  show ?thesis
    using approval_expired_for_runners [OF r(1) now ms ttl f, of "TaskId 1" "\<lambda>_. None" "''linux-x86_64''" "''/data''"
        "Some device_role.Owner" "RunnerId 1" "''job''" "fst demo_connected" "''/repo''"] r by auto
qed

end
