(* ===== verification/ClientFeed.thy ===== *)
theory ClientFeed
  imports EventFeed "HOL-Library.Sublist"
begin

text \<open>
  The feed from end to end: the event socket of the daemon (\<open>event_socket\<close> of
  \<open>frank-server/src/routes/events.rs\<close>), the frames on their way, and the connection actor of the client
  (\<open>frank-client/src/events.rs\<close>) with the bounded queue its user interface reads. A frame carries the
  value its JSON text encodes; \<open>json_len\<close> is the length of the text of an event.
\<close>

section \<open>The socket of the daemon\<close>

datatype feed_frame = EventText event_envelope | ErrorText api_error | CloseFrame

text \<open>One page of the loop, from what its three statements see: the frames sent, and the next cursor while the socket stays open.\<close>

definition socket_page :: "page_view \<Rightarrow> u32 \<Rightarrow> u64 \<Rightarrow> feed_frame list \<times> u64 option" where
  "socket_page view batch cursor =
     (let page = view_page view cursor batch in
      if ep_resync_required page
      then ([ErrorText (api_error_new ResyncRequired ''event cursor is outside retention; fetch a snapshot'')], None)
      else (map EventText (ep_events page),
            Some (if ep_events page = [] then cursor else ee_seq (last (ep_events page)))))"

section \<open>The actor of the client\<close>

text \<open>What \<open>EventStream::next\<close> returns.\<close>

datatype stream_item = NextEvent event_envelope | NextClosed | NextResync | NextFailed string

definition stream_next :: "(event_envelope \<Rightarrow> nat) \<Rightarrow> feed_frame \<Rightarrow> stream_item" where
  "stream_next json_len frame =
     (case frame of
        EventText e \<Rightarrow> if MAX_COMMAND_BODY_BYTES < json_len e then NextFailed ''event frame exceeds the client limit'' else NextEvent e
      | ErrorText e \<Rightarrow> if ae_code e = error_code.ResyncRequired then NextResync else NextFailed (ae_message e)
      | CloseFrame \<Rightarrow> NextClosed)"

datatype connection_event =
    Connected u64
  | Event event_envelope
  | Snapshot snapshot
  | ResyncRequired
  | TransportError string
  | Disconnected

record connection_actor =
  ca_cursor :: u64
  ca_backoff :: nat
  ca_stream :: bool
  ca_queue :: "connection_event list"
  ca_closed :: bool
  ca_stopped :: bool

definition EVENT_QUEUE :: nat where "EVENT_QUEUE = 256"

definition actor_start :: "u64 \<Rightarrow> connection_actor" where
  "actor_start after = \<lparr>ca_cursor = after, ca_backoff = 250, ca_stream = False, ca_queue = [], ca_closed = False, ca_stopped = False\<rparr>"

text \<open>\<open>raced\<close>: the reader takes an element between the two attempts on a full queue. Its removal is a later
  step of the model, so the queue is one element too long for that time.\<close>

definition try_emit_connection_event :: "bool \<Rightarrow> connection_event \<Rightarrow> connection_actor \<Rightarrow> connection_actor \<times> bool" where
  "try_emit_connection_event raced event a =
     (if ca_closed a then (a, False)
      else if length (ca_queue a) < EVENT_QUEUE then (a\<lparr>ca_queue := ca_queue a @ [event]\<rparr>, True)
      else (if raced then a\<lparr>ca_queue := ca_queue a @ [connection_event.ResyncRequired]\<rparr> else a, False))"

text \<open>The end of the loop, and an event that ends it when it cannot be queued.\<close>

definition actor_end :: "bool \<Rightarrow> connection_actor \<Rightarrow> connection_actor" where
  "actor_end raced a = fst (try_emit_connection_event raced Disconnected (a\<lparr>ca_stopped := True\<rparr>))"

definition emit_or_end :: "bool \<Rightarrow> connection_event \<Rightarrow> (connection_actor \<Rightarrow> connection_actor) \<Rightarrow> connection_actor \<Rightarrow> connection_actor" where
  "emit_or_end raced event k a =
     (case try_emit_connection_event raced event a of (a', ok) \<Rightarrow> if ok then k a' else actor_end raced a')"

text \<open>What a wait of the actor ends with: the time is over, a command was sent for the user, or the stop.\<close>

datatype actor_wake = Slept | Served | Stop

definition actor_pause :: "bool \<Rightarrow> actor_wake \<Rightarrow> connection_actor \<Rightarrow> connection_actor" where
  "actor_pause raced wake a =
     (case wake of
        Slept \<Rightarrow> a\<lparr>ca_backoff := min (ca_backoff a * 2) 30000\<rparr>
      | Served \<Rightarrow> if ca_closed a then actor_end raced a else a
      | Stop \<Rightarrow> actor_end raced a)"

definition actor_connect :: "bool \<Rightarrow> actor_wake \<Rightarrow> string option \<Rightarrow> connection_actor \<Rightarrow> connection_actor" where
  "actor_connect raced wake failure a =
     (case failure of
        None \<Rightarrow> emit_or_end raced (Connected (ca_cursor a)) (\<lambda>a. a) (a\<lparr>ca_stream := True, ca_backoff := 250\<rparr>)
      | Some message \<Rightarrow> emit_or_end raced (TransportError message) (actor_pause raced wake) a)"

text \<open>\<open>reload\<close> is the answer to the request for a snapshot.\<close>

definition actor_receive ::
    "bool \<Rightarrow> actor_wake \<Rightarrow> string + snapshot \<Rightarrow> stream_item \<Rightarrow> connection_actor \<Rightarrow> connection_actor" where
  "actor_receive raced wake reload item a =
     (case item of
        NextEvent event \<Rightarrow> emit_or_end raced (Event event) (\<lambda>a. a) (a\<lparr>ca_cursor := ee_seq event\<rparr>)
      | NextClosed \<Rightarrow> emit_or_end raced Disconnected (actor_pause raced wake) (a\<lparr>ca_stream := False\<rparr>)
      | NextResync \<Rightarrow>
          emit_or_end raced connection_event.ResyncRequired
            (\<lambda>a. case reload of
                Inr snapshot \<Rightarrow> emit_or_end raced (Snapshot snapshot) (\<lambda>a. a\<lparr>ca_backoff := 250\<rparr>)
                  (a\<lparr>ca_cursor := s_event_seq snapshot\<rparr>)
              | Inl message \<Rightarrow> emit_or_end raced (TransportError message) (actor_pause raced wake) a)
            (a\<lparr>ca_stream := False\<rparr>)
      | NextFailed message \<Rightarrow> emit_or_end raced (TransportError message) (actor_pause raced wake) (a\<lparr>ca_stream := False\<rparr>))"

definition actor_command :: "bool \<Rightarrow> actor_wake \<Rightarrow> connection_actor \<Rightarrow> connection_actor" where
  "actor_command raced wake a = (if wake = Slept then a else actor_pause raced wake a)"

section \<open>The feed as a system\<close>

text \<open>The daemon with the rows its retention loop has left, one socket with the cursor of the daemon (\<open>None\<close> once it
  has ended) and the frames on their way, the page it is reading (\<open>event_seq\<close> and, after the second statement, the rows
  that \<open>MIN(seq)\<close> has seen), the actor, and what the user interface has taken from the queue. \<open>fd_whole\<close> is no state of
  the program: it records that the rows left have always been the end of the log, and that none was deleted between
  the statements of a page.\<close>

record feed =
  fd_server :: server
  fd_table :: "event_envelope list"
  fd_whole :: bool
  fd_socket :: "(u64 option \<times> feed_frame list) option"
  fd_query :: "(u64 \<times> event_envelope list option) option"
  fd_actor :: connection_actor
  fd_seen :: "connection_event list"

definition fd_log :: "feed \<Rightarrow> event_envelope list" where
  "fd_log f = map snd (st_events (sr_store (fd_server f)))"

definition fd_seq :: "feed \<Rightarrow> u64" where
  "fd_seq f = st_event_seq (sr_store (fd_server f))"

text \<open>The retention loop deletes by the time of the rows, whenever it runs. When the clock has run back, the rows it
  leaves may have a hole.\<close>

definition prune_feed :: "timestamp \<Rightarrow> feed \<Rightarrow> feed" where
  "prune_feed cutoff f =
     (let rows = prune_events_before cutoff (fd_table f) in
      f\<lparr>fd_table := rows,
        fd_whole := (fd_whole f \<and> (rows = fd_table f \<or> fd_query f = None \<and> rows = drop (length (fd_table f) - length rows) (fd_table f)))\<rparr>)"

text \<open>The actor ends a socket when it drops its stream.\<close>

definition settle :: "feed \<Rightarrow> feed" where
  "settle f = (if ca_stream (fd_actor f) \<and> \<not> ca_stopped (fd_actor f) then f else f\<lparr>fd_socket := None, fd_query := None\<rparr>)"

inductive feed_step :: "(event_envelope \<Rightarrow> nat) \<Rightarrow> feed \<Rightarrow> feed \<Rightarrow> bool" for json_len :: "event_envelope \<Rightarrow> nat" where
  feed_serve:
    "server_step (fd_server f) v \<Longrightarrow> st_events (sr_store v) = st_events (sr_store (fd_server f)) @ new \<Longrightarrow>
     feed_step json_len f (f\<lparr>fd_server := v, fd_table := fd_table f @ map snd new\<rparr>)"
| feed_prune:
    "feed_step json_len f (prune_feed cutoff f)"
| feed_connect:
    "\<not> ca_stopped (fd_actor f) \<Longrightarrow> \<not> ca_stream (fd_actor f) \<Longrightarrow>
     feed_step json_len f (settle (f\<lparr>fd_socket := Some (Some (ca_cursor (fd_actor f)), []), fd_query := None,
       fd_actor := actor_connect raced wake None (fd_actor f)\<rparr>))"
| feed_unreachable:
    "\<not> ca_stopped (fd_actor f) \<Longrightarrow> \<not> ca_stream (fd_actor f) \<Longrightarrow>
     feed_step json_len f (settle (f\<lparr>fd_actor := actor_connect raced wake (Some message) (fd_actor f)\<rparr>))"
| feed_latest:
    "fd_socket f = Some (Some cursor, frames) \<Longrightarrow> fd_query f = None \<Longrightarrow>
     feed_step json_len f (f\<lparr>fd_query := Some (fd_seq f, None)\<rparr>)"
| feed_oldest:
    "fd_query f = Some (event_seq, None) \<Longrightarrow>
     feed_step json_len f (f\<lparr>fd_query := Some (event_seq, Some (fd_table f))\<rparr>)"
| feed_page:
    "fd_socket f = Some (Some cursor, frames) \<Longrightarrow> fd_query f = Some (event_seq, Some table) \<Longrightarrow>
     socket_page \<lparr>pv_event_seq = event_seq, pv_table = table, pv_rows = fd_table f\<rparr> batch cursor = (sent, cursor') \<Longrightarrow>
     feed_step json_len f (f\<lparr>fd_socket := Some (cursor', frames @ sent), fd_query := None\<rparr>)"
| feed_close:
    "fd_socket f = Some (Some cursor, frames) \<Longrightarrow> fd_query f = None \<Longrightarrow>
     feed_step json_len f (f\<lparr>fd_socket := Some (None, frames @ [CloseFrame])\<rparr>)"
| feed_receive:
    "fd_socket f = Some (cursor, frame # frames) \<Longrightarrow> \<not> ca_stopped (fd_actor f) \<Longrightarrow>
     (\<forall>snapshot. reload = Inr snapshot \<longrightarrow> s_event_seq snapshot = s_event_seq (st_world (sr_store (fd_server f)))) \<Longrightarrow>
     feed_step json_len f (settle (f\<lparr>fd_socket := Some (cursor, frames),
       fd_actor := actor_receive raced wake reload (stream_next json_len frame) (fd_actor f)\<rparr>))"
| feed_lost:
    "fd_socket f = Some s \<Longrightarrow> \<not> ca_stopped (fd_actor f) \<Longrightarrow> item = NextClosed \<or> item = NextFailed message \<Longrightarrow>
     feed_step json_len f (settle (f\<lparr>fd_actor := actor_receive raced wake reload item (fd_actor f)\<rparr>))"
| feed_command:
    "\<not> ca_stopped (fd_actor f) \<Longrightarrow>
     feed_step json_len f (settle (f\<lparr>fd_actor := actor_command raced wake (fd_actor f)\<rparr>))"
| feed_take:
    "ca_queue (fd_actor f) = event # queue \<Longrightarrow>
     feed_step json_len f (f\<lparr>fd_actor := (fd_actor f)\<lparr>ca_queue := queue\<rparr>, fd_seen := fd_seen f @ [event]\<rparr>)"
| feed_drop:
    "feed_step json_len f (f\<lparr>fd_actor := (fd_actor f)\<lparr>ca_closed := True\<rparr>\<rparr>)"

text \<open>A client starts at the sequence number of a snapshot it has fetched, with whatever rows earlier retention has left.\<close>

definition feed_init :: "u64 \<Rightarrow> feed \<Rightarrow> bool" where
  "feed_init after f \<longleftrightarrow> reachable server_init server_step (fd_server f) \<and> subseq (fd_table f) (fd_log f) \<and>
     (fd_whole f \<longrightarrow> (\<exists>n. fd_table f = drop n (fd_log f))) \<and>
     fd_socket f = None \<and> fd_query f = None \<and> fd_seen f = [] \<and> unat after \<le> length (fd_log f) \<and> fd_actor f = actor_start after"

section \<open>What the user interface knows\<close>

text \<open>The sequence number of the last snapshot and the events since.\<close>

definition noted :: "nat \<times> event_envelope list \<Rightarrow> connection_event \<Rightarrow> nat \<times> event_envelope list" where
  "noted r x = (case x of Event e \<Rightarrow> (fst r, snd r @ [e]) | Snapshot s \<Rightarrow> (unat (s_event_seq s), []) | _ \<Rightarrow> r)"

definition replica :: "u64 \<Rightarrow> connection_event list \<Rightarrow> nat \<times> event_envelope list" where
  "replica after xs = foldl noted (unat after, []) xs"

definition says :: "u64 \<Rightarrow> connection_event list \<Rightarrow> connection_actor \<Rightarrow> nat \<times> event_envelope list" where
  "says after seen a = replica after (seen @ ca_queue a)"

definition quiet_notice :: "connection_event \<Rightarrow> bool" where
  "quiet_notice x \<longleftrightarrow> (\<forall>r. noted r x = r)"

lemma quiet_notices [simp]:
  "quiet_notice (Connected c)" "quiet_notice connection_event.ResyncRequired" "quiet_notice (TransportError m)" "quiet_notice Disconnected"
  by (simp_all add: quiet_notice_def noted_def)

lemma says_queue: "says after seen (a\<lparr>ca_queue := ca_queue a @ [x]\<rparr>) = noted (says after seen a) x"
  by (simp add: says_def replica_def)

lemma says_frame [simp]:
  "says after seen (a\<lparr>ca_cursor := c\<rparr>) = says after seen a" "says after seen (a\<lparr>ca_stream := b\<rparr>) = says after seen a"
  "says after seen (a\<lparr>ca_stopped := b\<rparr>) = says after seen a" "says after seen (a\<lparr>ca_backoff := n\<rparr>) = says after seen a"
  "says after seen (a\<lparr>ca_closed := b\<rparr>) = says after seen a"
  by (simp_all add: says_def)

lemma try_emit_cases:
  assumes "try_emit_connection_event raced x a = (a', ok)"
  shows "ca_cursor a' = ca_cursor a \<and> ca_stream a' = ca_stream a \<and> ca_stopped a' = ca_stopped a \<and>
    says after seen a' = (if ok then noted (says after seen a) x else says after seen a)"
  using assms by (auto simp: try_emit_connection_event_def says_queue quiet_notice_def [THEN iffD1, rule_format, OF quiet_notices(2)]
      split: if_splits)

lemma actor_end_keeps [simp]:
  "ca_cursor (actor_end raced a) = ca_cursor a" "ca_stream (actor_end raced a) = ca_stream a" "ca_stopped (actor_end raced a)"
  "says after seen (actor_end raced a) = says after seen a"
proof -
  obtain a' ok where t: "try_emit_connection_event raced Disconnected (a\<lparr>ca_stopped := True\<rparr>) = (a', ok)" by fastforce
  have "noted r Disconnected = r" for r by (simp add: noted_def)
  then show "ca_cursor (actor_end raced a) = ca_cursor a" "ca_stream (actor_end raced a) = ca_stream a" "ca_stopped (actor_end raced a)"
    "says after seen (actor_end raced a) = says after seen a"
    using try_emit_cases [OF t, of after seen] by (simp_all add: actor_end_def t)
qed

lemma actor_pause_keeps [simp]:
  "ca_cursor (actor_pause raced wake a) = ca_cursor a" "ca_stream (actor_pause raced wake a) = ca_stream a"
  "says after seen (actor_pause raced wake a) = says after seen a"
  by (simp_all add: actor_pause_def split: actor_wake.split)

text \<open>An emission is noted and the loop goes on, or it is not and the actor has stopped.\<close>

lemma emit_or_endE:
  obtains (ok) a' where "emit_or_end raced x k a = k a'" "ca_cursor a' = ca_cursor a" "ca_stream a' = ca_stream a"
      "ca_stopped a' = ca_stopped a" "\<And>after seen. says after seen a' = noted (says after seen a) x"
  | (ended) "ca_stopped (emit_or_end raced x k a)" "ca_cursor (emit_or_end raced x k a) = ca_cursor a"
      "ca_stream (emit_or_end raced x k a) = ca_stream a" "\<And>after seen. says after seen (emit_or_end raced x k a) = says after seen a"
proof -
  obtain a' b where t: "try_emit_connection_event raced x a = (a', b)" by fastforce
  note c = try_emit_cases [OF t]
  show thesis
  proof (cases b)
    case True
    then show thesis using c by (intro ok [of a']) (simp_all add: emit_or_end_def t)
  next
    case False
    then show thesis using c by (intro ended) (simp_all add: emit_or_end_def t)
  qed
qed

lemma emit_quiet:
  assumes "quiet_notice x" "\<And>a. ca_cursor (k a) = ca_cursor a" "\<And>a. ca_stream (k a) = ca_stream a" "\<And>a. says after seen (k a) = says after seen a"
  shows "ca_cursor (emit_or_end raced x k a) = ca_cursor a" "ca_stream (emit_or_end raced x k a) = ca_stream a"
    "says after seen (emit_or_end raced x k a) = says after seen a"
proof -
  have "ca_cursor (emit_or_end raced x k a) = ca_cursor a \<and> ca_stream (emit_or_end raced x k a) = ca_stream a \<and>
    says after seen (emit_or_end raced x k a) = says after seen a"
  proof (cases rule: emit_or_endE [of raced x k a])
    case (ok a')
    then show ?thesis using assms(1) by (simp only: assms(2-4) quiet_notice_def)
  next
    case ended
    then show ?thesis by blast
  qed
  then show "ca_cursor (emit_or_end raced x k a) = ca_cursor a" "ca_stream (emit_or_end raced x k a) = ca_stream a"
    "says after seen (emit_or_end raced x k a) = says after seen a" by blast+
qed

lemmas emit_pause = emit_quiet [where k = "actor_pause raced wake" for raced wake, OF _ actor_pause_keeps]

lemma actor_connect_keeps:
  "ca_cursor (actor_connect raced wake failure a) = ca_cursor a"
  "says after seen (actor_connect raced wake failure a) = says after seen a"
  by (cases failure; simp add: actor_connect_def emit_pause emit_quiet)+

lemma actor_command_keeps:
  "ca_cursor (actor_command raced wake a) = ca_cursor a" "says after seen (actor_command raced wake a) = says after seen a"
  by (simp_all add: actor_command_def)

text \<open>What a received item does to the cursor and to what the user interface knows.\<close>

lemma receive_quiet:
  assumes "item = NextClosed \<or> item = NextFailed m \<or> item = NextResync \<and> reload = Inl m"
  shows "ca_cursor (actor_receive raced wake reload item a) = ca_cursor a"
    "says after seen (actor_receive raced wake reload item a) = says after seen a"
    "\<not> ca_stream (actor_receive raced wake reload item a)"
  using assms by (auto simp: actor_receive_def emit_pause emit_quiet)

lemma receive_event:
  fixes a e raced wake reload
  defines "a' \<equiv> actor_receive raced wake reload (NextEvent e) a"
  assumes "\<not> ca_stopped a"
  shows "ca_cursor a' = ee_seq e" "ca_stream a' = ca_stream a"
    "says after seen a' = noted (says after seen a) (Event e) \<or> ca_stopped a' \<and> says after seen a' = says after seen a"
proof -
  have "ca_cursor a' = ee_seq e \<and> ca_stream a' = ca_stream a \<and>
    (says after seen a' = noted (says after seen a) (Event e) \<or> ca_stopped a' \<and> says after seen a' = says after seen a)"
  proof (cases rule: emit_or_endE [of raced "Event e" "\<lambda>a. a" "a\<lparr>ca_cursor := ee_seq e\<rparr>"])
    case (ok b)
    then show ?thesis by (simp add: a'_def actor_receive_def)
  next
    case ended
    then show ?thesis by (simp add: a'_def actor_receive_def)
  qed
  then show "ca_cursor a' = ee_seq e" "ca_stream a' = ca_stream a"
    "says after seen a' = noted (says after seen a) (Event e) \<or> ca_stopped a' \<and> says after seen a' = says after seen a" by blast+
qed

lemma receive_resync:
  fixes a s raced wake
  defines "a' \<equiv> actor_receive raced wake (Inr s) NextResync a"
  shows "\<not> ca_stream a'"
    "ca_cursor a' = s_event_seq s \<and> says after seen a' = noted (says after seen a) (Snapshot s) \<or>
     ca_stopped a' \<and> says after seen a' = says after seen a"
proof -
  let ?k = "\<lambda>a. emit_or_end raced (Snapshot s) (\<lambda>a. a\<lparr>ca_backoff := 250\<rparr>) (a\<lparr>ca_cursor := s_event_seq s\<rparr>)"
  have "\<not> ca_stream a' \<and> (ca_cursor a' = s_event_seq s \<and> says after seen a' = noted (says after seen a) (Snapshot s) \<or>
     ca_stopped a' \<and> says after seen a' = says after seen a)"
  proof (cases rule: emit_or_endE [of raced connection_event.ResyncRequired ?k "a\<lparr>ca_stream := False\<rparr>"])
    case (ok b)
    have b: "says after seen b = says after seen a" "\<not> ca_stream b" using ok by (simp_all add: noted_def)
    have a': "a' = ?k b" using ok(1) by (simp add: a'_def actor_receive_def)
    show ?thesis
    proof (cases rule: emit_or_endE [of raced "Snapshot s" "\<lambda>a. a\<lparr>ca_backoff := 250\<rparr>" "b\<lparr>ca_cursor := s_event_seq s\<rparr>"])
      case (ok d)
      then show ?thesis using b by (simp add: a')
    next
      case ended
      then show ?thesis using b by (simp add: a')
    qed
  next
    case ended
    then show ?thesis by (simp add: a'_def actor_receive_def)
  qed
  then show "\<not> ca_stream a'"
    "ca_cursor a' = s_event_seq s \<and> says after seen a' = noted (says after seen a) (Snapshot s) \<or>
     ca_stopped a' \<and> says after seen a' = says after seen a" by blast+
qed

section \<open>The log of the daemon only grows\<close>

lemma commit_appends: "commit_request env st rq = Inr (st', cm) \<Longrightarrow> \<exists>new. st_events st' = st_events st @ new"
  by (auto simp: commit_request_def Let_def split: sum.splits option.splits if_splits)

lemma server_step_appends: "server_step v v' \<Longrightarrow> \<exists>new. st_events (sr_store v') = st_events (sr_store v) @ new"
proof (induction rule: server_step.induct)
  case (step_finish v c e actor w env st' r)
  from step_finish.hyps(4) have "\<exists>new. st_events st' = st_events (sr_store v) @ new"
    by (cases rule: apply_loadedE) (auto simp: remember_def dest: commit_appends)
  then show ?case by simp
next
  case (step_deliver env v m st')
  from step_deliver.hyps(3) have "\<exists>new. st_events st' = st_events (sr_store v) @ new"
    by (cases rule: deliver_messageE) (auto dest: commit_appends)
  then show ?case by simp
next
  case (step_daemon env v cid job st' r)
  from step_daemon.hyps(3) have "\<exists>new. st_events st' = st_events (sr_store v) @ new"
    by (cases rule: commit_jobE) (auto simp: remember_def dest: commit_appends)
  then show ?case by simp
qed (simp_all add: boot_def replace_snapshot_def Let_def)

section \<open>Stretches of the log\<close>

definition stretch :: "feed \<Rightarrow> nat \<Rightarrow> nat \<Rightarrow> event_envelope list" where
  "stretch f c d = take (d - c) (drop c (fd_log f))"

text \<open>The events that a reader may miss: their rows are gone, and they went out of order or during a page.\<close>

definition lost :: "feed \<Rightarrow> event_envelope set" where
  "lost f = {e \<in> set (fd_log f). e \<notin> set (fd_table f) \<and> \<not> fd_whole f}"

text \<open>\<open>es\<close> takes a reader from position \<open>c\<close> of the log to position \<open>d\<close>: in order, and without any event but lost ones.\<close>

definition passes :: "feed \<Rightarrow> nat \<Rightarrow> event_envelope list \<Rightarrow> nat \<Rightarrow> bool" where
  "passes f c es d \<longleftrightarrow> c \<le> d \<and> d \<le> length (fd_log f) \<and> subseq es (stretch f c d) \<and> set (stretch f c d) - set es \<subseteq> lost f"

lemma subseq_filter_of: "subseq xs ys \<Longrightarrow> distinct ys \<Longrightarrow> xs = filter (\<lambda>x. x \<in> set xs) ys"
  by (auto simp: subseq_conv_nths filter_in_nths)

lemma stretch_join: "c \<le> d \<Longrightarrow> d \<le> e \<Longrightarrow> stretch f c e = stretch f c d @ stretch f d e"
proof -
  assume "c \<le> d" "d \<le> e"
  then have "take ((d - c) + (e - d)) (drop c (fd_log f)) = take (d - c) (drop c (fd_log f)) @ take (e - d) (drop (d - c) (drop c (fd_log f)))"
    by (intro take_add)
  with \<open>c \<le> d\<close> \<open>d \<le> e\<close> show ?thesis by (simp add: stretch_def)
qed

lemma stretch_Suc: "c < length (fd_log f) \<Longrightarrow> stretch f c (Suc c) = [fd_log f ! c]"
  by (simp add: stretch_def take_Suc_conv_app_nth)

lemma stretch_nth: "c \<le> i \<Longrightarrow> i < d \<Longrightarrow> d \<le> length (fd_log f) \<Longrightarrow> fd_log f ! i \<in> set (stretch f c d)"
proof -
  assume a: "c \<le> i" "i < d" "d \<le> length (fd_log f)"
  then have "stretch f c d ! (i - c) = fd_log f ! i" "i - c < length (stretch f c d)" by (simp_all add: stretch_def)
  then show ?thesis by (metis nth_mem)
qed

lemma passes_refl: "c \<le> length (fd_log f) \<Longrightarrow> passes f c [] c"
  by (simp add: passes_def stretch_def)

lemma passes_trans:
  assumes "passes f c as d" "passes f d bs e"
  shows "passes f c (as @ bs) e"
proof -
  have j: "stretch f c e = stretch f c d @ stretch f d e" using assms by (intro stretch_join) (simp_all add: passes_def)
  have "subseq (as @ bs) (stretch f c e)" unfolding j using assms by (intro list_emb_append_mono) (simp_all add: passes_def)
  then show ?thesis using assms j by (auto simp: passes_def)
qed

lemma passes_mono:
  assumes "passes f c es d" "fd_log g = fd_log f @ new" "lost f \<subseteq> lost g"
  shows "passes g c es d"
proof -
  have "stretch g c d = stretch f c d" using assms(1,2) by (simp add: passes_def stretch_def)
  then show ?thesis using assms by (auto simp: passes_def)
qed

lemma passes_all: "c \<le> d \<Longrightarrow> d \<le> length (fd_log f) \<Longrightarrow> passes f c (stretch f c d) d"
  by (simp add: passes_def)

lemma passes_whole:
  assumes "passes f c es d" "fd_whole f" "distinct (fd_log f)"
  shows "es = stretch f c d"
proof -
  have "distinct (stretch f c d)" using assms(3) by (simp add: stretch_def)
  then have e: "es = filter (\<lambda>x. x \<in> set es) (stretch f c d)" using assms(1) by (intro subseq_filter_of) (simp_all add: passes_def)
  have "set (stretch f c d) \<subseteq> set es" using assms(1,2) by (auto simp: passes_def lost_def)
  then have "filter (\<lambda>x. x \<in> set es) (stretch f c d) = stretch f c d" by (auto simp: filter_id_conv)
  with e show ?thesis by simp
qed

text \<open>The first of the events passed.\<close>

lemma passes_Cons:
  assumes p: "passes f c (e # es) d" and dist: "distinct (fd_log f)"
  obtains i where "c \<le> i" "i < d" "e = fd_log f ! i" "passes f c [e] (Suc i)" "passes f (Suc i) es d"
proof -
  have sub: "subseq (e # es) (stretch f c d)" and b: "c \<le> d" "d \<le> length (fd_log f)" using p by (simp_all add: passes_def)
  from list_emb_ConsD [OF sub] obtain us vs where s: "stretch f c d = us @ e # vs" and es: "subseq es vs" by auto
  let ?i = "c + length us"
  have len: "d - c = length us + Suc (length vs)" using arg_cong [OF s, of length] b by (simp add: stretch_def)
  then have i: "c \<le> ?i" "?i < d" "Suc ?i \<le> d" by simp_all
  have "stretch f c d ! length us = e" by (simp add: s)
  then have e: "e = fd_log f ! ?i" using i b by (simp add: stretch_def)
  have l: "length (stretch f c (Suc ?i)) = length (us @ [e])" using i b by (simp add: stretch_def)
  have "stretch f c (Suc ?i) @ stretch f (Suc ?i) d = (us @ [e]) @ vs"
    using stretch_join [of c "Suc ?i" d f] i s by simp
  then have parts: "stretch f c (Suc ?i) = us @ [e]" "stretch f (Suc ?i) d = vs" using append_eq_append_conv [OF disjI1, OF l] by blast+
  have "distinct (us @ e # vs)" using dist s by (metis stretch_def distinct_drop distinct_take)
  then have "set us \<inter> set (e # es) = {}" "e \<notin> set vs" using list_emb_set [OF es] by (auto dest: list_emb_set [OF es])
  then have "set us \<subseteq> lost f" "set vs - set es \<subseteq> lost f" using p by (auto simp: passes_def s)
  then have "passes f c [e] (Suc ?i)" "passes f (Suc ?i) es d"
    using i b es parts by (auto simp: passes_def)
  then show thesis by (rule that [OF i(1,2) e])
qed

section \<open>The invariant of the feed\<close>

text \<open>The rows left are rows of the log. The frames on their way take the client from its cursor to that of the daemon; an
  end of the socket comes last, and a request to resync only after the row at that point was deleted.\<close>

definition gone :: "feed \<Rightarrow> nat" where
  "gone f = length (fd_log f) - length (fd_table f)"

definition table_ok :: "feed \<Rightarrow> bool" where
  "table_ok f \<longleftrightarrow> subseq (fd_table f) (fd_log f) \<and> (fd_whole f \<longrightarrow> fd_table f = drop (gone f) (fd_log f))"

definition heard :: "u64 \<Rightarrow> feed \<Rightarrow> bool" where
  "heard after f \<longleftrightarrow> (\<exists>d. passes f (fst (says after (fd_seen f) (fd_actor f))) (snd (says after (fd_seen f) (fd_actor f))) d \<and>
     (\<not> ca_stopped (fd_actor f) \<longrightarrow> d = unat (ca_cursor (fd_actor f))))"

definition deleted_at :: "feed \<Rightarrow> nat \<Rightarrow> bool" where
  "deleted_at f n \<longleftrightarrow> n < length (fd_log f) \<and> fd_log f ! n \<notin> set (fd_table f)"

definition ending_ok :: "feed \<Rightarrow> nat \<Rightarrow> u64 option \<Rightarrow> feed_frame list \<Rightarrow> bool" where
  "ending_ok f n cursor rest \<longleftrightarrow>
     (case cursor of Some x \<Rightarrow> rest = [] \<and> unat x = n
      | None \<Rightarrow> rest = [CloseFrame] \<or> (\<exists>e. rest = [ErrorText e] \<and> ae_code e = error_code.ResyncRequired \<and> deleted_at f n))"

definition frames_ok :: "feed \<Rightarrow> nat \<Rightarrow> u64 option \<times> feed_frame list \<Rightarrow> bool" where
  "frames_ok f c s \<longleftrightarrow> (\<exists>es d rest. snd s = map EventText es @ rest \<and> passes f c es d \<and> ending_ok f d (fst s) rest)"

lemma frames_okI: "snd s = map EventText es @ rest \<Longrightarrow> passes f c es d \<Longrightarrow> ending_ok f d (fst s) rest \<Longrightarrow> frames_ok f c s"
  unfolding frames_ok_def by blast

lemma frames_okE:
  assumes "frames_ok f c s"
  obtains es d rest where "snd s = map EventText es @ rest" "passes f c es d" "ending_ok f d (fst s) rest"
  using assms unfolding frames_ok_def by blast

definition socket_ok :: "feed \<Rightarrow> bool" where
  "socket_ok f \<longleftrightarrow> (\<forall>s. fd_socket f = Some s \<longrightarrow> ca_stream (fd_actor f) \<and> \<not> ca_stopped (fd_actor f) \<and>
     frames_ok f (unat (ca_cursor (fd_actor f))) s)"

text \<open>The page that is being read: the log had \<open>i\<close> events at its first statement and \<open>j\<close> at the second.\<close>

definition table_seen :: "feed \<Rightarrow> nat \<Rightarrow> nat \<Rightarrow> event_envelope list \<Rightarrow> bool" where
  "table_seen f i j table \<longleftrightarrow> set table \<subseteq> set (take j (fd_log f)) \<and>
     (\<forall>m < j. fd_log f ! m \<in> set (fd_table f) \<longrightarrow> fd_log f ! m \<in> set table) \<and>
     (fd_whole f \<longrightarrow> gone f \<le> i \<and> table = drop (gone f) (take j (fd_log f)))"

definition query_ok :: "feed \<Rightarrow> bool" where
  "query_ok f \<longleftrightarrow> (\<forall>event_seq t. fd_query f = Some (event_seq, t) \<longrightarrow>
     (\<exists>i j. i \<le> j \<and> j \<le> length (fd_log f) \<and> unat event_seq = i \<and> (fd_whole f \<longrightarrow> gone f \<le> i) \<and>
        (\<forall>table. t = Some table \<longrightarrow> table_seen f i j table)))"

definition feed_ok :: "u64 \<Rightarrow> feed \<Rightarrow> bool" where
  "feed_ok after f \<longleftrightarrow> reachable server_init server_step (fd_server f) \<and> table_ok f \<and> heard after f \<and> socket_ok f \<and> query_ok f"

lemma feed_okI:
  "reachable server_init server_step (fd_server f) \<Longrightarrow> table_ok f \<Longrightarrow> heard after f \<Longrightarrow> socket_ok f \<Longrightarrow> query_ok f \<Longrightarrow> feed_ok after f"
  by (simp add: feed_ok_def)

lemma reachable_numbered:
  assumes "reachable server_init server_step (fd_server f)"
  shows "numbered (fd_log f)" "unat (fd_seq f) = length (fd_log f)" "length (fd_log f) < 2 ^ 63" "distinct (fd_log f)"
proof -
  have "log_ok (sr_store (fd_server f))" using assms reachable_log by simp
  from log_numbered [OF this] show n: "numbered (fd_log f)" and "unat (fd_seq f) = length (fd_log f)"
    by (simp_all add: fd_log_def fd_seq_def)
  show "length (fd_log f) < 2 ^ 63" using n by (simp add: numbered_def)
  show "distinct (fd_log f)" using numbered_distinct [OF n] by (simp add: distinct_map)
qed

lemma feed_log:
  assumes "feed_ok after f"
  shows "numbered (fd_log f)" "unat (fd_seq f) = length (fd_log f)" "length (fd_log f) < 2 ^ 63" "distinct (fd_log f)"
  using reachable_numbered assms by (simp_all add: feed_ok_def)

lemma feed_seq:
  assumes "feed_ok after f"
  shows "unat (s_event_seq (st_world (sr_store (fd_server f)))) = length (fd_log f)"
proof -
  have "server_ok (fd_server f)" using assms serving.reachable_inv by (simp add: feed_ok_def)
  from server_ok_store [OF this] feed_log(2) [OF assms] show ?thesis by (simp add: store_ok_def fd_seq_def)
qed

section \<open>Steps that keep the rows or only lose some\<close>

text \<open>\<open>g\<close> has the log of \<open>f\<close>, perhaps longer, and no row of it that \<open>f\<close> had lost.\<close>

definition later :: "feed \<Rightarrow> feed \<Rightarrow> bool" where
  "later f g \<longleftrightarrow> (\<exists>new. fd_log g = fd_log f @ new) \<and> set (fd_log f) \<inter> set (fd_table g) \<subseteq> set (fd_table f) \<and> (fd_whole g \<longrightarrow> fd_whole f)"

lemma later_same: "fd_server g = fd_server f \<Longrightarrow> fd_table g = fd_table f \<Longrightarrow> fd_whole g = fd_whole f \<Longrightarrow> later f g"
  by (simp add: later_def fd_log_def)

lemma later_lost: "later f g \<Longrightarrow> lost f \<subseteq> lost g"
  by (auto simp: later_def lost_def)

lemma later_passes: "later f g \<Longrightarrow> passes f c es d \<Longrightarrow> passes g c es d"
  using passes_mono later_lost by (auto simp: later_def)

lemma later_deleted:
  assumes l: "later f g" and d: "deleted_at f n"
  shows "deleted_at g n"
proof -
  have n: "n < length (fd_log f)" "fd_log f ! n \<notin> set (fd_table f)" using d by (simp_all add: deleted_at_def)
  then have "fd_log f ! n \<notin> set (fd_table g)" using l nth_mem [OF n(1)] by (auto simp: later_def simp del: nth_mem)
  then show ?thesis using l n(1) by (auto simp: later_def deleted_at_def nth_append)
qed

lemma later_frames: "later f g \<Longrightarrow> frames_ok f c s \<Longrightarrow> frames_ok g c s"
proof (elim frames_okE)
  fix es d rest assume l: "later f g" and "snd s = map EventText es @ rest" "passes f c es d" "ending_ok f d (fst s) rest"
  moreover from this have "ending_ok g d (fst s) rest" by (auto simp: ending_ok_def split: option.splits intro: later_deleted [OF l])
  ultimately show "frames_ok g c s" by (intro frames_okI later_passes [OF l])
qed

lemma later_heard:
  assumes "later f g" "heard after f" "fd_actor g = fd_actor f" "fd_seen g = fd_seen f"
  shows "heard after g"
  using assms later_passes [OF assms(1)] unfolding heard_def by auto

lemma later_socket:
  assumes "later f g" "socket_ok f" "fd_actor g = fd_actor f" "fd_socket g = fd_socket f"
  shows "socket_ok g"
  using assms later_frames [OF assms(1)] unfolding socket_ok_def by auto

lemma serve_later:
  assumes f: "feed_ok after f" and v: "server_step (fd_server f) v" "st_events (sr_store v) = st_events (sr_store (fd_server f)) @ new"
  defines "g \<equiv> f\<lparr>fd_server := v, fd_table := fd_table f @ map snd new\<rparr>"
  shows "fd_log g = fd_log f @ map snd new" "numbered (fd_log g)" "later f g" "gone g = gone f" "reachable server_init server_step (fd_server g)"
proof -
  show log: "fd_log g = fd_log f @ map snd new" using v(2) by (simp add: fd_log_def g_def)
  have "reachable server_init server_step (fd_server f)" using f by (simp add: feed_ok_def)
  from reach_step [OF this v(1)] show r: "reachable server_init server_step (fd_server g)" by (simp add: g_def)
  show "numbered (fd_log g)" by (rule reachable_numbered(1) [OF r])
  have "distinct (fd_log f @ map snd new)" using reachable_numbered(4) [OF r] by (simp add: log)
  then have "set (fd_log f) \<inter> set (map snd new) = {}" by simp
  then show "later f g" unfolding later_def log by (auto simp: g_def)
  have "length (fd_table f) \<le> length (fd_log f)" using f by (auto simp: feed_ok_def table_ok_def dest: list_emb_length)
  then show "gone g = gone f" by (simp add: gone_def log) (simp add: g_def)
qed

lemma serve_ok:
  assumes f: "feed_ok after f" and v: "server_step (fd_server f) v" "st_events (sr_store v) = st_events (sr_store (fd_server f)) @ new"
  shows "feed_ok after (f\<lparr>fd_server := v, fd_table := fd_table f @ map snd new\<rparr>)" (is "feed_ok after ?g")
proof (rule feed_okI)
  note g = serve_later [OF f v]
  have t: "subseq (fd_table f) (fd_log f)" "fd_whole f \<longrightarrow> fd_table f = drop (gone f) (fd_log f)" using f by (simp_all add: feed_ok_def table_ok_def)
  have "gone f \<le> length (fd_log f)" by (simp add: gone_def)
  then have "fd_whole f \<longrightarrow> fd_table f @ map snd new = drop (gone f) (fd_log f @ map snd new)" using t(2) by simp
  then show "table_ok ?g" unfolding table_ok_def g(1,4) using t(1) by (simp add: list_emb_append_mono)
  show "reachable server_init server_step (fd_server ?g)" by (rule g(5))
  show "heard after ?g" "socket_ok ?g"
    using later_heard [OF g(3)] later_socket [OF g(3)] f by (simp_all add: feed_ok_def)
  show "query_ok ?g" unfolding query_ok_def
  proof (intro allI impI)
    fix event_seq t assume "fd_query ?g = Some (event_seq, t)"
    then obtain i j where q: "i \<le> j" "j \<le> length (fd_log f)" "unat event_seq = i" "fd_whole f \<longrightarrow> gone f \<le> i"
      "\<forall>table. t = Some table \<longrightarrow> table_seen f i j table" using f by (auto simp: feed_ok_def query_ok_def)
    have "table_seen ?g i j table" if "t = Some table" for table
    proof -
      have s: "set table \<subseteq> set (take j (fd_log f))" "\<forall>m < j. fd_log f ! m \<in> set (fd_table f) \<longrightarrow> fd_log f ! m \<in> set table"
        "fd_whole f \<longrightarrow> gone f \<le> i \<and> table = drop (gone f) (take j (fd_log f))" using q(5) that by (auto simp: table_seen_def)
      have same: "take j (fd_log ?g) = take j (fd_log f)" using q(2) by (simp add: g(1))
      have "fd_log ?g ! m \<in> set table" if m: "m < j" "fd_log ?g ! m \<in> set (fd_table ?g)" for m
      proof -
        have e: "fd_log ?g ! m = fd_log f ! m" "fd_log f ! m \<in> set (fd_log f)" using m(1) q(2) by (simp_all add: g(1) nth_append)
        then have "fd_log f ! m \<in> set (fd_table f)" using m(2) g(3) by (auto simp: later_def simp del: nth_mem)
        then show ?thesis using s(2) m(1) e(1) by simp
      qed
      then show ?thesis using s(1,3) unfolding table_seen_def same g(4) by simp
    qed
    then show "\<exists>i j. i \<le> j \<and> j \<le> length (fd_log ?g) \<and> unat event_seq = i \<and> (fd_whole ?g \<longrightarrow> gone ?g \<le> i) \<and>
        (\<forall>table. t = Some table \<longrightarrow> table_seen ?g i j table)"
      using q g(4) by (intro exI [of _ i] exI [of _ j]) (simp add: g(1))
  qed
qed

lemma prune_later:
  fixes f cutoff
  defines "g \<equiv> prune_feed cutoff f"
  shows "fd_server g = fd_server f" "fd_actor g = fd_actor f" "fd_seen g = fd_seen f" "fd_socket g = fd_socket f" "fd_query g = fd_query f"
    "fd_log g = fd_log f" "set (fd_table g) \<subseteq> set (fd_table f)" "later f g"
    "fd_whole g \<Longrightarrow> fd_whole f" "fd_whole g \<Longrightarrow> fd_query f \<noteq> None \<Longrightarrow> fd_table g = fd_table f"
proof -
  show a: "fd_server g = fd_server f" "fd_actor g = fd_actor f" "fd_seen g = fd_seen f" "fd_socket g = fd_socket f" "fd_query g = fd_query f"
    by (simp_all add: g_def prune_feed_def Let_def)
  then show b: "fd_log g = fd_log f" by (simp add: fd_log_def)
  show c: "set (fd_table g) \<subseteq> set (fd_table f)" by (auto simp: g_def prune_feed_def Let_def prune_events_before_def)
  show d: "fd_whole f" if "fd_whole g" using that by (simp add: g_def prune_feed_def Let_def)
  show "later f g" using b c d by (auto simp: later_def)
  show "fd_table g = fd_table f" if "fd_whole g" "fd_query f \<noteq> None" using that by (simp add: g_def prune_feed_def Let_def)
qed

lemma prune_table:
  assumes "table_ok f"
  shows "table_ok (prune_feed cutoff f)"
proof -
  let ?rows = "prune_events_before cutoff (fd_table f)" and ?g = "prune_feed cutoff f"
  have t: "subseq (fd_table f) (fd_log f)" "fd_whole f \<Longrightarrow> fd_table f = drop (gone f) (fd_log f)" using assms by (auto simp: table_ok_def)
  have rows: "fd_table ?g = ?rows" by (simp add: prune_feed_def Let_def)
  have "subseq ?rows (fd_table f)" by (simp add: prune_events_before_def)
  then have sub: "subseq ?rows (fd_log f)" using t(1) by (rule subseq_order.order_trans)
  have le: "length (fd_table f) \<le> length (fd_log f)" "length ?rows \<le> length (fd_table f)"
    using t(1) by (simp_all add: list_emb_length prune_events_before_def)
  have "?rows = drop (gone ?g) (fd_log f)" if w: "fd_whole ?g"
  proof -
    define n where "n = length (fd_table f) - length ?rows"
    have d: "?rows = drop n (fd_table f)" using w by (auto simp: prune_feed_def Let_def n_def)
    have "n + gone f = gone ?g" using le unfolding gone_def rows prune_later(6) n_def by simp
    then have "drop (gone ?g) (fd_log f) = drop n (drop (gone f) (fd_log f))" by simp
    then show ?thesis using d t(2) prune_later(9) [OF w] by simp
  qed
  then show ?thesis using sub by (simp add: table_ok_def rows prune_later(6))
qed

lemma prune_ok:
  assumes f: "feed_ok after f"
  shows "feed_ok after (prune_feed cutoff f)" (is "feed_ok after ?g")
proof (rule feed_okI)
  note g = prune_later [where f = f and cutoff = cutoff]
  show "reachable server_init server_step (fd_server ?g)" using f by (simp add: feed_ok_def g(1))
  show "table_ok ?g" by (rule prune_table) (use f in \<open>simp add: feed_ok_def\<close>)
  show "heard after ?g" "socket_ok ?g"
    using later_heard [OF g(8)] later_socket [OF g(8)] f by (simp_all add: feed_ok_def g(2-4))
  show "query_ok ?g" unfolding query_ok_def g(5,6)
  proof (intro allI impI)
    fix event_seq t assume a: "fd_query f = Some (event_seq, t)"
    then obtain i j where q: "i \<le> j" "j \<le> length (fd_log f)" "unat event_seq = i" "fd_whole f \<longrightarrow> gone f \<le> i"
      "\<forall>table. t = Some table \<longrightarrow> table_seen f i j table" using f by (auto simp: feed_ok_def query_ok_def)
    have w: "fd_whole ?g \<Longrightarrow> fd_whole f \<and> gone ?g = gone f" using g(9,10) a by (simp add: gone_def g(6))
    have "table_seen ?g i j table" if "t = Some table" for table
      using q(5) that g(7) w by (auto simp: table_seen_def g(6))
    then show "\<exists>i j. i \<le> j \<and> j \<le> length (fd_log f) \<and> unat event_seq = i \<and> (fd_whole ?g \<longrightarrow> gone ?g \<le> i) \<and>
        (\<forall>table. t = Some table \<longrightarrow> table_seen ?g i j table)"
      using q(1-4) w by (intro exI [of _ i] exI [of _ j]) simp
  qed
qed

section \<open>Steps of the actor\<close>

text \<open>The daemon, the rows and the page that is read stay as they are.\<close>

definition same_rows :: "feed \<Rightarrow> feed \<Rightarrow> bool" where
  "same_rows f g \<longleftrightarrow> fd_server g = fd_server f \<and> fd_table g = fd_table f \<and> fd_whole g = fd_whole f"

lemma same_rows_log: "same_rows f g \<Longrightarrow> fd_log g = fd_log f" "same_rows f g \<Longrightarrow> gone g = gone f"
  by (simp_all add: same_rows_def fd_log_def gone_def)

lemma same_rows_later: "same_rows f g \<Longrightarrow> later f g" "same_rows f g \<Longrightarrow> later g f"
  by (auto simp: same_rows_def intro: later_same)

lemma same_rows_ok:
  assumes f: "feed_ok after f" and g: "same_rows f g" and q: "fd_query g = fd_query f \<or> fd_query g = None"
    and h: "heard after g" and s: "socket_ok g"
  shows "feed_ok after g"
proof (rule feed_okI)
  note log = same_rows_log [OF g]
  show "reachable server_init server_step (fd_server g)" using f g by (simp add: feed_ok_def same_rows_def)
  show "table_ok g" using f g by (simp add: feed_ok_def table_ok_def log same_rows_def)
  have "table_seen g = table_seen f" using g by (simp add: fun_eq_iff table_seen_def log same_rows_def)
  then show "query_ok g" using f g q by (auto simp: feed_ok_def query_ok_def log same_rows_def)
qed (use h s in simp_all)

lemma same_rows_settle: "same_rows f (settle g) \<longleftrightarrow> same_rows f g"
  by (simp add: same_rows_def settle_def)

lemma settle_fields [simp]:
  "fd_server (settle f) = fd_server f" "fd_table (settle f) = fd_table f" "fd_actor (settle f) = fd_actor f"
  "fd_seen (settle f) = fd_seen f" "fd_whole (settle f) = fd_whole f"
  by (simp_all add: settle_def)

lemma settle_ok:
  assumes f: "feed_ok after f" and g: "same_rows f g" "fd_query g = fd_query f \<or> fd_query g = None"
    and h: "heard after g"
    and s: "\<And>s. fd_socket g = Some s \<Longrightarrow> ca_stream (fd_actor g) \<Longrightarrow> \<not> ca_stopped (fd_actor g) \<Longrightarrow>
      frames_ok f (unat (ca_cursor (fd_actor g))) s"
  shows "feed_ok after (settle g)"
proof (rule same_rows_ok [OF f])
  show r: "same_rows f (settle g)" using g(1) by (simp add: same_rows_settle)
  show "fd_query (settle g) = fd_query f \<or> fd_query (settle g) = None" using g(2) by (auto simp: settle_def)
  have "later g (settle g)" by (rule later_same) simp_all
  then show "heard after (settle g)" by (rule later_heard [OF _ h]) simp_all
  show "socket_ok (settle g)" unfolding socket_ok_def
  proof (intro allI impI)
    fix x assume x: "fd_socket (settle g) = Some x"
    then have a: "fd_socket g = Some x" "ca_stream (fd_actor g)" "\<not> ca_stopped (fd_actor g)"
      by (simp_all add: settle_def split: if_splits)
    with later_frames [OF same_rows_later(1) [OF r] s [OF a]]
    show "ca_stream (fd_actor (settle g)) \<and> \<not> ca_stopped (fd_actor (settle g)) \<and>
        frames_ok (settle g) (unat (ca_cursor (fd_actor (settle g)))) x" by simp
  qed
qed

text \<open>The actor says the same and keeps its cursor.\<close>

lemma actor_idle_ok:
  assumes f: "feed_ok after f" and a: "\<not> ca_stopped (fd_actor f)" "ca_cursor a = ca_cursor (fd_actor f)"
    "says after (fd_seen f) a = says after (fd_seen f) (fd_actor f)" and q: "q = fd_query f \<or> q = None"
    and x: "\<And>s. x = Some s \<Longrightarrow> ca_stream a \<Longrightarrow> \<not> ca_stopped a \<Longrightarrow> frames_ok f (unat (ca_cursor (fd_actor f))) s"
  shows "feed_ok after (settle (f\<lparr>fd_socket := x, fd_query := q, fd_actor := a\<rparr>))" (is "feed_ok after (settle ?g)")
proof (rule settle_ok [OF f])
  show r: "same_rows f ?g" by (simp add: same_rows_def)
  show "heard after ?g" using f a later_passes [OF same_rows_later(1) [OF r]] by (auto simp: feed_ok_def heard_def)
qed (use x a(2) q in simp_all)

lemma actor_same_ok:
  assumes f: "feed_ok after f" and a: "\<not> ca_stopped (fd_actor f)" "ca_cursor a = ca_cursor (fd_actor f)"
    "says after (fd_seen f) a = says after (fd_seen f) (fd_actor f)"
  shows "feed_ok after (settle (f\<lparr>fd_actor := a\<rparr>))"
proof -
  have "frames_ok f (unat (ca_cursor (fd_actor f))) s" if "fd_socket f = Some s" for s
    using f that by (simp add: feed_ok_def socket_ok_def)
  then have "feed_ok after (settle (f\<lparr>fd_socket := fd_socket f, fd_query := fd_query f, fd_actor := a\<rparr>))"
    by (intro actor_idle_ok [OF f a]) simp_all
  then show ?thesis by simp
qed

text \<open>A step of the daemon on its socket, or of the reader on the queue.\<close>

lemma socket_step_ok:
  assumes f: "feed_ok after f" and g: "same_rows f g" "fd_query g = fd_query f \<or> fd_query g = None"
    "fd_actor g = fd_actor f" "fd_seen g = fd_seen f"
    and s: "\<And>s. fd_socket g = Some s \<Longrightarrow> ca_stream (fd_actor f) \<and> \<not> ca_stopped (fd_actor f) \<and> frames_ok f (unat (ca_cursor (fd_actor f))) s"
  shows "feed_ok after g"
proof (rule same_rows_ok [OF f g(1,2)])
  note l = same_rows_later(1) [OF g(1)]
  show "heard after g" using f g(3,4) by (intro later_heard [OF l]) (simp_all add: feed_ok_def)
  show "socket_ok g" using s later_frames [OF l] by (simp add: socket_ok_def g(3))
qed

lemma close_ok:
  assumes f: "feed_ok after f" and s: "fd_socket f = Some (Some cursor, frames)"
  shows "feed_ok after (f\<lparr>fd_socket := Some (None, frames @ [CloseFrame])\<rparr>)" (is "feed_ok after ?g")
proof (rule socket_step_ok [OF f])
  fix x assume x: "fd_socket ?g = Some x"
  have act: "ca_stream (fd_actor f)" "\<not> ca_stopped (fd_actor f)" and fr: "frames_ok f (unat (ca_cursor (fd_actor f))) (Some cursor, frames)"
    using f s by (auto simp: feed_ok_def socket_ok_def)
  from fr obtain es d where "frames = map EventText es" "passes f (unat (ca_cursor (fd_actor f))) es d"
    by (auto simp: ending_ok_def elim: frames_okE)
  then have "frames_ok f (unat (ca_cursor (fd_actor f))) x" using x
    by (intro frames_okI [of x es "[CloseFrame]"]) (auto simp: ending_ok_def)
  with act show "ca_stream (fd_actor f) \<and> \<not> ca_stopped (fd_actor f) \<and> frames_ok f (unat (ca_cursor (fd_actor f))) x" by simp
qed (simp_all add: same_rows_def)

lemma latest_ok:
  assumes f: "feed_ok after f"
  shows "feed_ok after (f\<lparr>fd_query := Some (fd_seq f, None)\<rparr>)" (is "feed_ok after ?g")
proof (rule feed_okI)
  have r: "same_rows f ?g" by (simp add: same_rows_def)
  note l = same_rows_later(1) [OF r] same_rows_log [OF r]
  show "reachable server_init server_step (fd_server ?g)" "table_ok ?g" using f by (simp_all add: feed_ok_def table_ok_def l(2,3))
  show "heard after ?g" "socket_ok ?g" using later_heard [OF l(1)] later_socket [OF l(1)] f by (simp_all add: feed_ok_def)
  show "query_ok ?g" using feed_log(2) [OF f] by (auto simp: query_ok_def l(2,3) intro!: exI [of _ "length (fd_log f)"]) (simp add: gone_def)
qed

lemma oldest_ok:
  assumes f: "feed_ok after f" and q: "fd_query f = Some (event_seq, None)"
  shows "feed_ok after (f\<lparr>fd_query := Some (event_seq, Some (fd_table f))\<rparr>)" (is "feed_ok after ?g")
proof (rule feed_okI)
  have r: "same_rows f ?g" by (simp add: same_rows_def)
  note l = same_rows_later(1) [OF r] same_rows_log [OF r]
  show "reachable server_init server_step (fd_server ?g)" "table_ok ?g" using f unfolding feed_ok_def table_ok_def l(2,3) by simp_all
  show "heard after ?g" "socket_ok ?g" using later_heard [OF l(1)] later_socket [OF l(1)] f by (simp_all add: feed_ok_def)
  obtain i j where i: "i \<le> j" "j \<le> length (fd_log f)" "unat event_seq = i" "fd_whole f \<longrightarrow> gone f \<le> i"
    using f q by (auto simp: feed_ok_def query_ok_def)
  have t: "subseq (fd_table f) (fd_log f)" "fd_whole f \<longrightarrow> fd_table f = drop (gone f) (fd_log f)"
    using f by (simp_all add: feed_ok_def table_ok_def)
  have "set (fd_table f) \<subseteq> set (fd_log f)" using t(1) by (metis set_nths_subset subseq_conv_nths)
  then have "table_seen ?g i (length (fd_log f)) (fd_table f)" using t(2) i(4) unfolding table_seen_def l(2,3) by simp
  then show "query_ok ?g" using i by (auto simp: query_ok_def l(2,3) intro!: exI [of _ "length (fd_log f)"])
qed

section \<open>A page\<close>

text \<open>A page that asks to resync: the row at the cursor was deleted.\<close>

lemma min_seq_le:
  assumes "numbered log" "set table \<subseteq> set log" "min_seq table = Some v" "e \<in> set table"
  shows "unat (read_column v) \<le> unat (ee_seq e)" "\<exists>x \<in> set table. read_column v = ee_seq x"
proof -
  let ?s = "\<lambda>e. sint (ee_seq e)"
  have ne: "table \<noteq> []" using assms(4) by auto
  have v: "v = word_of_int (Min (?s ` set table))" using assms(3) ne by (simp add: min_seq_def)
  have "Min (?s ` set table) \<in> ?s ` set table" using ne by (intro Min_in) simp_all
  then obtain x where x: "x \<in> set table" "Min (?s ` set table) = ?s x" by auto
  have small: "\<exists>i. read_column (ee_seq y) = ee_seq y \<and> ?s y = int (unat (ee_seq y))" if "y \<in> set table" for y
  proof -
    from that assms(2) obtain i where "i < length log" "y = log ! i" by (metis in_set_conv_nth subsetD)
    then show ?thesis using numbered_nth [OF assms(1)] by simp
  qed
  have "v = ee_seq x" using v x(2) by simp
  with x(1) small show "\<exists>x \<in> set table. read_column v = ee_seq x" by auto
  have "?s x \<le> ?s e" unfolding x(2) [symmetric] using assms(4) by (intro Min_le) simp_all
  then show "unat (read_column v) \<le> unat (ee_seq e)" using small [OF x(1)] small [OF assms(4)] \<open>v = ee_seq x\<close>
    by (auto simp: word_le_def word_le_nat_alt [symmetric])
qed

lemma page_resync:
  assumes log: "numbered (fd_log f)" and i: "i \<le> j" "j \<le> length (fd_log f)" "unat event_seq = i" and t: "table_seen f i j table"
    and c: "unat cursor < 2 ^ 63" and r: "ep_resync_required (view_page \<lparr>pv_event_seq = event_seq, pv_table = table, pv_rows = rows\<rparr> cursor batch)"
  shows "deleted_at f (unat cursor)"
proof -
  have len: "length (fd_log f) < 2 ^ 63" using log by (simp add: numbered_def)
  have sub: "set table \<subseteq> set (take j (fd_log f))"
    and rows: "\<And>m. m < j \<Longrightarrow> fd_log f ! m \<in> set (fd_table f) \<Longrightarrow> fd_log f ! m \<in> set table" using t by (auto simp: table_seen_def)
  then have sub': "set table \<subseteq> set (fd_log f)" by (meson set_take_subset subset_trans)
  have "unat cursor < j \<and> fd_log f ! unat cursor \<notin> set table"
  proof (cases "min_seq table")
    case None
    then have "table = []" by (simp add: min_seq_def split: if_splits)
    moreover have "read_column event_seq = event_seq" using i len by (intro read_column_id) simp
    then have "unat cursor < i" using r None i(3) by (simp add: view_page_def events_after_def Let_def word_less_nat_alt split: if_splits)
    ultimately show ?thesis using i(1) by simp
  next
    case (Some v)
    then obtain e where "e \<in> set table" by (cases table) (auto simp: min_seq_def)
    note m = min_seq_le [OF log sub' Some]
    obtain x where x: "x \<in> set table" "read_column v = ee_seq x" using m(2) [OF \<open>e \<in> set table\<close>] by blast
    then obtain n where n: "n < j" "x = fd_log f ! n" using sub by (metis in_set_conv_nth length_take min_less_iff_conj nth_take subsetD)
    have "unat (saturating_add cursor 1) = Suc (unat cursor)" using c by (simp add: saturating_add_one)
    then have less: "Suc (unat cursor) < unat (read_column v)"
      using r Some by (simp add: view_page_def events_after_def Let_def word_less_nat_alt split: if_splits)
    then have cj: "unat cursor < j" using numbered_nth(1) [OF log, of n] n i(2) x(2) by simp
    have "unat (ee_seq (fd_log f ! unat cursor)) = Suc (unat cursor)" using cj i(2) by (intro numbered_nth(1) [OF log]) simp
    then have "fd_log f ! unat cursor \<notin> set table" using m(1) less by fastforce
    with cj show ?thesis by simp
  qed
  then show ?thesis using rows i(2) by (auto simp: deleted_at_def)
qed

text \<open>The rows of a page, whatever the table looks like.\<close>

lemma page_rows:
  assumes log: "numbered xs" and sub: "subseq rows xs" and c: "unat (cursor :: u64) < 2 ^ 63"
  shows "map (\<lambda>e. e\<lparr>ee_seq := read_column (ee_seq e)\<rparr>)
      (take b (sort_key (\<lambda>e. sint (ee_seq e)) (filter (\<lambda>e. sint cursor < sint (ee_seq e)) rows)))
    = take b (filter (\<lambda>e. e \<in> set rows) (drop (unat cursor) xs))"
proof -
  let ?later = "\<lambda>e. sint cursor < sint (ee_seq e)" and ?k = "\<lambda>e. sint (ee_seq e)"
  have "distinct xs" using numbered_distinct [OF log] by (simp add: distinct_map)
  then have "rows = filter (\<lambda>e. e \<in> set rows) xs" using sub by (intro subseq_filter_of)
  then have "filter ?later rows = filter (\<lambda>e. e \<in> set rows) (filter ?later xs)"
    by (metis (no_types, lifting) filter_filter filter_cong conj_commute)
  also have "filter ?later xs = drop (unat cursor) xs" using numbered_filter [OF log c, of 0] by simp
  finally have f: "filter ?later rows = filter (\<lambda>e. e \<in> set rows) (drop (unat cursor) xs)" .
  have "sorted (map ?k xs)" using numbered_nth(2) [OF log] by (auto simp: sorted_iff_nth_mono)
  then have "sorted (map ?k (drop (unat cursor) xs))" unfolding drop_map [symmetric] by (rule sorted_wrt_drop)
  then have "sorted (map ?k (filter (\<lambda>e. e \<in> set rows) (drop (unat cursor) xs)))" by (rule sorted_filter)
  then have "sort_key ?k (filter ?later rows) = filter (\<lambda>e. e \<in> set rows) (drop (unat cursor) xs)" unfolding f by (rule sort_key_id_if_sorted)
  moreover have "set (take b (filter (\<lambda>e. e \<in> set rows) (drop (unat cursor) xs))) \<subseteq> set xs"
    by (meson filter_is_subset set_drop_subset set_take_subset subset_trans)
  ultimately show ?thesis using numbered_read [OF log] by simp
qed

text \<open>They take a reader from the cursor to the last of them, missing only rows that are gone.\<close>

lemma filter_append_split: "filter P xs = ys @ zs \<Longrightarrow> \<exists>us vs. xs = us @ vs \<and> filter P us = ys \<and> filter P vs = zs"
proof (induction ys arbitrary: xs)
  case Nil
  then show ?case by (intro exI [of _ "[]"] exI [of _ xs]) simp
next
  case (Cons y ys)
  then obtain us vs where x: "xs = us @ y # vs" "\<forall>u \<in> set us. \<not> P u" "P y" "filter P vs = ys @ zs"
    by (auto simp: filter_eq_Cons_iff)
  from Cons.IH [OF x(4)] obtain as bs where "vs = as @ bs" "filter P as = ys" "filter P bs = zs" by blast
  with x show ?case by (intro exI [of _ "us @ y # as"] exI [of _ bs]) simp
qed

lemma page_passes:
  fixes b
  assumes log: "numbered (fd_log f)" and c: "unat cursor \<le> length (fd_log f)" and w: "\<not> fd_whole f"
  defines "es \<equiv> take b (filter (\<lambda>e. e \<in> set (fd_table f)) (drop (unat cursor) (fd_log f)))"
  shows "passes f (unat cursor) es (unat (if es = [] then cursor else ee_seq (last es)))"
proof (cases "es = []")
  case True
  then show ?thesis using passes_refl [OF c] by simp
next
  case False
  let ?Q = "\<lambda>e. e \<in> set (fd_table f)" and ?L = "drop (unat cursor) (fd_log f)"
  obtain es' x where es: "es = es' @ [x]" using False by (metis append_butlast_last_id)
  have "filter ?Q ?L = es' @ x # drop b (filter ?Q ?L)"
    using append_take_drop_id [of b "filter ?Q ?L"] unfolding es_def [symmetric] es by simp
  then obtain us vs where us: "?L = us @ vs" "filter ?Q us = es'" "filter ?Q vs = x # drop b (filter ?Q ?L)"
    using filter_append_split by blast
  from us(3) obtain ws zs where ws: "vs = ws @ x # zs" "\<forall>u \<in> set ws. \<not> ?Q u" "?Q x" by (auto simp: filter_eq_Cons_iff)
  define L where "L = us @ ws @ [x]"
  let ?d = "unat cursor + length L"
  have split: "?L = L @ zs" using us(1) ws(1) by (simp add: L_def)
  have len: "length (fd_log f) - unat cursor = length L + length zs" using arg_cong [OF split, of length] by (simp only: length_drop length_append)
  have s: "stretch f (unat cursor) ?d = L" by (simp add: stretch_def split)
  have "filter ?Q L = es" using us(2) ws(2,3) es by (simp add: L_def)
  then have "subseq es L" "set L - set es \<subseteq> lost f"
    using set_drop_subset [of "unat cursor" "fd_log f"] split w by (auto simp: lost_def)
  then have "passes f (unat cursor) es ?d" using len c by (simp add: passes_def s)
  moreover have "unat (ee_seq x) = ?d"
  proof -
    have "x = ?L ! (length L - 1)" by (simp add: split L_def nth_append)
    then have "x = fd_log f ! (unat cursor + (length L - 1))" using len by (simp add: L_def)
    then show ?thesis using numbered_nth(1) [OF log, of "unat cursor + (length L - 1)"] len by (simp add: L_def)
  qed
  ultimately show ?thesis using False es by simp
qed

lemma page_ok:
  assumes f: "feed_ok after f" and s: "fd_socket f = Some (Some cursor, frames)" and q: "fd_query f = Some (event_seq, Some table)"
    and p: "socket_page \<lparr>pv_event_seq = event_seq, pv_table = table, pv_rows = fd_table f\<rparr> batch cursor = (sent, cursor')"
  shows "feed_ok after (f\<lparr>fd_socket := Some (cursor', frames @ sent), fd_query := None\<rparr>)" (is "feed_ok after ?g")
proof (rule socket_step_ok [OF f])
  fix x assume "fd_socket ?g = Some x"
  then have x: "x = (cursor', frames @ sent)" by simp
  let ?c = "unat (ca_cursor (fd_actor f))" and ?log = "fd_log f" and ?b = "max (unat batch) 1"
  let ?page = "view_page \<lparr>pv_event_seq = event_seq, pv_table = table, pv_rows = fd_table f\<rparr> cursor batch"
  have act: "ca_stream (fd_actor f)" "\<not> ca_stopped (fd_actor f)" and fr: "frames_ok f ?c (Some cursor, frames)"
    using f s by (auto simp: feed_ok_def socket_ok_def)
  from fr obtain es where es: "frames = map EventText es" "passes f ?c es (unat cursor)"
    by (auto simp: ending_ok_def elim: frames_okE)
  note log = feed_log [OF f]
  have cur: "unat cursor \<le> length ?log" "unat cursor < 2 ^ 63" using es(2) log(3) by (simp_all add: passes_def)
  obtain i j where i: "i \<le> j" "j \<le> length ?log" "unat event_seq = i" "table_seen f i j table"
    using f q by (auto simp: feed_ok_def query_ok_def)
  have t: "subseq (fd_table f) ?log" "fd_whole f \<Longrightarrow> fd_table f = drop (gone f) ?log" using f by (simp_all add: feed_ok_def table_ok_def)
  have "frames_ok f ?c (cursor', frames @ sent)"
  proof (cases "ep_resync_required ?page")
    case True
    then have "sent = [ErrorText (api_error_new error_code.ResyncRequired ''event cursor is outside retention; fetch a snapshot'')]"
      "cursor' = None" using p by (simp_all add: socket_page_def Let_def)
    moreover have "deleted_at f (unat cursor)" by (rule page_resync [OF log(1) i cur(2) True])
    ultimately show ?thesis using es
      by (intro frames_okI [of _ es sent _ _ "unat cursor"]) (simp_all add: ending_ok_def api_error_new_def)
  next
    case False
    define new where "new = ep_events ?page"
    have out: "sent = map EventText new" "cursor' = Some (if new = [] then cursor else ee_seq (last new))"
      using p False by (auto simp: socket_page_def Let_def new_def)
    have "passes f (unat cursor) new (unat (if new = [] then cursor else ee_seq (last new)))"
    proof (cases "fd_whole f")
      case True
      then have w: "gone f \<le> i" "table = drop (gone f) (take j ?log)" "fd_table f = drop (gone f) (take (length ?log) ?log)"
        using i(4) t(2) by (simp_all add: table_seen_def)
      note page = events_after_seen [OF log(1) w(1) i(1) order_refl i(2,3) cur(2), where rows = "fd_table f" and limit = batch, folded w(2)]
      have "\<not> unat cursor < gone f" using False page(1) by (simp add: view_page_def)
      from page(2) [OF this w(3)] have new: "new = take ?b (drop (unat cursor) (take (length ?log) ?log))" by (simp add: new_def view_page_def)
      have d: "unat (if new = [] then cursor else ee_seq (last new)) = unat cursor + length new"
        unfolding new by (rule page_cursor [OF log(1) order_refl cur(1)])
      have "new = stretch f (unat cursor) (unat cursor + length new)" unfolding new by (simp add: stretch_def min_def)
      moreover have "unat cursor + length new \<le> length ?log" using cur(1) by (simp add: new)
      ultimately show ?thesis unfolding d using passes_all [of "unat cursor" "unat cursor + length new" f] by simp
    next
      case w: False
      have "new = take ?b (filter (\<lambda>e. e \<in> set (fd_table f)) (drop (unat cursor) ?log))"
        using False unfolding new_def view_page_def events_after_def Let_def page_rows [OF log(1) t(1) cur(2), symmetric]
        by (simp split: if_splits)
      with page_passes [OF log(1) cur(1) w, of ?b] show ?thesis by (simp only:)
    qed
    from passes_trans [OF es(2) this] show ?thesis using es(1) out
      by (intro frames_okI [of _ "es @ new" "[]"]) (simp_all add: ending_ok_def)
  qed
  with act show "ca_stream (fd_actor f) \<and> \<not> ca_stopped (fd_actor f) \<and> frames_ok f ?c x" by (simp add: x)
qed (simp_all add: same_rows_def)

section \<open>The client takes a frame\<close>

text \<open>The first frame on its way: an event, or the end of the socket.\<close>

lemma first_frame:
  assumes "frames_ok f c (cursor, frame # frames)" and dist: "distinct (fd_log f)"
  obtains (event) i where "c \<le> i" "i < length (fd_log f)" "frame = EventText (fd_log f ! i)" "passes f c [fd_log f ! i] (Suc i)"
      "frames_ok f (Suc i) (cursor, frames)"
  | (closed) "frame = CloseFrame"
  | (resync) e d where "frame = ErrorText e" "ae_code e = error_code.ResyncRequired" "passes f c [] d" "deleted_at f d"
proof (rule frames_okE [OF assms(1)])
  fix es d rest assume j: "snd (cursor, frame # frames) = map EventText es @ rest" "passes f c es d" "ending_ok f d (fst (cursor, frame # frames)) rest"
  show thesis
  proof (cases es)
    case Nil
    then show thesis using j closed resync by (auto simp: ending_ok_def split: option.splits)
  next
    case (Cons e tl)
    from j(2) [unfolded Cons] dist obtain i where i: "c \<le> i" "i < d" "e = fd_log f ! i" "passes f c [e] (Suc i)" "passes f (Suc i) tl d"
      by (rule passes_Cons)
    have "frame = EventText e" "frames = map EventText tl @ rest" using j(1) Cons by simp_all
    moreover have "i < length (fd_log f)" using i(2) j(2) by (simp add: passes_def)
    ultimately show thesis using i j(3) by (intro event frames_okI [of _ tl rest]) simp_all
  qed
qed

lemma heard_later:
  assumes h: "passes f (fst (says after (fd_seen f) (fd_actor f))) (snd (says after (fd_seen f) (fd_actor f))) c"
    and g: "same_rows f g" "fd_seen g = fd_seen f"
    and r: "says after (fd_seen f) (fd_actor g) = noted (says after (fd_seen f) (fd_actor f)) x \<and> unat (ca_cursor (fd_actor g)) = d \<or>
      ca_stopped (fd_actor g) \<and> says after (fd_seen f) (fd_actor g) = says after (fd_seen f) (fd_actor f)"
    and x: "x = Event e \<and> passes f c [e] d \<or> (\<exists>s. x = Snapshot s \<and> unat (s_event_seq s) = d \<and> d \<le> length (fd_log f))"
  shows "heard after g"
proof -
  note l = later_passes [OF same_rows_later(1) [OF g(1)]]
  from r show ?thesis
  proof
    assume a: "says after (fd_seen f) (fd_actor g) = noted (says after (fd_seen f) (fd_actor f)) x \<and> unat (ca_cursor (fd_actor g)) = d"
    let ?r = "noted (says after (fd_seen f) (fd_actor f)) x"
    have "passes f (fst ?r) (snd ?r) d" using x passes_trans [OF h] passes_refl by (auto simp: noted_def)
    from l [OF this] a show ?thesis unfolding heard_def g(2) by auto
  next
    assume "ca_stopped (fd_actor g) \<and> says after (fd_seen f) (fd_actor g) = says after (fd_seen f) (fd_actor f)"
    with l [OF h] show ?thesis unfolding heard_def g(2) by auto
  qed
qed

lemma receive_ok:
  assumes f: "feed_ok after f" and s: "fd_socket f = Some (cursor, frame # frames)" and act: "\<not> ca_stopped (fd_actor f)"
    and snap: "\<forall>s. reload = Inr s \<longrightarrow> s_event_seq s = s_event_seq (st_world (sr_store (fd_server f)))"
  shows "feed_ok after (settle (f\<lparr>fd_socket := Some (cursor, frames),
     fd_actor := actor_receive raced wake reload (stream_next json_len frame) (fd_actor f)\<rparr>))"
    (is "feed_ok after (settle (f\<lparr>fd_socket := _, fd_actor := ?a\<rparr>))")
proof -
  let ?c = "unat (ca_cursor (fd_actor f))" and ?g = "f\<lparr>fd_socket := Some (cursor, frames), fd_actor := ?a\<rparr>"
  have fr: "frames_ok f ?c (cursor, frame # frames)" using f s by (auto simp: feed_ok_def socket_ok_def)
  have h: "passes f (fst (says after (fd_seen f) (fd_actor f))) (snd (says after (fd_seen f) (fd_actor f))) ?c"
    using f act by (auto simp: feed_ok_def heard_def)
  have same: "same_rows f ?g" by (simp add: same_rows_def)
  have idle: "feed_ok after (settle ?g)" if "ca_cursor ?a = ca_cursor (fd_actor f)" "\<not> ca_stream ?a"
    "says after (fd_seen f) ?a = says after (fd_seen f) (fd_actor f)"
    using actor_idle_ok [OF f act that(1,3), of "fd_query f" "Some (cursor, frames)"] that(2) by simp
  from fr feed_log(4) [OF f] show ?thesis
  proof (cases rule: first_frame)
    case (event i)
    show ?thesis
    proof (cases "MAX_COMMAND_BODY_BYTES < json_len (fd_log f ! i)")
      case True
      then show ?thesis using event receive_quiet [of "stream_next json_len frame" "''event frame exceeds the client limit''"]
        by (intro idle) (simp_all add: stream_next_def)
    next
      case False
      then have a: "?a = actor_receive raced wake reload (NextEvent (fd_log f ! i)) (fd_actor f)"
        using event by (simp add: stream_next_def)
      note r = receive_event [where e = "fd_log f ! i" and raced = raced and wake = wake and reload = reload, OF act, folded a]
      have seq: "unat (ee_seq (fd_log f ! i)) = Suc i" by (rule numbered_nth(1) [OF feed_log(1) [OF f] event(2)])
      show ?thesis
      proof (rule settle_ok [OF f same])
        show "heard after ?g" by (rule heard_later [OF h same, where x = "Event (fd_log f ! i)" and d = "Suc i"]) (use r seq event in auto)
      qed (use r(1) seq event(5) in simp_all)
    qed
  next
    case closed
    then show ?thesis using receive_quiet [of "stream_next json_len frame"] by (intro idle) (simp_all add: stream_next_def)
  next
    case (resync e d)
    then have n: "stream_next json_len frame = NextResync" by (simp add: stream_next_def)
    show ?thesis
    proof (cases reload)
      case (Inl m)
      then show ?thesis using n receive_quiet [of NextResync m reload] by (intro idle) simp_all
    next
      case (Inr snapshot)
      then have a: "?a = actor_receive raced wake (Inr snapshot) NextResync (fd_actor f)" using n by simp
      note r = receive_resync [where s = snapshot and a = "fd_actor f" and raced = raced and wake = wake, folded a]
      have seq: "unat (s_event_seq snapshot) = length (fd_log f)" using snap Inr feed_seq [OF f] by simp
      show ?thesis
      proof (rule settle_ok [OF f same])
        show "heard after ?g" by (rule heard_later [OF h same, where x = "Snapshot snapshot" and d = "length (fd_log f)"]) (use r(2) [of after "fd_seen f"] seq in auto)
      qed (use r(1) in simp_all)
    qed
  qed
qed

lemma take_ok:
  assumes f: "feed_ok after f" and q: "ca_queue (fd_actor f) = event # queue"
  shows "feed_ok after (f\<lparr>fd_actor := (fd_actor f)\<lparr>ca_queue := queue\<rparr>, fd_seen := fd_seen f @ [event]\<rparr>)" (is "feed_ok after ?g")
proof (rule same_rows_ok [OF f])
  show r: "same_rows f ?g" by (simp add: same_rows_def)
  note l = same_rows_later(1) [OF r]
  have "says after (fd_seen ?g) (fd_actor ?g) = says after (fd_seen f) (fd_actor f)" using q by (simp add: says_def)
  then show "heard after ?g" using f later_passes [OF l] unfolding feed_ok_def heard_def by auto
  show "socket_ok ?g" using f later_frames [OF l] by (auto simp: feed_ok_def socket_ok_def)
qed simp

lemma drop_ok:
  assumes f: "feed_ok after f"
  shows "feed_ok after (f\<lparr>fd_actor := (fd_actor f)\<lparr>ca_closed := True\<rparr>\<rparr>)" (is "feed_ok after ?g")
proof (rule same_rows_ok [OF f])
  show r: "same_rows f ?g" by (simp add: same_rows_def)
  note l = same_rows_later(1) [OF r]
  show "heard after ?g" using f later_passes [OF l] by (auto simp: feed_ok_def heard_def)
  show "socket_ok ?g" using f later_frames [OF l] by (auto simp: feed_ok_def socket_ok_def)
qed simp

lemma feed_step_ok: "feed_step json_len f g \<Longrightarrow> feed_ok after f \<Longrightarrow> feed_ok after g"
proof (induction rule: feed_step.induct)
  case (feed_connect f raced wake)
  have "heard after f" using feed_connect.prems by (simp add: feed_ok_def)
  then have c: "unat (ca_cursor (fd_actor f)) \<le> length (fd_log f)" using feed_connect.hyps(1) by (auto simp: heard_def passes_def)
  have "frames_ok f (unat (ca_cursor (fd_actor f))) (Some (ca_cursor (fd_actor f)), [])"
    using passes_refl [OF c] by (intro frames_okI [of _ "[]" "[]"]) (simp_all add: ending_ok_def)
  then show ?case
    using actor_idle_ok [OF feed_connect.prems feed_connect.hyps(1) actor_connect_keeps, of None "Some (Some (ca_cursor (fd_actor f)), [])" raced wake None]
    by simp
next
  case (feed_unreachable f raced wake message)
  show ?case by (rule actor_same_ok [OF feed_unreachable.prems feed_unreachable.hyps(1) actor_connect_keeps])
next
  case (feed_lost f s item message raced wake reload)
  have "item = NextClosed \<or> item = NextFailed message \<or> item = NextResync \<and> reload = Inl message" using feed_lost.hyps(3) by blast
  from receive_quiet(1,2) [OF this] show ?case by (rule actor_same_ok [OF feed_lost.prems feed_lost.hyps(2)])
next
  case (feed_command f raced wake)
  show ?case by (rule actor_same_ok [OF feed_command.prems feed_command.hyps(1) actor_command_keeps])
qed (simp_all add: serve_ok prune_ok latest_ok oldest_ok page_ok close_ok receive_ok take_ok drop_ok)

lemma feed_init_ok: "feed_init after f \<Longrightarrow> feed_ok after f"
proof (rule feed_okI)
  assume i: "feed_init after f"
  then show "reachable server_init server_step (fd_server f)" "socket_ok f" "query_ok f" by (simp_all add: feed_init_def socket_ok_def query_ok_def)
  show "heard after f" using i passes_refl
    by (auto simp: feed_init_def heard_def actor_start_def says_def replica_def)
  show "table_ok f" unfolding table_ok_def
  proof (intro conjI impI)
    show "subseq (fd_table f) (fd_log f)" using i by (simp add: feed_init_def)
    assume "fd_whole f"
    then obtain n where n: "fd_table f = drop n (fd_log f)" using i by (auto simp: feed_init_def)
    show "fd_table f = drop (gone f) (fd_log f)" by (cases "n \<le> length (fd_log f)") (simp_all add: gone_def n)
  qed
qed

interpretation feeding: invariant_system "feed_init after" "feed_step json_len" "feed_ok after" for after json_len
  by unfold_locales (auto intro: feed_init_ok feed_step_ok)

end
