(* ===== verification/FeedProperties.thy ===== *)
theory FeedProperties
  imports ClientFeed Installation
begin

text \<open>What a client learns through the event feed, and what stops it.\<close>

section \<open>A small feed\<close>

text \<open>A client that starts at the beginning connects to the daemon of the demonstration and is sent its six events.\<close>

definition demo_log :: "event_envelope list" where
  "demo_log = map snd (st_events (sr_store demo_server))"

definition demo_feed :: feed where
  "demo_feed = \<lparr>fd_server = demo_server, fd_table = demo_log, fd_whole = True, fd_socket = None, fd_query = None, fd_actor = actor_start 0, fd_seen = []\<rparr>"

definition demo_feed_connected :: feed where
  "demo_feed_connected = demo_feed\<lparr>fd_actor := (actor_start 0)\<lparr>ca_stream := True, ca_queue := [Connected 0]\<rparr>, fd_socket := Some (Some 0, [])\<rparr>"

text \<open>The daemon reads a page in three statements.\<close>

definition demo_feed_reading :: feed where
  "demo_feed_reading = demo_feed_connected\<lparr>fd_query := Some (st_event_seq (sr_store demo_server), Some demo_log)\<rparr>"

definition demo_feed_sent :: feed where
  "demo_feed_sent = demo_feed_connected\<lparr>fd_socket := Some (Some (st_event_seq (sr_store demo_server)), map EventText demo_log)\<rparr>"

lemma demo_log_facts: "length demo_log = 6" "fd_log demo_feed = demo_log" "fd_log demo_feed_connected = demo_log" "fd_log demo_feed_sent = demo_log"
  using demo_server_facts(4)
  by (simp_all add: demo_log_def demo_feed_def demo_feed_connected_def demo_feed_sent_def fd_log_def)

lemma demo_feed_connected_reachable: "reachable (feed_init 0) (feed_step json_len) demo_feed_connected"
proof -
  have i: "feed_init 0 demo_feed" unfolding feed_init_def demo_log_facts(2)
    using demo_server_reachable by (auto simp: demo_feed_def intro: exI [of _ 0])
  have "feed_step json_len demo_feed demo_feed_connected"
    using feed_connect [of demo_feed json_len False Slept]
    by (simp add: demo_feed_def demo_feed_connected_def actor_start_def actor_connect_def emit_or_end_def
        try_emit_connection_event_def EVENT_QUEUE_def settle_def)
  with reach_init [where init = "feed_init 0" and s = demo_feed, OF i] show ?thesis by (rule reach_step)
qed

lemma demo_feed_reading_reachable: "reachable (feed_init 0) (feed_step json_len) demo_feed_reading"
proof -
  let ?seq = "st_event_seq (sr_store demo_server)"
  have 1: "feed_step json_len demo_feed_connected (demo_feed_connected\<lparr>fd_query := Some (?seq, None)\<rparr>)"
    using feed_latest [of demo_feed_connected 0 "[]" json_len] by (simp add: demo_feed_connected_def demo_feed_def fd_seq_def)
  have 2: "feed_step json_len (demo_feed_connected\<lparr>fd_query := Some (?seq, None)\<rparr>) demo_feed_reading"
    using feed_oldest [of "demo_feed_connected\<lparr>fd_query := Some (?seq, None)\<rparr>" ?seq json_len]
    by (simp add: demo_feed_reading_def demo_feed_connected_def demo_feed_def)
  from reach_step [OF reach_step [OF demo_feed_connected_reachable 1] 2] show ?thesis .
qed

lemma demo_feed_sent_reachable: "reachable (feed_init 0) (feed_step json_len) demo_feed_sent"
proof -
  let ?seq = "st_event_seq (sr_store demo_server)"
  let ?view = "\<lparr>pv_event_seq = ?seq, pv_table = demo_log, pv_rows = demo_log\<rparr>"
  note n = log_numbered [OF reachable_log [OF demo_server_reachable], folded demo_log_def]
  have q: "unat ?seq = length demo_log" using n(2) by (simp add: demo_log_def)
  note page = events_after_seen [OF n(1) le0 order_refl order_refl order_refl q, of "0 :: u64" demo_log 8, simplified]
  have e: "ep_events (view_page ?view 0 8) = demo_log" using page(2) demo_log_facts(1) by (simp add: view_page_def)
  have "unat (ee_seq (last demo_log)) = 6"
    using numbered_last [OF n(1), of 6 0] demo_log_facts(1) by simp
  then have "ee_seq (last demo_log) = ?seq" using q demo_log_facts(1) by (simp add: word_unat_eq_iff)
  moreover have "\<not> ep_resync_required (view_page ?view 0 8)" using page(1) by (simp add: view_page_def)
  ultimately have "socket_page ?view 8 0 = (map EventText demo_log, Some ?seq)"
    using e demo_log_facts(1) by (auto simp: socket_page_def Let_def)
  then have "feed_step json_len demo_feed_reading demo_feed_sent"
    using feed_page [of demo_feed_reading 0 "[]" ?seq demo_log 8 "map EventText demo_log" "Some ?seq" json_len]
    by (simp add: demo_feed_reading_def demo_feed_connected_def demo_feed_sent_def demo_feed_def)
  with demo_feed_reading_reachable show ?thesis by (rule reach_step)
qed

text \<open>The client takes the first frame.\<close>

definition demo_feed_received :: "(event_envelope \<Rightarrow> nat) \<Rightarrow> feed" where
  "demo_feed_received json_len = settle (demo_feed_sent\<lparr>fd_socket := Some (Some (st_event_seq (sr_store demo_server)), map EventText (tl demo_log)),
     fd_actor := actor_receive False Slept (Inl []) (stream_next json_len (EventText (hd demo_log))) (fd_actor demo_feed_sent)\<rparr>)"

lemma demo_feed_receive: "feed_step json_len demo_feed_sent (demo_feed_received json_len)"
proof -
  have "demo_log \<noteq> []" using demo_log_facts(1) by auto
  then have "map EventText demo_log = EventText (hd demo_log) # map EventText (tl demo_log)" by (metis list.collapse list.simps(9))
  then have "fd_socket demo_feed_sent = Some (Some (st_event_seq (sr_store demo_server)), EventText (hd demo_log) # map EventText (tl demo_log))"
    by (simp add: demo_feed_sent_def)
  then show ?thesis unfolding demo_feed_received_def
    by (rule feed_receive) (simp_all add: demo_feed_sent_def demo_feed_connected_def actor_start_def)
qed

section \<open>The client follows the log\<close>

text \<open>
  C8: what a client sees of the history. However requests, daemon jobs, restarts, deletions by the retention loop (also between
  the three statements of a page, and out of order after the clock ran back), reconnects, lost connections, closed sockets
  and requests to resync interleave, the events that the connection actor has handed out since its last snapshot are
  events of the log after that snapshot, in order and none twice, and every event in between that it has not handed
  out has been deleted; until the actor stops they reach up to its cursor. If the deleted rows always were the
  oldest and none was deleted between the statements of a page (\<open>fd_whole\<close>), no event is missing at all. The log grows by the
  steps of \<open>server_step\<close> only.
\<close>

theorem client_follows_log:
  assumes "reachable (feed_init after) (feed_step json_len) f"
    and "replica after (fd_seen f @ ca_queue (fd_actor f)) = (base, events)"
  shows "\<exists>d. base \<le> d \<and> d \<le> length (fd_log f) \<and> (ca_stopped (fd_actor f) \<or> d = unat (ca_cursor (fd_actor f))) \<and>
    subseq events (take (d - base) (drop base (fd_log f))) \<and>
    (\<forall>e \<in> set (take (d - base) (drop base (fd_log f))) - set events. e \<notin> set (fd_table f)) \<and>
    (fd_whole f \<longrightarrow> events = take (d - base) (drop base (fd_log f)))"
proof -
  have ok: "feed_ok after f" by (rule feeding.reachable_inv [OF assms(1)])
  then have "heard after f" by (simp add: feed_ok_def)
  then obtain d where d: "passes f base events d" "ca_stopped (fd_actor f) \<or> d = unat (ca_cursor (fd_actor f))"
    using assms(2) by (auto simp: heard_def says_def)
  have "fd_whole f \<longrightarrow> events = take (d - base) (drop base (fd_log f))"
    using passes_whole [OF d(1) _ feed_log(4) [OF ok]] by (simp add: stretch_def)
  moreover have "e \<notin> set (fd_table f)" if "e \<in> set (take (d - base) (drop base (fd_log f))) - set events" for e
    using d(1) that by (auto simp: passes_def stretch_def lost_def)
  ultimately show ?thesis using d by (intro exI [of _ d]) (simp add: passes_def stretch_def)
qed

theorem client_follows_log_witness:
  "reachable (feed_init 0) (feed_step (\<lambda>_. 0)) (demo_feed_received (\<lambda>_. 0)) \<and>
   replica 0 (fd_seen (demo_feed_received (\<lambda>_. 0)) @ ca_queue (fd_actor (demo_feed_received (\<lambda>_. 0)))) = (0, [hd demo_log]) \<and>
   subseq [hd demo_log] (fd_log (demo_feed_received (\<lambda>_. 0))) \<and> [hd demo_log] = take 1 (fd_log (demo_feed_received (\<lambda>_. 0)))"
proof -
  have r: "reachable (feed_init 0) (feed_step (\<lambda>_. 0)) (demo_feed_received (\<lambda>_. 0))"
    by (rule reach_step [OF demo_feed_sent_reachable demo_feed_receive])
  have n: "replica 0 (fd_seen (demo_feed_received (\<lambda>_. 0)) @ ca_queue (fd_actor (demo_feed_received (\<lambda>_. 0)))) = (0, [hd demo_log])"
    by (simp add: demo_feed_received_def demo_feed_sent_def demo_feed_connected_def demo_feed_def actor_start_def stream_next_def
        actor_receive_def emit_or_end_def try_emit_connection_event_def EVENT_QUEUE_def replica_def noted_def)
  have w: "fd_whole (demo_feed_received (\<lambda>_. 0))"
    by (simp add: demo_feed_received_def demo_feed_sent_def demo_feed_connected_def demo_feed_def)
  from client_follows_log [OF r n] w obtain d where "d \<le> length (fd_log (demo_feed_received (\<lambda>_. 0)))"
    "[hd demo_log] = take d (fd_log (demo_feed_received (\<lambda>_. 0)))" "subseq [hd demo_log] (take d (fd_log (demo_feed_received (\<lambda>_. 0))))" by auto
  moreover from this have "d = 1" by (metis length_Cons length_take list.size(3) min.absorb2 One_nat_def)
  moreover have "subseq (take d xs) xs" for xs :: "event_envelope list" by (metis append_take_drop_id list_emb_append2 subseq_append_le_same_iff subseq_order.order_refl subseq_rev_drop_many)
  ultimately show ?thesis using r n by (metis subseq_order.order_trans)
qed

section \<open>An event that is too long\<close>

lemma feed_step_later:
  assumes "feed_step json_len f g" "feed_ok after f"
  shows "later f g"
  using assms
proof (induction rule: feed_step.induct)
  case (feed_serve f v new)
  then show ?case by (rule serve_later(3) [rotated])
next
  case (feed_prune f cutoff)
  show ?case by (rule prune_later(8))
qed (simp_all add: later_same)

text \<open>While the row is stored, every step keeps the cursor and hands out nothing.\<close>

lemma stored_first:
  assumes "passes f c es d" "fd_log f ! c \<in> set (fd_table f)" "c < d"
  shows "fd_log f ! c \<in> set es"
  using stretch_nth [of c c d f] assms by (auto simp: passes_def lost_def)

lemma oversized_step:
  assumes f: "feed_ok after f" and c: "unat (ca_cursor (fd_actor f)) = c" "c < length (fd_log f)"
    and big: "MAX_COMMAND_BODY_BYTES < json_len (fd_log f ! c)" and step: "feed_step json_len f g" and row: "fd_log f ! c \<in> set (fd_table f)"
  shows "ca_cursor (fd_actor g) = ca_cursor (fd_actor f) \<and>
    says after (fd_seen g) (fd_actor g) = says after (fd_seen f) (fd_actor f)"
  using step
proof (cases rule: feed_step.cases)
  case (feed_receive cursor frame frames reload raced wake)
  have fr: "frames_ok f c (cursor, frame # frames)" using f feed_receive(2) c by (auto simp: feed_ok_def socket_ok_def)
  have "stream_next json_len frame = NextClosed \<or>
    stream_next json_len frame = NextFailed ''event frame exceeds the client limit'' \<or>
    stream_next json_len frame = NextResync \<and> reload = Inl ''event frame exceeds the client limit''"
    using fr feed_log(4) [OF f]
  proof (cases rule: first_frame)
    case (event i)
    have "fd_log f ! c = fd_log f ! i" using stored_first [OF event(4) row] event(1) by simp
    then show ?thesis using event(3) big by (simp add: stream_next_def)
  next
    case closed
    then show ?thesis by (simp add: stream_next_def)
  next
    case (resync e d)
    have "c \<le> d" using resync(3) by (simp add: passes_def)
    moreover have "\<not> c < d" using stored_first [OF resync(3) row] by auto
    ultimately show ?thesis using resync(4) row by (simp add: deleted_at_def)
  qed
  from receive_quiet(1,2) [OF this] show ?thesis using feed_receive(1) by simp
next
  case (feed_lost s item message raced wake reload)
  then have "item = NextClosed \<or> item = NextFailed message \<or> item = NextResync \<and> reload = Inl message" by blast
  from receive_quiet(1,2) [OF this] show ?thesis using feed_lost(1) by simp
next
  case (feed_take event queue)
  then show ?thesis by (simp add: says_def)
next
  case (feed_prune cutoff)
  then show ?thesis by (simp add: prune_later)
qed (simp_all add: actor_connect_keeps actor_command_keeps)

lemma run_later: "(feed_step json_len)\<^sup>*\<^sup>* f g \<Longrightarrow> feed_ok after f \<Longrightarrow> later f g"
proof (induction rule: rtranclp_induct)
  case (step g h)
  have "later g h" by (rule feed_step_later [OF step.hyps(2) feeding.run_inv [OF step.hyps(1) step.prems]])
  with step show ?case by (fastforce simp: later_def)
qed (simp add: later_def)

lemma oversized_run:
  assumes "(feed_step json_len)\<^sup>*\<^sup>* f g" "feed_ok after f" "c < length (fd_log f)" "unat (ca_cursor (fd_actor f)) = c"
    "MAX_COMMAND_BODY_BYTES < json_len (fd_log f ! c)" "fd_log f ! c \<in> set (fd_table g)"
  shows "ca_cursor (fd_actor g) = ca_cursor (fd_actor f) \<and>
    says after (fd_seen g) (fd_actor g) = says after (fd_seen f) (fd_actor f)"
  using assms
proof (induction rule: rtranclp_induct)
  case (step g h)
  have g: "feed_ok after g" by (rule feeding.run_inv [OF step.hyps(1) step.prems(1)])
  obtain old where old: "fd_log g = fd_log f @ old" using run_later [OF step.hyps(1) step.prems(1)] by (auto simp: later_def)
  then have c: "c < length (fd_log g)" "fd_log g ! c = fd_log f ! c" using step.prems(2) by (simp_all add: nth_append)
  then have row: "fd_log f ! c \<in> set (fd_table g)"
    using feed_step_later [OF step.hyps(2) g] nth_mem [OF c(1)] step.prems(5) by (auto simp: later_def simp del: nth_mem)
  note i = step.IH [OF step.prems(1-4) row]
  have "ca_cursor (fd_actor h) = ca_cursor (fd_actor g) \<and> says after (fd_seen h) (fd_actor h) = says after (fd_seen g) (fd_actor g)"
    using i step.prems row c by (intro oversized_step [OF g _ _ _ step.hyps(2), of c]) simp_all
  then show ?case using i by simp
qed simp

text \<open>
  C26: one event whose text is longer than the limit of a command stops a client for good. As long as the row is
  stored, the client stays at its cursor however often it reconnects, and gets nothing that comes later. The daemon
  has no such limit for events: a check run carries up to a megabyte of output.
\<close>

theorem oversized_event_blocks_client:
  assumes "reachable (feed_init after) (feed_step json_len) f" "(feed_step json_len)\<^sup>*\<^sup>* f g"
    and "unat (ca_cursor (fd_actor f)) < length (fd_log f)"
    and "MAX_COMMAND_BODY_BYTES < json_len (fd_log f ! unat (ca_cursor (fd_actor f)))"
    and "fd_log f ! unat (ca_cursor (fd_actor f)) \<in> set (fd_table g)"
  shows "ca_cursor (fd_actor g) = ca_cursor (fd_actor f) \<and>
    replica after (fd_seen g @ ca_queue (fd_actor g)) = replica after (fd_seen f @ ca_queue (fd_actor f))"
proof -
  have f: "feed_ok after f" by (rule feeding.reachable_inv [OF assms(1)])
  from oversized_run [OF assms(2) f assms(3) refl assms(4,5)] show ?thesis by (simp add: says_def)
qed

theorem oversized_event_blocks_client_witness:
  "feed_step (\<lambda>_. 300000) demo_feed_sent (demo_feed_received (\<lambda>_. 300000)) \<and>
   ca_cursor (fd_actor (demo_feed_received (\<lambda>_. 300000))) = 0 \<and> 0 < length (fd_log demo_feed_sent)"
proof -
  let ?g = "demo_feed_received (\<lambda>_. 300000)"
  have c: "ca_cursor (fd_actor demo_feed_sent) = 0"
    by (simp add: demo_feed_sent_def demo_feed_connected_def actor_start_def)
  have t: "fd_table ?g = demo_log"
    by (simp add: demo_feed_received_def demo_feed_sent_def demo_feed_connected_def demo_feed_def)
  have "(feed_step (\<lambda>_. 300000))\<^sup>*\<^sup>* demo_feed_sent ?g" using demo_feed_receive by blast
  from oversized_event_blocks_client [OF demo_feed_sent_reachable this] show ?thesis
    using demo_feed_receive demo_log_facts by (simp add: c t MAX_COMMAND_BODY_BYTES_def)
qed

end
