(* ===== verification/Spec2Isabelle.thy ===== *)
theory Spec2Isabelle
  imports ServiceProperties TaskProperties GraphProperties PolicyProperties LedgerProperties HostProperties
    CommandProperties AccessProperties ProgressProperties UpkeepProperties RunnerProperties FeedProperties
begin

text \<open>
  \<^bold>\<open>A verification of Frank's daemon\<close>

  Frank runs a company of coding agents: a daemon keeps one snapshot of projects, missions, tasks,
  agents, an organization graph, approvals, messages and terminals, and clients change it by sending
  commands. The core is \<open>src/backend/crates/frank-orchestrator\<close>: a command is admitted (protocol
  version, size, role of the sender, idempotency, expected revision), reduced to a new snapshot, an event
  and a result, and committed by \<open>frank-store\<close> in one transaction that moves the revision by one.
  The data types are those of \<open>frank-protocol\<close>.

  \<^bold>\<open>How the code is modelled\<close>

  A handler is a function of the environment, the world, the arguments of the command and the
  actor. It returns \<open>Inl\<close> an error or \<open>Inr (world, event, result)\<close>; every early return of the
  source is a branch, in the order of the source. The world is the snapshot (a record with the fields
  of \<open>Snapshot\<close>) with a counter of the UUIDs drawn and the ids the in-memory mailbox has seen. Ids are
  datatypes over a UUID, enumerations and structs are datatypes and records with the constructors and
  fields of the source, \<open>u8\<close> to \<open>u64\<close> are words, \<open>saturating_add\<close> is written out, strings are
  UTF-8 bytes as \<open>string\<close>, an \<open>f64\<close> is its bits, a \<open>HashMap\<close> is a map. Code outside
  the repository is a field of the record \<open>env\<close>: clock, UUIDs and their text, the file system, git,
  JSON and SHA-256, the keychain, the model catalog and the fetched update manifest. Documented laws of
  it are named hypotheses (\<open>uuid_text\<close>, \<open>canonical_results\<close>) of the properties that need them.

  \<^bold>\<open>Theories and sources\<close> (paths below \<open>src/backend/crates/\<close>)

  \<^item> \<open>Prelude\<close>: saturating words, strings, decimal texts, \<open>update_first\<close> and \<open>update_where\<close> for
    edits of a vector, the interfaces \<open>keyed_edit\<close>, \<open>invariant_system\<close> and \<open>lifecycle\<close>.
  \<^item> \<open>Protocol\<close>, \<open>Commands\<close>: \<open>frank-protocol/src\<close>, the views, specs, patches, commands, events,
    transition tables and version negotiation.
  \<^item> \<open>Environment\<close>: \<open>helpers.rs\<close> and the planning part of \<open>git.rs\<close>.
  \<^item> \<open>TaskGraph\<close>: task validation in \<open>validate.rs\<close>, with the depth-first cycle search and the walk
    along parents.
  \<^item> \<open>Organization\<close>, \<open>Connectors\<close>: the published graph in \<open>validate.rs\<close>, the tool table of
    \<open>frank-tool-catalog\<close>, \<open>reduce/organization\<close> and the SQL classifier of \<open>connectors.rs\<close>.
  \<^item> \<open>Team\<close>, \<open>TaskReducer\<close>, \<open>WorkflowReducer\<close>, \<open>Missions\<close>, \<open>Grants\<close>, \<open>Messages\<close>,
    \<open>Settings\<close>, \<open>Updates\<close>: the handlers of \<open>reduce/\<close>, each with the checks it calls in
    \<open>validate.rs\<close>, \<open>mailbox.rs\<close>, \<open>approval_flow.rs\<close>, \<open>update_flow.rs\<close> and \<open>frank-update\<close>.
  \<^item> \<open>Accounting\<close>: \<open>budget.rs\<close> and \<open>scheduler.rs\<close>.
  \<^item> \<open>Orchestrator\<close>: \<open>authorize\<close>, the dispatch \<open>reduce\<close>, \<open>apply\<close>, \<open>execute\<close> with its follow-up
    work, \<open>deliver_message\<close> and the commit of \<open>frank-store/src/commit.rs\<close>.
  \<^item> \<open>AgentScope\<close>: \<open>frank-protocol/src/snapshot_scope.rs\<close> (the view of one task an agent gets),
    \<open>capability.rs\<close> and the capability table, the scope check of \<open>frank-server/src/auth.rs\<close>.
  \<^item> \<open>SignIn\<close>: owner account, sessions, rate limit and password change (\<open>frank-server/src/auth.rs\<close>,
    \<open>frank-store/src/auth.rs\<close>). \<open>Gateway\<close>: the HTTP route of a command.
  \<^item> \<open>Server\<close>: concurrent requests as an inductive step relation. A request is admitted, loads the
    snapshot, and finishes; other requests may finish in between, as they do between the awaits of
    the source. The commit is one step because it is one SQLite transaction. The commits the daemon
    makes on its own (\<open>DaemonJobs\<close>) and the restart of the process are steps too.
  \<^item> \<open>DaemonJobs\<close>: what \<open>reconcile.rs\<close>, \<open>operations.rs\<close>, \<open>mission_flow.rs\<close>, \<open>runtime_flow.rs\<close>,
    \<open>messaging.rs\<close> and \<open>approval_flow.rs\<close> write to the snapshot without a command, each as an edit that is read, made and
    committed with the revision it was read at.
  \<^item> \<open>Retention\<close>: the cutoffs of \<open>frank-server/src/lib.rs\<close> and the pruning of operations and artifacts in
    \<open>frank-store\<close>. \<open>EventFeed\<close>: pages of events, their pruning, the replay of a subscriber and the audit file.
  \<^item> \<open>ClientFeed\<close>: the event socket, the frames on their way and the connection actor of
    \<open>frank-client/src/events.rs\<close>, composed with \<open>Server\<close> and with the deletion of events. A page is three steps, one for each
    statement of \<open>events_after\<close>; commits and deletions may come between them.
  \<^item> \<open>Toolchains\<close>: \<open>frank-toolchain\<close>, with the loading of manifests from a directory. \<open>RunnerHub\<close>, \<open>RunnerJobs\<close>: \<open>frank-server/src/routes/runners.rs\<close> over
    \<open>frank-store/src/toolchains.rs\<close>. \<open>HostRunner\<close>: \<open>frank-runner\<close>, the other side of the socket.

  \<^bold>\<open>What is proved\<close>

  \<^item> \<open>TaskInvariants\<close>, \<open>BoardInvariants\<close>, \<open>Server\<close>: every handler keeps \<open>world_ok\<close>; most do
    because they are \<open>calm\<close> (they keep ids, families, dependencies and counters). The interpretation
    \<open>serving\<close> of \<open>invariant_system\<close> carries this to all interleavings.
  \<^item> \<open>EventLog\<close>: the log of a reachable server is gapless and a commit that succeeds worked on the
    current snapshot (interpretation \<open>logging\<close>).
  \<^item> \<open>StateMachine\<close>: every command either leaves running, review, done and cancelled tasks alone
    or moves a task along the transition table (\<open>reduce_obeys\<close>).
  \<^item> \<open>PlanOrder\<close>: the loop of Kahn's algorithm ends and visits all tasks exactly for acyclic plans
    without repeated dependencies.
  \<^item> \<open>Installation\<close>: concrete environments, worlds and server runs on which the properties
    are instantiated.
  \<^item> \<open>AtomicService\<close>: the service refines a machine that runs one command at a time on one snapshot
    (interpretation \<open>serializing\<close> of the locale \<open>simulation\<close>).
  \<^item> \<open>SignInRuns\<close>, \<open>RateLimit\<close>: logins and password changes that interleave at their awaits
    (interpretation \<open>signing_in\<close>), the windows of the rate limit.
  \<^item> \<open>AgentConfinement\<close>, \<open>Gateway\<close>: a command admitted with an agent capability changes nothing of
    the estate outside the agent's reach (\<open>scoped_confines\<close>).
  \<^item> \<open>DaemonInvariants\<close>: every edit of the daemon keeps \<open>world_ok\<close>, so the invariants of the board hold with commands,
    daemon jobs and restarts in any order.
  \<^item> \<open>RunnerNet\<close>: any number of pairings, sockets and jobs of host runners as a step relation, with the
    invariant that secrets and reports belong to their runner (interpretation \<open>running\<close>). A new secret has not been drawn before;
    the invariant holds as long as no two secrets in use have the same hash.
  \<^item> \<open>ClientFeed\<close>: what a client has been handed follows the log of the daemon, but for rows that were deleted out of order or
    during a page (interpretation \<open>feeding\<close>).
  \<^item> The properties, each after a text with its id, are in \<open>ServiceProperties\<close>, \<open>TaskProperties\<close>,
    \<open>GraphProperties\<close>, \<open>PolicyProperties\<close>, \<open>LedgerProperties\<close>, \<open>HostProperties\<close>,
    \<open>CommandProperties\<close>, \<open>AccessProperties\<close>, \<open>ProgressProperties\<close>, \<open>UpkeepProperties\<close>,
    \<open>RunnerProperties\<close> and \<open>FeedProperties\<close>.

  \<^bold>\<open>Bounds and fuel\<close>

  All functions are total. The searches over graphs terminate by measures on the unvisited nodes.
  Kahn's loop has one unit of fuel per task, and \<open>refused_plan_reason\<close> with \<open>kahn_visitedE\<close> shows that this is always
  enough. The replay of a subscriber is given what the statements of each page see; \<open>replay_is_complete\<close> shows that it ends within one
  page more than there are events after the cursor. \<open>commit_organization_with_retry\<close> has the four attempts of the source. A revision is a 64-bit word that
  SQLite stores as a signed integer; steps of the server are possible while the revision is below
  \<open>2 ^ 63\<close>, beyond which the column overflows.

  \<^bold>\<open>Not modelled\<close>

  Serialisation (serde), the SQL projection tables and the journal written beside the snapshot, the
  rest of the HTTP server, provider processes, git and file operations between commits, the tools of live provider
  sessions, the updater's file swaps and signature check, the processes and files of the host runner, the
  user interfaces and the requests of the clients, and the crates around the daemon (prose compression, session ledger, packs): they are input and
  output, cryptography or independent programs. The commits of check runs and installations and the snapshots that retention
  writes, which do not compare the revision, are definitions but no steps of \<open>Server\<close>: the properties of reachable servers
  are about the other writers, and \<open>UpkeepProperties\<close> shows what these can overwrite. The deletion of events is a step of
  \<open>ClientFeed\<close>; in \<open>Server\<close> the list of events is the history of all commits. The one-time migration of an old model setting at startup is left out.
\<close>

end
